(* ===== verification/Prelude.thy ===== *)
theory Prelude
  imports Complex_Main "HOL-Library.Multiset" "HOL-Library.Product_Lexorder" "HOL-Library.List_Lexorder"
    "HOL-Library.Char_ord" "HOL-Library.Option_ord"
begin

text \<open>
  The vocabulary every component shares: instants and durations, the few notions of
  SQL's three-valued comparisons, results of operations that may be refused, and the
  generic facts about lists the component proofs rest on.

  A Python \<^verbatim>\<open>datetime\<close> (all of them naive UTC in this program) is the number of
  microseconds since an epoch, a \<^verbatim>\<open>timedelta\<close> a number of microseconds: both are exact
  in Python, so \<open>int\<close> is exact here. A Python \<^verbatim>\<open>str\<close> is a \<open>string\<close>; the
  order of strings is the lexicographic order of code points, as in Python.
\<close>

named_theorems table_simps "looking rows up in updated tables"
named_theorems inv_intros "every operation keeps the invariant of its component"

type_synonym datetime = int
type_synonym timedelta = int

definition seconds :: "int \<Rightarrow> timedelta" where
  "seconds n = n * 1000000"

definition minutes :: "int \<Rightarrow> timedelta" where
  "minutes n = seconds (60 * n)"

definition hours :: "int \<Rightarrow> timedelta" where
  "hours n = minutes (60 * n)"

definition days :: "int \<Rightarrow> timedelta" where
  "days n = hours (24 * n)"

lemma duration_pos [simp]:
  "0 < seconds n \<longleftrightarrow> 0 < n" "0 < minutes n \<longleftrightarrow> 0 < n"
  "0 < hours n \<longleftrightarrow> 0 < n" "0 < days n \<longleftrightarrow> 0 < n"
  by (auto simp: seconds_def minutes_def hours_def days_def)

subsection \<open>Comparing nullable columns\<close>

text \<open>
  In SQL a comparison with NULL is not true, so a row whose column is NULL never
  satisfies the \<^verbatim>\<open>WHERE\<close> clause.
\<close>

definition null_lt :: "'a::linorder option \<Rightarrow> 'a \<Rightarrow> bool" where
  "null_lt c v = (case c of None \<Rightarrow> False | Some x \<Rightarrow> x < v)"

definition null_le :: "'a::linorder option \<Rightarrow> 'a \<Rightarrow> bool" where
  "null_le c v = (case c of None \<Rightarrow> False | Some x \<Rightarrow> x \<le> v)"

definition null_ge :: "'a::linorder option \<Rightarrow> 'a \<Rightarrow> bool" where
  "null_ge c v = (case c of None \<Rightarrow> False | Some x \<Rightarrow> v \<le> x)"

definition null_gt :: "'a::linorder option \<Rightarrow> 'a \<Rightarrow> bool" where
  "null_gt c v = (case c of None \<Rightarrow> False | Some x \<Rightarrow> v < x)"

lemma null_cmp_None [simp]:
  "\<not> null_lt None v" "\<not> null_le None v" "\<not> null_ge None v" "\<not> null_gt None v"
  by (simp_all add: null_lt_def null_le_def null_ge_def null_gt_def)

lemma null_cmp_Some [simp]:
  "null_lt (Some x) v \<longleftrightarrow> x < v" "null_le (Some x) v \<longleftrightarrow> x \<le> v"
  "null_ge (Some x) v \<longleftrightarrow> v \<le> x" "null_gt (Some x) v \<longleftrightarrow> v < x"
  by (simp_all add: null_lt_def null_le_def null_ge_def null_gt_def)

lemma null_ge_not_lt [dest]: "null_ge c v \<Longrightarrow> \<not> null_lt c v"
  by (cases c) auto

lemma null_gt_not_le [dest]: "null_gt c v \<Longrightarrow> \<not> null_le c v"
  by (cases c) auto

subsection \<open>Truthiness\<close>

text \<open>Python's \<^verbatim>\<open>x or y\<close> where \<open>x\<close> is an optional string: empty and absent both give \<open>y\<close>.\<close>

definition str_or :: "string option \<Rightarrow> string \<Rightarrow> string" where
  "str_or x y = (case x of None \<Rightarrow> y | Some s \<Rightarrow> if s = [] then y else s)"

definition truthy :: "'a list option \<Rightarrow> bool" where
  "truthy x = (case x of None \<Rightarrow> False | Some s \<Rightarrow> s \<noteq> [])"

subsection \<open>Lists\<close>

lemma find_None_iff_filter: "List.find p xs = None \<longleftrightarrow> filter p xs = []"
  by (induction xs) auto

lemma find_Some_in: "List.find p xs = Some x \<Longrightarrow> x \<in> set xs \<and> p x"
  by (induction xs) (auto split: if_splits)

lemma filter_unique_key:
  assumes "distinct (map key xs)" and "\<And>x. p x \<Longrightarrow> key x = k"
  shows "length (filter p xs) \<le> 1"
  using assms
proof (induction xs)
  case Nil
  then show ?case by simp
next
  case (Cons x xs)
  show ?case
  proof (cases "p x")
    case True
    with Cons.prems have "\<not> p y" if "y \<in> set xs" for y
      using that by (metis distinct.simps(2) image_eqI list.set_map list.simps(9))
    then have "filter p xs = []" by (simp add: filter_empty_conv)
    with True show ?thesis by simp
  next
    case False
    with Cons show ?thesis by simp
  qed
qed

subsection \<open>Grouping, choosing, ordering\<close>

text \<open>\<^verbatim>\<open>d.setdefault(k, []).append(x)\<close> on a dictionary kept in insertion order.\<close>

fun setdefault_append :: "'k \<Rightarrow> 'a \<Rightarrow> ('k \<times> 'a list) list \<Rightarrow> ('k \<times> 'a list) list" where
  "setdefault_append k x [] = [(k, [x])]"
| "setdefault_append k x ((k', xs) # g) =
     (if k' = k then (k', xs @ [x]) # g else (k', xs) # setdefault_append k x g)"

fun group_onto :: "('a \<Rightarrow> 'k) \<Rightarrow> 'a list \<Rightarrow> ('k \<times> 'a list) list \<Rightarrow> ('k \<times> 'a list) list" where
  "group_onto f [] g = g"
| "group_onto f (x # xs) g = group_onto f xs (setdefault_append (f x) x g)"

definition group_by :: "('a \<Rightarrow> 'k) \<Rightarrow> 'a list \<Rightarrow> ('k \<times> 'a list) list" where
  "group_by f xs = group_onto f xs []"

lemma map_of_setdefault_append:
  "map_of (setdefault_append k x g) =
    (map_of g)(k \<mapsto> (case map_of g k of None \<Rightarrow> [] | Some xs \<Rightarrow> xs) @ [x])"
  by (induction k x g rule: setdefault_append.induct) (auto simp: fun_eq_iff)

lemma keys_setdefault_append:
  "map fst (setdefault_append k x g) =
    (if k \<in> fst ` set g then map fst g else map fst g @ [k])"
  by (induction k x g rule: setdefault_append.induct) force+

lemma distinct_group_onto:
  "distinct (map fst g) \<Longrightarrow> distinct (map fst (group_onto f xs g))"
proof (induction xs arbitrary: g)
  case (Cons x xs)
  then have "distinct (map fst (setdefault_append (f x) x g))"
    by (simp add: keys_setdefault_append)
  then show ?case using Cons.IH by simp
qed simp

lemma map_of_group_onto:
  "map_of (group_onto f xs g) k =
    (let ys = filter (\<lambda>x. f x = k) xs in
     case map_of g k of None \<Rightarrow> if ys = [] then None else Some ys | Some zs \<Rightarrow> Some (zs @ ys))"
  by (induction xs arbitrary: g) (auto simp: map_of_setdefault_append Let_def split: option.split)

lemma distinct_group_by: "distinct (map fst (group_by f xs))"
  by (simp add: group_by_def distinct_group_onto)

lemma map_of_group_by:
  "map_of (group_by f xs) k =
    (if filter (\<lambda>x. f x = k) xs = [] then None else Some (filter (\<lambda>x. f x = k) xs))"
  by (simp add: group_by_def map_of_group_onto Let_def)

lemma in_group_by:
  "(k, ys) \<in> set (group_by f xs) \<longleftrightarrow> ys = filter (\<lambda>x. f x = k) xs \<and> ys \<noteq> []"
proof -
  have "(k, ys) \<in> set (group_by f xs) \<longleftrightarrow> map_of (group_by f xs) k = Some ys"
    using distinct_group_by by (metis map_of_eq_Some_iff)
  then show ?thesis by (auto simp: map_of_group_by split: if_splits)
qed

lemma mset_group_by: "mset (concat (map snd (group_by f xs))) = mset xs"
proof -
  have one: "mset (concat (map snd (setdefault_append k x g))) = add_mset x (mset (concat (map snd g)))" for k x g
    by (induction k x g rule: setdefault_append.induct) auto
  have "mset (concat (map snd (group_onto f xs g))) = mset xs + mset (concat (map snd g))" for g
    by (induction xs arbitrary: g) (simp_all add: one del: mset_concat)
  then show ?thesis by (simp add: group_by_def)
qed

lemma keys_group_by: "fst ` set (group_by f xs) = f ` set xs"
proof -
  have "k \<in> fst ` set (group_by f xs) \<longleftrightarrow> k \<in> f ` set xs" for k
  proof
    assume "k \<in> fst ` set (group_by f xs)"
    then obtain ys where "(k, ys) \<in> set (group_by f xs)" by auto
    then have "filter (\<lambda>x. f x = k) xs \<noteq> []" by (simp only: in_group_by) blast
    then show "k \<in> f ` set xs" by (auto simp: filter_empty_conv)
  next
    assume "k \<in> f ` set xs"
    then have "(k, filter (\<lambda>x. f x = k) xs) \<in> set (group_by f xs)"
      by (auto simp: in_group_by filter_empty_conv)
    then show "k \<in> fst ` set (group_by f xs)" by (metis fst_conv imageI)
  qed
  then show ?thesis by blast
qed

text \<open>\<^verbatim>\<open>min(xs, key=f)\<close>: the first of the least elements.\<close>

fun min_by :: "('a \<Rightarrow> 'k::linorder) \<Rightarrow> 'a \<Rightarrow> 'a list \<Rightarrow> 'a" where
  "min_by f m [] = m"
| "min_by f m (x # xs) = min_by f (if f x < f m then x else m) xs"

lemma min_by_in: "min_by f m xs \<in> insert m (set xs)"
  by (induction f m xs rule: min_by.induct) auto

lemma min_by_le: "y \<in> insert m (set xs) \<Longrightarrow> f (min_by f m xs) \<le> f y"
proof (induction f m xs arbitrary: y rule: min_by.induct)
  case (2 f m x xs)
  let ?z = "if f x < f m then x else m"
  have z: "f (min_by f ?z xs) \<le> f ?z" using "2.IH" [of ?z] by simp
  have "f ?z \<le> f m" "f ?z \<le> f x" by auto
  with z have "f (min_by f ?z xs) \<le> f m" "f (min_by f ?z xs) \<le> f x" by (meson order_trans)+
  moreover have "f (min_by f ?z xs) \<le> f y" if "y \<in> set xs" using "2.IH" that by simp
  ultimately show ?case using "2.prems" by auto
qed auto

lemma min_by_key: "f (min_by f m xs) = Min (f ` insert m (set xs))"
proof (rule sym, rule Min_eqI)
  show "finite (f ` insert m (set xs))" by simp
  show "f (min_by f m xs) \<le> y" if "y \<in> f ` insert m (set xs)" for y
    using that min_by_le [of _ m xs f] by blast
  show "f (min_by f m xs) \<in> f ` insert m (set xs)" using min_by_in by (rule imageI)
qed

lemma map_key_sort_key: "map f (sort_key f xs) = sort (map f xs)"
proof (rule properties_for_sort [symmetric])
  show "mset (map f (sort_key f xs)) = mset (map f xs)" by simp
  show "sorted (map f (sort_key f xs))" by simp
qed

text \<open>The two parts of an answer that comes with a state.\<close>

lemma fst_TrueD: "fst p \<Longrightarrow> p = (True, snd p)"
  by (cases p) simp

lemma pair_of_fst: "fst p = x \<Longrightarrow> p = (x, snd p)"
  by (cases p) simp

lemma in_map_filter: "y \<in> set (List.map_filter f xs) \<longleftrightarrow> (\<exists>x \<in> set xs. f x = Some y)"
  by (force simp: map_filter_def)

lemma not_isl_pair: "\<not> isl x \<Longrightarrow> \<exists>s. x = Inr (s, case x of Inr (s, db) \<Rightarrow> db | Inl e \<Rightarrow> d)"
  by (cases x) auto

end
