(* ===== verification/SqlTable.thy ===== *)
theory SqlTable
  imports Prelude
begin

text \<open>
  Tables as lists of rows, and the SQL statements the program issues against them: a
  \<^verbatim>\<open>SELECT\<close> of one row, an \<^verbatim>\<open>UPDATE ... WHERE\<close> with its row count, an \<^verbatim>\<open>INSERT\<close> under a
  uniqueness constraint. Every statement is atomic; what may happen between two
  statements of one operation is expressed by handing the second a snapshot the first
  read earlier.

  The lemmas of \<open>table_simps\<close> reduce a statement that addresses one key to what it does
  to the row stored under that key, which is how the components reason.
\<close>

definition sql_update :: "('r \<Rightarrow> bool) \<Rightarrow> ('r \<Rightarrow> 'r) \<Rightarrow> 'r list \<Rightarrow> 'r list" where
  "sql_update p f t = map (\<lambda>r. if p r then f r else r) t"

definition rowcount :: "('r \<Rightarrow> bool) \<Rightarrow> 'r list \<Rightarrow> nat" where
  "rowcount p t = length (filter p t)"

definition row_of :: "('r \<Rightarrow> 'k) \<Rightarrow> 'r list \<Rightarrow> 'k \<Rightarrow> 'r option" where
  "row_of key t k = List.find (\<lambda>r. key r = k) t"

definition sql_insert :: "('r \<Rightarrow> 'k) \<Rightarrow> 'r \<Rightarrow> 'r list \<Rightarrow> 'r list option" where
  "sql_insert key r t = (if key r \<in> key ` set t then None else Some (t @ [r]))"

definition fresh_id :: "('r \<Rightarrow> nat) \<Rightarrow> 'r list \<Rightarrow> nat" where
  "fresh_id i t = Suc (fold max (map i t) 0)"

subsection \<open>Rows under a key\<close>

lemma row_of_Nil [table_simps]: "row_of key [] k = None"
  by (simp add: row_of_def)

lemma row_of_Cons [table_simps]:
  "row_of key (r # t) k = (if key r = k then Some r else row_of key t k)"
  by (simp add: row_of_def)

lemma row_of_append [table_simps]:
  "row_of key (t @ u) k = (case row_of key t k of None \<Rightarrow> row_of key u k | Some r \<Rightarrow> Some r)"
  by (induction t) (auto simp: table_simps)

lemma row_of_None_iff: "row_of key t k = None \<longleftrightarrow> k \<notin> key ` set t"
  by (induction t) (auto simp: table_simps)

lemma row_of_SomeD: "row_of key t k = Some r \<Longrightarrow> r \<in> set t \<and> key r = k"
  by (induction t) (auto simp: table_simps split: if_splits)

lemma row_of_in: "distinct (map key t) \<Longrightarrow> r \<in> set t \<Longrightarrow> row_of key t (key r) = Some r"
  by (induction t) (auto simp: table_simps image_iff)

lemma row_of_update [table_simps]:
  assumes "\<And>r. key (f r) = key r"
  shows "row_of key (sql_update p f t) k =
    map_option (\<lambda>r. if p r then f r else r) (row_of key t k)"
  using assms by (induction t) (auto simp: sql_update_def table_simps)

lemma row_of_insert [table_simps]:
  "sql_insert key r t = Some t' \<Longrightarrow>
    row_of key t' k = (if k = key r then Some r else row_of key t k)"
proof -
  assume ins: "sql_insert key r t = Some t'"
  then have new: "row_of key t (key r) = None" and t': "t' = t @ [r]"
    by (auto simp: sql_insert_def row_of_None_iff split: if_splits)
  from new t' show "row_of key t' k = (if k = key r then Some r else row_of key t k)"
    by (cases "row_of key t k") (auto simp: row_of_append row_of_Cons row_of_Nil)
qed

lemma sql_insert_None_iff: "sql_insert key r t = None \<longleftrightarrow> row_of key t (key r) \<noteq> None"
  by (auto simp: sql_insert_def row_of_None_iff)

lemma keys_update [table_simps]:
  assumes "\<And>r. key (f r) = key r"
  shows "map key (sql_update p f t) = map key t"
  using assms by (induction t) (auto simp: sql_update_def)

lemma keys_insert: "sql_insert key r t = Some t' \<Longrightarrow> distinct (map key t) \<Longrightarrow> distinct (map key t')"
  by (auto simp: sql_insert_def split: if_splits)

lemma rowcount_key [table_simps]:
  assumes "distinct (map key t)"
  shows "rowcount (\<lambda>r. key r = k \<and> q r) t =
    (case row_of key t k of None \<Rightarrow> 0 | Some r \<Rightarrow> if q r then 1 else 0)"
  using assms
proof (induction t)
  case Nil
  then show ?case by (simp add: rowcount_def row_of_def)
next
  case (Cons r t)
  show ?case
  proof (cases "key r = k")
    case True
    with Cons.prems have "\<not> (key s = k \<and> q s)" if "s \<in> set t" for s
      using that by (metis distinct.simps(2) image_eqI list.set_map list.simps(9))
    then have "filter (\<lambda>r. key r = k \<and> q r) t = []" by (simp add: filter_empty_conv)
    with True show ?thesis by (simp add: rowcount_def row_of_def)
  next
    case False
    with Cons show ?thesis by (simp add: rowcount_def row_of_def)
  qed
qed

lemma rowcount_0_update: "rowcount p t = 0 \<Longrightarrow> sql_update p f t = t"
  by (induction t) (auto simp: rowcount_def sql_update_def split: if_splits)

lemma set_sql_update: "r \<in> set (sql_update p f t) \<Longrightarrow> \<exists>s \<in> set t. r = (if p s then f s else s)"
  by (auto simp: sql_update_def)

lemma list_all_update:
  "list_all ok t \<Longrightarrow> (\<And>r. p r \<Longrightarrow> ok r \<Longrightarrow> ok (f r)) \<Longrightarrow> list_all ok (sql_update p f t)"
  by (auto simp: list_all_iff sql_update_def)

lemma list_all_insert:
  "list_all ok t \<Longrightarrow> ok r \<Longrightarrow> sql_insert key r t = Some t' \<Longrightarrow> list_all ok t'"
  by (auto simp: list_all_iff sql_insert_def split: if_splits)

lemma row_of_list_all: "list_all ok t \<Longrightarrow> row_of key t k = Some r \<Longrightarrow> ok r"
  by (auto simp: list_all_iff dest: row_of_SomeD)

lemma fresh_id_gt: "r \<in> set t \<Longrightarrow> i r < fresh_id i t"
proof -
  have "\<forall>m. (\<forall>r \<in> set t. i r \<le> fold max (map i t) m) \<and> m \<le> fold max (map i t) m"
  proof (induction t)
    case Nil
    then show ?case by simp
  next
    case (Cons a t)
    then show ?case by (auto simp: max.coboundedI1) (metis max.bounded_iff)+
  qed
  then show "r \<in> set t \<Longrightarrow> i r < fresh_id i t"
    by (auto simp: fresh_id_def less_Suc_eq_le)
qed

lemma insert_fresh_distinct:
  assumes "distinct (map i t)" "sql_insert key r t = Some t'" "i r = fresh_id i t"
  shows "distinct (map i t')"
proof -
  have "i r \<notin> set (map i t)" using fresh_id_gt [of _ t i] assms(3) by fastforce
  with assms(1,2) show ?thesis by (auto simp: sql_insert_def split: if_splits)
qed

lemma set_sql_insert: "sql_insert key r t = Some t' \<Longrightarrow> set t' = insert r (set t)"
  by (auto simp: sql_insert_def split: if_splits)

lemma image_update: "(\<And>r. key (f r) = key r) \<Longrightarrow> key ` set (sql_update p f t) = key ` set t"
  using keys_update [of key f p t] by (metis list.set_map)

subsection \<open>What every row of a table becomes\<close>

text \<open>Every row has a successor in the later table that \<open>R\<close> relates it to.\<close>

definition rows_le :: "('r \<Rightarrow> 'r \<Rightarrow> bool) \<Rightarrow> 'r list \<Rightarrow> 'r list \<Rightarrow> bool" where
  "rows_le R t t' \<longleftrightarrow> (\<forall>r \<in> set t. \<exists>r' \<in> set t'. R r r')"

lemma rows_leD: "rows_le R t t' \<Longrightarrow> r \<in> set t \<Longrightarrow> \<exists>r' \<in> set t'. R r r'"
  by (simp add: rows_le_def)

lemma rows_leI: "(\<And>r. r \<in> set t \<Longrightarrow> \<exists>r' \<in> set t'. R r r') \<Longrightarrow> rows_le R t t'"
  by (simp add: rows_le_def)

lemma rows_le_trans:
  assumes "\<And>a b c. R a b \<Longrightarrow> R b c \<Longrightarrow> R a c" "rows_le R t u" "rows_le R u v"
  shows "rows_le R t v"
proof (rule rows_leI)
  fix r assume "r \<in> set t"
  then obtain s where s: "s \<in> set u" "R r s" using rows_leD [OF assms(2)] by blast
  then obtain q where "q \<in> set v" "R s q" using rows_leD [OF assms(3)] by blast
  with s(2) show "\<exists>q \<in> set v. R r q" using assms(1) [of r s q] by (intro bexI)
qed

lemma rows_le_update:
  assumes "\<And>r. R r r" "\<And>r. p r \<Longrightarrow> R r (f r)"
  shows "rows_le R t (sql_update p f t)"
proof (rule rows_leI)
  fix r assume "r \<in> set t"
  then have "(if p r then f r else r) \<in> set (sql_update p f t)" by (auto simp: sql_update_def)
  moreover have "R r (if p r then f r else r)" using assms by simp
  ultimately show "\<exists>q \<in> set (sql_update p f t). R r q" by (rule rev_bexI)
qed

lemma rows_le_insert:
  assumes "\<And>r. R r r" "sql_insert key r t = Some t'"
  shows "rows_le R t t'"
proof (rule rows_leI)
  fix q assume "q \<in> set t"
  then have "q \<in> set t'" using assms(2) by (auto simp: sql_insert_def split: if_splits)
  then show "\<exists>q' \<in> set t'. R q q'" using assms(1) [of q] by (rule rev_bexI)
qed

lemma rows_le_refl: "(\<And>r. R r r) \<Longrightarrow> rows_le R t t"
  by (rule rows_leI) blast

end
