(* ===== verification/RetrievalTypes.thy ===== *)
theory RetrievalTypes
  imports Prelude
begin

text \<open>
  The data the retrieval components exchange
  (\<^verbatim>\<open>shared/procuresignal/retrieval/base.py\<close>): the failure codes of a fetch, its
  result, and the article every provider produces.
\<close>

datatype fetch_failure_code =
    CONFIGURATION_ERROR | UNSAFE_URL | NETWORK_ERROR | HTTP_STATUS | TRANSIENT_HTTP_STATUS
  | RATE_LIMITED | UNEXPECTED_CONTENT_TYPE | OVERSIZED_RESPONSE | TOO_MANY_REDIRECTS
  | CIRCUIT_OPEN | PARSER_ERROR

fun failure_value :: "fetch_failure_code \<Rightarrow> string" where
  "failure_value CONFIGURATION_ERROR = ''configuration_error''"
| "failure_value UNSAFE_URL = ''unsafe_url''"
| "failure_value NETWORK_ERROR = ''network_error''"
| "failure_value HTTP_STATUS = ''http_status''"
| "failure_value TRANSIENT_HTTP_STATUS = ''transient_http_status''"
| "failure_value RATE_LIMITED = ''rate_limited''"
| "failure_value UNEXPECTED_CONTENT_TYPE = ''unexpected_content_type''"
| "failure_value OVERSIZED_RESPONSE = ''oversized_response''"
| "failure_value TOO_MANY_REDIRECTS = ''too_many_redirects''"
| "failure_value CIRCUIT_OPEN = ''circuit_open''"
| "failure_value PARSER_ERROR = ''parser_error''"

text \<open>
  \<^verbatim>\<open>retry_after_seconds\<close> is a Python float; the reals stand for the floats (the only
  operations on it are comparison, \<^verbatim>\<open>min\<close> and \<^verbatim>\<open>max\<close>, which do not round), here as
  rationals so that they compute.
\<close>

record fetch_result =
  fr_content :: "char list option"
  fr_content_type :: "string option"
  fr_final_url :: "string option"
  fr_status_code :: "int option"
  fr_failure_code :: "fetch_failure_code option"
  fr_retry_after_seconds :: "rat option"
  fr_response_bytes :: nat

definition empty_result :: fetch_result where
  "empty_result = \<lparr>fr_content = None, fr_content_type = None, fr_final_url = None,
     fr_status_code = None, fr_failure_code = None, fr_retry_after_seconds = None,
     fr_response_bytes = 0\<rparr>"

definition failed_with :: "fetch_failure_code \<Rightarrow> fetch_result" where
  "failed_with c = empty_result\<lparr>fr_failure_code := Some c\<rparr>"

definition result_ok :: "fetch_result \<Rightarrow> bool" where
  "result_ok r \<longleftrightarrow> fr_failure_code r = None"

lemma failed_with_simps [simp]:
  "fr_failure_code (failed_with c) = Some c" "\<not> result_ok (failed_with c)"
  "fr_content (failed_with c) = None" "fr_final_url (failed_with c) = None"
  "fr_retry_after_seconds (failed_with c) = None"
  by (simp_all add: failed_with_def empty_result_def result_ok_def)

text \<open>JSON values, as a provider's raw payload holds them; a float by its \<^verbatim>\<open>repr\<close>.\<close>

datatype json =
    JNull | JBool bool | JInt int | JFloat string | JStr string | JList "json list"
  | JObject "(string \<times> json) list"

record raw_article =
  ra_provider :: string
  ra_provider_article_id :: "string option"
  ra_query_group :: string
  ra_title :: string
  ra_description :: "string option"
  ra_content_snippet :: "string option"
  ra_article_url :: string
  ra_canonical_url :: "string option"
  ra_source_name :: string
  ra_source_url :: "string option"
  ra_published_at :: datetime
  ra_language :: string
  ra_raw_payload_json :: "json option"
  ra_source_id :: "string option"
  ra_source_class :: "string option"
  ra_source_domains :: "string list"
  ra_source_countries :: "string list"
  ra_registry_version :: "string option"
  ra_retrieved_at :: "datetime option"
  ra_source_published_at_raw :: "string option"

end
