(* ===== verification/RetrievalInterfaces.thy ===== *)
theory RetrievalInterfaces
  imports Prelude RetrievalTypes
begin

text \<open>
  What a lease promises, apart from the tables that keep it. A slot is free, held by one
  owner until an instant, or done. Workers race for it: the read a worker decides on may
  be stale when its write runs, so acquiring is a relation. The retrieval runs and the
  sources of a run are both leases in this sense, and the locale proves for both what the
  orchestrator relies on: an unexpired lease cannot be taken away, a lost lease is fenced
  off, and work is finished at most once.
\<close>

datatype slot = Free | Held string datetime | Done

inductive slot_acquires ::
  "timedelta \<Rightarrow> string \<Rightarrow> datetime \<Rightarrow> slot \<Rightarrow> bool \<Rightarrow> slot \<Rightarrow> bool" for d where
  grant: "slot_acquires d ow now Free True (Held ow (now + d))"
| renew: "slot_acquires d ow now (Held ow e) True (Held ow (now + d))"
| takeover: "e < now \<Longrightarrow> slot_acquires d ow now (Held other e) True (Held ow (now + d))"
| refuse: "slot_acquires d ow now s False s"

inductive_simps slot_acquires_Held: "slot_acquires d ow now (Held h e) b s"
inductive_simps slot_acquires_Done: "slot_acquires d ow now Done b s"
inductive_simps slot_acquires_True: "slot_acquires d ow now s True s'"

text \<open>With an up-to-date read the outcome is determined.\<close>

fun slot_acquire :: "timedelta \<Rightarrow> string \<Rightarrow> datetime \<Rightarrow> slot \<Rightarrow> bool \<times> slot" where
  "slot_acquire d ow now Free = (True, Held ow (now + d))"
| "slot_acquire d ow now (Held h e) =
     (if (h = ow \<and> now \<le> e) \<or> e < now then (True, Held ow (now + d)) else (False, Held h e))"
| "slot_acquire d ow now Done = (False, Done)"

fun slot_finish :: "string \<Rightarrow> datetime \<Rightarrow> slot \<Rightarrow> bool \<times> slot" where
  "slot_finish ow now (Held h e) = (if h = ow \<and> now \<le> e then (True, Done) else (False, Held h e))"
| "slot_finish ow now s = (False, s)"

lemma slot_acquire_acquires: "slot_acquire d ow now s = (b, s') \<Longrightarrow> slot_acquires d ow now s b s'"
  by (cases s) (auto intro: slot_acquires.intros split: if_splits)

lemma slot_finish_True: "slot_finish ow now s = (True, s') \<Longrightarrow> s' = Done \<and> (\<exists>e. s = Held ow e \<and> now \<le> e)"
  by (cases s) (auto split: if_splits)

lemma slot_finish_False: "slot_finish ow now s = (False, s') \<Longrightarrow> s' = s"
  by (cases s) (auto split: if_splits)

text \<open>The attempts of workers, in the order their writes reach the store.\<close>

datatype ('x, 'y) lease_op = Acquire 'x string datetime | Finish 'y string datetime

fun op_time :: "('x, 'y) lease_op \<Rightarrow> datetime" where
  "op_time (Acquire x ow now) = now"
| "op_time (Finish y ow now) = now"

fun op_owner :: "('x, 'y) lease_op \<Rightarrow> string" where
  "op_owner (Acquire x ow now) = ow"
| "op_owner (Finish y ow now) = ow"

fun is_finish :: "('x, 'y) lease_op \<Rightarrow> bool" where
  "is_finish (Finish y ow now) = True"
| "is_finish (Acquire x ow now) = False"

text \<open>
  The run of such a list against a store, with the answers; which of the reads were
  possible (\<open>run_valid\<close>); and how many finishes were accepted.
\<close>

fun lease_step ::
  "('x \<Rightarrow> string \<Rightarrow> datetime \<Rightarrow> 's \<Rightarrow> bool \<times> 's) \<Rightarrow> ('y \<Rightarrow> string \<Rightarrow> datetime \<Rightarrow> 's \<Rightarrow> bool \<times> 's)
     \<Rightarrow> ('x, 'y) lease_op \<Rightarrow> 's \<Rightarrow> bool \<times> 's" where
  "lease_step acq fin (Acquire x ow now) s = acq x ow now s"
| "lease_step acq fin (Finish y ow now) s = fin y ow now s"

fun lease_run ::
  "('x \<Rightarrow> string \<Rightarrow> datetime \<Rightarrow> 's \<Rightarrow> bool \<times> 's) \<Rightarrow> ('y \<Rightarrow> string \<Rightarrow> datetime \<Rightarrow> 's \<Rightarrow> bool \<times> 's)
     \<Rightarrow> ('x, 'y) lease_op list \<Rightarrow> 's \<Rightarrow> bool list \<times> 's" where
  "lease_run acq fin [] s = ([], s)"
| "lease_run acq fin (p # ps) s =
     (let (b, s1) = lease_step acq fin p s; (bs, s2) = lease_run acq fin ps s1 in (b # bs, s2))"

fun op_valid :: "('x \<Rightarrow> 's \<Rightarrow> bool) \<Rightarrow> ('x, 'y) lease_op \<Rightarrow> 's \<Rightarrow> bool" where
  "op_valid valid (Acquire x ow now) s = valid x s"
| "op_valid valid (Finish y ow now) s = True"

fun run_valid ::
  "('x \<Rightarrow> string \<Rightarrow> datetime \<Rightarrow> 's \<Rightarrow> bool \<times> 's) \<Rightarrow> ('y \<Rightarrow> string \<Rightarrow> datetime \<Rightarrow> 's \<Rightarrow> bool \<times> 's)
     \<Rightarrow> ('x \<Rightarrow> 's \<Rightarrow> bool) \<Rightarrow> ('x, 'y) lease_op list \<Rightarrow> 's \<Rightarrow> bool" where
  "run_valid acq fin valid [] s = True"
| "run_valid acq fin valid (p # ps) s =
     (op_valid valid p s \<and> run_valid acq fin valid ps (snd (lease_step acq fin p s)))"

definition finished ::
  "('x \<Rightarrow> string \<Rightarrow> datetime \<Rightarrow> 's \<Rightarrow> bool \<times> 's) \<Rightarrow> ('y \<Rightarrow> string \<Rightarrow> datetime \<Rightarrow> 's \<Rightarrow> bool \<times> 's)
     \<Rightarrow> ('x, 'y) lease_op list \<Rightarrow> 's \<Rightarrow> nat" where
  "finished acq fin ps s =
     length (filter (\<lambda>(p, b). is_finish p \<and> b) (zip ps (fst (lease_run acq fin ps s))))"

lemma lease_run_Cons [simp]:
  "fst (lease_run acq fin (p # ps) s) =
     fst (lease_step acq fin p s) # fst (lease_run acq fin ps (snd (lease_step acq fin p s)))"
  "snd (lease_run acq fin (p # ps) s) =
     snd (lease_run acq fin ps (snd (lease_step acq fin p s)))"
  by (simp_all add: Let_def split: prod.splits)

declare lease_run.simps(2) [simp del]

lemma finished_Nil [simp]: "finished acq fin [] s = 0"
  by (simp add: finished_def)

lemma finished_Cons [simp]:
  "finished acq fin (p # ps) s =
    (if is_finish p \<and> fst (lease_step acq fin p s) then 1 else 0)
      + finished acq fin ps (snd (lease_step acq fin p s))"
  by (auto simp: finished_def Let_def split: prod.splits)

locale lease =
  fixes acquire :: "'x \<Rightarrow> string \<Rightarrow> datetime \<Rightarrow> 's \<Rightarrow> bool \<times> 's"
    and finish :: "'y \<Rightarrow> string \<Rightarrow> datetime \<Rightarrow> 's \<Rightarrow> bool \<times> 's"
    and valid :: "'x \<Rightarrow> 's \<Rightarrow> bool"
    and slot_of :: "'s \<Rightarrow> slot"
    and inv :: "'s \<Rightarrow> bool"
    and dur :: timedelta
  assumes acquire_inv: "inv s \<Longrightarrow> inv (snd (acquire x ow now s))"
    and finish_inv: "inv s \<Longrightarrow> inv (snd (finish y ow now s))"
    and acquire_slot: "inv s \<Longrightarrow> valid x s \<Longrightarrow> acquire x ow now s = (b, s') \<Longrightarrow>
      slot_acquires dur ow now (slot_of s) b (slot_of s')"
    and finish_slot: "inv s \<Longrightarrow> finish y ow now s = (b, s') \<Longrightarrow>
      slot_finish ow now (slot_of s) = (b, slot_of s')"
begin

lemma step_inv: "inv s \<Longrightarrow> inv (snd (lease_step acquire finish p s))"
  by (cases p) (auto intro: acquire_inv finish_inv)

lemma run_inv: "inv s \<Longrightarrow> inv (snd (lease_run acquire finish ps s))"
proof (induction ps arbitrary: s)
  case (Cons p ps)
  then show ?case by (simp add: step_inv)
qed simp

lemma step_Held:
  assumes "inv s" "op_valid valid p s" "slot_of s = Held ow e"
    and "op_owner p \<noteq> ow" "op_time p \<le> e"
  shows "fst (lease_step acquire finish p s) = False \<and> slot_of (snd (lease_step acquire finish p s)) = Held ow e"
proof (cases p)
  case (Acquire x o2 t)
  obtain b s' where a: "acquire x o2 t s = (b, s')" by fastforce
  with assms Acquire have "slot_acquires dur o2 t (Held ow e) b (slot_of s')"
    using acquire_slot [of s x o2 t b s'] by simp
  with assms Acquire a show ?thesis by (auto simp: slot_acquires_Held)
next
  case (Finish y o2 t)
  obtain b s' where a: "finish y o2 t s = (b, s')" by fastforce
  with assms Finish show ?thesis using finish_slot [of s y o2 t b s'] by auto
qed

text \<open>
  An unexpired lease survives whatever the other workers attempt before it expires.
\<close>

lemma lease_protected:
  assumes "inv s" "run_valid acquire finish valid ps s" "slot_of s = Held ow e"
    and "\<forall>p \<in> set ps. op_owner p \<noteq> ow \<and> op_time p \<le> e"
  shows "slot_of (snd (lease_run acquire finish ps s)) = Held ow e
    \<and> True \<notin> set (fst (lease_run acquire finish ps s))"
  using assms
proof (induction ps arbitrary: s)
  case Nil
  then show ?case by simp
next
  case (Cons p ps)
  from Cons.prems have st: "fst (lease_step acquire finish p s) = False"
      "slot_of (snd (lease_step acquire finish p s)) = Held ow e"
    using step_Held [of s p ow e] by auto
  have i: "inv (snd (lease_step acquire finish p s))" using Cons.prems(1) by (rule step_inv)
  have v: "run_valid acquire finish valid ps (snd (lease_step acquire finish p s))" using Cons.prems(2) by simp
  show ?case using Cons.IH [OF i v st(2)] Cons.prems(4) st(1) by simp
qed

lemma step_Done:
  assumes "inv s" "op_valid valid p s" "slot_of s = Done"
  shows "fst (lease_step acquire finish p s) = False \<and> slot_of (snd (lease_step acquire finish p s)) = Done"
proof (cases p)
  case (Acquire x o2 t)
  obtain b s' where a: "acquire x o2 t s = (b, s')" by fastforce
  with assms Acquire have "slot_acquires dur o2 t Done b (slot_of s')"
    using acquire_slot [of s x o2 t b s'] by simp
  with Acquire a show ?thesis by (auto simp: slot_acquires_Done)
next
  case (Finish y o2 t)
  obtain b s' where a: "finish y o2 t s = (b, s')" by fastforce
  with assms Finish show ?thesis using finish_slot [of s y o2 t b s'] by auto
qed

lemma done_forever:
  assumes "inv s" "run_valid acquire finish valid ps s" "slot_of s = Done"
  shows "slot_of (snd (lease_run acquire finish ps s)) = Done \<and> True \<notin> set (fst (lease_run acquire finish ps s))"
  using assms
proof (induction ps arbitrary: s)
  case Nil
  then show ?case by simp
next
  case (Cons p ps)
  from Cons.prems have st: "fst (lease_step acquire finish p s) = False" "slot_of (snd (lease_step acquire finish p s)) = Done"
    using step_Done [of s p] by auto
  have i: "inv (snd (lease_step acquire finish p s))" using Cons.prems(1) by (rule step_inv)
  have v: "run_valid acquire finish valid ps (snd (lease_step acquire finish p s))" using Cons.prems(2) by simp
  show ?case using Cons.IH [OF i v st(2)] st(1) by simp
qed

lemma finished_Done:
  assumes "inv s" "run_valid acquire finish valid ps s" "slot_of s = Done"
  shows "finished acquire finish ps s = 0"
  using assms
proof (induction ps arbitrary: s)
  case Nil
  then show ?case by simp
next
  case (Cons p ps)
  have "inv (snd (lease_step acquire finish p s))" using Cons.prems(1) by (rule step_inv)
  with Cons step_Done [of s p] show ?case by simp
qed

lemma finished_at_most_once:
  assumes "inv s" "run_valid acquire finish valid ps s"
  shows "finished acquire finish ps s \<le> 1"
  using assms
proof (induction ps arbitrary: s)
  case Nil
  then show ?case by simp
next
  case (Cons p ps)
  have i: "inv (snd (lease_step acquire finish p s))" using Cons.prems(1) by (rule step_inv)
  have v: "run_valid acquire finish valid ps (snd (lease_step acquire finish p s))" using Cons.prems by simp
  show ?case
  proof (cases "is_finish p \<and> fst (lease_step acquire finish p s)")
    case True
    then obtain y ow t where p: "p = Finish y ow t" by (cases p) auto
    obtain s' where f: "finish y ow t s = (True, s')"
      using True p by (metis lease_step.simps(2) prod.collapse)
    then have "slot_of s' = Done"
      using finish_slot [OF Cons.prems(1) f] slot_finish_True by blast
    with i v p f have "finished acquire finish ps s' = 0" by (intro finished_Done) auto
    with p f show ?thesis by simp
  next
    case False
    with Cons.IH [OF i v] show ?thesis by auto
  qed
qed

text \<open>A worker whose lease was taken over is fenced: its finish changes nothing.\<close>

lemma fenced_after_takeover:
  assumes "inv s" "valid x s" "acquire x o2 now s = (True, s')" "ow \<noteq> o2"
    and "finish y ow t s' = (b, s'')"
  shows "\<not> b \<and> slot_of s'' = Held o2 (now + dur)"
proof -
  have "slot_of s' = Held o2 (now + dur)"
    using acquire_slot [OF assms(1-3)] by (auto simp: slot_acquires_True)
  moreover have "inv s'" using acquire_inv [OF assms(1), of x o2 now] assms(3) by simp
  ultimately show ?thesis using finish_slot [of s' y ow t b s''] assms(4,5) by auto
qed

lemma acquired_holds:
  assumes "inv s" "valid x s" "acquire x ow now s = (True, s')"
  shows "slot_of s' = Held ow (now + dur)"
  using acquire_slot [OF assms] by (auto simp: slot_acquires_True)

end

text \<open>
  The interface between the fetcher and the durable circuit breaker: the
  \<^verbatim>\<open>CircuitStore\<close> protocol of \<^verbatim>\<open>retrieval/fetching.py\<close>. The three operations are the
  protocol's; \<open>fails\<close> reads how many failures of a source have been recorded since its
  last success, which is what the provider promises to keep and the fetcher relies on.
\<close>

definition circuit_threshold :: nat where
  "circuit_threshold = 5"

locale circuit_store =
  fixes allow :: "string \<Rightarrow> string \<Rightarrow> datetime \<Rightarrow> 's \<Rightarrow> bool \<times> 's"
    and fail :: "string \<Rightarrow> datetime \<Rightarrow> 's \<Rightarrow> 's"
    and succeed :: "string \<Rightarrow> string \<Rightarrow> 's \<Rightarrow> bool \<times> 's"
    and fails :: "'s \<Rightarrow> string \<Rightarrow> nat"
    and inv :: "'s \<Rightarrow> bool"
  assumes allow_inv: "inv s \<Longrightarrow> inv (snd (allow src ow now s))"
    and fail_inv: "inv s \<Longrightarrow> inv (fail src now s)"
    and succeed_inv: "inv s \<Longrightarrow> inv (snd (succeed src ow s))"
    and allow_closed:
      "inv s \<Longrightarrow> fails s src < circuit_threshold \<Longrightarrow> fst (allow src ow now s)"
    and allow_fails: "inv s \<Longrightarrow> fails (snd (allow src ow now s)) = fails s"
    and fail_fails: "inv s \<Longrightarrow> fails (fail src now s) = (fails s)(src := Suc (fails s src))"
    and succeed_fails: "inv s \<Longrightarrow> succeed src ow s = (b, s') \<Longrightarrow>
      fails s' = (if b then (fails s)(src := 0) else fails s)"
begin

text \<open>
  A history of one source that only fails is denied its next request only after
  \<open>circuit_threshold\<close> failures.
\<close>

fun fail_at :: "string \<Rightarrow> datetime list \<Rightarrow> 's \<Rightarrow> 's" where
  "fail_at src [] s = s"
| "fail_at src (t # ts) s = fail_at src ts (fail src t s)"

lemma fail_at_inv: "inv s \<Longrightarrow> inv (fail_at src ts s)"
  by (induction ts arbitrary: s) (auto intro: fail_inv)

lemma fail_at_fails:
  "inv s \<Longrightarrow> fails (fail_at src ts s) = (fails s)(src := fails s src + length ts)"
  by (induction ts arbitrary: s) (auto simp: fail_inv fail_fails)

lemma below_threshold_allowed:
  assumes "inv s" and "fails s src = 0" and "length ts < circuit_threshold"
  shows "fst (allow src ow now (fail_at src ts s))"
  using assms by (intro allow_closed) (auto simp: fail_at_inv fail_at_fails)

lemma other_source_untouched:
  assumes "inv s" and "src \<noteq> src'"
  shows "fails (fail_at src ts s) src' = fails s src'"
  using assms by (simp add: fail_at_fails)

end

end
