(* ===== verification/RetrievalAudit.thy ===== *)
theory RetrievalAudit
  imports SqlTable RetrievalInterfaces
begin

text \<open>
  \<^verbatim>\<open>shared/procuresignal/retrieval/audit.py\<close>: leases on retrieval runs and on the
  sources of a run, and the durable circuit breaker, all kept in three tables.

  An operation of the repository is a function from the tables to its result and the new
  tables. Where the code reads a row and writes later (\<^verbatim>\<open>claim_run\<close>, \<^verbatim>\<open>claim_source\<close>,
  \<^verbatim>\<open>allow_circuit_request\<close>, \<^verbatim>\<open>record_circuit_failure\<close>), the definition with suffix
  \<open>_with\<close> is the part after the read and takes the row read as a snapshot, which may be
  stale when the write runs; the operation itself is the case with no interleaving.
\<close>

section \<open>The tables\<close>

datatype job_status = Pending | Running | Completed | Failed

record counts =
  fetched_count :: int
  accepted_count :: int
  inserted_count :: int
  duplicate_count :: int
  within_run_duplicate_count :: int
  database_duplicate_count :: int
  response_bytes :: int
  failed_count :: int

definition no_counts :: counts where
  "no_counts = \<lparr>fetched_count = 0, accepted_count = 0, inserted_count = 0, duplicate_count = 0,
     within_run_duplicate_count = 0, database_duplicate_count = 0, response_bytes = 0,
     failed_count = 0\<rparr>"

record retrieval_run =
  run_id :: nat
  run_key :: string
  run_status :: job_status
  run_registry_version :: string
  run_lease_owner :: "string option"
  run_lease_expires_at :: "datetime option"
  run_attempted_count :: nat
  run_counts :: counts
  run_started_at :: datetime
  run_finished_at :: "datetime option"

record source_outcome =
  so_id :: nat
  so_run_id :: nat
  so_source_id :: string
  so_status :: job_status
  so_attempted_count :: nat
  so_counts :: counts
  so_started_at :: "datetime option"
  so_finished_at :: "datetime option"
  so_failure_code :: "string option"
  so_outcome_detail :: "string option"
  so_lease_owner :: "string option"
  so_lease_expires_at :: "datetime option"

record circuit =
  ci_source_id :: string
  ci_failure_count :: nat
  ci_open_until :: "datetime option"
  ci_probe_owner :: "string option"
  ci_probe_expires_at :: "datetime option"

record audit_db =
  runs :: "retrieval_run list"
  outcomes :: "source_outcome list"
  circuits :: "circuit list"

definition empty_db :: audit_db where
  "empty_db = \<lparr>runs = [], outcomes = [], circuits = []\<rparr>"

abbreviation so_key :: "source_outcome \<Rightarrow> nat \<times> string" where
  "so_key r \<equiv> (so_run_id r, so_source_id r)"

definition lease_duration :: timedelta where
  "lease_duration = minutes 65"

definition circuit_cooldown :: timedelta where
  "circuit_cooldown = minutes 30"

section \<open>Runs\<close>

definition claimable :: "datetime \<Rightarrow> retrieval_run \<Rightarrow> bool" where
  "claimable now r \<longleftrightarrow>
     run_status r = Pending \<or> (run_status r = Running \<and> null_lt (run_lease_expires_at r) now)"

definition run_candidate_statement :: "datetime \<Rightarrow> audit_db \<Rightarrow> nat option" where
  "run_candidate_statement now db =
     (case sort_key (\<lambda>r. (run_started_at r, run_id r)) (filter (claimable now) (runs db)) of
        [] \<Rightarrow> None
      | r # _ \<Rightarrow> Some (run_id r))"

definition take_lease :: "string \<Rightarrow> datetime \<Rightarrow> retrieval_run \<Rightarrow> retrieval_run" where
  "take_lease owner now r = r\<lparr>run_status := Running, run_lease_owner := Some owner,
     run_lease_expires_at := Some (now + lease_duration),
     run_attempted_count := Suc (run_attempted_count r)\<rparr>"

definition claim_run_with ::
  "nat option \<Rightarrow> string \<Rightarrow> datetime \<Rightarrow> audit_db \<Rightarrow> retrieval_run option \<times> audit_db" where
  "claim_run_with candidate owner now db =
     (case candidate of
        None \<Rightarrow> (None, db)
      | Some cid \<Rightarrow>
          let p = (\<lambda>r. run_id r = cid \<and> claimable now r) in
          if rowcount p (runs db) \<noteq> 1 then (None, db)
          else let db' = db\<lparr>runs := sql_update p (take_lease owner now) (runs db)\<rparr>
               in (row_of run_id (runs db') cid, db'))"

definition claim_run :: "string \<Rightarrow> datetime \<Rightarrow> audit_db \<Rightarrow> retrieval_run option \<times> audit_db" where
  "claim_run owner now db = claim_run_with (run_candidate_statement now db) owner now db"

definition holds_run :: "nat \<Rightarrow> string \<Rightarrow> datetime \<Rightarrow> retrieval_run \<Rightarrow> bool" where
  "holds_run rid owner now r \<longleftrightarrow> run_id r = rid \<and> run_status r = Running
     \<and> run_lease_owner r = Some owner \<and> null_ge (run_lease_expires_at r) now"

text \<open>The fence writes a row's own lease back: it locks the row and counts it, no more.\<close>

definition fence_run :: "nat \<Rightarrow> string \<Rightarrow> datetime \<Rightarrow> audit_db \<Rightarrow> bool \<times> audit_db" where
  "fence_run rid owner now db =
     (let p = holds_run rid owner now in
      (rowcount p (runs db) = 1,
       db\<lparr>runs := sql_update p
         (\<lambda>r. r\<lparr>run_lease_expires_at := run_lease_expires_at r\<rparr>) (runs db)\<rparr>))"

definition complete_run ::
  "nat \<Rightarrow> string \<Rightarrow> datetime \<Rightarrow> counts \<Rightarrow> audit_db \<Rightarrow> bool \<times> audit_db" where
  "complete_run rid owner now cs db =
     (let p = holds_run rid owner now in
      (rowcount p (runs db) = 1,
       db\<lparr>runs := sql_update p
         (\<lambda>r. r\<lparr>run_status := Completed, run_finished_at := Some now,
            run_lease_owner := None, run_lease_expires_at := None, run_counts := cs\<rparr>)
         (runs db)\<rparr>))"

section \<open>Sources of a run\<close>

definition find_outcome :: "nat \<Rightarrow> string \<Rightarrow> audit_db \<Rightarrow> source_outcome option" where
  "find_outcome rid src db = row_of so_key (outcomes db) (rid, src)"

definition renewable :: "string \<Rightarrow> datetime \<Rightarrow> source_outcome \<Rightarrow> bool" where
  "renewable owner now r \<longleftrightarrow> so_status r = Running \<and> so_lease_owner r = Some owner
     \<and> null_ge (so_lease_expires_at r) now"

definition new_outcome :: "nat \<Rightarrow> nat \<Rightarrow> string \<Rightarrow> string \<Rightarrow> datetime \<Rightarrow> source_outcome" where
  "new_outcome i rid src owner now = \<lparr>so_id = i, so_run_id = rid, so_source_id = src,
     so_status = Running, so_attempted_count = 1, so_counts = no_counts,
     so_started_at = Some now, so_finished_at = None, so_failure_code = None,
     so_outcome_detail = None, so_lease_owner = Some owner,
     so_lease_expires_at = Some (now + lease_duration)\<rparr>"

definition renew_source :: "nat \<Rightarrow> string \<Rightarrow> datetime \<Rightarrow> audit_db \<Rightarrow> bool \<times> audit_db" where
  "renew_source i owner now db =
     (let p = (\<lambda>r. so_id r = i \<and> so_status r = Running \<and> so_lease_owner r = Some owner) in
      (rowcount p (outcomes db) = 1,
       db\<lparr>outcomes := sql_update p
         (\<lambda>r. r\<lparr>so_lease_expires_at := Some (now + lease_duration),
            so_attempted_count := Suc (so_attempted_count r)\<rparr>) (outcomes db)\<rparr>))"

definition taken_over :: "string \<Rightarrow> datetime \<Rightarrow> source_outcome \<Rightarrow> source_outcome" where
  "taken_over owner now r = r\<lparr>so_lease_owner := Some owner,
     so_lease_expires_at := Some (now + lease_duration), so_started_at := Some now,
     so_attempted_count := Suc (so_attempted_count r)\<rparr>"

definition takeover_or_insert ::
  "nat \<Rightarrow> string \<Rightarrow> string \<Rightarrow> datetime \<Rightarrow> audit_db \<Rightarrow> bool \<times> audit_db" where
  "takeover_or_insert rid src owner now db =
     (let p = (\<lambda>r. so_key r = (rid, src) \<and> so_status r = Running
                 \<and> null_lt (so_lease_expires_at r) now) in
      if rowcount p (outcomes db) = 1 then
        (True, db\<lparr>outcomes := sql_update p (taken_over owner now) (outcomes db)\<rparr>)
      else case sql_insert so_key
              (new_outcome (fresh_id so_id (outcomes db)) rid src owner now) (outcomes db) of
             None \<Rightarrow> (False, db)
           | Some t \<Rightarrow> (True, db\<lparr>outcomes := t\<rparr>))"

definition claim_source_with ::
  "source_outcome option \<Rightarrow> nat \<Rightarrow> string \<Rightarrow> string \<Rightarrow> datetime \<Rightarrow> audit_db \<Rightarrow> bool \<times> audit_db"
where
  "claim_source_with existing rid src owner now db =
     (case existing of
        Some e \<Rightarrow> (if renewable owner now e then renew_source (so_id e) owner now db
                   else takeover_or_insert rid src owner now db)
      | None \<Rightarrow> takeover_or_insert rid src owner now db)"

definition claim_source ::
  "nat \<Rightarrow> string \<Rightarrow> string \<Rightarrow> datetime \<Rightarrow> audit_db \<Rightarrow> bool \<times> audit_db" where
  "claim_source rid src owner now db =
     claim_source_with (find_outcome rid src db) rid src owner now db"

definition update_source ::
  "nat \<Rightarrow> string \<Rightarrow> string \<Rightarrow> datetime \<Rightarrow> (source_outcome \<Rightarrow> source_outcome) \<Rightarrow> audit_db
     \<Rightarrow> bool \<times> audit_db" where
  "update_source rid src owner now vals db =
     (let p = (\<lambda>r. so_key r = (rid, src) \<and> renewable owner now r) in
      (rowcount p (outcomes db) = 1, db\<lparr>outcomes := sql_update p vals (outcomes db)\<rparr>))"

definition completed_values :: "datetime \<Rightarrow> counts \<Rightarrow> source_outcome \<Rightarrow> source_outcome" where
  "completed_values now cs r = r\<lparr>so_status := Completed, so_finished_at := Some now,
     so_lease_owner := None, so_lease_expires_at := None, so_counts := cs\<rparr>"

definition complete_source ::
  "nat \<Rightarrow> string \<Rightarrow> string \<Rightarrow> datetime \<Rightarrow> counts \<Rightarrow> audit_db \<Rightarrow> bool \<times> audit_db" where
  "complete_source rid src owner now cs db =
     update_source rid src owner now (completed_values now cs) db"

text \<open>\<^verbatim>\<open>_SAFE_DETAIL\<close>: 1 to 100 characters of a small alphabet, letters of either case.\<close>

definition safe_detail_char :: "char \<Rightarrow> bool" where
  "safe_detail_char c \<longleftrightarrow> (CHR ''a'' \<le> c \<and> c \<le> CHR ''z'') \<or> (CHR ''A'' \<le> c \<and> c \<le> CHR ''Z'')
     \<or> (CHR ''0'' \<le> c \<and> c \<le> CHR ''9'') \<or> c \<in> {CHR ''_'', CHR ''.'', CHR '':'', CHR ''-''}"

definition safe_detail :: "string option \<Rightarrow> string option" where
  "safe_detail detail = (case detail of
       Some d \<Rightarrow> if 1 \<le> length d \<and> length d \<le> 100 \<and> list_all safe_detail_char d
                 then Some d else None
     | None \<Rightarrow> None)"

definition failed_values ::
  "datetime \<Rightarrow> fetch_failure_code \<Rightarrow> string option \<Rightarrow> int \<Rightarrow> source_outcome \<Rightarrow> source_outcome" where
  "failed_values now code detail bytes r = r\<lparr>so_status := Failed,
     so_counts := (so_counts r)\<lparr>failed_count := 1, response_bytes := bytes\<rparr>,
     so_failure_code := Some (failure_value code), so_outcome_detail := safe_detail detail,
     so_finished_at := Some now, so_lease_owner := None, so_lease_expires_at := None\<rparr>"

definition fail_source ::
  "nat \<Rightarrow> string \<Rightarrow> string \<Rightarrow> fetch_failure_code \<Rightarrow> string option \<Rightarrow> datetime \<Rightarrow> int \<Rightarrow> audit_db
     \<Rightarrow> bool \<times> audit_db" where
  "fail_source rid src owner code detail now bytes db =
     update_source rid src owner now (failed_values now code detail bytes) db"

section \<open>Circuits\<close>

definition find_circuit :: "string \<Rightarrow> audit_db \<Rightarrow> circuit option" where
  "find_circuit src db = row_of ci_source_id (circuits db) src"

definition new_circuit :: "string \<Rightarrow> circuit" where
  "new_circuit src = \<lparr>ci_source_id = src, ci_failure_count = 0, ci_open_until = None,
     ci_probe_owner = None, ci_probe_expires_at = None\<rparr>"

definition circuit_failed :: "datetime \<Rightarrow> circuit \<Rightarrow> circuit" where
  "circuit_failed now r = r\<lparr>ci_failure_count := Suc (ci_failure_count r),
     ci_open_until := (if circuit_threshold \<le> Suc (ci_failure_count r)
                       then Some (now + circuit_cooldown) else ci_open_until r),
     ci_probe_owner := None, ci_probe_expires_at := None\<rparr>"

definition record_circuit_failure_with ::
  "circuit option \<Rightarrow> string \<Rightarrow> datetime \<Rightarrow> audit_db \<Rightarrow> audit_db" where
  "record_circuit_failure_with seen src now db =
     (let t = (case seen of
                 Some _ \<Rightarrow> circuits db
               | None \<Rightarrow> (case sql_insert ci_source_id (new_circuit src) (circuits db) of
                            None \<Rightarrow> circuits db
                          | Some t' \<Rightarrow> t'))
      in db\<lparr>circuits := sql_update (\<lambda>r. ci_source_id r = src) (circuit_failed now) t\<rparr>)"

definition record_circuit_failure :: "string \<Rightarrow> datetime \<Rightarrow> audit_db \<Rightarrow> audit_db" where
  "record_circuit_failure src now db =
     record_circuit_failure_with (find_circuit src db) src now db"

definition claim_circuit_probe ::
  "string \<Rightarrow> string \<Rightarrow> datetime \<Rightarrow> audit_db \<Rightarrow> bool \<times> audit_db" where
  "claim_circuit_probe src owner now db =
     (let p = (\<lambda>r. ci_source_id r = src \<and> (circuit_threshold \<le> ci_failure_count r
                 \<and> null_le (ci_open_until r) now
                 \<and> (ci_probe_owner r = None \<or> null_lt (ci_probe_expires_at r) now))) in
      (rowcount p (circuits db) = 1,
       db\<lparr>circuits := sql_update p (\<lambda>r. r\<lparr>ci_probe_owner := Some owner,
          ci_probe_expires_at := Some (now + lease_duration)\<rparr>) (circuits db)\<rparr>))"

definition allow_circuit_request_with ::
  "circuit option \<Rightarrow> string \<Rightarrow> string \<Rightarrow> datetime \<Rightarrow> audit_db \<Rightarrow> bool \<times> audit_db" where
  "allow_circuit_request_with seen src owner now db =
     (case seen of
        None \<Rightarrow> (True, db)
      | Some c \<Rightarrow>
          if ci_failure_count c < circuit_threshold then (True, db)
          else if null_gt (ci_open_until c) now then (False, db)
          else if ci_probe_owner c = Some owner \<and> null_ge (ci_probe_expires_at c) now
          then (True, db)
          else claim_circuit_probe src owner now db)"

definition allow_circuit_request ::
  "string \<Rightarrow> string \<Rightarrow> datetime \<Rightarrow> audit_db \<Rightarrow> bool \<times> audit_db" where
  "allow_circuit_request src owner now db =
     allow_circuit_request_with (find_circuit src db) src owner now db"

definition record_circuit_success :: "string \<Rightarrow> string \<Rightarrow> audit_db \<Rightarrow> bool \<times> audit_db" where
  "record_circuit_success src owner db =
     (let p = (\<lambda>r. ci_source_id r = src \<and>
                 (ci_probe_owner r = Some owner \<or> ci_failure_count r < 5)) in
      (rowcount p (circuits db) = 1,
       db\<lparr>circuits := sql_update p (\<lambda>r. r\<lparr>ci_failure_count := 0, ci_open_until := None,
          ci_probe_owner := None, ci_probe_expires_at := None\<rparr>) (circuits db)\<rparr>))"

definition circuit_state :: "string \<Rightarrow> datetime \<Rightarrow> audit_db \<Rightarrow> string" where
  "circuit_state src now db =
     (case find_circuit src db of
        None \<Rightarrow> ''closed''
      | Some c \<Rightarrow> if ci_failure_count c < circuit_threshold then ''closed''
                  else if null_gt (ci_open_until c) now then ''open''
                  else ''half_open'')"

end
