(* ===== verification/RetrievalLeases.thy ===== *)
theory RetrievalLeases
  imports RetrievalAudit RetrievalInterfaces
begin

text \<open>
  The invariant of the audit tables, kept by every operation of the repository, and the
  leases on the sources of a run as an instance of the lease interface.
\<close>

section \<open>The invariant of the tables\<close>

text \<open>A row carries a lease exactly while it is running.\<close>

definition run_ok :: "retrieval_run \<Rightarrow> bool" where
  "run_ok r \<longleftrightarrow> (run_status r = Running \<longleftrightarrow> run_lease_owner r \<noteq> None)
     \<and> (run_lease_owner r = None \<longleftrightarrow> run_lease_expires_at r = None)"

definition outcome_ok :: "source_outcome \<Rightarrow> bool" where
  "outcome_ok r \<longleftrightarrow> (so_status r = Running \<longleftrightarrow> so_lease_owner r \<noteq> None)
     \<and> (so_lease_owner r = None \<longleftrightarrow> so_lease_expires_at r = None)
     \<and> so_status r \<noteq> Pending \<and> (so_finished_at r = None \<longleftrightarrow> so_status r = Running)"

text \<open>An open circuit has a deadline; a probe exists only while the circuit is tripped.\<close>

definition circuit_ok :: "circuit \<Rightarrow> bool" where
  "circuit_ok r \<longleftrightarrow> (circuit_threshold \<le> ci_failure_count r \<longleftrightarrow> ci_open_until r \<noteq> None)
     \<and> (ci_probe_owner r = None \<longleftrightarrow> ci_probe_expires_at r = None)
     \<and> (ci_probe_owner r \<noteq> None \<longrightarrow> circuit_threshold \<le> ci_failure_count r)"

definition audit_inv :: "audit_db \<Rightarrow> bool" where
  "audit_inv db \<longleftrightarrow>
     distinct (map run_id (runs db)) \<and> distinct (map run_key (runs db))
   \<and> list_all run_ok (runs db)
   \<and> distinct (map so_key (outcomes db)) \<and> distinct (map so_id (outcomes db))
   \<and> list_all outcome_ok (outcomes db)
   \<and> distinct (map ci_source_id (circuits db)) \<and> list_all circuit_ok (circuits db)"

lemma audit_inv_empty: "audit_inv empty_db"
  by (simp add: audit_inv_def empty_db_def)

lemma audit_invI_runs:
  assumes "audit_inv db" "map run_id t = map run_id (runs db)"
    "map run_key t = map run_key (runs db)" "list_all run_ok t"
  shows "audit_inv (db\<lparr>runs := t\<rparr>)"
  using assms by (simp add: audit_inv_def)

lemma audit_invI_outcomes:
  assumes "audit_inv db" "distinct (map so_key t)" "distinct (map so_id t)"
    "list_all outcome_ok t"
  shows "audit_inv (db\<lparr>outcomes := t\<rparr>)"
  using assms by (simp add: audit_inv_def)

lemma audit_invI_circuits:
  assumes "audit_inv db" "distinct (map ci_source_id t)" "list_all circuit_ok t"
  shows "audit_inv (db\<lparr>circuits := t\<rparr>)"
  using assms by (simp add: audit_inv_def)

text \<open>An \<^verbatim>\<open>UPDATE\<close> of one table that keeps keys and row invariants keeps the invariant.\<close>

lemma inv_update_runs:
  assumes "audit_inv db" "\<And>r. run_id (f r) = run_id r" "\<And>r. run_key (f r) = run_key r"
    "\<And>r. p r \<Longrightarrow> run_ok r \<Longrightarrow> run_ok (f r)"
  shows "audit_inv (db\<lparr>runs := sql_update p f (runs db)\<rparr>)"
  using assms by (intro audit_invI_runs) (auto simp: keys_update audit_inv_def list_all_update)

lemma inv_update_outcomes:
  assumes "audit_inv db" "\<And>r. so_run_id (f r) = so_run_id r"
    "\<And>r. so_source_id (f r) = so_source_id r" "\<And>r. so_id (f r) = so_id r"
    "\<And>r. p r \<Longrightarrow> outcome_ok r \<Longrightarrow> outcome_ok (f r)"
  shows "audit_inv (db\<lparr>outcomes := sql_update p f (outcomes db)\<rparr>)"
proof (rule audit_invI_outcomes)
  show "distinct (map so_key (sql_update p f (outcomes db)))"
    using assms(1-3) by (subst keys_update) (auto simp: audit_inv_def)
  show "distinct (map so_id (sql_update p f (outcomes db)))"
    using assms(1,4) by (subst keys_update) (auto simp: audit_inv_def)
  show "list_all outcome_ok (sql_update p f (outcomes db))"
    using assms(1,5) by (intro list_all_update) (auto simp: audit_inv_def)
qed (rule assms(1))

lemma inv_update_circuits:
  assumes "audit_inv db" "\<And>r. ci_source_id (f r) = ci_source_id r"
    "\<And>r. p r \<Longrightarrow> circuit_ok r \<Longrightarrow> circuit_ok (f r)"
  shows "audit_inv (db\<lparr>circuits := sql_update p f (circuits db)\<rparr>)"
  using assms by (intro audit_invI_circuits) (auto simp: keys_update audit_inv_def list_all_update)

subsection \<open>Every operation keeps the invariant\<close>

lemma claim_run_with_inv [inv_intros]:
  "audit_inv db \<Longrightarrow> audit_inv (snd (claim_run_with c owner now db))"
  by (auto simp: claim_run_with_def Let_def take_lease_def run_ok_def split: option.split
      intro!: inv_update_runs)

lemma claim_run_inv [inv_intros]: "audit_inv db \<Longrightarrow> audit_inv (snd (claim_run owner now db))"
  by (simp add: claim_run_def inv_intros)

lemma fence_run_inv [inv_intros]: "audit_inv db \<Longrightarrow> audit_inv (snd (fence_run rid owner now db))"
  by (auto simp: fence_run_def Let_def intro!: inv_update_runs)

lemma complete_run_inv [inv_intros]:
  "audit_inv db \<Longrightarrow> audit_inv (snd (complete_run rid owner now cs db))"
  by (auto simp: complete_run_def Let_def run_ok_def intro!: inv_update_runs)

lemma renew_source_inv [inv_intros]:
  "audit_inv db \<Longrightarrow> audit_inv (snd (renew_source i owner now db))"
  by (auto simp: renew_source_def Let_def outcome_ok_def intro!: inv_update_outcomes)

lemma new_outcome_simps [simp]:
  "so_key (new_outcome i rid src owner now) = (rid, src)"
  "so_id (new_outcome i rid src owner now) = i"
  "outcome_ok (new_outcome i rid src owner now)"
  by (simp_all add: new_outcome_def outcome_ok_def)

lemma insert_outcome_inv:
  assumes "audit_inv db"
    "sql_insert so_key (new_outcome (fresh_id so_id (outcomes db)) rid src owner now)
       (outcomes db) = Some t"
  shows "audit_inv (db\<lparr>outcomes := t\<rparr>)"
proof (rule audit_invI_outcomes)
  show "distinct (map so_key t)" using assms keys_insert by (auto simp: audit_inv_def)
  show "distinct (map so_id t)"
    using assms by (intro insert_fresh_distinct [OF _ assms(2)]) (auto simp: audit_inv_def)
  show "list_all outcome_ok t"
    using assms by (intro list_all_insert [OF _ _ assms(2)]) (auto simp: audit_inv_def)
qed (rule assms(1))

lemma takeover_or_insert_inv [inv_intros]:
  assumes "audit_inv db"
  shows "audit_inv (snd (takeover_or_insert rid src owner now db))"
proof -
  have "audit_inv (db\<lparr>outcomes := sql_update
      (\<lambda>r. so_key r = (rid, src) \<and> so_status r = Running \<and> null_lt (so_lease_expires_at r) now)
      (taken_over owner now) (outcomes db)\<rparr>)"
    using assms by (intro inv_update_outcomes) (auto simp: outcome_ok_def taken_over_def)
  with assms show ?thesis
    by (auto simp: takeover_or_insert_def Let_def split: option.split intro: insert_outcome_inv)
qed

lemma claim_source_with_inv [inv_intros]:
  "audit_inv db \<Longrightarrow> audit_inv (snd (claim_source_with e rid src owner now db))"
  by (auto simp: claim_source_with_def split: option.split intro: inv_intros)

lemma claim_source_inv [inv_intros]:
  "audit_inv db \<Longrightarrow> audit_inv (snd (claim_source rid src owner now db))"
  by (simp add: claim_source_def inv_intros)

lemma complete_source_inv [inv_intros]:
  "audit_inv db \<Longrightarrow> audit_inv (snd (complete_source rid src owner now cs db))"
  by (auto simp: complete_source_def update_source_def Let_def completed_values_def
      outcome_ok_def intro!: inv_update_outcomes)

lemma fail_source_inv [inv_intros]:
  "audit_inv db \<Longrightarrow> audit_inv (snd (fail_source rid src owner code detail now bytes db))"
  by (auto simp: fail_source_def update_source_def Let_def failed_values_def
      outcome_ok_def intro!: inv_update_outcomes)

lemma circuit_failed_ok: "circuit_ok r \<Longrightarrow> circuit_ok (circuit_failed now r)"
  by (auto simp: circuit_ok_def circuit_failed_def)

lemma record_circuit_failure_with_inv [inv_intros]:
  assumes "audit_inv db"
  shows "audit_inv (record_circuit_failure_with c src now db)"
proof -
  have *: "audit_inv (d\<lparr>circuits := sql_update p (circuit_failed now) (circuits d)\<rparr>)"
    if "audit_inv d" for d p
    using that by (intro inv_update_circuits) (auto simp: circuit_failed_ok, simp add: circuit_failed_def)
  have "audit_inv (db\<lparr>circuits := t\<rparr>)"
    if "sql_insert ci_source_id (new_circuit src) (circuits db) = Some t" for t
    using assms that keys_insert [OF that]
    by (intro audit_invI_circuits)
      (auto simp: audit_inv_def new_circuit_def circuit_ok_def circuit_threshold_def
        intro: list_all_insert [OF _ _ that])
  with assms * [of db] * [of "db\<lparr>circuits := t\<rparr>" for t] show ?thesis
    by (fastforce simp: record_circuit_failure_with_def Let_def split: option.split)
qed

lemma record_circuit_failure_inv [inv_intros]:
  "audit_inv db \<Longrightarrow> audit_inv (record_circuit_failure src now db)"
  by (simp add: record_circuit_failure_def inv_intros)

lemma claim_circuit_probe_inv [inv_intros]:
  "audit_inv db \<Longrightarrow> audit_inv (snd (claim_circuit_probe src owner now db))"
  by (auto simp: claim_circuit_probe_def Let_def circuit_ok_def intro!: inv_update_circuits)

lemma allow_circuit_request_with_inv [inv_intros]:
  "audit_inv db \<Longrightarrow> audit_inv (snd (allow_circuit_request_with c src owner now db))"
  by (auto simp: allow_circuit_request_with_def split: option.split intro: inv_intros)

lemma allow_circuit_request_inv [inv_intros]:
  "audit_inv db \<Longrightarrow> audit_inv (snd (allow_circuit_request src owner now db))"
  by (simp add: allow_circuit_request_def inv_intros)

lemma record_circuit_success_inv [inv_intros]:
  "audit_inv db \<Longrightarrow> audit_inv (snd (record_circuit_success src owner db))"
  by (auto simp: record_circuit_success_def Let_def circuit_ok_def circuit_threshold_def
      intro!: inv_update_circuits)

section \<open>The lease on one source of a run\<close>

definition outcome_slot :: "source_outcome \<Rightarrow> slot" where
  "outcome_slot r = (case (so_lease_owner r, so_lease_expires_at r) of
     (Some ow, Some e) \<Rightarrow> Held ow e | _ \<Rightarrow> Done)"

definition source_slot :: "nat \<Rightarrow> string \<Rightarrow> audit_db \<Rightarrow> slot" where
  "source_slot rid src db =
     (case find_outcome rid src db of None \<Rightarrow> Free | Some r \<Rightarrow> outcome_slot r)"

text \<open>
  A snapshot a worker may hold: nothing, or an earlier version of the row of this source
  (rows are never deleted, and never change their identity).
\<close>

definition source_snapshot :: "nat \<Rightarrow> string \<Rightarrow> source_outcome option \<Rightarrow> audit_db \<Rightarrow> bool" where
  "source_snapshot rid src x db \<longleftrightarrow>
     (case x of None \<Rightarrow> True
      | Some e \<Rightarrow> list_ex (\<lambda>r. so_id r = so_id e \<and> so_key r = (rid, src)) (outcomes db))"

lemma outcome_slot_cases:
  assumes "outcome_ok r"
  obtains ow e where "so_status r = Running" "so_lease_owner r = Some ow"
      "so_lease_expires_at r = Some e" "outcome_slot r = Held ow e"
  | "so_status r \<noteq> Running" "so_lease_owner r = None" "outcome_slot r = Done"
  using assms by (cases "so_lease_owner r"; cases "so_lease_expires_at r")
    (auto simp: outcome_ok_def outcome_slot_def)

lemma find_outcome_ok: "audit_inv db \<Longrightarrow> find_outcome rid src db = Some r \<Longrightarrow> outcome_ok r"
  by (auto simp: audit_inv_def find_outcome_def intro: row_of_list_all)

lemma find_outcome_key: "find_outcome rid src db = Some r \<Longrightarrow> so_key r = (rid, src)"
  by (auto simp: find_outcome_def dest: row_of_SomeD)

lemma find_outcome_update:
  assumes "\<And>r. so_run_id (f r) = so_run_id r" "\<And>r. so_source_id (f r) = so_source_id r"
  shows "find_outcome rid src (db\<lparr>outcomes := sql_update p f (outcomes db)\<rparr>) =
    map_option (\<lambda>r. if p r then f r else r) (find_outcome rid src db)"
  using assms by (simp add: find_outcome_def row_of_update)

lemma rowcount_outcome:
  assumes "audit_inv db"
  shows "rowcount (\<lambda>r. so_key r = (rid, src) \<and> q r) (outcomes db) =
    (case find_outcome rid src db of None \<Rightarrow> 0 | Some r \<Rightarrow> if q r then 1 else 0)"
  using assms unfolding find_outcome_def
  by (intro rowcount_key) (simp add: audit_inv_def)

lemmas rowcount_outcome_flat = rowcount_outcome [simplified]

lemma snapshot_row:
  assumes "audit_inv db" "source_snapshot rid src (Some e) db"
  obtains r where "find_outcome rid src db = Some r" "so_id r = so_id e"
    "row_of so_id (outcomes db) (so_id e) = Some r"
proof -
  from assms(2) obtain r where r: "r \<in> set (outcomes db)" "so_id r = so_id e" "so_key r = (rid, src)"
    by (auto simp: source_snapshot_def list_ex_iff)
  have "find_outcome rid src db = Some r"
    using row_of_in [of so_key "outcomes db" r] r assms(1)
    by (simp add: find_outcome_def audit_inv_def)
  moreover have "row_of so_id (outcomes db) (so_id e) = Some r"
    using row_of_in [of so_id "outcomes db" r] r assms(1) by (simp add: audit_inv_def)
  ultimately show ?thesis using that r(2) by blast
qed

lemma renew_source_slot:
  assumes "audit_inv db" "source_snapshot rid src (Some e) db"
    "renew_source (so_id e) ow now db = (b, db')"
  shows "slot_acquires lease_duration ow now (source_slot rid src db) b (source_slot rid src db')"
proof -
  obtain r where r: "find_outcome rid src db = Some r" "so_id r = so_id e"
    "row_of so_id (outcomes db) (so_id e) = Some r"
    using snapshot_row [OF assms(1,2)] by blast
  let ?q = "\<lambda>r. so_status r = Running \<and> so_lease_owner r = Some ow"
  have "rowcount (\<lambda>r. so_id r = so_id e \<and> ?q r) (outcomes db) = (if ?q r then 1 else 0)"
    using rowcount_key [of so_id "outcomes db" "so_id e" ?q] assms(1) r(3)
    by (simp add: audit_inv_def)
  with assms(3) have b: "b = ?q r" by (auto simp: renew_source_def Let_def split: if_splits)
  have "find_outcome rid src db' = Some (if ?q r then r\<lparr>so_lease_expires_at :=
      Some (now + lease_duration), so_attempted_count := Suc (so_attempted_count r)\<rparr> else r)"
    using assms(3) r(1,2) by (auto simp: renew_source_def Let_def find_outcome_update)
  with b r(1) find_outcome_ok [OF assms(1) r(1)] show ?thesis
    by (auto simp: source_slot_def outcome_slot_def outcome_ok_def split: option.splits
        intro: slot_acquires.intros)
qed

lemma takeover_or_insert_slot:
  assumes "audit_inv db" "takeover_or_insert rid src ow now db = (b, db')"
  shows "(b, source_slot rid src db') =
    (case source_slot rid src db of
       Free \<Rightarrow> (True, Held ow (now + lease_duration))
     | Held h e \<Rightarrow> if e < now then (True, Held ow (now + lease_duration)) else (False, Held h e)
     | Done \<Rightarrow> (False, Done))"
proof (cases "find_outcome rid src db")
  case None
  let ?r = "new_outcome (fresh_id so_id (outcomes db)) rid src ow now"
  have "rowcount (\<lambda>r. so_key r = (rid, src) \<and> so_status r = Running
      \<and> null_lt (so_lease_expires_at r) now) (outcomes db) = 0"
    using rowcount_outcome [OF assms(1)] None by simp
  moreover obtain t where t: "sql_insert so_key ?r (outcomes db) = Some t"
    using sql_insert_None_iff [of so_key ?r "outcomes db"] None
    by (cases "sql_insert so_key ?r (outcomes db)") (auto simp: find_outcome_def)
  ultimately have "b" "db' = db\<lparr>outcomes := t\<rparr>"
    using assms(2) by (auto simp: takeover_or_insert_def Let_def)
  moreover have "find_outcome rid src (db\<lparr>outcomes := t\<rparr>) = Some ?r"
    using row_of_insert [OF t, of "(rid, src)"] by (simp add: find_outcome_def)
  ultimately show ?thesis
    using None by (simp add: source_slot_def outcome_slot_def) (simp add: new_outcome_def)
next
  case (Some r)
  let ?q = "\<lambda>r. so_status r = Running \<and> null_lt (so_lease_expires_at r) now"
  have rc: "rowcount (\<lambda>r. so_key r = (rid, src) \<and> ?q r) (outcomes db) = (if ?q r then 1 else 0)"
    using rowcount_outcome [OF assms(1), of rid src ?q] Some by simp
  have ins: "sql_insert so_key (new_outcome i rid src ow now) (outcomes db) = None" for i
    using Some by (simp add: sql_insert_None_iff find_outcome_def)
  note ok = find_outcome_ok [OF assms(1) Some]
  show ?thesis
  proof (cases "?q r")
    case True
    with assms(2) rc ins have "b"
      "db' = db\<lparr>outcomes := sql_update (\<lambda>r. so_key r = (rid, src) \<and> ?q r)
        (taken_over ow now) (outcomes db)\<rparr>"
      by (auto simp: takeover_or_insert_def Let_def split: if_splits)
    with True Some ok find_outcome_key [OF Some] show ?thesis
      by (auto simp: source_slot_def find_outcome_update taken_over_def outcome_slot_def
          outcome_ok_def split: option.splits)
  next
    case False
    with assms(2) rc ins have "\<not> b" "db' = db"
      by (auto simp: takeover_or_insert_def Let_def split: if_splits)
    with False Some ok show ?thesis
      by (auto simp: source_slot_def outcome_slot_def outcome_ok_def split: option.splits)
  qed
qed

lemma claim_source_with_slot:
  assumes "audit_inv db" "source_snapshot rid src x db"
    "claim_source_with x rid src ow now db = (b, db')"
  shows "slot_acquires lease_duration ow now (source_slot rid src db) b (source_slot rid src db')"
proof -
  have "slot_acquires lease_duration ow now (source_slot rid src db) b (source_slot rid src db')"
    if "takeover_or_insert rid src ow now db = (b, db')"
    using takeover_or_insert_slot [OF assms(1) that]
    by (auto split: slot.splits if_splits intro: slot_acquires.intros)
  with assms renew_source_slot show ?thesis
    by (auto simp: claim_source_with_def split: option.splits if_splits)
qed

lemma claim_source_slot:
  assumes "audit_inv db" "claim_source rid src ow now db = (b, db')"
  shows "slot_acquire lease_duration ow now (source_slot rid src db) = (b, source_slot rid src db')"
proof (cases "\<exists>e. find_outcome rid src db = Some e \<and> renewable ow now e")
  case True
  then obtain e where e: "find_outcome rid src db = Some e" "renewable ow now e" by blast
  with assms(2) have rn: "renew_source (so_id e) ow now db = (b, db')"
    by (simp add: claim_source_def claim_source_with_def)
  have "e \<in> set (outcomes db)" using e(1) by (auto simp: find_outcome_def dest: row_of_SomeD)
  then have by_id: "row_of so_id (outcomes db) (so_id e) = Some e"
    using assms(1) by (intro row_of_in) (auto simp: audit_inv_def)
  let ?q = "\<lambda>r. so_status r = Running \<and> so_lease_owner r = Some ow"
  have "rowcount (\<lambda>r. so_id r = so_id e \<and> ?q r) (outcomes db) = 1"
    using rowcount_key [of so_id "outcomes db" "so_id e" ?q] assms(1) by_id e(2)
    by (simp add: audit_inv_def renewable_def)
  with rn e show ?thesis
    by (auto simp: renew_source_def Let_def source_slot_def find_outcome_update outcome_slot_def
        renewable_def split: option.splits)
next
  case False
  with assms(2) have "takeover_or_insert rid src ow now db = (b, db')"
    by (auto simp: claim_source_def claim_source_with_def split: option.splits)
  from takeover_or_insert_slot [OF assms(1) this] False show ?thesis
    by (auto simp: source_slot_def outcome_slot_def renewable_def
        split: option.splits slot.splits if_splits dest!: find_outcome_ok [OF assms(1)]
        simp: outcome_ok_def)
qed

lemma update_source_slot:
  assumes "audit_inv db" "update_source rid src ow now vals db = (b, db')"
    "\<And>r. so_key (vals r) = so_key r" "\<And>r. so_lease_owner (vals r) = None"
  shows "slot_finish ow now (source_slot rid src db) = (b, source_slot rid src db')"
proof (cases "find_outcome rid src db")
  case None
  with assms show ?thesis
    by (auto simp: update_source_def Let_def rowcount_outcome_flat source_slot_def find_outcome_update)
next
  case (Some r)
  with assms find_outcome_key [OF Some] find_outcome_ok [OF assms(1) Some] show ?thesis
    by (auto simp: update_source_def Let_def rowcount_outcome_flat source_slot_def find_outcome_update
        renewable_def outcome_slot_def outcome_ok_def split: option.splits)
qed

lemma complete_source_slot:
  "audit_inv db \<Longrightarrow> complete_source rid src ow now cs db = (b, db') \<Longrightarrow>
    slot_finish ow now (source_slot rid src db) = (b, source_slot rid src db')"
  unfolding complete_source_def
  by (erule (1) update_source_slot) (auto simp: completed_values_def)

lemma fail_source_slot:
  "audit_inv db \<Longrightarrow> fail_source rid src ow code detail now bytes db = (b, db') \<Longrightarrow>
    slot_finish ow now (source_slot rid src db) = (b, source_slot rid src db')"
  unfolding fail_source_def
  by (erule (1) update_source_slot) (auto simp: failed_values_def)

section \<open>The source lease as an instance of the interface\<close>

text \<open>Work on a source ends by completing it or by failing it.\<close>

datatype source_end =
    Succeeded counts
  | FailedWith fetch_failure_code "string option" int

fun finish_source ::
  "nat \<Rightarrow> string \<Rightarrow> source_end \<Rightarrow> string \<Rightarrow> datetime \<Rightarrow> audit_db \<Rightarrow> bool \<times> audit_db" where
  "finish_source rid src (Succeeded cs) ow now db = complete_source rid src ow now cs db"
| "finish_source rid src (FailedWith code detail bytes) ow now db =
     fail_source rid src ow code detail now bytes db"

definition attempt_source ::
  "nat \<Rightarrow> string \<Rightarrow> source_outcome option \<Rightarrow> string \<Rightarrow> datetime \<Rightarrow> audit_db \<Rightarrow> bool \<times> audit_db" where
  "attempt_source rid src x ow now db = claim_source_with x rid src ow now db"

interpretation source_lease: lease "attempt_source rid src" "finish_source rid src"
    "source_snapshot rid src" "source_slot rid src" audit_inv lease_duration
  for rid src
proof (unfold_locales, goal_cases)
  case (1 s x ow now)
  then show ?case by (simp add: attempt_source_def inv_intros)
next
  case (2 s y ow now)
  then show ?case by (cases y) (simp_all add: inv_intros)
next
  case (3 s x ow now b s')
  then show ?case by (auto simp: attempt_source_def intro: claim_source_with_slot)
next
  case (4 s y ow now b s')
  then show ?case by (cases y) (auto intro: complete_source_slot fail_source_slot)
qed

end
