(* ===== verification/PyText.thy ===== *)
theory PyText
  imports Prelude
begin

text \<open>
  The operations of Python's \<^verbatim>\<open>str\<close> the program uses, on texts of ASCII characters: case,
  stripping, splitting, joining, replacing, decimal numerals, and the parts of
  \<^verbatim>\<open>urllib.parse.urlsplit\<close> that retrieval relies on. On ASCII text \<^verbatim>\<open>lower\<close> and
  \<^verbatim>\<open>casefold\<close> agree, and so do encoding and identity.
\<close>

section \<open>Characters\<close>

definition is_upper :: "char \<Rightarrow> bool" where
  "is_upper c \<longleftrightarrow> CHR ''A'' \<le> c \<and> c \<le> CHR ''Z''"

definition is_lower :: "char \<Rightarrow> bool" where
  "is_lower c \<longleftrightarrow> CHR ''a'' \<le> c \<and> c \<le> CHR ''z''"

definition is_digit :: "char \<Rightarrow> bool" where
  "is_digit c \<longleftrightarrow> CHR ''0'' \<le> c \<and> c \<le> CHR ''9''"

definition is_alpha :: "char \<Rightarrow> bool" where
  "is_alpha c \<longleftrightarrow> is_upper c \<or> is_lower c"

definition is_alnum :: "char \<Rightarrow> bool" where
  "is_alnum c \<longleftrightarrow> is_alpha c \<or> is_digit c"

text \<open>The ASCII characters Python's \<^verbatim>\<open>str.strip\<close>, \<^verbatim>\<open>str.split\<close> and \<^verbatim>\<open>\s\<close> treat as white space.\<close>

definition is_space :: "char \<Rightarrow> bool" where
  "is_space c \<longleftrightarrow> c \<in> {CHR '' '', CHR 0x09, CHR 0x0A, CHR 0x0B, CHR 0x0C, CHR 0x0D,
     CHR 0x1C, CHR 0x1D, CHR 0x1E, CHR 0x1F}"

definition to_lower :: "char \<Rightarrow> char" where
  "to_lower c = (if is_upper c then char_of (of_char c + 32 :: nat) else c)"

definition to_upper :: "char \<Rightarrow> char" where
  "to_upper c = (if is_lower c then char_of (of_char c - 32 :: nat) else c)"

lemma of_char_le: "(c \<le> d) \<longleftrightarrow> (of_char c :: nat) \<le> of_char d"
  by (simp add: less_eq_char_def)

lemma is_upper_nat: "is_upper c \<longleftrightarrow> 65 \<le> (of_char c :: nat) \<and> of_char c \<le> (90 :: nat)"
  by (simp add: is_upper_def of_char_le)

lemma is_lower_nat: "is_lower c \<longleftrightarrow> 97 \<le> (of_char c :: nat) \<and> of_char c \<le> (122 :: nat)"
  by (simp add: is_lower_def of_char_le)

lemma not_upper_to_lower [simp]: "\<not> is_upper (to_lower c)"
  by (auto simp: to_lower_def is_upper_nat)

lemma to_lower_idem [simp]: "to_lower (to_lower c) = to_lower c"
  by (simp add: to_lower_def [of "to_lower c"])

text \<open>The same on the bits of a character, for evaluation.\<close>

lemma is_upper_bits [code]: "is_upper (Char b0 b1 b2 b3 b4 b5 b6 b7) \<longleftrightarrow>
    \<not> b7 \<and> b6 \<and> \<not> b5 \<and> (b0 \<or> b1 \<or> b2 \<or> b3 \<or> b4) \<and> \<not> (b4 \<and> b3 \<and> (b2 \<or> b1 \<and> b0))"
  by (cases b0; cases b1; cases b2; cases b3; cases b4; cases b5; cases b6; cases b7; simp add: is_upper_nat)

lemma is_lower_bits [code]: "is_lower (Char b0 b1 b2 b3 b4 b5 b6 b7) \<longleftrightarrow>
    \<not> b7 \<and> b6 \<and> b5 \<and> (b0 \<or> b1 \<or> b2 \<or> b3 \<or> b4) \<and> \<not> (b4 \<and> b3 \<and> (b2 \<or> b1 \<and> b0))"
  by (cases b0; cases b1; cases b2; cases b3; cases b4; cases b5; cases b6; cases b7; simp add: is_lower_nat)

lemma is_digit_bits [code]: "is_digit (Char b0 b1 b2 b3 b4 b5 b6 b7) \<longleftrightarrow>
    \<not> b7 \<and> \<not> b6 \<and> b5 \<and> b4 \<and> \<not> (b3 \<and> (b2 \<or> b1))"
  by (cases b0; cases b1; cases b2; cases b3; cases b4; cases b5; cases b6; cases b7; simp add: is_digit_def of_char_le)

lemma to_lower_bits [code]: "to_lower (Char b0 b1 b2 b3 b4 b5 b6 b7) =
    (if is_upper (Char b0 b1 b2 b3 b4 b5 b6 b7) then Char b0 b1 b2 b3 b4 True b6 b7 else Char b0 b1 b2 b3 b4 b5 b6 b7)"
proof (cases "is_upper (Char b0 b1 b2 b3 b4 b5 b6 b7)")
  case True
  then have "\<not> b5" by (simp add: is_upper_bits)
  then have eq: "(of_char (Char b0 b1 b2 b3 b4 b5 b6 b7) + 32 :: nat) = of_char (Char b0 b1 b2 b3 b4 True b6 b7)" by simp
  show ?thesis unfolding to_lower_def using True by (simp only: if_True eq char_of_char)
qed (simp add: to_lower_def)

lemma to_upper_bits [code]: "to_upper (Char b0 b1 b2 b3 b4 b5 b6 b7) =
    (if is_lower (Char b0 b1 b2 b3 b4 b5 b6 b7) then Char b0 b1 b2 b3 b4 False b6 b7 else Char b0 b1 b2 b3 b4 b5 b6 b7)"
proof (cases "is_lower (Char b0 b1 b2 b3 b4 b5 b6 b7)")
  case True
  then have "b5" by (simp add: is_lower_bits)
  then have eq: "(of_char (Char b0 b1 b2 b3 b4 b5 b6 b7) - 32 :: nat) = of_char (Char b0 b1 b2 b3 b4 False b6 b7)" by simp
  show ?thesis unfolding to_upper_def using True by (simp only: if_True eq char_of_char)
qed (simp add: to_upper_def)

section \<open>Strings\<close>

definition lower :: "string \<Rightarrow> string" where
  "lower s = map to_lower s"

definition upper :: "string \<Rightarrow> string" where
  "upper s = map to_upper s"

definition lstrip_by :: "(char \<Rightarrow> bool) \<Rightarrow> string \<Rightarrow> string" where
  "lstrip_by p s = dropWhile p s"

definition rstrip_by :: "(char \<Rightarrow> bool) \<Rightarrow> string \<Rightarrow> string" where
  "rstrip_by p s = rev (dropWhile p (rev s))"

definition strip_by :: "(char \<Rightarrow> bool) \<Rightarrow> string \<Rightarrow> string" where
  "strip_by p s = rstrip_by p (lstrip_by p s)"

definition strip :: "string \<Rightarrow> string" where
  "strip s = strip_by is_space s"

lemma lower_idem [simp]: "lower (lower s) = lower s"
  by (simp add: lower_def)

lemma length_lower [simp]: "length (lower s) = length s"
  by (simp add: lower_def)

lemma lower_append: "lower (s @ t) = lower s @ lower t"
  by (simp add: lower_def)

lemma dropWhile_rstrip: "dropWhile p (rstrip_by p (dropWhile p s)) = rstrip_by p (dropWhile p s)"
proof (cases "dropWhile p s")
  case Nil
  then show ?thesis by (simp only: rstrip_by_def) simp
next
  case (Cons a t)
  then have na: "\<not> p a" by (metis dropWhile_eq_Cons_conv)
  then have "dropWhile p (rev t @ [a]) = dropWhile p (rev t) @ [a]"
    by (auto simp: dropWhile_append)
  with Cons na show ?thesis by (simp add: rstrip_by_def)
qed

lemma strip_idem [simp]: "strip (strip s) = strip s"
proof -
  have "rstrip_by is_space (rstrip_by is_space t) = rstrip_by is_space t" for t
    by (simp add: rstrip_by_def dropWhile_idem)
  then show ?thesis by (simp add: strip_def strip_by_def lstrip_by_def dropWhile_rstrip)
qed

text \<open>\<^verbatim>\<open>s.partition(c)\<close> and \<^verbatim>\<open>s.rpartition(c)\<close> for a one-character separator.\<close>

definition partition_at :: "char \<Rightarrow> string \<Rightarrow> string \<times> bool \<times> string" where
  "partition_at c s = (let a = takeWhile (\<lambda>x. x \<noteq> c) s; b = dropWhile (\<lambda>x. x \<noteq> c) s
     in (a, b \<noteq> [], tl b))"

definition rpartition_at :: "char \<Rightarrow> string \<Rightarrow> string \<times> bool \<times> string" where
  "rpartition_at c s = (if c \<in> set s
     then (let r = rev s in (rev (tl (dropWhile (\<lambda>x. x \<noteq> c) r)), True,
             rev (takeWhile (\<lambda>x. x \<noteq> c) r)))
     else ([], False, s))"

text \<open>\<^verbatim>\<open>s.split(c)\<close> for a one-character separator.\<close>

fun split_on :: "char \<Rightarrow> string \<Rightarrow> string list" where
  "split_on c [] = [[]]"
| "split_on c (x # s) =
     (if x = c then [] # split_on c s
      else case split_on c s of [] \<Rightarrow> [[x]] | p # ps \<Rightarrow> (x # p) # ps)"

fun join :: "string \<Rightarrow> string list \<Rightarrow> string" where
  "join sep [] = []"
| "join sep [s] = s"
| "join sep (s # t # ts) = s @ sep @ join sep (t # ts)"

definition replace_char :: "char \<Rightarrow> char \<Rightarrow> string \<Rightarrow> string" where
  "replace_char c d s = map (\<lambda>x. if x = c then d else x) s"

fun starts_with :: "string \<Rightarrow> string \<Rightarrow> bool" where
  "starts_with s [] = True"
| "starts_with [] (p # ps) = False"
| "starts_with (c # s) (p # ps) = (c = p \<and> starts_with s ps)"

definition ends_with :: "string \<Rightarrow> string \<Rightarrow> bool" where
  "ends_with s p = starts_with (rev s) (rev p)"

text \<open>\<^verbatim>\<open>p in s\<close>\<close>

fun contains :: "string \<Rightarrow> string \<Rightarrow> bool" where
  "contains [] p = (p = [])"
| "contains (c # s) p = (starts_with (c # s) p \<or> contains s p)"

lemma starts_with_iff: "starts_with s p \<longleftrightarrow> (\<exists>t. s = p @ t)"
  by (induction s p rule: starts_with.induct) auto

lemma contains_iff: "contains s p \<longleftrightarrow> (\<exists>a b. s = a @ p @ b)"
proof (induction s)
  case Nil
  then show ?case by auto
next
  case (Cons c s)
  have "(\<exists>a b. c # s = a @ p @ b) \<longleftrightarrow> (\<exists>b. c # s = p @ b) \<or> (\<exists>a b. s = a @ p @ b)"
    by (metis append_Cons append_Nil list.exhaust list.inject)
  with Cons show ?case by (simp add: starts_with_iff)
qed

text \<open>White-space separated words: \<^verbatim>\<open>s.split()\<close>.\<close>

function words :: "string \<Rightarrow> string list" where
  "words s = (case dropWhile is_space s of [] \<Rightarrow> []
     | c # t \<Rightarrow> takeWhile (\<lambda>x. \<not> is_space x) (c # t)
                 # words (dropWhile (\<lambda>x. \<not> is_space x) (c # t)))"
  by pat_completeness auto
termination
proof (relation "measure length", simp)
  fix s c t
  assume "dropWhile is_space s = c # t"
  moreover from this have "\<not> is_space c" by (metis dropWhile_eq_Cons_conv)
  moreover have "length (dropWhile is_space s) \<le> length s" by (rule length_dropWhile_le)
  moreover have "length (dropWhile (\<lambda>x. \<not> is_space x) t) \<le> length t"
    by (rule length_dropWhile_le)
  ultimately show "(dropWhile (\<lambda>x. \<not> is_space x) (c # t), s) \<in> measure length" by simp
qed

declare words.simps [simp del]

section \<open>Numerals\<close>

definition digit_char :: "nat \<Rightarrow> char" where
  "digit_char d = char_of (48 + d)"

function nat_str :: "nat \<Rightarrow> string" where
  "nat_str n = (if n < 10 then [digit_char n] else nat_str (n div 10) @ [digit_char (n mod 10)])"
  by pat_completeness auto
termination
  by (relation "measure id") auto

declare nat_str.simps [simp del]

definition int_str :: "int \<Rightarrow> string" where
  "int_str i = (if i < 0 then CHR ''-'' # nat_str (nat (- i)) else nat_str (nat i))"

text \<open>\<^verbatim>\<open>f"{n:0w}"\<close>: padded with zeros on the left.\<close>

definition padded :: "nat \<Rightarrow> nat \<Rightarrow> string" where
  "padded w n = (let s = nat_str n in replicate (w - length s) (CHR ''0'') @ s)"

definition str_nat :: "string \<Rightarrow> nat" where
  "str_nat s = foldl (\<lambda>n c. 10 * n + (of_char c - 48)) 0 s"

lemma str_nat_snoc: "str_nat (s @ [c]) = 10 * str_nat s + (of_char c - 48)"
  by (simp add: str_nat_def)

lemma str_nat_nat_str [simp]: "str_nat (nat_str n) = n"
proof (induction n rule: nat_str.induct)
  case (1 n)
  show ?case
  proof (cases "n < 10")
    case True
    then show ?thesis
      by (subst nat_str.simps) (simp add: str_nat_def digit_char_def)
  next
    case False
    with 1 have "str_nat (nat_str (n div 10)) = n div 10" by simp
    with False show ?thesis
      by (subst nat_str.simps) (simp add: str_nat_snoc digit_char_def)
  qed
qed

lemma nat_str_inject [simp]: "nat_str m = nat_str n \<longleftrightarrow> m = n"
  by (metis str_nat_nat_str)

section \<open>Splitting and joining words\<close>

lemma words_Nil [simp]: "words [] = []"
  by (subst words.simps) simp

lemma words_space: "is_space c \<Longrightarrow> words (c # s) = words s"
  by (subst (1 2) words.simps) simp

lemma words_word:
  assumes "w \<noteq> []" "list_all (\<lambda>c. \<not> is_space c) w" "s = [] \<or> is_space (hd s)"
  shows "words (w @ s) = w # words s"
proof -
  obtain c t where w: "w = c # t" using assms(1) by (cases w) auto
  have d: "dropWhile is_space (w @ s) = w @ s" using assms(2) w by simp
  have nw: "\<And>x. x \<in> set w \<Longrightarrow> \<not> is_space x" using assms(2) by (simp add: list_all_iff)
  have "takeWhile (\<lambda>x. \<not> is_space x) (w @ s) = w"
    using nw assms(3) by (subst takeWhile_append2) (auto, cases s, auto)
  moreover have "dropWhile (\<lambda>x. \<not> is_space x) (w @ s) = s"
    using nw assms(3) by (subst dropWhile_append2) (auto, cases s, auto)
  ultimately show ?thesis using d w by (subst words.simps) simp
qed

lemma words_join:
  "list_all (\<lambda>w. w \<noteq> [] \<and> list_all (\<lambda>c. \<not> is_space c) w) ws \<Longrightarrow> words (join '' '' ws) = ws"
proof (induction ws)
  case (Cons w ws)
  have sp: "is_space (CHR '' '')" by (simp add: is_space_def)
  show ?case
  proof (cases ws)
    case Nil
    with Cons.prems show ?thesis using words_word [of w "[]"] by simp
  next
    case (Cons t ts)
    with Cons.prems Cons.IH sp show ?thesis
      using words_word [of w "CHR '' '' # join '' '' (t # ts)"] by (simp add: words_space)
  qed
qed simp

lemma words_no_word: "dropWhile is_space s = [] \<Longrightarrow> words s = []"
  by (subst words.simps) (simp del: dropWhile_eq_Nil_conv)

lemma words_first: "dropWhile is_space s = c # t \<Longrightarrow>
    words s = takeWhile (\<lambda>x. \<not> is_space x) (c # t) # words (dropWhile (\<lambda>x. \<not> is_space x) (c # t))"
  by (subst words.simps) simp

lemma words_are_words: "list_all (\<lambda>w. w \<noteq> [] \<and> list_all (\<lambda>c. \<not> is_space c) w) (words s)"
proof (induction s rule: words.induct)
  case (1 s)
  show ?case
  proof (cases "dropWhile is_space s")
    case Nil
    then show ?thesis by (simp add: words_no_word del: dropWhile_eq_Nil_conv)
  next
    case (Cons c t)
    then have "\<not> is_space c" by (metis dropWhile_eq_Cons_conv)
    moreover have "list_all (\<lambda>c. \<not> is_space c) (takeWhile (\<lambda>x. \<not> is_space x) t)"
      by (auto simp: list_all_iff dest: set_takeWhileD)
    ultimately show ?thesis using 1 [OF Cons] words_first [OF Cons] by simp
  qed
qed

lemma set_words: "w \<in> set (words s) \<Longrightarrow> set w \<subseteq> set s"
proof (induction s rule: words.induct)
  case (1 s)
  show ?case
  proof (cases "dropWhile is_space s")
    case Nil
    with 1(2) show ?thesis by (simp add: words_no_word del: dropWhile_eq_Nil_conv)
  next
    case (Cons c t)
    have sub: "set (c # t) \<subseteq> set s" using Cons by (metis set_dropWhileD subsetI)
    from 1(2) words_first [OF Cons] have "w = takeWhile (\<lambda>x. \<not> is_space x) (c # t)
        \<or> w \<in> set (words (dropWhile (\<lambda>x. \<not> is_space x) (c # t)))"
      by simp
    then show ?thesis
    proof
      assume "w = takeWhile (\<lambda>x. \<not> is_space x) (c # t)"
      then show ?thesis using sub by (metis set_takeWhileD subset_code(1))
    next
      assume "w \<in> set (words (dropWhile (\<lambda>x. \<not> is_space x) (c # t)))"
      with 1(1) [OF Cons] have "set w \<subseteq> set (dropWhile (\<lambda>x. \<not> is_space x) (c # t))" by simp
      also have "\<dots> \<subseteq> set (c # t)" by (meson set_dropWhileD subsetI)
      finally show ?thesis using sub by blast
    qed
  qed
qed

lemma set_join: "set (join sep ws) \<subseteq> set sep \<union> \<Union> (set ` set ws)"
  by (induction sep ws rule: join.induct) auto

lemma join_Nil_iff: "list_all (\<lambda>w. w \<noteq> []) ws \<Longrightarrow> join sep ws = [] \<longleftrightarrow> ws = []"
  by (induction sep ws rule: join.induct) auto

section \<open>Title case\<close>

text \<open>\<^verbatim>\<open>s.title()\<close>: the first letter of every run of letters in upper case, the others in lower.\<close>

fun title_case_from :: "bool \<Rightarrow> string \<Rightarrow> string" where
  "title_case_from inside [] = []"
| "title_case_from inside (c # s) =
     (if is_alpha c then (if inside then to_lower c else to_upper c) # title_case_from True s
      else c # title_case_from False s)"

definition title_case :: "string \<Rightarrow> string" where
  "title_case s = title_case_from False s"

lemma is_space_low: "is_space c \<Longrightarrow> (of_char c :: nat) \<le> 32"
  by (auto simp: is_space_def of_char_def)

lemma is_space_to_lower [simp]: "is_space (to_lower c) = is_space c"
proof (cases "is_upper c")
  case True
  then have "\<not> (of_char c :: nat) \<le> 32" "\<not> (of_char (to_lower c) :: nat) \<le> 32"
    by (simp_all add: is_upper_nat to_lower_def)
  then show ?thesis using is_space_low by blast
qed (simp add: to_lower_def)

lemma strip_lower: "strip (lower s) = lower (strip s)"
proof -
  have "is_space \<circ> to_lower = is_space" by (simp add: fun_eq_iff)
  then show ?thesis
    by (simp add: strip_def strip_by_def lstrip_by_def rstrip_by_def lower_def dropWhile_map rev_map)
qed

end
