(* ===== verification/Url.thy ===== *)
theory Url
  imports PyText
begin

text \<open>
  \<^verbatim>\<open>urllib.parse.urlsplit\<close> and \<^verbatim>\<open>urlunsplit\<close> of Python's standard library on ASCII
  texts, with the attributes the program reads: scheme, netloc, hostname, port and the
  credentials. The parse fails (\<^verbatim>\<open>ValueError\<close>) on unbalanced brackets; reading the port
  fails when it is not a decimal number of at most 65535.
\<close>

record split_url =
  u_scheme :: string
  u_netloc :: string
  u_path :: string
  u_query :: string
  u_fragment :: string

definition scheme_char :: "char \<Rightarrow> bool" where
  "scheme_char c \<longleftrightarrow> is_alnum c \<or> c \<in> {CHR ''+'', CHR ''-'', CHR ''.''}"

definition c0_control_or_space :: "char \<Rightarrow> bool" where
  "c0_control_or_space c \<longleftrightarrow> (of_char c :: nat) \<le> 32"

definition split_scheme :: "string \<Rightarrow> string \<times> string" where
  "split_scheme url =
     (case partition_at (CHR '':'') url of (pre, found, rest) \<Rightarrow>
        if found \<and> pre \<noteq> [] \<and> is_alpha (hd pre) \<and> list_all scheme_char pre
        then (lower pre, rest) else ([], url))"

definition netloc_end :: "char \<Rightarrow> bool" where
  "netloc_end c \<longleftrightarrow> c \<in> {CHR ''/'', CHR ''?'', CHR ''#''}"

definition split_netloc :: "string \<Rightarrow> string \<times> string" where
  "split_netloc url =
     (if starts_with url ''//''
      then (takeWhile (\<lambda>c. \<not> netloc_end c) (drop 2 url), dropWhile (\<lambda>c. \<not> netloc_end c) (drop 2 url))
      else ([], url))"

definition urlsplit :: "string \<Rightarrow> split_url option" where
  "urlsplit raw =
     (let url = filter (\<lambda>c. c \<notin> {CHR 0x09, CHR 0x0D, CHR 0x0A}) (lstrip_by c0_control_or_space raw);
          (scheme, rest) = split_scheme url;
          (netloc, rest) = split_netloc rest
      in if (CHR ''['' \<in> set netloc) \<noteq> (CHR '']'' \<in> set netloc) then None
         else let (rest, _, fragment) = partition_at (CHR ''#'') rest;
                  (path, _, query) = partition_at (CHR ''?'') rest
              in Some \<lparr>u_scheme = scheme, u_netloc = netloc, u_path = path, u_query = query,
                   u_fragment = fragment\<rparr>)"

text \<open>\<^verbatim>\<open>_userinfo\<close> and \<^verbatim>\<open>_hostinfo\<close>\<close>

definition username :: "split_url \<Rightarrow> string option" where
  "username u = (case rpartition_at (CHR ''@'') (u_netloc u) of (info, have, _) \<Rightarrow>
     if have then Some (fst (partition_at (CHR '':'') info)) else None)"

definition password :: "split_url \<Rightarrow> string option" where
  "password u = (case rpartition_at (CHR ''@'') (u_netloc u) of (info, have, _) \<Rightarrow>
     if have then (case partition_at (CHR '':'') info of (_, havep, p) \<Rightarrow>
       if havep then Some p else None) else None)"

definition hostinfo :: "split_url \<Rightarrow> string \<times> string" where
  "hostinfo u = (case rpartition_at (CHR ''@'') (u_netloc u) of (_, _, info) \<Rightarrow>
     case partition_at (CHR ''['') info of (_, open_br, bracketed) \<Rightarrow>
       if open_br then
         (case partition_at (CHR '']'') bracketed of (host, _, rest) \<Rightarrow>
            (host, snd (snd (partition_at (CHR '':'') rest))))
       else (case partition_at (CHR '':'') info of (host, _, prt) \<Rightarrow> (host, prt)))"

definition hostname :: "split_url \<Rightarrow> string option" where
  "hostname u = (case fst (hostinfo u) of [] \<Rightarrow> None
     | h \<Rightarrow> (case partition_at (CHR ''%'') h of (a, found, zone) \<Rightarrow>
         Some (lower a @ (if found then [CHR ''%''] else []) @ zone)))"

text \<open>\<open>Inl ()\<close> is the \<^verbatim>\<open>ValueError\<close> of reading the port.\<close>

definition port :: "split_url \<Rightarrow> unit + nat option" where
  "port u = (case snd (hostinfo u) of [] \<Rightarrow> Inr None
     | p \<Rightarrow> if list_all is_digit p \<and> str_nat p \<le> 65535 then Inr (Some (str_nat p)) else Inl ())"

definition uses_netloc :: "string set" where
  "uses_netloc = {'''', ''ftp'', ''http'', ''gopher'', ''nntp'', ''telnet'', ''imap'', ''wais'', ''file'',
     ''mms'', ''https'', ''shttp'', ''snews'', ''prospero'', ''rtsp'', ''rtsps'', ''rtspu'', ''rsync'',
     ''svn'', ''svn+ssh'', ''sftp'', ''nfs'', ''git'', ''git+ssh'', ''ws'', ''wss''}"

definition urlunsplit :: "split_url \<Rightarrow> string" where
  "urlunsplit u =
     (let url = u_path u;
          url = (if u_netloc u \<noteq> [] \<or> (u_scheme u \<noteq> [] \<and> u_scheme u \<in> uses_netloc) \<or> starts_with url ''//''
                 then ''//'' @ u_netloc u @ (if url \<noteq> [] \<and> hd url \<noteq> CHR ''/'' then ''/'' else []) @ url
                 else url);
          url = (if u_scheme u \<noteq> [] then u_scheme u @ '':'' @ url else url);
          url = (if u_query u \<noteq> [] then url @ ''?'' @ u_query u else url)
      in if u_fragment u \<noteq> [] then url @ ''#'' @ u_fragment u else url)"

section \<open>Query strings\<close>

text \<open>
  \<^verbatim>\<open>quote_plus\<close> and \<^verbatim>\<open>unquote_plus\<close>, and on them \<^verbatim>\<open>urlencode\<close> and \<^verbatim>\<open>parse_qsl\<close> with
  \<^verbatim>\<open>keep_blank_values\<close>. A text is read as its UTF-8 bytes here, on which both functions
  work; percent sequences that decode to malformed UTF-8 are outside the model.
\<close>

definition hex_digit :: "nat \<Rightarrow> char" where
  "hex_digit n = (if n < 10 then char_of (48 + n) else char_of (55 + n))"

definition hex_value :: "char \<Rightarrow> nat option" where
  "hex_value c = (let n = of_char c in
     if 48 \<le> n \<and> n \<le> 57 then Some (n - 48)
     else if 65 \<le> n \<and> n \<le> 70 then Some (n - 55)
     else if 97 \<le> n \<and> n \<le> 102 then Some (n - 87) else None)"

definition quote_safe :: "char \<Rightarrow> bool" where
  "quote_safe c \<longleftrightarrow> is_alnum c \<or> c \<in> {CHR ''_'', CHR ''.'', CHR ''-'', CHR ''~''}"

definition quote_char :: "char \<Rightarrow> string" where
  "quote_char c = (if quote_safe c then [c] else if c = CHR '' '' then ''+''
     else [CHR ''%'', hex_digit (of_char c div 16), hex_digit (of_char c mod 16)])"

definition quote_plus :: "string \<Rightarrow> string" where
  "quote_plus s = concat (map quote_char s)"

fun unquote :: "string \<Rightarrow> string" where
  "unquote (a # b # c # s) =
     (if a = CHR ''%'' then
        (case (hex_value b, hex_value c) of
           (Some x, Some y) \<Rightarrow> char_of (16 * x + y) # unquote s
         | _ \<Rightarrow> a # unquote (b # c # s))
      else a # unquote (b # c # s))"
| "unquote s = s"

definition unquote_plus :: "string \<Rightarrow> string" where
  "unquote_plus s = unquote (replace_char (CHR ''+'') (CHR '' '') s)"

definition urlencode :: "(string \<times> string) list \<Rightarrow> string" where
  "urlencode ps = join ''&'' (map (\<lambda>(k, v). quote_plus k @ ''='' @ quote_plus v) ps)"

definition parse_qsl :: "string \<Rightarrow> (string \<times> string) list" where
  "parse_qsl qs = map (\<lambda>f. case partition_at (CHR ''='') f of (k, _, v) \<Rightarrow>
       (unquote_plus k, unquote_plus v)) (filter (\<lambda>f. f \<noteq> []) (split_on (CHR ''&'') qs))"

lemma hostname_ne: "hostname u = Some h \<Longrightarrow> h \<noteq> []"
  by (cases "fst (hostinfo u)")
    (auto simp: hostname_def partition_at_def Let_def lower_def split: prod.splits if_splits)

end
