(* ===== verification/RetrievalRegistry.thy ===== *)
theory RetrievalRegistry
  imports RetrievalTypes Url
begin

text \<open>
  \<^verbatim>\<open>retrieval/registry.py\<close>: source definitions, the validation a registry applies to them
  on construction, selection of the enabled ones, the coverage report; and
  \<^verbatim>\<open>configured_registry\<close> of \<^verbatim>\<open>retrieval/orchestrator.py\<close>, which applies the environment
  (a map from variables to values). A \<^verbatim>\<open>ValueError\<close> is the \<open>Inl\<close> of its message.
\<close>

datatype source_class = OFFICIAL | ESTABLISHED_MEDIA | INDUSTRY

fun class_value :: "source_class \<Rightarrow> string" where
  "class_value OFFICIAL = ''official''"
| "class_value ESTABLISHED_MEDIA = ''established_media''"
| "class_value INDUSTRY = ''industry''"

datatype adapter_type = RSS | STRUCTURED_SANCTIONS | NEWSAPI | GDELT

datatype procurement_domain =
    SANCTIONS | REGULATION | LOGISTICS | COMMODITIES | FX | SUPPLIER_RISK | EUROPE_BUSINESS

fun domain_value :: "procurement_domain \<Rightarrow> string" where
  "domain_value SANCTIONS = ''sanctions''"
| "domain_value REGULATION = ''regulation''"
| "domain_value LOGISTICS = ''logistics''"
| "domain_value COMMODITIES = ''commodities''"
| "domain_value FX = ''fx''"
| "domain_value SUPPLIER_RISK = ''supplier_risk''"
| "domain_value EUROPE_BUSINESS = ''europe_business''"

definition procurement_domains :: "procurement_domain list" where
  "procurement_domains = [SANCTIONS, REGULATION, LOGISTICS, COMMODITIES, FX, SUPPLIER_RISK,
     EUROPE_BUSINESS]"

record source_definition =
  sd_source_id :: string
  sd_display_name :: string
  sd_homepage_url :: string
  sd_endpoint_url :: string
  sd_adapter :: adapter_type
  sd_source_class :: source_class
  sd_domains :: "procurement_domain set"
  sd_countries :: "string list"
  sd_languages :: "string list"
  sd_poll_minutes :: int
  sd_item_limit :: int
  sd_expected_content_types :: "string list"
  sd_allowed_hosts :: "string list"
  sd_trust_seed :: rat
  sd_license_note :: string
  sd_enabled_by_default :: bool
  sd_parser_hint :: "string option"

section \<open>Validation\<close>

definition lower_alnum :: "char \<Rightarrow> bool" where
  "lower_alnum c \<longleftrightarrow> is_lower c \<or> is_digit c"

text \<open>\<^verbatim>\<open>^[a-z][a-z0-9]*(?:_[a-z0-9]+)*$\<close>\<close>

definition source_id_ok :: "string \<Rightarrow> bool" where
  "source_id_ok s = (case split_on (CHR ''_'') s of [] \<Rightarrow> False
     | p # ps \<Rightarrow> p \<noteq> [] \<and> is_lower (hd p) \<and> list_all lower_alnum p
         \<and> list_all (\<lambda>q. q \<noteq> [] \<and> list_all lower_alnum q) ps)"

definition language_ok :: "string \<Rightarrow> bool" where
  "language_ok s \<longleftrightarrow> (length s = 2 \<or> length s = 3) \<and> list_all is_lower s"

definition country_ok :: "string \<Rightarrow> bool" where
  "country_ok s \<longleftrightarrow> length s = 2 \<and> list_all is_lower s"

definition https_url_error :: "string \<Rightarrow> string \<Rightarrow> string option" where
  "https_url_error label url = (case urlsplit url of
       None \<Rightarrow> Some ''Invalid IPv6 URL''
     | Some u \<Rightarrow>
         if u_scheme u \<noteq> ''https'' \<or> hostname u = None
         then Some (label @ '' must be an absolute https URL'')
         else if truthy (username u) \<or> truthy (password u)
         then Some (label @ '' must not contain credentials'')
         else None)"

text \<open>The first check that fails names the error; \<open>None\<close> is a valid definition.\<close>

definition first_error :: "(bool \<times> string) list \<Rightarrow> string option" where
  "first_error cs = map_option snd (List.find fst cs)"

definition validate_source :: "source_definition \<Rightarrow> string option" where
  "validate_source s =
     (case first_error
        [(\<not> source_id_ok (sd_source_id s), ''source_id must be stable lowercase snake_case''),
         (strip (sd_display_name s) = [], ''display_name must not be empty''),
         (sd_domains s = {}, ''domains must contain ProcurementDomain values''),
         (sd_languages s = [] \<or> \<not> list_all language_ok (sd_languages s),
            ''languages must contain lowercase ISO-like tokens''),
         (sd_countries s = [] \<or> \<not> list_all country_ok (sd_countries s),
            ''countries must contain lowercase ISO-like tokens''),
         (\<not> (5 \<le> sd_poll_minutes s \<and> sd_poll_minutes s \<le> 1440),
            ''poll_minutes must be between 5 and 1440''),
         (\<not> (1 \<le> sd_item_limit s \<and> sd_item_limit s \<le> 100),
            ''item_limit must be between 1 and 100''),
         (\<not> (0 \<le> sd_trust_seed s \<and> sd_trust_seed s \<le> 1), ''trust_seed must be between 0 and 1''),
         (strip (sd_license_note s) = [], ''license_note must not be empty''),
         (sd_expected_content_types s = [] \<or> list_ex (\<lambda>t. strip t = []) (sd_expected_content_types s),
            ''expected_content_types must not be empty''),
         (sd_allowed_hosts s = [] \<or> list_ex (\<lambda>h. h \<noteq> lower h \<or> strip h = []) (sd_allowed_hosts s),
            ''allowed_hosts must contain normalized hostnames'')] of
        Some e \<Rightarrow> Some e
      | None \<Rightarrow>
         (case https_url_error ''homepage_url'' (sd_homepage_url s) of
            Some e \<Rightarrow> Some e
          | None \<Rightarrow>
             (case https_url_error ''endpoint_url'' (sd_endpoint_url s) of
                Some e \<Rightarrow> Some e
              | None \<Rightarrow>
                 (case urlsplit (sd_endpoint_url s) of
                    None \<Rightarrow> Some ''Invalid IPv6 URL''
                  | Some u \<Rightarrow>
                      (case hostname u of
                         Some h \<Rightarrow> if h \<in> set (sd_allowed_hosts s) then None
                                   else Some ''endpoint host must be present in allowed_hosts''
                       | None \<Rightarrow> Some ''endpoint host must be present in allowed_hosts'')))))"

fun check_sources :: "string set \<Rightarrow> source_definition list \<Rightarrow> string option" where
  "check_sources seen [] = None"
| "check_sources seen (s # ss) =
     (if sd_source_id s \<in> seen then Some (''duplicate source_id: '' @ sd_source_id s)
      else case validate_source s of
        Some e \<Rightarrow> Some e
      | None \<Rightarrow> check_sources (insert (sd_source_id s) seen) ss)"

text \<open>A \<^verbatim>\<open>SourceRegistry\<close> is the list of its sources; building one may be refused.\<close>

definition make_registry :: "source_definition list \<Rightarrow> string + source_definition list" where
  "make_registry ss = (case check_sources {} ss of Some e \<Rightarrow> Inl e | None \<Rightarrow> Inr ss)"

definition enabled :: "string set option \<Rightarrow> source_definition list \<Rightarrow> source_definition list" where
  "enabled ids ss = sort_key sd_source_id
     (filter (\<lambda>s. sd_enabled_by_default s
        \<and> (case ids of None \<Rightarrow> True | Some i \<Rightarrow> sd_source_id s \<in> i)) ss)"

record coverage_report =
  covered_domains :: "procurement_domain list"
  authoritative_domains :: "procurement_domain list"
  missing_domains :: "procurement_domain list"
  missing_authoritative_domains :: "procurement_domain list"
  missing_structured_authoritative_domains :: "procurement_domain list"

definition validate_coverage :: "source_definition list \<Rightarrow> coverage_report" where
  "validate_coverage ss =
     (let en = enabled None ss;
          doms = (\<lambda>p. \<Union> (sd_domains ` set (filter p en)));
          covered = doms (\<lambda>_. True);
          authoritative = doms (\<lambda>s. sd_source_class s = OFFICIAL);
          structured = doms (\<lambda>s. sd_source_class s = OFFICIAL
                               \<and> sd_adapter s = STRUCTURED_SANCTIONS)
      in \<lparr>covered_domains = filter (\<lambda>d. d \<in> covered) procurement_domains,
          authoritative_domains = filter (\<lambda>d. d \<in> authoritative) procurement_domains,
          missing_domains = filter (\<lambda>d. d \<notin> covered) procurement_domains,
          missing_authoritative_domains = filter (\<lambda>d. d \<notin> authoritative) [SANCTIONS, REGULATION],
          missing_structured_authoritative_domains =
            (if SANCTIONS \<in> structured then [] else [SANCTIONS])\<rparr>)"

section \<open>The environment\<close>

definition wide_domains :: "procurement_domain set" where
  "wide_domains = {REGULATION, LOGISTICS, SUPPLIER_RISK, EUROPE_BUSINESS}"

definition newsapi_source :: source_definition where
  "newsapi_source = \<lparr>sd_source_id = ''newsapi'', sd_display_name = ''NewsAPI'',
     sd_homepage_url = ''https://newsapi.org/'',
     sd_endpoint_url = ''https://newsapi.org/v2/everything'', sd_adapter = NEWSAPI,
     sd_source_class = ESTABLISHED_MEDIA, sd_domains = wide_domains, sd_countries = [''eu''],
     sd_languages = [''en''], sd_poll_minutes = 360, sd_item_limit = 100,
     sd_expected_content_types = [''application/json''], sd_allowed_hosts = [''newsapi.org''],
     sd_trust_seed = 65 / 100,
     sd_license_note = ''Configured NewsAPI account; retain publisher attribution.'',
     sd_enabled_by_default = True, sd_parser_hint = None\<rparr>"

definition gdelt_source :: source_definition where
  "gdelt_source = \<lparr>sd_source_id = ''gdelt'', sd_display_name = ''GDELT'',
     sd_homepage_url = ''https://www.gdeltproject.org/'',
     sd_endpoint_url = ''https://api.gdeltproject.org/api/v2/doc/doc'', sd_adapter = GDELT,
     sd_source_class = ESTABLISHED_MEDIA, sd_domains = wide_domains, sd_countries = [''us''],
     sd_languages = [''en''], sd_poll_minutes = 360, sd_item_limit = 100,
     sd_expected_content_types = [''application/json''],
     sd_allowed_hosts = [''api.gdeltproject.org''], sd_trust_seed = 65 / 100,
     sd_license_note = ''GDELT public API metadata with original publisher links.'',
     sd_enabled_by_default = True, sd_parser_hint = None\<rparr>"

fun apply_overrides ::
  "(string \<Rightarrow> string option) \<Rightarrow> source_definition list \<Rightarrow> string + source_definition list" where
  "apply_overrides env [] = Inr []"
| "apply_overrides env (s # ss) =
     (let var = ''SOURCE_'' @ upper (sd_source_id s) @ ''_ENABLED'' in
      case env var of
        None \<Rightarrow> map_sum id ((#) s) (apply_overrides env ss)
      | Some raw \<Rightarrow>
          (let v = lower (strip raw) in
           if v \<noteq> ''true'' \<and> v \<noteq> ''false'' then Inl (var @ '' must be true or false'')
           else map_sum id ((#) (s\<lparr>sd_enabled_by_default := (v = ''true'')\<rparr>))
                  (apply_overrides env ss)))"

definition configured_registry ::
  "(string \<Rightarrow> string option) \<Rightarrow> source_definition list \<Rightarrow> string + source_definition list" where
  "configured_registry env base =
     (let additions = (if truthy (env ''NEWSAPI_KEY'') then [newsapi_source] else [])
          @ (if lower (case env ''GDELT_ENABLED'' of None \<Rightarrow> ''false'' | Some v \<Rightarrow> v) = ''true''
             then [gdelt_source] else [])
      in case apply_overrides env (base @ additions) of
           Inl e \<Rightarrow> Inl e
         | Inr ss \<Rightarrow> make_registry ss)"

section \<open>What a registry guarantees\<close>

lemma first_error_None: "first_error cs = None \<longleftrightarrow> (\<forall>(b, m) \<in> set cs. \<not> b)"
  by (auto simp: first_error_def find_None_iff)

lemma https_url_error_None:
  "https_url_error l url = None \<longleftrightarrow> (\<exists>u h. urlsplit url = Some u \<and> u_scheme u = ''https''
     \<and> hostname u = Some h \<and> \<not> truthy (username u) \<and> \<not> truthy (password u))"
  by (auto simp: https_url_error_def split: option.split)

lemma validate_source_None:
  assumes "validate_source s = None"
  shows "source_id_ok (sd_source_id s)" and "5 \<le> sd_poll_minutes s" and "sd_poll_minutes s \<le> 1440"
    and "1 \<le> sd_item_limit s" and "sd_item_limit s \<le> 100"
    and "0 \<le> sd_trust_seed s" and "sd_trust_seed s \<le> 1" and "sd_domains s \<noteq> {}"
    and "\<exists>u h. urlsplit (sd_endpoint_url s) = Some u \<and> u_scheme u = ''https''
      \<and> hostname u = Some h \<and> h \<in> set (sd_allowed_hosts s)"
    and "\<forall>h \<in> set (sd_allowed_hosts s). lower h = h"
  using assms unfolding validate_source_def
  by (auto simp: first_error_None https_url_error_None list_ex_iff
      split: option.splits if_splits)

lemma check_sources_None:
  "check_sources seen ss = None \<Longrightarrow>
    list_all (\<lambda>s. validate_source s = None) ss \<and> distinct (map sd_source_id ss)
    \<and> sd_source_id ` set ss \<inter> seen = {}"
proof (induction ss arbitrary: seen)
  case (Cons s ss)
  then have "check_sources (insert (sd_source_id s) seen) ss = None" "sd_source_id s \<notin> seen"
    "validate_source s = None"
    by (auto split: if_splits option.splits)
  with Cons.IH [of "insert (sd_source_id s) seen"] show ?case by auto
qed simp

lemma make_registry_Inr:
  assumes "make_registry ss = Inr rs"
  shows "rs = ss" and "list_all (\<lambda>s. validate_source s = None) rs" and "distinct (map sd_source_id rs)"
  using assms check_sources_None [of "{}" ss] by (auto simp: make_registry_def split: option.splits)

lemma sorted_enabled: "sorted (map sd_source_id (enabled ids ss))"
  by (simp add: enabled_def)

lemma set_enabled:
  "set (enabled ids ss) = {s \<in> set ss. sd_enabled_by_default s
     \<and> (case ids of None \<Rightarrow> True | Some i \<Rightarrow> sd_source_id s \<in> i)}"
  by (simp add: enabled_def)

lemma distinct_enabled:
  assumes "distinct (map sd_source_id ss)"
  shows "distinct (map sd_source_id (enabled ids ss))"
proof -
  have "distinct (map sd_source_id (filter p ss))" for p
    using assms by (simp add: distinct_map_filter)
  then have "distinct (sort (map sd_source_id (filter p ss)))" for p
    by simp
  moreover have "mset (map sd_source_id (sort_key sd_source_id xs)) = mset (map sd_source_id xs)" for xs
    by simp
  ultimately show ?thesis
    by (metis (no_types, lifting) distinct_sort enabled_def mset_eq_imp_distinct_iff)
qed

lemma apply_overrides_Inr:
  "apply_overrides env ss = Inr rs \<Longrightarrow>
    map (\<lambda>s. s\<lparr>sd_enabled_by_default := True\<rparr>) rs = map (\<lambda>s. s\<lparr>sd_enabled_by_default := True\<rparr>) ss"
proof (induction ss arbitrary: rs)
  case (Cons s ss)
  then show ?case
    by (auto simp: Let_def map_sum_def split: option.splits if_splits sum.splits)
qed simp

end
