(* ===== verification/RetrievalFetching.thy ===== *)
theory RetrievalFetching
  imports RetrievalRegistry RetrievalInterfaces
begin

text \<open>
  \<^verbatim>\<open>retrieval/security.py\<close> and \<^verbatim>\<open>retrieval/fetching.py\<close>: the URL policy, DNS pinning,
  one attempt with its redirects, and the bounded retry loop.

  Everything outside the program is the environment, indexed by the number of the
  request it is asked at, so that DNS answers, responses and the clock may change from
  one request to the next. It is arbitrary: no theorem restricts it. What the code calls
  of \<^verbatim>\<open>ipaddress\<close>, \<^verbatim>\<open>urljoin\<close>, \<^verbatim>\<open>float\<close>, \<^verbatim>\<open>email.utils\<close> and of \<^verbatim>\<open>httpx\<close> is part of it.
\<close>

section \<open>The environment\<close>

text \<open>
  What \<^verbatim>\<open>httpx\<close> reports of one exchange: it fails, or delivers a response whose body
  arrives in chunks and may break off with an error after the last of them.
\<close>

record response =
  rsp_is_redirect :: bool
  rsp_status :: int
  rsp_location :: "string option"
  rsp_retry_after :: "string option"
  rsp_content_type :: string
  rsp_chunks :: "string list"
  rsp_broken :: bool

datatype exchange = TransportError | Responded response

type_synonym params = "(string \<times> string) list option"

text \<open>\<^verbatim>\<open>float(value)\<close>: no number, a number that is not finite, or a number.\<close>

datatype parsed_float = NotFloat | NonFinite | Finite rat

record 'ip net =
  parse_ip :: "string \<Rightarrow> 'ip option"
  ipv4_mapped :: "'ip \<Rightarrow> 'ip option"
  is_global :: "'ip \<Rightarrow> bool"
  resolve :: "nat \<Rightarrow> string \<Rightarrow> nat \<Rightarrow> 'ip list option"
  exchange_of :: "nat \<Rightarrow> string \<Rightarrow> params \<Rightarrow> exchange"
  join_url :: "string \<Rightarrow> string \<Rightarrow> string option"
  utc_now :: "nat \<Rightarrow> datetime"
  jitter :: "nat \<Rightarrow> rat"
  read_float :: "string \<Rightarrow> parsed_float"
  read_http_date :: "string \<Rightarrow> datetime option"

section \<open>The URL policy\<close>

record 'ip validated_url =
  v_url :: string
  v_host :: string
  v_port :: nat
  v_addresses :: "'ip list"

text \<open>
  \<open>MalformedURL\<close> is a \<^verbatim>\<open>ValueError\<close> of URL parsing, \<open>FetcherClosed\<close> the
  \<^verbatim>\<open>RuntimeError\<close> of a closed fetcher, \<open>Unreachable\<close> the \<^verbatim>\<open>AssertionError\<close> after the loop.
\<close>

datatype fetch_error = UnsafeURL | MalformedURL | FetcherClosed | Unreachable

definition is_public :: "'ip net \<Rightarrow> 'ip \<Rightarrow> bool" where
  "is_public net a = is_global net (case ipv4_mapped net a of Some c \<Rightarrow> c | None \<Rightarrow> a)"

definition strip_dots :: "string \<Rightarrow> string" where
  "strip_dots h = rstrip_by (\<lambda>c. c = CHR ''.'') h"

definition normalize_host :: "string \<Rightarrow> string" where
  "normalize_host h = lower (strip_dots h)"

definition validate_url ::
  "'ip net \<Rightarrow> nat \<Rightarrow> string \<Rightarrow> string list \<Rightarrow> fetch_error + 'ip validated_url" where
  "validate_url net k url allowed =
     (case urlsplit url of
        None \<Rightarrow> Inl MalformedURL
      | Some u \<Rightarrow>
          (case hostname u of
             None \<Rightarrow> Inl UnsafeURL
           | Some host \<Rightarrow>
               if u_scheme u \<noteq> ''https'' \<or> username u \<noteq> None \<or> password u \<noteq> None
                  \<or> normalize_host host \<notin> normalize_host ` set allowed
               then Inl UnsafeURL
               else (case port u of
                 Inl _ \<Rightarrow> Inl MalformedURL
               | Inr p \<Rightarrow>
                   (let prt = (case p of Some n \<Rightarrow> if n = 0 then 443 else n | None \<Rightarrow> 443);
                        addresses = (case parse_ip net host of
                          Some a \<Rightarrow> Some [a]
                        | None \<Rightarrow> resolve net k host prt)
                    in case addresses of
                         None \<Rightarrow> Inl UnsafeURL
                       | Some as \<Rightarrow>
                           if as = [] \<or> list_ex (\<lambda>a. \<not> is_public net a) as then Inl UnsafeURL
                           else Inr \<lparr>v_url = url, v_host = lower host, v_port = prt,
                                      v_addresses = as\<rparr>))))"

section \<open>Pinned connections\<close>

text \<open>
  \<^verbatim>\<open>PinnedNetworkBackend\<close>: the addresses approved for each host, and a connection that
  tries them in order. \<open>dial i a\<close> says whether the attempt on address \<open>a\<close> at position
  \<open>i\<close> succeeds, \<open>elapsed i\<close> how long the connection has been going on by then. The result
  is the address connected to, if any, with the addresses dialled.
\<close>

definition approve :: "'ip validated_url \<Rightarrow> (string \<Rightarrow> 'ip list option) \<Rightarrow> string \<Rightarrow> 'ip list option" where
  "approve v pinned = pinned(v_host v \<mapsto> v_addresses v)"

fun dial_all ::
  "(nat \<Rightarrow> 'ip \<Rightarrow> bool) \<Rightarrow> (nat \<Rightarrow> rat) \<Rightarrow> rat option \<Rightarrow> nat \<Rightarrow> 'ip list \<Rightarrow> 'ip option \<times> 'ip list" where
  "dial_all dial elapsed timeout i [] = (None, [])"
| "dial_all dial elapsed timeout i (a # as) =
     (if (case timeout of None \<Rightarrow> False | Some t \<Rightarrow> max 0 (t - elapsed i) = 0) then (None, [])
      else if dial i a then (Some a, [a])
      else (case dial_all dial elapsed timeout (Suc i) as of (r, ds) \<Rightarrow> (r, a # ds)))"

definition connect_tcp ::
  "(nat \<Rightarrow> 'ip \<Rightarrow> bool) \<Rightarrow> (nat \<Rightarrow> rat) \<Rightarrow> rat option \<Rightarrow> (string \<Rightarrow> 'ip list option) \<Rightarrow> string
     \<Rightarrow> 'ip option \<times> 'ip list" where
  "connect_tcp dial elapsed timeout pinned host =
     (case pinned host of
        None \<Rightarrow> (None, [])
      | Some as \<Rightarrow> dial_all dial elapsed timeout 0 as)"

section \<open>One attempt\<close>

record fetcher =
  f_owner :: string
  f_max_response_bytes :: int
  f_max_attempts :: int
  f_max_redirects :: int
  f_defer_success :: bool
  f_closed :: bool

text \<open>The constructor refuses bounds that are not positive and clamps the others.\<close>

definition make_fetcher :: "string \<Rightarrow> int \<Rightarrow> int \<Rightarrow> int \<Rightarrow> bool \<Rightarrow> fetcher option" where
  "make_fetcher owner max_bytes max_attempts max_redirects defer =
     (if max_attempts \<le> 0 \<or> max_bytes \<le> 0 then None
      else Some \<lparr>f_owner = owner, f_max_response_bytes = min max_bytes (5 * 1024 * 1024),
        f_max_attempts = min max_attempts 3, f_max_redirects = min max_redirects 3,
        f_defer_success = defer, f_closed = False\<rparr>)"

definition aclose :: "fetcher \<Rightarrow> fetcher" where
  "aclose f = (if f_closed f then f else f\<lparr>f_closed := True\<rparr>)"

definition parse_retry_after :: "'ip net \<Rightarrow> string option \<Rightarrow> datetime \<Rightarrow> rat option" where
  "parse_retry_after net value now =
     (case value of
        None \<Rightarrow> None
      | Some v \<Rightarrow>
          (case read_float net v of
             Finite s \<Rightarrow> Some (min 900 (max 0 s))
           | NonFinite \<Rightarrow> None
           | NotFloat \<Rightarrow>
               (case read_http_date net v of
                  None \<Rightarrow> None
                | Some d \<Rightarrow> Some (min 900 (max 0 (of_int (d - now) / 1000000))))))"

text \<open>
  The body is read chunk by chunk: \<open>Inl n\<close> when it has grown beyond the bound to \<open>n\<close>
  bytes, otherwise the whole content.
\<close>

fun read_body :: "int \<Rightarrow> string \<Rightarrow> string list \<Rightarrow> nat + string" where
  "read_body bound got [] = Inr got"
| "read_body bound got (c # cs) =
     (if bound < int (length (got @ c)) then Inl (length (got @ c))
      else read_body bound (got @ c) cs)"

definition content_type_of :: "response \<Rightarrow> string" where
  "content_type_of r = lower (fst (partition_at (CHR '';'') (rsp_content_type r)))"

text \<open>What a response that is not a redirect amounts to.\<close>

definition final_result ::
  "'ip net \<Rightarrow> fetcher \<Rightarrow> source_definition \<Rightarrow> nat \<Rightarrow> string \<Rightarrow> response \<Rightarrow> fetch_result" where
  "final_result net f src k url r =
     (if rsp_status r = 429 then (failed_with RATE_LIMITED)\<lparr>fr_status_code := Some 429,
         fr_retry_after_seconds := parse_retry_after net (rsp_retry_after r) (utc_now net k)\<rparr>
      else if 500 \<le> rsp_status r \<and> rsp_status r < 600
      then (failed_with TRANSIENT_HTTP_STATUS)\<lparr>fr_status_code := Some (rsp_status r)\<rparr>
      else if 400 \<le> rsp_status r
      then (failed_with HTTP_STATUS)\<lparr>fr_status_code := Some (rsp_status r)\<rparr>
      else if content_type_of r \<notin> lower ` set (sd_expected_content_types src)
      then (failed_with UNEXPECTED_CONTENT_TYPE)\<lparr>fr_status_code := Some (rsp_status r)\<rparr>
      else (case read_body (f_max_response_bytes f) [] (rsp_chunks r) of
              Inl n \<Rightarrow> (failed_with OVERSIZED_RESPONSE)\<lparr>fr_response_bytes := n\<rparr>
            | Inr content \<Rightarrow>
                if rsp_broken r then failed_with NETWORK_ERROR
                else \<lparr>fr_content = Some content, fr_content_type = Some (content_type_of r),
                  fr_final_url = Some url, fr_status_code = Some (rsp_status r),
                  fr_failure_code = None, fr_retry_after_seconds = None,
                  fr_response_bytes = length content\<rparr>))"

text \<open>
  \<^verbatim>\<open>_attempt\<close>: \<open>hops\<close> requests are left. The result comes with the requests sent (each a
  validated URL) and the number of the next one; \<open>Inl MalformedURL\<close> is a \<^verbatim>\<open>ValueError\<close>
  of URL parsing, which the code does not catch.
\<close>

fun attempt ::
  "'ip net \<Rightarrow> fetcher \<Rightarrow> source_definition \<Rightarrow> nat \<Rightarrow> nat \<Rightarrow> string \<Rightarrow> params
     \<Rightarrow> (fetch_error + fetch_result) \<times> 'ip validated_url list \<times> nat" where
  "attempt net f src 0 k url ps = (Inr (failed_with TOO_MANY_REDIRECTS), [], k)"
| "attempt net f src (Suc hops) k url ps =
     (case validate_url net k url (sd_allowed_hosts src) of
        Inl e \<Rightarrow> (if e = UnsafeURL then Inr (failed_with UNSAFE_URL) else Inl e, [], Suc k)
      | Inr v \<Rightarrow>
          (case exchange_of net k url ps of
             TransportError \<Rightarrow> (Inr (failed_with NETWORK_ERROR), [v], Suc k)
           | Responded r \<Rightarrow>
               if rsp_is_redirect r then
                 (if \<not> truthy (rsp_location r)
                  then (Inr (failed_with HTTP_STATUS), [v], Suc k)
                  else case join_url net url (the (rsp_location r)) of
                    None \<Rightarrow> (Inl MalformedURL, [v], Suc k)
                  | Some url' \<Rightarrow>
                      (case attempt net f src hops (Suc k) url' None of
                         (res, vs, k') \<Rightarrow> (res, v # vs, k')))
               else (Inr (final_result net f src k url r), [v], Suc k)))"

section \<open>The retry loop\<close>

definition retryable :: "fetch_result \<Rightarrow> bool" where
  "retryable r \<longleftrightarrow>
     fr_failure_code r \<in> {Some NETWORK_ERROR, Some RATE_LIMITED, Some TRANSIENT_HTTP_STATUS}"

definition retry_delay :: "'ip net \<Rightarrow> nat \<Rightarrow> nat \<Rightarrow> fetch_result \<Rightarrow> rat" where
  "retry_delay net k att r =
     (let delay = (case fr_retry_after_seconds r of
          Some d \<Rightarrow> d
        | None \<Rightarrow> (let base = min (2 ^ att) 30
                   in base + min (min (max 0 (jitter net k)) (base * (1 / 4))) 5))
      in min delay 900)"

record ('ip, 's) fetched =
  ft_result :: "fetch_error + fetch_result"
  ft_requests :: "'ip validated_url list"
  ft_sleeps :: "rat list"
  ft_store :: 's

text \<open>\<open>left\<close> attempts remain, this one is number \<open>att\<close>.\<close>

fun fetch_loop ::
  "(string \<Rightarrow> datetime \<Rightarrow> 's \<Rightarrow> 's) \<Rightarrow> (string \<Rightarrow> string \<Rightarrow> 's \<Rightarrow> bool \<times> 's) \<Rightarrow> 'ip net
     \<Rightarrow> fetcher \<Rightarrow> source_definition \<Rightarrow> params \<Rightarrow> nat \<Rightarrow> nat \<Rightarrow> nat \<Rightarrow> 's \<Rightarrow> ('ip, 's) fetched" where
  "fetch_loop fail succeed net f src ps 0 att k s =
     \<lparr>ft_result = Inl Unreachable, ft_requests = [], ft_sleeps = [], ft_store = s\<rparr>"
| "fetch_loop fail succeed net f src ps (Suc left) att k s =
     (case attempt net f src (nat (f_max_redirects f + 1)) k (sd_endpoint_url src) ps of
        (Inl e, vs, k') \<Rightarrow>
          \<lparr>ft_result = Inl e, ft_requests = vs, ft_sleeps = [], ft_store = s\<rparr>
      | (Inr r, vs, k') \<Rightarrow>
          if result_ok r then
            \<lparr>ft_result = Inr r, ft_requests = vs, ft_sleeps = [],
              ft_store = (if f_defer_success f then s
                          else snd (succeed (sd_source_id src) (f_owner f) s))\<rparr>
          else if \<not> retryable r \<or> left = 0 then
            \<lparr>ft_result = Inr r, ft_requests = vs, ft_sleeps = [],
              ft_store = fail (sd_source_id src) (utc_now net k') s\<rparr>
          else (let x = fetch_loop fail succeed net f src ps left (Suc att) k' s
                in x\<lparr>ft_requests := vs @ ft_requests x,
                     ft_sleeps := retry_delay net k' att r # ft_sleeps x\<rparr>))"

definition fetch ::
  "(string \<Rightarrow> string \<Rightarrow> datetime \<Rightarrow> 's \<Rightarrow> bool \<times> 's) \<Rightarrow> (string \<Rightarrow> datetime \<Rightarrow> 's \<Rightarrow> 's)
     \<Rightarrow> (string \<Rightarrow> string \<Rightarrow> 's \<Rightarrow> bool \<times> 's) \<Rightarrow> 'ip net \<Rightarrow> fetcher \<Rightarrow> source_definition \<Rightarrow> params
     \<Rightarrow> nat \<Rightarrow> 's \<Rightarrow> ('ip, 's) fetched" where
  "fetch allow fail succeed net f src ps k s =
     (if f_closed f then
        \<lparr>ft_result = Inl FetcherClosed, ft_requests = [], ft_sleeps = [], ft_store = s\<rparr>
      else case allow (sd_source_id src) (f_owner f) (utc_now net k) s of
        (False, s') \<Rightarrow> \<lparr>ft_result = Inr (failed_with CIRCUIT_OPEN), ft_requests = [],
                         ft_sleeps = [], ft_store = s'\<rparr>
      | (True, s') \<Rightarrow> fetch_loop fail succeed net f src ps (nat (f_max_attempts f)) 0 k s')"

section \<open>Safety of the requests\<close>

text \<open>What every request the fetcher sends has in common.\<close>

definition safe_request :: "'ip net \<Rightarrow> string list \<Rightarrow> 'ip validated_url \<Rightarrow> bool" where
  "safe_request net allowed v \<longleftrightarrow>
     v_addresses v \<noteq> [] \<and> list_all (is_public net) (v_addresses v)
   \<and> (\<exists>u h. urlsplit (v_url v) = Some u \<and> u_scheme u = ''https'' \<and> hostname u = Some h
        \<and> username u = None \<and> password u = None
        \<and> normalize_host h \<in> normalize_host ` set allowed)"

lemma validate_url_safe:
  assumes "validate_url net k url allowed = Inr v"
  shows "safe_request net allowed v" and "v_url v = url"
  using assms unfolding validate_url_def safe_request_def
  by (auto simp: Let_def list_ex_iff list_all_iff split: option.splits sum.splits if_splits)

lemma attempt_requests_safe:
  "attempt net f src hops k url ps = (res, vs, k') \<Longrightarrow>
    list_all (safe_request net (sd_allowed_hosts src)) vs \<and> length vs \<le> hops"
proof (induction net f src hops k url ps arbitrary: res vs k' rule: attempt.induct)
  case (2 net f src hops k url ps)
  from "2.prems" "2.IH" show ?case
    by (auto dest: validate_url_safe split: sum.splits exchange.splits if_splits option.splits
        prod.splits)
qed simp

lemma fetch_loop_requests:
  "list_all (safe_request net (sd_allowed_hosts src))
       (ft_requests (fetch_loop fail succeed net f src ps left att k s))
   \<and> length (ft_requests (fetch_loop fail succeed net f src ps left att k s))
       \<le> left * nat (f_max_redirects f + 1)
   \<and> length (ft_sleeps (fetch_loop fail succeed net f src ps left att k s)) \<le> left - 1"
proof (induction left arbitrary: att k s)
  case (Suc left)
  obtain res vs k' where a: "attempt net f src (nat (f_max_redirects f + 1)) k
      (sd_endpoint_url src) ps = (res, vs, k')"
    by (metis prod_cases3)
  note safe = attempt_requests_safe [OF a]
  from Suc.IH [of "Suc att" k' s] safe a show ?case
    by (auto simp: Let_def split: sum.split)
qed simp

section \<open>Bounds\<close>

lemma parse_retry_after_bounds:
  "parse_retry_after net v now = Some d \<Longrightarrow> 0 \<le> d \<and> d \<le> 900"
  by (auto simp: parse_retry_after_def split: option.splits parsed_float.splits)

lemma final_result_retry:
  "fr_retry_after_seconds (final_result net f src k url r) = Some d \<Longrightarrow> 0 \<le> d \<and> d \<le> 900"
  by (auto simp: final_result_def dest: parse_retry_after_bounds split: if_splits sum.splits)

lemma attempt_retry:
  "attempt net f src hops k url ps = (Inr r, vs, k') \<Longrightarrow>
    fr_retry_after_seconds r = Some d \<Longrightarrow> 0 \<le> d \<and> d \<le> 900"
proof (induction net f src hops k url ps arbitrary: r vs k' rule: attempt.induct)
  case (2 net f src hops k url ps)
  from "2.prems" "2.IH" show ?case
    by (auto dest: final_result_retry split: sum.splits exchange.splits
        if_splits option.splits prod.splits)
qed simp

lemma read_body_bound: "read_body bound got cs = Inr content \<Longrightarrow> int (length got) \<le> bound \<Longrightarrow>
    int (length content) \<le> bound \<and> content = got @ concat cs"
  by (induction bound got cs rule: read_body.induct) (auto split: if_splits)

lemma final_result_content:
  assumes "fr_content (final_result net f src k url r) = Some c" "0 \<le> f_max_response_bytes f"
  shows "int (length c) \<le> f_max_response_bytes f"
  using assms read_body_bound [of "f_max_response_bytes f" "[]" "rsp_chunks r"]
  by (auto simp: final_result_def split: if_splits sum.splits)

lemma attempt_content:
  "attempt net f src hops k url ps = (Inr r, vs, k') \<Longrightarrow> fr_content r = Some c \<Longrightarrow>
    0 \<le> f_max_response_bytes f \<Longrightarrow> int (length c) \<le> f_max_response_bytes f"
proof (induction net f src hops k url ps arbitrary: r vs k' rule: attempt.induct)
  case (2 net f src hops k url ps)
  from "2.prems" "2.IH" show ?case
    by (auto dest: final_result_content split: sum.splits exchange.splits
        if_splits option.splits prod.splits)
qed simp

lemma retry_delay_bounds:
  assumes "\<And>d. fr_retry_after_seconds r = Some d \<Longrightarrow> 0 \<le> d"
  shows "0 \<le> retry_delay net k att r \<and> retry_delay net k att r \<le> 900"
proof (cases "fr_retry_after_seconds r")
  case None
  have "(0::rat) \<le> min (2 ^ att) 30" by simp
  then have "0 \<le> min (2 ^ att) 30 + min (min (max 0 (jitter net k)) (min (2 ^ att) 30 * (1 / 4))) 5"
    by (smt (verit) add_nonneg_nonneg max.cobounded1 min_def mult_nonneg_nonneg
        zero_le_divide_1_iff zero_le_numeral)
  with None show ?thesis by (simp add: retry_delay_def Let_def)
next
  case (Some d)
  with assms [OF Some] show ?thesis by (simp add: retry_delay_def)
qed

lemma fetch_loop_sleeps:
  "d \<in> set (ft_sleeps (fetch_loop fail succeed net f src ps left att k s)) \<Longrightarrow> 0 \<le> d \<and> d \<le> 900"
proof (induction left arbitrary: att k s)
  case (Suc left)
  obtain res vs k' where a: "attempt net f src (nat (f_max_redirects f + 1)) k
      (sd_endpoint_url src) ps = (res, vs, k')"
    by (metis prod_cases3)
  show ?case
  proof (cases res)
    case (Inr r)
    have "0 \<le> retry_delay net k' att r \<and> retry_delay net k' att r \<le> 900"
      using a Inr attempt_retry by (intro retry_delay_bounds) blast
    with Suc a Inr show ?thesis by (auto simp: Let_def split: if_splits)
  qed (use Suc a in simp)
qed simp

lemma fetch_loop_content:
  "ft_result (fetch_loop fail succeed net f src ps left att k s) = Inr r \<Longrightarrow>
    fr_content r = Some c \<Longrightarrow> 0 \<le> f_max_response_bytes f \<Longrightarrow> int (length c) \<le> f_max_response_bytes f"
proof (induction left arbitrary: att k s)
  case (Suc left)
  then show ?case
    by (auto simp: Let_def split: prod.splits sum.splits if_splits dest: attempt_content)
qed simp

lemma validate_url_error: "validate_url net k url allowed = Inl e \<Longrightarrow> e = UnsafeURL \<or> e = MalformedURL"
  by (auto simp: validate_url_def Let_def split: option.splits sum.splits if_splits)

lemma attempt_error:
  "attempt net f src hops k url ps = (Inl e, vs, k') \<Longrightarrow> e = MalformedURL"
proof (induction net f src hops k url ps arbitrary: vs k' rule: attempt.induct)
  case (2 net f src hops k url ps)
  from "2.prems" "2.IH" show ?case
    by (auto dest: validate_url_error split: sum.splits exchange.splits if_splits option.splits
        prod.splits)
qed simp

lemma fetch_loop_error:
  "0 < left \<Longrightarrow> ft_result (fetch_loop fail succeed net f src ps left att k s) = Inl e \<Longrightarrow>
    e = MalformedURL"
proof (induction left arbitrary: att k s)
  case (Suc left)
  then show ?case
    by (auto simp: Let_def split: prod.splits sum.splits if_splits dest: attempt_error)
qed simp

section \<open>The circuit sees one outcome per fetch\<close>

context circuit_store
begin

lemma fetch_loop_inv:
  "inv s \<Longrightarrow> inv (ft_store (fetch_loop fail succeed net f src ps left att k s))"
  by (induction left arbitrary: att k s)
    (auto simp: Let_def fail_inv succeed_inv split: prod.split sum.split)

lemma fetch_loop_fails:
  assumes "inv s"
  shows "fails (ft_store (fetch_loop fail succeed net f src ps left att k s)) other =
    (if other \<noteq> sd_source_id src then fails s other
     else case ft_result (fetch_loop fail succeed net f src ps left att k s) of
       Inl e \<Rightarrow> fails s other
     | Inr r \<Rightarrow> if \<not> result_ok r then Suc (fails s other)
         else if f_defer_success f \<or> \<not> fst (succeed (sd_source_id src) (f_owner f) s)
         then fails s other else 0)"
proof (induction left arbitrary: att k)
  case (Suc left)
  obtain b s' where su: "succeed (sd_source_id src) (f_owner f) s = (b, s')" by fastforce
  obtain res vs k' where a: "attempt net f src (nat (f_max_redirects f + 1)) k
      (sd_endpoint_url src) ps = (res, vs, k')"
    by (metis prod_cases3)
  show ?case
    using Suc.IH [of "Suc att" k'] a su succeed_fails [OF assms su] fail_fails [OF assms]
    by (auto simp: Let_def split: sum.split)
qed simp

end

end
