(* ===== verification/CircuitBreaker.thy ===== *)
theory CircuitBreaker
  imports RetrievalLeases RetrievalFetching
begin

text \<open>
  The durable circuit as an abstract breaker: closed with a failure count, or tripped
  until an instant with at most one probe. The operations of the repository implement
  the breaker's transitions, and the tables are a \<open>circuit_store\<close>.
\<close>

datatype breaker = Closed nat | Tripped datetime "(string \<times> datetime) option"

fun breaker_fail :: "datetime \<Rightarrow> breaker \<Rightarrow> breaker" where
  "breaker_fail now (Closed n) =
     (if Suc n < circuit_threshold then Closed (Suc n) else Tripped (now + circuit_cooldown) None)"
| "breaker_fail now (Tripped u p) = Tripped (now + circuit_cooldown) None"

fun breaker_allow :: "string \<Rightarrow> datetime \<Rightarrow> breaker \<Rightarrow> bool \<times> breaker" where
  "breaker_allow ow now (Closed n) = (True, Closed n)"
| "breaker_allow ow now (Tripped u p) =
     (if now < u then (False, Tripped u p)
      else case p of
        None \<Rightarrow> (True, Tripped u (Some (ow, now + lease_duration)))
      | Some (h, e) \<Rightarrow>
          if h = ow \<and> now \<le> e then (True, Tripped u p)
          else if e < now then (True, Tripped u (Some (ow, now + lease_duration)))
          else (False, Tripped u p))"

fun breaker_success :: "string \<Rightarrow> breaker \<Rightarrow> breaker" where
  "breaker_success ow (Closed n) = Closed 0"
| "breaker_success ow (Tripped u p) =
     (case p of Some (h, e) \<Rightarrow> if h = ow then Closed 0 else Tripped u p | None \<Rightarrow> Tripped u p)"

fun breaker_state :: "datetime \<Rightarrow> breaker \<Rightarrow> string" where
  "breaker_state now (Closed n) = ''closed''"
| "breaker_state now (Tripped u p) = (if now < u then ''open'' else ''half_open'')"

definition abs_circuit :: "circuit option \<Rightarrow> breaker" where
  "abs_circuit r = (case r of
       None \<Rightarrow> Closed 0
     | Some c \<Rightarrow> if ci_failure_count c < circuit_threshold then Closed (ci_failure_count c)
                 else Tripped (the (ci_open_until c))
                   (case (ci_probe_owner c, ci_probe_expires_at c) of
                      (Some h, Some e) \<Rightarrow> Some (h, e) | _ \<Rightarrow> None))"

definition breaker_of :: "string \<Rightarrow> audit_db \<Rightarrow> breaker" where
  "breaker_of src db = abs_circuit (find_circuit src db)"

definition circuit_fails :: "audit_db \<Rightarrow> string \<Rightarrow> nat" where
  "circuit_fails db src =
     (case find_circuit src db of None \<Rightarrow> 0 | Some c \<Rightarrow> ci_failure_count c)"

section \<open>Rows of the circuit table\<close>

lemma find_circuit_ok: "audit_inv db \<Longrightarrow> find_circuit src db = Some c \<Longrightarrow> circuit_ok c"
  by (auto simp: audit_inv_def find_circuit_def intro: row_of_list_all)

lemma find_circuit_key: "find_circuit src db = Some c \<Longrightarrow> ci_source_id c = src"
  by (auto simp: find_circuit_def dest: row_of_SomeD)

lemma find_circuit_update [table_simps]:
  assumes "\<And>r. ci_source_id (f r) = ci_source_id r"
  shows "find_circuit src (db\<lparr>circuits := sql_update p f (circuits db)\<rparr>) =
    map_option (\<lambda>r. if p r then f r else r) (find_circuit src db)"
  using assms by (simp add: find_circuit_def row_of_update)

lemma rowcount_circuit [table_simps]:
  assumes "audit_inv db"
  shows "rowcount (\<lambda>r. ci_source_id r = src \<and> q r) (circuits db) =
    (case find_circuit src db of None \<Rightarrow> 0 | Some r \<Rightarrow> if q r then 1 else 0)"
  using assms unfolding find_circuit_def
  by (intro rowcount_key) (simp add: audit_inv_def)

lemma find_circuit_failure_with:
  assumes "seen = None \<or> find_circuit src db \<noteq> None"
  shows "find_circuit s (record_circuit_failure_with seen src now db) =
    (if s = src then Some (circuit_failed now
       (case find_circuit src db of None \<Rightarrow> new_circuit src | Some c \<Rightarrow> c))
     else find_circuit s db)"
proof -
  have keep: "ci_source_id (circuit_failed now r) = ci_source_id r" for r
    by (simp add: circuit_failed_def)
  have pick: "row_of ci_source_id (sql_update (\<lambda>r. ci_source_id r = src) (circuit_failed now) t) s =
      (if s = src then map_option (circuit_failed now) (row_of ci_source_id t src)
       else row_of ci_source_id t s)" for t
    by (cases "row_of ci_source_id t s") (auto simp: row_of_update keep dest: row_of_SomeD)
  show ?thesis
  proof (cases "find_circuit src db")
    case (Some c)
    then have "sql_insert ci_source_id (new_circuit src) (circuits db) = None"
      by (simp add: sql_insert_None_iff find_circuit_def new_circuit_def)
    with Some show ?thesis
      by (auto simp: record_circuit_failure_with_def find_circuit_def pick split: option.split)
  next
    case None
    with assms have seen: "seen = None" by blast
    obtain t where t: "sql_insert ci_source_id (new_circuit src) (circuits db) = Some t"
      using None sql_insert_None_iff [of ci_source_id "new_circuit src" "circuits db"]
      by (cases "sql_insert ci_source_id (new_circuit src) (circuits db)")
        (auto simp: find_circuit_def new_circuit_def)
    with None seen show ?thesis
      by (auto simp: record_circuit_failure_with_def find_circuit_def pick
          row_of_insert [OF t] new_circuit_def)
  qed
qed

lemma find_circuit_failure:
  "find_circuit s (record_circuit_failure src now db) =
    (if s = src then Some (circuit_failed now
       (case find_circuit src db of None \<Rightarrow> new_circuit src | Some c \<Rightarrow> c))
     else find_circuit s db)"
  unfolding record_circuit_failure_def
  by (rule find_circuit_failure_with) (cases "find_circuit src db", auto)

section \<open>The repository implements the breaker\<close>

lemma breaker_of_failure:
  assumes "audit_inv db"
  shows "breaker_of src (record_circuit_failure src now db) = breaker_fail now (breaker_of src db)"
proof (cases "find_circuit src db")
  case None
  then show ?thesis
    by (simp add: breaker_of_def find_circuit_failure abs_circuit_def circuit_failed_def
        new_circuit_def circuit_threshold_def)
next
  case (Some c)
  then show ?thesis
    by (auto simp: breaker_of_def find_circuit_failure abs_circuit_def circuit_failed_def)
qed

lemma breaker_of_allow:
  assumes "audit_inv db" "allow_circuit_request src ow now db = (b, db')"
  shows "breaker_allow ow now (breaker_of src db) = (b, breaker_of src db')"
proof (cases "find_circuit src db")
  case None
  with assms(2) show ?thesis
    by (auto simp: allow_circuit_request_def allow_circuit_request_with_def breaker_of_def
        abs_circuit_def circuit_threshold_def)
next
  case (Some c)
  with assms find_circuit_ok [OF assms(1) Some] find_circuit_key [OF Some] show ?thesis
    by (auto simp: allow_circuit_request_def allow_circuit_request_with_def claim_circuit_probe_def
        Let_def rowcount_circuit find_circuit_update breaker_of_def abs_circuit_def circuit_ok_def
        split: if_splits option.splits)
qed

lemma breaker_of_success:
  assumes "audit_inv db" "record_circuit_success src ow db = (b, db')"
  shows "breaker_of src db' = breaker_success ow (breaker_of src db)"
proof (cases "find_circuit src db")
  case None
  with assms show ?thesis
    by (auto simp: record_circuit_success_def Let_def find_circuit_update breaker_of_def
        abs_circuit_def)
next
  case (Some c)
  with assms find_circuit_ok [OF assms(1) Some] find_circuit_key [OF Some] show ?thesis
    by (auto simp: record_circuit_success_def Let_def find_circuit_update breaker_of_def
        abs_circuit_def circuit_ok_def circuit_threshold_def split: option.splits)
qed

lemma breaker_of_state:
  assumes "audit_inv db"
  shows "circuit_state src now db = breaker_state now (breaker_of src db)"
proof (cases "find_circuit src db")
  case (Some c)
  with find_circuit_ok [OF assms Some] show ?thesis
    by (cases "ci_open_until c")
      (auto simp: circuit_state_def breaker_of_def abs_circuit_def circuit_ok_def)
qed (simp add: circuit_state_def breaker_of_def abs_circuit_def circuit_threshold_def)

section \<open>The circuit store\<close>

lemma success_fails:
  assumes "audit_inv db" "record_circuit_success src ow db = (b, db')"
  shows "circuit_fails db' = (if b then (circuit_fails db)(src := 0) else circuit_fails db)"
proof
  fix x
  show "circuit_fails db' x = (if b then (circuit_fails db)(src := 0) else circuit_fails db) x"
  proof (cases "find_circuit x db")
    case None
    with assms show ?thesis
      by (auto simp: circuit_fails_def record_circuit_success_def Let_def find_circuit_update)
  next
    case (Some c)
    note key = find_circuit_key [OF Some]
    show ?thesis
    proof (cases "x = src")
      case True
      with assms Some key show ?thesis
        by (auto simp: circuit_fails_def record_circuit_success_def Let_def rowcount_circuit
            find_circuit_update split: if_splits)
    next
      case False
      with assms Some key show ?thesis
        by (auto simp: circuit_fails_def record_circuit_success_def Let_def find_circuit_update)
    qed
  qed
qed

interpretation audit_circuit: circuit_store allow_circuit_request record_circuit_failure
    record_circuit_success circuit_fails audit_inv
proof (unfold_locales, goal_cases)
  case (4 s src ow now)
  then show ?case
    by (auto simp: circuit_fails_def allow_circuit_request_def allow_circuit_request_with_def
        split: option.splits)
next
  case (5 s src ow now)
  then show ?case
    by (auto simp: fun_eq_iff circuit_fails_def allow_circuit_request_def
        allow_circuit_request_with_def claim_circuit_probe_def Let_def find_circuit_update
        split: option.splits)
next
  case (6 s src now)
  then show ?case
    by (auto simp: fun_eq_iff circuit_fails_def find_circuit_failure circuit_failed_def
        new_circuit_def split: option.split)
next
  case (7 s src ow b s')
  then show ?case
    by (intro success_fails) auto
qed (simp_all add: inv_intros)

section \<open>Tripping, cooling down, probing\<close>

text \<open>Failures recorded one after the other, at the given instants.\<close>

fun record_failures :: "string \<Rightarrow> datetime list \<Rightarrow> audit_db \<Rightarrow> audit_db" where
  "record_failures src [] db = db"
| "record_failures src (t # ts) db = record_failures src ts (record_circuit_failure src t db)"

lemma record_failures_inv: "audit_inv db \<Longrightarrow> audit_inv (record_failures src ts db)"
  by (induction ts arbitrary: db) (simp_all add: inv_intros)

lemma record_failures_breaker:
  "audit_inv db \<Longrightarrow> breaker_of src (record_failures src ts db) =
    fold breaker_fail ts (breaker_of src db)"
  by (induction ts arbitrary: db) (simp_all add: inv_intros breaker_of_failure)

lemma fold_breaker_fail:
  "n + length ts < circuit_threshold \<Longrightarrow> fold breaker_fail ts (Closed n) = Closed (n + length ts)"
  by (induction ts arbitrary: n) auto

lemma fold_breaker_fail_Tripped:
  "ts \<noteq> [] \<Longrightarrow> fold breaker_fail ts (Tripped u p) = Tripped (last ts + circuit_cooldown) None"
  by (induction ts arbitrary: u p) auto

lemma fold_breaker_fail_trips:
  "n < circuit_threshold \<Longrightarrow> circuit_threshold \<le> n + length ts \<Longrightarrow>
    fold breaker_fail ts (Closed n) = Tripped (last ts + circuit_cooldown) None"
proof (induction ts arbitrary: n)
  case (Cons t ts)
  show ?case
  proof (cases "Suc n < circuit_threshold")
    case True
    with Cons have "ts \<noteq> []" by auto
    with True Cons show ?thesis by simp
  next
    case False
    then show ?thesis by (cases "ts = []") (simp_all add: fold_breaker_fail_Tripped)
  qed
qed simp

text \<open>While a probe is out, everybody else is refused and the breaker does not move.\<close>

lemma breaker_probe_exclusive:
  "h \<noteq> ow \<Longrightarrow> now \<le> e \<Longrightarrow>
    breaker_allow ow now (Tripped u (Some (h, e))) = (False, Tripped u (Some (h, e)))"
  by simp

lemma circuit_allow_breaker:
  "audit_inv db \<Longrightarrow> fst (allow_circuit_request src ow now db) = fst (breaker_allow ow now (breaker_of src db))"
  using breaker_of_allow [of db src ow now "fst (allow_circuit_request src ow now db)"
      "snd (allow_circuit_request src ow now db)"] by simp

end
