(* ===== verification/PyTime.thy ===== *)
theory PyTime
  imports PyText
begin

text \<open>
  \<^verbatim>\<open>datetime.isoformat()\<close> of a naive instant, given as microseconds since 1970-01-01T00:00:
  the proleptic Gregorian date of its day and its time of day, with the fraction only
  when it is not zero. Instants outside the years 1 to 9999 do not exist in Python.
\<close>

definition civil_from_days :: "int \<Rightarrow> int \<times> int \<times> int" where
  "civil_from_days d =
     (let z = d + 719468; era = z div 146097; doe = z mod 146097;
          yoe = (doe - doe div 1460 + doe div 36524 - doe div 146096) div 365;
          doy = doe - (365 * yoe + yoe div 4 - yoe div 100);
          mp = (5 * doy + 2) div 153;
          day = doy - (153 * mp + 2) div 5 + 1;
          month = (if mp < 10 then mp + 3 else mp - 9);
          year = yoe + era * 400 + (if month \<le> 2 then 1 else 0)
      in (year, month, day))"

definition day_us :: int where
  "day_us = 86400000000"

definition isoformat :: "datetime \<Rightarrow> string" where
  "isoformat t =
     (case civil_from_days (t div day_us) of (y, m, d) \<Rightarrow>
        let r = t mod day_us; us = r mod 1000000; s = r div 1000000 in
        padded 4 (nat y) @ ''-'' @ padded 2 (nat m) @ ''-'' @ padded 2 (nat d) @ ''T''
        @ padded 2 (nat (s div 3600)) @ '':'' @ padded 2 (nat (s div 60 mod 60)) @ '':''
        @ padded 2 (nat (s mod 60)) @ (if us = 0 then [] else ''.'' @ padded 6 (nat us)))"

end
