(* ===== verification/JsonText.thy ===== *)
theory JsonText
  imports RetrievalTypes PyText
begin

text \<open>
  \<^verbatim>\<open>json.dumps\<close> with the separators \<^verbatim>\<open>(",", ":")\<close>, on ASCII texts. Objects are written in
  the order they have, which is what \<^verbatim>\<open>sort_keys=True\<close> leaves for the values the program
  dumps this way: each of their objects has a single key.
\<close>

definition hex4 :: "nat \<Rightarrow> string" where
  "hex4 n = (let h = (\<lambda>d. if d < 10 then char_of (48 + d) else char_of (87 + d :: nat)) in
     [CHR ''0'', CHR ''0'', h (n div 16), h (n mod 16)])"

definition escape_char :: "char \<Rightarrow> string" where
  "escape_char c =
     (if c = CHR 0x22 then [CHR 0x5C, CHR 0x22]
      else if c = CHR 0x5C then [CHR 0x5C, CHR 0x5C]
      else if c = CHR 0x0A then [CHR 0x5C, CHR ''n'']
      else if c = CHR 0x0D then [CHR 0x5C, CHR ''r'']
      else if c = CHR 0x09 then [CHR 0x5C, CHR ''t'']
      else if c = CHR 0x0C then [CHR 0x5C, CHR ''f'']
      else if c = CHR 0x08 then [CHR 0x5C, CHR ''b'']
      else if (of_char c :: nat) < 32 \<or> 126 < (of_char c :: nat)
      then CHR 0x5C # CHR ''u'' # hex4 (of_char c)
      else [c])"

definition dump_string :: "string \<Rightarrow> string" where
  "dump_string s = [CHR 0x22] @ concat (map escape_char s) @ [CHR 0x22]"

fun json_dumps :: "json \<Rightarrow> string" where
  "json_dumps JNull = ''null''"
| "json_dumps (JBool b) = (if b then ''true'' else ''false'')"
| "json_dumps (JInt i) = int_str i"
| "json_dumps (JFloat r) = r"
| "json_dumps (JStr s) = dump_string s"
| "json_dumps (JList xs) = ''['' @ join '','' (map json_dumps xs) @ '']''"
| "json_dumps (JObject kvs) =
     ''{'' @ join '','' (map (\<lambda>(k, v). dump_string k @ '':'' @ json_dumps v) kvs) @ ''}''"

text \<open>
  \<^verbatim>\<open>json.loads\<close> as the program uses it on the replies of language models, \<^verbatim>\<open>json.dumps\<close> with
  its default separators, and the accessors of \<^verbatim>\<open>dict\<close> the parsers use. Texts are ASCII: what
  a \<^verbatim>\<open>\\u\<close> escape above 127 stands for is a field of the codec, as are the \<^verbatim>\<open>repr\<close> of the float a
  literal denotes, \<^verbatim>\<open>str\<close> of a list or dictionary, and \<^verbatim>\<open>int\<close> of a float or string. \<open>None\<close> is \<^verbatim>\<open>JSONDecodeError\<close>. Python's limit on the nesting of values is not
  modelled.
\<close>

record json_codec =
  jc_float :: "string \<Rightarrow> string"
  jc_code :: "nat \<Rightarrow> string"
  jc_repr :: "json \<Rightarrow> string"
  jc_int :: "json \<Rightarrow> int option"

definition json_space :: "char \<Rightarrow> bool" where
  "json_space c \<longleftrightarrow> c \<in> {CHR 0x20, CHR 0x09, CHR 0x0A, CHR 0x0D}"

definition skip_space :: "string \<Rightarrow> string" where
  "skip_space s = dropWhile json_space s"

section \<open>Strings\<close>

definition hex_value :: "char \<Rightarrow> nat option" where
  "hex_value c = (let n = of_char c in
     if 48 \<le> n \<and> n \<le> 57 then Some (n - 48)
     else if 97 \<le> n \<and> n \<le> 102 then Some (n - 87)
     else if 65 \<le> n \<and> n \<le> 70 then Some (n - 55) else None)"

definition hex_code :: "char \<Rightarrow> char \<Rightarrow> char \<Rightarrow> char \<Rightarrow> nat option" where
  "hex_code a b c d = (case (hex_value a, hex_value b, hex_value c, hex_value d) of
     (Some x, Some y, Some z, Some w) \<Rightarrow> Some (((x * 16 + y) * 16 + z) * 16 + w) | _ \<Rightarrow> None)"

definition code_text :: "json_codec \<Rightarrow> nat \<Rightarrow> string" where
  "code_text k n = (if n < 128 then [char_of n] else jc_code k n)"

definition unescape :: "char \<Rightarrow> char option" where
  "unescape c = (if c = CHR 0x22 \<or> c = CHR 0x5C \<or> c = CHR ''/'' then Some c
     else if c = CHR ''n'' then Some (CHR 0x0A) else if c = CHR ''t'' then Some (CHR 0x09)
     else if c = CHR ''r'' then Some (CHR 0x0D) else if c = CHR ''b'' then Some (CHR 0x08)
     else if c = CHR ''f'' then Some (CHR 0x0C) else None)"

text \<open>The rest of a string after its opening quote, and the text behind it.\<close>

fun string_body :: "json_codec \<Rightarrow> string \<Rightarrow> (string \<times> string) option" where
  "string_body k [] = None"
| "string_body k (c # s) =
     (if c = CHR 0x22 then Some ([], s)
      else if c = CHR 0x5C then
        (case s of
           [] \<Rightarrow> None
         | e # s1 \<Rightarrow>
             if e = CHR ''u'' then
               (case s1 of
                  h1 # h2 # h3 # h4 # s2 \<Rightarrow>
                    (case hex_code h1 h2 h3 h4 of
                       None \<Rightarrow> None
                     | Some n \<Rightarrow> map_option (map_prod (append (code_text k n)) id) (string_body k s2))
                | _ \<Rightarrow> None)
             else (case unescape e of
                None \<Rightarrow> None
              | Some x \<Rightarrow> map_option (map_prod (Cons x) id) (string_body k s1)))
      else if (of_char c :: nat) < 32 then None
      else map_option (map_prod (Cons c) id) (string_body k s))"

section \<open>Numbers\<close>

text \<open>\<open>(-?(?:0|[1-9]\d*))(\.\d+)?([eE][-+]?\d+)?\<close>, as far as it matches.\<close>

definition digits_of :: "string \<Rightarrow> string \<times> string" where
  "digits_of s = (takeWhile is_digit s, dropWhile is_digit s)"

definition int_digits :: "string \<Rightarrow> (string \<times> string) option" where
  "int_digits s = (case s of
       [] \<Rightarrow> None
     | c # r \<Rightarrow> if c = CHR ''0'' then Some ([c], r) else if is_digit c then Some (digits_of s) else None)"

definition fraction :: "string \<Rightarrow> string \<times> string" where
  "fraction s = (case s of
       c # r \<Rightarrow> (if c = CHR ''.'' \<and> fst (digits_of r) \<noteq> [] then (c # fst (digits_of r), snd (digits_of r)) else ([], s))
     | [] \<Rightarrow> ([], s))"

definition exponent :: "string \<Rightarrow> string \<times> string" where
  "exponent s = (case s of
       c # r \<Rightarrow>
         if c \<in> {CHR ''e'', CHR ''E''} then
           (let (sign, r1) = (case r of x # r' \<Rightarrow> if x \<in> {CHR ''+'', CHR ''-''} then ([x], r') else ([], r) | [] \<Rightarrow> ([], r)) in
            if fst (digits_of r1) \<noteq> [] then (c # sign @ fst (digits_of r1), snd (digits_of r1)) else ([], s))
         else ([], s)
     | [] \<Rightarrow> ([], s))"

definition number :: "json_codec \<Rightarrow> string \<Rightarrow> (json \<times> string) option" where
  "number k s =
     (let (minus, s1) = (case s of c # r \<Rightarrow> if c = CHR ''-'' then ([c], r) else ([], s) | [] \<Rightarrow> ([], s)) in
      case int_digits s1 of
        None \<Rightarrow> None
      | Some (ds, s2) \<Rightarrow>
          (let (fr, s3) = fraction s2; (ex, s4) = exponent s3 in
           Some (if fr = [] \<and> ex = []
                 then JInt (if minus = [] then int (str_nat ds) else - int (str_nat ds))
                 else JFloat (jc_float k (minus @ ds @ fr @ ex)), s4)))"

section \<open>Values\<close>

text \<open>A \<^verbatim>\<open>dict\<close> from pairs: a key keeps the position of its first pair and the value of its last.\<close>

fun dict_put :: "string \<Rightarrow> 'v \<Rightarrow> (string \<times> 'v) list \<Rightarrow> (string \<times> 'v) list" where
  "dict_put k v [] = [(k, v)]"
| "dict_put k v ((k', w) # d) = (if k' = k then (k, v) # d else (k', w) # dict_put k v d)"

definition dict_of :: "(string \<times> 'v) list \<Rightarrow> (string \<times> 'v) list" where
  "dict_of ps = foldl (\<lambda>d (k, v). dict_put k v d) [] ps"

definition constants :: "(string \<times> json) list" where
  "constants = [(''null'', JNull), (''true'', JBool True), (''false'', JBool False),
     (''NaN'', JFloat ''nan''), (''Infinity'', JFloat ''inf''), (''-Infinity'', JFloat ''-inf'')]"

definition literal :: "json_codec \<Rightarrow> string \<Rightarrow> (json \<times> string) option" where
  "literal k s = (case List.find (\<lambda>(t, v). starts_with s t) constants of
       Some (t, v) \<Rightarrow> Some (v, drop (length t) s)
     | None \<Rightarrow> number k s)"

text \<open>Each call of the three functions takes one unit of fuel.\<close>

fun parse_value :: "json_codec \<Rightarrow> nat \<Rightarrow> string \<Rightarrow> (json \<times> string) option"
and parse_items :: "json_codec \<Rightarrow> nat \<Rightarrow> string \<Rightarrow> (json list \<times> string) option"
and parse_members :: "json_codec \<Rightarrow> nat \<Rightarrow> string \<Rightarrow> ((string \<times> json) list \<times> string) option"
where
  "parse_value k 0 s = None"
| "parse_value k (Suc n) s =
     (case s of
        [] \<Rightarrow> None
      | c # r \<Rightarrow>
          if c = CHR 0x22 then map_option (map_prod JStr id) (string_body k r)
          else if c = CHR ''['' then
            (case skip_space r of
               [] \<Rightarrow> None
             | d # r' \<Rightarrow> if d = CHR '']'' then Some (JList [], r')
                 else map_option (map_prod JList id) (parse_items k n (d # r')))
          else if c = CHR ''{'' then
            (case skip_space r of
               [] \<Rightarrow> None
             | d # r' \<Rightarrow> if d = CHR ''}'' then Some (JObject [], r')
                 else map_option (map_prod (JObject \<circ> dict_of) id) (parse_members k n (d # r')))
          else literal k s)"
| "parse_items k 0 s = None"
| "parse_items k (Suc n) s =
     (case parse_value k n s of
        None \<Rightarrow> None
      | Some (v, r) \<Rightarrow>
          (case skip_space r of
             [] \<Rightarrow> None
           | c # r' \<Rightarrow> if c = CHR '']'' then Some ([v], r')
               else if c = CHR '','' then map_option (map_prod (Cons v) id) (parse_items k n (skip_space r'))
               else None))"
| "parse_members k 0 s = None"
| "parse_members k (Suc n) s =
     (case s of
        [] \<Rightarrow> None
      | q # s1 \<Rightarrow>
          if q \<noteq> CHR 0x22 then None
          else (case string_body k s1 of
             None \<Rightarrow> None
           | Some (key, s2) \<Rightarrow>
               (case skip_space s2 of
                  [] \<Rightarrow> None
                | c # s3 \<Rightarrow>
                    if c \<noteq> CHR '':'' then None
                    else (case parse_value k n (skip_space s3) of
                       None \<Rightarrow> None
                     | Some (v, s4) \<Rightarrow>
                         (case skip_space s4 of
                            [] \<Rightarrow> None
                          | d # s5 \<Rightarrow> if d = CHR ''}'' then Some ([(key, v)], s5)
                              else if d = CHR '','' then map_option (map_prod (Cons (key, v)) id) (parse_members k n (skip_space s5))
                              else None)))))"

definition json_loads :: "json_codec \<Rightarrow> string \<Rightarrow> json option" where
  "json_loads k s = (case parse_value k (2 * length s + 2) (skip_space s) of
       Some (v, r) \<Rightarrow> if skip_space r = [] then Some v else None
     | None \<Rightarrow> None)"

text \<open>\<^verbatim>\<open>json.dumps\<close> with the default separators.\<close>

fun json_text :: "json \<Rightarrow> string" where
  "json_text JNull = ''null''"
| "json_text (JBool b) = (if b then ''true'' else ''false'')"
| "json_text (JInt i) = int_str i"
| "json_text (JFloat r) = r"
| "json_text (JStr s) = dump_string s"
| "json_text (JList xs) = ''['' @ join '', '' (map json_text xs) @ '']''"
| "json_text (JObject kvs) =
     ''{'' @ join '', '' (map (\<lambda>(k, v). dump_string k @ '': '' @ json_text v) kvs) @ ''}''"

section \<open>Accessors\<close>

text \<open>\<^verbatim>\<open>d.get(key)\<close>, truth of a value, and \<^verbatim>\<open>x or y\<close>.\<close>

definition jget :: "(string \<times> json) list \<Rightarrow> string \<Rightarrow> json" where
  "jget d key = (case map_of d key of None \<Rightarrow> JNull | Some v \<Rightarrow> v)"

fun jtrue :: "json \<Rightarrow> bool" where
  "jtrue JNull = False"
| "jtrue (JBool b) = b"
| "jtrue (JInt i) = (i \<noteq> 0)"
| "jtrue (JFloat r) = (r \<notin> {''0.0'', ''-0.0''})"
| "jtrue (JStr s) = (s \<noteq> [])"
| "jtrue (JList xs) = (xs \<noteq> [])"
| "jtrue (JObject d) = (d \<noteq> [])"

definition jor :: "json \<Rightarrow> json \<Rightarrow> json" where
  "jor x y = (if jtrue x then x else y)"

text \<open>\<^verbatim>\<open>str(v)\<close> and \<^verbatim>\<open>int(v)\<close>; the latter may raise.\<close>

definition jstr :: "json_codec \<Rightarrow> json \<Rightarrow> string" where
  "jstr k v = (case v of JStr s \<Rightarrow> s | JNull \<Rightarrow> ''None'' | JBool b \<Rightarrow> (if b then ''True'' else ''False'')
     | JInt i \<Rightarrow> int_str i | JFloat r \<Rightarrow> r | _ \<Rightarrow> jc_repr k v)"

definition jint :: "json_codec \<Rightarrow> json \<Rightarrow> int option" where
  "jint k v = (case v of JInt i \<Rightarrow> Some i | JBool b \<Rightarrow> Some (if b then 1 else 0) | JFloat _ \<Rightarrow> jc_int k v
     | JStr _ \<Rightarrow> jc_int k v | _ \<Rightarrow> None)"

text \<open>\<^verbatim>\<open>for x in v\<close>: a list has its items, a dictionary its keys, a string its characters; a number raises.\<close>

definition jiter :: "json \<Rightarrow> json list option" where
  "jiter v = (case v of JList xs \<Rightarrow> Some xs | JObject d \<Rightarrow> Some (map (JStr \<circ> fst) d)
     | JStr s \<Rightarrow> Some (map (\<lambda>c. JStr [c]) s) | _ \<Rightarrow> None)"

text \<open>\<^verbatim>\<open>repr\<close> of an ASCII text.\<close>

definition repr_char :: "char \<Rightarrow> char \<Rightarrow> string" where
  "repr_char q c = (if c = q \<or> c = CHR 0x5C then [CHR 0x5C, c]
     else if c = CHR 0x0A then [CHR 0x5C, CHR ''n''] else if c = CHR 0x0D then [CHR 0x5C, CHR ''r'']
     else if c = CHR 0x09 then [CHR 0x5C, CHR ''t'']
     else if (of_char c :: nat) < 32 \<or> 126 < (of_char c :: nat) then [CHR 0x5C, CHR ''x''] @ drop 2 (hex4 (of_char c))
     else [c])"

definition py_repr :: "string \<Rightarrow> string" where
  "py_repr s = (let q = (if CHR 0x27 \<in> set s \<and> CHR 0x22 \<notin> set s then CHR 0x22 else CHR 0x27)
     in [q] @ concat (map (repr_char q) s) @ [q])"

definition plain_codec :: json_codec where
  "plain_codec = \<lparr>jc_float = id, jc_code = (\<lambda>_. ''?''), jc_repr = json_text, jc_int = (\<lambda>_. None)\<rparr>"

end
