(* ===== verification/Deduplication.thy ===== *)
theory Deduplication
  imports RetrievalRegistry PyTime JsonText
begin

text \<open>
  \<^verbatim>\<open>retrieval/deduplication.py\<close>: canonical URLs, article identity, and the choice of one
  article per identity in one run. \<^verbatim>\<open>hashlib.sha256\<close> is a parameter. A malformed URL
  raises \<^verbatim>\<open>ValueError\<close>: the result is \<open>None\<close>.
\<close>

section \<open>Identity\<close>

definition tracking_parameters :: "string set" where
  "tracking_parameters = {''fbclid'', ''gclid'', ''mc_cid'', ''mc_eid'', ''ref'', ''referrer''}"

definition is_tracking :: "string \<Rightarrow> bool" where
  "is_tracking k \<longleftrightarrow> starts_with (lower k) ''utm_'' \<or> lower k \<in> tracking_parameters"

definition canonical_host :: "split_url \<Rightarrow> nat option \<Rightarrow> string" where
  "canonical_host u p =
     (let h = lower (case hostname u of None \<Rightarrow> [] | Some h \<Rightarrow> h);
          h = (if CHR '':'' \<in> set h then ''['' @ h @ '']'' else h)
      in case p of
           None \<Rightarrow> h
         | Some n \<Rightarrow> if (lower (u_scheme u) = ''https'' \<and> n = 443) \<or> (lower (u_scheme u) = ''http'' \<and> n = 80)
                     then h else h @ '':'' @ nat_str n)"

definition canonicalize_url :: "string \<Rightarrow> string option" where
  "canonicalize_url url =
     (case urlsplit (strip url) of
        None \<Rightarrow> None
      | Some u \<Rightarrow>
          (case port u of
             Inl _ \<Rightarrow> None
           | Inr p \<Rightarrow>
               Some (urlunsplit \<lparr>u_scheme = lower (u_scheme u), u_netloc = canonical_host u p,
                 u_path = (if u_path u = [] then ''/'' else u_path u),
                 u_query = urlencode (filter (\<lambda>(k, v). \<not> is_tracking k) (parse_qsl (u_query u))),
                 u_fragment = []\<rparr>)))"

definition stable_id_providers :: "string set" where
  "stable_id_providers = {''eu_sanctions''}"

definition has_stable_provider_id :: "string option \<Rightarrow> string option \<Rightarrow> bool" where
  "has_stable_provider_id provider pid \<longleftrightarrow>
     truthy pid \<and> (case provider of None \<Rightarrow> False | Some p \<Rightarrow> p \<in> stable_id_providers)"

definition nul :: string where
  "nul = [CHR 0x00]"

definition identity_url :: "raw_article \<Rightarrow> string" where
  "identity_url a = str_or (ra_canonical_url a) (ra_article_url a)"

definition fingerprint_material :: "raw_article \<Rightarrow> string option" where
  "fingerprint_material a =
     (if has_stable_provider_id (Some (ra_provider a)) (ra_provider_article_id a)
      then Some (''provider'' @ nul @ ra_provider a @ nul @ the (ra_provider_article_id a))
      else case canonicalize_url (identity_url a) of
        None \<Rightarrow> None
      | Some url \<Rightarrow>
          if url \<noteq> [] then Some (''url'' @ nul @ url)
          else Some (join nul [''content'', strip (lower (ra_title a)),
            strip (lower (case ra_description a of None \<Rightarrow> [] | Some d \<Rightarrow> d)),
            isoformat (ra_published_at a)]))"

definition article_fingerprint :: "(string \<Rightarrow> string) \<Rightarrow> raw_article \<Rightarrow> string option" where
  "article_fingerprint sha256 a = map_option sha256 (fingerprint_material a)"

section \<open>A comparable projection of every field\<close>

fun payload_projection :: "json \<Rightarrow> json" where
  "payload_projection JNull = JNull"
| "payload_projection (JBool b) = JBool b"
| "payload_projection (JInt i) = JInt i"
| "payload_projection (JStr s) = JStr s"
| "payload_projection (JFloat r) = JObject [(''$float'', JStr r)]"
| "payload_projection (JObject kvs) = JObject [(''$dict'', JList (sort_key json_dumps
     (map (\<lambda>(k, v). JList [JStr k, payload_projection v]) kvs)))]"
| "payload_projection (JList xs) = JObject [(''$sequence'', JList (map payload_projection xs))]"

definition optional_text :: "string option \<Rightarrow> string" where
  "optional_text v = json_dumps (case v of
     None \<Rightarrow> JList [JStr ''none'', JStr []] | Some s \<Rightarrow> JList [JStr ''str'', JStr s])"

definition optional_datetime :: "datetime option \<Rightarrow> string" where
  "optional_datetime v = json_dumps (case v of
     None \<Rightarrow> JList [JStr ''none'', JStr []]
   | Some t \<Rightarrow> JList [JStr ''datetime'', JStr (isoformat t)])"

definition optional_payload :: "json option \<Rightarrow> string" where
  "optional_payload v = json_dumps (case v of
     None \<Rightarrow> JList [JStr ''none'', JStr []]
   | Some p \<Rightarrow> JList [JStr ''payload'', JStr (json_dumps (payload_projection p))])"

definition article_projection :: "raw_article \<Rightarrow> string list option" where
  "article_projection a =
     (case canonicalize_url (identity_url a) of
        None \<Rightarrow> None
      | Some url \<Rightarrow> Some
          [ra_provider a, optional_text (ra_provider_article_id a), ra_query_group a, ra_title a,
           optional_text (ra_description a), optional_text (ra_content_snippet a),
           ra_article_url a, url, optional_text (ra_canonical_url a), ra_source_name a,
           optional_text (ra_source_url a), isoformat (ra_published_at a), ra_language a,
           optional_payload (ra_raw_payload_json a), optional_text (ra_source_id a),
           optional_text (ra_source_class a), join nul (ra_source_domains a),
           join nul (ra_source_countries a), optional_text (ra_registry_version a),
           optional_datetime (ra_retrieved_at a), optional_text (ra_source_published_at_raw a)])"

definition authority :: "raw_article \<Rightarrow> int" where
  "authority a = (let c = (case ra_source_class a of None \<Rightarrow> [] | Some c \<Rightarrow> c) in
     if c = ''official'' then 3 else if c = ''established_media'' then 2
     else if c = ''industry'' then 1 else 0)"

section \<open>Deduplication of one run\<close>

record dedup_result =
  dr_articles :: "raw_article list"
  dr_duplicates :: nat

definition projection :: "raw_article \<Rightarrow> string list" where
  "projection a = the (article_projection a)"

definition fingerprint :: "(string \<Rightarrow> string) \<Rightarrow> raw_article \<Rightarrow> string" where
  "fingerprint sha256 a = the (article_fingerprint sha256 a)"

definition preference :: "raw_article \<Rightarrow> int \<times> string list" where
  "preference a = (- authority a, projection a)"

definition result_order :: "(string \<Rightarrow> string) \<Rightarrow> raw_article \<Rightarrow> string list" where
  "result_order sha256 a = projection a @ [fingerprint sha256 a]"

fun best_of :: "raw_article list \<Rightarrow> raw_article" where
  "best_of (a # as) = min_by preference a as"

definition deduplicate_within_run ::
  "(string \<Rightarrow> string) \<Rightarrow> raw_article list \<Rightarrow> dedup_result option" where
  "deduplicate_within_run sha256 articles =
     (if list_ex (\<lambda>a. article_projection a = None) articles then None
      else let groups = group_by (fingerprint sha256) articles;
               retained = sort_key (result_order sha256) (map (best_of \<circ> snd) groups)
           in Some \<lparr>dr_articles = retained, dr_duplicates = length articles - length retained\<rparr>)"

section \<open>Facts about identity\<close>

lemma canonicalize_url_nonempty: "canonicalize_url url = Some r \<Longrightarrow> r \<noteq> []"
  by (auto simp: canonicalize_url_def urlunsplit_def Let_def split: option.splits sum.splits if_splits)

lemma authority_parts [simp]:
  "hostinfo (u\<lparr>u_query := q, u_fragment := f\<rparr>) = hostinfo u"
  "hostname (u\<lparr>u_query := q, u_fragment := f\<rparr>) = hostname u"
  "port (u\<lparr>u_query := q, u_fragment := f\<rparr>) = port u"
  "canonical_host (u\<lparr>u_query := q, u_fragment := f\<rparr>) p = canonical_host u p"
proof -
  show hi: "hostinfo (u\<lparr>u_query := q, u_fragment := f\<rparr>) = hostinfo u"
    by (simp add: hostinfo_def)
  show hn: "hostname (u\<lparr>u_query := q, u_fragment := f\<rparr>) = hostname u"
    unfolding hostname_def hi ..
  show "port (u\<lparr>u_query := q, u_fragment := f\<rparr>) = port u"
    unfolding port_def hi ..
  show "canonical_host (u\<lparr>u_query := q, u_fragment := f\<rparr>) p = canonical_host u p"
    unfolding canonical_host_def hn by (simp add: Let_def split: option.split)
qed

text \<open>The query of a canonical URL only matters up to its tracking parameters.\<close>

lemma canonicalize_url_query:
  assumes "urlsplit (strip x) = Some u" "urlsplit (strip y) = Some w"
    and "w = u\<lparr>u_query := q, u_fragment := f\<rparr>"
    and "filter (\<lambda>(k, v). \<not> is_tracking k) (parse_qsl (u_query u)) =
      filter (\<lambda>(k, v). \<not> is_tracking k) (parse_qsl q)"
  shows "canonicalize_url x = canonicalize_url y"
  using assms by (simp add: canonicalize_url_def split: sum.split)

lemma projection_None_fingerprint:
  "article_projection a \<noteq> None \<Longrightarrow> article_fingerprint sha256 a \<noteq> None"
  by (auto simp: article_projection_def article_fingerprint_def fingerprint_material_def
      split: option.splits)

lemma dedup_defined:
  "deduplicate_within_run h xs \<noteq> None \<longleftrightarrow> list_all (\<lambda>a. canonicalize_url (identity_url a) \<noteq> None) xs"
  by (auto simp: deduplicate_within_run_def article_projection_def list_ex_iff list_all_iff Let_def
      split: option.split)

section \<open>Facts about the choice\<close>

lemma best_of_in: "ys \<noteq> [] \<Longrightarrow> best_of ys \<in> set ys"
  using min_by_in by (cases ys) fastforce+

lemma best_of_least: "y \<in> set ys \<Longrightarrow> preference (best_of ys) \<le> preference y"
  by (cases ys) (auto intro!: min_by_le)

lemma best_of_key: "ys \<noteq> [] \<Longrightarrow> preference (best_of ys) = Min (preference ` set ys)"
  by (cases ys) (simp_all add: min_by_key)

definition winners :: "(string \<Rightarrow> string) \<Rightarrow> raw_article list \<Rightarrow> raw_article list" where
  "winners h xs = map (best_of \<circ> snd) (group_by (fingerprint h) xs)"

lemma dedup_articles:
  "deduplicate_within_run h xs = Some r \<Longrightarrow> dr_articles r = sort_key (result_order h) (winners h xs)"
  by (auto simp: deduplicate_within_run_def winners_def Let_def split: if_splits)

lemma winners_fingerprints:
  "map (fingerprint h) (winners h xs) = map fst (group_by (fingerprint h) xs)"
proof -
  have "fingerprint h (best_of ys) = k" if "(k, ys) \<in> set (group_by (fingerprint h) xs)" for k ys
    using that best_of_in [of ys] by (auto simp: in_group_by)
  then show ?thesis by (auto simp: winners_def)
qed

lemma distinct_winners: "distinct (map (fingerprint h) (winners h xs))"
  by (simp add: winners_fingerprints distinct_group_by)

lemma winners_cover: "fingerprint h ` set (winners h xs) = fingerprint h ` set xs"
  by (metis keys_group_by list.set_map winners_fingerprints)

lemma in_winners:
  "a \<in> set (winners h xs) \<longleftrightarrow>
    a = best_of (filter (\<lambda>x. fingerprint h x = fingerprint h a) xs)
    \<and> filter (\<lambda>x. fingerprint h x = fingerprint h a) xs \<noteq> []"
proof
  assume "a \<in> set (winners h xs)"
  then obtain k ys where k: "(k, ys) \<in> set (group_by (fingerprint h) xs)" "a = best_of ys"
    by (auto simp: winners_def)
  then have ys: "ys = filter (\<lambda>x. fingerprint h x = k) xs" "ys \<noteq> []"
    by (auto simp: in_group_by)
  with k(2) best_of_in [of ys] have "fingerprint h a = k" by auto
  with ys k(2) show "a = best_of (filter (\<lambda>x. fingerprint h x = fingerprint h a) xs)
    \<and> filter (\<lambda>x. fingerprint h x = fingerprint h a) xs \<noteq> []" by simp
next
  assume r: "a = best_of (filter (\<lambda>x. fingerprint h x = fingerprint h a) xs)
    \<and> filter (\<lambda>x. fingerprint h x = fingerprint h a) xs \<noteq> []"
  then have "(fingerprint h a, filter (\<lambda>x. fingerprint h x = fingerprint h a) xs)
      \<in> set (group_by (fingerprint h) xs)"
    by (simp only: in_group_by) blast
  then show "a \<in> set (winners h xs)" unfolding winners_def using r by force
qed

lemma winners_subset: "set (winners h xs) \<subseteq> set xs"
  using best_of_in by (fastforce simp: in_winners)

lemma length_winners_le: "length (winners h xs) \<le> length xs"
proof -
  have "length (winners h xs) = card (fingerprint h ` set xs)"
    using distinct_card [OF distinct_winners [of h xs]] winners_cover [of h xs] by simp
  also have "\<dots> \<le> length xs" by (metis card_length length_map list.set_map)
  finally show ?thesis .
qed

lemma winners_mset_key:
  assumes "mset xs = mset ys"
  shows "mset (map (result_order h) (winners h xs)) = mset (map (result_order h) (winners h ys))"
proof -
  have set_eq: "set xs = set ys" using assms by (metis mset_eq_setD)
  define val where "val zs k =
    snd (Min (preference ` {z \<in> zs. fingerprint h z = k})) @ [k]" for zs k
  have form: "map (result_order h) (winners h zs) =
      map (val (set zs)) (map fst (group_by (fingerprint h) zs))" for zs
  proof -
    have "result_order h (best_of bs) = val (set zs) k"
      if "(k, bs) \<in> set (group_by (fingerprint h) zs)" for k bs
    proof -
      from that have bs: "bs = filter (\<lambda>x. fingerprint h x = k) zs" "bs \<noteq> []"
        by (auto simp: in_group_by)
      then have "fingerprint h (best_of bs) = k" using best_of_in [of bs] by auto
      moreover have "projection (best_of bs) = snd (Min (preference ` set bs))"
        using best_of_key [OF bs(2)] by (metis preference_def snd_conv)
      ultimately show ?thesis using bs(1) by (simp add: result_order_def val_def)
    qed
    then show ?thesis by (auto simp: winners_def)
  qed
  have "mset (map fst (group_by (fingerprint h) xs)) = mset (map fst (group_by (fingerprint h) ys))"
    using distinct_group_by [of "fingerprint h"] keys_group_by [of "fingerprint h"] set_eq
    by (metis list.set_map set_eq_iff_mset_eq_distinct)
  then show ?thesis by (metis form mset_map set_eq)
qed

lemma dedup_order:
  assumes "mset xs = mset ys" "deduplicate_within_run h xs = Some r" "deduplicate_within_run h ys = Some q"
  shows "map projection (dr_articles r) = map projection (dr_articles q)"
    and "map (fingerprint h) (dr_articles r) = map (fingerprint h) (dr_articles q)"
proof -
  have "map (result_order h) (dr_articles r) = map (result_order h) (dr_articles q)"
    using winners_mset_key [OF assms(1), of h] assms(2,3)
    by (simp add: dedup_articles map_key_sort_key del: mset_map) (metis sorted_list_of_multiset_mset)
  then have eq: "map g (map (result_order h) (dr_articles r)) = map g (map (result_order h) (dr_articles q))" for g :: "string list \<Rightarrow> 'b"
    by simp
  show "map projection (dr_articles r) = map projection (dr_articles q)"
    using eq [of butlast] by (simp add: result_order_def comp_def)
  show "map (fingerprint h) (dr_articles r) = map (fingerprint h) (dr_articles q)"
    using eq [of last] by (simp add: result_order_def comp_def)
qed

end
