(* ===== verification/ArticleStore.thy ===== *)
theory ArticleStore
  imports SqlTable Deduplication
begin

text \<open>
  \<^verbatim>\<open>retrieval/persistence.py\<close>: raw articles are inserted under a hash of their identity,
  a row already present is a duplicate, and a statement that fails is counted and skipped
  (each insert has its own savepoint). \<open>rejects\<close> says which inserts the database refuses
  for another reason than the hash.
\<close>

record raw_row =
  rr_ingest_hash :: string
  rr_article :: raw_article
  rr_ingested_at :: datetime

definition ingest_material ::
  "string \<Rightarrow> string \<Rightarrow> datetime \<Rightarrow> string option \<Rightarrow> string option \<Rightarrow> string" where
  "ingest_material title src published provider pid =
     (if has_stable_provider_id provider pid
      then ''provider|'' @ the provider @ ''|'' @ the pid
      else title @ ''|'' @ src @ ''|'' @ isoformat published)"

definition ingest_hash :: "(string \<Rightarrow> string) \<Rightarrow> raw_article \<Rightarrow> string" where
  "ingest_hash sha256 a = sha256 (ingest_material (ra_title a) (ra_source_name a)
     (ra_published_at a) (Some (ra_provider a)) (ra_provider_article_id a))"

definition raw_row_of :: "(string \<Rightarrow> string) \<Rightarrow> datetime \<Rightarrow> raw_article \<Rightarrow> raw_row" where
  "raw_row_of sha256 now a =
     \<lparr>rr_ingest_hash = ingest_hash sha256 a, rr_article = a, rr_ingested_at = now\<rparr>"

record save_counts =
  sc_inserted :: nat
  sc_duplicates :: nat
  sc_errors :: nat

fun save_articles ::
  "(string \<Rightarrow> string) \<Rightarrow> (raw_article \<Rightarrow> bool) \<Rightarrow> datetime \<Rightarrow> raw_article list \<Rightarrow> raw_row list
     \<Rightarrow> save_counts \<times> raw_row list" where
  "save_articles sha256 rejects now [] t =
     (\<lparr>sc_inserted = 0, sc_duplicates = 0, sc_errors = 0\<rparr>, t)"
| "save_articles sha256 rejects now (a # as) t =
     (if rejects a then
        (case save_articles sha256 rejects now as t of
           (c, t') \<Rightarrow> (c\<lparr>sc_errors := Suc (sc_errors c)\<rparr>, t'))
      else case sql_insert rr_ingest_hash (raw_row_of sha256 now a) t of
        None \<Rightarrow> (case save_articles sha256 rejects now as t of
           (c, t') \<Rightarrow> (c\<lparr>sc_duplicates := Suc (sc_duplicates c)\<rparr>, t'))
      | Some t1 \<Rightarrow> (case save_articles sha256 rejects now as t1 of
           (c, t') \<Rightarrow> (c\<lparr>sc_inserted := Suc (sc_inserted c)\<rparr>, t')))"

lemma save_articles_counts:
  "save_articles h rejects now as t = (c, t') \<Longrightarrow>
    sc_inserted c + sc_duplicates c + sc_errors c = length as
    \<and> length t' = length t + sc_inserted c"
proof (induction as arbitrary: t c t')
  case (Cons a as)
  then show ?case
    by (auto simp: sql_insert_def split: if_splits option.splits prod.splits)
qed auto

lemma save_articles_distinct:
  "save_articles h rejects now as t = (c, t') \<Longrightarrow> distinct (map rr_ingest_hash t) \<Longrightarrow>
    distinct (map rr_ingest_hash t')"
proof (induction as arbitrary: t c t')
  case (Cons a as)
  from Cons.prems show ?case
    by (auto split: if_splits option.splits prod.splits dest!: keys_insert intro: Cons.IH)
qed auto

lemma save_articles_extends:
  "save_articles h rejects now as t = (c, t') \<Longrightarrow> \<exists>new. t' = t @ new \<and> rr_article ` set new \<subseteq> set as"
proof (induction as arbitrary: t c t')
  case (Cons a as)
  show ?case
  proof (cases "rejects a \<or> sql_insert rr_ingest_hash (raw_row_of h now a) t = None")
    case True
    with Cons.prems obtain c1 where "save_articles h rejects now as t = (c1, t')"
      by (auto split: if_splits prod.splits)
    with Cons.IH [of t c1 t'] show ?thesis by auto
  next
    case False
    then obtain t1 where t1: "sql_insert rr_ingest_hash (raw_row_of h now a) t = Some t1" by auto
    with False Cons.prems obtain c1 where "save_articles h rejects now as t1 = (c1, t')"
      by (auto split: prod.splits)
    with Cons.IH [of t1 c1 t'] obtain new where
      new: "t' = t1 @ new" "rr_article ` set new \<subseteq> set as" by blast
    have "t1 = t @ [raw_row_of h now a]" using t1 by (auto simp: sql_insert_def split: if_splits)
    with new have "t' = t @ (raw_row_of h now a # new)"
      "rr_article ` set (raw_row_of h now a # new) \<subseteq> set (a # as)"
      by (auto simp: raw_row_of_def)
    then show ?thesis by blast
  qed
qed auto

text \<open>Saving the same batch again only finds duplicates.\<close>

lemma sql_insert_present:
  "rr_ingest_hash r \<in> rr_ingest_hash ` set t \<Longrightarrow> sql_insert rr_ingest_hash r t = None"
  by (simp add: sql_insert_def)

lemma save_articles_present:
  assumes "save_articles h rejects now as t = (c, t')" "a \<in> set as" "\<not> rejects a"
  shows "ingest_hash h a \<in> rr_ingest_hash ` set t'"
  using assms
proof (induction as arbitrary: t c t')
  case (Cons b as)
  show ?case
  proof (cases "a = b")
    case False
    with Cons show ?thesis by (auto split: if_splits option.splits prod.splits)
  next
    case True
    obtain t1 c1 where t1: "save_articles h rejects now as t1 = (c1, t')"
      "ingest_hash h a \<in> rr_ingest_hash ` set t1"
      using Cons.prems True
      by (auto simp: sql_insert_def raw_row_of_def split: if_splits prod.splits)
    with save_articles_extends [OF t1(1)] show ?thesis by auto
  qed
qed simp

lemma save_articles_again:
  assumes "\<And>a. a \<in> set as \<Longrightarrow> \<not> rejects a \<Longrightarrow> ingest_hash h a \<in> rr_ingest_hash ` set t"
    and "save_articles h rejects now as t = (c, t')"
  shows "t' = t \<and> sc_inserted c = 0"
  using assms
proof (induction as arbitrary: c t')
  case (Cons a as)
  then show ?case
    by (auto simp: sql_insert_present raw_row_of_def split: if_splits prod.splits)
qed simp

end
