(* ===== verification/Orchestrator.thy ===== *)
theory Orchestrator
  imports CircuitBreaker ArticleStore RetrievalFetching
begin

text \<open>
  \<^verbatim>\<open>retrieval/orchestrator.py\<close>: one run claims its key, works on every enabled source under
  a lease of its own, commits what a source delivered only while both leases hold, and
  closes with totals.

  The database is the audit tables and the raw articles. What other workers do between
  two transactions of this one is a parameter (\<open>others\<close>, arbitrary), and so are the clock
  and what a provider delivers.
\<close>

record rdb =
  audit :: audit_db
  raw :: "raw_row list"

section \<open>Claiming the run\<close>

definition new_run :: "nat \<Rightarrow> string \<Rightarrow> string \<Rightarrow> string \<Rightarrow> datetime \<Rightarrow> retrieval_run" where
  "new_run i key version owner now = \<lparr>run_id = i, run_key = key, run_status = Running,
     run_registry_version = version, run_lease_owner = Some owner,
     run_lease_expires_at = Some (now + lease_duration), run_attempted_count = 1,
     run_counts = no_counts, run_started_at = now, run_finished_at = None\<rparr>"

definition relet :: "string \<Rightarrow> datetime \<Rightarrow> retrieval_run \<Rightarrow> retrieval_run" where
  "relet owner now r = r\<lparr>run_lease_owner := Some owner,
     run_lease_expires_at := Some (now + lease_duration),
     run_attempted_count := Suc (run_attempted_count r)\<rparr>"

definition renew_lease :: "string \<Rightarrow> datetime \<Rightarrow> retrieval_run \<Rightarrow> retrieval_run" where
  "renew_lease owner now r = r\<lparr>run_lease_expires_at := Some (now + lease_duration),
     run_attempted_count := Suc (run_attempted_count r)\<rparr>"

text \<open>What \<^verbatim>\<open>_claim\<close> does with a row it has read.\<close>

definition claim_existing ::
  "retrieval_run \<Rightarrow> string \<Rightarrow> datetime \<Rightarrow> audit_db \<Rightarrow> (bool \<times> string) \<times> audit_db" where
  "claim_existing run owner now db =
     (if run_status run = Completed then ((False, ''already_completed''), db)
      else if run_status run = Running \<and> run_lease_owner run = Some owner then
        (let p = (\<lambda>r. run_id r = run_id run \<and>
                    (run_status r = Running \<and> run_lease_owner r = Some owner));
             db' = db\<lparr>runs := sql_update p (renew_lease owner now) (runs db)\<rparr>
         in if rowcount p (runs db) = 1 then ((True, ''running''), db')
            else ((False, if map_option run_status (row_of run_id (runs db') (run_id run)) = Some Completed
                          then ''already_completed'' else ''already_running''), db'))
      else if run_status run = Running \<and> null_ge (run_lease_expires_at run) now
      then ((False, ''already_running''), db)
      else
        (let p = (\<lambda>r. run_id r = run_id run \<and> (run_status r = Running \<and>
                    (run_lease_expires_at r = None \<or> null_lt (run_lease_expires_at r) now)));
             db' = db\<lparr>runs := sql_update p (relet owner now) (runs db)\<rparr>
         in if rowcount p (runs db) = 1 then ((True, ''running''), db')
            else ((False, ''already_running''), db')))"

definition claim_with ::
  "retrieval_run option \<Rightarrow> string \<Rightarrow> string \<Rightarrow> string \<Rightarrow> datetime \<Rightarrow> audit_db
     \<Rightarrow> (bool \<times> string) \<times> audit_db" where
  "claim_with seen key version owner now db =
     (case seen of
        Some run \<Rightarrow> claim_existing run owner now db
      | None \<Rightarrow>
          (case sql_insert run_key (new_run (fresh_id run_id (runs db)) key version owner now) (runs db) of
             Some t \<Rightarrow> ((True, ''running''), db\<lparr>runs := t\<rparr>)
           | None \<Rightarrow> claim_existing (the (row_of run_key (runs db) key)) owner now db))"

definition claim ::
  "string \<Rightarrow> string \<Rightarrow> string \<Rightarrow> datetime \<Rightarrow> audit_db \<Rightarrow> (bool \<times> string) \<times> audit_db" where
  "claim key version owner now db =
     claim_with (row_of run_key (runs db) key) key version owner now db"

section \<open>One source\<close>

record source_result =
  sr_source_id :: string
  sr_status :: string
  sr_fetched :: int
  sr_inserted :: int
  sr_within_run_duplicates :: int
  sr_database_duplicates :: int
  sr_errors :: int
  sr_failure_code :: "string option"
  sr_response_bytes :: int
  sr_circuit_state :: string
  sr_next_poll_at :: "datetime option"

definition plain_result :: "string \<Rightarrow> string \<Rightarrow> source_result" where
  "plain_result src status = \<lparr>sr_source_id = src, sr_status = status, sr_fetched = 0,
     sr_inserted = 0, sr_within_run_duplicates = 0, sr_database_duplicates = 0, sr_errors = 0,
     sr_failure_code = None, sr_response_bytes = 0, sr_circuit_state = ''closed'',
     sr_next_poll_at = None\<rparr>"

fun status_string :: "job_status \<Rightarrow> string" where
  "status_string Pending = ''pending''"
| "status_string Running = ''running''"
| "status_string Completed = ''completed''"
| "status_string Failed = ''failed''"

definition next_poll :: "source_definition \<Rightarrow> datetime \<Rightarrow> datetime" where
  "next_poll sd now = now + minutes (sd_poll_minutes sd)"

text \<open>A source already worked on reports what its outcome row says.\<close>

definition recorded_result ::
  "source_definition \<Rightarrow> datetime \<Rightarrow> source_outcome option \<Rightarrow> source_result" where
  "recorded_result sd now outcome =
     (case outcome of
        None \<Rightarrow> plain_result (sd_source_id sd) ''already_claimed''
      | Some r \<Rightarrow>
          if so_status r = Running then plain_result (sd_source_id sd) ''already_claimed''
          else (plain_result (sd_source_id sd) (status_string (so_status r)))
            \<lparr>sr_fetched := fetched_count (so_counts r), sr_inserted := inserted_count (so_counts r),
             sr_within_run_duplicates := within_run_duplicate_count (so_counts r),
             sr_database_duplicates := database_duplicate_count (so_counts r),
             sr_errors := failed_count (so_counts r), sr_failure_code := so_failure_code r,
             sr_response_bytes := response_bytes (so_counts r),
             sr_next_poll_at := Some (next_poll sd now)\<rparr>)"

text \<open>Provenance a provider left out is filled in from the definition.\<close>

definition or_some :: "'a list option \<Rightarrow> 'a list \<Rightarrow> 'a list option" where
  "or_some x y = (if truthy x then x else Some y)"

definition annotate :: "source_definition \<Rightarrow> string \<Rightarrow> datetime \<Rightarrow> raw_article \<Rightarrow> raw_article" where
  "annotate sd version retrieved a = a\<lparr>
     ra_source_id := or_some (ra_source_id a) (sd_source_id sd),
     ra_source_class := or_some (ra_source_class a) (class_value (sd_source_class sd)),
     ra_source_domains := (if ra_source_domains a = []
       then sorted_list_of_set (domain_value ` sd_domains sd) else ra_source_domains a),
     ra_source_countries := (if ra_source_countries a = [] then sd_countries sd
       else ra_source_countries a),
     ra_registry_version := or_some (ra_registry_version a) version,
     ra_retrieved_at := (case ra_retrieved_at a of None \<Rightarrow> Some retrieved | Some t \<Rightarrow> Some t)\<rparr>"

text \<open>
  How fetching ends: articles with the response size, a fetch error, a timeout or
  connection error, or any other exception.
\<close>

datatype delivery =
    Delivered "raw_article list" int
  | FetchError fetch_result
  | ConnectionTrouble
  | OtherException

definition failure_code_of :: "delivery \<Rightarrow> fetch_failure_code" where
  "failure_code_of d = (case d of
       FetchError r \<Rightarrow> (case fr_failure_code r of Some c \<Rightarrow> c | None \<Rightarrow> NETWORK_ERROR)
     | ConnectionTrouble \<Rightarrow> NETWORK_ERROR
     | _ \<Rightarrow> PARSER_ERROR)"

definition failure_bytes :: "delivery \<Rightarrow> int" where
  "failure_bytes d = (case d of FetchError r \<Rightarrow> int (fr_response_bytes r) | _ \<Rightarrow> 0)"

text \<open>
  The transaction that stores what a source delivered: fence the run, insert, record the
  outcome, and commit only if both leases still hold; otherwise everything is rolled back.
  \<open>Some\<close> is the committed state with the counts.
\<close>

definition source_counts :: "nat \<Rightarrow> dedup_result \<Rightarrow> save_counts \<Rightarrow> int \<Rightarrow> counts" where
  "source_counts n d c bytes = \<lparr>fetched_count = int n,
     accepted_count = int (length (dr_articles d)), inserted_count = int (sc_inserted c),
     duplicate_count = int (sc_duplicates c) + int (dr_duplicates d),
     within_run_duplicate_count = int (dr_duplicates d),
     database_duplicate_count = int (sc_duplicates c), response_bytes = bytes,
     failed_count = int (sc_errors c)\<rparr>"

definition commit_source ::
  "(string \<Rightarrow> string) \<Rightarrow> (raw_article \<Rightarrow> bool) \<Rightarrow> nat \<Rightarrow> string \<Rightarrow> string \<Rightarrow> datetime \<Rightarrow> datetime
     \<Rightarrow> nat \<Rightarrow> dedup_result \<Rightarrow> int \<Rightarrow> rdb \<Rightarrow> (counts \<times> rdb) option" where
  "commit_source sha256 rejects rid src owner t1 t2 n d bytes db =
     (case fence_run rid owner t1 (audit db) of
        (False, _) \<Rightarrow> None
      | (True, a1) \<Rightarrow>
          (case save_articles sha256 rejects t1 (dr_articles d) (raw db) of
             (c, raw') \<Rightarrow>
               (let cs = source_counts n d c bytes in
                case complete_source rid src owner t2 cs a1 of
                  (False, _) \<Rightarrow> None
                | (True, a2) \<Rightarrow> Some (cs, db\<lparr>audit := a2, raw := raw'\<rparr>))))"

definition lease_lost :: "string \<Rightarrow> source_result" where
  "lease_lost src = (plain_result src ''lease_lost'')\<lparr>sr_errors := 1,
     sr_failure_code := Some ''lease_lost''\<rparr>"

text \<open>The \<^verbatim>\<open>except\<close> clause: a parser error counts against the circuit, the source has failed.\<close>

definition source_failed ::
  "nat \<Rightarrow> source_definition \<Rightarrow> string \<Rightarrow> fetch_failure_code \<Rightarrow> int \<Rightarrow> datetime \<Rightarrow> datetime \<Rightarrow> rdb
     \<Rightarrow> source_result \<times> rdb" where
  "source_failed rid sd owner code bytes now t db =
     (let src = sd_source_id sd;
          a1 = (if code = PARSER_ERROR then record_circuit_failure src t (audit db) else audit db);
          a2 = snd (fail_source rid src owner code None t bytes a1)
      in ((plain_result src ''failed'')\<lparr>sr_errors := 1, sr_failure_code := Some (failure_value code),
            sr_response_bytes := bytes, sr_circuit_state := circuit_state src t a2,
            sr_next_poll_at := Some (next_poll sd now)\<rparr>,
          db\<lparr>audit := a2\<rparr>))"

text \<open>The end of a source whose articles are committed: the circuit is closed again.\<close>

definition task_completed ::
  "source_definition \<Rightarrow> string \<Rightarrow> int \<Rightarrow> datetime \<Rightarrow> datetime \<Rightarrow> counts \<Rightarrow> rdb \<Rightarrow> source_result \<times> rdb" where
  "task_completed sd owner bytes now t cs db =
     (let src = sd_source_id sd; a = snd (record_circuit_success src owner (audit db)) in
      ((plain_result src ''completed'')\<lparr>sr_fetched := fetched_count cs,
          sr_inserted := inserted_count cs,
          sr_within_run_duplicates := within_run_duplicate_count cs,
          sr_database_duplicates := database_duplicate_count cs,
          sr_errors := failed_count cs, sr_response_bytes := bytes,
          sr_circuit_state := circuit_state src t a,
          sr_next_poll_at := Some (next_poll sd now)\<rparr>,
       db\<lparr>audit := a\<rparr>))"

text \<open>What a provider delivered: annotated, deduplicated, and committed under the leases.\<close>

definition store_delivered ::
  "(string \<Rightarrow> string) \<Rightarrow> (raw_article \<Rightarrow> bool) \<Rightarrow> (nat \<Rightarrow> datetime) \<Rightarrow> string \<Rightarrow> nat \<Rightarrow> string
     \<Rightarrow> source_definition \<Rightarrow> raw_article list \<Rightarrow> int \<Rightarrow> rdb \<Rightarrow> source_result \<times> rdb" where
  "store_delivered sha256 rejects clk version rid owner sd as bytes db =
     (let as' = map (annotate sd version (clk 1)) as in
      case deduplicate_within_run sha256 as' of
        None \<Rightarrow> source_failed rid sd owner PARSER_ERROR 0 (clk 0) (clk 2) db
      | Some d \<Rightarrow>
          (case commit_source sha256 rejects rid (sd_source_id sd) owner (clk 2) (clk 3)
                  (length as') d bytes db of
             None \<Rightarrow> (lease_lost (sd_source_id sd), db)
           | Some (cs, db2) \<Rightarrow> task_completed sd owner bytes (clk 0) (clk 4) cs db2))"

text \<open>
  \<^verbatim>\<open>_source\<close>. \<open>clk\<close> gives the clock at each reading, \<open>deliver\<close> what the provider does
  (it may move the circuit), \<open>others\<close> what happens to the database between this worker's
  transactions.
\<close>

definition source_task ::
  "(string \<Rightarrow> string) \<Rightarrow> (raw_article \<Rightarrow> bool) \<Rightarrow> (nat \<Rightarrow> datetime) \<Rightarrow> (nat \<Rightarrow> rdb \<Rightarrow> rdb)
     \<Rightarrow> (source_definition \<Rightarrow> audit_db \<Rightarrow> delivery \<times> audit_db) \<Rightarrow> string \<Rightarrow> nat \<Rightarrow> string
     \<Rightarrow> source_definition \<Rightarrow> rdb \<Rightarrow> source_result \<times> rdb" where
  "source_task sha256 rejects clk others deliver version rid owner sd db =
     (let src = sd_source_id sd; now = clk 0 in
      case claim_source rid src owner now (audit db) of
        (False, a) \<Rightarrow> (recorded_result sd now (find_outcome rid src a), db\<lparr>audit := a\<rparr>)
      | (True, a) \<Rightarrow>
          (let db0 = others 0 (db\<lparr>audit := a\<rparr>) in
           case deliver sd (audit db0) of
             (dl, a1) \<Rightarrow>
               (let db1 = others 1 (db0\<lparr>audit := a1\<rparr>) in
                case dl of
                  Delivered as bytes \<Rightarrow>
                    store_delivered sha256 rejects clk version rid owner sd as bytes db1
                | _ \<Rightarrow> source_failed rid sd owner (failure_code_of dl) (failure_bytes dl) now
                        (clk 2) db1)))"

section \<open>The run\<close>

record run_result =
  rr_status :: string
  rr_run_id :: nat
  rr_sources :: "source_result list"
  rr_fetched :: int
  rr_inserted :: int
  rr_duplicates :: int
  rr_errors :: int
  rr_within :: int
  rr_database :: int
  rr_reasons :: "(string \<times> nat) list"
  rr_response_bytes :: int
  rr_circuit_state :: "(string \<times> string) list"
  rr_next_poll_at :: "datetime option"

definition sum_of :: "(source_result \<Rightarrow> int) \<Rightarrow> source_result list \<Rightarrow> int" where
  "sum_of f rs = sum_list (map f rs)"

fun bump :: "string \<Rightarrow> (string \<times> nat) list \<Rightarrow> (string \<times> nat) list" where
  "bump k [] = [(k, 1)]"
| "bump k ((k', n) # g) = (if k' = k then (k', Suc n) # g else (k', n) # bump k g)"

fun set_key :: "string \<Rightarrow> nat \<Rightarrow> (string \<times> nat) list \<Rightarrow> (string \<times> nat) list" where
  "set_key k v [] = [(k, v)]"
| "set_key k v ((k', n) # g) = (if k' = k then (k', v) # g else (k', n) # set_key k v g)"

fun reasons_of :: "source_result list \<Rightarrow> (string \<times> nat) list \<Rightarrow> (string \<times> nat) list" where
  "reasons_of [] g = g"
| "reasons_of (r # rs) g =
     reasons_of rs (case sr_failure_code r of Some c \<Rightarrow> if c = [] then g else bump c g | None \<Rightarrow> g)"

definition summary :: "string \<Rightarrow> nat \<Rightarrow> source_result list \<Rightarrow> run_result" where
  "summary status rid rs =
     (let dup_within = sum_of sr_within_run_duplicates rs; dup_database = sum_of sr_database_duplicates rs
      in \<lparr>rr_status = status, rr_run_id = rid, rr_sources = rs, rr_fetched = sum_of sr_fetched rs,
          rr_inserted = sum_of sr_inserted rs, rr_duplicates = dup_within + dup_database,
          rr_errors = sum_of sr_errors rs, rr_within = dup_within, rr_database = dup_database,
          rr_reasons = reasons_of rs [], rr_response_bytes = 0, rr_circuit_state = [],
          rr_next_poll_at = None\<rparr>)"

text \<open>\<^verbatim>\<open>min((t for ... if t), default=None)\<close>\<close>

definition earliest :: "datetime option list \<Rightarrow> datetime option" where
  "earliest ts = (case [t. Some t \<leftarrow> ts] of [] \<Rightarrow> None | u # us \<Rightarrow> Some (fold min us u))"

definition run_totals :: "source_result list \<Rightarrow> counts" where
  "run_totals rs = no_counts\<lparr>fetched_count := sum_of sr_fetched rs,
     accepted_count := sum_of sr_fetched rs - sum_of sr_within_run_duplicates rs,
     inserted_count := sum_of sr_inserted rs,
     duplicate_count := sum_of sr_within_run_duplicates rs + sum_of sr_database_duplicates rs,
     failed_count := sum_of sr_errors rs\<rparr>"

text \<open>The end of \<^verbatim>\<open>run\<close>, from the results of the sources on.\<close>

definition close_run ::
  "nat \<Rightarrow> string \<Rightarrow> datetime \<Rightarrow> source_result list \<Rightarrow> rdb \<Rightarrow> run_result \<times> rdb" where
  "close_run rid owner now rs db =
     (if list_ex (\<lambda>r. sr_status r = ''lease_lost'') rs then (summary ''lease_lost'' rid rs, db)
      else case complete_run rid owner now (run_totals rs) (audit db) of
        (True, a) \<Rightarrow> ((summary ''completed'' rid rs)
            \<lparr>rr_response_bytes := sum_of sr_response_bytes rs,
             rr_circuit_state := map (\<lambda>r. (sr_source_id r, sr_circuit_state r)) rs,
             rr_next_poll_at := earliest (map sr_next_poll_at rs)\<rparr>, db\<lparr>audit := a\<rparr>)
      | (False, a) \<Rightarrow> ((summary ''lease_lost'' rid rs)
            \<lparr>rr_errors := sum_of sr_errors rs + 1,
             rr_reasons := set_key ''lease_lost'' 1 (reasons_of rs [])\<rparr>, db\<lparr>audit := a\<rparr>))"

text \<open>
  \<^verbatim>\<open>run\<close> for one order in which the sources happen to be worked on; \<open>task\<close> is
  \<open>source_task\<close> with its environment.
\<close>

fun work_all ::
  "(source_definition \<Rightarrow> rdb \<Rightarrow> source_result \<times> rdb) \<Rightarrow> source_definition list \<Rightarrow> rdb
     \<Rightarrow> source_result list \<times> rdb" where
  "work_all task [] db = ([], db)"
| "work_all task (sd # sds) db =
     (let (r, db1) = task sd db; (rs, db2) = work_all task sds db1 in (r # rs, db2))"

definition run_retrieval ::
  "(nat \<Rightarrow> source_definition \<Rightarrow> rdb \<Rightarrow> source_result \<times> rdb) \<Rightarrow> source_definition list \<Rightarrow> string
     \<Rightarrow> string \<Rightarrow> string \<Rightarrow> datetime \<Rightarrow> datetime \<Rightarrow> rdb \<Rightarrow> run_result \<times> rdb" where
  "run_retrieval task registry key version owner t0 t1 db =
     (case claim key version owner t0 (audit db) of
        ((acquired, status), a) \<Rightarrow>
          (let rid = run_id (the (row_of run_key (runs a) key)); db1 = db\<lparr>audit := a\<rparr> in
           if \<not> acquired then (summary status rid [], db1)
           else (case work_all (task rid) (enabled None registry) db1 of
                   (rs, db2) \<Rightarrow> close_run rid owner t1 rs db2)))"

end
