(* ===== verification/OrchestratorFacts.thy ===== *)
theory OrchestratorFacts
  imports Orchestrator
begin

text \<open>
  The run lease as a second instance of the lease interface; the transaction of a source
  is all or nothing; and the books balance: every fetched article is accounted for as
  inserted, as a duplicate, or as an error.
\<close>

section \<open>The run lease\<close>

definition run_slot_of :: "retrieval_run \<Rightarrow> slot" where
  "run_slot_of r = (case (run_lease_owner r, run_lease_expires_at r) of
     (Some ow, Some e) \<Rightarrow> Held ow e | _ \<Rightarrow> Done)"

definition run_slot :: "string \<Rightarrow> audit_db \<Rightarrow> slot" where
  "run_slot key db = (case row_of run_key (runs db) key of None \<Rightarrow> Free | Some r \<Rightarrow> run_slot_of r)"

definition run_snapshot :: "string \<Rightarrow> retrieval_run option \<Rightarrow> audit_db \<Rightarrow> bool" where
  "run_snapshot key x db \<longleftrightarrow>
     (case x of None \<Rightarrow> True
      | Some e \<Rightarrow> list_ex (\<lambda>r. run_id r = run_id e \<and> run_key r = key) (runs db))"

definition attempt_run ::
  "string \<Rightarrow> string \<Rightarrow> retrieval_run option \<Rightarrow> string \<Rightarrow> datetime \<Rightarrow> audit_db \<Rightarrow> bool \<times> audit_db" where
  "attempt_run key version x owner now db =
     (case claim_with x key version owner now db of ((b, st), db') \<Rightarrow> (b, db'))"

text \<open>Closing the run a worker has claimed, addressed by its key.\<close>

definition finish_run ::
  "string \<Rightarrow> counts \<Rightarrow> string \<Rightarrow> datetime \<Rightarrow> audit_db \<Rightarrow> bool \<times> audit_db" where
  "finish_run key cs owner now db =
     (case row_of run_key (runs db) key of
        None \<Rightarrow> (False, db)
      | Some r \<Rightarrow> complete_run (run_id r) owner now cs db)"

lemma row_run_ok: "audit_inv db \<Longrightarrow> row_of run_key (runs db) key = Some r \<Longrightarrow> run_ok r"
  by (auto simp: audit_inv_def intro: row_of_list_all)

lemma row_by_run_id:
  "audit_inv db \<Longrightarrow> r \<in> set (runs db) \<Longrightarrow> row_of run_id (runs db) (run_id r) = Some r"
  by (rule row_of_in) (simp_all add: audit_inv_def)

lemma row_by_run_key:
  "audit_inv db \<Longrightarrow> r \<in> set (runs db) \<Longrightarrow> row_of run_key (runs db) (run_key r) = Some r"
  by (rule row_of_in) (simp_all add: audit_inv_def)

lemma run_update_row:
  assumes "audit_inv db" "row_of run_key (runs db) key = Some r" "run_id r = i"
    and "\<And>r. run_key (f r) = run_key r"
  shows "rowcount (\<lambda>r. run_id r = i \<and> q r) (runs db) = (if q r then 1 else 0)"
    and "row_of run_key (sql_update (\<lambda>r. run_id r = i \<and> q r) f (runs db)) key =
      Some (if q r then f r else r)"
proof -
  have "r \<in> set (runs db)" using assms(2) by (auto dest: row_of_SomeD)
  then have "row_of run_id (runs db) i = Some r" using row_by_run_id [OF assms(1)] assms(3) by blast
  then show "rowcount (\<lambda>r. run_id r = i \<and> q r) (runs db) = (if q r then 1 else 0)"
    using rowcount_key [of run_id "runs db" i q] assms(1) by (simp add: audit_inv_def)
  show "row_of run_key (sql_update (\<lambda>r. run_id r = i \<and> q r) f (runs db)) key =
      Some (if q r then f r else r)"
    using assms(2-4) by (simp add: row_of_update)
qed

lemma run_snapshot_row:
  assumes "audit_inv db" "run_snapshot key (Some e) db"
  obtains r where "row_of run_key (runs db) key = Some r" "run_id r = run_id e"
  using assms row_by_run_key [OF assms(1)] by (auto simp: run_snapshot_def list_ex_iff)

lemma claim_existing_slot:
  assumes "audit_inv db" "run_snapshot key (Some e) db" "claim_existing e ow now db = ((b, st), db')"
  shows "slot_acquires lease_duration ow now (run_slot key db) b (run_slot key db')"
proof -
  obtain r where r: "row_of run_key (runs db) key = Some r" "run_id r = run_id e"
    using run_snapshot_row [OF assms(1,2)] by blast
  note ok = row_run_ok [OF assms(1) r(1)]
  let ?mine = "\<lambda>r. run_status r = Running \<and> run_lease_owner r = Some ow"
  let ?free = "\<lambda>r. run_status r = Running \<and>
    (run_lease_expires_at r = None \<or> null_lt (run_lease_expires_at r) now)"
  have keep: "run_key (renew_lease ow now x) = run_key x" "run_key (relet ow now x) = run_key x" for x
    by (simp_all add: renew_lease_def relet_def)
  note upd = run_update_row [OF assms(1) r, of "renew_lease ow now" ?mine, OF keep(1)]
    run_update_row [OF assms(1) r, of "relet ow now" ?free, OF keep(2)]
  consider "db' = db" "\<not> b"
    | "db' = db\<lparr>runs := sql_update (\<lambda>r. run_id r = run_id e \<and> ?mine r) (renew_lease ow now) (runs db)\<rparr>"
      "b = ?mine r"
    | "db' = db\<lparr>runs := sql_update (\<lambda>r. run_id r = run_id e \<and> ?free r) (relet ow now) (runs db)\<rparr>"
      "b = ?free r"
    using assms(3) upd(1,3) by (auto simp: claim_existing_def Let_def split: if_splits)
  then show ?thesis
  proof cases
    case 1
    then show ?thesis by (simp add: slot_acquires.refuse)
  next
    case 2
    with upd(2) r ok show ?thesis
      by (auto simp: run_slot_def run_slot_of_def renew_lease_def run_ok_def
          split: option.splits intro: slot_acquires.intros)
  next
    case 3
    with upd(4) r ok show ?thesis
      by (auto simp: run_slot_def run_slot_of_def relet_def run_ok_def
          split: option.splits intro: slot_acquires.intros)
  qed
qed

lemma new_run_simps [simp]:
  "run_key (new_run i key version ow now) = key" "run_id (new_run i key version ow now) = i"
  "run_ok (new_run i key version ow now)"
  "run_slot_of (new_run i key version ow now) = Held ow (now + lease_duration)"
  by (simp_all add: new_run_def run_ok_def run_slot_of_def)

lemma claim_with_slot:
  assumes "audit_inv db" "run_snapshot key x db" "claim_with x key version ow now db = ((b, st), db')"
  shows "slot_acquires lease_duration ow now (run_slot key db) b (run_slot key db')"
proof (cases x)
  case (Some e)
  with assms claim_existing_slot show ?thesis by (auto simp: claim_with_def)
next
  case None
  let ?r = "new_run (fresh_id run_id (runs db)) key version ow now"
  show ?thesis
  proof (cases "sql_insert run_key ?r (runs db)")
    case (Some t)
    then have "row_of run_key (runs db) key = None"
      using sql_insert_None_iff [of run_key ?r "runs db"] by simp
    moreover have "row_of run_key t key = Some ?r" using row_of_insert [OF Some, of key] by simp
    ultimately show ?thesis
      using assms(3) None Some by (auto simp: claim_with_def run_slot_def intro: slot_acquires.grant)
  next
    case n: None
    then obtain e where e: "row_of run_key (runs db) key = Some e"
      using sql_insert_None_iff [of run_key ?r "runs db"] by auto
    then have "run_snapshot key (Some e) db"
      by (auto simp: run_snapshot_def list_ex_iff dest: row_of_SomeD)
    with assms None n e claim_existing_slot show ?thesis by (auto simp: claim_with_def)
  qed
qed

lemma claim_existing_inv: "audit_inv db \<Longrightarrow> audit_inv (snd (claim_existing e ow now db))"
  by (auto simp: claim_existing_def Let_def renew_lease_def relet_def run_ok_def
      intro!: inv_update_runs)

lemma claim_with_inv [inv_intros]:
  assumes "audit_inv db"
  shows "audit_inv (snd (claim_with x key version ow now db))"
proof -
  have "audit_inv (db\<lparr>runs := t\<rparr>)"
    if t: "sql_insert run_key (new_run (fresh_id run_id (runs db)) key version ow now) (runs db) = Some t" for t
    using assms keys_insert [OF t] insert_fresh_distinct [of run_id, OF _ t]
      list_all_insert [OF _ _ t, of run_ok]
    by (simp add: audit_inv_def)
  with assms show ?thesis
    by (auto simp: claim_with_def claim_existing_inv split: option.split)
qed

lemma complete_run_slot:
  assumes "audit_inv db" "finish_run key cs ow now db = (b, db')"
  shows "slot_finish ow now (run_slot key db) = (b, run_slot key db')"
proof (cases "row_of run_key (runs db) key")
  case None
  with assms(2) show ?thesis by (auto simp: finish_run_def run_slot_def)
next
  case (Some r)
  let ?q = "\<lambda>x. run_status x = Running \<and> run_lease_owner x = Some ow \<and> null_ge (run_lease_expires_at x) now"
  let ?f = "\<lambda>x. x\<lparr>run_status := Completed, run_finished_at := Some now, run_lease_owner := None,
      run_lease_expires_at := None, run_counts := cs\<rparr>"
  have h: "holds_run (run_id r) ow now = (\<lambda>x. run_id x = run_id r \<and> ?q x)"
    by (auto simp: holds_run_def)
  have keep: "\<And>x. run_key (?f x) = run_key x" by simp
  note upd = run_update_row [OF assms(1) Some refl, of ?f ?q, OF keep]
  have fin: "(b, db') = complete_run (run_id r) ow now cs db"
    using assms(2) Some by (simp add: finish_run_def)
  have ok: "run_ok r" using row_run_ok [OF assms(1) Some] .
  show ?thesis
  proof (cases "?q r")
    case True
    with fin upd have "b" "row_of run_key (runs db') key = Some (?f r)"
      by (simp_all add: complete_run_def h Let_def)
    with True Some ok show ?thesis
      by (auto simp: run_slot_def run_slot_of_def run_ok_def split: option.splits)
  next
    case False
    with fin upd have "\<not> b" "row_of run_key (runs db') key = Some r"
      by (simp_all add: complete_run_def h Let_def)
    with False Some ok show ?thesis
      by (auto simp: run_slot_def run_slot_of_def run_ok_def split: option.splits)
  qed
qed

interpretation run_lease: lease "attempt_run key version" "finish_run key" "run_snapshot key"
    "run_slot key" audit_inv lease_duration
  for key version
proof (unfold_locales, goal_cases)
  case (1 s x ow now)
  then show ?case
    using claim_with_inv [of s x key version ow now]
    by (auto simp: attempt_run_def split: prod.split)
next
  case (2 s y ow now)
  then show ?case by (auto simp: finish_run_def inv_intros split: option.split)
next
  case (3 s x ow now b s')
  then show ?case by (auto simp: attempt_run_def split: prod.splits intro: claim_with_slot)
next
  case (4 s y ow now b s')
  then show ?case by (auto intro: complete_run_slot)
qed

section \<open>The fence and the commit\<close>

lemma fence_run_db [simp]: "snd (fence_run rid ow now db) = db"
proof -
  have "sql_update p (\<lambda>r. r\<lparr>run_lease_expires_at := run_lease_expires_at r\<rparr>) t = t" for p and t :: "retrieval_run list"
    by (simp add: sql_update_def map_idI)
  then show ?thesis by (cases db) (simp add: fence_run_def Let_def)
qed

lemma fence_runD: "fence_run rid ow now db = (b, a) \<Longrightarrow> a = db \<and> b = (rowcount (holds_run rid ow now) (runs db) = 1)"
  using fence_run_db [of rid ow now db] by (simp add: fence_run_def Let_def)

lemma commit_source_Some:
  assumes "commit_source h rejects rid src ow t1 t2 n d bytes db = Some (cs, db')"
  obtains c where "fst (fence_run rid ow t1 (audit db))"
    "save_articles h rejects t1 (dr_articles d) (raw db) = (c, raw db')"
    "cs = source_counts n d c bytes"
    "complete_source rid src ow t2 cs (audit db) = (True, audit db')"
  using assms by (auto simp: commit_source_def Let_def split: prod.splits bool.splits dest!: fence_runD)

lemma dedup_counts:
  assumes "deduplicate_within_run h xs = Some d"
  shows "length (dr_articles d) + dr_duplicates d = length xs"
  using assms length_winners_le [of h xs]
  by (auto simp: deduplicate_within_run_def winners_def Let_def split: if_splits)

section \<open>The books\<close>

definition outcome_balanced :: "source_outcome \<Rightarrow> bool" where
  "outcome_balanced r \<longleftrightarrow> (let c = so_counts r in
     if so_status r = Completed
     then fetched_count c = inserted_count c + within_run_duplicate_count c
            + database_duplicate_count c + failed_count c
     else fetched_count c = 0 \<and> inserted_count c = 0 \<and> within_run_duplicate_count c = 0
       \<and> database_duplicate_count c = 0 \<and> failed_count c = (if so_status r = Failed then 1 else 0))"

definition books :: "audit_db \<Rightarrow> bool" where
  "books db \<longleftrightarrow> list_all outcome_balanced (outcomes db)"

lemma books_cong [simp]: "books (db\<lparr>runs := x\<rparr>) = books db" "books (db\<lparr>circuits := y\<rparr>) = books db"
  by (simp_all add: books_def)

lemma books_update:
  assumes "books db" "\<And>r. p r \<Longrightarrow> outcome_balanced r \<Longrightarrow> outcome_balanced (f r)"
  shows "books (db\<lparr>outcomes := sql_update p f (outcomes db)\<rparr>)"
  using assms list_all_update [of outcome_balanced "outcomes db" p f] by (simp add: books_def)

lemma books_claim_source_with:
  assumes "books db"
  shows "books (snd (claim_source_with x rid src ow now db))"
proof -
  have ren: "books (snd (renew_source i ow now db))" for i
    using assms by (auto simp: renew_source_def Let_def outcome_balanced_def intro!: books_update)
  have ins: "books (db\<lparr>outcomes := t\<rparr>)"
    if "sql_insert so_key (new_outcome i rid src ow now) (outcomes db) = Some t" for i t
    using assms list_all_insert [OF _ _ that, of outcome_balanced]
    by (simp add: books_def outcome_balanced_def new_outcome_def no_counts_def)
  have tak: "books (db\<lparr>outcomes := sql_update p (taken_over ow now) (outcomes db)\<rparr>)" for p
    using assms by (auto simp: taken_over_def outcome_balanced_def Let_def intro!: books_update)
  have "books (snd (takeover_or_insert rid src ow now db))"
    using assms ins tak by (auto simp: takeover_or_insert_def Let_def split: option.split)
  with assms ren show ?thesis by (auto simp: claim_source_with_def split: option.split)
qed

lemma books_claim_source: "books db \<Longrightarrow> books (snd (claim_source rid src ow now db))"
  by (simp add: claim_source_def books_claim_source_with)

lemma books_complete_source:
  assumes "books db" "fetched_count cs = inserted_count cs + within_run_duplicate_count cs
            + database_duplicate_count cs + failed_count cs"
  shows "books (snd (complete_source rid src ow now cs db))"
  using assms by (auto simp: complete_source_def update_source_def completed_values_def
      Let_def outcome_balanced_def intro!: books_update)

lemma books_fail_source:
  assumes "books db"
  shows "books (snd (fail_source rid src ow code detail now bytes db))"
  using assms by (auto simp: fail_source_def update_source_def failed_values_def renewable_def
      outcome_balanced_def Let_def intro!: books_update)

lemma books_circuit [simp]:
  "books (record_circuit_failure src now db) = books db"
  "books (snd (record_circuit_success src ow db)) = books db"
  by (simp_all add: record_circuit_failure_def record_circuit_failure_with_def Let_def
      record_circuit_success_def)

lemma source_counts_balanced:
  assumes "deduplicate_within_run h xs = Some d" "n = length xs"
    "save_articles h rejects t (dr_articles d) raws = (c, raws')"
  shows "fetched_count (source_counts n d c bytes) =
    inserted_count (source_counts n d c bytes) + within_run_duplicate_count (source_counts n d c bytes)
      + database_duplicate_count (source_counts n d c bytes) + failed_count (source_counts n d c bytes)"
  using dedup_counts [OF assms(1)] save_articles_counts [OF assms(3)] assms(2)
  by (simp add: source_counts_def)

definition troubled :: "source_result \<Rightarrow> bool" where
  "troubled r \<longleftrightarrow> sr_status r = ''failed'' \<or> sr_status r = ''lease_lost''"

definition result_balanced :: "source_result \<Rightarrow> bool" where
  "result_balanced r \<longleftrightarrow> sr_fetched r + (if troubled r then 1 else 0) =
     sr_inserted r + sr_within_run_duplicates r + sr_database_duplicates r + sr_errors r"

lemma recorded_result_balanced:
  assumes "books db"
  shows "result_balanced (recorded_result sd now (find_outcome rid src db))"
proof (cases "find_outcome rid src db")
  case None
  then show ?thesis by (simp add: recorded_result_def result_balanced_def plain_result_def troubled_def)
next
  case (Some r)
  have "outcome_balanced r"
    using assms Some by (auto simp: books_def find_outcome_def intro: row_of_list_all)
  with Some show ?thesis
    by (cases "so_status r") (simp_all add: recorded_result_def result_balanced_def plain_result_def
        troubled_def outcome_balanced_def Let_def)
qed

lemma source_failed_balanced:
  assumes "books (audit db)"
  shows "result_balanced (fst (source_failed rid sd ow code bytes now t db))
    \<and> books (audit (snd (source_failed rid sd ow code bytes now t db)))"
  using assms
  by (simp add: source_failed_def Let_def result_balanced_def plain_result_def troubled_def
      books_fail_source)

lemma commit_source_balanced:
  assumes "books (audit db)" "deduplicate_within_run h xs = Some d" "n = length xs"
    "commit_source h rejects rid src ow t1 t2 n d bytes db = Some (cs, db')"
  shows "books (audit db') \<and> fetched_count cs = inserted_count cs + within_run_duplicate_count cs
            + database_duplicate_count cs + failed_count cs"
proof -
  obtain c where c: "save_articles h rejects t1 (dr_articles d) (raw db) = (c, raw db')"
    "cs = source_counts n d c bytes" "complete_source rid src ow t2 cs (audit db) = (True, audit db')"
    using commit_source_Some [OF assms(4)] by blast
  note bal = source_counts_balanced [OF assms(2,3) c(1), of bytes, folded c(2)]
  with books_complete_source [OF assms(1) bal, of rid src ow t2] c(3) show ?thesis by simp
qed

lemma task_completed_balanced:
  assumes "books (audit db)" "fetched_count cs = inserted_count cs + within_run_duplicate_count cs
            + database_duplicate_count cs + failed_count cs"
  shows "result_balanced (fst (task_completed sd ow bytes now t cs db))
    \<and> books (audit (snd (task_completed sd ow bytes now t cs db)))"
  using assms
  by (simp add: task_completed_def Let_def result_balanced_def plain_result_def troubled_def)

lemma store_delivered_balanced:
  assumes "books (audit db)"
  shows "result_balanced (fst (store_delivered h rejects clk version rid ow sd as bytes db))
    \<and> books (audit (snd (store_delivered h rejects clk version rid ow sd as bytes db)))"
proof (cases "deduplicate_within_run h (map (annotate sd version (clk 1)) as)")
  case None
  with source_failed_balanced [OF assms] show ?thesis by (simp add: store_delivered_def)
next
  case d: (Some d)
  show ?thesis
  proof (cases "commit_source h rejects rid (sd_source_id sd) ow (clk 2) (clk 3)
      (length (map (annotate sd version (clk 1)) as)) d bytes db")
    case None
    with d assms show ?thesis
      by (simp add: store_delivered_def lease_lost_def result_balanced_def plain_result_def troubled_def)
  next
    case (Some p)
    obtain cs db2 where p: "p = (cs, db2)" by fastforce
    have "books (audit db2) \<and> fetched_count cs = inserted_count cs + within_run_duplicate_count cs
            + database_duplicate_count cs + failed_count cs"
      using commit_source_balanced [OF assms d refl Some [unfolded p]] .
    with d Some p task_completed_balanced show ?thesis by (simp add: store_delivered_def)
  qed
qed

lemma source_task_balanced:
  assumes "books (audit db)"
    and oth: "\<And>n db. books (audit db) \<Longrightarrow> books (audit (others n db))"
    and del: "\<And>a. books a \<Longrightarrow> books (snd (deliver sd a))"
  shows "result_balanced (fst (source_task h rejects clk others deliver version rid ow sd db))
    \<and> books (audit (snd (source_task h rejects clk others deliver version rid ow sd db)))"
proof -
  obtain b a where cl: "claim_source rid (sd_source_id sd) ow (clk 0) (audit db) = (b, a)" by fastforce
  have a: "books a" using books_claim_source [OF assms(1), of rid "sd_source_id sd" ow "clk 0"] cl by simp
  show ?thesis
  proof (cases b)
    case False
    with cl a recorded_result_balanced [OF a] show ?thesis by (simp add: source_task_def Let_def)
  next
    case True
    obtain dl a1 where d: "deliver sd (audit (others 0 (db\<lparr>audit := a\<rparr>))) = (dl, a1)" by fastforce
    have "books (audit (others 0 (db\<lparr>audit := a\<rparr>)))" using a oth by simp
    then have "books a1" using del d by (metis snd_conv)
    then have b1: "books (audit (others 1 ((others 0 (db\<lparr>audit := a\<rparr>))\<lparr>audit := a1\<rparr>)))"
      using oth by simp
    show ?thesis
      using cl True d store_delivered_balanced [OF b1] source_failed_balanced [OF b1]
      by (cases dl) (simp_all add: source_task_def Let_def)
  qed
qed

section \<open>The totals of a run\<close>

lemma work_all_balanced:
  assumes "books (audit db)"
    and "\<And>sd db. books (audit db) \<Longrightarrow>
      result_balanced (fst (task sd db)) \<and> books (audit (snd (task sd db)))"
    and "work_all task sds db = (rs, db')"
  shows "list_all result_balanced rs \<and> books (audit db') \<and> length rs = length sds"
  using assms(1,3)
proof (induction sds arbitrary: db rs)
  case (Cons sd sds db rs')
  obtain r db1 where r: "task sd db = (r, db1)" by fastforce
  obtain rs2 db2 where rs: "work_all task sds db1 = (rs2, db2)" by fastforce
  have "result_balanced r \<and> books (audit db1)" using assms(2) [OF Cons.prems(1), of sd] r by simp
  moreover have "db2 = db'" "rs' = r # rs2" using r rs Cons.prems(2) by auto
  ultimately show ?case using Cons.IH [of db1 rs2] rs by auto
qed simp

lemma sums_balanced:
  assumes "list_all result_balanced rs"
  shows "sum_of sr_fetched rs + int (length (filter troubled rs)) =
    sum_of sr_inserted rs + (sum_of sr_within_run_duplicates rs + sum_of sr_database_duplicates rs)
      + sum_of sr_errors rs"
  using assms by (induction rs) (auto simp: sum_of_def result_balanced_def)

lemma close_run_totals:
  assumes "list_all result_balanced rs" "close_run rid ow now rs db = (res, db')"
  shows "rr_sources res = rs
    \<and> rr_fetched res + int (length (filter troubled rs))
        + (if rr_status res = ''lease_lost'' \<and> \<not> list_ex (\<lambda>r. sr_status r = ''lease_lost'') rs then 1 else 0)
      = rr_inserted res + rr_duplicates res + rr_errors res"
  using sums_balanced [OF assms(1)] assms(2)
  by (auto simp: close_run_def summary_def Let_def split: if_splits prod.splits bool.splits)

lemma source_failed_simps [simp]:
  "sr_source_id (fst (source_failed rid sd ow code bytes now t db)) = sd_source_id sd"
  "sr_status (fst (source_failed rid sd ow code bytes now t db)) = ''failed''"
  "raw (snd (source_failed rid sd ow code bytes now t db)) = raw db"
  by (simp_all add: source_failed_def Let_def plain_result_def)

lemma task_completed_simps [simp]:
  "sr_source_id (fst (task_completed sd ow bytes now t cs db)) = sd_source_id sd"
  "sr_status (fst (task_completed sd ow bytes now t cs db)) = ''completed''"
  "sr_inserted (fst (task_completed sd ow bytes now t cs db)) = inserted_count cs"
  "raw (snd (task_completed sd ow bytes now t cs db)) = raw db"
  "outcomes (audit (snd (task_completed sd ow bytes now t cs db))) = outcomes (audit db)"
  by (simp_all add: task_completed_def Let_def plain_result_def record_circuit_success_def)

lemma lease_lost_simps [simp]: "sr_source_id (lease_lost src) = src" "sr_status (lease_lost src) = ''lease_lost''"
  by (simp_all add: lease_lost_def plain_result_def)

lemma source_task_id: "sr_source_id (fst (source_task h rejects clk others deliver version rid ow sd db)) = sd_source_id sd"
proof -
  have rec: "sr_source_id (recorded_result sd now x) = sd_source_id sd" for now x
    by (simp add: recorded_result_def plain_result_def split: option.split)
  have "sr_source_id (fst (store_delivered h rejects clk version rid ow sd as bytes db)) = sd_source_id sd" for as bytes db
    by (simp add: store_delivered_def Let_def split: option.split prod.split)
  then show ?thesis
    by (simp add: source_task_def Let_def rec split: prod.split bool.split delivery.split)
qed

lemma work_all_ids:
  assumes "\<And>sd db. sr_source_id (fst (task sd db)) = sd_source_id sd"
  shows "map sr_source_id (fst (work_all task sds db)) = map sd_source_id sds"
proof (induction sds arbitrary: db)
  case (Cons sd sds)
  obtain r db1 where r: "task sd db = (r, db1)" by fastforce
  have "sr_source_id r = sd_source_id sd" using assms [of sd db] r by simp
  with Cons [of db1] r show ?case by (simp add: split_beta)
qed simp

lemma claim_status: "claim key version ow now db = ((b, st), a) \<Longrightarrow> st \<noteq> ''completed'' \<and> st \<noteq> ''lease_lost''"
  by (auto simp: claim_def claim_with_def claim_existing_def Let_def split: option.splits if_splits)

lemma claim_outcomes: "outcomes (snd (claim key version ow now db)) = outcomes db"
  by (auto simp: claim_def claim_with_def claim_existing_def Let_def split: option.splits)

section \<open>All histories of the audit tables\<close>

text \<open>
  Any number of workers, each transaction deciding on whatever it read before: the reads
  are arguments, so they may be as stale as they like.
\<close>

inductive audit_step :: "audit_db \<Rightarrow> audit_db \<Rightarrow> bool" where
  claim_pending: "audit_step db (snd (claim_run_with candidate ow now db))"
| claim_key: "audit_step db (snd (claim_with seen key version ow now db))"
| fence: "audit_step db (snd (fence_run rid ow now db))"
| complete: "audit_step db (snd (complete_run rid ow now cs db))"
| claim_src: "audit_step db (snd (claim_source_with outcome rid src ow now db))"
| complete_src: "audit_step db (snd (complete_source rid src ow now cs db))"
| fail_src: "audit_step db (snd (fail_source rid src ow code detail now bytes db))"
| circuit_fail: "audit_step db (record_circuit_failure_with circuit src now db)"
| circuit_allow: "audit_step db (snd (allow_circuit_request_with c src ow now db))"
| circuit_success: "audit_step db (snd (record_circuit_success src ow db))"

inductive audit_reachable :: "audit_db \<Rightarrow> bool" where
  start: "audit_reachable empty_db"
| step: "audit_reachable db \<Longrightarrow> audit_step db db' \<Longrightarrow> audit_reachable db'"

lemma audit_step_inv: "audit_step db db' \<Longrightarrow> audit_inv db \<Longrightarrow> audit_inv db'"
  by (cases rule: audit_step.cases) (auto intro: inv_intros)

text \<open>Rows of runs and sources are never lost and never change their identity.\<close>

lemma sql_insert_keys: "sql_insert key r t = Some t' \<Longrightarrow> set t \<subseteq> set t'"
  by (auto simp: sql_insert_def split: if_splits)

lemma keys_image_update:
  "(\<And>r. key (f r) = key r) \<Longrightarrow> key ` set (sql_update p f t) = key ` set t"
  by (induction t) (auto simp: sql_update_def)

definition run_ids :: "audit_db \<Rightarrow> (nat \<times> string) set" where
  "run_ids db = (\<lambda>r. (run_id r, run_key r)) ` set (runs db)"

definition outcome_ids :: "audit_db \<Rightarrow> (nat \<times> nat \<times> string) set" where
  "outcome_ids db = (\<lambda>r. (so_id r, so_key r)) ` set (outcomes db)"

lemma ids_frame [simp]:
  "run_ids (db\<lparr>outcomes := t\<rparr>) = run_ids db" "run_ids (db\<lparr>circuits := u\<rparr>) = run_ids db"
  "outcome_ids (db\<lparr>runs := v\<rparr>) = outcome_ids db" "outcome_ids (db\<lparr>circuits := u\<rparr>) = outcome_ids db"
  by (simp_all add: run_ids_def outcome_ids_def)

lemma run_ids_update:
  assumes "\<And>r. run_id (f r) = run_id r" "\<And>r. run_key (f r) = run_key r"
  shows "run_ids (db\<lparr>runs := sql_update p f (runs db)\<rparr>) = run_ids db"
  using keys_image_update [of "\<lambda>r. (run_id r, run_key r)" f p "runs db"] assms
  by (simp add: run_ids_def)

lemma outcome_ids_update:
  assumes "\<And>r. so_id (f r) = so_id r" "\<And>r. so_run_id (f r) = so_run_id r"
    "\<And>r. so_source_id (f r) = so_source_id r"
  shows "outcome_ids (db\<lparr>outcomes := sql_update p f (outcomes db)\<rparr>) = outcome_ids db"
  using keys_image_update [of "\<lambda>r. (so_id r, so_key r)" f p "outcomes db"] assms
  by (simp add: outcome_ids_def)

lemma claim_existing_ids: "run_ids (snd (claim_existing e ow now db)) = run_ids db
    \<and> outcome_ids (snd (claim_existing e ow now db)) = outcome_ids db"
  by (auto simp: claim_existing_def Let_def run_ids_update renew_lease_def relet_def)

lemma claim_with_ids: "run_ids db \<subseteq> run_ids (snd (claim_with x key version ow now db))
    \<and> outcome_ids (snd (claim_with x key version ow now db)) = outcome_ids db"
proof -
  have "run_ids db \<subseteq> run_ids (db\<lparr>runs := t\<rparr>)" if "sql_insert run_key r (runs db) = Some t" for r t
    using sql_insert_keys [OF that] by (auto simp: run_ids_def)
  then show ?thesis by (auto simp: claim_with_def claim_existing_ids split: option.split)
qed

lemma claim_source_with_ids: "run_ids (snd (claim_source_with x rid src ow now db)) = run_ids db
    \<and> outcome_ids db \<subseteq> outcome_ids (snd (claim_source_with x rid src ow now db))"
proof -
  have "outcome_ids db \<subseteq> outcome_ids (db\<lparr>outcomes := t\<rparr>)"
    if "sql_insert so_key r (outcomes db) = Some t" for r t
    using sql_insert_keys [OF that] by (auto simp: outcome_ids_def)
  then show ?thesis
    by (auto simp: claim_source_with_def renew_source_def takeover_or_insert_def Let_def
        outcome_ids_update taken_over_def split: option.split)
qed

lemma update_source_ids:
  "run_ids (snd (complete_source rid src ow now cs db)) = run_ids db"
  "outcome_ids (snd (complete_source rid src ow now cs db)) = outcome_ids db"
  "run_ids (snd (fail_source rid src ow code detail now bytes db)) = run_ids db"
  "outcome_ids (snd (fail_source rid src ow code detail now bytes db)) = outcome_ids db"
  by (simp_all add: complete_source_def fail_source_def update_source_def Let_def outcome_ids_update
      completed_values_def failed_values_def)

lemma keys_kept:
  assumes "audit_step db db'"
  shows "run_ids db \<subseteq> run_ids db' \<and> outcome_ids db \<subseteq> outcome_ids db'"
  using assms
proof cases
  case (claim_pending candidate ow now)
  then show ?thesis
    by (auto simp: claim_run_with_def Let_def run_ids_update take_lease_def split: option.split)
next
  case (complete rid ow now cs)
  then show ?thesis by (simp add: complete_run_def Let_def run_ids_update)
next
  case (circuit_fail c src now)
  then show ?thesis by (simp add: record_circuit_failure_with_def Let_def)
next
  case (circuit_allow c src ow now)
  then show ?thesis
    by (simp add: allow_circuit_request_with_def claim_circuit_probe_def Let_def split: option.split)
next
  case (circuit_success src ow)
  then show ?thesis by (simp add: record_circuit_success_def Let_def)
qed (simp_all add: claim_with_ids claim_source_with_ids update_source_ids)

text \<open>So what a worker has read stays a possible read, whatever the others do meanwhile.\<close>

lemma run_snapshot_ids: "run_snapshot key (Some e) db \<longleftrightarrow> (run_id e, key) \<in> run_ids db"
  by (auto simp: run_snapshot_def run_ids_def list_ex_iff image_iff) metis

lemma source_snapshot_ids:
  "source_snapshot rid src (Some e) db \<longleftrightarrow> (so_id e, rid, src) \<in> outcome_ids db"
  by (auto simp: source_snapshot_def outcome_ids_def list_ex_iff image_iff) metis

lemma snapshot_stable:
  assumes "audit_step\<^sup>*\<^sup>* db db'"
  shows "(run_snapshot key x db \<longrightarrow> run_snapshot key x db')
    \<and> (source_snapshot rid src y db \<longrightarrow> source_snapshot rid src y db')"
proof -
  have "run_ids db \<subseteq> run_ids db' \<and> outcome_ids db \<subseteq> outcome_ids db'"
    using assms by induction (use keys_kept in blast)+
  then show ?thesis
    by (cases x; cases y)
      (auto simp: run_snapshot_ids source_snapshot_ids simp: run_snapshot_def [of _ None]
        source_snapshot_def [of _ _ None])
qed

end
