(* ===== verification/RetrievalProperties.thy ===== *)
theory RetrievalProperties
  imports OrchestratorFacts
begin

text \<open>
  What the retrieval subsystem promises: leases that exclude each other and are finished at
  most once, a circuit breaker that does what its specification says, requests that never
  leave the allowed public hosts, one article per identity, and books that balance.
\<close>

section \<open>Leases\<close>

text \<open>C10: While a worker's lease on a source is unexpired, no other worker can acquire or
  finish the source, whatever the others attempt and however stale their reads are.\<close>

theorem source_lease_exclusive:
  assumes "audit_inv db"
    and "run_valid (attempt_source rid src) (finish_source rid src) (source_snapshot rid src) ps db"
    and "source_slot rid src db = Held ow e"
    and "\<forall>p \<in> set ps. op_owner p \<noteq> ow \<and> op_time p \<le> e"
  shows "source_slot rid src (snd (lease_run (attempt_source rid src) (finish_source rid src) ps db)) = Held ow e
    \<and> True \<notin> set (fst (lease_run (attempt_source rid src) (finish_source rid src) ps db))"
  using assms by (rule source_lease.lease_protected)

definition demo_claimed :: audit_db where
  "demo_claimed = snd (claim_source 1 ''rss'' ''w1'' 0 empty_db)"

lemma demo_claimed_inv: "audit_inv demo_claimed"
  unfolding demo_claimed_def by (rule claim_source_inv [OF audit_inv_empty])

lemma demo_claimed_slot: "source_slot 1 ''rss'' demo_claimed = Held ''w1'' lease_duration"
  by code_simp

definition demo_ops :: "(source_outcome option, source_end) lease_op list" where
  "demo_ops = [Acquire None ''w2'' 5, Finish (Succeeded no_counts) ''w3'' 6]"

lemma source_lease_exclusive_witness:
  "source_slot 1 ''rss'' (snd (lease_run (attempt_source 1 ''rss'') (finish_source 1 ''rss'') demo_ops demo_claimed))
     = Held ''w1'' lease_duration
   \<and> True \<notin> set (fst (lease_run (attempt_source 1 ''rss'') (finish_source 1 ''rss'') demo_ops demo_claimed))"
proof (rule source_lease_exclusive [OF demo_claimed_inv _ demo_claimed_slot])
  show "run_valid (attempt_source 1 ''rss'') (finish_source 1 ''rss'') (source_snapshot 1 ''rss'') demo_ops demo_claimed"
    by code_simp
  show "\<forall>p \<in> set demo_ops. op_owner p \<noteq> ''w1'' \<and> op_time p \<le> lease_duration"
    by code_simp
qed

text \<open>The work on a source of a run is accepted at most once, completed or failed, over
  any history of claims, takeovers and finishes by any workers.\<close>

theorem source_finished_once:
  assumes "audit_inv db"
    and "run_valid (attempt_source rid src) (finish_source rid src) (source_snapshot rid src) ps db"
  shows "finished (attempt_source rid src) (finish_source rid src) ps db \<le> 1"
  using assms by (rule source_lease.finished_at_most_once)

lemma source_finished_once_witness:
  "finished (attempt_source 1 ''rss'') (finish_source 1 ''rss'')
     [Finish (Succeeded no_counts) ''w1'' 6, Finish (Succeeded no_counts) ''w1'' 7] demo_claimed \<le> 1"
proof (rule source_finished_once [OF demo_claimed_inv])
  show "run_valid (attempt_source 1 ''rss'') (finish_source 1 ''rss'') (source_snapshot 1 ''rss'')
     [Finish (Succeeded no_counts) ''w1'' 6, Finish (Succeeded no_counts) ''w1'' 7] demo_claimed"
    by code_simp
qed

text \<open>A run key has one lease: an unexpired run lease cannot be taken by another worker,
  and the run is completed at most once.\<close>

theorem run_lease_exclusive:
  assumes "audit_inv db"
    and "run_valid (attempt_run key version) (finish_run key) (run_snapshot key) ps db"
  shows "finished (attempt_run key version) (finish_run key) ps db \<le> 1
    \<and> (\<forall>ow e. run_slot key db = Held ow e \<and> (\<forall>p \<in> set ps. op_owner p \<noteq> ow \<and> op_time p \<le> e) \<longrightarrow>
         run_slot key (snd (lease_run (attempt_run key version) (finish_run key) ps db)) = Held ow e
         \<and> True \<notin> set (fst (lease_run (attempt_run key version) (finish_run key) ps db)))"
  using run_lease.finished_at_most_once [OF assms] run_lease.lease_protected [OF assms] by blast

lemma run_lease_exclusive_witness:
  "finished (attempt_run ''k'' ''v1'') (finish_run ''k'')
     [Acquire None ''w1'' 0, Finish no_counts ''w1'' 6, Finish no_counts ''w1'' 7] empty_db \<le> 1"
proof -
  have "run_valid (attempt_run ''k'' ''v1'') (finish_run ''k'') (run_snapshot ''k'')
     [Acquire None ''w1'' 0, Finish no_counts ''w1'' 6, Finish no_counts ''w1'' 7] empty_db"
    by code_simp
  from run_lease_exclusive [OF audit_inv_empty this] show ?thesis by blast
qed

text \<open>A worker whose lease on a source another worker has taken over is fenced off: its
  completion or failure report is refused and the new lease stays.\<close>

theorem source_fenced_after_takeover:
  assumes "audit_inv db" "source_snapshot rid src x db"
    and "claim_source_with x rid src o2 now db = (True, db1)" "ow \<noteq> o2"
    and "finish_source rid src y ow t db1 = (b, db2)"
  shows "\<not> b \<and> source_slot rid src db2 = Held o2 (now + lease_duration)"
  using assms source_lease.fenced_after_takeover [of db rid src x o2 now db1 ow y t b db2]
  by (simp add: attempt_source_def)

lemma source_fenced_after_takeover_witness:
  "\<not> fst (complete_source 1 ''rss'' ''w1'' 3900000002 no_counts
       (snd (claim_source_with None 1 ''rss'' ''w2'' 3900000001 demo_claimed)))"
proof -
  let ?c = "claim_source_with None 1 ''rss'' ''w2'' 3900000001 demo_claimed"
  have "fst ?c" by code_simp
  then have c: "?c = (True, snd ?c)" by (rule fst_TrueD)
  have snap: "source_snapshot 1 ''rss'' None demo_claimed" by code_simp
  have "finish_source 1 ''rss'' (Succeeded no_counts) ''w1'' 3900000002 (snd ?c) =
    (fst (complete_source 1 ''rss'' ''w1'' 3900000002 no_counts (snd ?c)),
     snd (complete_source 1 ''rss'' ''w1'' 3900000002 no_counts (snd ?c)))" by simp
  from source_fenced_after_takeover [OF demo_claimed_inv snap c _ this] show ?thesis by simp
qed

text \<open>With an up-to-date read, claiming a source is the sequential lease: it is granted when
  the slot is free, held by the same owner and unexpired, or expired; and is refused otherwise.\<close>

theorem claim_source_refines:
  assumes "audit_inv db" "claim_source rid src ow now db = (b, db')"
  shows "slot_acquire lease_duration ow now (source_slot rid src db) = (b, source_slot rid src db')"
  using assms by (rule claim_source_slot)

lemma claim_source_refines_witness:
  "slot_acquire lease_duration ''w2'' 9 (source_slot 1 ''rss'' demo_claimed) =
    (False, source_slot 1 ''rss'' (snd (claim_source 1 ''rss'' ''w2'' 9 demo_claimed)))"
proof (rule claim_source_refines [OF demo_claimed_inv])
  have "fst (claim_source 1 ''rss'' ''w2'' 9 demo_claimed) = False" by code_simp
  then show "claim_source 1 ''rss'' ''w2'' 9 demo_claimed =
      (False, snd (claim_source 1 ''rss'' ''w2'' 9 demo_claimed))" by (rule pair_of_fst)
qed

text \<open>C11: Every history of the audit tables, with any number of workers and arbitrarily stale
  reads, keeps them well formed: keys are unique, a lease exists exactly while a row is
  running, a source has finished exactly when it is not running, a circuit has a deadline
  exactly when it has tripped and a probe only then.\<close>

theorem audit_tables_well_formed: "audit_reachable db \<Longrightarrow> audit_inv db"
  by (induction rule: audit_reachable.induct) (auto intro: audit_inv_empty audit_step_inv)

lemma audit_tables_well_formed_witness:
  "audit_inv (record_circuit_failure_with None ''rss'' 7 (snd (claim_source_with None 1 ''rss'' ''w1'' 0 empty_db)))"
  by (intro audit_tables_well_formed audit_reachable.step [OF _ circuit_fail]
      audit_reachable.step [OF _ claim_src] start)

text \<open>What a worker has read of a run or a source stays valid as a basis for its write:
  rows are never deleted and never change their identity, whatever other workers do.\<close>

theorem stale_reads_stay_valid:
  assumes "audit_step\<^sup>*\<^sup>* db db'"
  shows "(run_snapshot key x db \<longrightarrow> run_snapshot key x db')
    \<and> (source_snapshot rid src y db \<longrightarrow> source_snapshot rid src y db')"
  using assms by (rule snapshot_stable)

lemma stale_reads_stay_valid_witness:
  "source_snapshot 1 ''rss'' (find_outcome 1 ''rss'' demo_claimed)
     (snd (complete_source 1 ''rss'' ''w1'' 5 no_counts demo_claimed))"
proof -
  have "audit_step\<^sup>*\<^sup>* demo_claimed (snd (complete_source 1 ''rss'' ''w1'' 5 no_counts demo_claimed))"
    by (rule r_into_rtranclp) (rule complete_src)
  moreover have "source_snapshot 1 ''rss'' (find_outcome 1 ''rss'' demo_claimed) demo_claimed" by code_simp
  ultimately show ?thesis using stale_reads_stay_valid by blast
qed

section \<open>The circuit breaker\<close>

text \<open>C12: The circuit rows implement the breaker specification: recording a failure, asking for
  permission, recording a success and reading the state commute with the abstraction.\<close>

theorem circuit_refines_breaker:
  assumes "audit_inv db"
  shows "breaker_of src (record_circuit_failure src now db) = breaker_fail now (breaker_of src db)
    \<and> map_prod id (breaker_of src) (allow_circuit_request src ow now db) =
        breaker_allow ow now (breaker_of src db)
    \<and> breaker_of src (snd (record_circuit_success src ow db)) = breaker_success ow (breaker_of src db)
    \<and> circuit_state src now db = breaker_state now (breaker_of src db)"
  using assms breaker_of_allow [OF assms, of src ow now "fst (allow_circuit_request src ow now db)"
      "snd (allow_circuit_request src ow now db)"]
    breaker_of_success [OF assms, of src ow "fst (record_circuit_success src ow db)"
      "snd (record_circuit_success src ow db)"]
  by (simp add: breaker_of_failure breaker_of_state map_prod_def split_beta)

lemma circuit_refines_breaker_witness:
  "breaker_of ''rss'' (record_circuit_failure ''rss'' 7 empty_db) = breaker_fail 7 (breaker_of ''rss'' empty_db)"
  using circuit_refines_breaker [OF audit_inv_empty, of "''rss''" 7] by blast

text \<open>From a source without recorded failures, requests are allowed until the fifth failure;
  from then on every worker is refused until thirty minutes after the last failure, and after
  that exactly one probe is let through until it reports or its lease runs out.\<close>

theorem circuit_trips_and_probes:
  assumes "audit_inv db" "find_circuit src db = None"
    and "allow_circuit_request src ow now (record_failures src ts db) = (b, db1)"
  shows "(b \<longleftrightarrow> length ts < 5 \<or> last ts + minutes 30 \<le> now)
    \<and> (5 \<le> length ts \<and> b \<and> other \<noteq> ow \<and> now \<le> t \<and> t \<le> now + minutes 65 \<longrightarrow>
         \<not> fst (allow_circuit_request src other t db1))"
proof -
  let ?db = "record_failures src ts db"
  have inv: "audit_inv ?db" using assms(1) by (rule record_failures_inv)
  have i1: "audit_inv db1" using allow_circuit_request_inv [OF inv, of src ow now] assms(3) by simp
  have "breaker_of src db = Closed 0"
    using assms(2) by (simp add: breaker_of_def abs_circuit_def)
  then have brk: "breaker_of src ?db = fold breaker_fail ts (Closed 0)"
    using assms(1) by (simp add: record_failures_breaker)
  have step: "breaker_allow ow now (breaker_of src ?db) = (b, breaker_of src db1)"
    using breaker_of_allow [OF inv assms(3)] .
  show ?thesis
  proof (cases "length ts < 5")
    case True
    with step show ?thesis by (simp add: brk fold_breaker_fail circuit_threshold_def)
  next
    case False
    then have "breaker_of src ?db = Tripped (last ts + minutes 30) None"
      by (simp add: brk fold_breaker_fail_trips circuit_threshold_def circuit_cooldown_def)
    with step False have "b \<longleftrightarrow> last ts + minutes 30 \<le> now"
      "b \<Longrightarrow> breaker_of src db1 = Tripped (last ts + minutes 30) (Some (ow, now + minutes 65))"
      by (auto simp: lease_duration_def split: if_splits)
    with False show ?thesis by (auto simp: circuit_allow_breaker [OF i1])
  qed
qed

definition demo_tripped :: audit_db where
  "demo_tripped = record_failures ''rss'' [0, 1, 2, 3, 4] empty_db"

lemma circuit_trips_and_probes_witness:
  "fst (allow_circuit_request ''rss'' ''w1'' 1800000004 demo_tripped)
   \<and> \<not> fst (allow_circuit_request ''rss'' ''w2'' 1800000005
          (snd (allow_circuit_request ''rss'' ''w1'' 1800000004 demo_tripped)))"
proof -
  have none: "find_circuit ''rss'' empty_db = None" by code_simp
  show ?thesis
    using circuit_trips_and_probes [OF audit_inv_empty none, of "''w1''" 1800000004 "[0, 1, 2, 3, 4]"
        "fst (allow_circuit_request ''rss'' ''w1'' 1800000004 demo_tripped)"
        "snd (allow_circuit_request ''rss'' ''w1'' 1800000004 demo_tripped)" "''w2''" 1800000005]
    by (simp add: demo_tripped_def minutes_def seconds_def)
qed

section \<open>Fetching\<close>

text \<open>The requests of the attempt that begins at the \<open>k\<close>-th event of the network.\<close>

definition attempt_requests ::
  "'ip net \<Rightarrow> fetcher \<Rightarrow> source_definition \<Rightarrow> params \<Rightarrow> nat \<Rightarrow> 'ip validated_url list" where
  "attempt_requests net f src ps k =
     fst (snd (attempt net f src (nat (f_max_redirects f + 1)) k (sd_endpoint_url src) ps))"

lemma fetch_loop_attempts:
  "\<exists>ks. ft_requests (fetch_loop fail succeed net f src ps left att k s) = concat (map (attempt_requests net f src ps) ks)
     \<and> length ks \<le> left"
proof (induction left arbitrary: att k s)
  case (Suc left)
  obtain res vs k' where a: "attempt net f src (nat (f_max_redirects f + 1)) k (sd_endpoint_url src) ps = (res, vs, k')"
    by (metis prod_cases3)
  have vs: "vs = attempt_requests net f src ps k" by (simp add: attempt_requests_def a)
  obtain ks where ks: "ft_requests (fetch_loop fail succeed net f src ps left (Suc att) k' s)
      = concat (map (attempt_requests net f src ps) ks)" "length ks \<le> left"
    using Suc.IH by blast
  let ?R = "ft_requests (fetch_loop fail succeed net f src ps (Suc left) att k s)"
  have "?R = vs \<or> ?R = vs @ concat (map (attempt_requests net f src ps) ks)"
    using ks(1) by (cases res) (simp_all add: a Let_def)
  moreover have "concat (map (attempt_requests net f src ps) [k]) = vs"
    "concat (map (attempt_requests net f src ps) (k # ks)) = vs @ concat (map (attempt_requests net f src ps) ks)"
    by (simp_all add: vs)
  ultimately show ?case using ks(2) by (metis Suc_le_mono le0 length_Cons list.size(3))
qed simp

lemma attempt_starts:
  "attempt net f src hops k url ps = (res, vs, k') \<Longrightarrow> vs = [] \<or> v_url (hd vs) = url"
  by (cases hops) (auto dest: validate_url_safe(2) split: sum.splits exchange.splits if_splits option.splits prod.splits)

text \<open>C13: Whatever DNS, servers and redirects answer, every request a fetch sends goes to an
  https URL without credentials, on a host of the source's allow list, whose resolved
  addresses are all public; the requests are those of at most three attempts, each of which starts at the
  endpoint of the source and sends at most four, so twelve in all; and
  with the bounds the constructor accepts the loop never falls through.\<close>

theorem fetch_requests_safe:
  assumes "make_fetcher owner max_bytes max_attempts max_redirects defer = Some f"
  shows "list_all (safe_request net (sd_allowed_hosts src))
           (ft_requests (fetch allow fail succeed net f src ps k s))
    \<and> (\<exists>ks. ft_requests (fetch allow fail succeed net f src ps k s) = concat (map (attempt_requests net f src ps) ks)
         \<and> length ks \<le> 3
         \<and> list_all (\<lambda>rs. length rs \<le> 4 \<and> (rs = [] \<or> v_url (hd rs) = sd_endpoint_url src)) (map (attempt_requests net f src ps) ks))
    \<and> length (ft_requests (fetch allow fail succeed net f src ps k s)) \<le> 12
    \<and> ft_result (fetch allow fail succeed net f src ps k s) \<noteq> Inl Unreachable"
proof -
  from assms have f: "1 \<le> f_max_attempts f" "f_max_attempts f \<le> 3" "f_max_redirects f \<le> 3" "\<not> f_closed f"
    by (auto simp: make_fetcher_def split: if_splits)
  then have "nat (f_max_attempts f) * nat (f_max_redirects f + 1) \<le> 3 * 4" by (intro mult_le_mono) auto
  with f fetch_loop_requests [of net src fail succeed f ps "nat (f_max_attempts f)" 0 k]
    fetch_loop_error [of "nat (f_max_attempts f)" fail succeed net f src ps 0 k]
  have safe: "list_all (safe_request net (sd_allowed_hosts src)) (ft_requests (fetch allow fail succeed net f src ps k s))
    \<and> length (ft_requests (fetch allow fail succeed net f src ps k s)) \<le> 12
    \<and> ft_result (fetch allow fail succeed net f src ps k s) \<noteq> Inl Unreachable"
    by (auto simp: fetch_def split: prod.split bool.split) (meson le_trans)+
  have each: "length (attempt_requests net f src ps j) \<le> 4
      \<and> (attempt_requests net f src ps j = [] \<or> v_url (hd (attempt_requests net f src ps j)) = sd_endpoint_url src)" for j
  proof -
    obtain res vs k' where a: "attempt net f src (nat (f_max_redirects f + 1)) j (sd_endpoint_url src) ps = (res, vs, k')"
      by (metis prod_cases3)
    have "length vs \<le> nat (f_max_redirects f + 1)" using attempt_requests_safe [OF a] by blast
    also have "\<dots> \<le> 4" using f(3) by simp
    finally show ?thesis using attempt_starts [OF a] by (simp add: attempt_requests_def a)
  qed
  obtain ks where "ft_requests (fetch allow fail succeed net f src ps k s) = concat (map (attempt_requests net f src ps) ks)"
    "length ks \<le> nat (f_max_attempts f)"
  proof (cases "allow (sd_source_id src) (f_owner f) (utc_now net k) s")
    case (Pair b s')
    show thesis
    proof (cases b)
      case True
      then show thesis
        using that fetch_loop_attempts [of fail succeed net f src ps "nat (f_max_attempts f)" 0 k s'] Pair f(4)
        by (auto simp: fetch_def)
    next
      case False
      then show thesis using that [of "[]"] Pair f(4) by (simp add: fetch_def)
    qed
  qed
  moreover have "nat (f_max_attempts f) \<le> 3" using f(2) by simp
  ultimately show ?thesis using safe each by (fastforce simp: list_all_iff)
qed

definition demo_net :: "nat net" where
  "demo_net = \<lparr>parse_ip = (\<lambda>_. None), ipv4_mapped = (\<lambda>_. None), is_global = (\<lambda>a. a = 8),
     resolve = (\<lambda>_ _ _. Some [8]),
     exchange_of = (\<lambda>_ _ _. Responded \<lparr>rsp_is_redirect = False, rsp_status = 429,
       rsp_location = None, rsp_retry_after = Some ''7'', rsp_content_type = ''application/json'',
       rsp_chunks = [''x''], rsp_broken = False\<rparr>),
     join_url = (\<lambda>_ l. Some l), utc_now = (\<lambda>_. 0), jitter = (\<lambda>_. 0),
     read_float = (\<lambda>_. Finite 7), read_http_date = (\<lambda>_. None)\<rparr>"

definition demo_fetcher :: fetcher where
  "demo_fetcher = \<lparr>f_owner = ''w'', f_max_response_bytes = 5242880, f_max_attempts = 3,
     f_max_redirects = 3, f_defer_success = False, f_closed = False\<rparr>"

abbreviation demo_fetch :: "(nat, audit_db) fetched" where
  "demo_fetch \<equiv> fetch allow_circuit_request record_circuit_failure record_circuit_success demo_net
     demo_fetcher newsapi_source None 0 empty_db"

lemma demo_fetcher_made: "make_fetcher ''w'' 9999999 3 5 False = Some demo_fetcher"
  by (simp add: make_fetcher_def demo_fetcher_def)

lemma fetch_requests_safe_witness:
  "list_all (safe_request demo_net [''newsapi.org'']) (ft_requests demo_fetch)"
proof -
  have "sd_allowed_hosts newsapi_source = [''newsapi.org'']" by (simp add: newsapi_source_def)
  then show ?thesis using fetch_requests_safe [OF demo_fetcher_made] by metis
qed

text \<open>A connection dials only addresses approved by the validation of a URL on that host, in
  their order, and reports success only on the address it dialled last.\<close>

theorem connect_only_pinned:
  assumes "connect_tcp dial elapsed timeout (approve v pinned) host = (r, dialled)"
  shows "set dialled \<subseteq> (if host = v_host v then set (v_addresses v)
      else case pinned host of Some as \<Rightarrow> set as | None \<Rightarrow> {})
    \<and> (\<forall>a. r = Some a \<longrightarrow> dialled \<noteq> [] \<and> last dialled = a)"
proof -
  have "set ds \<subseteq> set as \<and> (\<forall>a. x = Some a \<longrightarrow> ds \<noteq> [] \<and> last ds = a)"
    if "dial_all dial elapsed timeout i as = (x, ds)" for i as x ds
    using that
  proof (induction as arbitrary: i x ds)
    case (Cons a as)
    obtain y es where r: "dial_all dial elapsed timeout (Suc i) as = (y, es)" by fastforce
    from Cons.IH [OF r] Cons.prems r show ?case by (auto split: if_splits)
  qed simp
  with assms show ?thesis
    by (auto simp: connect_tcp_def approve_def split: option.splits if_splits)
qed

definition demo_validated :: "nat validated_url" where
  "demo_validated = \<lparr>v_url = ''https://a'', v_host = ''a'', v_port = 443, v_addresses = [9, 8]\<rparr>"

lemma connect_only_pinned_witness:
  "set (snd (connect_tcp (\<lambda>i a. a = 8) (\<lambda>_. 0) (Some 5) (approve demo_validated (\<lambda>_. None)) ''a''))
     \<subseteq> {9, 8}"
proof -
  have v: "''a'' = v_host demo_validated" "set (v_addresses demo_validated) = {9, 8}"
    by (simp_all add: demo_validated_def)
  note p = connect_only_pinned [of "\<lambda>i a. a = 8" "\<lambda>_. 0" "Some 5" demo_validated "\<lambda>_. None" "''a''",
      OF prod.collapse [symmetric]]
  from p [THEN conjunct1] v show ?thesis by simp
qed

text \<open>A fetch never hands over more content than the bound of its fetcher, at most five
  megabytes, and waits at most twice, each time between zero and nine hundred seconds.\<close>

theorem fetch_bounds:
  assumes "make_fetcher owner max_bytes max_attempts max_redirects defer = Some f"
    and "x = fetch allow fail succeed net f src ps k s"
  shows "(\<forall>r c. ft_result x = Inr r \<and> fr_content r = Some c \<longrightarrow>
            int (length c) \<le> max_bytes \<and> int (length c) \<le> 5242880)
    \<and> length (ft_sleeps x) \<le> 2 \<and> (\<forall>d \<in> set (ft_sleeps x). 0 \<le> d \<and> d \<le> 900)"
proof -
  from assms(1) have f: "1 \<le> f_max_attempts f" "f_max_attempts f \<le> 3" "\<not> f_closed f"
      "f_max_response_bytes f = min max_bytes 5242880" "0 \<le> f_max_response_bytes f"
    by (auto simp: make_fetcher_def split: if_splits)
  obtain b s' where a: "allow (sd_source_id src) (f_owner f) (utc_now net k) s = (b, s')" by fastforce
  let ?l = "fetch_loop fail succeed net f src ps (nat (f_max_attempts f)) 0 k s'"
  show ?thesis
  proof (cases b)
    case True
    with a f assms(2) have x: "x = ?l" by (simp add: fetch_def)
    have "length (ft_sleeps x) \<le> 2"
      using fetch_loop_requests [of net src fail succeed f ps "nat (f_max_attempts f)" 0 k s'] f(1,2)
      unfolding x by linarith
    moreover have "int (length c) \<le> min max_bytes 5242880" if "ft_result x = Inr r" "fr_content r = Some c" for r c
      using fetch_loop_content [of fail succeed net f src ps "nat (f_max_attempts f)" 0 k s' r c] that x f(4,5)
      by simp
    moreover have "0 \<le> d \<and> d \<le> 900" if "d \<in> set (ft_sleeps x)" for d
      using fetch_loop_sleeps that x by metis
    ultimately show ?thesis by simp
  qed (use a f assms(2) in \<open>simp add: fetch_def\<close>)
qed

lemma fetch_bounds_witness: "length (ft_sleeps demo_fetch) \<le> 2"
  using fetch_bounds [OF demo_fetcher_made refl, of allow_circuit_request record_circuit_failure
      record_circuit_success demo_net newsapi_source None 0 empty_db] by blast

text \<open>One fetch moves the failure count of its own circuit by at most one, up exactly when it
  ran and its result is a failure, and leaves the circuits of all other sources alone.\<close>

theorem fetch_records_one_outcome:
  assumes "audit_inv s" "\<not> f_closed f"
    and "x = fetch allow_circuit_request record_circuit_failure record_circuit_success net f src ps k s"
    and "fst (allow_circuit_request (sd_source_id src) (f_owner f) (utc_now net k) s)"
  shows "(\<forall>other. other \<noteq> sd_source_id src \<longrightarrow>
           circuit_fails (ft_store x) other = circuit_fails s other)
    \<and> (case ft_result x of
         Inl e \<Rightarrow> circuit_fails (ft_store x) (sd_source_id src) = circuit_fails s (sd_source_id src)
       | Inr r \<Rightarrow>
           if \<not> result_ok r
           then circuit_fails (ft_store x) (sd_source_id src) = Suc (circuit_fails s (sd_source_id src))
           else circuit_fails (ft_store x) (sd_source_id src) \<le> circuit_fails s (sd_source_id src))"
proof -
  obtain s' where a: "allow_circuit_request (sd_source_id src) (f_owner f) (utc_now net k) s = (True, s')"
    using assms(4) by (metis fst_TrueD)
  have inv: "audit_inv s'"
    using audit_circuit.allow_inv [OF assms(1), of "sd_source_id src" "f_owner f" "utc_now net k"] a by simp
  have same: "circuit_fails s' = circuit_fails s"
    using audit_circuit.allow_fails [OF assms(1), of "sd_source_id src" "f_owner f" "utc_now net k"] a by simp
  have x: "x = fetch_loop record_circuit_failure record_circuit_success net f src ps (nat (f_max_attempts f)) 0 k s'"
    using assms(2,3) a by (simp add: fetch_def)
  show ?thesis
    unfolding x audit_circuit.fetch_loop_fails [OF inv] same by (auto split: sum.split)
qed

lemma fetch_records_one_outcome_witness:
  "circuit_fails (ft_store demo_fetch) ''gdelt'' = 0"
proof -
  have "fst (allow_circuit_request ''newsapi'' ''w'' 0 empty_db)" by code_simp
  then have ok: "fst (allow_circuit_request (sd_source_id newsapi_source) (f_owner demo_fetcher) (utc_now demo_net 0) empty_db)"
    by (simp add: newsapi_source_def demo_fetcher_def demo_net_def)
  have op: "\<not> f_closed demo_fetcher" by (simp add: demo_fetcher_def)
  have "''gdelt'' \<noteq> sd_source_id newsapi_source" by (simp add: newsapi_source_def)
  then have "circuit_fails (ft_store demo_fetch) ''gdelt'' = circuit_fails empty_db ''gdelt''"
    using fetch_records_one_outcome [OF audit_inv_empty op refl ok] by blast
  also have "\<dots> = 0" by code_simp
  finally show ?thesis .
qed

section \<open>Deduplication and storage\<close>

text \<open>C14: Deduplication keeps exactly one article for each identity that occurs, always one of the
  articles it was given, accounts for every other one as a duplicate, and keeps an article no
  other of the same identity is preferred to: any other has less authority, or the same and no
  smaller projection.\<close>

theorem dedup_one_per_identity:
  assumes "deduplicate_within_run h xs = Some r"
  shows "distinct (map (fingerprint h) (dr_articles r))
    \<and> fingerprint h ` set (dr_articles r) = fingerprint h ` set xs
    \<and> set (dr_articles r) \<subseteq> set xs
    \<and> length (dr_articles r) + dr_duplicates r = length xs
    \<and> (\<forall>a \<in> set (dr_articles r). \<forall>b \<in> set xs. fingerprint h b = fingerprint h a \<longrightarrow>
          authority b < authority a \<or> authority b = authority a \<and> projection a \<le> projection b)"
proof -
  note d = dedup_articles [OF assms]
  have "mset (map (fingerprint h) (dr_articles r)) = mset (map (fingerprint h) (winners h xs))"
    by (simp add: d)
  then have "distinct (map (fingerprint h) (dr_articles r))"
    using distinct_winners mset_eq_imp_distinct_iff by blast
  moreover have "authority b < authority a \<or> authority b = authority a \<and> projection a \<le> projection b"
    if "a \<in> set (dr_articles r)" "b \<in> set xs" "fingerprint h b = fingerprint h a" for a b
  proof -
    from that(1) have "a = best_of (filter (\<lambda>x. fingerprint h x = fingerprint h a) xs)"
      by (simp add: d in_winners)
    with best_of_least [of b "filter (\<lambda>x. fingerprint h x = fingerprint h a) xs"] that(2,3)
    have "preference a \<le> preference b" by simp
    then show ?thesis by (auto simp: preference_def)
  qed
  ultimately show ?thesis
    using winners_cover [of h xs] winners_subset [of h xs] dedup_counts [OF assms] by (simp add: d)
qed

definition demo_article :: "string \<Rightarrow> string \<Rightarrow> string \<Rightarrow> raw_article" where
  "demo_article cls url title = \<lparr>ra_provider = ''rss'', ra_provider_article_id = None,
     ra_query_group = ''g'', ra_title = title, ra_description = None, ra_content_snippet = None,
     ra_article_url = url, ra_canonical_url = None, ra_source_name = ''s'', ra_source_url = None,
     ra_published_at = 0, ra_language = ''en'', ra_raw_payload_json = None, ra_source_id = None,
     ra_source_class = Some cls, ra_source_domains = [], ra_source_countries = [],
     ra_registry_version = None, ra_retrieved_at = None, ra_source_published_at_raw = None\<rparr>"

definition demo_batch :: "raw_article list" where
  "demo_batch = [demo_article ''industry'' ''https://A/x'' ''t'',
     demo_article ''official'' ''https://a/x'' ''u'']"

lemma demo_batch_dedup: "deduplicate_within_run id demo_batch \<noteq> None"
  unfolding dedup_defined by code_simp

lemma dedup_one_per_identity_witness:
  "length (dr_articles (the (deduplicate_within_run id demo_batch)))
     + dr_duplicates (the (deduplicate_within_run id demo_batch)) = 2"
proof -
  obtain r where r: "deduplicate_within_run id demo_batch = Some r" using demo_batch_dedup by blast
  have "length demo_batch = 2" by (simp add: demo_batch_def)
  with dedup_one_per_identity [OF r] r show ?thesis by simp
qed

text \<open>C15: What deduplication returns does not depend on the order in which providers delivered:
  the retained projections and identities, in the order returned, and the count are the same
  for every permutation of the articles.\<close>

theorem dedup_order_independent:
  assumes "mset xs = mset ys"
    and "deduplicate_within_run h xs = Some r" "deduplicate_within_run h ys = Some q"
  shows "map projection (dr_articles r) = map projection (dr_articles q)
    \<and> map (fingerprint h) (dr_articles r) = map (fingerprint h) (dr_articles q)
    \<and> dr_duplicates r = dr_duplicates q"
proof -
  note o = dedup_order [OF assms]
  have "length (dr_articles r) = length (dr_articles q)" using o(1) map_eq_imp_length_eq by blast
  moreover have "length xs = length ys" using assms(1) by (rule mset_eq_length)
  ultimately show ?thesis using o dedup_counts [OF assms(2)] dedup_counts [OF assms(3)] by simp
qed

lemma dedup_order_independent_witness:
  "map projection (dr_articles (the (deduplicate_within_run id demo_batch))) =
   map projection (dr_articles (the (deduplicate_within_run id (rev demo_batch))))"
proof -
  obtain r where r: "deduplicate_within_run id demo_batch = Some r" using demo_batch_dedup by blast
  have "deduplicate_within_run id (rev demo_batch) \<noteq> None" unfolding dedup_defined by code_simp
  then obtain q where q: "deduplicate_within_run id (rev demo_batch) = Some q" by blast
  have "mset demo_batch = mset (rev demo_batch)" by simp
  from dedup_order_independent [OF this r q] r q show ?thesis by simp
qed

text \<open>Saving articles accounts for each of them as inserted, duplicate or error, keeps the hashes
  of the table distinct and its old rows untouched, and is idempotent: saving the same
  articles again, later, inserts nothing and changes nothing.\<close>

theorem save_articles_idempotent:
  assumes "save_articles h rejects now as t = (c, t')" "save_articles h rejects later as t' = (c2, t2)"
    and "distinct (map rr_ingest_hash t)"
  shows "sc_inserted c + sc_duplicates c + sc_errors c = length as
    \<and> distinct (map rr_ingest_hash t')
    \<and> (\<exists>new. t' = t @ new \<and> length new = sc_inserted c \<and> rr_article ` set new \<subseteq> set as)
    \<and> t2 = t' \<and> sc_inserted c2 = 0"
proof -
  obtain new where new: "t' = t @ new" "rr_article ` set new \<subseteq> set as"
    using save_articles_extends [OF assms(1)] by blast
  have "length new = sc_inserted c" using save_articles_counts [OF assms(1)] new(1) by simp
  moreover have "t2 = t' \<and> sc_inserted c2 = 0"
    using save_articles_again [OF _ assms(2)] save_articles_present [OF assms(1)] by blast
  ultimately show ?thesis
    using save_articles_counts [OF assms(1)] save_articles_distinct [OF assms(1,3)] new by blast
qed

lemma save_articles_idempotent_witness:
  "sc_inserted (fst (save_articles id (\<lambda>_. False) 9 demo_batch
      (snd (save_articles id (\<lambda>_. False) 5 demo_batch [])))) = 0"
  using save_articles_idempotent [of id "\<lambda>_. False" 5 demo_batch "[]", OF prod.collapse [symmetric]
      prod.collapse [symmetric], of 9] by simp

text \<open>C16: The articles of a source reach the table only in a transaction that found the run and
  the source leased to this worker and that marks the source as done; when a lease is lost,
  or the articles cannot be processed, the table of articles is as it was, and a lost lease
  leaves the whole database as it was.\<close>

theorem stored_only_under_lease:
  assumes "audit_inv (audit db)"
    and "store_delivered h rejects clk version rid ow sd as bytes db = (r, db')"
  shows "(sr_status r = ''lease_lost'' \<longrightarrow> db' = db)
    \<and> (sr_status r \<noteq> ''completed'' \<longrightarrow> raw db' = raw db)
    \<and> (sr_status r = ''completed'' \<longrightarrow>
          (\<exists>e. source_slot rid (sd_source_id sd) (audit db) = Held ow e \<and> clk 3 \<le> e)
        \<and> fst (fence_run rid ow (clk 2) (audit db))
        \<and> source_slot rid (sd_source_id sd) (audit db') = Done
        \<and> int (length (raw db')) = int (length (raw db)) + sr_inserted r)"
proof (cases "deduplicate_within_run h (map (annotate sd version (clk 1)) as)")
  case None
  with assms(2) have r: "source_failed rid sd ow PARSER_ERROR 0 (clk 0) (clk 2) db = (r, db')"
    by (simp add: store_delivered_def)
  show ?thesis
    using source_failed_simps(2,3) [of rid sd ow PARSER_ERROR 0 "clk 0" "clk 2" db] unfolding r by simp
next
  case d: (Some d)
  let ?commit = "commit_source h rejects rid (sd_source_id sd) ow (clk 2) (clk 3)
      (length (map (annotate sd version (clk 1)) as)) d bytes db"
  show ?thesis
  proof (cases ?commit)
    case None
    with d assms(2) show ?thesis by (auto simp: store_delivered_def)
  next
    case (Some p)
    obtain cs db2 where p: "p = (cs, db2)" by fastforce
    obtain c where c: "fst (fence_run rid ow (clk 2) (audit db))"
      "save_articles h rejects (clk 2) (dr_articles d) (raw db) = (c, raw db2)"
      "cs = source_counts (length (map (annotate sd version (clk 1)) as)) d c bytes"
      "complete_source rid (sd_source_id sd) ow (clk 3) cs (audit db) = (True, audit db2)"
      using commit_source_Some [OF Some [unfolded p]] by blast
    have r: "(r, db') = task_completed sd ow bytes (clk 0) (clk 4) cs db2"
      using d Some p assms(2) by (simp add: store_delivered_def)
    have "slot_finish ow (clk 3) (source_slot rid (sd_source_id sd) (audit db)) =
        (True, source_slot rid (sd_source_id sd) (audit db2))"
      using complete_source_slot [OF assms(1) c(4)] .
    moreover have "source_slot rid (sd_source_id sd) (audit db') = source_slot rid (sd_source_id sd) (audit db2)"
      using task_completed_simps(5) [of sd ow bytes "clk 0" "clk 4" cs db2] r
      by (metis find_outcome_def snd_conv source_slot_def)
    ultimately have "\<exists>e. source_slot rid (sd_source_id sd) (audit db) = Held ow e \<and> clk 3 \<le> e"
      "source_slot rid (sd_source_id sd) (audit db') = Done"
      using slot_finish_True by metis+
    moreover have "sr_status r = ''completed''" "raw db' = raw db2"
      "sr_inserted r = int (sc_inserted c)"
      using task_completed_simps(2-4) [of sd ow bytes "clk 0" "clk 4" cs db2, folded r]
      by (simp_all add: c(3) source_counts_def)
    ultimately show ?thesis using c(1) save_articles_counts [OF c(2)] by simp
  qed
qed

definition demo_rdb :: rdb where
  "demo_rdb = \<lparr>audit = snd (claim_source 1 ''newsapi'' ''w1'' 0 (snd (claim ''k'' ''v1'' ''w1'' 0 empty_db))),
     raw = []\<rparr>"

lemma demo_rdb_inv: "audit_inv (audit demo_rdb)"
  by (simp add: demo_rdb_def claim_def claim_source_inv claim_with_inv audit_inv_empty)

lemma stored_only_under_lease_witness:
  "source_slot 1 ''newsapi'' (audit (snd (store_delivered id (\<lambda>_. False) int ''v1'' 1 ''w1''
      newsapi_source [] 9 demo_rdb))) = Done"
proof -
  let ?s = "store_delivered id (\<lambda>_. False) int ''v1'' 1 ''w1'' newsapi_source [] 9 demo_rdb"
  have "sr_status (fst ?s) = ''completed'' \<and> sd_source_id newsapi_source = ''newsapi''" by code_simp
  then show ?thesis
    using stored_only_under_lease [OF demo_rdb_inv, of id "\<lambda>_. False" int "''v1''" 1 "''w1''"
        newsapi_source "[]" 9 "fst ?s" "snd ?s"]
    by simp
qed

section \<open>The books of a run\<close>

text \<open>The numbers of a source balance, whatever the provider delivers and other workers do:
  what was fetched, plus one for a source that failed or lost its lease, is what was inserted,
  found duplicate in the run or in the database, or counted as an error.\<close>

theorem source_books_balance:
  assumes "books (audit db)"
    and "\<And>n db. books (audit db) \<Longrightarrow> books (audit (others n db))"
    and "\<And>a. books a \<Longrightarrow> books (snd (deliver sd a))"
    and "source_task h rejects clk others deliver version rid ow sd db = (r, db')"
  shows "sr_fetched r + (if sr_status r = ''failed'' \<or> sr_status r = ''lease_lost'' then 1 else 0) =
      sr_inserted r + sr_within_run_duplicates r + sr_database_duplicates r + sr_errors r
    \<and> books (audit db')"
  using source_task_balanced [of db others deliver sd, OF assms(1-3), of h rejects clk version rid ow] assms(4)
  by (simp add: result_balanced_def troubled_def)

lemma source_books_balance_witness:
  "sr_errors (fst (source_task id (\<lambda>_. False) int (\<lambda>_ x. x) (\<lambda>_ a. (ConnectionTrouble, a)) ''v1'' 1 ''w''
       newsapi_source \<lparr>audit = empty_db, raw = []\<rparr>)) = 1"
proof -
  let ?r = "source_task id (\<lambda>_. False) int (\<lambda>_ x. x) (\<lambda>_ a. (ConnectionTrouble, a)) ''v1'' 1 ''w''
       newsapi_source \<lparr>audit = empty_db, raw = []\<rparr>"
  have b: "books (audit \<lparr>audit = empty_db, raw = []\<rparr>)" by (simp add: books_def empty_db_def)
  have "sr_fetched (fst ?r) + (if sr_status (fst ?r) = ''failed'' \<or> sr_status (fst ?r) = ''lease_lost'' then 1 else 0) =
      sr_inserted (fst ?r) + sr_within_run_duplicates (fst ?r) + sr_database_duplicates (fst ?r) + sr_errors (fst ?r)"
    using source_books_balance [OF b, of "\<lambda>_ x. x" "\<lambda>_ a. (ConnectionTrouble, a)" newsapi_source id
      "\<lambda>_. False" int "''v1''" 1 "''w''" "fst ?r" "snd ?r"] by simp
  moreover have "sr_fetched (fst ?r) = 0 \<and> sr_status (fst ?r) = ''failed'' \<and> sr_inserted (fst ?r) = 0
      \<and> sr_within_run_duplicates (fst ?r) = 0 \<and> sr_database_duplicates (fst ?r) = 0" by code_simp
  ultimately show ?thesis by simp
qed

lemma close_run_record:
  assumes "close_run rid ow now rs db = (res, db')" "rr_status res = ''completed''"
  shows "\<exists>r \<in> set (runs (audit db')). run_id r = rr_run_id res \<and> run_status r = Completed \<and> run_finished_at r = Some now
    \<and> run_lease_owner r = None \<and> run_lease_expires_at r = None
    \<and> fetched_count (run_counts r) = rr_fetched res \<and> inserted_count (run_counts r) = rr_inserted res
    \<and> duplicate_count (run_counts r) = rr_duplicates res \<and> failed_count (run_counts r) = rr_errors res"
proof -
  obtain won a where c: "complete_run rid ow now (run_totals rs) (audit db) = (won, a)" by force
  have clear: "\<not> list_ex (\<lambda>r. sr_status r = ''lease_lost'') rs"
    using assms by (auto simp: close_run_def summary_def Let_def)
  have won using assms clear c by (cases won) (auto simp: close_run_def summary_def Let_def)
  then have a: "complete_run rid ow now (run_totals rs) (audit db) = (True, a)" "db' = db\<lparr>audit := a\<rparr>"
    and res: "rr_run_id res = rid" "rr_fetched res = sum_of sr_fetched rs" "rr_inserted res = sum_of sr_inserted rs"
      "rr_duplicates res = sum_of sr_within_run_duplicates rs + sum_of sr_database_duplicates rs" "rr_errors res = sum_of sr_errors rs"
    using assms(1) clear c by (auto simp: close_run_def summary_def Let_def)
  let ?p = "holds_run rid ow now"
  have "rowcount ?p (runs (audit db)) = 1"
    and runs: "runs a = sql_update ?p (\<lambda>r. r\<lparr>run_status := Completed, run_finished_at := Some now,
            run_lease_owner := None, run_lease_expires_at := None, run_counts := run_totals rs\<rparr>) (runs (audit db))"
    using a(1) by (auto simp: complete_run_def Let_def)
  then have "filter ?p (runs (audit db)) \<noteq> []" by (auto simp: rowcount_def)
  then obtain r where "r \<in> set (runs (audit db))" "?p r" by (auto simp: filter_empty_conv)
  then have "r\<lparr>run_status := Completed, run_finished_at := Some now, run_lease_owner := None,
      run_lease_expires_at := None, run_counts := run_totals rs\<rparr> \<in> set (runs a)" and "run_id r = rid"
    unfolding runs by (force simp: sql_update_def holds_run_def)+
  then show ?thesis using a(2) res by (intro bexI) (auto simp: run_totals_def no_counts_def)
qed

text \<open>C17: The totals of a run that completes balance: what was fetched, and one for each source that failed or
  lost its lease, is what was inserted, was a duplicate or went wrong; every enabled source reports exactly once
  in the order of its identifier; and the record of the run is completed, without its lease and with these
  totals. The books balance before, and neither the other workers nor a delivery upset them.\<close>

theorem run_books_balance:
  assumes "books (audit db)"
    and "\<And>n db. books (audit db) \<Longrightarrow> books (audit (others n db))"
    and "\<And>sd a. books a \<Longrightarrow> books (snd (deliver sd a))"
    and "run_retrieval (\<lambda>rid. source_task h rejects clk others deliver version rid ow)
           registry key version ow t0 t1 db = (res, db')"
    and "rr_status res = ''completed''"
  shows "rr_fetched res + int (length (filter troubled (rr_sources res))) =
      rr_inserted res + rr_duplicates res + rr_errors res
    \<and> map sr_source_id (rr_sources res) = map sd_source_id (enabled None registry)
    \<and> (\<exists>r \<in> set (runs (audit db')). run_id r = rr_run_id res \<and> run_status r = Completed \<and> run_finished_at r = Some t1
         \<and> run_lease_owner r = None \<and> run_lease_expires_at r = None
         \<and> fetched_count (run_counts r) = rr_fetched res \<and> inserted_count (run_counts r) = rr_inserted res
         \<and> duplicate_count (run_counts r) = rr_duplicates res \<and> failed_count (run_counts r) = rr_errors res)"
proof -
  obtain acq st a where cl: "claim key version ow t0 (audit db) = ((acq, st), a)" by (metis prod_cases3 prod.exhaust)
  define rid where "rid = run_id (the (row_of run_key (runs a) key))"
  let ?task = "source_task h rejects clk others deliver version rid ow"
  have acq: acq
    using assms(4,5) cl claim_status [OF cl] by (auto simp: run_retrieval_def summary_def Let_def split: if_splits)
  obtain rs db2 where w: "work_all ?task (enabled None registry) (db\<lparr>audit := a\<rparr>) = (rs, db2)" by fastforce
  have cr: "close_run rid ow t1 rs db2 = (res, db')"
    using assms(4) cl acq w by (simp add: run_retrieval_def rid_def Let_def)
  have oa: "outcomes a = outcomes (audit db)"
    using claim_outcomes [of key version ow t0 "audit db"] cl by simp
  then have "books (audit (db\<lparr>audit := a\<rparr>))" using assms(1) by (simp add: books_def)
  moreover have "result_balanced (fst (?task sd x)) \<and> books (audit (snd (?task sd x)))"
    if "books (audit x)" for sd x
    using that assms(2,3) by (rule source_task_balanced)
  ultimately have bal: "list_all result_balanced rs" using work_all_balanced [OF _ _ w] by blast
  have "map sr_source_id rs = map sd_source_id (enabled None registry)"
    using work_all_ids [of ?task, OF source_task_id] w by (metis fst_conv)
  with close_run_totals [OF bal cr] close_run_record [OF cr assms(5)] assms(5) show ?thesis by simp
qed

abbreviation demo_run :: "run_result \<times> rdb" where
  "demo_run \<equiv> run_retrieval (\<lambda>rid. source_task id (\<lambda>_. False) int (\<lambda>_ x. x)
     (\<lambda>_ a. (ConnectionTrouble, a)) ''v1'' rid ''w'') [newsapi_source] ''k'' ''v1'' ''w'' 0 9
     \<lparr>audit = empty_db, raw = []\<rparr>"

lemma run_books_balance_witness: "map sr_source_id (rr_sources (fst demo_run)) = [''newsapi'']"
proof -
  have b: "books (audit \<lparr>audit = empty_db, raw = []\<rparr>)" by (simp add: books_def empty_db_def)
  have st: "rr_status (fst demo_run) = ''completed''" by code_simp
  have "map sr_source_id (rr_sources (fst demo_run)) = map sd_source_id (enabled None [newsapi_source])"
    using run_books_balance [OF b _ _ prod.collapse [symmetric] st] by simp
  then show ?thesis by (simp add: enabled_def newsapi_source_def)
qed

section \<open>Configuration\<close>

text \<open>A registry built from the environment holds the given sources and the optional providers
  in their order with nothing but the enabled flag changed, under distinct identifiers, each
  polled every 5 to 1440 minutes for 1 to 100 items, and each with an https endpoint on a host
  of its own allow list.\<close>

theorem configured_registry_valid:
  assumes "configured_registry env base = Inr rs"
  shows "distinct (map sd_source_id rs)
    \<and> (\<exists>extra. set extra \<subseteq> {newsapi_source, gdelt_source}
        \<and> map (\<lambda>s. s\<lparr>sd_enabled_by_default := True\<rparr>) rs =
          map (\<lambda>s. s\<lparr>sd_enabled_by_default := True\<rparr>) (base @ extra))
    \<and> (\<forall>s \<in> set rs. 5 \<le> sd_poll_minutes s \<and> sd_poll_minutes s \<le> 1440 \<and> 1 \<le> sd_item_limit s
         \<and> sd_item_limit s \<le> 100 \<and> 0 \<le> sd_trust_seed s \<and> sd_trust_seed s \<le> 1
         \<and> (\<exists>u h. urlsplit (sd_endpoint_url s) = Some u \<and> u_scheme u = ''https''
              \<and> hostname u = Some h \<and> h \<in> set (sd_allowed_hosts s)))"
proof -
  let ?extra = "(if truthy (env ''NEWSAPI_KEY'') then [newsapi_source] else [])
          @ (if lower (case env ''GDELT_ENABLED'' of None \<Rightarrow> ''false'' | Some v \<Rightarrow> v) = ''true''
             then [gdelt_source] else [])"
  obtain ss where ss: "apply_overrides env (base @ ?extra) = Inr ss" "make_registry ss = Inr rs"
    using assms by (auto simp: configured_registry_def Let_def split: sum.splits)
  note r = make_registry_Inr [OF ss(2)]
  have "map (\<lambda>s. s\<lparr>sd_enabled_by_default := True\<rparr>) rs =
      map (\<lambda>s. s\<lparr>sd_enabled_by_default := True\<rparr>) (base @ ?extra)"
    using apply_overrides_Inr [OF ss(1)] r(1) by simp
  moreover have "set ?extra \<subseteq> {newsapi_source, gdelt_source}" by auto
  ultimately have "\<exists>extra. set extra \<subseteq> {newsapi_source, gdelt_source}
        \<and> map (\<lambda>s. s\<lparr>sd_enabled_by_default := True\<rparr>) rs =
          map (\<lambda>s. s\<lparr>sd_enabled_by_default := True\<rparr>) (base @ extra)" by blast
  moreover have "validate_source s = None" if "s \<in> set rs" for s using r(2) that by (simp add: list_all_iff)
  ultimately show ?thesis using r(3) validate_source_None by blast
qed

lemma configured_registry_valid_witness:
  "\<exists>rs. configured_registry (\<lambda>_. None) [] = Inr rs \<and> distinct (map sd_source_id rs)"
proof -
  have "configured_registry (\<lambda>_. None) [] = Inr []" by code_simp
  from configured_registry_valid [OF this] this show ?thesis by blast
qed

text \<open>The identity by title, description and date that the code keeps for articles without a URL
  is never reached: a canonical URL is never empty, so all articles without a URL (and without
  a stable provider identifier) have one identity, and of a batch of them only one is kept.\<close>

theorem urlless_articles_share_identity:
  assumes "\<not> has_stable_provider_id (Some (ra_provider a)) (ra_provider_article_id a)"
    and "\<not> has_stable_provider_id (Some (ra_provider b)) (ra_provider_article_id b)"
    and "strip (identity_url a) = []" "strip (identity_url b) = []"
  shows "article_fingerprint h a = Some (h (''url'' @ nul @ ''/'')) \<and> article_fingerprint h b = article_fingerprint h a"
proof -
  have "canonicalize_url x = Some ''/''" if "strip x = []" for x
  proof -
    have "strip [] = []" by code_simp
    then have "canonicalize_url x = canonicalize_url []"
      using that by (simp add: canonicalize_url_def)
    also have "\<dots> = Some ''/''" by code_simp
    finally show ?thesis .
  qed
  then show ?thesis using assms by (simp add: article_fingerprint_def fingerprint_material_def)
qed

lemma urlless_articles_share_identity_witness:
  "article_fingerprint id (demo_article ''official'' [] ''Port strike'') =
   article_fingerprint id (demo_article ''industry'' [] ''Copper price'')"
  using urlless_articles_share_identity [of "demo_article ''official'' [] ''Port strike''"
      "demo_article ''industry'' [] ''Copper price''" id]
  by (simp add: demo_article_def has_stable_provider_id_def stable_id_providers_def truthy_def
      identity_url_def str_or_def strip_def strip_by_def lstrip_by_def rstrip_by_def)

end
