(* ===== verification/SupplierRegistry.thy ===== *)
theory SupplierRegistry
  imports PyText SqlTable
begin

text \<open>
  \<^verbatim>\<open>suppliers/normalization.py\<close> on ASCII text, where NFKC is the identity and
  \<^verbatim>\<open>casefold\<close> is \<^verbatim>\<open>lower\<close>. Folding accents is the identity on such text too, so it is a
  parameter of the alias forms: nothing below depends on what it does.
\<close>

definition legal_forms :: "string set" where
  "legal_forms = {''ag'', ''gmbh'', ''mbh'', ''se'', ''kg'', ''kgaa'', ''ohg'', ''gbr'',
     ''inc'', ''corp'', ''corporation'', ''co'', ''company'', ''llc'', ''lp'', ''llp'',
     ''ltd'', ''limited'', ''plc'', ''sa'', ''sas'', ''sarl'', ''sca'', ''sl'', ''sau'',
     ''nv'', ''bv'', ''cv'', ''spa'', ''srl'', ''snc'', ''ab'', ''as'', ''asa'', ''oy'', ''oyj'', ''aps'',
     ''pty'', ''pte'', ''bhd'', ''sdn''}"

definition maximum_form_tokens :: nat where
  "maximum_form_tokens = 3"

definition minimum_derived_alias_length :: nat where
  "minimum_derived_alias_length = 3"

text \<open>\<^verbatim>\<open>_NON_ALPHANUMERIC.sub(" ", text).split()\<close>: runs of other characters separate words.\<close>

definition separate :: "string \<Rightarrow> string" where
  "separate s = map (\<lambda>c. if is_alnum c then c else CHR '' '') s"

definition name_words :: "string \<Rightarrow> string list" where
  "name_words name = words (separate (lower name))"

definition normalize_name :: "string \<Rightarrow> string" where
  "normalize_name name = join '' '' (name_words name)"

text \<open>The longest legal form at the end, as a number of words, that leaves a word before it.\<close>

definition trailing_form :: "string list \<Rightarrow> nat option" where
  "trailing_form parts = List.find
     (\<lambda>n. concat (drop (length parts - n) parts) \<in> legal_forms)
     (rev [1..<Suc (min maximum_form_tokens (length parts - 1))])"

lemma trailing_form_Some:
  "trailing_form parts = Some n \<Longrightarrow> 1 \<le> n \<and> n < length parts
    \<and> concat (drop (length parts - n) parts) \<in> legal_forms"
  by (auto simp: trailing_form_def maximum_form_tokens_def dest!: find_Some_in)

function strip_forms :: "string list \<Rightarrow> string list" where
  "strip_forms parts = (case trailing_form parts of
       None \<Rightarrow> parts
     | Some n \<Rightarrow> strip_forms (take (length parts - n) parts))"
  by pat_completeness auto
termination
  by (relation "measure length") (auto dest: trailing_form_Some)

declare strip_forms.simps [simp del]

definition strip_legal_form :: "string \<Rightarrow> string" where
  "strip_legal_form normalized = join '' '' (strip_forms (words normalized))"

definition alias_forms :: "(string \<Rightarrow> string) \<Rightarrow> string \<Rightarrow> string list" where
  "alias_forms fold_accents canonical_name =
     (let canonical = normalize_name canonical_name in
      if canonical = [] then []
      else let stripped = strip_legal_form canonical;
               forms = canonical # (if stripped \<noteq> canonical
                   \<and> minimum_derived_alias_length \<le> length stripped then [stripped] else [])
           in forms @ filter (\<lambda>f. minimum_derived_alias_length \<le> length f)
                (map fold_accents (filter (\<lambda>f. fold_accents f \<noteq> f) forms)))"

section \<open>Facts about names\<close>

lemma alnum_not_space: "is_alnum c \<Longrightarrow> \<not> is_space c"
  by (auto simp: is_space_def is_alnum_def is_alpha_def is_upper_def is_lower_def is_digit_def
      less_eq_char_def of_char_def)

lemma name_words_ok:
  "w \<in> set (name_words name) \<Longrightarrow> w \<noteq> [] \<and> (\<forall>c \<in> set w. is_alnum c \<and> \<not> is_upper c)"
proof -
  assume w: "w \<in> set (name_words name)"
  then have "w \<noteq> [] \<and> (\<forall>c \<in> set w. \<not> is_space c)"
    using words_are_words [of "separate (lower name)"] by (auto simp: name_words_def list_all_iff)
  moreover have "set w \<subseteq> set (separate (lower name))"
    using w set_words unfolding name_words_def by blast
  moreover have "is_space (CHR '' '')" by (simp add: is_space_def)
  ultimately show ?thesis by (fastforce simp: separate_def lower_def)
qed

lemma lower_fixed: "(\<And>c. c \<in> set s \<Longrightarrow> \<not> is_upper c) \<Longrightarrow> lower s = s"
  by (auto simp: lower_def to_lower_def map_idI)

lemma join_chars: "c \<in> set (normalize_name name) \<Longrightarrow> c = CHR '' '' \<or> (is_alnum c \<and> \<not> is_upper c)"
  using set_join [of "'' ''" "name_words name"] name_words_ok
  by (fastforce simp: normalize_name_def)

lemma words_normalize: "words (normalize_name name) = name_words name"
  unfolding normalize_name_def using name_words_ok
  by (intro words_join) (auto simp: list_all_iff dest: alnum_not_space)

lemma name_words_normalize [simp]: "name_words (normalize_name name) = name_words name"
proof -
  have "\<not> is_upper (CHR '' '')" by (simp add: is_upper_def less_eq_char_def of_char_def)
  then have "lower (normalize_name name) = normalize_name name"
    using join_chars by (intro lower_fixed) blast
  moreover have "separate (normalize_name name) = normalize_name name"
    using join_chars unfolding separate_def by (intro map_idI) auto
  ultimately show ?thesis by (simp add: name_words_def words_normalize [unfolded name_words_def])
qed

lemma normalize_idem [simp]: "normalize_name (normalize_name name) = normalize_name name"
  by (simp add: normalize_name_def [of "normalize_name name"])
    (simp add: normalize_name_def)

lemma normalize_Nil_iff: "normalize_name name = [] \<longleftrightarrow> name_words name = []"
  using name_words_ok by (auto simp: normalize_name_def join_Nil_iff list_all_iff)

lemma strip_forms_prefix: "\<exists>rest. parts = strip_forms parts @ rest"
proof (induction parts rule: strip_forms.induct)
  case (1 parts)
  show ?case
  proof (cases "trailing_form parts")
    case None
    then show ?thesis by (subst strip_forms.simps) simp
  next
    case (Some n)
    with 1 obtain rest where "take (length parts - n) parts = strip_forms (take (length parts - n) parts) @ rest"
      by blast
    with Some show ?thesis
      by (subst strip_forms.simps) (metis append.assoc append_take_drop_id option.simps(5))
  qed
qed

lemma strip_forms_nonempty: "parts \<noteq> [] \<Longrightarrow> strip_forms parts \<noteq> []"
proof (induction parts rule: strip_forms.induct)
  case (1 parts)
  show ?case
  proof (cases "trailing_form parts")
    case None
    with 1(2) show ?thesis by (subst strip_forms.simps) simp
  next
    case (Some n)
    with 1(2) trailing_form_Some [OF Some] have "take (length parts - n) parts \<noteq> []" by simp
    with 1(1) [OF Some] Some show ?thesis by (subst strip_forms.simps) simp
  qed
qed

lemma strip_forms_done: "trailing_form (strip_forms parts) = None"
proof (induction parts rule: strip_forms.induct)
  case (1 parts)
  then show ?case by (subst strip_forms.simps) (auto split: option.split)
qed

lemma strip_forms_idem: "strip_forms (strip_forms parts) = strip_forms parts"
  using strip_forms_done [of parts] by (subst strip_forms.simps) simp

lemma alias_forms_head:
  "normalize_name name \<noteq> [] \<Longrightarrow> \<exists>rest. alias_forms f name = normalize_name name # rest"
  by (simp add: alias_forms_def Let_def)

lemma alias_forms_Nil_iff: "alias_forms f name = [] \<longleftrightarrow> normalize_name name = []"
  by (simp add: alias_forms_def Let_def)

text \<open>
  \<^verbatim>\<open>suppliers/registry.py\<close> and \<^verbatim>\<open>suppliers/resolver.py\<close>: canonical suppliers, the
  aliases that resolve to them, and the resolution of a name. An operation that raises is
  the \<open>Inl\<close> of its error and changes nothing (the caller's transaction is rolled back).
  The random public identifier is an argument.
\<close>

record supplier =
  s_id :: nat
  s_public_id :: string
  s_canonical_name :: string
  s_normalized_name :: string
  s_country :: "string option"
  s_lei :: "string option"
  s_is_active :: bool

record supplier_alias =
  sa_id :: nat
  sa_supplier_id :: nat
  sa_alias :: string
  sa_normalized_alias :: string
  sa_source :: string

record mention =
  am_article_id :: nat
  am_supplier_id :: "nat option"
  am_surface_form :: string
  am_confidence :: rat

record supplier_db =
  suppliers :: "supplier list"
  aliases :: "supplier_alias list"
  mentions :: "mention list"

definition empty_suppliers :: supplier_db where
  "empty_suppliers = \<lparr>suppliers = [], aliases = [], mentions = []\<rparr>"

datatype registry_error =
    NeedsName
  | DuplicateSupplier supplier
  | AmbiguousAlias string supplier
  | NoSuchSupplier
  | SelfMerge
  | IntegrityViolation

section \<open>Registering\<close>

definition find_supplier :: "nat \<Rightarrow> supplier_db \<Rightarrow> supplier option" where
  "find_supplier i db = row_of s_id (suppliers db) i"

definition alias_holder :: "string \<Rightarrow> supplier_db \<Rightarrow> supplier option" where
  "alias_holder n db = (case row_of sa_normalized_alias (aliases db) n of
       None \<Rightarrow> None
     | Some a \<Rightarrow> find_supplier (sa_supplier_id a) db)"

definition claim_alias ::
  "supplier \<Rightarrow> string \<Rightarrow> string \<Rightarrow> supplier_db \<Rightarrow> registry_error + supplier_alias option \<times> supplier_db" where
  "claim_alias s al source db =
     (let n = normalize_name al in
      if n = [] then Inr (None, db)
      else case alias_holder n db of
        Some h \<Rightarrow> if s_id h = s_id s then Inr (None, db) else Inl (AmbiguousAlias al h)
      | None \<Rightarrow>
          (let r = \<lparr>sa_id = fresh_id sa_id (aliases db), sa_supplier_id = s_id s, sa_alias = al,
                    sa_normalized_alias = n, sa_source = source\<rparr>
           in case sql_insert sa_normalized_alias r (aliases db) of
                None \<Rightarrow> Inl IntegrityViolation
              | Some t \<Rightarrow> Inr (Some r, db\<lparr>aliases := t\<rparr>)))"

text \<open>The first of the derived aliases somebody already holds.\<close>

fun taken_form :: "string list \<Rightarrow> supplier_db \<Rightarrow> (string \<times> supplier) option" where
  "taken_form [] db = None"
| "taken_form (f # fs) db =
     (case alias_holder f db of Some h \<Rightarrow> Some (f, h) | None \<Rightarrow> taken_form fs db)"

fun insert_aliases ::
  "nat \<Rightarrow> string \<Rightarrow> string list \<Rightarrow> bool \<Rightarrow> supplier_alias list \<Rightarrow> supplier_alias list option" where
  "insert_aliases sid name [] canonical t = Some t"
| "insert_aliases sid name (f # fs) canonical t =
     (case sql_insert sa_normalized_alias
             \<lparr>sa_id = fresh_id sa_id t, sa_supplier_id = sid,
              sa_alias = (if canonical then name else f), sa_normalized_alias = f,
              sa_source = (if canonical then ''canonical'' else ''derived'')\<rparr> t of
        None \<Rightarrow> None
      | Some t' \<Rightarrow> insert_aliases sid name fs False t')"

text \<open>Inserting a supplier is refused when it repeats a unique column.\<close>

definition insert_supplier :: "supplier \<Rightarrow> supplier list \<Rightarrow> supplier list option" where
  "insert_supplier s t =
     (if s_public_id s \<in> s_public_id ` set t \<or> s_normalized_name s \<in> s_normalized_name ` set t
         \<or> (s_lei s \<noteq> None \<and> s_lei s \<in> s_lei ` set t)
      then None else sql_insert s_id s t)"

definition new_supplier ::
  "string \<Rightarrow> string \<Rightarrow> string option \<Rightarrow> string option \<Rightarrow> supplier list \<Rightarrow> supplier" where
  "new_supplier pid name country lei t = \<lparr>s_id = fresh_id s_id t, s_public_id = pid,
     s_canonical_name = strip name, s_normalized_name = normalize_name name,
     s_country = country, s_lei = lei, s_is_active = True\<rparr>"

definition register_supplier ::
  "(string \<Rightarrow> string) \<Rightarrow> string \<Rightarrow> string \<Rightarrow> string option \<Rightarrow> string option \<Rightarrow> supplier_db
     \<Rightarrow> registry_error + supplier \<times> supplier_db" where
  "register_supplier fold_accents pid name country lei db =
     (let n = normalize_name name in
      if n = [] then Inl NeedsName
      else case row_of s_normalized_name (suppliers db) n of
        Some s \<Rightarrow> Inl (DuplicateSupplier s)
      | None \<Rightarrow>
          (case taken_form (alias_forms fold_accents name) db of
             Some (f, h) \<Rightarrow> Inl (AmbiguousAlias f h)
           | None \<Rightarrow>
               (let s = new_supplier pid name country lei (suppliers db)
                in case insert_supplier s (suppliers db) of
                     None \<Rightarrow> Inl IntegrityViolation
                   | Some t \<Rightarrow>
                       (case insert_aliases (s_id s) (strip name) (alias_forms fold_accents name)
                               True (aliases db) of
                          None \<Rightarrow> Inl IntegrityViolation
                        | Some al \<Rightarrow> Inr (s, db\<lparr>suppliers := t, aliases := al\<rparr>)))))"

definition add_alias ::
  "nat \<Rightarrow> string \<Rightarrow> string \<Rightarrow> supplier_db \<Rightarrow> registry_error + supplier_alias option \<times> supplier_db" where
  "add_alias i al source db = (case find_supplier i db of
       None \<Rightarrow> Inl NoSuchSupplier
     | Some s \<Rightarrow> claim_alias s al source db)"

definition merge_suppliers :: "nat \<Rightarrow> nat \<Rightarrow> supplier_db \<Rightarrow> registry_error + supplier_db" where
  "merge_suppliers keep merge db =
     (if keep = merge then Inl SelfMerge
      else if find_supplier keep db = None \<or> find_supplier merge db = None then Inl NoSuchSupplier
      else Inr (db\<lparr>
        aliases := sql_update (\<lambda>a. sa_supplier_id a = merge) (\<lambda>a. a\<lparr>sa_supplier_id := keep\<rparr>) (aliases db),
        mentions := sql_update (\<lambda>m. am_supplier_id m = Some merge) (\<lambda>m. m\<lparr>am_supplier_id := Some keep\<rparr>)
                      (mentions db),
        suppliers := sql_update (\<lambda>s. s_id s = merge) (\<lambda>s. s\<lparr>s_is_active := False\<rparr>) (suppliers db)\<rparr>))"

text \<open>
  \<^verbatim>\<open>seed_suppliers\<close> over the catalogue (an argument, with its public identifiers): names
  already known are skipped, any other error ends the run.
\<close>

fun seed_suppliers ::
  "(string \<Rightarrow> string) \<Rightarrow> (string \<times> string) list \<Rightarrow> supplier_db \<Rightarrow> registry_error + nat \<times> supplier_db" where
  "seed_suppliers fold_accents [] db = Inr (0, db)"
| "seed_suppliers fold_accents ((pid, name) # names) db =
     (case register_supplier fold_accents pid name None None db of
        Inr (s, db') \<Rightarrow> map_sum id (map_prod Suc id) (seed_suppliers fold_accents names db')
      | Inl (DuplicateSupplier s) \<Rightarrow> seed_suppliers fold_accents names db
      | Inl (AmbiguousAlias a s) \<Rightarrow> seed_suppliers fold_accents names db
      | Inl e \<Rightarrow> Inl e)"

section \<open>Resolving\<close>

record resolution =
  rs_surface_form :: string
  rs_supplier_id :: "nat option"
  rs_public_id :: "string option"
  rs_confidence :: rat

definition exact_match_confidence :: rat where
  "exact_match_confidence = 1"

definition unresolved :: "string \<Rightarrow> resolution" where
  "unresolved form = \<lparr>rs_surface_form = form, rs_supplier_id = None, rs_public_id = None,
     rs_confidence = 0\<rparr>"

text \<open>The row of the join of aliases with active suppliers under a normalized name.\<close>

definition by_alias :: "supplier_db \<Rightarrow> string \<Rightarrow> (nat \<times> string) option" where
  "by_alias db n = (if n = [] then None
     else case row_of sa_normalized_alias (aliases db) n of
       None \<Rightarrow> None
     | Some a \<Rightarrow> (case find_supplier (sa_supplier_id a) db of
           None \<Rightarrow> None
         | Some s \<Rightarrow> if s_is_active s then Some (s_id s, s_public_id s) else None))"

definition resolve :: "supplier_db \<Rightarrow> string \<Rightarrow> resolution" where
  "resolve db form = (case by_alias db (normalize_name form) of
       None \<Rightarrow> unresolved form
     | Some (i, p) \<Rightarrow> \<lparr>rs_surface_form = form, rs_supplier_id = Some i, rs_public_id = Some p,
         rs_confidence = exact_match_confidence\<rparr>)"

definition resolve_many :: "supplier_db \<Rightarrow> string list \<Rightarrow> resolution list" where
  "resolve_many db forms = map (resolve db) forms"

end
