(* ===== verification/SupplierFacts.thy ===== *)
theory SupplierFacts
  imports SupplierRegistry
begin

text \<open>
  The supplier registry keeps its tables consistent, and a name resolves to one supplier:
  what registering, adding an alias and merging do to the resolution of every name.
\<close>

section \<open>The invariant\<close>

definition registry_inv :: "supplier_db \<Rightarrow> bool" where
  "registry_inv db \<longleftrightarrow>
     distinct (map s_id (suppliers db)) \<and> distinct (map s_public_id (suppliers db))
   \<and> distinct (map s_normalized_name (suppliers db))
   \<and> distinct (map sa_normalized_alias (aliases db))
   \<and> list_all (\<lambda>a. sa_normalized_alias a \<noteq> [] \<and> find_supplier (sa_supplier_id a) db \<noteq> None) (aliases db)
   \<and> list_all (\<lambda>s. s_is_active s \<longrightarrow>
        by_alias db (s_normalized_name s) = Some (s_id s, s_public_id s)) (suppliers db)"

lemma empty_registry_inv: "registry_inv empty_suppliers"
  by (simp add: registry_inv_def empty_suppliers_def)

lemma find_supplier_frame [simp]:
  "find_supplier i (db\<lparr>aliases := t\<rparr>) = find_supplier i db"
  "find_supplier i (db\<lparr>mentions := m\<rparr>) = find_supplier i db"
  by (simp_all add: find_supplier_def)

lemma alias_holder_None:
  "registry_inv db \<Longrightarrow> alias_holder n db = None \<longleftrightarrow> row_of sa_normalized_alias (aliases db) n = None"
  by (auto simp: alias_holder_def registry_inv_def list_all_iff dest: row_of_SomeD split: option.split)

lemma find_supplier_in: "registry_inv db \<Longrightarrow> s \<in> set (suppliers db) \<Longrightarrow> find_supplier (s_id s) db = Some s"
  by (simp add: registry_inv_def find_supplier_def row_of_in)

lemma find_supplier_SomeD: "find_supplier i db = Some s \<Longrightarrow> s \<in> set (suppliers db) \<and> s_id s = i"
  by (auto simp: find_supplier_def dest: row_of_SomeD)

lemma by_alias_holder:
  "by_alias db n = (if n = [] then None else case alias_holder n db of
      None \<Rightarrow> None | Some s \<Rightarrow> if s_is_active s then Some (s_id s, s_public_id s) else None)"
  by (auto simp: by_alias_def alias_holder_def split: option.split)

lemma registry_invI:
  assumes "distinct (map s_id (suppliers db))" "distinct (map s_public_id (suppliers db))"
    "distinct (map s_normalized_name (suppliers db))" "distinct (map sa_normalized_alias (aliases db))"
    "\<And>a. a \<in> set (aliases db) \<Longrightarrow> sa_normalized_alias a \<noteq> [] \<and> find_supplier (sa_supplier_id a) db \<noteq> None"
    "\<And>s. s \<in> set (suppliers db) \<Longrightarrow> s_is_active s \<Longrightarrow>
       by_alias db (s_normalized_name s) = Some (s_id s, s_public_id s)"
  shows "registry_inv db"
  using assms by (simp add: registry_inv_def list_all_iff)

section \<open>Adding an alias\<close>

lemma claim_alias_cases:
  assumes "claim_alias s al source db = Inr (r, db')"
  obtains "db' = db" "r = None"
  | t a where "sql_insert sa_normalized_alias a (aliases db) = Some t" "db' = db\<lparr>aliases := t\<rparr>"
      "sa_normalized_alias a = normalize_name al" "sa_supplier_id a = s_id s" "normalize_name al \<noteq> []"
      "alias_holder (normalize_name al) db = None" "r = Some a"
  using assms by (auto simp: claim_alias_def Let_def split: if_splits option.splits)

lemma row_of_insert_alias:
  "sql_insert sa_normalized_alias a t = Some t' \<Longrightarrow>
    row_of sa_normalized_alias t' n = (if n = sa_normalized_alias a then Some a else row_of sa_normalized_alias t n)"
  by (rule row_of_insert)

lemma by_alias_insert:
  assumes "sql_insert sa_normalized_alias a (aliases db) = Some t" "sa_normalized_alias a \<noteq> []"
    "find_supplier (sa_supplier_id a) db = Some s"
  shows "by_alias (db\<lparr>aliases := t\<rparr>) n = (if n = sa_normalized_alias a
    then if s_is_active s then Some (s_id s, s_public_id s) else None else by_alias db n)"
  using assms by (cases "row_of sa_normalized_alias (aliases db) n")
    (auto simp: by_alias_def row_of_insert_alias [OF assms(1)])

lemma claim_alias_inv:
  assumes "registry_inv db" "find_supplier i db = Some s" "claim_alias s al source db = Inr (r, db')"
  shows "registry_inv db'"
  using assms(3)
proof (cases rule: claim_alias_cases)
  case 1
  with assms(1) show ?thesis by simp
next
  case (2 t a)
  have sup: "find_supplier (sa_supplier_id a) db = Some s"
    using 2(4) assms(1,2) find_supplier_in find_supplier_SomeD by metis
  have fresh: "normalize_name al \<notin> sa_normalized_alias ` set (aliases db)"
    using 2(1,3) by (auto simp: sql_insert_def split: if_splits)
  show ?thesis
  proof (rule registry_invI)
    show "distinct (map sa_normalized_alias (aliases db'))"
      using keys_insert [OF 2(1)] assms(1) 2(2) by (simp add: registry_inv_def)
    fix x assume "x \<in> set (aliases db')"
    then have "x \<in> set (aliases db) \<or> x = a" using 2(1,2) by (auto simp: sql_insert_def split: if_splits)
    then show "sa_normalized_alias x \<noteq> [] \<and> find_supplier (sa_supplier_id x) db' \<noteq> None"
      using assms(1) sup 2(2,3,5) by (auto simp: registry_inv_def list_all_iff find_supplier_def)
  next
    fix x assume x: "x \<in> set (suppliers db')" "s_is_active x"
    with assms(1) 2(2) have b: "by_alias db (s_normalized_name x) = Some (s_id x, s_public_id x)"
      by (simp add: registry_inv_def list_all_iff)
    then have "s_normalized_name x \<noteq> normalize_name al"
      using 2(6) by (auto simp: by_alias_holder split: if_splits)
    with b 2 show "by_alias db' (s_normalized_name x) = Some (s_id x, s_public_id x)"
      using by_alias_insert [OF 2(1) _ sup, of "s_normalized_name x"] by simp
  qed (use assms(1) 2(2) in \<open>simp_all add: registry_inv_def\<close>)
qed

section \<open>Registering\<close>

lemma insert_aliases_Some:
  "insert_aliases sid name fs c t = Some t' \<Longrightarrow>
    (\<exists>new. t' = t @ new \<and> map sa_normalized_alias new = fs \<and> list_all (\<lambda>a. sa_supplier_id a = sid) new)
    \<and> (distinct (map sa_normalized_alias t) \<longrightarrow> distinct (map sa_normalized_alias t'))"
proof (induction fs arbitrary: c t)
  case (Cons f fs)
  let ?a = "\<lparr>sa_id = fresh_id sa_id t, sa_supplier_id = sid, sa_alias = (if c then name else f),
    sa_normalized_alias = f, sa_source = (if c then ''canonical'' else ''derived'')\<rparr>"
  obtain t1 where t1: "sql_insert sa_normalized_alias ?a t = Some t1"
    "insert_aliases sid name fs False t1 = Some t'"
    using Cons.prems by (auto split: option.splits)
  then have e: "t1 = t @ [?a]" by (auto simp: sql_insert_def split: if_splits)
  obtain new where new: "t' = t1 @ new" "map sa_normalized_alias new = fs"
      "list_all (\<lambda>a. sa_supplier_id a = sid) new"
      "distinct (map sa_normalized_alias t1) \<longrightarrow> distinct (map sa_normalized_alias t')"
    using Cons.IH [OF t1(2)] by blast
  have "t' = t @ (?a # new)" "map sa_normalized_alias (?a # new) = f # fs"
    "list_all (\<lambda>a. sa_supplier_id a = sid) (?a # new)"
    using new e by simp_all
  moreover have "distinct (map sa_normalized_alias t) \<longrightarrow> distinct (map sa_normalized_alias t')"
    using new(4) keys_insert [OF t1(1)] by simp
  ultimately show ?case by (intro conjI exI [of _ "?a # new"])
qed simp

lemma insert_supplier_Some:
  "insert_supplier s t = Some t' \<Longrightarrow> sql_insert s_id s t = Some t' \<and> s_public_id s \<notin> s_public_id ` set t"
  by (simp add: insert_supplier_def split: if_splits)

lemma new_supplier_simps [simp]:
  "s_id (new_supplier pid name country lei t) = fresh_id s_id t"
  "s_public_id (new_supplier pid name country lei t) = pid"
  "s_normalized_name (new_supplier pid name country lei t) = normalize_name name"
  "s_is_active (new_supplier pid name country lei t)"
  by (simp_all add: new_supplier_def)

lemma register_supplier_Inr:
  assumes "register_supplier f pid name country lei db = Inr (s, db')"
  shows "normalize_name name \<noteq> [] \<and> taken_form (alias_forms f name) db = None
    \<and> row_of s_normalized_name (suppliers db) (normalize_name name) = None
    \<and> s = new_supplier pid name country lei (suppliers db)
    \<and> insert_supplier s (suppliers db) = Some (suppliers db')
    \<and> insert_aliases (s_id s) (strip name) (alias_forms f name) True (aliases db) = Some (aliases db')
    \<and> mentions db' = mentions db"
proof -
  let ?s = "new_supplier pid name country lei (suppliers db)"
  from assms have n: "normalize_name name \<noteq> []"
    "row_of s_normalized_name (suppliers db) (normalize_name name) = None"
    "taken_form (alias_forms f name) db = None"
    by (auto simp: register_supplier_def Let_def split: if_splits option.splits)
  with assms obtain t al where "insert_supplier ?s (suppliers db) = Some t"
    "insert_aliases (s_id ?s) (strip name) (alias_forms f name) True (aliases db) = Some al"
    "s = ?s" "db' = db\<lparr>suppliers := t, aliases := al\<rparr>"
    by (auto simp: register_supplier_def Let_def split: option.splits)
  with n show ?thesis by simp
qed

lemma taken_form_None: "taken_form fs db = None \<longleftrightarrow> (\<forall>f \<in> set fs. alias_holder f db = None)"
  by (induction fs) (auto split: option.split)

lemma row_of_key_append:
  "row_of key (t @ u) k = (case row_of key t k of None \<Rightarrow> row_of key u k | Some r \<Rightarrow> Some r)"
  by (simp add: row_of_append)

lemma register_supplier_by_alias:
  assumes "registry_inv db" "register_supplier f pid name country lei db = Inr (s, db')" "n \<noteq> []"
  shows "by_alias db' n = (if n \<in> set (alias_forms f name) then Some (s_id s, s_public_id s) else by_alias db n)"
proof -
  have r: "s_is_active s" "s_id s = fresh_id s_id (suppliers db)"
    "taken_form (alias_forms f name) db = None" "sql_insert s_id s (suppliers db) = Some (suppliers db')"
    "insert_aliases (s_id s) (strip name) (alias_forms f name) True (aliases db) = Some (aliases db')"
    using register_supplier_Inr [OF assms(2)] insert_supplier_Some [of s "suppliers db" "suppliers db'"] by auto
  obtain new where new: "aliases db' = aliases db @ new" "map sa_normalized_alias new = alias_forms f name"
    "list_all (\<lambda>a. sa_supplier_id a = s_id s) new"
    using insert_aliases_Some [OF r(5)] by blast
  have find: "find_supplier i db' = (if i = s_id s then Some s else find_supplier i db)" for i
    unfolding find_supplier_def by (rule row_of_insert [OF r(4)])
  have none: "row_of sa_normalized_alias (aliases db) n = None" if "n \<in> set (alias_forms f name)"
    using r(3) that assms(1) by (simp add: taken_form_None alias_holder_None)
  show ?thesis
  proof (cases "n \<in> set (alias_forms f name)")
    case True
    then have "n \<in> sa_normalized_alias ` set new" using new(2) by (metis list.set_map)
    then obtain a where a: "row_of sa_normalized_alias new n = Some a"
      by (metis not_Some_eq row_of_None_iff)
    then have "sa_supplier_id a = s_id s" using new(3) by (auto simp: list_all_iff dest: row_of_SomeD)
    with a True none r(1) assms(3) show ?thesis
      by (simp add: by_alias_def new(1) row_of_key_append find)
  next
    case False
    then have nn: "row_of sa_normalized_alias new n = None"
      using new(2) by (metis list.set_map row_of_None_iff)
    show ?thesis
    proof (cases "row_of sa_normalized_alias (aliases db) n")
      case None
      with nn False show ?thesis by (simp add: by_alias_def new(1) row_of_key_append)
    next
      case (Some a)
      then have "find_supplier (sa_supplier_id a) db \<noteq> None"
        using assms(1) by (auto simp: registry_inv_def list_all_iff dest: row_of_SomeD)
      then have "sa_supplier_id a \<noteq> s_id s"
        using r(2) fresh_id_gt [of _ "suppliers db" s_id] by (auto dest!: find_supplier_SomeD) fastforce
      with Some False show ?thesis by (simp add: by_alias_def new(1) row_of_key_append find)
    qed
  qed
qed

lemma register_supplier_inv:
  assumes "registry_inv db" "register_supplier f pid name country lei db = Inr (s, db')"
  shows "registry_inv db'"
proof -
  have r: "normalize_name name \<noteq> []" "s_normalized_name s = normalize_name name"
    "s_public_id s = pid" "s_id s = fresh_id s_id (suppliers db)"
    "row_of s_normalized_name (suppliers db) (normalize_name name) = None"
    "pid \<notin> s_public_id ` set (suppliers db)" "sql_insert s_id s (suppliers db) = Some (suppliers db')"
    "insert_aliases (s_id s) (strip name) (alias_forms f name) True (aliases db) = Some (aliases db')"
    using register_supplier_Inr [OF assms(2)] insert_supplier_Some [of s "suppliers db" "suppliers db'"] by auto
  have sup: "suppliers db' = suppliers db @ [s]" using r(7) by (auto simp: sql_insert_def split: if_splits)
  obtain new where new: "aliases db' = aliases db @ new" "map sa_normalized_alias new = alias_forms f name"
    "list_all (\<lambda>a. sa_supplier_id a = s_id s) new"
    "distinct (map sa_normalized_alias (aliases db'))"
    using insert_aliases_Some [OF r(8)] assms(1) by (auto simp: registry_inv_def)
  have find: "find_supplier i db' = (if i = s_id s then Some s else find_supplier i db)" for i
    unfolding find_supplier_def by (rule row_of_insert [OF r(7)])
  have forms: "g \<noteq> []" if "g \<in> set (alias_forms f name)" for g
    using that r(1) by (auto simp: alias_forms_def Let_def minimum_derived_alias_length_def split: if_splits)
  have self: "normalize_name name \<in> set (alias_forms f name)"
    using alias_forms_head [OF r(1), of f] by auto
  show ?thesis
  proof (rule registry_invI)
    show "distinct (map s_id (suppliers db'))"
      using keys_insert [OF r(7)] assms(1) by (simp add: registry_inv_def)
    show "distinct (map s_public_id (suppliers db'))"
      using assms(1) r(3,6) sup by (simp add: registry_inv_def)
    show "distinct (map s_normalized_name (suppliers db'))"
      using assms(1) r(2,5) sup by (simp add: registry_inv_def row_of_None_iff)
    show "distinct (map sa_normalized_alias (aliases db'))" by (rule new(4))
    fix x assume "x \<in> set (aliases db')"
    moreover have "sa_normalized_alias x \<noteq> []" if "x \<in> set new"
      using that forms new(2) by (metis image_eqI list.set_map)
    ultimately show "sa_normalized_alias x \<noteq> [] \<and> find_supplier (sa_supplier_id x) db' \<noteq> None"
      using assms(1) new(1,3) by (auto simp: registry_inv_def list_all_iff find)
  next
    fix x assume x: "x \<in> set (suppliers db')" "s_is_active x"
    show "by_alias db' (s_normalized_name x) = Some (s_id x, s_public_id x)"
    proof (cases "x = s")
      case True
      with self r(1,2) show ?thesis
        by (simp add: register_supplier_by_alias [OF assms])
    next
      case False
      with x sup have "x \<in> set (suppliers db)" by simp
      with assms(1) x(2) have b: "by_alias db (s_normalized_name x) = Some (s_id x, s_public_id x)"
        by (simp add: registry_inv_def list_all_iff)
      then have ne: "s_normalized_name x \<noteq> []" by (auto simp: by_alias_def split: if_splits)
      have "alias_holder (s_normalized_name x) db \<noteq> None"
        using b by (auto simp: by_alias_holder split: if_splits option.splits)
      moreover have "taken_form (alias_forms f name) db = None"
        using register_supplier_Inr [OF assms(2)] by blast
      ultimately have "s_normalized_name x \<notin> set (alias_forms f name)" by (auto simp: taken_form_None)
      with b show ?thesis by (simp add: register_supplier_by_alias [OF assms ne])
    qed
  qed
qed

section \<open>Merging\<close>

lemma merge_suppliers_by_alias:
  assumes "registry_inv db" "merge_suppliers keep merge db = Inr db'" "find_supplier keep db = Some k"
  shows "by_alias db' n = (case by_alias db n of
      None \<Rightarrow> if n \<noteq> [] \<and> s_is_active k \<and> map_option s_id (alias_holder n db) = Some merge
              then Some (s_id k, s_public_id k) else None
    | Some (i, p) \<Rightarrow> if i = merge then if s_is_active k then Some (s_id k, s_public_id k) else None
                     else Some (i, p))"
proof -
  let ?d = "\<lambda>s. s\<lparr>s_is_active := False\<rparr>"
  from assms(2) have d: "keep \<noteq> merge" "aliases db' = sql_update (\<lambda>a. sa_supplier_id a = merge)
      (\<lambda>a. a\<lparr>sa_supplier_id := keep\<rparr>) (aliases db)"
    "suppliers db' = sql_update (\<lambda>s. s_id s = merge) ?d (suppliers db)"
    by (auto simp: merge_suppliers_def split: if_splits)
  have find: "find_supplier i db' = map_option (\<lambda>s. if s_id s = merge then ?d s else s) (find_supplier i db)" for i
    by (simp add: find_supplier_def d(3) row_of_update)
  have al: "row_of sa_normalized_alias (aliases db') n =
      map_option (\<lambda>a. if sa_supplier_id a = merge then a\<lparr>sa_supplier_id := keep\<rparr> else a)
        (row_of sa_normalized_alias (aliases db) n)"
    by (simp add: d(2) row_of_update)
  have kid: "s_id k = keep" using assms(3) by (auto dest: find_supplier_SomeD)
  show ?thesis
  proof (cases "row_of sa_normalized_alias (aliases db) n")
    case None
    then show ?thesis by (simp add: by_alias_def al alias_holder_def)
  next
    case (Some a)
    then obtain s where s: "find_supplier (sa_supplier_id a) db = Some s" "s_id s = sa_supplier_id a"
      using assms(1) by (auto simp: registry_inv_def list_all_iff dest!: row_of_SomeD) (metis find_supplier_SomeD)
    with Some assms(3) d(1) kid show ?thesis
      by (auto simp: by_alias_def al alias_holder_def find)
  qed
qed

lemma merge_suppliers_inv:
  assumes "registry_inv db" "merge_suppliers keep merge db = Inr db'"
  shows "registry_inv db'"
proof -
  let ?d = "\<lambda>s. s\<lparr>s_is_active := False\<rparr>"
  from assms(2) obtain k where k: "find_supplier keep db = Some k"
    by (auto simp: merge_suppliers_def split: if_splits)
  from assms(2) have d: "aliases db' = sql_update (\<lambda>a. sa_supplier_id a = merge)
      (\<lambda>a. a\<lparr>sa_supplier_id := keep\<rparr>) (aliases db)"
    "suppliers db' = sql_update (\<lambda>s. s_id s = merge) ?d (suppliers db)"
    by (auto simp: merge_suppliers_def split: if_splits)
  have find: "find_supplier i db' = None \<longleftrightarrow> find_supplier i db = None" for i
    by (simp add: find_supplier_def d(2) row_of_update)
  show ?thesis
  proof (rule registry_invI)
    fix a assume "a \<in> set (aliases db')"
    then obtain b where "b \<in> set (aliases db)" "a = (if sa_supplier_id b = merge then b\<lparr>sa_supplier_id := keep\<rparr> else b)"
      using d(1) by (auto dest!: set_sql_update)
    with assms(1) k show "sa_normalized_alias a \<noteq> [] \<and> find_supplier (sa_supplier_id a) db' \<noteq> None"
      by (auto simp: registry_inv_def list_all_iff find)
  next
    fix x assume x: "x \<in> set (suppliers db')" "s_is_active x"
    with d(2) have "x \<in> set (suppliers db)" "s_id x \<noteq> merge"
      by (auto dest!: set_sql_update split: if_splits)
    moreover from this assms(1) x(2) have "by_alias db (s_normalized_name x) = Some (s_id x, s_public_id x)"
      by (simp add: registry_inv_def list_all_iff)
    ultimately show "by_alias db' (s_normalized_name x) = Some (s_id x, s_public_id x)"
      by (simp add: merge_suppliers_by_alias [OF assms k])
  qed (use assms(1) d in \<open>simp_all add: registry_inv_def keys_update\<close>)
qed

end
