(* ===== verification/Screening.thy ===== *)
theory Screening
  imports SupplierFacts
begin

text \<open>
  \<^verbatim>\<open>suppliers/mentions.py\<close> and \<^verbatim>\<open>suppliers/screening.py\<close>: the names an article uses are
  recorded against the registry, and sanctions designations are screened against it. Both
  are clients of the resolution of names; what they rely on is the locale \<open>name_resolver\<close>.
\<close>

section \<open>Mentions\<close>

fun distinct_from :: "string set \<Rightarrow> string option list \<Rightarrow> string list" where
  "distinct_from seen [] = []"
| "distinct_from seen (form # forms) =
     (let text = strip (case form of None \<Rightarrow> [] | Some f \<Rightarrow> f); key = normalize_name text in
      if key = [] \<or> key \<in> seen then distinct_from seen forms
      else text # distinct_from (insert key seen) forms)"

definition distinct_surface_forms :: "string option list \<Rightarrow> string list" where
  "distinct_surface_forms forms = distinct_from {} forms"

definition mention_of :: "nat \<Rightarrow> resolution \<Rightarrow> mention" where
  "mention_of article r = \<lparr>am_article_id = article, am_supplier_id = rs_supplier_id r,
     am_surface_form = rs_surface_form r, am_confidence = rs_confidence r\<rparr>"

definition record_mentions ::
  "nat \<Rightarrow> string option list \<Rightarrow> supplier_db \<Rightarrow> resolution list \<times> supplier_db" where
  "record_mentions article forms db =
     (let rs = resolve_many db (distinct_surface_forms forms);
          already = am_surface_form ` set (filter (\<lambda>m. am_article_id m = article) (mentions db))
      in (rs, db\<lparr>mentions := mentions db @
            map (mention_of article) (filter (\<lambda>r. rs_surface_form r \<notin> already) rs)\<rparr>))"

section \<open>Screening one designation\<close>

record screening_hit =
  sh_supplier_id :: nat
  sh_public_id :: string
  sh_matched_name :: string

record screening_result =
  sr_hits :: "screening_hit list"
  sr_unmatched_names :: "string list"

fun collect_hits :: "nat set \<Rightarrow> resolution list \<Rightarrow> screening_result" where
  "collect_hits seen [] = \<lparr>sr_hits = [], sr_unmatched_names = []\<rparr>"
| "collect_hits seen (r # rs) =
     (case (rs_supplier_id r, rs_public_id r) of
        (Some i, Some p) \<Rightarrow>
          if i \<in> seen then collect_hits seen rs
          else (let x = collect_hits (insert i seen) rs in
            x\<lparr>sr_hits := \<lparr>sh_supplier_id = i, sh_public_id = p, sh_matched_name = rs_surface_form r\<rparr> # sr_hits x\<rparr>)
      | _ \<Rightarrow> (let x = collect_hits seen rs in
            x\<lparr>sr_unmatched_names := rs_surface_form r # sr_unmatched_names x\<rparr>))"

definition screen_names :: "(string \<Rightarrow> resolution) \<Rightarrow> string list \<Rightarrow> screening_result" where
  "screen_names res names = collect_hits {} (map res (filter (\<lambda>n. strip n \<noteq> []) names))"

definition screen_designation :: "supplier_db \<Rightarrow> string \<Rightarrow> string list \<Rightarrow> screening_result" where
  "screen_designation db primary other_names = screen_names (resolve db) (primary # other_names)"

section \<open>A screening pass\<close>

text \<open>
  The rows of the join of processed and raw articles: the identifier of the processed
  article, and the designation names in its payload (\<open>None\<close> without a payload, the empty
  list when the payload carries no names).
\<close>

record article_payload =
  ap_article_id :: nat
  ap_names :: "string list option"

record screening_pass =
  sp_designations :: nat
  sp_flagged :: nat
  sp_unmatched :: nat
  sp_audited :: "(nat \<times> screening_hit) list"

definition to_screen :: "nat \<Rightarrow> article_payload list \<Rightarrow> supplier_db \<Rightarrow> article_payload list" where
  "to_screen limit rows db = take limit (sort_key ap_article_id
     (filter (\<lambda>r. ap_names r \<noteq> None \<and> ap_article_id r \<notin> am_article_id ` set (mentions db)) rows))"

definition screen_one :: "article_payload \<Rightarrow> screening_pass \<times> supplier_db \<Rightarrow> screening_pass \<times> supplier_db" where
  "screen_one row acc = (case acc of (p, db) \<Rightarrow>
     (case ap_names row of
        Some (n # ns) \<Rightarrow>
          (let x = screen_designation db n ns in
           (\<lparr>sp_designations = Suc (sp_designations p), sp_flagged = sp_flagged p + length (sr_hits x),
             sp_unmatched = sp_unmatched p + length (sr_unmatched_names x),
             sp_audited = sp_audited p @ map (Pair (ap_article_id row)) (sr_hits x)\<rparr>,
            snd (record_mentions (ap_article_id row) (map Some (n # ns)) db)))
      | _ \<Rightarrow> (p, db)))"

definition screen_processed_articles ::
  "nat \<Rightarrow> article_payload list \<Rightarrow> supplier_db \<Rightarrow> screening_pass \<times> supplier_db" where
  "screen_processed_articles limit rows db =
     fold screen_one (to_screen limit rows db)
       (\<lparr>sp_designations = 0, sp_flagged = 0, sp_unmatched = 0, sp_audited = []\<rparr>, db)"

section \<open>What the clients rely on\<close>

locale name_resolver =
  fixes res :: "string \<Rightarrow> resolution"
  assumes surface: "rs_surface_form (res f) = f"
    and both_ids: "rs_supplier_id (res f) = None \<longleftrightarrow> rs_public_id (res f) = None"
    and spelling: "normalize_name f = normalize_name g \<Longrightarrow> rs_supplier_id (res f) = rs_supplier_id (res g)"
    and one_public_id: "rs_supplier_id (res f) = rs_supplier_id (res g) \<Longrightarrow>
      rs_public_id (res f) = rs_public_id (res g)"
begin

lemma collect_hits_facts:
  assumes "rs = map res names"
  shows "distinct (map sh_supplier_id (sr_hits (collect_hits seen rs)))
    \<and> sh_supplier_id ` set (sr_hits (collect_hits seen rs)) =
        {i. \<exists>n \<in> set names. rs_supplier_id (res n) = Some i} - seen
    \<and> sr_unmatched_names (collect_hits seen rs) = filter (\<lambda>n. rs_supplier_id (res n) = None) names
    \<and> list_all (\<lambda>h. sh_matched_name h \<in> set names \<and>
          rs_supplier_id (res (sh_matched_name h)) = Some (sh_supplier_id h)
          \<and> rs_public_id (res (sh_matched_name h)) = Some (sh_public_id h)) (sr_hits (collect_hits seen rs))"
  using assms
proof (induction names arbitrary: seen rs)
  case (Cons n ns)
  note IH = Cons.IH [OF refl]
  show ?case
  proof (cases "rs_supplier_id (res n)")
    case None
    with Cons.prems IH [of seen] both_ids [of n] surface [of n] show ?thesis
      by (auto simp: Let_def list_all_iff)
  next
    case (Some i)
    then obtain p where p: "rs_public_id (res n) = Some p"
      using both_ids [of n] by (cases "rs_public_id (res n)") auto
    show ?thesis
    proof (cases "i \<in> seen")
      case True
      with Cons.prems IH [of seen] Some p show ?thesis by (auto simp: list_all_iff)
    next
      case False
      let ?x = "collect_hits (insert i seen) (map res ns)"
      have x: "collect_hits seen rs = ?x\<lparr>sr_hits := \<lparr>sh_supplier_id = i, sh_public_id = p,
          sh_matched_name = n\<rparr> # sr_hits ?x\<rparr>"
        using Cons.prems Some p False surface [of n] by (simp add: Let_def)
      from IH [of "insert i seen"] Some p False show ?thesis
        unfolding x by (auto simp: list_all_iff image_iff)
    qed
  qed
qed simp

lemma screen_names_facts:
  "distinct (map sh_supplier_id (sr_hits (screen_names res names)))
    \<and> sh_supplier_id ` set (sr_hits (screen_names res names)) =
        {i. \<exists>n \<in> set names. strip n \<noteq> [] \<and> rs_supplier_id (res n) = Some i}
    \<and> sr_unmatched_names (screen_names res names) =
        filter (\<lambda>n. strip n \<noteq> [] \<and> rs_supplier_id (res n) = None) names
    \<and> (\<forall>h \<in> set (sr_hits (screen_names res names)). sh_matched_name h \<in> set names
          \<and> rs_supplier_id (res (sh_matched_name h)) = Some (sh_supplier_id h)
          \<and> rs_public_id (res (sh_matched_name h)) = Some (sh_public_id h))"
  using collect_hits_facts [OF refl, of "{}" "filter (\<lambda>n. strip n \<noteq> []) names"]
  by (auto simp: screen_names_def conj_commute list_all_iff)

end

lemma resolve_Some:
  "rs_supplier_id (resolve db f) = Some i \<longleftrightarrow> (\<exists>p. by_alias db (normalize_name f) = Some (i, p))"
  by (auto simp: resolve_def unresolved_def split: option.split)

lemma resolve_public: "rs_public_id (resolve db f) = map_option snd (by_alias db (normalize_name f))"
  by (auto simp: resolve_def unresolved_def split: option.split)

lemma resolve_supplier: "rs_supplier_id (resolve db f) = map_option fst (by_alias db (normalize_name f))"
  by (auto simp: resolve_def unresolved_def split: option.split)

lemma by_alias_find:
  "by_alias db n = Some (i, p) \<Longrightarrow> map_option s_public_id (find_supplier i db) = Some p"
proof -
  assume "by_alias db n = Some (i, p)"
  then obtain s where "alias_holder n db = Some s" "i = s_id s" "p = s_public_id s"
    by (auto simp: by_alias_holder split: if_splits option.splits)
  moreover from this have "find_supplier (s_id s) db = Some s"
    unfolding alias_holder_def by (metis (no_types, lifting) find_supplier_SomeD option.case_eq_if option.distinct(1))
  ultimately show ?thesis by simp
qed

interpretation registry_names: name_resolver "resolve db" for db
proof (unfold_locales, goal_cases)
  case (1 f)
  then show ?case by (simp add: resolve_def unresolved_def split: option.split)
next
  case (4 f g)
  then show ?case
    using by_alias_find [of db "normalize_name f"] by_alias_find [of db "normalize_name g"]
    by (cases "by_alias db (normalize_name f)"; cases "by_alias db (normalize_name g)")
      (auto simp: resolve_supplier resolve_public)
qed (simp_all add: resolve_supplier resolve_public)

section \<open>Facts about a pass\<close>

lemma record_mentions_frame [simp]:
  "suppliers (snd (record_mentions a fs db)) = suppliers db"
  "aliases (snd (record_mentions a fs db)) = aliases db"
  by (simp_all add: record_mentions_def Let_def)

lemma resolve_frame:
  assumes "suppliers db' = suppliers db" "aliases db' = aliases db"
  shows "resolve db' = resolve db"
proof -
  have find: "find_supplier i db' = find_supplier i db" for i
    using assms by (simp add: find_supplier_def)
  have "by_alias db' n = by_alias db n" for n
    using find by (cases "row_of sa_normalized_alias (aliases db) n") (simp_all add: by_alias_def assms(2))
  then show ?thesis by (simp add: resolve_def fun_eq_iff)
qed

lemma screen_one_frame:
  "suppliers (snd (screen_one r (p, db))) = suppliers db"
  "aliases (snd (screen_one r (p, db))) = aliases db"
  by (auto simp: screen_one_def Let_def split: option.split list.split)

lemma fold_screen_one:
  assumes "fold screen_one rows (p, db) = (p', db')"
  shows "suppliers db' = suppliers db \<and> aliases db' = aliases db
    \<and> set (sp_audited p') = set (sp_audited p) \<union>
        {(ap_article_id r, h) |r h n ns. r \<in> set rows \<and> ap_names r = Some (n # ns)
           \<and> h \<in> set (sr_hits (screen_designation db n ns))}
    \<and> sp_designations p' = sp_designations p + length (filter (\<lambda>r. ap_names r \<noteq> None \<and> ap_names r \<noteq> Some []) rows)"
  using assms
proof (induction rows arbitrary: p db)
  case Nil
  then show ?case by simp
next
  case (Cons r rows)
  obtain p1 db1 where s: "screen_one r (p, db) = (p1, db1)" by fastforce
  have fr: "suppliers db1 = suppliers db" "aliases db1 = aliases db"
    using screen_one_frame [of r p db] s by simp_all
  have res: "screen_designation db1 = screen_designation db"
    by (simp add: screen_designation_def fun_eq_iff resolve_frame [OF fr])
  have IH: "suppliers db' = suppliers db1 \<and> aliases db' = aliases db1
    \<and> set (sp_audited p') = set (sp_audited p1) \<union>
        {(ap_article_id r, h) |r h n ns. r \<in> set rows \<and> ap_names r = Some (n # ns)
           \<and> h \<in> set (sr_hits (screen_designation db1 n ns))}
    \<and> sp_designations p' = sp_designations p1 + length (filter (\<lambda>r. ap_names r \<noteq> None \<and> ap_names r \<noteq> Some []) rows)"
    using Cons.IH [of p1 db1] Cons.prems s by simp
  show ?case
  proof (cases "ap_names r")
    case None
    with s have "p1 = p" by (simp add: screen_one_def)
    with IH None fr show ?thesis by (auto simp: res)
  next
    case (Some nms)
    show ?thesis
    proof (cases nms)
      case Nil
      with s Some have "p1 = p" by (simp add: screen_one_def)
      with IH Some Nil fr show ?thesis by (auto simp: res)
    next
      case (Cons n ns)
      with s Some have "set (sp_audited p1) = set (sp_audited p) \<union>
          Pair (ap_article_id r) ` set (sr_hits (screen_designation db n ns))"
        "sp_designations p1 = Suc (sp_designations p)"
        by (auto simp: screen_one_def Let_def)
      with IH Some Cons fr show ?thesis by (auto simp: res)
    qed
  qed
qed

end
