(* ===== verification/Watchlists.thy ===== *)
theory Watchlists
  imports SupplierFacts
begin

text \<open>
  \<^verbatim>\<open>watchlists/service.py\<close>: named lists of suppliers an organization watches, and the set
  of suppliers all its lists watch together. An operation that raises is the \<open>Inl\<close> of its
  error. Random public identifiers are arguments.
\<close>

record watchlist =
  w_id :: nat
  w_public_id :: string
  w_organization_id :: nat
  w_name :: string
  w_created_by_user_id :: "nat option"
  w_normalized_name :: string

record watchlist_entry =
  we_watchlist_id :: nat
  we_supplier_id :: nat
  we_added_by_user_id :: "nat option"

record watch_db =
  watchlists :: "watchlist list"
  entries :: "watchlist_entry list"

datatype watchlist_error = WatchlistNeedsName | DuplicateWatchlist watchlist | WatchlistIntegrity

abbreviation w_key :: "watchlist \<Rightarrow> nat \<times> string" where
  "w_key w \<equiv> (w_organization_id w, w_normalized_name w)"

abbreviation we_key :: "watchlist_entry \<Rightarrow> nat \<times> nat" where
  "we_key e \<equiv> (we_watchlist_id e, we_supplier_id e)"

definition create_watchlist ::
  "string \<Rightarrow> nat \<Rightarrow> string \<Rightarrow> nat option \<Rightarrow> watch_db \<Rightarrow> watchlist_error + watchlist \<times> watch_db" where
  "create_watchlist pid org name user db =
     (let n = normalize_name name in
      if n = [] then Inl WatchlistNeedsName
      else case row_of w_key (watchlists db) (org, n) of
        Some w \<Rightarrow> Inl (DuplicateWatchlist w)
      | None \<Rightarrow>
          (let w = \<lparr>w_id = fresh_id w_id (watchlists db), w_public_id = pid, w_organization_id = org,
                    w_name = strip name, w_created_by_user_id = user, w_normalized_name = n\<rparr>
           in if pid \<in> w_public_id ` set (watchlists db) then Inl WatchlistIntegrity
              else case sql_insert w_key w (watchlists db) of
                None \<Rightarrow> Inl WatchlistIntegrity
              | Some t \<Rightarrow> Inr (w, db\<lparr>watchlists := t\<rparr>)))"

definition list_watchlists :: "nat \<Rightarrow> watch_db \<Rightarrow> watchlist list" where
  "list_watchlists org db = sort_key w_name (filter (\<lambda>w. w_organization_id w = org) (watchlists db))"

definition add_supplier :: "nat \<Rightarrow> nat \<Rightarrow> nat option \<Rightarrow> watch_db \<Rightarrow> watch_db" where
  "add_supplier wid sid user db =
     (case sql_insert we_key \<lparr>we_watchlist_id = wid, we_supplier_id = sid, we_added_by_user_id = user\<rparr>
             (entries db) of
        None \<Rightarrow> db
      | Some t \<Rightarrow> db\<lparr>entries := t\<rparr>)"

definition remove_supplier :: "nat \<Rightarrow> nat \<Rightarrow> watch_db \<Rightarrow> watch_db" where
  "remove_supplier wid sid db = db\<lparr>entries := filter (\<lambda>e. we_key e \<noteq> (wid, sid)) (entries db)\<rparr>"

text \<open>The active suppliers joined to an entry of a list of the organization.\<close>

definition watches :: "watch_db \<Rightarrow> nat \<Rightarrow> nat \<Rightarrow> bool" where
  "watches db org sid \<longleftrightarrow> list_ex (\<lambda>e. we_supplier_id e = sid \<and>
     list_ex (\<lambda>w. w_id w = we_watchlist_id e \<and> w_organization_id w = org) (watchlists db)) (entries db)"

definition watched_suppliers :: "watch_db \<Rightarrow> supplier_db \<Rightarrow> nat \<Rightarrow> supplier list" where
  "watched_suppliers db sdb org =
     filter (\<lambda>s. s_is_active s \<and> watches db org (s_id s)) (suppliers sdb)"

definition watched_supplier_ids :: "watch_db \<Rightarrow> supplier_db \<Rightarrow> nat \<Rightarrow> string set" where
  "watched_supplier_ids db sdb org = s_public_id ` set (watched_suppliers db sdb org)"

section \<open>Facts\<close>

definition watch_inv :: "watch_db \<Rightarrow> bool" where
  "watch_inv db \<longleftrightarrow> distinct (map w_id (watchlists db)) \<and> distinct (map w_public_id (watchlists db))
     \<and> distinct (map w_key (watchlists db)) \<and> distinct (map we_key (entries db))"

lemma add_supplier_frame [simp]: "watchlists (add_supplier wid sid user db) = watchlists db"
  by (simp add: add_supplier_def split: option.split)

lemma remove_supplier_frame [simp]: "watchlists (remove_supplier wid sid db) = watchlists db"
  by (simp add: remove_supplier_def)

lemma create_watchlist_Inr:
  assumes "create_watchlist pid org name user db = Inr (w, db')"
  shows "w_organization_id w = org \<and> w_normalized_name w = normalize_name name \<and> normalize_name name \<noteq> []
    \<and> w_id w = fresh_id w_id (watchlists db) \<and> w_public_id w = pid
    \<and> pid \<notin> w_public_id ` set (watchlists db)
    \<and> sql_insert w_key w (watchlists db) = Some (watchlists db') \<and> entries db' = entries db"
  using assms by (auto simp: create_watchlist_def Let_def split: if_splits option.splits)

lemma create_watchlist_inv:
  assumes "watch_inv db" "create_watchlist pid org name user db = Inr (w, db')"
  shows "watch_inv db'"
proof -
  note c = create_watchlist_Inr [OF assms(2)]
  then have ins: "sql_insert w_key w (watchlists db) = Some (watchlists db')" by simp
  then have e: "watchlists db' = watchlists db @ [w]" by (auto simp: sql_insert_def split: if_splits)
  have "distinct (map w_id (watchlists db'))"
    using insert_fresh_distinct [of w_id, OF _ ins] c assms(1) by (simp add: watch_inv_def)
  moreover have "distinct (map w_public_id (watchlists db'))"
    using c e assms(1) by (simp add: watch_inv_def)
  moreover have "distinct (map w_key (watchlists db'))"
    using keys_insert [OF ins] assms(1) by (simp add: watch_inv_def)
  ultimately show ?thesis using c assms(1) by (simp add: watch_inv_def)
qed

lemma add_supplier_inv: "watch_inv db \<Longrightarrow> watch_inv (add_supplier wid sid user db)"
  using keys_insert [of we_key] by (auto simp: watch_inv_def add_supplier_def split: option.split)

lemma remove_supplier_inv: "watch_inv db \<Longrightarrow> watch_inv (remove_supplier wid sid db)"
  by (simp add: watch_inv_def remove_supplier_def distinct_map_filter)

lemma in_entries_add:
  "we_key ` set (entries (add_supplier wid sid user db)) = insert (wid, sid) (we_key ` set (entries db))"
  by (auto simp: add_supplier_def sql_insert_def split: option.split)

lemma in_entries_remove:
  "we_key ` set (entries (remove_supplier wid sid db)) = we_key ` set (entries db) - {(wid, sid)}"
  by (auto simp: remove_supplier_def)

lemma watches_iff:
  "watches db org sid \<longleftrightarrow> (\<exists>w \<in> set (watchlists db). w_organization_id w = org
     \<and> (w_id w, sid) \<in> we_key ` set (entries db))"
  by (fastforce simp: watches_def list_ex_iff)

lemma watches_add:
  "watches (add_supplier wid sid user db) org s \<longleftrightarrow>
     watches db org s \<or> (s = sid \<and> (\<exists>w \<in> set (watchlists db). w_id w = wid \<and> w_organization_id w = org))"
  by (auto simp: watches_iff in_entries_add)

lemma in_watched_ids:
  "p \<in> watched_supplier_ids db sdb org \<longleftrightarrow>
     (\<exists>s \<in> set (suppliers sdb). s_public_id s = p \<and> s_is_active s \<and> watches db org (s_id s))"
  by (auto simp: watched_supplier_ids_def watched_suppliers_def)

text \<open>Merging a supplier away takes it off what its watchers watch; nothing is put in its place.\<close>

lemma merge_watched_ids:
  assumes "merge_suppliers keep merge sdb = Inr sdb'" "registry_inv sdb" "find_supplier merge sdb = Some m"
  shows "watched_supplier_ids db sdb' org = watched_supplier_ids db sdb org - {s_public_id m}"
proof -
  let ?d = "\<lambda>s. s\<lparr>s_is_active := False\<rparr>"
  from assms(1) have d: "suppliers sdb' = map (\<lambda>s. if s_id s = merge then ?d s else s) (suppliers sdb)"
    by (auto simp: merge_suppliers_def sql_update_def split: if_splits)
  have m: "m \<in> set (suppliers sdb)" "s_id m = merge" using assms(3) find_supplier_SomeD by blast+
  have dist: "inj_on s_id (set (suppliers sdb))" "inj_on s_public_id (set (suppliers sdb))"
    using assms(2) by (simp_all add: registry_inv_def distinct_map)
  have inj: "s_id s = merge \<longleftrightarrow> s_public_id s = s_public_id m" if "s \<in> set (suppliers sdb)" for s
    using that m inj_onD [OF dist(1), of s m] inj_onD [OF dist(2), of s m] by auto
  show ?thesis
  proof (intro set_eqI iffI)
    fix p assume "p \<in> watched_supplier_ids db sdb' org"
    then obtain s where "s \<in> set (suppliers sdb)" "s_id s \<noteq> merge" "p = s_public_id s" "s_is_active s"
      "watches db org (s_id s)"
      by (auto simp: in_watched_ids d split: if_splits)
    with inj show "p \<in> watched_supplier_ids db sdb org - {s_public_id m}"
      by (auto simp: in_watched_ids)
  next
    fix p assume "p \<in> watched_supplier_ids db sdb org - {s_public_id m}"
    then obtain s where "s \<in> set (suppliers sdb)" "p = s_public_id s" "s_is_active s"
      "watches db org (s_id s)" "s_id s \<noteq> merge"
      using inj by (auto simp: in_watched_ids)
    moreover from this have "s \<in> set (suppliers sdb')"
      unfolding d set_map by (intro image_eqI [of _ _ s]) simp_all
    ultimately show "p \<in> watched_supplier_ids db sdb' org"
      unfolding in_watched_ids by blast
  qed
qed

end
