(* ===== verification/Articles.thy ===== *)
theory Articles
  imports RetrievalTypes SqlTable PyText
begin

text \<open>
  The article tables of \<^verbatim>\<open>models/articles.py\<close> as enrichment, search and the feed use them: a raw
  article with its place in the enrichment lifecycle, and a processed article. Floats are
  rational numbers.
\<close>

record news_raw =
  nr_id :: nat
  nr_article :: raw_article
  nr_ingested_at :: datetime
  nr_enrichment_status :: "string option"
  nr_attempt_count :: nat
  nr_next_attempt_at :: "datetime option"
  nr_lease_owner :: "string option"
  nr_lease_expires_at :: "datetime option"

record processed_article =
  pa_id :: nat
  pa_raw_article_id :: nat
  pa_normalized_title :: string
  pa_summary :: string
  pa_top_level_category :: string
  pa_signal_tags :: "string list option"
  pa_priority_signal :: "string option"
  pa_detected_regions :: "string list option"
  pa_detected_suppliers :: "string list option"
  pa_detected_categories :: "string list option"
  pa_signal_score :: rat
  pa_processing_status :: string
  pa_llm_model :: "string option"
  pa_language :: string
  pa_processed_at :: datetime
  pa_risk_event_checked_at :: "datetime option"
  pa_enrichment_method :: "string option"
  pa_enrichment_reason :: "string option"
  pa_policy_version :: "string option"
  pa_content_fingerprint :: "string option"
  pa_deterministic_confidence :: "rat option"
  pa_llm_used :: bool

text \<open>
  The risk events of \<^verbatim>\<open>models/risk_events.py\<close>, as scoring, alerting and digests read them.
  The confidence is a Python float; real numbers stand for the floats.
\<close>

record risk_event =
  re_id :: nat
  re_event_key :: string
  re_processed_article_id :: nat
  re_risk_type :: string
  re_severity :: string
  re_confidence :: real
  re_affected_suppliers :: "string list"
  re_affected_supplier_ids :: "string list"
  re_affected_locations :: "string list"
  re_affected_categories :: "string list"
  re_evidence_snippet :: string
  re_recommendation :: string
  re_source_name :: string
  re_source_url :: "string option"
  re_published_at :: datetime
  re_status :: string

end
