(* ===== verification/ImpactScoring.thy ===== *)
theory ImpactScoring
  imports Watchlists Articles
begin

text \<open>
  \<^verbatim>\<open>scoring/impact.py\<close>: how exposed a supplier is, from the risk events naming it. Python
  floats are real numbers here: rounding is outside the model.
\<close>

section \<open>One event\<close>

definition severity_weight :: "string \<Rightarrow> real" where
  "severity_weight s = (if s = ''critical'' then 1 else if s = ''high'' then 7 / 10
     else if s = ''medium'' then 4 / 10 else if s = ''low'' then 2 / 10 else 4 / 10)"

definition half_life_days :: real where
  "half_life_days = 14"

definition corroboration_discount :: real where
  "corroboration_discount = 35 / 100"

definition maximum_total :: real where
  "maximum_total = 1 / (1 - corroboration_discount)"

definition age_days :: "datetime \<Rightarrow> datetime \<Rightarrow> real" where
  "age_days published now = max 0 (of_int (now - published) / 1000000 / 86400)"

definition recency :: "datetime \<Rightarrow> datetime \<Rightarrow> real" where
  "recency published now = (1 / 2) powr (age_days published now / half_life_days)"

definition contribution :: "datetime \<Rightarrow> risk_event \<Rightarrow> real" where
  "contribution now e = severity_weight (lower (re_severity e)) * recency (re_published_at e) now
     * min 1 (max 0 (re_confidence e))"

section \<open>A supplier's score\<close>

record driver =
  dr_event_key :: string
  dr_risk_type :: string
  dr_severity :: string
  dr_confidence :: real
  dr_published_at :: datetime
  dr_contribution :: real
  dr_evidence_snippet :: string
  dr_source_name :: string

record impact_score =
  is_value :: real
  is_band :: string
  is_drivers :: "driver list"

definition driver_of :: "datetime \<Rightarrow> risk_event \<Rightarrow> driver" where
  "driver_of now e = \<lparr>dr_event_key = re_event_key e, dr_risk_type = re_risk_type e,
     dr_severity = re_severity e, dr_confidence = re_confidence e,
     dr_published_at = re_published_at e, dr_contribution = contribution now e,
     dr_evidence_snippet = re_evidence_snippet e, dr_source_name = re_source_name e\<rparr>"

definition bands :: "(real \<times> string) list" where
  "bands = [(50 / 100, ''severe''), (25 / 100, ''elevated''), (5 / 100, ''low'')]"

definition band_of :: "real \<Rightarrow> bool \<Rightarrow> string" where
  "band_of v sanctioned = (if sanctioned then ''severe''
     else case List.find (\<lambda>(t, n). t \<le> v) bands of Some (t, n) \<Rightarrow> n | None \<Rightarrow> ''none'')"

definition driver_order :: "driver \<Rightarrow> real \<times> string" where
  "driver_order d = (- dr_contribution d, dr_event_key d)"

definition discounted_total :: "driver list \<Rightarrow> real" where
  "discounted_total ds =
     sum_list (map (\<lambda>(i, d). dr_contribution d * corroboration_discount ^ i) (enumerate 0 ds))"

definition score_supplier :: "risk_event list \<Rightarrow> datetime \<Rightarrow> impact_score" where
  "score_supplier events now =
     (if events = [] then \<lparr>is_value = 0, is_band = ''none'', is_drivers = []\<rparr>
      else let drivers = sort_key driver_order (map (driver_of now) events);
               v = min 1 (discounted_total drivers / maximum_total);
               sanctioned = list_ex (\<lambda>d. dr_risk_type d = ''sanctions'') drivers
           in \<lparr>is_value = v, is_band = band_of v sanctioned, is_drivers = drivers\<rparr>)"

section \<open>Suppliers and organizations\<close>

text \<open>The window of \<^verbatim>\<open>RetentionPolicy\<close> for risk events, in days.\<close>

definition risk_event_days :: int where
  "risk_event_days = 14"

definition events_by_supplier :: "risk_event list \<Rightarrow> datetime \<Rightarrow> string \<Rightarrow> risk_event list" where
  "events_by_supplier events cutoff sid = concat (map
     (\<lambda>e. map (\<lambda>_. e) (filter (\<lambda>i. i = sid) (re_affected_supplier_ids e)))
     (filter (\<lambda>e. cutoff \<le> re_published_at e) events))"

record supplier_impact =
  si_public_id :: string
  si_name :: string
  si_score :: impact_score

definition impact_of :: "risk_event list \<Rightarrow> datetime \<Rightarrow> int \<Rightarrow> supplier \<Rightarrow> supplier_impact" where
  "impact_of events now window s = \<lparr>si_public_id = s_public_id s, si_name = s_canonical_name s,
     si_score = score_supplier (events_by_supplier events (now - days window) (s_public_id s)) now\<rparr>"

definition supplier_impact ::
  "supplier_db \<Rightarrow> risk_event list \<Rightarrow> string \<Rightarrow> datetime \<Rightarrow> int option \<Rightarrow> supplier_impact option" where
  "supplier_impact sdb events pid now window =
     (case List.find (\<lambda>s. s_public_id s = pid \<and> s_is_active s) (suppliers sdb) of
        None \<Rightarrow> None
      | Some s \<Rightarrow> Some (impact_of events now
          (case window of None \<Rightarrow> risk_event_days | Some d \<Rightarrow> d) s))"

definition impact_order :: "supplier_impact \<Rightarrow> real \<times> string" where
  "impact_order i = (- is_value (si_score i), si_name i)"

definition watched_impact ::
  "watch_db \<Rightarrow> supplier_db \<Rightarrow> risk_event list \<Rightarrow> nat \<Rightarrow> datetime \<Rightarrow> int option \<Rightarrow> supplier_impact list" where
  "watched_impact wdb sdb events org now window = sort_key impact_order
     (map (impact_of events now (case window of None \<Rightarrow> risk_event_days | Some d \<Rightarrow> d))
        (watched_suppliers wdb sdb org))"

section \<open>Facts about one event\<close>

lemma severity_weight_bounds: "0 \<le> severity_weight s \<and> severity_weight s \<le> 1"
  by (simp add: severity_weight_def)

lemma recency_bounds: "0 \<le> recency p now \<and> recency p now \<le> 1"
proof -
  have "0 \<le> age_days p now / half_life_days" by (simp add: age_days_def half_life_days_def)
  then have "(1 / 2 :: real) powr (age_days p now / half_life_days) \<le> 1" by (simp add: powr_le1)
  then show ?thesis by (simp add: recency_def)
qed

lemma recency_now: "now \<le> p \<Longrightarrow> recency p now = 1"
  by (simp add: recency_def age_days_def)

lemma recency_half_life: "recency p (p + days 14) = 1 / 2"
  by (simp add: recency_def age_days_def half_life_days_def days_def hours_def minutes_def seconds_def)

lemma contribution_bounds: "0 \<le> contribution now e \<and> contribution now e \<le> severity_weight (lower (re_severity e))"
proof -
  let ?w = "severity_weight (lower (re_severity e))" and ?r = "recency (re_published_at e) now"
    and ?c = "min 1 (max 0 (re_confidence e))"
  have r: "0 \<le> ?r" "?r \<le> 1" and w: "0 \<le> ?w" using recency_bounds severity_weight_bounds by blast+
  have c: "0 \<le> ?c" "?c \<le> 1" by auto
  have "?w * ?r \<le> ?w" using w r by (simp add: mult_left_le)
  moreover have "0 \<le> ?w * ?r" using w r by simp
  moreover have "?w * ?r * ?c \<le> ?w * ?r" using calculation(2) c by (intro mult_left_le) auto
  ultimately show ?thesis using c by (simp add: contribution_def)
qed

section \<open>Facts about the total\<close>

fun discounted :: "real list \<Rightarrow> real" where
  "discounted [] = 0"
| "discounted (x # xs) = x + corroboration_discount * discounted xs"

lemma discounted_enumerate:
  "sum_list (map (\<lambda>(i, d). f d * corroboration_discount ^ i) (enumerate n ds)) =
    corroboration_discount ^ n * discounted (map f ds)"
  by (induction ds arbitrary: n) (simp_all add: algebra_simps)

lemma discounted_total_eq: "discounted_total ds = discounted (map dr_contribution ds)"
  using discounted_enumerate [of dr_contribution 0 ds] by (simp add: discounted_total_def)

lemma discounted_bound:
  assumes "\<And>x. x \<in> set xs \<Longrightarrow> 0 \<le> x \<and> x \<le> c" "0 \<le> c"
  shows "0 \<le> discounted xs \<and> discounted xs \<le> c * maximum_total"
  using assms(1)
proof (induction xs)
  case Nil
  with assms(2) show ?case by (simp add: maximum_total_def corroboration_discount_def)
next
  case (Cons x xs)
  then have "0 \<le> discounted xs \<and> discounted xs \<le> c * maximum_total" "0 \<le> x" "x \<le> c" by auto
  then show ?case by (simp add: maximum_total_def corroboration_discount_def)
qed

text \<open>Strongest first, as the negated list sorted.\<close>

definition strongest_first :: "real list \<Rightarrow> real list" where
  "strongest_first xs = map uminus (sort (map uminus xs))"

lemma sorted_fst:
  "sorted (map (\<lambda>x. (f x :: 'a::linorder, g x :: 'b::linorder)) xs) \<Longrightarrow> sorted (map f xs)"
  by (induction xs) (auto simp: less_eq_prod_def)

lemma driver_order_sorted: "sorted (map driver_order ds) \<Longrightarrow> sorted (map (\<lambda>d. - dr_contribution d) ds)"
  by (rule sorted_fst [of _ dr_event_key]) (simp add: driver_order_def [abs_def])

lemma drivers_strongest_first:
  "map dr_contribution (sort_key driver_order ds) = strongest_first (map dr_contribution ds)"
proof -
  let ?n = "\<lambda>d. - dr_contribution d"
  have "sorted (map driver_order (sort_key driver_order ds))" by simp
  then have "sorted (map ?n (sort_key driver_order ds))" by (rule driver_order_sorted)
  moreover have "mset (map ?n (sort_key driver_order ds)) = mset (map ?n ds)" by simp
  ultimately have "map ?n (sort_key driver_order ds) = sort (map ?n ds)"
    by (metis properties_for_sort)
  then have "map uminus (map ?n (sort_key driver_order ds)) = map uminus (sort (map ?n ds))" by simp
  then show ?thesis by (simp add: strongest_first_def comp_def)
qed

lemma discounted_insort:
  assumes "sorted ys" "\<And>z. z \<in> set (y # ys) \<Longrightarrow> z \<le> 0"
  shows "discounted (map uminus ys) \<le> discounted (map uminus (insort y ys))"
proof -
  have front: "discounted (map uminus zs) \<le> discounted (map uminus (z # zs))"
    if "sorted (z # zs)" "\<And>x. x \<in> set (z # zs) \<Longrightarrow> x \<le> 0" for z zs
    using that
  proof (induction zs arbitrary: z)
    case (Cons u us)
    then have "discounted (map uminus us) \<le> discounted (map uminus (u # us))" "z \<le> u" by auto
    moreover from this have "corroboration_discount * discounted (map uminus us)
        \<le> corroboration_discount * discounted (map uminus (u # us))"
      by (simp add: corroboration_discount_def)
    ultimately show ?case by simp
  qed simp
  show ?thesis
    using assms
  proof (induction ys)
    case (Cons u us)
    show ?case
    proof (cases "y \<le> u")
      case True
      with Cons.prems(1) have "sorted (y # u # us)" by auto
      from front [OF this Cons.prems(2)] True show ?thesis by simp
    next
      case False
      have "discounted (map uminus us) \<le> discounted (map uminus (insort y us))"
        by (rule Cons.IH) (use Cons.prems in auto)
      then have "corroboration_discount * discounted (map uminus us)
          \<le> corroboration_discount * discounted (map uminus (insort y us))"
        by (simp add: corroboration_discount_def)
      with False show ?thesis by simp
    qed
  qed simp
qed

lemma discounted_more:
  assumes "\<And>z. z \<in> set (x # xs) \<Longrightarrow> 0 \<le> z"
  shows "discounted (strongest_first xs) \<le> discounted (strongest_first (x # xs))"
proof -
  have "discounted (map uminus (sort (map uminus xs)))
      \<le> discounted (map uminus (insort (- x) (sort (map uminus xs))))"
    by (rule discounted_insort) (use assms in auto)
  then show ?thesis by (simp add: strongest_first_def)
qed

lemma strongest_first_mset: "mset xs = mset ys \<Longrightarrow> strongest_first xs = strongest_first ys"
proof -
  assume "mset xs = mset ys"
  then have "mset (map uminus xs) = mset (map uminus ys)" by simp
  then have "sort (map uminus xs) = sort (map uminus ys)"
    by (metis mset_sort properties_for_sort sorted_sort)
  then show ?thesis by (simp add: strongest_first_def)
qed

section \<open>Facts about the score\<close>

definition total_of :: "risk_event list \<Rightarrow> datetime \<Rightarrow> real" where
  "total_of events now = discounted (strongest_first (map (contribution now) events))"

lemma driver_of_contribution [simp]: "dr_contribution \<circ> driver_of now = contribution now"
  by (simp add: fun_eq_iff driver_of_def)

lemma driver_of_contribution' [simp]: "dr_contribution (driver_of now e) = contribution now e"
  by (simp add: driver_of_def)

lemma score_value: "is_value (score_supplier events now) = min 1 (total_of events now / maximum_total)"
proof (cases "events = []")
  case True
  then show ?thesis by (simp add: score_supplier_def total_of_def strongest_first_def)
next
  case False
  then show ?thesis
    by (simp add: score_supplier_def total_of_def Let_def discounted_total_eq drivers_strongest_first)
qed

lemma total_bound:
  assumes "\<And>e. e \<in> set events \<Longrightarrow> contribution now e \<le> c" "0 \<le> c"
  shows "0 \<le> total_of events now \<and> total_of events now / maximum_total \<le> c"
proof -
  have m: "0 < maximum_total" by (simp add: maximum_total_def corroboration_discount_def)
  have "0 \<le> x \<and> x \<le> c" if "x \<in> set (strongest_first (map (contribution now) events))" for x
    using that assms(1) contribution_bounds by (auto simp: strongest_first_def)
  then have "0 \<le> total_of events now \<and> total_of events now \<le> c * maximum_total"
    unfolding total_of_def using assms(2) by (intro discounted_bound) auto
  with m show ?thesis by (simp add: pos_divide_le_eq)
qed

lemma score_band: "is_band (score_supplier events now) =
    (if events = [] then ''none'' else band_of (is_value (score_supplier events now))
       (\<exists>e \<in> set events. re_risk_type e = ''sanctions''))"
  by (simp add: score_supplier_def Let_def list_ex_iff driver_of_def)

end
