(* ===== verification/SupplierProperties.thy ===== *)
theory SupplierProperties
  imports Screening Watchlists ImpactScoring
begin

text \<open>
  What the supplier registry, its clients and the impact scores promise: names that resolve
  to one supplier, legal forms that come off completely, screening that reports every
  supplier once, and scores that more evidence never lowers.
\<close>

section \<open>The registry\<close>

text \<open>The operations on the registry, for the histories the database can have.\<close>

inductive registry_step :: "(string \<Rightarrow> string) \<Rightarrow> supplier_db \<Rightarrow> supplier_db \<Rightarrow> bool" for fold_accents where
  registering: "register_supplier fold_accents pid name country lei db = Inr (s, db') \<Longrightarrow> registry_step fold_accents db db'"
| naming: "add_alias i al source db = Inr (r, db') \<Longrightarrow> registry_step fold_accents db db'"
| merging: "merge_suppliers keep merge db = Inr db' \<Longrightarrow> registry_step fold_accents db db'"
| seeding: "seed_suppliers fold_accents names db = Inr (n, db') \<Longrightarrow> registry_step fold_accents db db'"
| mentioning: "registry_step fold_accents db (snd (record_mentions article forms db))"
| screening: "registry_step fold_accents db (snd (screen_processed_articles limit rows db))"

inductive registry_reachable :: "(string \<Rightarrow> string) \<Rightarrow> supplier_db \<Rightarrow> bool" for fold_accents where
  empty: "registry_reachable fold_accents empty_suppliers"
| step: "registry_reachable fold_accents db \<Longrightarrow> registry_step fold_accents db db' \<Longrightarrow> registry_reachable fold_accents db'"

lemma registry_inv_mentions:
  assumes "suppliers db' = suppliers db" "aliases db' = aliases db" "registry_inv db"
  shows "registry_inv db'"
proof -
  have "find_supplier i db' = find_supplier i db" for i using assms by (simp add: find_supplier_def)
  moreover from this have "by_alias db' n = by_alias db n" for n
    by (cases "row_of sa_normalized_alias (aliases db) n") (simp_all add: by_alias_def assms(2))
  ultimately show ?thesis using assms by (simp add: registry_inv_def)
qed

lemma seed_suppliers_inv:
  "seed_suppliers f names db = Inr (n, db') \<Longrightarrow> registry_inv db \<Longrightarrow> registry_inv db'"
proof (induction names arbitrary: db n)
  case (Cons p names)
  obtain pid name where p: "p = (pid, name)" by fastforce
  show ?case
  proof (cases "register_supplier f pid name None None db")
    case (Inl e)
    with Cons p show ?thesis by (cases e) auto
  next
    case (Inr x)
    obtain s db1 where x: "x = (s, db1)" by fastforce
    obtain m where "seed_suppliers f names db1 = Inr (m, db')"
      using Cons.prems(1) p Inr x by (cases "seed_suppliers f names db1") auto
    then show ?thesis using Cons.IH register_supplier_inv [OF Cons.prems(2)] Inr x by blast
  qed
qed simp

lemma screen_processed_frame:
  "suppliers (snd (screen_processed_articles limit rows db)) = suppliers db
    \<and> aliases (snd (screen_processed_articles limit rows db)) = aliases db"
proof (cases "screen_processed_articles limit rows db")
  case (Pair p db')
  with fold_screen_one show ?thesis unfolding screen_processed_articles_def by fastforce
qed

lemma registry_step_inv: "registry_step f db db' \<Longrightarrow> registry_inv db \<Longrightarrow> registry_inv db'"
proof (induction rule: registry_step.induct)
  case (naming i al source db r db')
  then show ?case by (auto simp: add_alias_def intro: claim_alias_inv split: option.splits)
next
  case (mentioning db article forms)
  then show ?case by (auto intro: registry_inv_mentions)
next
  case (screening db limit rows)
  then show ?case using screen_processed_frame by (metis registry_inv_mentions)
qed (auto intro: register_supplier_inv merge_suppliers_inv seed_suppliers_inv)

text \<open>The stored names are normal forms, so looking a supplier up by its own name finds it.\<close>

definition names_normal :: "supplier_db \<Rightarrow> bool" where
  "names_normal db \<longleftrightarrow> list_all (\<lambda>s. normalize_name (s_normalized_name s) = s_normalized_name s) (suppliers db)"

lemma register_supplier_normal:
  "register_supplier f pid name country lei db = Inr (s, db') \<Longrightarrow> names_normal db \<Longrightarrow> names_normal db'"
proof -
  assume reg: "register_supplier f pid name country lei db = Inr (s, db')" and ok: "names_normal db"
  have "sql_insert s_id s (suppliers db) = Some (suppliers db')" "s_normalized_name s = normalize_name name"
    using register_supplier_Inr [OF reg] insert_supplier_Some [of s "suppliers db" "suppliers db'"] by auto
  then show "names_normal db'"
    using ok list_all_insert [of _ "suppliers db" s s_id "suppliers db'"] by (simp add: names_normal_def)
qed

lemma seed_suppliers_normal:
  "seed_suppliers f names db = Inr (n, db') \<Longrightarrow> names_normal db \<Longrightarrow> names_normal db'"
proof (induction names arbitrary: db n)
  case (Cons p names)
  obtain pid name where p: "p = (pid, name)" by fastforce
  show ?case
  proof (cases "register_supplier f pid name None None db")
    case (Inl e)
    with Cons p show ?thesis by (cases e) auto
  next
    case (Inr x)
    obtain s db1 where x: "x = (s, db1)" by fastforce
    obtain m where "seed_suppliers f names db1 = Inr (m, db')"
      using Cons.prems(1) p Inr x by (cases "seed_suppliers f names db1") auto
    then show ?thesis using Cons.IH register_supplier_normal [OF _ Cons.prems(2)] Inr x by blast
  qed
qed simp

lemma registry_step_normal: "registry_step f db db' \<Longrightarrow> names_normal db \<Longrightarrow> names_normal db'"
proof (induction rule: registry_step.induct)
  case (naming i al source db r db')
  then have "suppliers db' = suppliers db"
    by (auto simp: add_alias_def elim!: claim_alias_cases split: option.splits)
  with naming show ?case by (simp add: names_normal_def)
next
  case (merging keep merge db db')
  then show ?case
    by (auto simp: merge_suppliers_def names_normal_def intro!: list_all_update split: if_splits)
next
  case (mentioning db article forms)
  then show ?case by (simp add: names_normal_def)
next
  case (screening db limit rows)
  then show ?case using screen_processed_frame by (simp add: names_normal_def)
qed (auto intro: register_supplier_normal seed_suppliers_normal)

lemma registry_reachable_inv: "registry_reachable f db \<Longrightarrow> registry_inv db \<and> names_normal db"
proof (induction rule: registry_reachable.induct)
  case empty
  then show ?case using empty_registry_inv by (simp add: names_normal_def empty_suppliers_def)
qed (auto intro: registry_step_inv registry_step_normal)

text \<open>C18: Every history of the supplier registry keeps it consistent: identifiers, public identifiers
  and normalized names are unique, no spelling belongs to two suppliers, every alias points to a
  stored supplier, and the own name of each active supplier resolves to it.\<close>

theorem registry_stays_consistent:
  assumes "registry_reachable f db"
  shows "distinct (map s_id (suppliers db)) \<and> distinct (map s_public_id (suppliers db))
    \<and> distinct (map s_normalized_name (suppliers db)) \<and> distinct (map sa_normalized_alias (aliases db))
    \<and> (\<forall>a \<in> set (aliases db). find_supplier (sa_supplier_id a) db \<noteq> None)
    \<and> (\<forall>s \<in> set (suppliers db). s_is_active s \<longrightarrow>
         rs_public_id (resolve db (s_normalized_name s)) = Some (s_public_id s))"
  using registry_reachable_inv [OF assms]
  by (auto simp: registry_inv_def names_normal_def list_all_iff resolve_public)

definition demo_registered :: "string \<Rightarrow> string \<Rightarrow> supplier_db \<Rightarrow> supplier_db" where
  "demo_registered pid name db = (case register_supplier id pid name None None db of
     Inr (s, db') \<Rightarrow> db' | Inl e \<Rightarrow> db)"

definition demo_registry :: supplier_db where
  "demo_registry = demo_registered ''p2'' ''Apex'' (demo_registered ''p1'' ''Acme GmbH'' empty_suppliers)"

lemma demo_registered_reachable: "registry_reachable id db \<Longrightarrow> registry_reachable id (demo_registered pid name db)"
  by (cases "register_supplier id pid name None None db")
    (auto simp: demo_registered_def intro: registry_reachable.step registry_step.registering)

lemma demo_registry_reachable: "registry_reachable id demo_registry"
  unfolding demo_registry_def by (intro demo_registered_reachable registry_reachable.empty)

lemma demo_registry_inv: "registry_inv demo_registry"
  using registry_reachable_inv [OF demo_registry_reachable] by blast

lemma registry_stays_consistent_witness:
  "\<exists>s. s \<in> set (suppliers demo_registry) \<and> rs_public_id (resolve demo_registry (s_normalized_name s)) = Some ''p1''"
proof -
  define s where "s = hd (suppliers demo_registry)"
  have "s \<in> set (suppliers demo_registry)" "s_is_active s" "s_public_id s = ''p1''"
    unfolding s_def by code_simp+
  then show ?thesis using registry_stays_consistent [OF demo_registry_reachable] by metis
qed

text \<open>Registering a supplier and looking it up is a round trip: afterwards every spelling whose
  normal form is one of the aliases derived from the name resolves to the new supplier with full
  confidence, and every other spelling resolves to what it resolved to before.\<close>

theorem registered_name_resolves:
  assumes "registry_inv db" "register_supplier f pid name country lei db = Inr (s, db')"
  shows "resolve db' form = (if normalize_name form \<in> set (alias_forms f name) \<and> normalize_name form \<noteq> []
     then \<lparr>rs_surface_form = form, rs_supplier_id = Some (s_id s), rs_public_id = Some pid, rs_confidence = 1\<rparr>
     else resolve db form) \<and> normalize_name name \<in> set (alias_forms f name)"
proof -
  have n: "normalize_name name \<in> set (alias_forms f name)" "s_public_id s = pid"
    using register_supplier_Inr [OF assms(2)] alias_forms_head [of name f] by auto
  have "by_alias d [] = None" for d by (simp add: by_alias_def)
  then have "by_alias db' (normalize_name form) = (if normalize_name form \<in> set (alias_forms f name)
      \<and> normalize_name form \<noteq> [] then Some (s_id s, pid) else by_alias db (normalize_name form))"
    using register_supplier_by_alias [OF assms, of "normalize_name form"] n by (cases "normalize_name form = []") auto
  then show ?thesis using n by (simp add: resolve_def exact_match_confidence_def)
qed

lemma registered_name_resolves_witness:
  "\<exists>s db'. register_supplier id ''p9'' ''Acme GmbH'' None None empty_suppliers = Inr (s, db')
     \<and> rs_public_id (resolve db' ''ACME, gmbh.'') = Some ''p9''"
proof -
  obtain s db' where r: "register_supplier id ''p9'' ''Acme GmbH'' None None empty_suppliers = Inr (s, db')"
  proof -
    have "\<not> isl (register_supplier id ''p9'' ''Acme GmbH'' None None empty_suppliers)" by code_simp
    then show thesis using that by (cases "register_supplier id ''p9'' ''Acme GmbH'' None None empty_suppliers") auto
  qed
  have "normalize_name ''ACME, gmbh.'' = normalize_name ''Acme GmbH''" "normalize_name ''Acme GmbH'' \<noteq> []"
    by code_simp+
  then show ?thesis using registered_name_resolves [OF empty_registry_inv r, of "''ACME, gmbh.''"] r by auto
qed

text \<open>C19: Merging into an active supplier redirects: every spelling that resolved to the merged supplier
  resolves to the kept one, every other spelling that resolved keeps its supplier, no mention names the merged supplier
  any more, and the registry stays consistent. What an organization watches is not redirected: it
  just loses the merged supplier.\<close>

theorem merge_redirects:
  assumes "registry_inv db" "merge_suppliers keep merge db = Inr db'"
    and "find_supplier keep db = Some k" "s_is_active k" "find_supplier merge db = Some m"
    and "rs_supplier_id (resolve db form) = Some i"
  shows "rs_supplier_id (resolve db' form) = Some (if i = merge then keep else i)
    \<and> (\<forall>x \<in> set (mentions db'). am_supplier_id x \<noteq> Some merge) \<and> registry_inv db'
    \<and> watched_supplier_ids wdb db' org = watched_supplier_ids wdb db org - {s_public_id m}"
proof -
  obtain p where p: "by_alias db (normalize_name form) = Some (i, p)" using assms(6) by (auto simp: resolve_Some)
  have k: "s_id k = keep" using find_supplier_SomeD [OF assms(3)] by simp
  have ne: "keep \<noteq> merge" using assms(2) by (auto simp: merge_suppliers_def split: if_splits)
  have "rs_supplier_id (resolve db' form) = Some (if i = merge then keep else i)"
    using merge_suppliers_by_alias [OF assms(1-3), of "normalize_name form"] p assms(4) k
    by (simp add: resolve_supplier)
  moreover have "\<forall>x \<in> set (mentions db'). am_supplier_id x \<noteq> Some merge"
    using assms(2) ne by (auto simp: merge_suppliers_def sql_update_def split: if_splits)
  ultimately show ?thesis
    using merge_suppliers_inv [OF assms(1,2)] merge_watched_ids [OF assms(2,1,5)] by blast
qed

definition demo_merged :: supplier_db where
  "demo_merged = (case merge_suppliers 1 2 demo_registry of Inr db \<Rightarrow> db | Inl e \<Rightarrow> empty_suppliers)"

lemma merge_redirects_witness: "rs_supplier_id (resolve demo_merged ''APEX'') = Some 1"
proof -
  have m: "merge_suppliers 1 2 demo_registry = Inr demo_merged"
  proof -
    have "\<not> isl (merge_suppliers 1 2 demo_registry)" by code_simp
    then show ?thesis by (cases "merge_suppliers 1 2 demo_registry") (auto simp: demo_merged_def)
  qed
  have "find_supplier 1 demo_registry = Some (hd (suppliers demo_registry))"
    "s_is_active (hd (suppliers demo_registry))"
    "find_supplier 2 demo_registry = Some (hd (tl (suppliers demo_registry)))"
    "rs_supplier_id (resolve demo_registry ''APEX'') = Some 2"
    by code_simp+
  from merge_redirects [OF demo_registry_inv m this, of "\<lparr>watchlists = [], entries = []\<rparr>" 1]
  show ?thesis by simp
qed

section \<open>Legal forms\<close>

text \<open>Stripping legal forms from a normalized name terminates with the longest prefix of its
  words that ends in no legal form: what it removes is a sequence of legal forms of at most three
  words each, a non-empty name is left non-empty, and stripping again changes nothing.\<close>

theorem legal_forms_come_off:
  "\<exists>forms. strip_forms parts @ concat forms = parts
      \<and> (\<forall>form \<in> set forms. concat form \<in> legal_forms \<and> 1 \<le> length form \<and> length form \<le> 3)
      \<and> (strip_forms parts = [] \<longleftrightarrow> parts = []) \<and> trailing_form (strip_forms parts) = None
      \<and> strip_forms (strip_forms parts) = strip_forms parts"
proof -
  have "\<exists>forms. strip_forms parts @ concat forms = parts
      \<and> (\<forall>form \<in> set forms. concat form \<in> legal_forms \<and> 1 \<le> length form \<and> length form \<le> 3)"
  proof (induction parts rule: strip_forms.induct)
    case (1 parts)
    show ?case
    proof (cases "trailing_form parts")
      case None
      then show ?thesis by (intro exI [of _ "[]"]) (subst strip_forms.simps, simp)
    next
      case (Some n)
      let ?front = "take (length parts - n) parts" and ?form = "drop (length parts - n) parts"
      obtain forms where f: "strip_forms ?front @ concat forms = ?front"
        "\<forall>form \<in> set forms. concat form \<in> legal_forms \<and> 1 \<le> length form \<and> length form \<le> 3"
        using 1 [OF Some] by blast
      have "n \<le> 3" using Some by (auto simp: trailing_form_def maximum_form_tokens_def dest!: find_Some_in)
      then have "concat ?form \<in> legal_forms \<and> 1 \<le> length ?form \<and> length ?form \<le> 3"
        using trailing_form_Some [OF Some] by simp
      moreover have "strip_forms parts = strip_forms ?front"
        using Some by (subst strip_forms.simps) simp
      ultimately show ?thesis using f append_take_drop_id [of "length parts - n" parts]
        by (intro exI [of _ "forms @ [?form]"]) (simp add: append.assoc [symmetric] del: append.assoc)
    qed
  qed
  moreover have "strip_forms parts = [] \<longleftrightarrow> parts = []"
    using strip_forms_nonempty [of parts] strip_forms_prefix [of "[]"] by fastforce
  ultimately show ?thesis using strip_forms_done strip_forms_idem by blast
qed

lemma legal_forms_come_off_witness:
  "strip_legal_form ''acme spain s a'' = ''acme spain'' \<and> trailing_form (strip_forms [''acme'', ''gmbh'']) = None"
proof -
  have "strip_legal_form ''acme spain s a'' = ''acme spain''" by code_simp
  moreover have "trailing_form (strip_forms [''acme'', ''gmbh'']) = None"
    using legal_forms_come_off [of "[''acme'', ''gmbh'']"] by blast
  ultimately show ?thesis by blast
qed

section \<open>Screening\<close>

text \<open>Screening a designation reports every supplier that one of its non-blank names resolves to,
  each exactly once and under a name that resolves to it, and lists every non-blank name that
  resolves to nobody; so no name of the designation goes unaccounted for.\<close>

theorem screening_accounts_for_names:
  "distinct (map sh_supplier_id (sr_hits (screen_designation db primary others)))
    \<and> (\<forall>i. i \<in> sh_supplier_id ` set (sr_hits (screen_designation db primary others)) \<longleftrightarrow>
          (\<exists>n \<in> set (primary # others). strip n \<noteq> [] \<and> rs_supplier_id (resolve db n) = Some i))
    \<and> (\<forall>h \<in> set (sr_hits (screen_designation db primary others)). sh_matched_name h \<in> set (primary # others)
          \<and> rs_public_id (resolve db (sh_matched_name h)) = Some (sh_public_id h))
    \<and> sr_unmatched_names (screen_designation db primary others)
       = filter (\<lambda>n. strip n \<noteq> [] \<and> rs_supplier_id (resolve db n) = None) (primary # others)"
proof -
  note facts = registry_names.screen_names_facts [of db "primary # others"]
  have "sh_supplier_id ` set (sr_hits (screen_names (resolve db) (primary # others))) =
      {i. \<exists>n \<in> set (primary # others). strip n \<noteq> [] \<and> rs_supplier_id (resolve db n) = Some i}"
    using facts by blast
  then have "i \<in> sh_supplier_id ` set (sr_hits (screen_names (resolve db) (primary # others))) \<longleftrightarrow>
      (\<exists>n \<in> set (primary # others). strip n \<noteq> [] \<and> rs_supplier_id (resolve db n) = Some i)" for i
    by (simp only: mem_Collect_eq)
  with facts show ?thesis unfolding screen_designation_def by blast
qed

lemma screening_accounts_for_names_witness:
  "sr_unmatched_names (screen_designation demo_registry ''Nobody'' [''acme gmbh'']) = [''Nobody'']"
proof -
  have "filter (\<lambda>n. strip n \<noteq> [] \<and> rs_supplier_id (resolve demo_registry n) = None) [''Nobody'', ''acme gmbh'']
      = [''Nobody'']" by code_simp
  then show ?thesis using screening_accounts_for_names [of demo_registry "''Nobody''" "[''acme gmbh'']"] by simp
qed

text \<open>The articles a pass takes up.\<close>

lemma in_to_screen: "r \<in> set (to_screen limit rows db) \<Longrightarrow>
    r \<in> set rows \<and> ap_names r \<noteq> None \<and> ap_article_id r \<notin> am_article_id ` set (mentions db)"
  by (auto simp: to_screen_def dest!: in_set_takeD)

text \<open>C20: A screening pass audits exactly the hits of the designations it takes up. It never takes up
  an article that already has a mention, whoever recorded it, and at most \<open>limit\<close> articles; and once
  \<open>limit\<close> articles without names precede the others, a pass changes nothing, however often it runs.\<close>

theorem screening_pass_audits:
  assumes "screen_processed_articles limit rows db = (p, db')"
  shows "set (sp_audited p) = {(ap_article_id r, h) |r h n ns. r \<in> set (to_screen limit rows db)
            \<and> ap_names r = Some (n # ns) \<and> h \<in> set (sr_hits (screen_designation db n ns))}
    \<and> (\<forall>(i, h) \<in> set (sp_audited p). i \<notin> am_article_id ` set (mentions db))
    \<and> sp_designations p \<le> limit
    \<and> (list_all (\<lambda>r. ap_names r = Some []) (to_screen limit rows db) \<longrightarrow> db' = db \<and> sp_audited p = [])"
proof -
  let ?rows = "to_screen limit rows db"
  have f: "fold screen_one ?rows (\<lparr>sp_designations = 0, sp_flagged = 0, sp_unmatched = 0, sp_audited = []\<rparr>, db) = (p, db')"
    using assms by (simp add: screen_processed_articles_def)
  have audited: "set (sp_audited p) = {(ap_article_id r, h) |r h n ns. r \<in> set ?rows
            \<and> ap_names r = Some (n # ns) \<and> h \<in> set (sr_hits (screen_designation db n ns))}"
    using fold_screen_one [OF f] by simp
  have "length (filter (\<lambda>r. ap_names r \<noteq> None \<and> ap_names r \<noteq> Some []) ?rows) \<le> limit"
    by (rule order_trans [OF length_filter_le]) (simp add: to_screen_def)
  then have bound: "sp_designations p \<le> limit" using fold_screen_one [OF f] by simp
  have skip: "fold screen_one rs x = x" if "list_all (\<lambda>r. ap_names r = Some []) rs" for rs x
    using that by (induction rs) (auto simp: screen_one_def split: prod.split)
  have "\<forall>(i, h) \<in> set (sp_audited p). i \<notin> am_article_id ` set (mentions db)"
    unfolding audited by (auto dest: in_to_screen)
  moreover have "db' = db \<and> sp_audited p = []" if "list_all (\<lambda>r. ap_names r = Some []) ?rows"
    using f unfolding skip [OF that] by auto
  ultimately show ?thesis using audited bound by blast
qed

definition demo_rows :: "article_payload list" where
  "demo_rows = [\<lparr>ap_article_id = 7, ap_names = Some []\<rparr>, \<lparr>ap_article_id = 9, ap_names = Some [''Acme GmbH'']\<rparr>]"

lemma screening_pass_audits_witness: "sp_audited (fst (screen_processed_articles 1 demo_rows demo_registry)) = []"
proof -
  have "list_all (\<lambda>r. ap_names r = Some []) (to_screen 1 demo_rows demo_registry)"
    unfolding demo_rows_def by code_simp
  then show ?thesis
    using screening_pass_audits [of 1 demo_rows demo_registry "fst (screen_processed_articles 1 demo_rows demo_registry)"
      "snd (screen_processed_articles 1 demo_rows demo_registry)"] by simp
qed

section \<open>Watchlists\<close>

text \<open>Watchlists are isolated: putting a supplier on a list or taking one off, or creating a list,
  changes what the list's organization watches and nothing of any other organization; an active
  supplier put on a list is watched.\<close>

theorem watchlists_isolated:
  assumes "watch_inv db" "w \<in> set (watchlists db)"
  shows "(\<forall>org. org \<noteq> w_organization_id w \<longrightarrow>
        watched_supplier_ids (add_supplier (w_id w) sid user db) sdb org = watched_supplier_ids db sdb org
        \<and> watched_supplier_ids (remove_supplier (w_id w) sid db) sdb org = watched_supplier_ids db sdb org)
    \<and> (\<forall>s \<in> set (suppliers sdb). s_id s = sid \<and> s_is_active s \<longrightarrow>
        s_public_id s \<in> watched_supplier_ids (add_supplier (w_id w) sid user db) sdb (w_organization_id w))
    \<and> watch_inv (add_supplier (w_id w) sid user db) \<and> watch_inv (remove_supplier (w_id w) sid db)"
proof -
  have same: "v = w" if "v \<in> set (watchlists db)" "w_id v = w_id w" for v
    using assms that by (auto simp: watch_inv_def distinct_map dest: inj_onD)
  have "watches (remove_supplier (w_id w) sid db) org s \<longleftrightarrow> watches db org s"
    if "org \<noteq> w_organization_id w" for org s
    using that same by (auto simp: watches_iff in_entries_remove)
  moreover have "watches (add_supplier (w_id w) sid user db) org s \<longleftrightarrow> watches db org s"
    if "org \<noteq> w_organization_id w" for org s
    using that same by (auto simp: watches_add)
  moreover have "watches (add_supplier (w_id w) sid user db) (w_organization_id w) sid"
    using assms(2) by (auto simp: watches_add)
  ultimately show ?thesis
    using add_supplier_inv [OF assms(1)] remove_supplier_inv [OF assms(1)]
    by (auto simp: watched_supplier_ids_def watched_suppliers_def)
qed

definition demo_watch :: watch_db where
  "demo_watch = \<lparr>watchlists = [\<lparr>w_id = 1, w_public_id = ''l1'', w_organization_id = 1, w_name = ''Key'',
     w_created_by_user_id = None, w_normalized_name = ''key''\<rparr>], entries = []\<rparr>"

lemma watchlists_isolated_witness:
  "''p1'' \<in> watched_supplier_ids (add_supplier 1 1 None demo_watch) demo_registry 1"
proof -
  have w: "watch_inv demo_watch" "hd (watchlists demo_watch) \<in> set (watchlists demo_watch)"
    by (simp_all add: watch_inv_def demo_watch_def)
  define s where "s = hd (suppliers demo_registry)"
  have "s \<in> set (suppliers demo_registry)" "s_id s = 1" "s_is_active s" "s_public_id s = ''p1''"
    unfolding s_def by code_simp+
  then show ?thesis using watchlists_isolated [OF w, of 1 None demo_registry] by (auto simp: demo_watch_def)
qed

section \<open>Impact scores\<close>

lemma total_of_more: "total_of es now \<le> total_of (e # es) now"
  unfolding total_of_def list.map
  by (rule discounted_more) (use contribution_bounds in auto)

lemma total_of_mset: "mset es = mset fs \<Longrightarrow> total_of es now = total_of fs now"
  unfolding total_of_def by (metis mset_map strongest_first_mset)

lemma maximum_total_pos: "0 < maximum_total"
  by (simp add: maximum_total_def corroboration_discount_def)

text \<open>A score lies between 0 and 1, more evidence never lowers it, and neither the score nor its
  band depends on the order in which the database returns the events; the drivers are the events
  themselves, strongest first.\<close>

theorem impact_score_monotone:
  "0 \<le> is_value (score_supplier es now) \<and> is_value (score_supplier es now) \<le> 1
    \<and> is_value (score_supplier es now) \<le> is_value (score_supplier (e # es) now)
    \<and> (mset es = mset fs \<longrightarrow> is_value (score_supplier es now) = is_value (score_supplier fs now)
         \<and> is_band (score_supplier es now) = is_band (score_supplier fs now))
    \<and> mset (is_drivers (score_supplier es now)) = mset (map (driver_of now) es)
    \<and> sorted_wrt (\<lambda>a b. dr_contribution b \<le> dr_contribution a) (is_drivers (score_supplier es now))"
proof -
  have nonneg: "0 \<le> is_value (score_supplier es now)"
  proof -
    have "contribution now x \<le> 1" for x
      using contribution_bounds [of now x] severity_weight_bounds [of "lower (re_severity x)"] by linarith
    then have "0 \<le> total_of es now" using total_bound [of es now 1] by simp
    then show ?thesis using maximum_total_pos by (simp add: score_value)
  qed
  have more: "is_value (score_supplier es now) \<le> is_value (score_supplier (e # es) now)"
  proof -
    have "total_of es now / maximum_total \<le> total_of (e # es) now / maximum_total"
      using total_of_more maximum_total_pos by (simp add: divide_right_mono)
    then show ?thesis unfolding score_value by linarith
  qed
  have order: "is_value (score_supplier es now) = is_value (score_supplier fs now)
         \<and> is_band (score_supplier es now) = is_band (score_supplier fs now)" if m: "mset es = mset fs"
  proof -
    have "es = [] \<longleftrightarrow> fs = []" "set es = set fs" using m by (auto dest: mset_eq_setD)
    then show ?thesis using total_of_mset [OF m] by (simp add: score_band score_value)
  qed
  have "sorted (map (\<lambda>d. - dr_contribution d) (is_drivers (score_supplier es now)))"
    by (rule driver_order_sorted) (simp add: score_supplier_def Let_def)
  then have "sorted_wrt (\<lambda>a b. dr_contribution b \<le> dr_contribution a) (is_drivers (score_supplier es now))"
    by (simp add: sorted_map)
  moreover have "mset (is_drivers (score_supplier es now)) = mset (map (driver_of now) es)"
    by (simp add: score_supplier_def Let_def)
  ultimately show ?thesis using nonneg more order by (simp add: score_value)
qed

definition demo_event :: "string \<Rightarrow> string \<Rightarrow> risk_event" where
  "demo_event key sev = \<lparr>re_id = 1, re_event_key = key, re_processed_article_id = 1, re_risk_type = ''strike'',
     re_severity = sev, re_confidence = 1, re_affected_suppliers = [''Acme''], re_affected_supplier_ids = [''p1''],
     re_affected_locations = [], re_affected_categories = [], re_evidence_snippet = ''Strike'',
     re_recommendation = ''Call'', re_source_name = ''Wire'', re_source_url = None, re_published_at = 0,
     re_status = ''active''\<rparr>"

lemma impact_score_monotone_witness:
  "is_value (score_supplier [demo_event ''a'' ''low'', demo_event ''b'' ''high''] 0)
     = is_value (score_supplier [demo_event ''b'' ''high'', demo_event ''a'' ''low''] 0)"
  using impact_score_monotone [of "[demo_event ''a'' ''low'', demo_event ''b'' ''high'']" 0 "demo_event ''a'' ''low''"
    "[demo_event ''b'' ''high'', demo_event ''a'' ''low'']"] by simp

lemma critical_contribution:
  assumes "lower (re_severity e) = ''critical''" "now \<le> re_published_at e" "1 \<le> re_confidence e"
  shows "contribution now e = 1"
  using assms by (simp add: contribution_def recency_now severity_weight_def)

lemma discounted_nonneg: "(\<And>x. x \<in> set xs \<Longrightarrow> 0 \<le> x) \<Longrightarrow> 0 \<le> discounted xs"
  by (induction xs) (auto simp: corroboration_discount_def)

lemma total_of_single: "total_of [e] now = contribution now e"
  by (simp add: total_of_def strongest_first_def)

lemma total_of_at_least: "e \<in> set es \<Longrightarrow> contribution now e \<le> total_of es now"
proof -
  assume e: "e \<in> set es"
  have "mset es = mset (e # remove1 e es)" using e by simp
  then have "total_of es now = total_of (e # remove1 e es) now" by (rule total_of_mset)
  moreover have "total_of [e] now \<le> total_of (e # fs) now" for fs
  proof (induction fs)
    case (Cons f fs)
    have "total_of (e # f # fs) now = total_of (f # e # fs) now" by (rule total_of_mset) simp
    with Cons total_of_more [of "e # fs" now f] show ?case by simp
  qed simp
  ultimately show ?thesis using total_of_single [of e now] by metis
qed

text \<open>The bands mean what the module promises: a sanctions event puts a supplier into the top band
  whatever else is known; one fresh, fully confident critical event does so by itself; and without
  sanctions no number of events of medium severity or below ever reaches it.\<close>

theorem impact_bands:
  "((\<exists>e \<in> set es. re_risk_type e = ''sanctions'') \<longrightarrow> is_band (score_supplier es now) = ''severe'')
    \<and> (\<forall>e \<in> set es. lower (re_severity e) = ''critical'' \<and> now \<le> re_published_at e \<and> 1 \<le> re_confidence e \<longrightarrow>
         is_band (score_supplier es now) = ''severe'' \<and> 65 / 100 \<le> is_value (score_supplier es now))
    \<and> ((\<forall>e \<in> set es. re_risk_type e \<noteq> ''sanctions'' \<and> lower (re_severity e) \<notin> {''critical'', ''high''}) \<longrightarrow>
         is_band (score_supplier es now) \<noteq> ''severe'' \<and> is_value (score_supplier es now) \<le> 40 / 100)"
proof (intro conjI impI ballI)
  assume "\<exists>e \<in> set es. re_risk_type e = ''sanctions''"
  then show "is_band (score_supplier es now) = ''severe''" by (auto simp: score_band band_of_def)
next
  fix e assume e: "e \<in> set es"
    and c: "lower (re_severity e) = ''critical'' \<and> now \<le> re_published_at e \<and> 1 \<le> re_confidence e"
  then have "1 \<le> total_of es now" using total_of_at_least [OF e] critical_contribution [of e now] by metis
  then show v: "65 / 100 \<le> is_value (score_supplier es now)"
    by (simp add: score_value maximum_total_def corroboration_discount_def)
  then show "is_band (score_supplier es now) = ''severe''"
    using e by (auto simp: score_band band_of_def bands_def)
next
  assume a: "\<forall>e \<in> set es. re_risk_type e \<noteq> ''sanctions'' \<and> lower (re_severity e) \<notin> {''critical'', ''high''}"
  have "contribution now e \<le> 40 / 100" if "e \<in> set es" for e
  proof -
    have "severity_weight (lower (re_severity e)) \<le> 40 / 100" using a that by (auto simp: severity_weight_def)
    then show ?thesis using contribution_bounds [of now e] by linarith
  qed
  then have "total_of es now / maximum_total \<le> 40 / 100" using total_bound [of es now "40 / 100"] by simp
  then show v: "is_value (score_supplier es now) \<le> 40 / 100" unfolding score_value by linarith
  show "is_band (score_supplier es now) \<noteq> ''severe''"
    using a v by (auto simp: score_band band_of_def bands_def split: if_splits)
qed

lemma impact_bands_witness:
  "is_band (score_supplier [demo_event ''a'' ''critical'', demo_event ''b'' ''low''] 0) = ''severe''"
proof -
  have "lower ''critical'' = ''critical''" by code_simp
  then have "demo_event ''a'' ''critical'' \<in> set [demo_event ''a'' ''critical'', demo_event ''b'' ''low'']"
    "lower (re_severity (demo_event ''a'' ''critical'')) = ''critical''
      \<and> 0 \<le> re_published_at (demo_event ''a'' ''critical'') \<and> 1 \<le> re_confidence (demo_event ''a'' ''critical'')"
    by (simp_all add: demo_event_def)
  then show ?thesis
    using impact_bands [of "[demo_event ''a'' ''critical'', demo_event ''b'' ''low'']" 0] by blast
qed

end
