(* ===== verification/AlertRules.thy ===== *)
theory AlertRules
  imports Watchlists Articles
begin

text \<open>
  \<^verbatim>\<open>notifications/rules.py\<close>: alert rules of an organization, and which of them a batch of
  risk events satisfies.
\<close>

definition severity_order :: "string list" where
  "severity_order = [''low'', ''medium'', ''high'', ''critical'']"

definition severity_rank :: "string \<Rightarrow> nat" where
  "severity_rank s = (if s = ''critical'' then 3 else if s = ''high'' then 2
     else if s = ''medium'' then 1 else 0)"

definition meets_severity :: "string \<Rightarrow> string \<Rightarrow> bool" where
  "meets_severity event minimum \<longleftrightarrow> severity_rank minimum \<le> severity_rank event"

record alert_rule =
  ar_id :: nat
  ar_public_id :: string
  ar_organization_id :: nat
  ar_name :: string
  ar_normalized_name :: string
  ar_min_severity :: string
  ar_risk_types :: "string list"
  ar_is_enabled :: bool
  ar_created_by_user_id :: "nat option"

abbreviation ar_key :: "alert_rule \<Rightarrow> nat \<times> string" where
  "ar_key r \<equiv> (ar_organization_id r, ar_normalized_name r)"

datatype alert_rule_error =
    RuleNeedsName | NotASeverity string | DuplicateAlertRule alert_rule | RuleIntegrity

definition create_alert_rule ::
  "string \<Rightarrow> nat \<Rightarrow> string \<Rightarrow> string \<Rightarrow> string list option \<Rightarrow> nat option \<Rightarrow> alert_rule list
     \<Rightarrow> alert_rule_error + alert_rule \<times> alert_rule list" where
  "create_alert_rule pid org name min_severity risk_types created_by rules =
     (let n = normalize_name name in
      if n = [] then Inl RuleNeedsName
      else if min_severity \<notin> set severity_order then Inl (NotASeverity min_severity)
      else case row_of ar_key rules (org, n) of
        Some r \<Rightarrow> Inl (DuplicateAlertRule r)
      | None \<Rightarrow>
          (let r = \<lparr>ar_id = fresh_id ar_id rules, ar_public_id = pid, ar_organization_id = org,
                    ar_name = strip name, ar_normalized_name = n, ar_min_severity = min_severity,
                    ar_risk_types = sort (remdups (case risk_types of None \<Rightarrow> [] | Some ts \<Rightarrow> ts)),
                    ar_is_enabled = True, ar_created_by_user_id = created_by\<rparr>
           in if pid \<in> ar_public_id ` set rules then Inl RuleIntegrity
              else case sql_insert ar_key r rules of
                None \<Rightarrow> Inl RuleIntegrity
              | Some t \<Rightarrow> Inr (r, t)))"

record rule_match =
  rm_rule :: alert_rule
  rm_event :: risk_event
  rm_supplier_public_ids :: "string list"

definition affected_and_watched :: "watch_db \<Rightarrow> supplier_db \<Rightarrow> risk_event \<Rightarrow> alert_rule \<Rightarrow> string list" where
  "affected_and_watched wdb sdb e r = sort (remdups (filter
     (\<lambda>i. i \<in> watched_supplier_ids wdb sdb (ar_organization_id r)) (re_affected_supplier_ids e)))"

definition matches_rule :: "watch_db \<Rightarrow> supplier_db \<Rightarrow> risk_event \<Rightarrow> alert_rule \<Rightarrow> bool" where
  "matches_rule wdb sdb e r \<longleftrightarrow>
     \<not> (ar_risk_types r \<noteq> [] \<and> re_risk_type e \<notin> set (ar_risk_types r))
     \<and> meets_severity (re_severity e) (ar_min_severity r)
     \<and> affected_and_watched wdb sdb e r \<noteq> []"

definition evaluate_rules ::
  "alert_rule list \<Rightarrow> watch_db \<Rightarrow> supplier_db \<Rightarrow> risk_event list \<Rightarrow> rule_match list" where
  "evaluate_rules rules wdb sdb events = concat (map
     (\<lambda>e. if re_affected_supplier_ids e = [] then []
          else map (\<lambda>r. \<lparr>rm_rule = r, rm_event = e,
                 rm_supplier_public_ids = affected_and_watched wdb sdb e r\<rparr>)
               (filter (matches_rule wdb sdb e) (filter ar_is_enabled rules)))
     events)"

section \<open>Facts\<close>

lemma meets_severity_refl: "meets_severity s s"
  by (simp add: meets_severity_def)

lemma meets_severity_trans: "meets_severity a b \<Longrightarrow> meets_severity b c \<Longrightarrow> meets_severity a c"
  by (simp add: meets_severity_def)

lemma set_affected_and_watched:
  "set (affected_and_watched wdb sdb e r) =
     set (re_affected_supplier_ids e) \<inter> watched_supplier_ids wdb sdb (ar_organization_id r)"
  by (auto simp: affected_and_watched_def)

lemma affected_and_watched_Nil:
  "affected_and_watched wdb sdb e r = [] \<longleftrightarrow>
     set (re_affected_supplier_ids e) \<inter> watched_supplier_ids wdb sdb (ar_organization_id r) = {}"
  using set_affected_and_watched by (metis set_empty)

lemma in_evaluate_rules:
  "m \<in> set (evaluate_rules rules wdb sdb events) \<longleftrightarrow>
     rm_event m \<in> set events \<and> rm_rule m \<in> set rules \<and> ar_is_enabled (rm_rule m)
     \<and> matches_rule wdb sdb (rm_event m) (rm_rule m)
     \<and> rm_supplier_public_ids m = affected_and_watched wdb sdb (rm_event m) (rm_rule m)"
proof
  assume "m \<in> set (evaluate_rules rules wdb sdb events)"
  then show "rm_event m \<in> set events \<and> rm_rule m \<in> set rules \<and> ar_is_enabled (rm_rule m)
     \<and> matches_rule wdb sdb (rm_event m) (rm_rule m)
     \<and> rm_supplier_public_ids m = affected_and_watched wdb sdb (rm_event m) (rm_rule m)"
    by (auto simp: evaluate_rules_def split: if_splits)
next
  assume r: "rm_event m \<in> set events \<and> rm_rule m \<in> set rules \<and> ar_is_enabled (rm_rule m)
     \<and> matches_rule wdb sdb (rm_event m) (rm_rule m)
     \<and> rm_supplier_public_ids m = affected_and_watched wdb sdb (rm_event m) (rm_rule m)"
  then have "re_affected_supplier_ids (rm_event m) \<noteq> []"
    by (auto simp: matches_rule_def affected_and_watched_Nil)
  moreover have "m = \<lparr>rm_rule = rm_rule m, rm_event = rm_event m,
      rm_supplier_public_ids = affected_and_watched wdb sdb (rm_event m) (rm_rule m)\<rparr>"
    using r by (cases m) simp
  ultimately show "m \<in> set (evaluate_rules rules wdb sdb events)"
    using r unfolding evaluate_rules_def
    by (auto intro!: bexI [of _ "rm_event m"] image_eqI [of _ _ "rm_rule m"])
qed

lemma create_alert_rule_Inr:
  assumes "create_alert_rule pid org name sev ts by rules = Inr (r, rules')"
  shows "ar_organization_id r = org \<and> ar_min_severity r = sev \<and> sev \<in> set severity_order
    \<and> ar_normalized_name r = normalize_name name \<and> normalize_name name \<noteq> []
    \<and> ar_is_enabled r \<and> sql_insert ar_key r rules = Some rules'"
  using assms by (auto simp: create_alert_rule_def Let_def split: if_splits option.splits)

end
