(* ===== verification/AuthService.thy ===== *)
theory AuthService
  imports SqlTable PyText
begin

text \<open>
  The identity tables of \<^verbatim>\<open>models/auth.py\<close>: organizations, users, memberships with a role,
  refresh tokens and invitations.
\<close>

datatype role = OWNER | ADMIN | MEMBER | VIEWER

primrec role_str :: "role \<Rightarrow> string" where
  "role_str OWNER = ''owner''"
| "role_str ADMIN = ''admin''"
| "role_str MEMBER = ''member''"
| "role_str VIEWER = ''viewer''"

text \<open>\<^verbatim>\<open>_ROLE_RANK\<close>: roles are declared strongest first.\<close>

primrec role_rank :: "role \<Rightarrow> nat" where
  "role_rank OWNER = 0"
| "role_rank ADMIN = 1"
| "role_rank MEMBER = 2"
| "role_rank VIEWER = 3"

record organization =
  o_id :: nat
  o_public_id :: string
  o_name :: string
  o_slug :: string

record user =
  u_id :: nat
  u_public_id :: string
  u_email :: string
  u_password_hash :: "string option"
  u_full_name :: "string option"
  u_is_active :: bool
  u_token_version :: nat
  u_last_login_at :: "datetime option"

record membership =
  m_user_id :: nat
  m_organization_id :: nat
  m_role :: role

record refresh_token =
  rt_id :: nat
  rt_user_id :: nat
  rt_token_hash :: string
  rt_family_id :: string
  rt_expires_at :: datetime
  rt_revoked_at :: "datetime option"
  rt_user_agent :: "string option"
  rt_client_ip :: "string option"

record invitation =
  iv_id :: nat
  iv_organization_id :: nat
  iv_invited_by_user_id :: "nat option"
  iv_email :: string
  iv_role :: role
  iv_token_hash :: string
  iv_expires_at :: datetime
  iv_accepted_at :: "datetime option"

text \<open>
  \<^verbatim>\<open>auth/service.py\<close>, \<^verbatim>\<open>auth/tokens.py\<close>, \<^verbatim>\<open>auth/passwords.py\<close> and the resolution of access
  tokens in \<^verbatim>\<open>api/dependencies.py\<close>. The libraries are parameters, collected in \<open>auth_env\<close>: the
  digest, argon2, JWT signing and the configured secret. Random values of one call are the
  record \<open>draws\<close>. An operation that raises an integrity error or finds no usable secret
  leaves the database as it was, as its caller never commits.
\<close>

record access_claims =
  ac_subject :: string
  ac_organization :: string
  ac_role :: string
  ac_token_version :: nat
  ac_jti :: string

record jwt_payload =
  jp_claims :: access_claims
  jp_iat :: datetime
  jp_exp :: datetime

record auth_env =
  ae_sha256 :: "string \<Rightarrow> string"
  ae_hash_password :: "string \<Rightarrow> string"
  ae_argon2_verify :: "string \<Rightarrow> string \<Rightarrow> bool"
  ae_dummy_hash :: string
  ae_secret :: "string option"
  ae_jwt_encode :: "jwt_payload \<Rightarrow> string \<Rightarrow> string"
  ae_jwt_decode :: "string \<Rightarrow> string \<Rightarrow> datetime \<Rightarrow> jwt_payload option"

record draws =
  dw_refresh :: string
  dw_family :: string
  dw_jti :: string
  dw_organization :: string
  dw_user :: string

record client =
  cl_ip :: "string option"
  cl_user_agent :: "string option"

record auth_db =
  organizations :: "organization list"
  users :: "user list"
  memberships :: "membership list"
  tokens :: "refresh_token list"
  invitations :: "invitation list"

definition empty_auth :: auth_db where
  "empty_auth = \<lparr>organizations = [], users = [], memberships = [], tokens = [], invitations = []\<rparr>"

record issued_session =
  is_user :: user
  is_organization :: organization
  is_role :: role
  is_access_token :: string
  is_refresh_token :: string

datatype auth_error =
    EmailAlreadyRegistered string | InvalidCredentials | InvalidInvitation | InvitationAlreadyUsed
  | SecretUnusable | AuthIntegrity

section \<open>Tokens and passwords\<close>

definition minimum_secret_length :: nat where
  "minimum_secret_length = 32"

definition access_token_ttl :: timedelta where
  "access_token_ttl = minutes 15"

definition refresh_token_ttl :: timedelta where
  "refresh_token_ttl = days 30"

definition invitation_ttl :: timedelta where
  "invitation_ttl = days 7"

definition signing_secret :: "auth_env \<Rightarrow> string option" where
  "signing_secret env = (case ae_secret env of
       None \<Rightarrow> None
     | Some s \<Rightarrow> if length s < minimum_secret_length then None else Some s)"

definition encode_access_token :: "auth_env \<Rightarrow> access_claims \<Rightarrow> datetime \<Rightarrow> string option" where
  "encode_access_token env c issued = map_option (\<lambda>s. ae_jwt_encode env
     \<lparr>jp_claims = c, jp_iat = issued, jp_exp = issued + access_token_ttl\<rparr> s) (signing_secret env)"

text \<open>Without a usable secret decoding raises its runtime error, \<open>Inl\<close>; a token the library rejects is \<open>Inr None\<close>.\<close>

definition decode_access_token :: "auth_env \<Rightarrow> string \<Rightarrow> datetime \<Rightarrow> auth_error + access_claims option" where
  "decode_access_token env token now = (case signing_secret env of
       None \<Rightarrow> Inl SecretUnusable
     | Some s \<Rightarrow> Inr (map_option jp_claims (ae_jwt_decode env token s now)))"

definition verify_password :: "auth_env \<Rightarrow> string \<Rightarrow> string option \<Rightarrow> bool" where
  "verify_password env pw stored \<longleftrightarrow>
     ae_argon2_verify env (str_or stored (ae_dummy_hash env)) pw \<and> truthy stored"

definition refresh_token_expiry :: "datetime \<Rightarrow> datetime" where
  "refresh_token_expiry now = now + refresh_token_ttl"

section \<open>Accounts and organizations\<close>

definition public_email_domains :: "string list" where
  "public_email_domains = [''gmail.com'', ''googlemail.com'', ''yahoo.com'', ''yahoo.co.uk'', ''outlook.com'',
     ''hotmail.com'', ''hotmail.co.uk'', ''live.com'', ''msn.com'', ''icloud.com'', ''me.com'', ''aol.com'',
     ''gmx.com'', ''gmx.de'', ''gmx.net'', ''web.de'', ''proton.me'', ''protonmail.com'', ''mail.com'', ''zoho.com'',
     ''yandex.com'', ''fastmail.com'', ''tutanota.com'', ''posteo.de'']"

definition normalize_email :: "string \<Rightarrow> string" where
  "normalize_email email = lower (strip email)"

definition domain_of :: "string \<Rightarrow> string" where
  "domain_of email = snd (snd (rpartition_at (CHR ''@'') email))"

definition organization_name :: "string \<Rightarrow> string" where
  "organization_name domain =
     (let front = fst (rpartition_at (CHR ''.'') domain); label = (if front = [] then domain else front);
          name = title_case (replace_char (CHR ''.'') (CHR '' '') (replace_char (CHR ''-'') (CHR '' '') label))
      in if name = [] then domain else name)"

definition new_organization_for :: "draws \<Rightarrow> string \<Rightarrow> auth_db \<Rightarrow> (organization \<times> role \<times> auth_db) option" where
  "new_organization_for dw email db =
     (let domain = domain_of email; pid = dw_organization dw;
          own = domain \<noteq> [] \<and> domain \<notin> set public_email_domains;
          org = \<lparr>o_id = fresh_id o_id (organizations db), o_public_id = pid,
                 o_name = (if own then organization_name domain else email),
                 o_slug = (if own then domain @ ''-'' @ take 8 pid else take 12 pid @ ''.personal'')\<rparr>
      in if o_slug org \<in> o_slug ` set (organizations db) then None
         else map_option (\<lambda>t. (org, OWNER, db\<lparr>organizations := t\<rparr>)) (sql_insert o_public_id org (organizations db)))"

definition create_invitation ::
  "auth_env \<Rightarrow> draws \<Rightarrow> nat \<Rightarrow> string \<Rightarrow> role \<Rightarrow> nat option \<Rightarrow> datetime \<Rightarrow> auth_db
     \<Rightarrow> auth_error + (invitation \<times> string) \<times> auth_db" where
  "create_invitation env dw org email role by now db =
     (let iv = \<lparr>iv_id = fresh_id iv_id (invitations db), iv_organization_id = org, iv_invited_by_user_id = by,
                iv_email = normalize_email email, iv_role = role, iv_token_hash = ae_sha256 env (dw_refresh dw),
                iv_expires_at = now + invitation_ttl, iv_accepted_at = None\<rparr>
      in case sql_insert iv_token_hash iv (invitations db) of
           None \<Rightarrow> Inl AuthIntegrity
         | Some t \<Rightarrow> Inr ((iv, dw_refresh dw), db\<lparr>invitations := t\<rparr>))"

definition redeem_invitation ::
  "auth_env \<Rightarrow> string \<Rightarrow> string \<Rightarrow> datetime \<Rightarrow> auth_db \<Rightarrow> auth_error + organization \<times> role \<times> auth_db" where
  "redeem_invitation env token email now db =
     (case row_of iv_token_hash (invitations db) (ae_sha256 env token) of
        None \<Rightarrow> Inl InvalidInvitation
      | Some iv \<Rightarrow>
          if iv_expires_at iv \<le> now then Inl InvalidInvitation
          else if iv_accepted_at iv \<noteq> None then Inl InvitationAlreadyUsed
          else if iv_email iv \<noteq> normalize_email email then Inl InvalidInvitation
          else (case row_of o_id (organizations db) (iv_organization_id iv) of
             None \<Rightarrow> Inl InvalidInvitation
           | Some org \<Rightarrow> Inr (org, iv_role iv, db\<lparr>invitations :=
               sql_update (\<lambda>i. iv_id i = iv_id iv) (\<lambda>i. i\<lparr>iv_accepted_at := Some now\<rparr>) (invitations db)\<rparr>)))"

section \<open>Sessions\<close>

definition claims_for :: "draws \<Rightarrow> user \<Rightarrow> organization \<Rightarrow> role \<Rightarrow> access_claims" where
  "claims_for dw u org r = \<lparr>ac_subject = u_public_id u, ac_organization = o_public_id org,
     ac_role = role_str r, ac_token_version = u_token_version u, ac_jti = dw_jti dw\<rparr>"

definition new_token :: "auth_env \<Rightarrow> draws \<Rightarrow> nat \<Rightarrow> string option \<Rightarrow> client \<Rightarrow> datetime \<Rightarrow> auth_db \<Rightarrow> refresh_token" where
  "new_token env dw uid family cl t db = \<lparr>rt_id = fresh_id rt_id (tokens db), rt_user_id = uid,
     rt_token_hash = ae_sha256 env (dw_refresh dw), rt_family_id = str_or family (dw_family dw),
     rt_expires_at = refresh_token_expiry t, rt_revoked_at = None,
     rt_user_agent = (if truthy (cl_user_agent cl) then map_option (take 300) (cl_user_agent cl) else None),
     rt_client_ip = cl_ip cl\<rparr>"

definition issue ::
  "auth_env \<Rightarrow> draws \<Rightarrow> user \<Rightarrow> organization \<Rightarrow> role \<Rightarrow> string option \<Rightarrow> client \<Rightarrow> datetime \<Rightarrow> auth_db
     \<Rightarrow> auth_error + issued_session \<times> auth_db" where
  "issue env dw u org r family cl t db =
     (case encode_access_token env (claims_for dw u org r) t of
        None \<Rightarrow> Inl SecretUnusable
      | Some access \<Rightarrow>
          (case sql_insert rt_token_hash (new_token env dw (u_id u) family cl t db) (tokens db) of
             None \<Rightarrow> Inl AuthIntegrity
           | Some ts \<Rightarrow> Inr (\<lparr>is_user = u, is_organization = org, is_role = r, is_access_token = access,
                is_refresh_token = dw_refresh dw\<rparr>, db\<lparr>tokens := ts\<rparr>)))"

definition insert_user :: "user \<Rightarrow> user list \<Rightarrow> user list option" where
  "insert_user u t = (if u_public_id u \<in> u_public_id ` set t then None else sql_insert u_email u t)"

definition register ::
  "auth_env \<Rightarrow> draws \<Rightarrow> string \<Rightarrow> string \<Rightarrow> string option \<Rightarrow> string option \<Rightarrow> client \<Rightarrow> datetime \<Rightarrow> datetime
     \<Rightarrow> auth_db \<Rightarrow> auth_error + issued_session \<times> auth_db" where
  "register env dw email pw full_name invitation cl now t db =
     (let address = normalize_email email in
      case row_of u_email (users db) address of
        Some u \<Rightarrow> Inl (EmailAlreadyRegistered address)
      | None \<Rightarrow>
          (case (case invitation of
               Some (c # cs) \<Rightarrow> redeem_invitation env (c # cs) address now db
             | _ \<Rightarrow> (case new_organization_for dw address db of None \<Rightarrow> Inl AuthIntegrity | Some x \<Rightarrow> Inr x)) of
             Inl e \<Rightarrow> Inl e
           | Inr (org, r, db1) \<Rightarrow>
               (let u = \<lparr>u_id = fresh_id u_id (users db1), u_public_id = dw_user dw, u_email = address,
                         u_password_hash = Some (ae_hash_password env pw), u_full_name = full_name,
                         u_is_active = True, u_token_version = 0, u_last_login_at = None\<rparr> in
                case insert_user u (users db1) of
                  None \<Rightarrow> Inl AuthIntegrity
                | Some us \<Rightarrow>
                    (case sql_insert (\<lambda>m. (m_user_id m, m_organization_id m))
                            \<lparr>m_user_id = u_id u, m_organization_id = o_id org, m_role = r\<rparr> (memberships db1) of
                       None \<Rightarrow> Inl AuthIntegrity
                     | Some ms \<Rightarrow> issue env dw u org r None cl t (db1\<lparr>users := us, memberships := ms\<rparr>)))))"

text \<open>The first membership of a user, by identifier, joined to its organization.\<close>

definition membership_of :: "nat \<Rightarrow> auth_db \<Rightarrow> (membership \<times> organization) option" where
  "membership_of uid db = (case List.map_filter
       (\<lambda>m. if m_user_id m = uid then map_option (Pair m) (row_of o_id (organizations db) (m_organization_id m)) else None)
       (memberships db) of [] \<Rightarrow> None | x # _ \<Rightarrow> Some x)"

definition authenticate ::
  "auth_env \<Rightarrow> draws \<Rightarrow> string \<Rightarrow> string \<Rightarrow> client \<Rightarrow> datetime \<Rightarrow> datetime \<Rightarrow> auth_db
     \<Rightarrow> auth_error + issued_session \<times> auth_db" where
  "authenticate env dw email pw cl now t db =
     (let found = row_of u_email (users db) (normalize_email email) in
      if \<not> verify_password env pw (case found of None \<Rightarrow> None | Some u \<Rightarrow> u_password_hash u) then Inl InvalidCredentials
      else case found of
        None \<Rightarrow> Inl InvalidCredentials
      | Some u \<Rightarrow>
          if \<not> u_is_active u then Inl InvalidCredentials
          else (case membership_of (u_id u) db of
             None \<Rightarrow> Inl InvalidCredentials
           | Some (m, org) \<Rightarrow>
               (let db1 = db\<lparr>users := sql_update (\<lambda>x. u_id x = u_id u) (\<lambda>x. x\<lparr>u_last_login_at := Some now\<rparr>) (users db)\<rparr> in
                issue env dw (u\<lparr>u_last_login_at := Some now\<rparr>) org (m_role m) None cl t db1)))"

definition revoke_family :: "string \<Rightarrow> datetime \<Rightarrow> auth_db \<Rightarrow> auth_db" where
  "revoke_family family now db = db\<lparr>tokens := sql_update
     (\<lambda>r. rt_family_id r = family \<and> rt_revoked_at r = None) (\<lambda>r. r\<lparr>rt_revoked_at := Some now\<rparr>) (tokens db)\<rparr>"

definition revoke_id :: "nat \<Rightarrow> datetime \<Rightarrow> auth_db \<Rightarrow> auth_db" where
  "revoke_id i now db = db\<lparr>tokens := sql_update (\<lambda>r. rt_id r = i) (\<lambda>r. r\<lparr>rt_revoked_at := Some now\<rparr>) (tokens db)\<rparr>"

text \<open>
  Rotation with the row its first \<^verbatim>\<open>SELECT\<close> returned: the row is not locked, so another
  transaction may have changed it in between. The second component is the database after
  the caller's commit, which also happens when the credentials are refused.
\<close>

definition rotate_with ::
  "refresh_token option \<Rightarrow> auth_env \<Rightarrow> draws \<Rightarrow> client \<Rightarrow> datetime \<Rightarrow> datetime \<Rightarrow> auth_db
     \<Rightarrow> (auth_error + issued_session) \<times> auth_db" where
  "rotate_with stored env dw cl now t db =
     (case stored of
        None \<Rightarrow> (Inl InvalidCredentials, db)
      | Some r \<Rightarrow>
          if rt_revoked_at r \<noteq> None then (Inl InvalidCredentials, revoke_family (rt_family_id r) now db)
          else if rt_expires_at r \<le> now then (Inl InvalidCredentials, db)
          else (case row_of u_id (users db) (rt_user_id r) of
             None \<Rightarrow> (Inl InvalidCredentials, db)
           | Some u \<Rightarrow>
               if \<not> u_is_active u then (Inl InvalidCredentials, db)
               else (case membership_of (u_id u) db of
                  None \<Rightarrow> (Inl InvalidCredentials, db)
                | Some (m, org) \<Rightarrow>
                    (case issue env dw u org (m_role m) (Some (rt_family_id r)) cl t (revoke_id (rt_id r) now db) of
                       Inl e \<Rightarrow> (Inl e, db)
                     | Inr (s, db') \<Rightarrow> (Inr s, db')))))"

definition presented_row :: "auth_env \<Rightarrow> string \<Rightarrow> auth_db \<Rightarrow> refresh_token option" where
  "presented_row env presented db = row_of rt_token_hash (tokens db) (ae_sha256 env presented)"

definition rotate_refresh_token ::
  "auth_env \<Rightarrow> draws \<Rightarrow> string \<Rightarrow> client \<Rightarrow> datetime \<Rightarrow> datetime \<Rightarrow> auth_db
     \<Rightarrow> (auth_error + issued_session) \<times> auth_db" where
  "rotate_refresh_token env dw presented cl now t db =
     rotate_with (presented_row env presented db) env dw cl now t db"

definition revoke_token :: "auth_env \<Rightarrow> string \<Rightarrow> datetime \<Rightarrow> auth_db \<Rightarrow> bool \<times> auth_db" where
  "revoke_token env presented now db = (case presented_row env presented db of
       None \<Rightarrow> (False, db)
     | Some r \<Rightarrow> if rt_revoked_at r \<noteq> None then (False, db) else (True, revoke_id (rt_id r) now db))"

definition revoke_all_sessions :: "nat \<Rightarrow> datetime \<Rightarrow> auth_db \<Rightarrow> auth_db" where
  "revoke_all_sessions uid now db = db\<lparr>
     tokens := sql_update (\<lambda>r. rt_user_id r = uid \<and> rt_revoked_at r = None)
                 (\<lambda>r. r\<lparr>rt_revoked_at := Some now\<rparr>) (tokens db),
     users := sql_update (\<lambda>u. u_id u = uid) (\<lambda>u. u\<lparr>u_token_version := Suc (u_token_version u)\<rparr>) (users db)\<rparr>"

section \<open>Resolving an access token\<close>

record authenticated_user =
  au_id :: nat
  au_public_id :: string
  au_email :: string
  au_organization_id :: nat
  au_organization_public_id :: string
  au_role :: role

text \<open>The joined rows of the user, a membership and the organization the claims name.\<close>

definition claimed_rows :: "access_claims \<Rightarrow> auth_db \<Rightarrow> (user \<times> membership \<times> organization) list" where
  "claimed_rows c db =
     [(u, m, g). u \<leftarrow> users db, u_public_id u = ac_subject c,
                 m \<leftarrow> memberships db, m_user_id m = u_id u,
                 g \<leftarrow> organizations db, o_id g = m_organization_id m \<and> o_public_id g = ac_organization c]"

text \<open>\<open>Inr None\<close>: the token is not usable. The runtime error of an unusable secret is not caught.\<close>

definition resolve_access_token :: "auth_env \<Rightarrow> string \<Rightarrow> datetime \<Rightarrow> auth_db \<Rightarrow> auth_error + authenticated_user option" where
  "resolve_access_token env token now db =
     (if token = [] then Inr None
      else case decode_access_token env token now of
        Inl e \<Rightarrow> Inl e
      | Inr None \<Rightarrow> Inr None
      | Inr (Some c) \<Rightarrow> (case claimed_rows c db of
          [] \<Rightarrow> Inr None
        | (u, m, g) # _ \<Rightarrow>
            if \<not> u_is_active u \<or> u_token_version u \<noteq> ac_token_version c then Inr None
            else Inr (Some \<lparr>au_id = u_id u, au_public_id = u_public_id u, au_email = u_email u,
                   au_organization_id = o_id g, au_organization_public_id = o_public_id g, au_role = m_role m\<rparr>)))"

definition admits :: "role \<Rightarrow> authenticated_user \<Rightarrow> bool" where
  "admits minimum u \<longleftrightarrow> role_rank (au_role u) \<le> role_rank minimum"

end
