(* ===== verification/AuditTrail.thy ===== *)
theory AuditTrail
  imports RetrievalTypes PyText
begin

text \<open>
  \<^verbatim>\<open>auth/audit.py\<close>: what an audit record keeps of the values it is given. Credentials are
  recognised by the name of their key, and in free text by a name followed by a value.
\<close>

definition redacted :: string where
  "redacted = ''[redacted]''"

definition sensitive_key_parts :: "string list" where
  "sensitive_key_parts = [''password'', ''token'', ''secret'', ''authorization'', ''api_key'',
     ''apikey'', ''credential'']"

definition is_sensitive_key :: "string \<Rightarrow> bool" where
  "is_sensitive_key key \<longleftrightarrow> list_ex (contains (lower key)) sensitive_key_parts"

fun scrub :: "json \<Rightarrow> json" where
  "scrub (JObject kvs) = JObject (map (\<lambda>(k, v). (k, if is_sensitive_key k then JStr redacted else scrub v)) kvs)"
| "scrub (JList xs) = JList (map scrub xs)"
| "scrub v = v"

section \<open>Credentials in free text\<close>

text \<open>
  The pattern \<^verbatim>\<open>\b(password|...)\b\s*[:=]\s*(?:bearer|basic|token|digest)?\s*\S+\<close>, matched
  at one position: \<open>prev\<close> is the character before it. The result is the name as written
  and what follows the match. The optional scheme takes the next word along with it when
  there is one; a scheme with nothing after it is itself the value.
\<close>

definition word_char :: "char option \<Rightarrow> bool" where
  "word_char c = (case c of None \<Rightarrow> False | Some x \<Rightarrow> is_alnum x \<or> x = CHR ''_'')"

definition next_char :: "string \<Rightarrow> char option" where
  "next_char s = (case s of [] \<Rightarrow> None | c # _ \<Rightarrow> Some c)"

definition auth_schemes :: "string list" where
  "auth_schemes = [''bearer'', ''basic'', ''token'', ''digest'']"

definition skip_space :: "string \<Rightarrow> string" where
  "skip_space s = dropWhile is_space s"

definition skip_word :: "string \<Rightarrow> string" where
  "skip_word s = dropWhile (\<lambda>c. \<not> is_space c) s"

definition match_value :: "string \<Rightarrow> string option" where
  "match_value s =
     (let s = skip_space s in
      if s = [] then None
      else Some (case List.find (starts_with (lower s)) auth_schemes of
        None \<Rightarrow> skip_word s
      | Some sch \<Rightarrow>
          (let rest = skip_space (drop (length sch) s) in
           if rest = [] then skip_word s else skip_word rest)))"

definition match_secret :: "char option \<Rightarrow> string \<Rightarrow> (string \<times> string) option" where
  "match_secret prev s =
     (if word_char prev then None
      else case List.find (\<lambda>p. starts_with (lower s) p \<and> \<not> word_char (next_char (drop (length p) s)))
             sensitive_key_parts of
        None \<Rightarrow> None
      | Some p \<Rightarrow>
          (case skip_space (drop (length p) s) of
             c # rest \<Rightarrow>
               if c = CHR '':'' \<or> c = CHR ''=''
               then (case match_value rest of None \<Rightarrow> None | Some t \<Rightarrow> Some (take (length p) s, t))
               else None
           | [] \<Rightarrow> None))"

lemma skip_word_length: "length (skip_word s) \<le> length s" "length (skip_space s) \<le> length s"
  by (simp_all add: skip_word_def skip_space_def length_dropWhile_le)

lemma match_value_length: "match_value s = Some t \<Longrightarrow> length t \<le> length s"
proof -
  assume m: "match_value s = Some t"
  have le: "length (skip_word (skip_space s)) \<le> length s"
    using skip_word_length le_trans by blast
  have le2: "length (skip_word (skip_space (drop n (skip_space s)))) \<le> length s" for n
  proof -
    have "length (skip_word (skip_space (drop n (skip_space s)))) \<le> length (drop n (skip_space s))"
      using skip_word_length le_trans by blast
    also have "\<dots> \<le> length s" using skip_word_length(2) [of s] by simp
    finally show ?thesis .
  qed
  from m le le2 show ?thesis
    by (auto simp: match_value_def Let_def split: if_splits option.splits)
qed

lemma match_secret_length:
  assumes "match_secret prev s = Some (name, t)"
  shows "length t < length s"
proof -
  obtain n c rest where r: "skip_space (drop n s) = c # rest" "match_value rest = Some t"
    using assms by (auto simp: match_secret_def split: if_splits option.splits list.splits)
  have "length t \<le> length rest" using match_value_length [OF r(2)] .
  also have "\<dots> < length (skip_space (drop n s))" using r(1) by simp
  also have "\<dots> \<le> length s" using skip_word_length(2) [of "drop n s"] by simp
  finally show ?thesis .
qed

function redact_from :: "char option \<Rightarrow> string \<Rightarrow> string" where
  "redact_from prev s = (case s of
       [] \<Rightarrow> []
     | c # s' \<Rightarrow>
         (case match_secret prev (c # s') of
            Some (name, t) \<Rightarrow> name @ ''=[redacted]'' @ redact_from (Some CHR ''x'') t
          | None \<Rightarrow> c # redact_from (Some c) s'))"
  by pat_completeness auto
termination
  by (relation "measure (length \<circ> snd)") (auto dest: match_secret_length)

declare redact_from.simps [simp del]

definition redact_secrets_in_text :: "string \<Rightarrow> string" where
  "redact_secrets_in_text s = redact_from None s"

section \<open>Facts\<close>

lemma scrub_idem: "scrub (scrub v) = scrub v"
  by (induction v rule: scrub.induct) (auto simp: redacted_def)

text \<open>No value under a sensitive key survives, at any depth.\<close>

fun clean :: "json \<Rightarrow> bool" where
  "clean (JObject kvs) = list_all (\<lambda>(k, v). if is_sensitive_key k then v = JStr redacted else clean v) kvs"
| "clean (JList xs) = list_all clean xs"
| "clean v = True"

lemma scrub_clean: "clean (scrub v)"
  by (induction v rule: scrub.induct) (auto simp: list_all_iff split: if_splits)

lemma clean_scrub_same: "clean v \<Longrightarrow> scrub v = v"
proof (induction v rule: scrub.induct)
  case (1 kvs)
  have "(case kv of (k, v) \<Rightarrow> (k, if is_sensitive_key k then JStr redacted else scrub v)) = kv"
    if "kv \<in> set kvs" for kv
    using 1 that by (cases kv) (auto simp: list_all_iff split: if_splits)
  then show ?case by (simp add: map_idI)
qed (auto simp: list_all_iff map_idI)

end
