(* ===== verification/Outbox.thy ===== *)
theory Outbox
  imports AlertRules AuthService AuditTrail
begin

text \<open>
  \<^verbatim>\<open>notifications/outbox.py\<close> and \<^verbatim>\<open>notifications/transports/in_app.py\<close>: matches become one
  notification per member, and a drain attempts the queued ones. What a transport does with
  a notification is a parameter: \<open>None\<close> when it delivers, \<open>Some msg\<close> when it raises.
\<close>

datatype delivery_status = Queued | Delivered | GivenUp

record notification =
  n_id :: nat
  n_public_id :: string
  n_organization_id :: nat
  n_alert_rule_id :: nat
  n_risk_event_id :: nat
  n_recipient_user_id :: nat
  n_channel :: string
  n_subject :: string
  n_body :: string
  n_supplier_public_ids :: "string list"
  n_status :: delivery_status
  n_attempts :: nat
  n_last_error :: "string option"
  n_delivered_at :: "datetime option"
  n_read_at :: "datetime option"

abbreviation n_key :: "notification \<Rightarrow> nat \<times> nat \<times> nat \<times> string" where
  "n_key n \<equiv> (n_alert_rule_id n, n_risk_event_id n, n_recipient_user_id n, n_channel n)"

definition max_delivery_attempts :: nat where
  "max_delivery_attempts = 5"

definition in_app :: string where
  "in_app = ''in_app''"

section \<open>Queueing\<close>

definition recipients_for :: "user list \<Rightarrow> membership list \<Rightarrow> nat \<Rightarrow> user list" where
  "recipients_for people members org = sort_key u_id (filter
     (\<lambda>u. u_is_active u \<and> list_ex (\<lambda>m. m_user_id m = u_id u \<and> m_organization_id m = org) members) people)"

definition subject_of :: "rule_match \<Rightarrow> string" where
  "subject_of m =
     (let e = rm_event m;
          sups = join '', '' (rm_supplier_public_ids m);
          named = join '', '' (re_affected_suppliers e);
          names = (if named = [] then sups else named)
      in take 300 (title_case (re_severity e) @ '' '' @ replace_char (CHR ''_'') (CHR '' '') (re_risk_type e)
           @ '': '' @ names))"

definition newline :: string where
  "newline = [CHR 0x0A]"

definition body_of :: "rule_match \<Rightarrow> string" where
  "body_of m = strip (join newline
     [re_evidence_snippet (rm_event m), [],
      ''Recommended action: '' @ re_recommendation (rm_event m),
      ''Source: '' @ re_source_name (rm_event m),
      ''Matched rule: '' @ ar_name (rm_rule m)])"

definition notification_for :: "(nat \<Rightarrow> string) \<Rightarrow> rule_match \<Rightarrow> user \<Rightarrow> notification list \<Rightarrow> notification" where
  "notification_for uuid m u t = \<lparr>n_id = fresh_id n_id t, n_public_id = uuid (fresh_id n_id t),
     n_organization_id = ar_organization_id (rm_rule m), n_alert_rule_id = ar_id (rm_rule m),
     n_risk_event_id = re_id (rm_event m), n_recipient_user_id = u_id u, n_channel = in_app,
     n_subject = subject_of m, n_body = body_of m, n_supplier_public_ids = rm_supplier_public_ids m,
     n_status = Queued, n_attempts = 0, n_last_error = None, n_delivered_at = None, n_read_at = None\<rparr>"

text \<open>The pairs of a match and a recipient, in the order they are queued.\<close>

definition owed :: "user list \<Rightarrow> membership list \<Rightarrow> rule_match list \<Rightarrow> (rule_match \<times> user) list" where
  "owed people members matches = concat (map
     (\<lambda>m. map (Pair m) (recipients_for people members (ar_organization_id (rm_rule m)))) matches)"

fun enqueue :: "(nat \<Rightarrow> string) \<Rightarrow> (rule_match \<times> user) list \<Rightarrow> notification list \<Rightarrow> nat \<times> notification list" where
  "enqueue uuid [] t = (0, t)"
| "enqueue uuid ((m, u) # rest) t =
     (case sql_insert n_key (notification_for uuid m u t) t of
        None \<Rightarrow> enqueue uuid rest t
      | Some t' \<Rightarrow> map_prod Suc id (enqueue uuid rest t'))"

definition enqueue_matches ::
  "(nat \<Rightarrow> string) \<Rightarrow> user list \<Rightarrow> membership list \<Rightarrow> rule_match list \<Rightarrow> notification list
     \<Rightarrow> nat \<times> notification list" where
  "enqueue_matches uuid people members matches t = enqueue uuid (owed people members matches) t"

section \<open>Draining\<close>

definition pending_notifications :: "nat \<Rightarrow> notification list \<Rightarrow> notification list" where
  "pending_notifications limit t = take limit (sort_key n_id (filter (\<lambda>n. n_status n = Queued) t))"

definition mark_delivered :: "datetime \<Rightarrow> notification \<Rightarrow> notification" where
  "mark_delivered now n = n\<lparr>n_status := Delivered, n_delivered_at := Some now, n_last_error := None\<rparr>"

definition mark_failed :: "string \<Rightarrow> notification \<Rightarrow> notification" where
  "mark_failed err n = n\<lparr>n_attempts := Suc (n_attempts n),
     n_last_error := Some (take 2000 (redact_secrets_in_text err)),
     n_status := (if max_delivery_attempts \<le> Suc (n_attempts n) then GivenUp else n_status n)\<rparr>"

definition attempt_delivery ::
  "(notification \<Rightarrow> string option) \<Rightarrow> (nat \<Rightarrow> datetime) \<Rightarrow> notification \<Rightarrow> notification" where
  "attempt_delivery deliver clk n = (case deliver n of
       None \<Rightarrow> mark_delivered (clk (n_id n)) n
     | Some err \<Rightarrow> mark_failed err n)"

definition deliver_pending ::
  "(notification \<Rightarrow> string option) \<Rightarrow> (nat \<Rightarrow> datetime) \<Rightarrow> nat \<Rightarrow> notification list \<Rightarrow> nat \<times> notification list" where
  "deliver_pending deliver clk limit t =
     (let chosen = pending_notifications limit t; ids = set (map n_id chosen) in
      (length (filter (\<lambda>n. deliver n = None) chosen),
       map (\<lambda>n. if n_id n \<in> ids then attempt_delivery deliver clk n else n) t))"

text \<open>The in-app transport: the row is the notification, nothing can fail.\<close>

definition in_app_deliver :: "notification \<Rightarrow> string option" where
  "in_app_deliver n = None"

section \<open>Facts about queueing\<close>

lemma n_key_notification_for:
  "n_key (notification_for uuid m u t) = (ar_id (rm_rule m), re_id (rm_event m), u_id u, in_app)"
  by (simp add: notification_for_def)

lemma in_recipients: "u \<in> set (recipients_for people ms org) \<longleftrightarrow>
    u \<in> set people \<and> u_is_active u \<and> (\<exists>m \<in> set ms. m_user_id m = u_id u \<and> m_organization_id m = org)"
  by (auto simp: recipients_for_def list_ex_iff)

lemma in_owed: "(m, u) \<in> set (owed people ms matches) \<longleftrightarrow>
    m \<in> set matches \<and> u \<in> set (recipients_for people ms (ar_organization_id (rm_rule m)))"
  by (auto simp: owed_def)

text \<open>A queue as the database keeps it: identifiers and idempotency keys are unique.\<close>

definition queue_ok :: "notification list \<Rightarrow> bool" where
  "queue_ok t \<longleftrightarrow> distinct (map n_id t) \<and> distinct (map n_key t)
     \<and> list_all (\<lambda>n. (n_status n = Queued \<longrightarrow> n_attempts n < max_delivery_attempts)
         \<and> (n_status n = Delivered \<longleftrightarrow> n_delivered_at n \<noteq> None)) t"

lemma notification_for_simps [simp]:
  "n_id (notification_for uuid m u t) = fresh_id n_id t" "n_status (notification_for uuid m u t) = Queued"
  "n_attempts (notification_for uuid m u t) = 0" "n_delivered_at (notification_for uuid m u t) = None"
  "n_organization_id (notification_for uuid m u t) = ar_organization_id (rm_rule m)"
  "n_recipient_user_id (notification_for uuid m u t) = u_id u"
  "n_alert_rule_id (notification_for uuid m u t) = ar_id (rm_rule m)"
  "n_risk_event_id (notification_for uuid m u t) = re_id (rm_event m)"
  "n_channel (notification_for uuid m u t) = in_app"
  "n_supplier_public_ids (notification_for uuid m u t) = rm_supplier_public_ids m"
  by (simp_all add: notification_for_def)

lemma enqueue_extends:
  "enqueue uuid ow t = (c, t') \<Longrightarrow>
    \<exists>new. t' = t @ new \<and> length new = c
      \<and> list_all (\<lambda>n. \<exists>m u s. (m, u) \<in> set ow \<and> n = notification_for uuid m u s) new"
proof (induction ow arbitrary: t c)
  case (Cons p ow)
  obtain m u where p: "p = (m, u)" by fastforce
  show ?case
  proof (cases "sql_insert n_key (notification_for uuid m u t) t")
    case None
    with Cons p have "enqueue uuid ow t = (c, t')" by simp
    from Cons.IH [OF this] show ?thesis by (fastforce simp: list_all_iff)
  next
    case (Some t1)
    then have e: "t1 = t @ [notification_for uuid m u t]" by (auto simp: sql_insert_def split: if_splits)
    obtain c1 where c1: "enqueue uuid ow t1 = (c1, t')" "c = Suc c1"
      using Cons.prems Some p by (cases "enqueue uuid ow t1") auto
    obtain new where "t' = t1 @ new" "length new = c1"
      "list_all (\<lambda>n. \<exists>m u s. (m, u) \<in> set ow \<and> n = notification_for uuid m u s) new"
      using Cons.IH [OF c1(1)] by blast
    with e c1(2) p show ?thesis
      by (intro exI [of _ "notification_for uuid m u t # new"]) (fastforce simp: list_all_iff)
  qed
qed simp

lemma enqueue_ok: "enqueue uuid ow t = (c, t') \<Longrightarrow> queue_ok t \<Longrightarrow> queue_ok t'"
proof (induction ow arbitrary: t c)
  case (Cons p ow)
  obtain m u where p: "p = (m, u)" by fastforce
  show ?case
  proof (cases "sql_insert n_key (notification_for uuid m u t) t")
    case None
    with Cons p show ?thesis by simp
  next
    case (Some t1)
    have "queue_ok t1"
      using Cons.prems(2) keys_insert [OF Some] insert_fresh_distinct [of n_id, OF _ Some]
        list_all_insert [OF _ _ Some]
      by (auto simp: queue_ok_def max_delivery_attempts_def)
    with Cons p Some show ?thesis by (cases "enqueue uuid ow t1") auto
  qed
qed simp

text \<open>Everything owed is in the queue afterwards, so queueing it again adds nothing.\<close>

lemma enqueue_covers:
  "enqueue uuid ow t = (c, t') \<Longrightarrow> (m, u) \<in> set ow \<Longrightarrow>
    (ar_id (rm_rule m), re_id (rm_event m), u_id u, in_app) \<in> n_key ` set t'"
proof (induction ow arbitrary: t c)
  case (Cons p ow)
  obtain m2 u2 where p: "p = (m2, u2)" by fastforce
  let ?n = "notification_for uuid m2 u2 t"
  obtain t1 c1 where t1: "enqueue uuid ow t1 = (c1, t')" "n_key ?n \<in> n_key ` set t1"
  proof (cases "sql_insert n_key ?n t")
    case None
    then have "n_key ?n \<in> n_key ` set t" by (simp add: sql_insert_def split: if_splits)
    with None Cons.prems(1) p that show thesis by simp
  next
    case (Some t1)
    then have "n_key ?n \<in> n_key ` set t1" by (auto simp: sql_insert_def split: if_splits)
    with Some Cons.prems(1) p that show thesis by (cases "enqueue uuid ow t1") simp
  qed
  show ?case
  proof (cases "(m, u) = (m2, u2)")
    case True
    obtain new where "t' = t1 @ new" using enqueue_extends [OF t1(1)] by blast
    with t1(2) True show ?thesis by (simp add: n_key_notification_for image_Un)
  next
    case False
    with Cons.prems(2) p have "(m, u) \<in> set ow" by auto
    with Cons.IH [OF t1(1)] show ?thesis by blast
  qed
qed simp

lemma enqueue_nothing_new:
  "(\<And>m u. (m, u) \<in> set ow \<Longrightarrow> (ar_id (rm_rule m), re_id (rm_event m), u_id u, in_app) \<in> n_key ` set t)
    \<Longrightarrow> enqueue uuid ow t = (0, t)"
proof (induction ow)
  case (Cons p ow)
  obtain m u where p: "p = (m, u)" by fastforce
  have "n_key (notification_for uuid m u t) \<in> n_key ` set t"
    using Cons.prems [of m u] p n_key_notification_for [of uuid m u t] by simp
  then have "sql_insert n_key (notification_for uuid m u t) t = None" by (simp add: sql_insert_def)
  with Cons p show ?case by simp
qed simp

section \<open>Facts about a drain\<close>

lemma attempt_delivery_simps [simp]:
  "n_id (attempt_delivery d clk n) = n_id n"
  "n_alert_rule_id (attempt_delivery d clk n) = n_alert_rule_id n"
  "n_risk_event_id (attempt_delivery d clk n) = n_risk_event_id n"
  "n_recipient_user_id (attempt_delivery d clk n) = n_recipient_user_id n"
  "n_channel (attempt_delivery d clk n) = n_channel n"
  by (simp_all add: attempt_delivery_def mark_delivered_def mark_failed_def split: option.split)

text \<open>What a drain does to one row.\<close>

definition drained :: "(notification \<Rightarrow> string option) \<Rightarrow> (nat \<Rightarrow> datetime) \<Rightarrow> nat set \<Rightarrow> notification \<Rightarrow> notification" where
  "drained d clk ids n = (if n_id n \<in> ids then attempt_delivery d clk n else n)"

lemma snd_deliver_pending:
  "snd (deliver_pending d clk limit t) = map (drained d clk (n_id ` set (pending_notifications limit t))) t"
  by (simp add: deliver_pending_def Let_def drained_def)

lemma drained_keeps [simp]:
  "n_id (drained d clk ids n) = n_id n"
  "n_alert_rule_id (drained d clk ids n) = n_alert_rule_id n"
  "n_risk_event_id (drained d clk ids n) = n_risk_event_id n"
  "n_recipient_user_id (drained d clk ids n) = n_recipient_user_id n"
  "n_channel (drained d clk ids n) = n_channel n"
  by (simp_all add: drained_def)

lemma pending_in:
  "n \<in> set (pending_notifications limit t) \<Longrightarrow> n \<in> set t \<and> n_status n = Queued"
  by (auto simp: pending_notifications_def dest!: in_set_takeD)

lemma chosen_queued:
  assumes "queue_ok t" "n \<in> set t" "n_id n \<in> n_id ` set (pending_notifications limit t)"
  shows "n \<in> set (pending_notifications limit t)" "n_status n = Queued"
proof -
  obtain k where k: "k \<in> set (pending_notifications limit t)" "n_id k = n_id n" using assms(3) by force
  have "inj_on n_id (set t)" using assms(1) by (simp add: queue_ok_def distinct_map)
  then have "k = n" using k assms(2) pending_in [OF k(1)] by (auto dest: inj_onD)
  with k(1) pending_in [OF k(1)] show "n \<in> set (pending_notifications limit t)" "n_status n = Queued"
    by simp_all
qed

lemma deliver_pending_ok:
  assumes "queue_ok t"
  shows "queue_ok (snd (deliver_pending d clk limit t))"
proof -
  define f where "f = drained d clk (n_id ` set (pending_notifications limit t))"
  have ids: "map n_id (map f t) = map n_id t" and keys: "map n_key (map f t) = map n_key t"
    by (simp_all add: f_def comp_def)
  have rows: "(n_status (f n) = Queued \<longrightarrow> n_attempts (f n) < max_delivery_attempts)
         \<and> (n_status (f n) = Delivered \<longleftrightarrow> n_delivered_at (f n) \<noteq> None)" if "n \<in> set t" for n
    using assms that chosen_queued(2) [OF assms that, of limit]
    by (auto simp: f_def drained_def queue_ok_def list_all_iff attempt_delivery_def mark_delivered_def
        mark_failed_def split: option.split)
  have "distinct (map n_id (map f t))" "distinct (map n_key (map f t))"
    using assms unfolding ids keys by (simp_all add: queue_ok_def)
  moreover have "list_all (\<lambda>n. (n_status n = Queued \<longrightarrow> n_attempts n < max_delivery_attempts)
         \<and> (n_status n = Delivered \<longleftrightarrow> n_delivered_at n \<noteq> None)) (map f t)"
    using rows by (simp add: list_all_iff)
  ultimately show ?thesis unfolding queue_ok_def snd_deliver_pending f_def [symmetric] by blast
qed

text \<open>The attempts still allowed before every queued notification has left the queue.\<close>

definition attempts_left :: "notification list \<Rightarrow> nat" where
  "attempts_left t = sum_list (map (\<lambda>n. if n_status n = Queued
     then max_delivery_attempts - n_attempts n else 0) t)"

lemma attempts_left_le:
  "attempts_left t \<le> max_delivery_attempts * length (filter (\<lambda>n. n_status n = Queued) t)"
  by (induction t) (auto simp: attempts_left_def)

lemma attempts_left_0:
  assumes "queue_ok t" "attempts_left t = 0"
  shows "filter (\<lambda>n. n_status n = Queued) t = []"
proof -
  have "\<not> n_status n = Queued" if n: "n \<in> set t" for n
  proof
    assume q: "n_status n = Queued"
    have "(if n_status n = Queued then max_delivery_attempts - n_attempts n else 0) = 0"
      using assms(2) n by (simp add: attempts_left_def)
    moreover have "n_attempts n < max_delivery_attempts"
      using assms(1) n q by (simp add: queue_ok_def list_all_iff)
    ultimately show False using q by simp
  qed
  then show ?thesis by (simp add: filter_empty_conv)
qed

lemma sum_list_less:
  assumes "\<And>x. x \<in> set xs \<Longrightarrow> f x \<le> (g x :: nat)" "x \<in> set xs" "f x < g x"
  shows "sum_list (map f xs) < sum_list (map g xs)"
  using assms
proof (induction xs)
  case (Cons y ys)
  have le: "sum_list (map f ys) \<le> sum_list (map g ys)"
    using Cons.prems(1) by (intro sum_list_mono) simp
  show ?case
  proof (cases "x = y")
    case True
    with le Cons.prems(3) show ?thesis by simp
  next
    case False
    with Cons have "sum_list (map f ys) < sum_list (map g ys)" by simp
    moreover have "f y \<le> g y" using Cons.prems(1) by simp
    ultimately show ?thesis by simp
  qed
qed simp

abbreviation left_of :: "notification \<Rightarrow> nat" where
  "left_of n \<equiv> if n_status n = Queued then max_delivery_attempts - n_attempts n else 0"

lemma left_of_attempt: "left_of (attempt_delivery d clk k) \<le> max_delivery_attempts - Suc (n_attempts k)"
  by (auto simp: attempt_delivery_def mark_delivered_def mark_failed_def split: option.split)

lemma deliver_pending_progress:
  assumes "queue_ok t" "0 < limit" "filter (\<lambda>n. n_status n = Queued) t \<noteq> []"
  shows "attempts_left (snd (deliver_pending d clk limit t)) < attempts_left t"
proof -
  define ids where "ids = n_id ` set (pending_notifications limit t)"
  have "sort_key n_id (filter (\<lambda>n. n_status n = Queued) t) \<noteq> []" using assms(3)
    by (metis length_0_conv length_sort)
  then obtain n where n: "n \<in> set (pending_notifications limit t)"
    using assms(2) by (cases "sort_key n_id (filter (\<lambda>n. n_status n = Queued) t)"; cases limit)
      (auto simp: pending_notifications_def)
  have q: "n \<in> set t" "n_status n = Queued" using pending_in [OF n] by auto
  have small: "n_attempts k < max_delivery_attempts" if "k \<in> set t" "n_status k = Queued" for k
    using assms(1) that by (simp add: queue_ok_def list_all_iff)
  have "left_of (drained d clk ids n) < left_of n"
    using left_of_attempt [of d clk n] n q small [OF q] by (auto simp: drained_def ids_def)
  moreover have "left_of (drained d clk ids k) \<le> left_of k" if k: "k \<in> set t" for k
  proof (cases "n_id k \<in> ids")
    case True
    then have "n_status k = Queued" using chosen_queued(2) [OF assms(1) k] by (simp add: ids_def)
    with left_of_attempt [of d clk k] True show ?thesis by (auto simp: drained_def)
  qed (simp add: drained_def)
  ultimately have "sum_list (map (\<lambda>n. left_of (drained d clk ids n)) t) < sum_list (map left_of t)"
    using q(1) by (intro sum_list_less) blast+
  then show ?thesis
    unfolding attempts_left_def snd_deliver_pending ids_def [symmetric] map_map comp_def .
qed

text \<open>Drains one after the other, each with what the transport does that time.\<close>

fun drain_all ::
  "(notification \<Rightarrow> string option) list \<Rightarrow> (nat \<Rightarrow> datetime) \<Rightarrow> nat \<Rightarrow> notification list \<Rightarrow> notification list" where
  "drain_all [] clk limit t = t"
| "drain_all (d # ds) clk limit t = drain_all ds clk limit (snd (deliver_pending d clk limit t))"

lemma deliver_pending_idle:
  assumes "filter (\<lambda>n. n_status n = Queued) t = []"
  shows "deliver_pending d clk limit t = (0, t)"
  using assms by (simp add: deliver_pending_def pending_notifications_def Let_def)

lemma drain_all_ok: "queue_ok t \<Longrightarrow> queue_ok (drain_all ds clk limit t)"
  by (induction ds arbitrary: t) (simp_all add: deliver_pending_ok)

lemma drain_all_empties:
  assumes "queue_ok t" "0 < limit" "attempts_left t \<le> length ds"
  shows "filter (\<lambda>n. n_status n = Queued) (drain_all ds clk limit t) = []"
  using assms
proof (induction ds arbitrary: t)
  case Nil
  then show ?case using attempts_left_0 by simp
next
  case (Cons d ds)
  show ?case
  proof (cases "filter (\<lambda>n. n_status n = Queued) t = []")
    case True
    then have "attempts_left t = 0" by (simp add: attempts_left_def filter_empty_conv)
    with Cons True show ?thesis by (simp add: deliver_pending_idle)
  next
    case False
    with Cons deliver_pending_progress [OF Cons.prems(1,2) False, of d clk]
    show ?thesis by (simp add: deliver_pending_ok)
  qed
qed

end
