(* ===== verification/Digest.thy ===== *)
theory Digest
  imports Outbox PyTime
begin

text \<open>
  \<^verbatim>\<open>notifications/digest.py\<close>: the summary of what a person was told in a period, and its
  text. The joined tables are lists of rows; the rows of a join come in the order of the
  notifications, then sorted by their delivery time.
\<close>

record digest_item =
  di_subject :: string
  di_risk_type :: string
  di_severity :: string
  di_suppliers :: "string list"
  di_recommendation :: string
  di_source_name :: string
  di_source_url :: "string option"
  di_rule_name :: string

record digest_section =
  ds_severity :: string
  ds_items :: "digest_item list"

record digest =
  dg_recipient_email :: string
  dg_organization_name :: string
  dg_since :: datetime
  dg_until :: datetime
  dg_sections :: "digest_section list"

record alert_tables =
  at_notifications :: "notification list"
  at_events :: "risk_event list"
  at_rules :: "alert_rule list"
  at_users :: "user list"
  at_organizations :: "organization list"

type_synonym digest_row = "notification \<times> risk_event \<times> alert_rule \<times> user \<times> organization"

definition digest_total :: "digest \<Rightarrow> nat" where
  "digest_total d = sum_list (map (\<lambda>s. length (ds_items s)) (dg_sections d))"

definition in_period :: "nat \<Rightarrow> datetime \<Rightarrow> datetime \<Rightarrow> notification \<Rightarrow> bool" where
  "in_period user since ends n \<longleftrightarrow> n_recipient_user_id n = user \<and> n_status n = Delivered
     \<and> (case n_delivered_at n of None \<Rightarrow> False | Some w \<Rightarrow> since \<le> w \<and> w \<le> ends)"

text \<open>The inner joins: a notification with its event, rule, recipient and organization.\<close>

definition joined :: "alert_tables \<Rightarrow> notification \<Rightarrow> digest_row option" where
  "joined db n = (case (row_of re_id (at_events db) (n_risk_event_id n), row_of ar_id (at_rules db) (n_alert_rule_id n),
        row_of u_id (at_users db) (n_recipient_user_id n), row_of o_id (at_organizations db) (n_organization_id n)) of
       (Some e, Some r, Some u, Some g) \<Rightarrow> Some (n, e, r, u, g)
     | _ \<Rightarrow> None)"

definition digest_rows :: "nat \<Rightarrow> datetime \<Rightarrow> datetime \<Rightarrow> alert_tables \<Rightarrow> digest_row list" where
  "digest_rows user since ends db = sort_key (\<lambda>r. the (n_delivered_at (fst r)))
     (List.map_filter (joined db) (filter (in_period user since ends) (at_notifications db)))"

definition item_of :: "digest_row \<Rightarrow> digest_item" where
  "item_of row = (case row of (n, e, r, u, g) \<Rightarrow>
     \<lparr>di_subject = n_subject n, di_risk_type = re_risk_type e, di_severity = re_severity e,
      di_suppliers = re_affected_suppliers e, di_recommendation = re_recommendation e,
      di_source_name = re_source_name e, di_source_url = re_source_url e, di_rule_name = ar_name r\<rparr>)"

definition section_rank :: "string \<Rightarrow> int" where
  "section_rank s = (if s \<in> set severity_order then int (severity_rank s) else -1)"

definition build_digest ::
  "nat \<Rightarrow> datetime \<Rightarrow> datetime option \<Rightarrow> datetime \<Rightarrow> alert_tables \<Rightarrow> digest option" where
  "build_digest user since til now db =
     (let ends = (case til of None \<Rightarrow> now | Some t \<Rightarrow> t); rows = digest_rows user since ends db in
      case rows of
        [] \<Rightarrow> None
      | (n, e, r, u, g) # _ \<Rightarrow>
          (let by_severity = group_by di_severity (map item_of rows);
               ordered = sort_key (\<lambda>p. - section_rank (fst p)) by_severity
           in Some \<lparr>dg_recipient_email = u_email u, dg_organization_name = o_name g, dg_since = since,
                 dg_until = ends,
                 dg_sections = map (\<lambda>p. \<lparr>ds_severity = fst p, ds_items = snd p\<rparr>) ordered\<rparr>))"

section \<open>The text of a digest\<close>

definition month_abbr :: "int \<Rightarrow> string" where
  "month_abbr m = [''Jan'', ''Feb'', ''Mar'', ''Apr'', ''May'', ''Jun'', ''Jul'', ''Aug'', ''Sep'', ''Oct'', ''Nov'', ''Dec'']
     ! nat (m - 1)"

definition day_and_time :: "datetime \<Rightarrow> string" where
  "day_and_time t = (case civil_from_days (t div day_us) of (y, m, d) \<Rightarrow>
     let s = t mod day_us div 1000000 in
     padded 2 (nat d) @ '' '' @ month_abbr m @ '' '' @ padded 2 (nat (s div 3600)) @ '':''
     @ padded 2 (nat (s div 60 mod 60)))"

text \<open>The dash between a source and its URL, as its UTF-8 bytes.\<close>

definition em_dash :: string where
  "em_dash = [CHR 0xE2, CHR 0x80, CHR 0x94]"

definition item_lines :: "digest_item \<Rightarrow> string list" where
  "item_lines i =
     (let named = join '', '' (di_suppliers i);
          sups = (if named = [] then ''unnamed supplier'' else named) in
      [''  - '' @ sups @ '': '' @ replace_char (CHR ''_'') (CHR '' '') (di_risk_type i),
       ''    '' @ di_recommendation i,
       ''    '' @ di_source_name i @ '' '' @ em_dash @ '' ''
         @ (case di_source_url i of None \<Rightarrow> ''None'' | Some u \<Rightarrow> u),
       ''    matched by: '' @ di_rule_name i])"

definition section_lines :: "digest_section \<Rightarrow> string list" where
  "section_lines s = (upper (ds_severity s) @ '' ('' @ nat_str (length (ds_items s)) @ '')'')
     # concat (map item_lines (ds_items s)) @ [[]]"

definition render_text :: "digest \<Rightarrow> string" where
  "render_text d = strip (join newline
     ([''ProcureSignal briefing for '' @ dg_organization_name d,
       nat_str (digest_total d) @ '' alert'' @ (if digest_total d \<noteq> 1 then ''s'' else []) @ '' since '' @ day_and_time (dg_since d),
       []] @ concat (map section_lines (dg_sections d))))"

section \<open>Facts\<close>

lemma build_digest_Some:
  assumes "build_digest user since til now db = Some d"
  defines "items \<equiv> map item_of (digest_rows user since (case til of None \<Rightarrow> now | Some t \<Rightarrow> t) db)"
  shows "map ds_severity (dg_sections d) = map fst (sort_key (\<lambda>p. - section_rank (fst p)) (group_by di_severity items))"
    and "map ds_items (dg_sections d) = map snd (sort_key (\<lambda>p. - section_rank (fst p)) (group_by di_severity items))"
    and "items \<noteq> []"
  using assms(1) unfolding items_def
  by (auto simp: build_digest_def Let_def comp_def split: list.splits prod.splits)

lemma digest_sections:
  assumes "build_digest user since til now db = Some d" "s \<in> set (dg_sections d)"
  shows "ds_items s = filter (\<lambda>i. di_severity i = ds_severity s)
      (map item_of (digest_rows user since (case til of None \<Rightarrow> now | Some t \<Rightarrow> t) db)) \<and> ds_items s \<noteq> []"
proof -
  have "(ds_severity s, ds_items s) \<in> set (group_by di_severity
      (map item_of (digest_rows user since (case til of None \<Rightarrow> now | Some t \<Rightarrow> t) db)))"
    using assms by (auto simp: build_digest_def Let_def split: list.splits prod.splits)
  then show ?thesis unfolding in_group_by by metis
qed

lemma digest_severities_distinct:
  assumes "build_digest user since til now db = Some d"
  shows "distinct (map ds_severity (dg_sections d))"
  unfolding build_digest_Some(1) [OF assms]
  using distinct_group_by by (metis distinct_map distinct_sort set_sort)

lemma digest_most_severe_first:
  assumes "build_digest user since til now db = Some d"
  shows "sorted_wrt (\<lambda>a b. section_rank b \<le> section_rank a) (map ds_severity (dg_sections d))"
proof -
  have "sorted (map (\<lambda>p. - section_rank (fst p)) (sort_key (\<lambda>p. - section_rank (fst p)) g))"
    for g :: "(string \<times> digest_item list) list" by (rule sorted_sort_key)
  then show ?thesis unfolding build_digest_Some(1) [OF assms] by (simp add: sorted_wrt_map)
qed

lemma mset_digest_items:
  assumes "build_digest user since til now db = Some d"
  shows "mset (concat (map ds_items (dg_sections d)))
    = mset (map item_of (digest_rows user since (case til of None \<Rightarrow> now | Some t \<Rightarrow> t) db))"
proof -
  have "mset (concat (map snd (sort_key k g))) = mset (concat (map snd g))"
    for k :: "string \<times> digest_item list \<Rightarrow> int" and g
  proof -
    have "mset (map (mset \<circ> snd) (sort_key k g)) = mset (map (mset \<circ> snd) g)" by simp
    then show ?thesis unfolding mset_concat map_map by (metis sum_mset_sum_list)
  qed
  then show ?thesis unfolding build_digest_Some(2) [OF assms] by (simp add: mset_group_by del: mset_concat)
qed

lemma total_items:
  assumes "build_digest user since til now db = Some d"
  shows "digest_total d = length (digest_rows user since (case til of None \<Rightarrow> now | Some t \<Rightarrow> t) db)"
  using arg_cong [OF mset_digest_items [OF assms], of size]
  by (simp add: digest_total_def length_concat comp_def)

lemma build_digest_None:
  "build_digest user since til now db = None \<longleftrightarrow>
    digest_rows user since (case til of None \<Rightarrow> now | Some t \<Rightarrow> t) db = []"
  by (auto simp: build_digest_def Let_def split: list.split prod.split)

end
