(* ===== verification/AlertProperties.thy ===== *)
theory AlertProperties
  imports SupplierProperties Digest
begin

text \<open>
  What alerting promises: only members of the watching organization are told, once per rule,
  event and person; a queue that loses nothing and empties; digests that tell what was
  delivered; and audit details without secrets.
\<close>

section \<open>Queueing alerts\<close>

text \<open>C21: Alerting stays within the tenant: evaluating rules and queueing the matches adds one queued
  notification at a time, each for an enabled rule whose severity floor and risk types the event
  satisfies, to an active member of the rule's organization, naming exactly the affected suppliers
  that organization watches, of which there is at least one.\<close>

theorem alerts_stay_in_tenant:
  assumes "enqueue_matches uuid people ms (evaluate_rules rules wdb sdb events) t = (c, t')"
  shows "\<exists>new. t' = t @ new \<and> length new = c \<and> (\<forall>n \<in> set new. n_status n = Queued \<and>
    (\<exists>r \<in> set rules. \<exists>e \<in> set events. \<exists>u \<in> set people.
       n_key n = (ar_id r, re_id e, u_id u, in_app) \<and> n_organization_id n = ar_organization_id r
       \<and> ar_is_enabled r \<and> meets_severity (re_severity e) (ar_min_severity r)
       \<and> (ar_risk_types r = [] \<or> re_risk_type e \<in> set (ar_risk_types r))
       \<and> u_is_active u \<and> (\<exists>m \<in> set ms. m_user_id m = u_id u \<and> m_organization_id m = ar_organization_id r)
       \<and> set (n_supplier_public_ids n) = set (re_affected_supplier_ids e)
            \<inter> watched_supplier_ids wdb sdb (ar_organization_id r)
       \<and> n_supplier_public_ids n \<noteq> []))"
proof -
  obtain new where new: "t' = t @ new" "length new = c"
    "list_all (\<lambda>n. \<exists>m u s. (m, u) \<in> set (owed people ms (evaluate_rules rules wdb sdb events))
       \<and> n = notification_for uuid m u s) new"
    using enqueue_extends assms unfolding enqueue_matches_def by blast
  have "n_status n = Queued \<and>
    (\<exists>r \<in> set rules. \<exists>e \<in> set events. \<exists>u \<in> set people.
       n_key n = (ar_id r, re_id e, u_id u, in_app) \<and> n_organization_id n = ar_organization_id r
       \<and> ar_is_enabled r \<and> meets_severity (re_severity e) (ar_min_severity r)
       \<and> (ar_risk_types r = [] \<or> re_risk_type e \<in> set (ar_risk_types r))
       \<and> u_is_active u \<and> (\<exists>m \<in> set ms. m_user_id m = u_id u \<and> m_organization_id m = ar_organization_id r)
       \<and> set (n_supplier_public_ids n) = set (re_affected_supplier_ids e)
            \<inter> watched_supplier_ids wdb sdb (ar_organization_id r)
       \<and> n_supplier_public_ids n \<noteq> [])" if "n \<in> set new" for n
  proof -
    obtain m u s where n: "(m, u) \<in> set (owed people ms (evaluate_rules rules wdb sdb events))"
      "n = notification_for uuid m u s" using new(3) \<open>n \<in> set new\<close> by (auto simp: list_all_iff)
    then have m: "m \<in> set (evaluate_rules rules wdb sdb events)"
      and u: "u \<in> set (recipients_for people ms (ar_organization_id (rm_rule m)))"
      by (simp_all add: in_owed)
    have "rm_supplier_public_ids m \<noteq> []" "meets_severity (re_severity (rm_event m)) (ar_min_severity (rm_rule m))"
      "ar_risk_types (rm_rule m) = [] \<or> re_risk_type (rm_event m) \<in> set (ar_risk_types (rm_rule m))"
      using m by (auto simp: in_evaluate_rules matches_rule_def)
    then show ?thesis using m u n(2)
      by (intro conjI bexI [of _ "rm_rule m"] bexI [of _ "rm_event m"] bexI [of _ u])
        (auto simp: in_evaluate_rules in_recipients set_affected_and_watched)
  qed
  with new show ?thesis by blast
qed

definition demo_rule :: alert_rule where
  "demo_rule = \<lparr>ar_id = 1, ar_public_id = ''r1'', ar_organization_id = 1, ar_name = ''Strikes'',
     ar_normalized_name = ''strikes'', ar_min_severity = ''high'', ar_risk_types = [], ar_is_enabled = True,
     ar_created_by_user_id = None\<rparr>"

definition demo_user :: user where
  "demo_user = \<lparr>u_id = 1, u_public_id = ''u1'', u_email = ''a@b.c'', u_password_hash = None, u_full_name = None,
     u_is_active = True, u_token_version = 0, u_last_login_at = None\<rparr>"

definition demo_members :: "membership list" where
  "demo_members = [\<lparr>m_user_id = 1, m_organization_id = 1, m_role = OWNER\<rparr>]"

definition demo_watching :: watch_db where
  "demo_watching = add_supplier 1 1 None demo_watch"

definition demo_matches :: "rule_match list" where
  "demo_matches = evaluate_rules [demo_rule] demo_watching demo_registry [demo_event ''a'' ''critical'']"

definition demo_queue :: "notification list" where
  "demo_queue = snd (enqueue_matches nat_str [demo_user] demo_members demo_matches [])"

lemma demo_enqueue: "enqueue_matches nat_str [demo_user] demo_members demo_matches [] = (1, demo_queue)"
proof -
  have "fst (enqueue_matches nat_str [demo_user] demo_members demo_matches []) = 1" by code_simp
  then show ?thesis by (metis demo_queue_def prod.collapse)
qed

lemma alerts_stay_in_tenant_witness: "list_all (\<lambda>n. n_organization_id n = 1) demo_queue"
proof -
  have "\<forall>r \<in> set [demo_rule]. ar_organization_id r = 1" by (simp add: demo_rule_def)
  then show ?thesis using alerts_stay_in_tenant [OF demo_enqueue [unfolded demo_matches_def]] by (auto simp: list_all_iff)
qed

text \<open>Queueing is idempotent and complete: afterwards every active member of the organization of
  every matching rule has a notification for the event, queueing the same matches again creates
  nothing, and the queue keeps its invariant of unique rows below the attempt limit.\<close>

theorem queueing_idempotent:
  assumes "enqueue_matches uuid people ms matches t = (c, t')" "queue_ok t"
  shows "enqueue_matches uuid' people ms matches t' = (0, t') \<and> queue_ok t'
    \<and> (\<forall>m \<in> set matches. \<forall>u \<in> set (recipients_for people ms (ar_organization_id (rm_rule m))).
         (ar_id (rm_rule m), re_id (rm_event m), u_id u, in_app) \<in> n_key ` set t')"
proof -
  have cov: "(ar_id (rm_rule m), re_id (rm_event m), u_id u, in_app) \<in> n_key ` set t'"
    if "(m, u) \<in> set (owed people ms matches)" for m u
    using enqueue_covers assms(1) that unfolding enqueue_matches_def by blast
  then have "enqueue_matches uuid' people ms matches t' = (0, t')"
    unfolding enqueue_matches_def by (rule enqueue_nothing_new)
  moreover have "queue_ok t'" using enqueue_ok assms unfolding enqueue_matches_def by blast
  moreover have "\<forall>m \<in> set matches. \<forall>u \<in> set (recipients_for people ms (ar_organization_id (rm_rule m))).
         (ar_id (rm_rule m), re_id (rm_event m), u_id u, in_app) \<in> n_key ` set t'"
    using cov by (simp add: in_owed)
  ultimately show ?thesis by blast
qed

lemma queueing_idempotent_witness:
  "enqueue_matches nat_str [demo_user] demo_members demo_matches demo_queue = (0, demo_queue)"
  using queueing_idempotent [OF demo_enqueue] by (simp add: queue_ok_def)

section \<open>Draining the queue\<close>

text \<open>Among the first \<open>limit\<close> queued, by their numbers.\<close>

definition turn :: "nat \<Rightarrow> notification list \<Rightarrow> notification \<Rightarrow> bool" where
  "turn limit t n \<longleftrightarrow> n_status n = Queued \<and> length (filter (\<lambda>m. n_status m = Queued \<and> n_id m < n_id n) t) < limit"

lemma rank_sorted:
  assumes "distinct (map f xs)" "i < length xs" "sorted (map f xs)"
  shows "length (filter (\<lambda>y. f y < (f (xs ! i) :: nat)) xs) = i"
proof -
  have "sorted_wrt (<) (map f xs)" using assms(1,3) by (simp add: strict_sorted_iff)
  then have less: "f (xs ! j) < f (xs ! k)" if "j < k" "k < length xs" for j k
    using that by (simp add: sorted_wrt_iff_nth_less)
  have "{j. j < length xs \<and> f (xs ! j) < f (xs ! i)} = {..<i}"
  proof (intro set_eqI iffI)
    fix j assume "j \<in> {j. j < length xs \<and> f (xs ! j) < f (xs ! i)}"
    then have j: "j < length xs" "f (xs ! j) < f (xs ! i)" by simp_all
    then have "\<not> i < j" "j \<noteq> i" using less [of i j] by auto
    then show "j \<in> {..<i}" by simp
  next
    fix j assume "j \<in> {..<i}"
    then show "j \<in> {j. j < length xs \<and> f (xs ! j) < f (xs ! i)}" using less [of j i] assms(2) by simp
  qed
  then show ?thesis by (simp add: length_filter_conv_card)
qed

lemma pending_turn:
  assumes "distinct (map n_id t)" "n \<in> set t"
  shows "n_id n \<in> n_id ` set (pending_notifications limit t) \<longleftrightarrow> turn limit t n"
proof -
  let ?q = "filter (\<lambda>n. n_status n = Queued) t"
  let ?xs = "sort_key n_id ?q"
  have d: "distinct (map n_id ?xs)" "sorted (map n_id ?xs)" "distinct ?xs"
    using assms(1) by (simp_all add: distinct_map distinct_filter inj_on_def)
  have rank: "length (filter (\<lambda>m. n_status m = Queued \<and> n_id m < n_id n) t) = length (filter (\<lambda>m. n_id m < n_id n) ?xs)"
  proof -
    have "mset (filter (\<lambda>m. n_id m < n_id n) ?xs) = mset (filter (\<lambda>m. n_id m < n_id n) ?q)" by (simp only: mset_filter mset_sort)
    then have "length (filter (\<lambda>m. n_id m < n_id n) ?xs) = length (filter (\<lambda>m. n_id m < n_id n) ?q)" by (rule mset_eq_length)
    then show ?thesis by (simp add: conj_commute)
  qed
  have mem: "n_id n \<in> n_id ` set (pending_notifications limit t) \<longleftrightarrow> n \<in> set (take limit ?xs)"
  proof
    assume "n_id n \<in> n_id ` set (pending_notifications limit t)"
    then obtain m where m: "m \<in> set (take limit ?xs)" "n_id m = n_id n" by (auto simp: pending_notifications_def)
    then have "m \<in> set t" by (auto dest: in_set_takeD)
    then have "m = n" using m(2) assms by (auto simp: distinct_map dest: inj_onD)
    then show "n \<in> set (take limit ?xs)" using m(1) by simp
  next
    assume "n \<in> set (take limit ?xs)"
    then show "n_id n \<in> n_id ` set (pending_notifications limit t)" by (simp add: pending_notifications_def)
  qed
  show ?thesis
  proof (cases "n_status n = Queued")
    case True
    then have "n \<in> set ?xs" using assms(2) by simp
    then obtain i where i: "i < length ?xs" "?xs ! i = n" by (meson in_set_conv_nth)
    have "n \<in> set (take limit ?xs) \<longleftrightarrow> i < limit"
    proof
      assume "n \<in> set (take limit ?xs)"
      then obtain j where "j < limit" "j < length ?xs" "?xs ! j = n" by (auto simp: in_set_conv_nth)
      then show "i < limit" using nth_eq_iff_index_eq [OF d(3)] i by metis
    next
      assume "i < limit"
      then show "n \<in> set (take limit ?xs)" using i by (metis in_set_conv_nth length_take min_less_iff_conj nth_take)
    qed
    then show ?thesis using True mem rank rank_sorted [OF d(1) i(1) d(2)] i(2) by (simp add: turn_def)
  next
    case False
    then have "n \<notin> set (take limit ?xs)" by (auto dest: in_set_takeD)
    then show ?thesis using False mem by (simp add: turn_def)
  qed
qed

text \<open>What drains may do to a notification: nothing once it left the queue, and out of the queue only by a
  delivery or by a fifth failure.\<close>

definition drained_to :: "notification \<Rightarrow> notification \<Rightarrow> bool" where
  "drained_to n n' \<longleftrightarrow> n_key n' = n_key n \<and> n_id n' = n_id n \<and> n_subject n' = n_subject n \<and> n_body n' = n_body n
     \<and> n_attempts n \<le> n_attempts n'
     \<and> (if n_status n = Queued
        then n_status n' = Queued \<and> n_attempts n' < 5 \<or> n_status n' = Delivered \<and> n_attempts n' < 5 \<and> n_delivered_at n' \<noteq> None
          \<or> n_status n' = GivenUp \<and> n_attempts n' = 5
        else n' = n)"

lemma drained_to_trans: "drained_to a b \<Longrightarrow> drained_to b c \<Longrightarrow> drained_to a c"
  by (auto simp: drained_to_def split: if_splits)

lemma deliver_pending_step: "queue_ok t \<Longrightarrow> list_all2 drained_to t (snd (deliver_pending d clk limit t))"
  unfolding snd_deliver_pending
proof (rule list_all2_all_nthI)
  fix i assume ok: "queue_ok t" and i: "i < length t"
  let ?ids = "n_id ` set (pending_notifications limit t)"
  have q: "n_status (t ! i) = Queued \<Longrightarrow> n_attempts (t ! i) < 5"
    using ok i by (auto simp: queue_ok_def list_all_length max_delivery_attempts_def)
  have "drained_to (t ! i) (drained d clk ?ids (t ! i))"
  proof (cases "n_id (t ! i) \<in> ?ids")
    case True
    then have "n_status (t ! i) = Queued"
      using pending_turn [of t "t ! i" limit] ok i by (simp add: queue_ok_def turn_def)
    with True q show ?thesis
      by (auto simp: drained_def attempt_delivery_def mark_delivered_def mark_failed_def drained_to_def
          max_delivery_attempts_def split: option.split)
  next
    case False
    then show ?thesis using q by (simp add: drained_def drained_to_def)
  qed
  then show "drained_to (t ! i) (map (drained d clk ?ids) t ! i)" using i by simp
qed simp

lemma drain_all_step: "queue_ok t \<Longrightarrow> list_all2 drained_to t (drain_all ds clk limit t)"
proof (induction ds arbitrary: t)
  case Nil
  have "drained_to n n" if "n \<in> set t" for n
    using that Nil by (auto simp: drained_to_def queue_ok_def list_all_iff max_delivery_attempts_def)
  then show ?case by (auto simp: list_all2_same)
next
  case (Cons d ds)
  note step = deliver_pending_step [OF Cons.prems, of d clk limit]
  have "queue_ok (snd (deliver_pending d clk limit t))" using Cons.prems by (rule deliver_pending_ok)
  from list_all2_trans [OF drained_to_trans step Cons.IH [OF this]] show ?case by simp
qed

lemma deliver_pending_exact:
  assumes "queue_ok t"
  shows "deliver_pending d clk limit t = (length (filter (\<lambda>n. turn limit t n \<and> d n = None) t),
      map (\<lambda>n. if turn limit t n then (case d n of
            None \<Rightarrow> n\<lparr>n_status := Delivered, n_delivered_at := Some (clk (n_id n)), n_last_error := None\<rparr>
          | Some err \<Rightarrow> n\<lparr>n_attempts := Suc (n_attempts n), n_last_error := Some (take 2000 (redact_secrets_in_text err)),
              n_status := if n_attempts n = 4 then GivenUp else Queued\<rparr>) else n) t)"
proof -
  have d: "distinct (map n_id t)" using assms by (simp add: queue_ok_def)
  let ?p = "pending_notifications limit t"
  have turn: "n_id n \<in> n_id ` set ?p \<longleftrightarrow> turn limit t n" if "n \<in> set t" for n using pending_turn [OF d that] .
  have attempts: "n_attempts n < 5" if "n \<in> set t" "n_status n = Queued" for n
    using assms that by (auto simp: queue_ok_def list_all_iff max_delivery_attempts_def)
  have rows: "snd (deliver_pending d clk limit t) =
      map (\<lambda>n. if turn limit t n then (case d n of
            None \<Rightarrow> n\<lparr>n_status := Delivered, n_delivered_at := Some (clk (n_id n)), n_last_error := None\<rparr>
          | Some err \<Rightarrow> n\<lparr>n_attempts := Suc (n_attempts n), n_last_error := Some (take 2000 (redact_secrets_in_text err)),
              n_status := if n_attempts n = 4 then GivenUp else Queued\<rparr>) else n) t"
    unfolding snd_deliver_pending
  proof (rule map_cong [OF refl])
    fix n assume n: "n \<in> set t"
    have "5 \<le> Suc (n_attempts n) \<longleftrightarrow> n_attempts n = 4" if "n_status n = Queued" using attempts [OF n that] by linarith
    then show "drained d clk (n_id ` set ?p) n = (if turn limit t n then (case d n of
            None \<Rightarrow> n\<lparr>n_status := Delivered, n_delivered_at := Some (clk (n_id n)), n_last_error := None\<rparr>
          | Some err \<Rightarrow> n\<lparr>n_attempts := Suc (n_attempts n), n_last_error := Some (take 2000 (redact_secrets_in_text err)),
              n_status := if n_attempts n = 4 then GivenUp else Queued\<rparr>) else n)"
      using turn [OF n] by (auto simp: drained_def attempt_delivery_def mark_delivered_def mark_failed_def
          max_delivery_attempts_def turn_def split: option.split)
  qed
  have "mset ?p = mset (filter (turn limit t) t)"
  proof (rule set_eq_iff_mset_eq_distinct [THEN iffD1])
    show "distinct ?p" "distinct (filter (turn limit t) t)"
      using d by (simp_all add: pending_notifications_def distinct_map)
    have "n \<in> set ?p \<longleftrightarrow> n \<in> set t \<and> turn limit t n" for n
    proof
      assume "n \<in> set ?p"
      moreover from this have "n \<in> set t" by (auto simp: pending_notifications_def dest: in_set_takeD)
      ultimately show "n \<in> set t \<and> turn limit t n" using turn by blast
    next
      assume n: "n \<in> set t \<and> turn limit t n"
      then obtain m where m: "m \<in> set ?p" "n_id m = n_id n" using turn by (metis imageE)
      then have "m \<in> set t" by (auto simp: pending_notifications_def dest: in_set_takeD)
      then show "n \<in> set ?p" using m n d by (metis distinct_map inj_on_def)
    qed
    then show "set ?p = set (filter (turn limit t) t)" by auto
  qed
  then have "mset (filter (\<lambda>n. d n = None) ?p) = mset (filter (\<lambda>n. d n = None) (filter (turn limit t) t))"
    by (simp only: mset_filter)
  then have "length (filter (\<lambda>n. d n = None) ?p) = length (filter (\<lambda>n. d n = None) (filter (turn limit t) t))"
    by (rule mset_eq_length)
  then have "length (filter (\<lambda>n. d n = None) ?p) = length (filter (\<lambda>n. turn limit t n \<and> d n = None) t)"
    by (simp add: conj_commute)
  then have "fst (deliver_pending d clk limit t) = length (filter (\<lambda>n. turn limit t n \<and> d n = None) t)"
    by (simp add: deliver_pending_def Let_def)
  with rows show ?thesis by (metis prod.collapse)
qed

text \<open>C22: The drain delivers, loses nothing and ends, on a queue as the database keeps it: unique numbers and keys,
  no queued notification with five attempts, and with a limit above zero. Of the queued notifications, those among the first up to
  the limit are tried, each on its own: when the transport takes it, it is delivered at that time; when not,
  the failure is counted and kept, without secrets, and the fifth takes it off the queue; everything else
  stays as it is, and the count is that of the delivered. Over any number of drains nothing is added, removed
  or changed once off the queue; and after five drains for each queued notification every one of them has
  been delivered or has failed exactly five times.\<close>

theorem drain_terminates:
  assumes "queue_ok t" "0 < limit"
  shows "deliver_pending d clk limit t = (length (filter (\<lambda>n. turn limit t n \<and> d n = None) t),
      map (\<lambda>n. if turn limit t n then (case d n of
            None \<Rightarrow> n\<lparr>n_status := Delivered, n_delivered_at := Some (clk (n_id n)), n_last_error := None\<rparr>
          | Some err \<Rightarrow> n\<lparr>n_attempts := Suc (n_attempts n), n_last_error := Some (take 2000 (redact_secrets_in_text err)),
              n_status := if n_attempts n = 4 then GivenUp else Queued\<rparr>) else n) t)
    \<and> list_all2 drained_to t (drain_all ds clk limit t)
    \<and> (5 * length (filter (\<lambda>n. n_status n = Queued) t) \<le> length ds \<longrightarrow>
         list_all2 (\<lambda>n n'. if n_status n = Queued then n_status n' = Delivered \<or> n_status n' = GivenUp \<and> n_attempts n' = 5
           else n' = n) t (drain_all ds clk limit t))"
proof (intro conjI impI)
  show "deliver_pending d clk limit t = (length (filter (\<lambda>n. turn limit t n \<and> d n = None) t),
      map (\<lambda>n. if turn limit t n then (case d n of
            None \<Rightarrow> n\<lparr>n_status := Delivered, n_delivered_at := Some (clk (n_id n)), n_last_error := None\<rparr>
          | Some err \<Rightarrow> n\<lparr>n_attempts := Suc (n_attempts n), n_last_error := Some (take 2000 (redact_secrets_in_text err)),
              n_status := if n_attempts n = 4 then GivenUp else Queued\<rparr>) else n) t)"
    using assms(1) by (rule deliver_pending_exact)
  show all: "list_all2 drained_to t (drain_all ds clk limit t)" using assms(1) by (rule drain_all_step)
  assume "5 * length (filter (\<lambda>n. n_status n = Queued) t) \<le> length ds"
  then have "attempts_left t \<le> length ds" using attempts_left_le [of t] by (simp add: max_delivery_attempts_def)
  then have "filter (\<lambda>n. n_status n = Queued) (drain_all ds clk limit t) = []" by (rule drain_all_empties [OF assms])
  then have "n_status n' \<noteq> Queued" if "n' \<in> set (drain_all ds clk limit t)" for n' using that by (simp add: filter_empty_conv)
  then show "list_all2 (\<lambda>n n'. if n_status n = Queued then n_status n' = Delivered \<or> n_status n' = GivenUp \<and> n_attempts n' = 5
      else n' = n) t (drain_all ds clk limit t)"
    using all by (auto simp: drained_to_def list_all2_conv_all_nth)
qed

lemma demo_queue_ok: "queue_ok demo_queue"
  using enqueue_ok [OF demo_enqueue [unfolded enqueue_matches_def]] by (simp add: queue_ok_def)

lemma drain_terminates_witness:
  "list_all (\<lambda>n. n_status n = Delivered \<or> n_status n = GivenUp \<and> n_attempts n = 5)
     (drain_all (replicate 5 (\<lambda>n. Some ''down'')) (\<lambda>_. 0) 500 demo_queue)"
proof -
  have len: "length demo_queue = 1" and queued: "list_all (\<lambda>n. n_status n = Queued) demo_queue" by code_simp+
  have "length (filter (\<lambda>n. n_status n = Queued) demo_queue) \<le> 1" using len by (metis length_filter_le)
  then have "list_all2 (\<lambda>n n'. if n_status n = Queued then n_status n' = Delivered \<or> n_status n' = GivenUp \<and> n_attempts n' = 5
      else n' = n) demo_queue (drain_all (replicate 5 (\<lambda>n. Some ''down'')) (\<lambda>_. 0) 500 demo_queue)"
    using drain_terminates [OF demo_queue_ok, of 500 "\<lambda>n. None" "\<lambda>_. 0" "replicate 5 (\<lambda>n. Some ''down'')"] by simp
  then show ?thesis using queued by (auto simp: list_all2_conv_all_nth list_all_length)
qed

section \<open>Digests\<close>

text \<open>A digest tells everything once: there is none exactly when nothing was delivered to the person
  in the period; otherwise its items are the delivered alerts of the period and nothing else, each
  in the one section of its severity, the sections non-empty and the most severe first.\<close>

theorem digest_complete:
  "(build_digest user since til now db = None \<longleftrightarrow> digest_rows user since (case til of None \<Rightarrow> now | Some t \<Rightarrow> t) db = [])
    \<and> (\<forall>d. build_digest user since til now db = Some d \<longrightarrow>
        mset (concat (map ds_items (dg_sections d)))
          = mset (map item_of (digest_rows user since (case til of None \<Rightarrow> now | Some t \<Rightarrow> t) db))
        \<and> digest_total d = length (digest_rows user since (case til of None \<Rightarrow> now | Some t \<Rightarrow> t) db)
        \<and> distinct (map ds_severity (dg_sections d))
        \<and> sorted_wrt (\<lambda>a b. section_rank b \<le> section_rank a) (map ds_severity (dg_sections d))
        \<and> (\<forall>s \<in> set (dg_sections d). ds_items s \<noteq> [] \<and> (\<forall>i \<in> set (ds_items s). di_severity i = ds_severity s)))"
proof (intro conjI allI impI)
  fix d assume d: "build_digest user since til now db = Some d"
  show "\<forall>s \<in> set (dg_sections d). ds_items s \<noteq> [] \<and> (\<forall>i \<in> set (ds_items s). di_severity i = ds_severity s)"
  proof
    fix s assume "s \<in> set (dg_sections d)"
    then have "ds_items s = filter (\<lambda>i. di_severity i = ds_severity s)
        (map item_of (digest_rows user since (case til of None \<Rightarrow> now | Some t \<Rightarrow> t) db)) \<and> ds_items s \<noteq> []"
      by (rule digest_sections [OF d])
    then show "ds_items s \<noteq> [] \<and> (\<forall>i \<in> set (ds_items s). di_severity i = ds_severity s)"
      by (metis (mono_tags, lifting) filter_set mem_Collect_eq set_filter)
  qed
qed (auto simp: build_digest_None mset_digest_items total_items digest_severities_distinct digest_most_severe_first
    simp del: mset_concat)

definition demo_tables :: alert_tables where
  "demo_tables = \<lparr>at_notifications = snd (deliver_pending in_app_deliver (\<lambda>_. 10) 500 demo_queue),
     at_events = [demo_event ''a'' ''critical''], at_rules = [demo_rule], at_users = [demo_user],
     at_organizations = [\<lparr>o_id = 1, o_public_id = ''o1'', o_name = ''Buyers'', o_slug = ''buyers''\<rparr>]\<rparr>"

lemma digest_complete_witness: "build_digest 1 0 (Some 10) 11 demo_tables \<noteq> None"
proof -
  have "length (digest_rows 1 0 10 demo_tables) = 1" by code_simp
  then have "digest_rows 1 0 (case Some 10 of None \<Rightarrow> 11 | Some t \<Rightarrow> t) demo_tables \<noteq> []" by auto
  then show ?thesis using digest_complete [of 1 0 "Some 10" 11 demo_tables] by blast
qed

section \<open>Audit details\<close>

text \<open>What an audit record keeps has no value under a key that names a credential, at any depth of
  nesting; scrubbing changes nothing in data that is already free of them, and so not a second time.\<close>

theorem audit_details_clean:
  "clean (scrub v) \<and> scrub (scrub v) = scrub v \<and> (clean v \<longrightarrow> scrub v = v)"
  using scrub_clean scrub_idem clean_scrub_same by blast

lemma audit_details_clean_witness: "scrub (JObject [(''user'', JStr ''a'')]) = JObject [(''user'', JStr ''a'')]"
proof -
  have "clean (JObject [(''user'', JStr ''a'')])" by code_simp
  then show ?thesis using audit_details_clean by blast
qed

text \<open>A credential name that another word runs into is not masked, since the pattern wants a word
  boundary before it.\<close>

lemma prefixed_secret_not_masked: "redact_secrets_in_text ''db_password=hunter2'' = ''db_password=hunter2''"
  by code_simp

end
