(* ===== verification/AuthFacts.thy ===== *)
theory AuthFacts
  imports AuthService
begin

text \<open>
  Histories of the identity database: the operations as steps, the invariant they keep, and
  what of the past no later step undoes. The family of a new session is a random identifier
  nobody used before.
\<close>

section \<open>Refresh tokens\<close>

abbreviation live :: "refresh_token \<Rightarrow> bool" where
  "live r \<equiv> rt_revoked_at r = None"

definition related :: "refresh_token \<Rightarrow> refresh_token \<Rightarrow> bool" where
  "related a b \<longleftrightarrow> rt_family_id a = rt_family_id b"

definition family_rule :: "refresh_token \<Rightarrow> refresh_token \<Rightarrow> bool" where
  "family_rule a b \<longleftrightarrow> (related a b \<longrightarrow> rt_user_id a = rt_user_id b \<and> (live a \<and> live b \<longrightarrow> a = b))"

definition token_inv :: "refresh_token list \<Rightarrow> bool" where
  "token_inv ts \<longleftrightarrow> distinct (map rt_id ts) \<and> distinct (map rt_token_hash ts)
     \<and> (\<forall>a \<in> set ts. rt_family_id a \<noteq> []) \<and> (\<forall>a \<in> set ts. \<forall>b \<in> set ts. family_rule a b)"

lemma token_inv_Nil: "token_inv []"
  by (simp add: token_inv_def)

lemma family_rule_revoked:
  assumes "family_rule a b"
  shows "family_rule (if p then a\<lparr>rt_revoked_at := Some now\<rparr> else a) (if q then b\<lparr>rt_revoked_at := Some now\<rparr> else b)"
  using assms by (simp add: family_rule_def related_def)

lemma token_inv_revoke:
  assumes "token_inv ts"
  shows "token_inv (sql_update p (\<lambda>r. r\<lparr>rt_revoked_at := Some now\<rparr>) ts)"
proof -
  let ?f = "\<lambda>r. r\<lparr>rt_revoked_at := Some now\<rparr>"
  have "map rt_id (sql_update p ?f ts) = map rt_id ts" "map rt_token_hash (sql_update p ?f ts) = map rt_token_hash ts"
    by (simp_all add: keys_update)
  moreover have "family_rule a b" if "a \<in> set (sql_update p ?f ts)" "b \<in> set (sql_update p ?f ts)" for a b
  proof -
    note member = that
    obtain a0 b0 where "a0 \<in> set ts" "a = (if p a0 then ?f a0 else a0)" "b0 \<in> set ts" "b = (if p b0 then ?f b0 else b0)"
      using set_sql_update [OF member(1)] set_sql_update [OF member(2)] by blast
    then show ?thesis using assms family_rule_revoked [of a0 b0] by (simp add: token_inv_def)
  qed
  moreover have "rt_family_id a \<noteq> []" if "a \<in> set (sql_update p ?f ts)" for a
    using that assms by (auto simp: token_inv_def dest!: set_sql_update split: if_splits)
  ultimately show ?thesis using assms unfolding token_inv_def by metis
qed

lemma token_inv_insert:
  assumes "token_inv ts" "sql_insert rt_token_hash r ts = Some ts'" "rt_id r = fresh_id rt_id ts"
    "rt_family_id r \<noteq> []"
    "\<And>a. a \<in> set ts \<Longrightarrow> related a r \<Longrightarrow> rt_user_id a = rt_user_id r \<and> \<not> live a"
  shows "token_inv ts'"
proof -
  have e: "ts' = ts @ [r]" using assms(2) by (auto simp: sql_insert_def split: if_splits)
  have "distinct (map rt_token_hash ts')" using keys_insert [OF assms(2)] assms(1) by (simp add: token_inv_def)
  moreover have "distinct (map rt_id ts')"
    using insert_fresh_distinct [OF _ assms(2,3)] assms(1) by (simp add: token_inv_def)
  moreover have "family_rule a r \<and> family_rule r a" if "a \<in> set ts" for a
    using assms(5) [OF that] by (auto simp: family_rule_def related_def)
  moreover have "family_rule r r" by (simp add: family_rule_def)
  ultimately show ?thesis using assms(1,4) e by (auto simp: token_inv_def)
qed

section \<open>Accounts\<close>

definition account_inv :: "auth_db \<Rightarrow> bool" where
  "account_inv db \<longleftrightarrow> distinct (map u_id (users db)) \<and> distinct (map u_public_id (users db))
     \<and> distinct (map u_email (users db))
     \<and> distinct (map o_id (organizations db)) \<and> distinct (map o_public_id (organizations db))
     \<and> distinct (map (\<lambda>m. (m_user_id m, m_organization_id m)) (memberships db))
     \<and> distinct (map iv_id (invitations db)) \<and> distinct (map iv_token_hash (invitations db))"

definition auth_inv :: "auth_db \<Rightarrow> bool" where
  "auth_inv db \<longleftrightarrow> account_inv db \<and> token_inv (tokens db)"

lemma empty_auth_inv: "auth_inv empty_auth"
  by (simp add: auth_inv_def account_inv_def token_inv_Nil empty_auth_def)

lemma account_inv_frame:
  assumes "users db' = users db" "organizations db' = organizations db" "memberships db' = memberships db"
    "invitations db' = invitations db"
  shows "account_inv db' = account_inv db"
  using assms by (simp add: account_inv_def)

lemma account_inv_users:
  assumes "\<And>u. u_id (f u) = u_id u \<and> u_public_id (f u) = u_public_id u \<and> u_email (f u) = u_email u"
  shows "account_inv (db\<lparr>users := sql_update p f (users db)\<rparr>) = account_inv db"
  using assms by (simp add: account_inv_def keys_update)

lemma issue_Inr:
  assumes "issue env dw u org r family cl t db = Inr (s, db')"
  shows "sql_insert rt_token_hash (new_token env dw (u_id u) family cl t db) (tokens db) = Some (tokens db')
    \<and> users db' = users db \<and> organizations db' = organizations db \<and> memberships db' = memberships db
    \<and> invitations db' = invitations db \<and> is_refresh_token s = dw_refresh dw
    \<and> encode_access_token env (claims_for dw u org r) t = Some (is_access_token s)
    \<and> is_user s = u \<and> is_organization s = org \<and> is_role s = r"
  using assms by (auto simp: issue_def split: option.splits)

lemma new_token_simps [simp]:
  "rt_id (new_token env dw uid family cl t db) = fresh_id rt_id (tokens db)"
  "rt_user_id (new_token env dw uid family cl t db) = uid"
  "rt_token_hash (new_token env dw uid family cl t db) = ae_sha256 env (dw_refresh dw)"
  "rt_family_id (new_token env dw uid family cl t db) = str_or family (dw_family dw)"
  "rt_revoked_at (new_token env dw uid family cl t db) = None"
  "rt_expires_at (new_token env dw uid family cl t db) = refresh_token_expiry t"
  by (simp_all add: new_token_def)

lemma issue_new_family:
  assumes "issue env dw u org r None cl t db = Inr (s, db')" "auth_inv db"
    "dw_family dw \<noteq> []" "dw_family dw \<notin> rt_family_id ` set (tokens db)"
  shows "auth_inv db'"
proof -
  note i = issue_Inr [OF assms(1)]
  have "token_inv (tokens db')"
  proof (rule token_inv_insert [of "tokens db" "new_token env dw (u_id u) None cl t db"])
    fix a assume "a \<in> set (tokens db)" "related a (new_token env dw (u_id u) None cl t db)"
    then have "dw_family dw \<in> rt_family_id ` set (tokens db)"
      by (intro rev_image_eqI [of a]) (simp_all add: related_def str_or_def)
    with assms(4) show "rt_user_id a = rt_user_id (new_token env dw (u_id u) None cl t db) \<and> \<not> live a" by simp
  next
    show "token_inv (tokens db)" using assms(2) by (simp add: auth_inv_def)
    show "sql_insert rt_token_hash (new_token env dw (u_id u) None cl t db) (tokens db) = Some (tokens db')"
      using i by blast
  qed (simp_all add: str_or_def assms(3))
  moreover have "account_inv db'" using i assms(2) account_inv_frame [of db' db] by (simp add: auth_inv_def)
  ultimately show ?thesis by (simp add: auth_inv_def)
qed

lemma new_organization_Some:
  assumes "new_organization_for dw email db = Some (org, r, db')"
  shows "r = OWNER \<and> o_id org = fresh_id o_id (organizations db)
    \<and> sql_insert o_public_id org (organizations db) = Some (organizations db')
    \<and> users db' = users db \<and> memberships db' = memberships db \<and> tokens db' = tokens db
    \<and> invitations db' = invitations db"
  using assms by (auto simp: new_organization_for_def Let_def split: if_splits)

lemma redeem_Inr:
  assumes "redeem_invitation env token email now db = Inr (org, r, db')"
  obtains iv where "row_of iv_token_hash (invitations db) (ae_sha256 env token) = Some iv"
    "now < iv_expires_at iv" "iv_accepted_at iv = None" "iv_email iv = normalize_email email"
    "row_of o_id (organizations db) (iv_organization_id iv) = Some org" "r = iv_role iv"
    "db' = db\<lparr>invitations := sql_update (\<lambda>i. iv_id i = iv_id iv) (\<lambda>i. i\<lparr>iv_accepted_at := Some now\<rparr>) (invitations db)\<rparr>"
  using assms by (auto simp: redeem_invitation_def split: option.splits if_splits)

lemma insert_user_Some:
  "insert_user u t = Some t' \<Longrightarrow> sql_insert u_email u t = Some t' \<and> u_public_id u \<notin> u_public_id ` set t"
  by (simp add: insert_user_def split: if_splits)

section \<open>The operations as steps\<close>

definition fresh_family :: "draws \<Rightarrow> auth_db \<Rightarrow> bool" where
  "fresh_family dw db \<longleftrightarrow> dw_family dw \<noteq> [] \<and> dw_family dw \<notin> rt_family_id ` set (tokens db)"

inductive auth_step :: "auth_env \<Rightarrow> auth_db \<Rightarrow> auth_db \<Rightarrow> bool" for env where
  registers: "register env dw email pw name offer cl now t db = Inr (s, db') \<Longrightarrow> fresh_family dw db \<Longrightarrow> auth_step env db db'"
| signs_in: "authenticate env dw email pw cl now t db = Inr (s, db') \<Longrightarrow> fresh_family dw db \<Longrightarrow> auth_step env db db'"
| rotates: "rotate_refresh_token env dw presented cl now t db = (r, db') \<Longrightarrow> auth_step env db db'"
| signs_out: "revoke_token env presented now db = (b, db') \<Longrightarrow> auth_step env db db'"
| signs_out_everywhere: "auth_step env db (revoke_all_sessions uid now db)"
| invites: "create_invitation env dw org email r user now db = Inr (x, db') \<Longrightarrow> auth_step env db db'"

inductive auth_reachable :: "auth_env \<Rightarrow> auth_db \<Rightarrow> bool" for env where
  empty: "auth_reachable env empty_auth"
| step: "auth_reachable env db \<Longrightarrow> auth_step env db db' \<Longrightarrow> auth_reachable env db'"

text \<open>What a successful registration does, table by table.\<close>

lemma register_Inr:
  assumes "register env dw email pw name offer cl now t db = Inr (s, db')"
  obtains org r db1 u us ms db2 where "row_of u_email (users db) (normalize_email email) = None"
    "(\<exists>c cs. offer = Some (c # cs) \<and> redeem_invitation env (c # cs) (normalize_email email) now db = Inr (org, r, db1))
     \<or> ((offer = None \<or> offer = Some []) \<and> new_organization_for dw (normalize_email email) db = Some (org, r, db1))"
    "u_id u = fresh_id u_id (users db1)" "u_public_id u = dw_user dw" "u_email u = normalize_email email"
    "insert_user u (users db1) = Some us"
    "sql_insert (\<lambda>m. (m_user_id m, m_organization_id m))
       \<lparr>m_user_id = u_id u, m_organization_id = o_id org, m_role = r\<rparr> (memberships db1) = Some ms"
    "db2 = db1\<lparr>users := us, memberships := ms\<rparr>" "issue env dw u org r None cl t db2 = Inr (s, db')"
proof -
  have none: "row_of u_email (users db) (normalize_email email) = None"
    using assms by (auto simp: register_def Let_def split: option.splits)
  define start where "start = (case offer of
       Some (c # cs) \<Rightarrow> redeem_invitation env (c # cs) (normalize_email email) now db
     | _ \<Rightarrow> (case new_organization_for dw (normalize_email email) db of None \<Rightarrow> Inl AuthIntegrity | Some x \<Rightarrow> Inr x))"
  obtain org r db1 where st: "start = Inr (org, r, db1)"
    using assms none by (auto simp: register_def Let_def start_def [symmetric] split: sum.splits)
  have how: "(\<exists>c cs. offer = Some (c # cs) \<and> redeem_invitation env (c # cs) (normalize_email email) now db = Inr (org, r, db1))
     \<or> ((offer = None \<or> offer = Some []) \<and> new_organization_for dw (normalize_email email) db = Some (org, r, db1))"
    using st by (auto simp: start_def split: option.splits list.splits)
  let ?u = "\<lparr>u_id = fresh_id u_id (users db1), u_public_id = dw_user dw, u_email = normalize_email email,
    u_password_hash = Some (ae_hash_password env pw), u_full_name = name, u_is_active = True,
    u_token_version = 0, u_last_login_at = None\<rparr>"
  have "\<exists>us ms. insert_user ?u (users db1) = Some us \<and> sql_insert (\<lambda>m. (m_user_id m, m_organization_id m))
       \<lparr>m_user_id = u_id ?u, m_organization_id = o_id org, m_role = r\<rparr> (memberships db1) = Some ms
       \<and> issue env dw ?u org r None cl t (db1\<lparr>users := us, memberships := ms\<rparr>) = Inr (s, db')"
    using assms none st by (auto simp: register_def Let_def start_def [symmetric] split: option.splits)
  then show thesis using that [OF none how, of ?u] by auto
qed

lemma authenticate_Inr:
  assumes "authenticate env dw email pw cl now t db = Inr (s, db')"
  obtains u m org us where "row_of u_email (users db) (normalize_email email) = Some u"
    "verify_password env pw (u_password_hash u)" "u_is_active u" "membership_of (u_id u) db = Some (m, org)"
    "us = sql_update (\<lambda>x. u_id x = u_id u) (\<lambda>x. x\<lparr>u_last_login_at := Some now\<rparr>) (users db)"
    "issue env dw (u\<lparr>u_last_login_at := Some now\<rparr>) org (m_role m) None cl t (db\<lparr>users := us\<rparr>) = Inr (s, db')"
proof (cases "row_of u_email (users db) (normalize_email email)")
  case None
  with assms show thesis by (auto simp: authenticate_def split: if_splits)
next
  case (Some u)
  then have v: "verify_password env pw (u_password_hash u)" "u_is_active u"
    using assms by (auto simp: authenticate_def split: if_splits)
  obtain m org where "membership_of (u_id u) db = Some (m, org)"
    using assms Some v by (cases "membership_of (u_id u) db") (auto simp: authenticate_def)
  with assms Some v that show thesis by (auto simp: authenticate_def Let_def)
qed

lemma rotate_Inr:
  assumes "rotate_with stored env dw cl now t db = (Inr s, db')"
  obtains r u m org where "stored = Some r" "live r" "now < rt_expires_at r"
    "row_of u_id (users db) (rt_user_id r) = Some u" "u_is_active u" "membership_of (u_id u) db = Some (m, org)"
    "issue env dw u org (m_role m) (Some (rt_family_id r)) cl t (revoke_id (rt_id r) now db) = Inr (s, db')"
  using assms by (auto simp: rotate_with_def split: option.splits if_splits sum.splits prod.splits)

lemma rotate_Inl:
  assumes "rotate_with stored env dw cl now t db = (Inl e, db')"
  shows "db' = db \<or> (\<exists>r. stored = Some r \<and> \<not> live r \<and> e = InvalidCredentials \<and> db' = revoke_family (rt_family_id r) now db)"
  using assms by (auto simp: rotate_with_def split: option.splits if_splits sum.splits prod.splits)

section \<open>Every step keeps the invariant\<close>

lemma revoking_inv: "auth_inv db \<Longrightarrow> auth_inv (revoke_id i now db) \<and> auth_inv (revoke_family f now db)"
  using token_inv_revoke [of "tokens db"] account_inv_frame [of _ db]
  by (simp add: auth_inv_def revoke_id_def revoke_family_def account_inv_def)

lemma new_organization_inv:
  assumes "new_organization_for dw email db = Some (org, r, db')" "auth_inv db"
  shows "auth_inv db' \<and> tokens db' = tokens db"
proof -
  note o = new_organization_Some [OF assms(1)]
  then have ins: "sql_insert o_public_id org (organizations db) = Some (organizations db')" by blast
  have "distinct (map o_public_id (organizations db'))" "distinct (map o_id (organizations db'))"
    using keys_insert [OF ins] insert_fresh_distinct [OF _ ins] o assms(2)
    by (simp_all add: auth_inv_def account_inv_def)
  with o assms(2) show ?thesis by (simp add: auth_inv_def account_inv_def)
qed

lemma redeem_inv:
  assumes "redeem_invitation env token email now db = Inr (org, r, db')" "auth_inv db"
  shows "auth_inv db' \<and> tokens db' = tokens db \<and> users db' = users db \<and> organizations db' = organizations db
    \<and> memberships db' = memberships db"
proof -
  obtain iv :: invitation where "db' = db\<lparr>invitations := sql_update (\<lambda>i. iv_id i = iv_id iv)
      (\<lambda>i. i\<lparr>iv_accepted_at := Some now\<rparr>) (invitations db)\<rparr>"
    by (rule redeem_Inr [OF assms(1)]) (erule that)
  with assms(2) show ?thesis by (simp add: auth_inv_def account_inv_def keys_update)
qed

lemma register_inv:
  assumes "register env dw email pw name offer cl now t db = Inr (s, db')" "fresh_family dw db" "auth_inv db"
  shows "auth_inv db'"
proof -
  obtain org r db1 u us ms db2 where start:
    "(\<exists>c cs. offer = Some (c # cs) \<and> redeem_invitation env (c # cs) (normalize_email email) now db = Inr (org, r, db1))
     \<or> ((offer = None \<or> offer = Some []) \<and> new_organization_for dw (normalize_email email) db = Some (org, r, db1))"
    and u: "u_id u = fresh_id u_id (users db1)" "insert_user u (users db1) = Some us"
    and m: "sql_insert (\<lambda>m. (m_user_id m, m_organization_id m))
       \<lparr>m_user_id = u_id u, m_organization_id = o_id org, m_role = r\<rparr> (memberships db1) = Some ms"
    and db2: "db2 = db1\<lparr>users := us, memberships := ms\<rparr>" "issue env dw u org r None cl t db2 = Inr (s, db')"
    by (rule register_Inr [OF assms(1)]) (rule that; assumption)
  have one: "auth_inv db1 \<and> tokens db1 = tokens db"
    using start redeem_inv [OF _ assms(3)] new_organization_inv [OF _ assms(3)] by blast
  note iu = insert_user_Some [OF u(2)]
  have "distinct (map u_id us)" "distinct (map u_email us)"
    using insert_fresh_distinct [of u_id "users db1" u_email u us] keys_insert [of u_email u "users db1" us] iu u(1) one
    by (simp_all add: auth_inv_def account_inv_def)
  moreover have "distinct (map u_public_id us)"
    using iu one by (auto simp: auth_inv_def account_inv_def sql_insert_def split: if_splits)
  moreover have "distinct (map (\<lambda>m. (m_user_id m, m_organization_id m)) ms)"
    using keys_insert [OF m] one by (simp add: auth_inv_def account_inv_def)
  ultimately have "auth_inv db2" using conjunct1 [OF one] db2(1) by (simp add: auth_inv_def account_inv_def)
  then show ?thesis
    using issue_new_family [OF db2(2)] assms(2) one db2(1) by (simp add: fresh_family_def)
qed

lemma authenticate_inv:
  assumes "authenticate env dw email pw cl now t db = Inr (s, db')" "fresh_family dw db" "auth_inv db"
  shows "auth_inv db'"
proof -
  obtain u :: user and m :: membership and org us where u: "us = sql_update (\<lambda>x. u_id x = u_id u) (\<lambda>x. x\<lparr>u_last_login_at := Some now\<rparr>) (users db)"
    and i: "issue env dw (u\<lparr>u_last_login_at := Some now\<rparr>) org (m_role m) None cl t (db\<lparr>users := us\<rparr>) = Inr (s, db')"
    by (rule authenticate_Inr [OF assms(1)]) (erule (1) that)
  have "auth_inv (db\<lparr>users := us\<rparr>)" using assms(3) by (simp add: u auth_inv_def account_inv_users)
  then show ?thesis using issue_new_family [OF i] assms(2) by (simp add: fresh_family_def)
qed

lemma rotate_inv:
  assumes "rotate_refresh_token env dw presented cl now t db = (res, db')" "auth_inv db"
  shows "auth_inv db'"
proof (cases res)
  case (Inl e)
  then show ?thesis
    using rotate_Inl [of "presented_row env presented db" env dw cl now t db e db'] assms revoking_inv
    by (auto simp: rotate_refresh_token_def)
next
  case (Inr s)
  then have rot: "rotate_with (presented_row env presented db) env dw cl now t db = (Inr s, db')"
    using assms(1) by (simp add: rotate_refresh_token_def)
  obtain r u and m :: membership and org where r: "presented_row env presented db = Some r" "live r"
    and u: "row_of u_id (users db) (rt_user_id r) = Some u"
    and i: "issue env dw u org (m_role m) (Some (rt_family_id r)) cl t (revoke_id (rt_id r) now db) = Inr (s, db')"
    by (rule rotate_Inr [OF rot]) (rule that; assumption)
  let ?db1 = "revoke_id (rt_id r) now db"
  have inT: "r \<in> set (tokens db)" using r(1) by (auto simp: presented_row_def dest: row_of_SomeD)
  have uid: "u_id u = rt_user_id r" using row_of_SomeD [OF u] by simp
  have ti: "token_inv (tokens db)" using assms(2) by (simp add: auth_inv_def)
  then have fam: "rt_family_id r \<noteq> []" using inT by (simp add: token_inv_def)
  have "token_inv (tokens db')"
  proof (rule token_inv_insert [of "tokens ?db1" "new_token env dw (u_id u) (Some (rt_family_id r)) cl t ?db1"])
    show "token_inv (tokens ?db1)" using revoking_inv [OF assms(2)] by (simp add: auth_inv_def)
    show "sql_insert rt_token_hash (new_token env dw (u_id u) (Some (rt_family_id r)) cl t ?db1) (tokens ?db1) = Some (tokens db')"
      using issue_Inr [OF i] by simp
  next
    fix a assume a: "a \<in> set (tokens ?db1)" "related a (new_token env dw (u_id u) (Some (rt_family_id r)) cl t ?db1)"
    then obtain a0 where a0: "a0 \<in> set (tokens db)" "a = (if rt_id a0 = rt_id r then a0\<lparr>rt_revoked_at := Some now\<rparr> else a0)"
      by (auto simp: revoke_id_def dest: set_sql_update)
    then have "related a0 r" using a(2) fam by (auto simp: related_def str_or_def split: if_splits)
    then have "rt_user_id a0 = rt_user_id r \<and> (live a0 \<longrightarrow> a0 = r)"
      using ti a0(1) inT r(2) by (auto simp: token_inv_def family_rule_def)
    then show "rt_user_id a = rt_user_id (new_token env dw (u_id u) (Some (rt_family_id r)) cl t ?db1) \<and> \<not> live a"
      using a0(2) uid by auto
  qed (simp_all add: fam str_or_def)
  moreover have "account_inv db'"
    using issue_Inr [OF i] assms(2) account_inv_frame [of db' db] by (simp add: auth_inv_def revoke_id_def)
  ultimately show ?thesis by (simp add: auth_inv_def)
qed

lemma revoke_all_inv: "auth_inv db \<Longrightarrow> auth_inv (revoke_all_sessions uid now db)"
  using token_inv_revoke [of "tokens db"]
  by (simp add: auth_inv_def account_inv_def revoke_all_sessions_def keys_update)

lemma create_invitation_inv:
  assumes "create_invitation env dw org email r user now db = Inr (x, db')" "auth_inv db"
  shows "auth_inv db'"
proof -
  obtain iv t where i: "sql_insert iv_token_hash iv (invitations db) = Some t"
    "iv_id iv = fresh_id iv_id (invitations db)" "db' = db\<lparr>invitations := t\<rparr>"
    using assms(1) by (auto simp: create_invitation_def Let_def split: option.splits)
  have "distinct (map iv_id t)" "distinct (map iv_token_hash t)"
    using insert_fresh_distinct [OF _ i(1,2)] keys_insert [OF i(1)] assms(2) by (simp_all add: auth_inv_def account_inv_def)
  with assms(2) i(3) show ?thesis by (simp add: auth_inv_def account_inv_def)
qed

lemma revoke_token_inv:
  assumes "revoke_token env presented now db = (b, db')" "auth_inv db"
  shows "auth_inv db'"
  using assms revoking_inv [OF assms(2)] by (auto simp: revoke_token_def split: option.splits if_splits)

lemma auth_step_inv: "auth_step env db db' \<Longrightarrow> auth_inv db \<Longrightarrow> auth_inv db'"
  by (induction rule: auth_step.induct)
    (auto intro: register_inv authenticate_inv rotate_inv revoke_token_inv revoke_all_inv create_invitation_inv)

lemma auth_reachable_inv: "auth_reachable env db \<Longrightarrow> auth_inv db"
  by (induction rule: auth_reachable.induct) (auto intro: empty_auth_inv auth_step_inv)

section \<open>What no later step undoes\<close>

definition user_le :: "user \<Rightarrow> user \<Rightarrow> bool" where
  "user_le u v \<longleftrightarrow> u_id v = u_id u \<and> u_public_id v = u_public_id u \<and> u_email v = u_email u
     \<and> u_token_version u \<le> u_token_version v"

definition token_le :: "refresh_token \<Rightarrow> refresh_token \<Rightarrow> bool" where
  "token_le a b \<longleftrightarrow> rt_id b = rt_id a \<and> rt_token_hash b = rt_token_hash a \<and> rt_family_id b = rt_family_id a
     \<and> rt_user_id b = rt_user_id a \<and> (\<not> live a \<longrightarrow> \<not> live b)"

definition invitation_le :: "invitation \<Rightarrow> invitation \<Rightarrow> bool" where
  "invitation_le i j \<longleftrightarrow> iv_id j = iv_id i \<and> iv_token_hash j = iv_token_hash i
     \<and> (iv_accepted_at i \<noteq> None \<longrightarrow> iv_accepted_at j \<noteq> None)"

definition later :: "auth_db \<Rightarrow> auth_db \<Rightarrow> bool" where
  "later db db' \<longleftrightarrow> rows_le user_le (users db) (users db') \<and> rows_le token_le (tokens db) (tokens db')
     \<and> rows_le invitation_le (invitations db) (invitations db')"

lemma user_le_refl [simp]: "user_le u u" by (simp add: user_le_def)
lemma token_le_refl [simp]: "token_le a a" by (simp add: token_le_def)
lemma invitation_le_refl [simp]: "invitation_le i i" by (simp add: invitation_le_def)

lemma later_user: "later db db' \<Longrightarrow> u \<in> set (users db) \<Longrightarrow> \<exists>v \<in> set (users db'). user_le u v"
  by (simp add: later_def rows_le_def)

lemma later_token: "later db db' \<Longrightarrow> r \<in> set (tokens db) \<Longrightarrow> \<exists>q \<in> set (tokens db'). token_le r q"
  by (simp add: later_def rows_le_def)

lemma later_invitation:
  "later db db' \<Longrightarrow> i \<in> set (invitations db) \<Longrightarrow> \<exists>j \<in> set (invitations db'). invitation_le i j"
  by (simp add: later_def rows_le_def)

lemma later_refl [simp]: "later db db"
  by (simp add: later_def rows_le_refl)

lemma later_trans:
  assumes "later a b" "later b c"
  shows "later a c"
  unfolding later_def
proof (intro conjI)
  show "rows_le user_le (users a) (users c)"
    by (rule rows_le_trans [of user_le _ "users b"]) (use assms in \<open>auto simp: later_def user_le_def\<close>)
  show "rows_le token_le (tokens a) (tokens c)"
    by (rule rows_le_trans [of token_le _ "tokens b"]) (use assms in \<open>auto simp: later_def token_le_def\<close>)
  show "rows_le invitation_le (invitations a) (invitations c)"
    by (rule rows_le_trans [of invitation_le _ "invitations b"]) (use assms in \<open>auto simp: later_def invitation_le_def\<close>)
qed

lemma later_revoke: "later db (revoke_id i now db)" "later db (revoke_family f now db)"
  by (auto simp: later_def revoke_id_def revoke_family_def token_le_def intro!: rows_le_refl rows_le_update)

lemma later_issue: "issue env dw u org r family cl t db = Inr (s, db') \<Longrightarrow> later db db'"
  using issue_Inr [of env dw u org r family cl t db s db'] rows_le_insert [of token_le]
  by (auto simp: later_def intro: rows_le_refl)

lemma later_start:
  assumes "(\<exists>c cs. offer = Some (c # cs) \<and> redeem_invitation env (c # cs) email now db = Inr (org, r, db1))
     \<or> ((offer = None \<or> offer = Some []) \<and> new_organization_for dw email db = Some (org, r, db1))"
  shows "later db db1"
  using assms
proof (elim disjE exE conjE)
  fix c cs assume "redeem_invitation env (c # cs) email now db = Inr (org, r, db1)"
  then show ?thesis
    by (rule redeem_Inr) (auto simp: later_def invitation_le_def intro!: rows_le_refl rows_le_update)
qed (auto dest!: new_organization_Some simp: later_def rows_le_refl)

lemma later_register:
  assumes "register env dw email pw name offer cl now t db = Inr (s, db')"
  shows "later db db'"
proof -
  obtain org r db1 u us ms db2 where start:
    "(\<exists>c cs. offer = Some (c # cs) \<and> redeem_invitation env (c # cs) (normalize_email email) now db = Inr (org, r, db1))
     \<or> ((offer = None \<or> offer = Some []) \<and> new_organization_for dw (normalize_email email) db = Some (org, r, db1))"
    and u: "insert_user u (users db1) = Some us"
    and db2: "db2 = db1\<lparr>users := us, memberships := ms\<rparr>" "issue env dw u org r None cl t db2 = Inr (s, db')"
    by (rule register_Inr [OF assms]) (rule that; assumption)
  have "later db1 db2"
    using rows_le_insert [of user_le u_email u "users db1" us] insert_user_Some [OF u] db2(1)
    by (simp add: later_def rows_le_refl)
  then show ?thesis using later_start [OF start] later_issue [OF db2(2)] later_trans by blast
qed

lemma later_authenticate:
  assumes "authenticate env dw email pw cl now t db = Inr (s, db')"
  shows "later db db'"
proof -
  obtain u :: user and m :: membership and org us where u: "us = sql_update (\<lambda>x. u_id x = u_id u) (\<lambda>x. x\<lparr>u_last_login_at := Some now\<rparr>) (users db)"
    and i: "issue env dw (u\<lparr>u_last_login_at := Some now\<rparr>) org (m_role m) None cl t (db\<lparr>users := us\<rparr>) = Inr (s, db')"
    by (rule authenticate_Inr [OF assms]) (erule (1) that)
  have "later db (db\<lparr>users := us\<rparr>)"
    by (auto simp: u later_def user_le_def intro!: rows_le_refl rows_le_update)
  then show ?thesis using later_issue [OF i] later_trans by blast
qed

lemma later_rotate:
  assumes "rotate_with stored env dw cl now t db = (res, db')"
  shows "later db db'"
proof (cases res)
  case (Inl e)
  then show ?thesis using rotate_Inl [of stored env dw cl now t db e db'] assms later_revoke by auto
next
  case (Inr s)
  with assms have "rotate_with stored env dw cl now t db = (Inr s, db')" by simp
  then show ?thesis by (rule rotate_Inr) (use later_revoke later_issue later_trans in blast)
qed

lemma auth_step_later: "auth_step env db db' \<Longrightarrow> later db db'"
proof (induction rule: auth_step.induct)
  case (rotates dw presented cl now t db r db')
  then show ?case unfolding rotate_refresh_token_def by (rule later_rotate)
next
  case (signs_out presented now db b db')
  then show ?case using later_revoke by (auto simp: revoke_token_def split: option.splits if_splits)
next
  case (signs_out_everywhere db uid now)
  show ?case
    by (auto simp: later_def revoke_all_sessions_def user_le_def token_le_def intro!: rows_le_refl rows_le_update)
next
  case (invites dw org email r user now db x db')
  then show ?case
    by (auto simp: create_invitation_def Let_def later_def rows_le_refl
        intro: rows_le_insert [of invitation_le] split: option.splits)
qed (auto intro: later_register later_authenticate)

lemma auth_steps_later: "(auth_step env)\<^sup>*\<^sup>* db db' \<Longrightarrow> later db db'"
  by (induction rule: rtranclp_induct) (auto intro: later_trans auth_step_later)

lemma auth_steps_inv: "(auth_step env)\<^sup>*\<^sup>* db db' \<Longrightarrow> auth_inv db \<Longrightarrow> auth_inv db'"
  by (induction rule: rtranclp_induct) (auto intro: auth_step_inv)

end
