(* ===== verification/RateLimit.thy ===== *)
theory RateLimit
  imports PyText
begin

text \<open>
  \<^verbatim>\<open>api/rate_limit.py\<close>, the in-process limiter: a sliding window of attempts per caller. The
  clock is an argument of every call; its readings are rational numbers of seconds. The
  dictionary of windows is an association list in insertion order.
\<close>

type_synonym windows = "(string \<times> rat list) list"

record limiter =
  rl_max_attempts :: nat
  rl_window :: rat
  rl_max_keys :: nat
  rl_attempts :: windows

definition new_limiter :: "nat \<Rightarrow> rat \<Rightarrow> nat \<Rightarrow> limiter" where
  "new_limiter attempts window keys = \<lparr>rl_max_attempts = attempts, rl_window = window,
     rl_max_keys = keys, rl_attempts = []\<rparr>"

definition default_max_keys :: nat where
  "default_max_keys = 10000"

definition login_limiter :: limiter where
  "login_limiter = new_limiter 5 (15 * 60) default_max_keys"

definition registration_limiter :: limiter where
  "registration_limiter = new_limiter 10 (60 * 60) default_max_keys"

definition drop_key :: "string \<Rightarrow> windows \<Rightarrow> windows" where
  "drop_key k ws = filter (\<lambda>p. fst p \<noteq> k) ws"

fun put_key :: "string \<Rightarrow> rat list \<Rightarrow> windows \<Rightarrow> windows" where
  "put_key k w [] = [(k, w)]"
| "put_key k w ((k', w') # ws) = (if k' = k then (k, w) # ws else (k', w') # put_key k w ws)"

definition prune :: "string \<Rightarrow> rat \<Rightarrow> rat \<Rightarrow> windows \<Rightarrow> rat list option \<times> windows" where
  "prune k now window ws = (case map_of ws k of
       None \<Rightarrow> (None, ws)
     | Some w \<Rightarrow> (let w' = dropWhile (\<lambda>t. t \<le> now - window) w in
         if w' = [] then (None, drop_key k ws) else (Some w', put_key k w' ws)))"

definition evict_expired :: "rat \<Rightarrow> rat \<Rightarrow> windows \<Rightarrow> windows" where
  "evict_expired now window ws = filter (\<lambda>(k, w). \<not> last w \<le> now - window) ws"

definition check_limit :: "limiter \<Rightarrow> string \<Rightarrow> rat \<Rightarrow> int option \<times> limiter" where
  "check_limit l k now = (case prune k now (rl_window l) (rl_attempts l) of
       (None, ws) \<Rightarrow> (None, l\<lparr>rl_attempts := ws\<rparr>)
     | (Some w, ws) \<Rightarrow>
         (if length w < rl_max_attempts l then None else Some (max 1 \<lfloor>hd w + rl_window l - now\<rfloor>),
          l\<lparr>rl_attempts := ws\<rparr>))"

text \<open>The least recently active key, the first of them in insertion order.\<close>

definition oldest_key :: "windows \<Rightarrow> string" where
  "oldest_key ws = (case ws of [] \<Rightarrow> [] | p # ps \<Rightarrow> fst (min_by (\<lambda>q. last (snd q)) p ps))"

definition record_attempt :: "limiter \<Rightarrow> string \<Rightarrow> rat \<Rightarrow> limiter" where
  "record_attempt l k now =
     (let ws0 = evict_expired now (rl_window l) (rl_attempts l);
          ws1 = put_key k ((case map_of ws0 k of None \<Rightarrow> [] | Some w \<Rightarrow> w) @ [now]) ws0;
          ws2 = snd (prune k now (rl_window l) ws1)
      in l\<lparr>rl_attempts := (if rl_max_keys l < length ws2 then drop_key (oldest_key ws2) ws2 else ws2)\<rparr>)"

definition login_key :: "string option \<Rightarrow> string \<Rightarrow> string" where
  "login_key ip email = ''login:'' @ str_or ip ''unknown'' @ '':'' @ lower (strip email)"

definition registration_key :: "string option \<Rightarrow> string" where
  "registration_key ip = ''register:'' @ str_or ip ''unknown''"

section \<open>The limiter against its history\<close>

text \<open>What happened: an attempt recorded or a check made for a key at a time.\<close>

datatype limit_event = Recorded string rat | Checked string rat

primrec event_time :: "limit_event \<Rightarrow> rat" where
  "event_time (Recorded k t) = t"
| "event_time (Checked k t) = t"

fun limit_run :: "limit_event list \<Rightarrow> limiter \<Rightarrow> limiter" where
  "limit_run [] l = l"
| "limit_run (Recorded k t # es) l = limit_run es (record_attempt l k t)"
| "limit_run (Checked k t # es) l = limit_run es (snd (check_limit l k t))"

definition attempts_of :: "string \<Rightarrow> limit_event list \<Rightarrow> rat list" where
  "attempts_of k es = List.map_filter (\<lambda>e. case e of Recorded k' t \<Rightarrow> if k' = k then Some t else None | Checked _ _ \<Rightarrow> None) es"

definition recorded_keys :: "limit_event list \<Rightarrow> string set" where
  "recorded_keys es = {k. \<exists>t. Recorded k t \<in> set es}"

definition win :: "windows \<Rightarrow> string \<Rightarrow> rat list" where
  "win ws k = (case map_of ws k of None \<Rightarrow> [] | Some w \<Rightarrow> w)"

abbreviation recent :: "rat \<Rightarrow> rat list \<Rightarrow> rat list" where
  "recent c ts \<equiv> filter (\<lambda>t. c < t) ts"

text \<open>Up to attempts that can no longer count at time \<open>now\<close>, the windows are the history.\<close>

definition tracks :: "rat \<Rightarrow> rat \<Rightarrow> rat list \<Rightarrow> rat list \<Rightarrow> bool" where
  "tracks window now w h \<longleftrightarrow> sorted w \<and> list_all (\<lambda>t. t \<le> now) w
     \<and> (\<forall>now' \<ge> now. recent (now' - window) w = recent (now' - window) h)"

definition follows :: "rat \<Rightarrow> rat \<Rightarrow> windows \<Rightarrow> (string \<Rightarrow> rat list) \<Rightarrow> bool" where
  "follows window now ws h \<longleftrightarrow> distinct (map fst ws) \<and> list_all (\<lambda>p. snd p \<noteq> []) ws
     \<and> (\<forall>k. tracks window now (win ws k) (h k))"

lemma map_of_put_key: "map_of (put_key k w ws) k' = (if k' = k then Some w else map_of ws k')"
  by (induction k w ws rule: put_key.induct) auto

lemma map_of_drop_key: "map_of (drop_key k ws) k' = (if k' = k then None else map_of ws k')"
  by (induction ws) (auto simp: drop_key_def)

lemma keys_put_key: "fst ` set (put_key k w ws) = insert k (fst ` set ws)"
  by (induction k w ws rule: put_key.induct) auto

lemma distinct_put_key: "distinct (map fst ws) \<Longrightarrow> distinct (map fst (put_key k w ws))"
proof (induction k w ws rule: put_key.induct)
  case (2 k w k' w' ws)
  then show ?case using keys_put_key [of k w ws] by auto
qed simp

lemma in_put_key: "p \<in> set (put_key k w ws) \<Longrightarrow> p = (k, w) \<or> p \<in> set ws"
  by (induction k w ws rule: put_key.induct) (auto split: if_splits)

lemma distinct_drop_key: "distinct (map fst ws) \<Longrightarrow> distinct (map fst (drop_key k ws))"
  by (simp add: drop_key_def distinct_map_filter)

lemma dropWhile_sorted: "sorted w \<Longrightarrow> dropWhile (\<lambda>t. t \<le> c) w = recent (c :: rat) w"
proof (induction w)
  case (Cons a w)
  then show ?case
  proof (cases "a \<le> c")
    case False
    with Cons have "recent c (a # w) = a # w" by (auto simp: filter_id_conv)
    with False show ?thesis by simp
  qed auto
qed simp

lemma recent_recent: "c \<le> d \<Longrightarrow> recent d (recent c ts) = recent (d :: rat) ts"
  by (auto intro!: filter_cong)

lemma tracks_later: "tracks window now w h \<Longrightarrow> now \<le> now' \<Longrightarrow> tracks window now' w h"
  by (auto simp: tracks_def list_all_iff)

lemma follows_later: "follows window now ws h \<Longrightarrow> now \<le> now' \<Longrightarrow> follows window now' ws h"
  by (auto simp: follows_def intro: tracks_later)

lemma win_drop_key: "win (drop_key k ws) k' = (if k' = k then [] else win ws k')"
  by (simp add: win_def map_of_drop_key)

lemma win_put_key: "win (put_key k w ws) k' = (if k' = k then w else win ws k')"
  by (simp add: win_def map_of_put_key)

lemma list_all_put_key: "list_all q ws \<Longrightarrow> q (k, w) \<Longrightarrow> list_all q (put_key k w ws)"
  by (auto simp: list_all_iff dest: in_put_key)

lemma tracks_recent:
  assumes "tracks window now w h"
  shows "dropWhile (\<lambda>t. t \<le> now - window) w = recent (now - window) h"
    and "tracks window now (recent (now - window) h) h"
proof -
  have same: "recent (now - window) w = recent (now - window) h" using assms by (simp add: tracks_def)
  then show "dropWhile (\<lambda>t. t \<le> now - window) w = recent (now - window) h"
    using assms dropWhile_sorted [of w] by (simp add: tracks_def)
  have "sorted w" using assms by (simp add: tracks_def)
  then have "sorted (recent (now - window) w)" using sorted_filter [of id w] by simp
  moreover have "list_all (\<lambda>t. t \<le> now) w" using assms by (simp add: tracks_def)
  then have "list_all (\<lambda>t. t \<le> now) (recent (now - window) w)" by (simp add: list_all_iff)
  moreover have "recent (now' - window) (recent (now - window) h) = recent (now' - window) h" if "now \<le> now'" for now'
    by (rule recent_recent) (use that in simp)
  ultimately show "tracks window now (recent (now - window) h) h" unfolding same by (simp add: tracks_def)
qed

lemma tracks_expired:
  assumes "tracks window now w h" "\<And>t. t \<in> set w \<Longrightarrow> t \<le> now - window"
  shows "tracks window now [] h"
proof -
  have "recent (now' - window) h = []" if "now \<le> now'" for now'
  proof -
    have "recent (now' - window) w = []" using assms(2) that by (fastforce simp: filter_empty_conv)
    then show ?thesis using assms(1) that by (simp add: tracks_def)
  qed
  then show ?thesis by (simp add: tracks_def)
qed

lemma prune_follows:
  assumes "follows window now ws h"
  shows "follows window now (snd (prune k now window ws)) h
    \<and> fst (prune k now window ws) =
        (if recent (now - window) (h k) = [] then None else Some (recent (now - window) (h k)))
    \<and> set (map fst (snd (prune k now window ws))) \<subseteq> set (map fst ws)"
proof (cases "map_of ws k")
  case None
  then have "recent (now - window) (h k) = []"
    using assms by (auto simp: follows_def tracks_def win_def dest!: spec [of _ k] spec [of _ now])
  then show ?thesis using assms None by (simp add: prune_def)
next
  case (Some w)
  let ?w = "dropWhile (\<lambda>t. t \<le> now - window) w"
  have t: "tracks window now w (h k)"
    using assms Some by (auto simp: follows_def win_def dest!: spec [of _ k])
  note h = tracks_recent(1) [OF t] and t' = tracks_recent(2) [OF t]
  have sub: "k \<in> fst ` set ws" using map_of_SomeD [OF Some] by force
  show ?thesis
  proof (cases "?w = []")
    case True
    have "prune k now window ws = (None, drop_key k ws)"
      unfolding prune_def Some Let_def option.case using True by (rule if_P)
    then have p: "snd (prune k now window ws) = drop_key k ws" "fst (prune k now window ws) = None"
      by simp_all
    have "tracks window now (win (drop_key k ws) k') (h k')" for k'
      using assms t' True h by (simp add: win_drop_key follows_def)
    then have "follows window now (drop_key k ws) h"
      using assms distinct_drop_key [of ws k] by (simp add: follows_def) (auto simp: drop_key_def list_all_iff)
    then show ?thesis using h True p by (auto simp: drop_key_def)
  next
    case False
    have "prune k now window ws = (Some ?w, put_key k ?w ws)"
      unfolding prune_def Some Let_def option.case using False by (rule if_not_P)
    then have p: "snd (prune k now window ws) = put_key k ?w ws" "fst (prune k now window ws) = Some ?w"
      by simp_all
    have "tracks window now (win (put_key k ?w ws) k') (h k')" for k'
      using assms t' h by (simp add: win_put_key follows_def)
    then have "follows window now (put_key k ?w ws) h"
      using assms False distinct_put_key [of ws k ?w] list_all_put_key [of "\<lambda>p. snd p \<noteq> []" ws k ?w]
      by (simp add: follows_def)
    then show ?thesis using p h False sub by (auto simp: keys_put_key)
  qed
qed

lemma sorted_le_last: "sorted w \<Longrightarrow> t \<in> set w \<Longrightarrow> t \<le> last (w :: rat list)"
  by (induction w) auto

lemma evict_follows:
  assumes "follows window now ws h"
  shows "follows window now (evict_expired now window ws) h
    \<and> set (map fst (evict_expired now window ws)) \<subseteq> set (map fst ws)"
proof -
  let ?e = "evict_expired now window ws"
  have d: "distinct (map fst ws)" "distinct (map fst ?e)"
    using assms by (simp_all add: follows_def evict_expired_def distinct_map_filter)
  have tr: "tracks window now (win ws k) (h k)" for k using assms by (simp add: follows_def)
  have "tracks window now (win ?e k) (h k)" for k
  proof (cases "map_of ws k")
    case None
    then have "map_of ?e k = None" by (auto simp: map_of_eq_None_iff evict_expired_def)
    with None tr [of k] show ?thesis by (simp add: win_def)
  next
    case (Some w)
    have kw: "(k, w) \<in> set ws" "win ws k = w" using map_of_SomeD [OF Some] Some by (simp_all add: win_def)
    show ?thesis
    proof (cases "last w \<le> now - window")
      case True
      have "map_of ?e k = None"
        using True d(1) kw by (auto simp: map_of_eq_None_iff evict_expired_def dest: eq_key_imp_eq_value)
      moreover have "tracks window now [] (h k)"
      proof (rule tracks_expired [of window now w])
        show "tracks window now w (h k)" using tr [of k] kw by simp
        show "t \<le> now - window" if "t \<in> set w" for t
          using sorted_le_last [of w t] that True tr [of k] kw by (simp add: tracks_def)
      qed
      ultimately show ?thesis by (simp add: win_def)
    next
      case False
      then have "(k, w) \<in> set ?e" using kw by (simp add: evict_expired_def)
      then have "win ?e k = w" using d(2) by (simp add: win_def)
      then show ?thesis using tr [of k] kw by simp
    qed
  qed
  then show ?thesis using assms d(2) by (auto simp: follows_def evict_expired_def list_all_iff)
qed

lemma record_follows:
  assumes "follows (rl_window l) now (rl_attempts l) h" "fst ` set (rl_attempts l) \<subseteq> K" "k \<in> K" "finite K"
    "card K \<le> rl_max_keys l"
  shows "follows (rl_window l) now (rl_attempts (record_attempt l k now)) (h(k := h k @ [now]))
    \<and> fst ` set (rl_attempts (record_attempt l k now)) \<subseteq> K"
proof -
  let ?W = "rl_window l"
  define ws0 where "ws0 = evict_expired now ?W (rl_attempts l)"
  define ws1 where "ws1 = put_key k (win ws0 k @ [now]) ws0"
  define ws2 where "ws2 = snd (prune k now ?W ws1)"
  have f0: "follows ?W now ws0 h" "fst ` set ws0 \<subseteq> K"
    using evict_follows [OF assms(1)] assms(2) unfolding ws0_def set_map by blast+
  have "tracks ?W now (win ws0 k @ [now]) (h k @ [now])"
    using f0(1) by (auto simp: follows_def tracks_def sorted_append list_all_iff)
  then have "tracks ?W now (win ws1 k') ((h(k := h k @ [now])) k')" for k'
    using f0(1) by (simp add: ws1_def win_put_key follows_def)
  then have f1: "follows ?W now ws1 (h(k := h k @ [now]))"
    using f0(1) distinct_put_key [of ws0 k] list_all_put_key [of "\<lambda>p. snd p \<noteq> []" ws0 k]
    by (simp add: follows_def ws1_def)
  have k1: "fst ` set ws1 \<subseteq> K" using f0(2) assms(3) by (simp add: ws1_def keys_put_key)
  have f2: "follows ?W now ws2 (h(k := h k @ [now]))" and k2: "fst ` set ws2 \<subseteq> K"
    using prune_follows [OF f1, of k] k1 unfolding ws2_def set_map by blast+
  have "distinct (map fst ws2)" using f2 by (simp add: follows_def)
  then have "length ws2 = card (fst ` set ws2)" by (metis distinct_card length_map list.set_map)
  then have "length ws2 \<le> rl_max_keys l" using card_mono [OF assms(4) k2] assms(5) by simp
  moreover have "record_attempt l k now = l\<lparr>rl_attempts := (if rl_max_keys l < length ws2
      then drop_key (oldest_key ws2) ws2 else ws2)\<rparr>"
    by (simp add: record_attempt_def Let_def ws0_def ws1_def ws2_def win_def)
  ultimately show ?thesis using f2 k2 by simp
qed

lemma new_limiter_simps [simp]:
  "rl_window (new_limiter n W keys) = W" "rl_max_keys (new_limiter n W keys) = keys"
  "rl_max_attempts (new_limiter n W keys) = n" "rl_attempts (new_limiter n W keys) = []"
  by (simp_all add: new_limiter_def)

lemma limit_run_frame [simp]:
  "rl_window (record_attempt l k t) = rl_window l" "rl_max_keys (record_attempt l k t) = rl_max_keys l"
  "rl_max_attempts (record_attempt l k t) = rl_max_attempts l"
  "rl_window (snd (check_limit l k t)) = rl_window l" "rl_max_keys (snd (check_limit l k t)) = rl_max_keys l"
  "rl_max_attempts (snd (check_limit l k t)) = rl_max_attempts l"
  by (simp_all add: record_attempt_def check_limit_def Let_def split: option.split prod.split)

lemma attempts_of_snoc:
  "attempts_of k (es @ [Recorded k' t]) = attempts_of k es @ (if k' = k then [t] else [])"
  "attempts_of k (es @ [Checked k' t]) = attempts_of k es"
  by (simp_all add: attempts_of_def map_filter_def)

lemma limit_run_snoc:
  "limit_run (es @ [Recorded k t]) l = record_attempt (limit_run es l) k t"
  "limit_run (es @ [Checked k t]) l = snd (check_limit (limit_run es l) k t)"
  by (induction es l rule: limit_run.induct) simp_all

lemma limit_run_keeps [simp]:
  "rl_window (limit_run es l) = rl_window l" "rl_max_keys (limit_run es l) = rl_max_keys l"
  "rl_max_attempts (limit_run es l) = rl_max_attempts l"
  by (induction es l rule: limit_run.induct) simp_all

lemma limit_run_follows:
  assumes "sorted (map event_time es)" "\<forall>t \<in> set (map event_time es). t \<le> now" "finite K" "recorded_keys es \<subseteq> K"
    "card K \<le> keys"
  shows "follows W now (rl_attempts (limit_run es (new_limiter n W keys))) (\<lambda>k. attempts_of k es)
    \<and> fst ` set (rl_attempts (limit_run es (new_limiter n W keys))) \<subseteq> K"
  using assms(1,2,4)
proof (induction es arbitrary: now rule: rev_induct)
  case Nil
  then show ?case by (simp add: follows_def tracks_def win_def attempts_of_def map_filter_def)
next
  case (snoc e es)
  let ?l = "limit_run es (new_limiter n W keys)"
  have IH: "follows W (event_time e) (rl_attempts ?l) (\<lambda>k. attempts_of k es)" "fst ` set (rl_attempts ?l) \<subseteq> K"
    using snoc by (auto simp: sorted_append recorded_keys_def)
  have W: "rl_window ?l = W" "rl_max_keys ?l = keys" by simp_all
  have le: "event_time e \<le> now" using snoc.prems(2) by simp
  show ?case
  proof (cases e)
    case (Recorded k t)
    have "k \<in> K" using snoc.prems(3) Recorded by (auto simp: recorded_keys_def)
    moreover have "(\<lambda>k. attempts_of k es)(k := attempts_of k es @ [t]) = (\<lambda>k. attempts_of k (es @ [e]))"
      by (simp add: fun_eq_iff Recorded attempts_of_snoc)
    ultimately show ?thesis
      using record_follows [of ?l t "\<lambda>k. attempts_of k es" K k] IH assms(3,5) W Recorded le
      by (auto simp: limit_run_snoc intro: follows_later)
  next
    case (Checked k t)
    have "rl_attempts (snd (check_limit ?l k t)) = snd (prune k t W (rl_attempts ?l))"
      by (simp add: check_limit_def W split: option.split prod.split)
    moreover have "(\<lambda>k. attempts_of k es) = (\<lambda>k. attempts_of k (es @ [e]))"
      by (simp add: fun_eq_iff Checked attempts_of_snoc)
    moreover have "fst ` set (snd (prune k t W (rl_attempts ?l))) \<subseteq> K"
      using prune_follows [of W t "rl_attempts ?l" "\<lambda>k. attempts_of k es" k] IH Checked
      unfolding set_map by (metis (no_types, lifting) event_time.simps(2) subset_trans)
    moreover have "follows W now (snd (prune k t W (rl_attempts ?l))) (\<lambda>k. attempts_of k es)"
      using prune_follows [of W t "rl_attempts ?l" "\<lambda>k. attempts_of k es" k] IH Checked le
      by (auto intro: follows_later)
    ultimately show ?thesis by (simp add: Checked limit_run_snoc)
  qed
qed

text \<open>A check therefore answers from the attempts of the last window and nothing else.\<close>

lemma check_limit_exact:
  assumes "sorted (map event_time es)" "\<forall>t \<in> set (map event_time es). t \<le> now" "finite (recorded_keys es)"
    "card (recorded_keys es) \<le> keys" "0 < n"
  shows "fst (check_limit (limit_run es (new_limiter n W keys)) k now) =
    (let ts = recent (now - W) (attempts_of k es) in
     if length ts < n then None else Some (max 1 \<lfloor>hd ts + W - now\<rfloor>))"
proof -
  let ?l = "limit_run es (new_limiter n W keys)"
  have f: "follows W now (rl_attempts ?l) (\<lambda>k. attempts_of k es)"
    using limit_run_follows [OF assms(1-3) subset_refl assms(4)] by blast
  have W: "rl_window ?l = W" "rl_max_attempts ?l = n" by simp_all
  show ?thesis
    using prune_follows [OF f, of k] assms(5)
    by (cases "prune k now W (rl_attempts ?l)") (auto simp: check_limit_def W Let_def)
qed

end
