(* ===== verification/AuthApi.thy ===== *)
theory AuthApi
  imports AuthFacts AuditTrail RateLimit
begin

text \<open>
  \<^verbatim>\<open>api/routers/auth.py\<close>: the endpoints over the authentication service, the rate limiters and
  the audit log. Readings of the limiter clock and of the wall clock are arguments. A
  response is the status of the reply with what it carries. For the refusals \<open>Unauthorized\<close> it
  also says what the handler did to the cookie of the response it was given; the framework
  builds the error response afresh, so that change does not reach the client.
\<close>

record audit_row =
  ad_organization_id :: "nat option"
  ad_actor_user_id :: "nat option"
  ad_actor_email :: "string option"
  ad_action :: string
  ad_resource_type :: "string option"
  ad_resource_id :: "string option"
  ad_outcome :: string
  ad_detail :: json
  ad_client_ip :: "string option"
  ad_user_agent :: "string option"

record api_state =
  identity :: auth_db
  audit_log :: "audit_row list"
  logins :: limiter
  registrations :: limiter

datatype cookie = Unchanged | SetCookie string | ClearCookie

datatype auth_reply =
    SessionStarted issued_session
  | TooManyAttempts int
  | Unauthorized cookie
  | EmailTaken
  | InvitationUsed
  | InvitationRefused
  | ServerError
  | NoContent
  | Invited invitation string
  | Forbidden

definition refresh_cookie :: "auth_reply \<Rightarrow> cookie" where
  "refresh_cookie r = (case r of SessionStarted s \<Rightarrow> SetCookie (is_refresh_token s) | Unauthorized c \<Rightarrow> c
     | NoContent \<Rightarrow> ClearCookie | _ \<Rightarrow> Unchanged)"

definition audit_entry ::
  "string \<Rightarrow> string \<Rightarrow> authenticated_user option \<Rightarrow> nat option \<Rightarrow> (string \<times> string) option
     \<Rightarrow> (string \<times> json) list \<Rightarrow> client \<Rightarrow> audit_row" where
  "audit_entry action outcome actor org resource detail cl = \<lparr>
     ad_organization_id = (case org of Some i \<Rightarrow> Some i | None \<Rightarrow> map_option au_organization_id actor),
     ad_actor_user_id = map_option au_id actor, ad_actor_email = map_option au_email actor,
     ad_action = action, ad_resource_type = map_option fst resource, ad_resource_id = map_option snd resource,
     ad_outcome = outcome, ad_detail = scrub (JObject detail), ad_client_ip = cl_ip cl,
     ad_user_agent = (if truthy (cl_user_agent cl) then map_option (take 300) (cl_user_agent cl) else None)\<rparr>"

definition record_audit ::
  "string \<Rightarrow> string \<Rightarrow> authenticated_user option \<Rightarrow> nat option \<Rightarrow> (string \<times> string) option
     \<Rightarrow> (string \<times> json) list \<Rightarrow> client \<Rightarrow> api_state \<Rightarrow> api_state" where
  "record_audit action outcome actor org resource detail cl st =
     st\<lparr>audit_log := audit_log st @ [audit_entry action outcome actor org resource detail cl]\<rparr>"

lemma audit_entry_clean: "clean (ad_detail (audit_entry action outcome actor org resource detail cl))"
  by (simp add: audit_entry_def scrub_clean del: scrub.simps)

definition session_audit :: "string \<Rightarrow> issued_session \<Rightarrow> (string \<times> json) list \<Rightarrow> client \<Rightarrow> api_state \<Rightarrow> api_state" where
  "session_audit action s detail cl = record_audit action ''success'' None (Some (o_id (is_organization s)))
     (Some (''user'', u_public_id (is_user s))) detail cl"

section \<open>The endpoints\<close>

definition register_endpoint ::
  "auth_env \<Rightarrow> draws \<Rightarrow> string \<Rightarrow> string \<Rightarrow> string option \<Rightarrow> string option \<Rightarrow> client \<Rightarrow> rat \<Rightarrow> datetime
     \<Rightarrow> api_state \<Rightarrow> auth_reply \<times> api_state" where
  "register_endpoint env dw email pw name offer cl c now st =
     (let key = registration_key (cl_ip cl); (wait, lim) = check_limit (registrations st) key c;
          st1 = st\<lparr>registrations := lim\<rparr>; counted = st\<lparr>registrations := record_attempt lim key c\<rparr> in
      case wait of
        Some s \<Rightarrow> (TooManyAttempts s, st1)
      | None \<Rightarrow>
          (case register env dw email pw name offer cl now now (identity st) of
             Inl InvitationAlreadyUsed \<Rightarrow> (InvitationUsed, st1)
           | Inl InvalidInvitation \<Rightarrow> (InvitationRefused, st1)
           | Inl (EmailAlreadyRegistered _) \<Rightarrow> (EmailTaken, record_audit ''user.register'' ''failure'' None None None
               [(''email'', JStr (normalize_email email)), (''reason'', JStr ''already_exists'')] cl counted)
           | Inl _ \<Rightarrow> (ServerError, st1)
           | Inr (s, db) \<Rightarrow> (SessionStarted s, session_audit ''user.register'' s
               [(''email'', JStr (u_email (is_user s))), (''role'', JStr (role_str (is_role s)))] cl
               (counted\<lparr>identity := db\<rparr>))))"

definition login_endpoint ::
  "auth_env \<Rightarrow> draws \<Rightarrow> string \<Rightarrow> string \<Rightarrow> client \<Rightarrow> rat \<Rightarrow> datetime \<Rightarrow> api_state \<Rightarrow> auth_reply \<times> api_state" where
  "login_endpoint env dw email pw cl c now st =
     (let key = login_key (cl_ip cl) email; (wait, lim) = check_limit (logins st) key c;
          st1 = st\<lparr>logins := lim\<rparr> in
      case wait of
        Some s \<Rightarrow> (TooManyAttempts s, st1)
      | None \<Rightarrow>
          (case authenticate env dw email pw cl now now (identity st) of
             Inl InvalidCredentials \<Rightarrow> (Unauthorized Unchanged,
               record_audit ''user.login'' ''failure'' None None None [(''email'', JStr (normalize_email email))] cl
                 (st\<lparr>logins := record_attempt lim key c\<rparr>))
           | Inl _ \<Rightarrow> (ServerError, st1)
           | Inr (s, db) \<Rightarrow> (SessionStarted s, session_audit ''user.login'' s
               [(''email'', JStr (u_email (is_user s)))] cl (st1\<lparr>identity := db\<rparr>))))"

definition refresh_endpoint ::
  "auth_env \<Rightarrow> draws \<Rightarrow> string option \<Rightarrow> client \<Rightarrow> datetime \<Rightarrow> api_state \<Rightarrow> auth_reply \<times> api_state" where
  "refresh_endpoint env dw presented cl now st =
     (if \<not> truthy presented then (Unauthorized Unchanged, st)
      else case rotate_refresh_token env dw (the presented) cl now now (identity st) of
        (Inl InvalidCredentials, db) \<Rightarrow> (Unauthorized ClearCookie,
          record_audit ''session.refresh'' ''failure'' None None None [] cl (st\<lparr>identity := db\<rparr>))
      | (Inl _, db) \<Rightarrow> (ServerError, st)
      | (Inr s, db) \<Rightarrow> (SessionStarted s, st\<lparr>identity := db\<rparr>))"

definition logout_endpoint ::
  "auth_env \<Rightarrow> string option \<Rightarrow> client \<Rightarrow> datetime \<Rightarrow> api_state \<Rightarrow> auth_reply \<times> api_state" where
  "logout_endpoint env presented cl now st =
     (NoContent, if truthy presented
      then record_audit ''session.logout'' ''success'' None None None [] cl
             (st\<lparr>identity := snd (revoke_token env (the presented) now (identity st))\<rparr>)
      else st)"

definition revoke_all_endpoint ::
  "auth_env \<Rightarrow> string \<Rightarrow> client \<Rightarrow> datetime \<Rightarrow> api_state \<Rightarrow> auth_reply \<times> api_state" where
  "revoke_all_endpoint env token cl now st =
     (case resolve_access_token env token now (identity st) of
        Inl e \<Rightarrow> (ServerError, st)
      | Inr None \<Rightarrow> (Unauthorized Unchanged, st)
      | Inr (Some u) \<Rightarrow> (NoContent, record_audit ''session.revoke_all'' ''success'' (Some u) None
          (Some (''user'', au_public_id u)) [] cl
          (st\<lparr>identity := revoke_all_sessions (au_id u) now (identity st)\<rparr>)))"

text \<open>Inviting needs an administrator; the role offered is the administrator's choice.\<close>

definition invite_endpoint ::
  "auth_env \<Rightarrow> draws \<Rightarrow> string \<Rightarrow> string \<Rightarrow> role \<Rightarrow> client \<Rightarrow> datetime \<Rightarrow> api_state \<Rightarrow> auth_reply \<times> api_state" where
  "invite_endpoint env dw token email role cl now st =
     (case resolve_access_token env token now (identity st) of
        Inl e \<Rightarrow> (ServerError, st)
      | Inr None \<Rightarrow> (Unauthorized Unchanged, st)
      | Inr (Some u) \<Rightarrow>
          if \<not> admits ADMIN u then (Forbidden, st)
          else (case create_invitation env dw (au_organization_id u) email role (Some (au_id u)) now (identity st) of
             Inl _ \<Rightarrow> (ServerError, st)
           | Inr ((iv, plain), db) \<Rightarrow> (Invited iv plain, record_audit ''organization.invite'' ''success'' (Some u) None
               (Some (''organization'', au_organization_public_id u))
               [(''email'', JStr (iv_email iv)), (''role'', JStr (role_str (iv_role iv)))] cl
               (st\<lparr>identity := db\<rparr>))))"

end
