(* ===== verification/AuthProperties.thy ===== *)
theory AuthProperties
  imports AuthFacts
begin

text \<open>
  What authentication promises: one live refresh token per sign-in, replays that end the
  session for good, signing out everywhere, organizations that are joined by invitation only,
  and access tokens that resolve to the stored identity.
\<close>

section \<open>Dead families\<close>

definition dead_family :: "string \<Rightarrow> auth_db \<Rightarrow> bool" where
  "dead_family f db \<longleftrightarrow> f \<in> rt_family_id ` set (tokens db)
     \<and> (\<forall>r \<in> set (tokens db). rt_family_id r = f \<longrightarrow> \<not> live r)"

lemma dead_familyD: "dead_family f db \<Longrightarrow> r \<in> set (tokens db) \<Longrightarrow> rt_family_id r = f \<Longrightarrow> \<not> live r"
  by (simp add: dead_family_def)

lemma dead_family_revoked:
  assumes "dead_family f db" "tokens db' = sql_update p (\<lambda>r. r\<lparr>rt_revoked_at := Some now\<rparr>) (tokens db)"
  shows "dead_family f db'"
proof -
  let ?f = "\<lambda>r. r\<lparr>rt_revoked_at := Some now\<rparr>"
  have "rt_family_id ` set (sql_update p ?f (tokens db)) = rt_family_id ` set (tokens db)"
    by (rule image_update) simp
  moreover have "\<not> live r" if "r \<in> set (sql_update p ?f (tokens db))" "rt_family_id r = f" for r
    using set_sql_update [OF that(1)] that(2) assms(1) by (auto simp: dead_family_def split: if_splits)
  ultimately show ?thesis using assms by (simp add: dead_family_def)
qed

lemma dead_family_issue:
  assumes "issue env dw u org r family cl t db = Inr (s, db')" "dead_family f db"
    "str_or family (dw_family dw) \<noteq> f"
  shows "dead_family f db'"
proof -
  have "set (tokens db') = insert (new_token env dw (u_id u) family cl t db) (set (tokens db))"
    using issue_Inr [OF assms(1)] by (intro set_sql_insert) blast
  then show ?thesis using assms(2,3) by (auto simp: dead_family_def)
qed

lemma dead_family_same: "dead_family f db \<Longrightarrow> tokens db' = tokens db \<Longrightarrow> dead_family f db'"
  by (simp add: dead_family_def)

lemma dead_family_register:
  assumes "register env dw email pw name offer cl now t db = Inr (s, db')" "fresh_family dw db" "auth_inv db"
    "dead_family f db"
  shows "dead_family f db'"
proof -
  obtain org r db1 u us ms db2 where start:
    "(\<exists>c cs. offer = Some (c # cs) \<and> redeem_invitation env (c # cs) (normalize_email email) now db = Inr (org, r, db1))
     \<or> ((offer = None \<or> offer = Some []) \<and> new_organization_for dw (normalize_email email) db = Some (org, r, db1))"
    and db2: "db2 = db1\<lparr>users := us, memberships := ms\<rparr>" "issue env dw u org r None cl t db2 = Inr (s, db')"
    by (rule register_Inr [OF assms(1)]) (rule that; assumption)
  have "tokens db1 = tokens db"
    using start redeem_inv [OF _ assms(3)] new_organization_inv [OF _ assms(3)] by blast
  then have "dead_family f db2" using dead_family_same [OF assms(4)] db2(1) by simp
  moreover have "str_or None (dw_family dw) \<noteq> f"
    using assms(2,4) by (auto simp: fresh_family_def dead_family_def str_or_def)
  ultimately show ?thesis by (rule dead_family_issue [OF db2(2)])
qed

lemma dead_family_authenticate:
  assumes "authenticate env dw email pw cl now t db = Inr (s, db')" "fresh_family dw db" "dead_family f db"
  shows "dead_family f db'"
proof -
  obtain u :: user and m :: membership and org us where "us = sql_update (\<lambda>x. u_id x = u_id u) (\<lambda>x. x\<lparr>u_last_login_at := Some now\<rparr>) (users db)"
    and i: "issue env dw (u\<lparr>u_last_login_at := Some now\<rparr>) org (m_role m) None cl t (db\<lparr>users := us\<rparr>) = Inr (s, db')"
    by (rule authenticate_Inr [OF assms(1)]) (erule (1) that)
  moreover have "dead_family f (db\<lparr>users := us\<rparr>)" using dead_family_same [OF assms(3)] by simp
  moreover have "str_or None (dw_family dw) \<noteq> f"
    using assms(2,3) by (auto simp: fresh_family_def dead_family_def str_or_def)
  ultimately show ?thesis using dead_family_issue [OF i] by blast
qed

lemma dead_family_rotate:
  assumes "rotate_refresh_token env dw presented cl now t db = (res, db')" "auth_inv db" "dead_family f db"
  shows "dead_family f db'"
proof (cases res)
  case (Inl e)
  then have "db' = db \<or> (\<exists>g. db' = revoke_family g now db)"
    using rotate_Inl [of "presented_row env presented db" env dw cl now t db e db'] assms(1)
    by (auto simp: rotate_refresh_token_def)
  then show ?thesis
  proof (elim disjE exE)
    fix g assume "db' = revoke_family g now db"
    then show ?thesis using dead_family_revoked [OF assms(3)] by (simp add: revoke_family_def)
  qed (simp add: assms(3))
next
  case (Inr s)
  then have rot: "rotate_with (presented_row env presented db) env dw cl now t db = (Inr s, db')"
    using assms(1) by (simp add: rotate_refresh_token_def)
  obtain r u and m :: membership and org where r: "presented_row env presented db = Some r" "live r"
    and i: "issue env dw u org (m_role m) (Some (rt_family_id r)) cl t (revoke_id (rt_id r) now db) = Inr (s, db')"
    by (rule rotate_Inr [OF rot]) (rule that; assumption)
  have inT: "r \<in> set (tokens db)" using r(1) by (auto simp: presented_row_def dest: row_of_SomeD)
  then have "str_or (Some (rt_family_id r)) (dw_family dw) \<noteq> f"
    using assms(2,3) r(2) by (auto simp: auth_inv_def token_inv_def dead_family_def str_or_def)
  moreover have "dead_family f (revoke_id (rt_id r) now db)"
    using dead_family_revoked [OF assms(3)] by (simp add: revoke_id_def)
  ultimately show ?thesis using dead_family_issue [OF i] by blast
qed

lemma dead_family_step:
  "auth_step env db db' \<Longrightarrow> auth_inv db \<Longrightarrow> dead_family f db \<Longrightarrow> dead_family f db'"
proof (induction rule: auth_step.induct)
  case (signs_out presented now db b db')
  then show ?case using dead_family_revoked [of f db]
    by (auto simp: revoke_token_def revoke_id_def split: option.splits if_splits)
next
  case (signs_out_everywhere db uid now)
  then show ?case using dead_family_revoked [of f db] by (simp add: revoke_all_sessions_def)
next
  case (invites dw org email r user now db x db')
  then show ?case using dead_family_same [of f db db']
    by (auto simp: create_invitation_def Let_def split: option.splits)
qed (auto intro: dead_family_register dead_family_authenticate dead_family_rotate)

lemma dead_family_steps:
  "(auth_step env)\<^sup>*\<^sup>* db db' \<Longrightarrow> auth_inv db \<Longrightarrow> dead_family f db \<Longrightarrow> dead_family f db'"
  by (induction rule: rtranclp_induct) (auto dest: auth_steps_inv intro: dead_family_step)

lemma revoke_family_dead:
  "f \<in> rt_family_id ` set (tokens db) \<Longrightarrow> dead_family f (revoke_family f now db)"
proof -
  assume f: "f \<in> rt_family_id ` set (tokens db)"
  let ?p = "\<lambda>r. rt_family_id r = f \<and> live r" and ?g = "\<lambda>r. r\<lparr>rt_revoked_at := Some now\<rparr>"
  have "f \<in> rt_family_id ` set (sql_update ?p ?g (tokens db))"
    using f image_update [of rt_family_id ?g ?p "tokens db"] by simp
  moreover have "\<not> live r" if r: "r \<in> set (sql_update ?p ?g (tokens db))" "rt_family_id r = f" for r
  proof -
    obtain q where "r = (if ?p q then ?g q else q)" using set_sql_update [OF r(1)] by blast
    then show ?thesis using r(2) by (cases "?p q") auto
  qed
  ultimately show ?thesis unfolding dead_family_def revoke_family_def by simp
qed

section \<open>Refresh tokens\<close>

text \<open>C23: However sign-ins, rotations, sign-outs and registrations follow one another, a sign-in has at
  most one live refresh token at a time, all tokens of its family belong to one user, and no two
  tokens share a digest.\<close>

theorem one_live_token_per_session:
  assumes "auth_reachable env db" "a \<in> set (tokens db)" "b \<in> set (tokens db)" "rt_family_id a = rt_family_id b"
  shows "rt_user_id a = rt_user_id b \<and> (rt_revoked_at a = None \<and> rt_revoked_at b = None \<longrightarrow> a = b)
    \<and> distinct (map rt_token_hash (tokens db))"
proof -
  have "token_inv (tokens db)" using auth_reachable_inv [OF assms(1)] by (simp add: auth_inv_def)
  then have "family_rule a b" "distinct (map rt_token_hash (tokens db))"
    using assms(2,3) by (simp_all add: token_inv_def)
  with assms(4) show ?thesis by (simp add: family_rule_def related_def)
qed

definition demo_env :: auth_env where
  "demo_env = \<lparr>ae_sha256 = id, ae_hash_password = (\<lambda>p. CHR ''#'' # p), ae_argon2_verify = (\<lambda>h p. h = CHR ''#'' # p),
     ae_dummy_hash = ''#dummy'', ae_secret = Some (replicate 32 (CHR ''k'')), ae_jwt_encode = (\<lambda>p k. ''jwt''),
     ae_jwt_decode = (\<lambda>tok k now. if tok = ''jwt'' then Some \<lparr>jp_claims = \<lparr>ac_subject = ''u1'',
        ac_organization = ''o1'', ac_role = ''owner'', ac_token_version = 0, ac_jti = ''j2''\<rparr>, jp_iat = 5,
        jp_exp = 5 + access_token_ttl\<rparr> else None)\<rparr>"

definition demo_draws :: "string \<Rightarrow> draws" where
  "demo_draws n = \<lparr>dw_refresh = ''r'' @ n, dw_family = ''f'' @ n, dw_jti = ''j'' @ n, dw_organization = ''o'' @ n,
     dw_user = ''u'' @ n\<rparr>"

definition demo_client :: client where
  "demo_client = \<lparr>cl_ip = Some ''10.0.0.1'', cl_user_agent = None\<rparr>"

definition demo_registered :: "auth_error + issued_session \<times> auth_db" where
  "demo_registered = register demo_env (demo_draws ''1'') ''Ann@Acme.com'' ''secret'' None None demo_client 0 0 empty_auth"

definition demo_auth :: auth_db where
  "demo_auth = (case demo_registered of Inr (s, db) \<Rightarrow> db | Inl e \<Rightarrow> empty_auth)"

lemma demo_registered_Inr: "\<exists>s. demo_registered = Inr (s, demo_auth)"
proof -
  have "\<not> isl demo_registered" by code_simp
  then show ?thesis unfolding demo_auth_def by (rule not_isl_pair)
qed

lemma demo_auth_reachable: "auth_reachable demo_env demo_auth"
proof -
  obtain s where "demo_registered = Inr (s, demo_auth)" using demo_registered_Inr by blast
  moreover have "fresh_family (demo_draws ''1'') empty_auth" by code_simp
  ultimately show ?thesis
    unfolding demo_registered_def by (intro auth_reachable.step [OF auth_reachable.empty]) (rule auth_step.registers)
qed

lemma demo_auth_inv: "auth_inv demo_auth"
  by (rule auth_reachable_inv [OF demo_auth_reachable])

lemma one_live_token_per_session_witness: "distinct (map rt_token_hash (tokens demo_auth)) \<and> length (tokens demo_auth) = 1"
proof -
  define a where "a = hd (tokens demo_auth)"
  have "a \<in> set (tokens demo_auth)" "length (tokens demo_auth) = 1" unfolding a_def by code_simp+
  then show ?thesis using one_live_token_per_session [OF demo_auth_reachable, of a a] by blast
qed

text \<open>
  The row read for a rotation is not locked. Two rotations of one token that both read it
  before either writes leave two live tokens in its family, and no replay is noticed.
\<close>

definition demo_race :: auth_db where
  "demo_race = snd (rotate_with (presented_row demo_env ''r1'' demo_auth) demo_env (demo_draws ''3'') demo_client 2 2
     (snd (rotate_with (presented_row demo_env ''r1'' demo_auth) demo_env (demo_draws ''2'') demo_client 1 1 demo_auth)))"

lemma concurrent_rotation_splits_session:
  "map (\<lambda>r. (rt_token_hash r, rt_family_id r)) (filter live (tokens demo_race)) = [(''r2'', ''f1''), (''r3'', ''f1'')]"
  by code_simp

text \<open>C24: A refresh token works once: after it was rotated, presenting it again at any later time is
  refused and ends its session, so that from then on no token of the session is live, the one the
  rotation handed out included, whatever happens afterwards.\<close>

theorem rotated_token_never_works:
  assumes "auth_inv db" "rotate_refresh_token env dw presented cl now t db = (Inr s, db1)"
    and "(auth_step env)\<^sup>*\<^sup>* db1 db2"
    and "rotate_refresh_token env dw' presented cl' now' t' db2 = (res, db3)"
    and "(auth_step env)\<^sup>*\<^sup>* db3 db4"
  shows "res = Inl InvalidCredentials
    \<and> (\<exists>r \<in> set (tokens db). rt_token_hash r = ae_sha256 env presented
         \<and> (\<forall>q \<in> set (tokens db4). rt_family_id q = rt_family_id r \<longrightarrow> rt_revoked_at q \<noteq> None)
         \<and> (\<exists>q \<in> set (tokens db4). rt_family_id q = rt_family_id r
              \<and> rt_token_hash q = ae_sha256 env (is_refresh_token s)))"
proof -
  have rot: "rotate_with (presented_row env presented db) env dw cl now t db = (Inr s, db1)"
    using assms(2) by (simp add: rotate_refresh_token_def)
  obtain r u and m :: membership and org where r: "presented_row env presented db = Some r"
    and i: "issue env dw u org (m_role m) (Some (rt_family_id r)) cl t (revoke_id (rt_id r) now db) = Inr (s, db1)"
    by (rule rotate_Inr [OF rot]) (rule that; assumption)
  have inT: "r \<in> set (tokens db)" and h: "rt_token_hash r = ae_sha256 env presented"
    using r by (auto simp: presented_row_def dest: row_of_SomeD)
  have fam: "rt_family_id r \<noteq> []" using assms(1) inT by (simp add: auth_inv_def token_inv_def)
  have step1: "auth_step env db db1" using assms(2) by (rule auth_step.rotates)
  have inv2: "auth_inv db2" using auth_steps_inv [OF assms(3)] auth_step_inv [OF step1 assms(1)] by blast
  have t1: "set (tokens db1) = insert (new_token env dw (u_id u) (Some (rt_family_id r)) cl t (revoke_id (rt_id r) now db))
      (set (tokens (revoke_id (rt_id r) now db)))"
    using issue_Inr [OF i] by (intro set_sql_insert) blast
  have dead: "r\<lparr>rt_revoked_at := Some now\<rparr> \<in> set (tokens db1)"
  proof -
    have "(if rt_id r = rt_id r then r\<lparr>rt_revoked_at := Some now\<rparr> else r) \<in> set (tokens (revoke_id (rt_id r) now db))"
      using inT by (force simp: revoke_id_def sql_update_def)
    then show ?thesis using t1 by simp
  qed
  obtain q where q: "q \<in> set (tokens db2)" "token_le (r\<lparr>rt_revoked_at := Some now\<rparr>) q"
    using later_token [OF auth_steps_later [OF assms(3)] dead] by blast
  have q': "rt_token_hash q = ae_sha256 env presented" "\<not> live q" "rt_family_id q = rt_family_id r"
    using q(2) h by (auto simp: token_le_def)
  have "presented_row env presented db2 = Some q"
    using row_of_in [of rt_token_hash "tokens db2" q] inv2 q(1) q'(1)
    by (simp add: presented_row_def auth_inv_def token_inv_def)
  then have res: "res = Inl InvalidCredentials" "db3 = revoke_family (rt_family_id r) now' db2"
    using assms(4) q'(2,3) by (auto simp: rotate_refresh_token_def rotate_with_def)
  have inv3: "auth_inv db3" using auth_step_inv [OF auth_step.rotates [OF assms(4)] inv2] .
  have "rt_family_id r \<in> rt_family_id ` set (tokens db2)" using q(1) q'(3) by (metis imageI)
  then have "dead_family (rt_family_id r) db3" unfolding res(2) by (rule revoke_family_dead)
  then have d4: "dead_family (rt_family_id r) db4" by (rule dead_family_steps [OF assms(5) inv3])
  let ?n = "new_token env dw (u_id u) (Some (rt_family_id r)) cl t (revoke_id (rt_id r) now db)"
  have "later db1 db4"
    using auth_steps_later [OF assms(3)] auth_steps_later [OF assms(5)] auth_step_later [OF auth_step.rotates [OF assms(4)]]
      later_trans by blast
  moreover have "?n \<in> set (tokens db1)" using t1 by simp
  ultimately obtain n' where n': "n' \<in> set (tokens db4)" "token_le ?n n'"
    using later_token [of db1 db4 ?n] by blast
  have "is_refresh_token s = dw_refresh dw" using issue_Inr [OF i] by blast
  then have "rt_family_id n' = rt_family_id r" "rt_token_hash n' = ae_sha256 env (is_refresh_token s)"
    using n'(2) fam by (simp_all add: token_le_def str_or_def)
  with n'(1) have "\<exists>q \<in> set (tokens db4). rt_family_id q = rt_family_id r
      \<and> rt_token_hash q = ae_sha256 env (is_refresh_token s)" by (intro bexI [of _ n'] conjI)
  moreover have "\<forall>q \<in> set (tokens db4). rt_family_id q = rt_family_id r \<longrightarrow> rt_revoked_at q \<noteq> None"
    using d4 by (simp add: dead_family_def)
  ultimately show ?thesis using res(1) inT h by blast
qed

definition demo_rotated :: "(auth_error + issued_session) \<times> auth_db" where
  "demo_rotated = rotate_refresh_token demo_env (demo_draws ''2'') ''r1'' demo_client 1 1 demo_auth"

lemma rotated_token_never_works_witness:
  "\<exists>s. fst demo_rotated = Inr s \<and>
     fst (rotate_refresh_token demo_env (demo_draws ''9'') ''r1'' demo_client 9 9 (snd demo_rotated)) = Inl InvalidCredentials"
proof -
  have "\<not> isl (fst demo_rotated)" by code_simp
  then obtain s where s: "fst demo_rotated = Inr s" by (cases "fst demo_rotated") auto
  then have one: "rotate_refresh_token demo_env (demo_draws ''2'') ''r1'' demo_client 1 1 demo_auth = (Inr s, snd demo_rotated)"
    unfolding demo_rotated_def by (metis prod.collapse)
  show ?thesis
    using rotated_token_never_works [OF demo_auth_inv one rtranclp.rtrancl_refl prod.collapse [symmetric] rtranclp.rtrancl_refl] s
    by blast
qed

section \<open>Access tokens\<close>

lemma in_claimed_rows:
  "(u, m, g) \<in> set (claimed_rows c db) \<longleftrightarrow> u \<in> set (users db) \<and> u_public_id u = ac_subject c
     \<and> m \<in> set (memberships db) \<and> m_user_id m = u_id u
     \<and> g \<in> set (organizations db) \<and> o_id g = m_organization_id m \<and> o_public_id g = ac_organization c"
  by (auto simp: claimed_rows_def)

lemma claimed_rows_frame:
  assumes "users db' = users db" "memberships db' = memberships db" "organizations db' = organizations db"
  shows "claimed_rows c db' = claimed_rows c db"
  unfolding claimed_rows_def assms ..

text \<open>With unique identifiers the claims select at most one row, whichever row stands first.\<close>

lemma claimed_rows_one:
  assumes "auth_inv db" "(u, m, g) \<in> set (claimed_rows c db)" "(v, k, h) \<in> set (claimed_rows c db)"
  shows "v = u \<and> k = m \<and> h = g"
proof -
  have d: "inj_on u_public_id (set (users db))" "inj_on o_public_id (set (organizations db))"
    "inj_on (\<lambda>m. (m_user_id m, m_organization_id m)) (set (memberships db))"
    using assms(1) by (simp_all add: auth_inv_def account_inv_def distinct_map)
  have u: "u \<in> set (users db)" "u_public_id u = ac_subject c" "m \<in> set (memberships db)" "m_user_id m = u_id u"
      "g \<in> set (organizations db)" "o_id g = m_organization_id m" "o_public_id g = ac_organization c"
    and v: "v \<in> set (users db)" "u_public_id v = ac_subject c" "k \<in> set (memberships db)" "m_user_id k = u_id v"
      "h \<in> set (organizations db)" "o_id h = m_organization_id k" "o_public_id h = ac_organization c"
    using assms(2,3) unfolding in_claimed_rows by blast+
  have vu: "v = u" by (rule inj_onD [OF d(1) _ v(1) u(1)]) (simp add: u(2) v(2))
  have hg: "h = g" by (rule inj_onD [OF d(2) _ v(5) u(5)]) (simp add: u(7) v(7))
  have "k = m" by (rule inj_onD [OF d(3) _ v(3) u(3)]) (use u(4,6) v(4,6) vu hg in simp)
  with vu hg show ?thesis by blast
qed

lemma membership_of_Some:
  assumes "membership_of uid db = Some (m, org)"
  shows "m \<in> set (memberships db) \<and> m_user_id m = uid \<and> org \<in> set (organizations db) \<and> o_id org = m_organization_id m"
proof -
  have "(m, org) \<in> set (List.map_filter (\<lambda>m. if m_user_id m = uid
      then map_option (Pair m) (row_of o_id (organizations db) (m_organization_id m)) else None) (memberships db))"
    using assms by (auto simp: membership_of_def split: list.splits)
  then obtain x where "x \<in> set (memberships db)" "m_user_id x = uid"
      "map_option (Pair x) (row_of o_id (organizations db) (m_organization_id x)) = Some (m, org)"
    unfolding in_map_filter by (auto split: if_splits)
  then show ?thesis by (auto dest: row_of_SomeD)
qed

text \<open>The access token of a sign-in resolves to the person who signed in, in the organization and
  role of the session, as long as the JWT library returns the payload it signed.\<close>

theorem issued_session_resolves:
  assumes "auth_inv db" "authenticate env dw email pw cl now t db = Inr (s, db')" "signing_secret env = Some k"
    and "p = \<lparr>jp_claims = claims_for dw (is_user s) (is_organization s) (is_role s), jp_iat = t,
              jp_exp = t + access_token_ttl\<rparr>"
    and "ae_jwt_decode env (ae_jwt_encode env p k) k w = Some p" "ae_jwt_encode env p k \<noteq> []"
  shows "\<exists>a. resolve_access_token env (is_access_token s) w db' = Inr (Some a)
    \<and> au_email a = normalize_email email \<and> au_public_id a = u_public_id (is_user s)
    \<and> au_organization_public_id a = o_public_id (is_organization s) \<and> au_role a = is_role s"
proof -
  obtain u m org us where u: "row_of u_email (users db) (normalize_email email) = Some u" "u_is_active u"
    and mo: "membership_of (u_id u) db = Some (m, org)"
    and us: "us = sql_update (\<lambda>x. u_id x = u_id u) (\<lambda>x. x\<lparr>u_last_login_at := Some now\<rparr>) (users db)"
    and i: "issue env dw (u\<lparr>u_last_login_at := Some now\<rparr>) org (m_role m) None cl t (db\<lparr>users := us\<rparr>) = Inr (s, db')"
    by (rule authenticate_Inr [OF assms(2)]) (rule that; assumption)
  note iss = issue_Inr [OF i]
  let ?u = "u\<lparr>u_last_login_at := Some now\<rparr>"
  have s: "is_user s = ?u" "is_organization s = org" "is_role s = m_role m" using iss by simp_all
  have tok: "is_access_token s = ae_jwt_encode env p k"
    using iss assms(3,4) s by (simp add: encode_access_token_def)
  have dec: "decode_access_token env (is_access_token s) w = Inr (Some (claims_for dw ?u org (m_role m)))"
    using assms(3-5) tok s by (simp add: decode_access_token_def)
  have mo': "m \<in> set (memberships db)" "m_user_id m = u_id u" "org \<in> set (organizations db)" "o_id org = m_organization_id m"
    using membership_of_Some [OF mo] by blast+
  have "?u \<in> set us"
    using row_of_SomeD [OF u(1)] unfolding us sql_update_def by (force intro: image_eqI [of _ _ u])
  then have row: "(?u, m, org) \<in> set (claimed_rows (claims_for dw ?u org (m_role m)) (db\<lparr>users := us\<rparr>))"
    using mo' by (simp add: in_claimed_rows claims_for_def)
  have inv: "auth_inv (db\<lparr>users := us\<rparr>)" using assms(1) by (simp add: us auth_inv_def account_inv_users)
  have same: "claimed_rows c db' = claimed_rows c (db\<lparr>users := us\<rparr>)" for c
    by (rule claimed_rows_frame) (use iss in simp_all)
  obtain rest where rest: "claimed_rows (claims_for dw ?u org (m_role m)) db' = (?u, m, org) # rest"
  proof (cases "claimed_rows (claims_for dw ?u org (m_role m)) (db\<lparr>users := us\<rparr>)")
    case Nil
    with row show thesis by simp
  next
    case (Cons x xs)
    obtain v k h where x: "x = (v, k, h)" by (cases x)
    then have "(v, k, h) \<in> set (claimed_rows (claims_for dw ?u org (m_role m)) (db\<lparr>users := us\<rparr>))" using Cons by simp
    then have "v = ?u \<and> k = m \<and> h = org" by (rule claimed_rows_one [OF inv row])
    then have "claimed_rows (claims_for dw ?u org (m_role m)) db' = (?u, m, org) # xs"
      unfolding same using Cons x by simp
    then show thesis by (rule that)
  qed
  have "is_access_token s \<noteq> []" using tok assms(6) by simp
  moreover have "u_email u = normalize_email email" using row_of_SomeD [OF u(1)] by simp
  ultimately show ?thesis
    using u(2) s dec rest by (simp add: resolve_access_token_def claims_for_def)
qed

definition demo_signed_in :: "auth_error + issued_session \<times> auth_db" where
  "demo_signed_in = authenticate demo_env (demo_draws ''2'') '' ann@acme.com'' ''secret'' demo_client 5 5 demo_auth"

lemma issued_session_resolves_witness:
  "\<exists>s db a. demo_signed_in = Inr (s, db) \<and> resolve_access_token demo_env (is_access_token s) 9 db = Inr (Some a)
     \<and> au_email a = ''ann@acme.com''"
proof -
  obtain s db where s: "demo_signed_in = Inr (s, db)"
  proof -
    have "\<not> isl demo_signed_in" by code_simp
    then show thesis using not_isl_pair that by metis
  qed
  let ?p = "\<lparr>jp_claims = claims_for (demo_draws ''2'') (is_user s) (is_organization s) (is_role s), jp_iat = 5,
    jp_exp = 5 + access_token_ttl\<rparr>"
  have "(case demo_signed_in of Inr (s, db) \<Rightarrow> ae_jwt_decode demo_env ''jwt'' (replicate 32 (CHR ''k'')) 9
      = Some \<lparr>jp_claims = claims_for (demo_draws ''2'') (is_user s) (is_organization s) (is_role s), jp_iat = 5,
          jp_exp = 5 + access_token_ttl\<rparr> | Inl e \<Rightarrow> False)" by code_simp
  then have dec: "ae_jwt_decode demo_env (ae_jwt_encode demo_env ?p (replicate 32 (CHR ''k''))) (replicate 32 (CHR ''k'')) 9 = Some ?p"
    unfolding s by (simp add: demo_env_def)
  have "signing_secret demo_env = Some (replicate 32 (CHR ''k''))" "normalize_email '' ann@acme.com'' = ''ann@acme.com''"
    by code_simp+
  then show ?thesis
    using issued_session_resolves [OF demo_auth_inv s [unfolded demo_signed_in_def] _ refl dec] s
    by (auto simp: demo_env_def)
qed

text \<open>C25: Signing out everywhere is final for what existed: no access token issued for the user before
  resolves any more and no refresh token of the user is live, at that moment and ever after.\<close>

theorem sign_out_everywhere_final:
  assumes "auth_inv db" "u \<in> set (users db)" "(auth_step env)\<^sup>*\<^sup>* (revoke_all_sessions (u_id u) now db) db'"
    and "decode_access_token env token w = Inr (Some c)" "ac_subject c = u_public_id u"
    and "ac_token_version c \<le> u_token_version u"
  shows "resolve_access_token env token w db' = Inr None
    \<and> (\<forall>r \<in> set (tokens db). rt_user_id r = u_id u \<longrightarrow>
         (\<forall>q \<in> set (tokens db'). rt_token_hash q = rt_token_hash r \<longrightarrow> rt_revoked_at q \<noteq> None))"
proof -
  let ?db = "revoke_all_sessions (u_id u) now db"
  let ?v = "u\<lparr>u_token_version := Suc (u_token_version u)\<rparr>"
  have inv: "auth_inv db'" using auth_steps_inv [OF assms(3) revoke_all_inv [OF assms(1)]] .
  have lat: "later ?db db'" using auth_steps_later [OF assms(3)] .
  have "?v \<in> set (users ?db)"
    using assms(2) by (simp add: revoke_all_sessions_def sql_update_def)
  then obtain v where v: "v \<in> set (users db')" "user_le ?v v" using later_user [OF lat] by blast
  have "resolve_access_token env token w db' = Inr None"
  proof (cases "claimed_rows c db'")
    case Nil
    then show ?thesis using assms(4) by (simp add: resolve_access_token_def)
  next
    case (Cons x rest)
    obtain z m g where x: "x = (z, m, g)" by (cases x)
    have "(z, m, g) \<in> set (claimed_rows c db')" using Cons x by simp
    then have z: "z \<in> set (users db')" "u_public_id z = u_public_id u"
      unfolding in_claimed_rows using assms(5) by simp_all
    have "inj_on u_public_id (set (users db'))" using inv by (simp add: auth_inv_def account_inv_def distinct_map)
    then have "z = v" by (rule inj_onD [OF _ _ z(1) v(1)]) (use z(2) v(2) in \<open>simp add: user_le_def\<close>)
    then have "u_token_version z \<noteq> ac_token_version c" using v(2) assms(6) by (simp add: user_le_def)
    then show ?thesis using assms(4) Cons x by (simp add: resolve_access_token_def)
  qed
  moreover have "rt_revoked_at q \<noteq> None"
    if r: "r \<in> set (tokens db)" "rt_user_id r = u_id u" and q: "q \<in> set (tokens db')" "rt_token_hash q = rt_token_hash r" for r q
  proof -
    let ?r = "if rt_user_id r = u_id u \<and> live r then r\<lparr>rt_revoked_at := Some now\<rparr> else r"
    have "?r \<in> set (tokens ?db)" using r(1) by (auto simp: revoke_all_sessions_def sql_update_def)
    then obtain q' where q': "q' \<in> set (tokens db')" "token_le ?r q'" using later_token [OF lat] by blast
    have "\<not> live ?r" "rt_token_hash ?r = rt_token_hash r" using r(2) by auto
    then have "\<not> live q'" "rt_token_hash q' = rt_token_hash q" using q'(2) q(2) by (simp_all add: token_le_def)
    moreover have "inj_on rt_token_hash (set (tokens db'))"
      using inv by (simp add: auth_inv_def token_inv_def distinct_map)
    ultimately show ?thesis using q(1) q'(1) by (metis inj_onD)
  qed
  ultimately show ?thesis by blast
qed

lemma sign_out_everywhere_final_witness:
  "resolve_access_token demo_env ''jwt'' 9 (revoke_all_sessions 1 9 demo_auth) = Inr None"
proof -
  define u where "u = hd (users demo_auth)"
  have u: "u \<in> set (users demo_auth)" "u_id u = 1" "u_public_id u = ''u1''" unfolding u_def by code_simp+
  define c where "c = \<lparr>ac_subject = ''u1'', ac_organization = ''o1'', ac_role = ''owner'', ac_token_version = 0, ac_jti = ''j2''\<rparr>"
  have "decode_access_token demo_env ''jwt'' 9 = Inr (Some c)" unfolding c_def by code_simp
  then show ?thesis
    using sign_out_everywhere_final [OF demo_auth_inv u(1) rtranclp.rtrancl_refl, of demo_env "''jwt''" 9 c 9] u
    by (simp add: c_def)
qed

section \<open>Joining an organization\<close>

lemma normalize_email_idem: "normalize_email (normalize_email e) = normalize_email e"
  by (simp add: normalize_email_def strip_lower)

lemma register_outcome:
  assumes "register env dw email pw name offer cl now t db = Inr (s, db')"
  shows "users db' = users db @ [is_user s] \<and> u_email (is_user s) = normalize_email email
    \<and> memberships db' = memberships db @ [\<lparr>m_user_id = u_id (is_user s),
          m_organization_id = o_id (is_organization s), m_role = is_role s\<rparr>]
    \<and> ((\<exists>iv \<in> set (invitations db). offer \<noteq> None \<and> iv_token_hash iv = ae_sha256 env (the offer)
          \<and> iv_organization_id iv = o_id (is_organization s) \<and> iv_email iv = normalize_email email
          \<and> iv_accepted_at iv = None \<and> now < iv_expires_at iv \<and> is_role s = iv_role iv
          \<and> iv\<lparr>iv_accepted_at := Some now\<rparr> \<in> set (invitations db'))
       \<or> (\<not> truthy offer \<and> is_role s = OWNER \<and> o_id (is_organization s) \<notin> o_id ` set (organizations db)))"
proof -
  obtain org r db1 u us ms db2 where start:
    "(\<exists>c cs. offer = Some (c # cs) \<and> redeem_invitation env (c # cs) (normalize_email email) now db = Inr (org, r, db1))
     \<or> ((offer = None \<or> offer = Some []) \<and> new_organization_for dw (normalize_email email) db = Some (org, r, db1))"
    and u: "u_email u = normalize_email email" "insert_user u (users db1) = Some us"
    and m: "sql_insert (\<lambda>m. (m_user_id m, m_organization_id m))
       \<lparr>m_user_id = u_id u, m_organization_id = o_id org, m_role = r\<rparr> (memberships db1) = Some ms"
    and db2: "db2 = db1\<lparr>users := us, memberships := ms\<rparr>" "issue env dw u org r None cl t db2 = Inr (s, db')"
    by (rule register_Inr [OF assms]) (rule that; assumption)
  have s: "is_user s = u" "is_organization s = org" "is_role s = r" "users db' = us" "memberships db' = ms"
      "invitations db' = invitations db1"
    using issue_Inr [OF db2(2)] db2(1) by simp_all
  have rows: "us = users db1 @ [u]" "ms = memberships db1 @ [\<lparr>m_user_id = u_id u, m_organization_id = o_id org, m_role = r\<rparr>]"
    using insert_user_Some [OF u(2)] m by (auto simp: sql_insert_def split: if_splits)
  show ?thesis
    using start
  proof (elim disjE exE conjE)
    fix c cs assume o: "offer = Some (c # cs)" and red: "redeem_invitation env (c # cs) (normalize_email email) now db = Inr (org, r, db1)"
    obtain iv where iv: "row_of iv_token_hash (invitations db) (ae_sha256 env (c # cs)) = Some iv" "now < iv_expires_at iv"
      "iv_accepted_at iv = None" "iv_email iv = normalize_email (normalize_email email)"
      "row_of o_id (organizations db) (iv_organization_id iv) = Some org" "r = iv_role iv"
      and d: "db1 = db\<lparr>invitations := sql_update (\<lambda>i. iv_id i = iv_id iv) (\<lambda>i. i\<lparr>iv_accepted_at := Some now\<rparr>) (invitations db)\<rparr>"
      by (rule redeem_Inr [OF red]) (rule that; assumption)
    have inI: "iv \<in> set (invitations db)" "iv_token_hash iv = ae_sha256 env (c # cs)" "o_id org = iv_organization_id iv"
      using row_of_SomeD [OF iv(1)] row_of_SomeD [OF iv(5)] by simp_all
    have "(if iv_id iv = iv_id iv then iv\<lparr>iv_accepted_at := Some now\<rparr> else iv) \<in> set (invitations db1)"
      using inI(1) unfolding d sql_update_def by (force intro: image_eqI [of _ _ iv])
    then have "\<exists>iv \<in> set (invitations db). offer \<noteq> None \<and> iv_token_hash iv = ae_sha256 env (the offer)
          \<and> iv_organization_id iv = o_id (is_organization s) \<and> iv_email iv = normalize_email email
          \<and> iv_accepted_at iv = None \<and> now < iv_expires_at iv \<and> is_role s = iv_role iv
          \<and> iv\<lparr>iv_accepted_at := Some now\<rparr> \<in> set (invitations db')"
      using o iv inI s normalize_email_idem by (intro bexI [of _ iv]) simp_all
    then show ?thesis using s rows u(1) d by simp
  next
    assume no: "offer = None" and new: "new_organization_for dw (normalize_email email) db = Some (org, r, db1)"
    show ?thesis using no new_organization_Some [OF new] s rows u(1) fresh_id_gt [of _ "organizations db" o_id]
      by (fastforce simp: truthy_def)
  next
    assume no: "offer = Some []" and new: "new_organization_for dw (normalize_email email) db = Some (org, r, db1)"
    show ?thesis using no new_organization_Some [OF new] s rows u(1) fresh_id_gt [of _ "organizations db" o_id]
      by (fastforce simp: truthy_def)
  qed
qed

text \<open>C26: Registration never enters an existing organization unasked: the new account becomes the owner
  of an organization that did not exist, or takes the role and the place that an unexpired, unused
  invitation to its own address offers; nobody else's membership changes, and the invitation works
  for no later registration, whatever happens in between.\<close>

theorem organizations_joined_by_invitation:
  assumes "auth_inv db" "register env dw email pw name offer cl now t db = Inr (s, db1)"
    and "(auth_step env)\<^sup>*\<^sup>* db1 db2" "fresh_family dw db"
  shows "memberships db1 = memberships db @ [\<lparr>m_user_id = u_id (is_user s),
          m_organization_id = o_id (is_organization s), m_role = is_role s\<rparr>]
    \<and> (o_id (is_organization s) \<notin> o_id ` set (organizations db) \<and> is_role s = OWNER
       \<or> (\<exists>iv \<in> set (invitations db). iv_organization_id iv = o_id (is_organization s)
            \<and> iv_email iv = u_email (is_user s) \<and> iv_accepted_at iv = None \<and> now < iv_expires_at iv
            \<and> is_role s = iv_role iv))
    \<and> (truthy offer \<longrightarrow> isl (register env dw2 email2 pw2 name2 offer cl2 now2 t2 db2))"
proof -
  note out = register_outcome [OF assms(2)]
  have "isl (register env dw2 email2 pw2 name2 offer cl2 now2 t2 db2)" if offer: "truthy offer"
  proof (rule ccontr)
    assume "\<not> ?thesis"
    then obtain s2 db3 where "register env dw2 email2 pw2 name2 offer cl2 now2 t2 db2 = Inr (s2, db3)"
      by (cases "register env dw2 email2 pw2 name2 offer cl2 now2 t2 db2") auto
    then obtain j where j: "j \<in> set (invitations db2)" "iv_token_hash j = ae_sha256 env (the offer)" "iv_accepted_at j = None"
      using register_outcome [of env dw2 email2 pw2 name2 offer cl2 now2 t2 db2 s2 db3] offer by blast
    obtain iv where iv: "iv_token_hash iv = ae_sha256 env (the offer)" "iv\<lparr>iv_accepted_at := Some now\<rparr> \<in> set (invitations db1)"
      using out offer by blast
    obtain i where i: "i \<in> set (invitations db2)" "invitation_le (iv\<lparr>iv_accepted_at := Some now\<rparr>) i"
      using later_invitation [OF auth_steps_later [OF assms(3)] iv(2)] by blast
    have "auth_inv db2"
      using auth_steps_inv [OF assms(3)] register_inv [OF assms(2,4,1)] by blast
    then have "inj_on iv_token_hash (set (invitations db2))" by (simp add: auth_inv_def account_inv_def distinct_map)
    then have "i = j" by (rule inj_onD [OF _ _ i(1) j(1)]) (use i(2) iv(1) j(2) in \<open>simp add: invitation_le_def\<close>)
    with i(2) j(3) show False by (simp add: invitation_le_def)
  qed
  with out show ?thesis by (metis (no_types, lifting))
qed

definition demo_invited :: "auth_error + (invitation \<times> string) \<times> auth_db" where
  "demo_invited = create_invitation demo_env (demo_draws ''7'') 1 ''Bob@web.de'' MEMBER (Some 1) 1 demo_auth"

definition demo_invited_db :: auth_db where
  "demo_invited_db = (case demo_invited of Inr (s, db) \<Rightarrow> db | Inl e \<Rightarrow> empty_auth)"

definition demo_joined :: "auth_error + issued_session \<times> auth_db" where
  "demo_joined = register demo_env (demo_draws ''8'') ''bob@web.de'' ''pw'' None (Some ''r7'') demo_client 2 2 demo_invited_db"

definition demo_joined_db :: auth_db where
  "demo_joined_db = (case demo_joined of Inr (s, db) \<Rightarrow> db | Inl e \<Rightarrow> empty_auth)"

lemma organizations_joined_by_invitation_witness:
  "\<exists>s. demo_joined = Inr (s, demo_joined_db) \<and> o_id (is_organization s) = 1
     \<and> isl (register demo_env (demo_draws ''9'') ''eve@web.de'' ''pw'' None (Some ''r7'') demo_client 3 3 demo_joined_db)"
proof -
  have "\<not> isl demo_invited" by code_simp
  then have "\<exists>x. demo_invited = Inr (x, demo_invited_db)" unfolding demo_invited_db_def by (rule not_isl_pair)
  then have inv: "auth_inv demo_invited_db"
    using create_invitation_inv [OF _ demo_auth_inv] unfolding demo_invited_def by blast
  have "\<not> isl demo_joined" by code_simp
  then have "\<exists>s. demo_joined = Inr (s, demo_joined_db)" unfolding demo_joined_db_def by (rule not_isl_pair)
  then obtain s where s: "demo_joined = Inr (s, demo_joined_db)" by blast
  have "(case demo_joined of Inr (s, db) \<Rightarrow> o_id (is_organization s) = 1 | Inl e \<Rightarrow> False)" by code_simp
  then have "o_id (is_organization s) = 1" unfolding s by simp
  moreover have "fresh_family (demo_draws ''8'') demo_invited_db" "truthy (Some ''r7'')" by code_simp+
  ultimately show ?thesis
    using organizations_joined_by_invitation [OF inv s [unfolded demo_joined_def] rtranclp.rtrancl_refl] s by blast
qed

end
