(* ===== verification/AuthApiProperties.thy ===== *)
theory AuthApiProperties
  imports AuthApi AuthProperties
begin

text \<open>
  What the authentication endpoints add to the service: they change identities only by its
  steps, the audit log only grows and holds no credentials, and guessing passwords is
  throttled by exactly the failures of the last quarter of an hour.
\<close>

text \<open>An endpoint leaves the identities alone or performs one step, and only appends to the log.\<close>

definition endpoint_ok :: "auth_env \<Rightarrow> api_state \<Rightarrow> api_state \<Rightarrow> bool" where
  "endpoint_ok env st st' \<longleftrightarrow> (identity st' = identity st \<or> auth_step env (identity st) (identity st'))
     \<and> (\<exists>rows. audit_log st' = audit_log st @ rows \<and> length rows \<le> 1 \<and> list_all (\<lambda>r. clean (ad_detail r)) rows)"

lemma record_audit_frame [simp]:
  "identity (record_audit action outcome actor org res detail cl st) = identity st"
  "logins (record_audit action outcome actor org res detail cl st) = logins st"
  "registrations (record_audit action outcome actor org res detail cl st) = registrations st"
  by (simp_all add: record_audit_def)

lemma record_audit_log:
  "\<exists>r. audit_log (record_audit action outcome actor org res detail cl st) = audit_log st @ [r] \<and> clean (ad_detail r)"
  by (simp add: record_audit_def audit_entry_clean)

lemma endpoint_ok_audited:
  assumes "audit_log st1 = audit_log st"
  shows "endpoint_ok env st (record_audit action outcome actor org res detail cl st1)
    \<longleftrightarrow> identity st1 = identity st \<or> auth_step env (identity st) (identity st1)"
proof -
  obtain r where r: "audit_log (record_audit action outcome actor org res detail cl st1) = audit_log st1 @ [r]"
    "clean (ad_detail r)" using record_audit_log by blast
  then have "\<exists>rows. audit_log (record_audit action outcome actor org res detail cl st1) = audit_log st @ rows
      \<and> length rows \<le> 1 \<and> list_all (\<lambda>r. clean (ad_detail r)) rows"
    using assms by (intro exI [of _ "[r]"]) simp
  then show ?thesis by (simp add: endpoint_ok_def)
qed

lemma endpoint_ok_silent:
  "audit_log st1 = audit_log st
    \<Longrightarrow> endpoint_ok env st st1 \<longleftrightarrow> identity st1 = identity st \<or> auth_step env (identity st) (identity st1)"
  by (simp add: endpoint_ok_def)

lemmas endpoint_ok_simps = endpoint_ok_audited endpoint_ok_silent

lemma register_endpoint_ok:
  assumes "fresh_family dw (identity st)"
  shows "endpoint_ok env st (snd (register_endpoint env dw email pw name offer cl c now st))"
proof (cases "check_limit (registrations st) (registration_key (cl_ip cl)) c")
  case (Pair wait lim)
  show ?thesis
  proof (cases wait)
    case None
    show ?thesis
    proof (cases "register env dw email pw name offer cl now now (identity st)")
      case (Inl e)
      then show ?thesis using Pair None
        by (cases e) (auto simp: register_endpoint_def Let_def simp: endpoint_ok_simps)
    next
      case (Inr x)
      obtain s db where x: "x = (s, db)" by fastforce
      then have "auth_step env (identity st) db" using Inr assms by (auto intro: auth_step.registers)
      then show ?thesis using Pair None Inr x
        by (auto simp: register_endpoint_def session_audit_def Let_def simp: endpoint_ok_simps)
    qed
  qed (auto simp: Pair register_endpoint_def Let_def simp: endpoint_ok_simps)
qed

lemma login_endpoint_ok:
  assumes "fresh_family dw (identity st)"
  shows "endpoint_ok env st (snd (login_endpoint env dw email pw cl c now st))"
proof (cases "check_limit (logins st) (login_key (cl_ip cl) email) c")
  case (Pair wait lim)
  show ?thesis
  proof (cases wait)
    case None
    show ?thesis
    proof (cases "authenticate env dw email pw cl now now (identity st)")
      case (Inl e)
      then show ?thesis using Pair None
        by (cases e) (auto simp: login_endpoint_def Let_def simp: endpoint_ok_simps)
    next
      case (Inr x)
      obtain s db where x: "x = (s, db)" by fastforce
      then have "auth_step env (identity st) db" using Inr assms by (auto intro: auth_step.signs_in)
      then show ?thesis using Pair None Inr x
        by (auto simp: login_endpoint_def session_audit_def Let_def simp: endpoint_ok_simps)
    qed
  qed (auto simp: Pair login_endpoint_def Let_def simp: endpoint_ok_simps)
qed

lemma refresh_endpoint_ok: "endpoint_ok env st (snd (refresh_endpoint env dw presented cl now st))"
proof (cases "truthy presented")
  case True
  obtain res db where r: "rotate_refresh_token env dw (the presented) cl now now (identity st) = (res, db)" by fastforce
  then have step: "auth_step env (identity st) db" by (rule auth_step.rotates)
  show ?thesis
  proof (cases res)
    case (Inl e)
    then show ?thesis using True r step
      by (cases e) (auto simp: refresh_endpoint_def simp: endpoint_ok_simps)
  next
    case (Inr s)
    then show ?thesis using True r step by (auto simp: refresh_endpoint_def simp: endpoint_ok_simps)
  qed
qed (auto simp: refresh_endpoint_def simp: endpoint_ok_simps)

lemma logout_endpoint_ok: "endpoint_ok env st (snd (logout_endpoint env presented cl now st))"
proof -
  have "auth_step env (identity st) (snd (revoke_token env (the presented) now (identity st)))"
    by (rule auth_step.signs_out [OF prod.collapse [symmetric]])
  then show ?thesis by (auto simp: logout_endpoint_def simp: endpoint_ok_simps)
qed

lemma revoke_all_endpoint_ok: "endpoint_ok env st (snd (revoke_all_endpoint env token cl now st))"
  by (auto simp: revoke_all_endpoint_def auth_step.signs_out_everywhere endpoint_ok_simps split: option.split sum.split)

lemma invite_endpoint_ok: "endpoint_ok env st (snd (invite_endpoint env dw token email r cl now st))"
  by (auto simp: invite_endpoint_def endpoint_ok_simps split: option.split sum.split
      intro: auth_step.invites)

text \<open>C27: Every endpoint changes the identities by at most one step of the service, whatever it answers,
  so all that holds of the histories of the service holds of the API; and it only appends to the
  audit log, at most one record, whose detail names no credential.\<close>

theorem endpoints_refine_service:
  assumes "fresh_family dw (identity st)"
  shows "endpoint_ok env st (snd (register_endpoint env dw email pw name offer cl c now st))
    \<and> endpoint_ok env st (snd (login_endpoint env dw email pw cl c now st))
    \<and> endpoint_ok env st (snd (refresh_endpoint env dw presented cl now st))
    \<and> endpoint_ok env st (snd (logout_endpoint env presented cl now st))
    \<and> endpoint_ok env st (snd (revoke_all_endpoint env token cl now st))
    \<and> endpoint_ok env st (snd (invite_endpoint env dw token email r cl now st))"
  by (intro conjI register_endpoint_ok login_endpoint_ok refresh_endpoint_ok logout_endpoint_ok
      revoke_all_endpoint_ok invite_endpoint_ok assms)

definition demo_failures :: "limit_event list" where
  "demo_failures = replicate 5 (Recorded ''login:10.0.0.1:ann@acme.com'' 100)"

definition demo_api :: api_state where
  "demo_api = \<lparr>identity = demo_auth, audit_log = [], logins = limit_run demo_failures login_limiter,
     registrations = registration_limiter\<rparr>"

lemma endpoints_refine_service_witness:
  "endpoint_ok demo_env demo_api (snd (login_endpoint demo_env (demo_draws ''5'') ''ann@acme.com'' ''wrong'' demo_client 2000 5 demo_api))"
proof -
  have "fresh_family (demo_draws ''5'') (identity demo_api)" by code_simp
  then show ?thesis using endpoints_refine_service by blast
qed

text \<open>C40: Sign-ins are throttled exactly, as long as the limiter need not forget: with a history of attempts
  and checks in the order of their times behind it, in which failures of at most ten thousand addresses and
  clients were recorded, the number of windows it keeps before it evicts the least recently active one, an
  attempt is refused, whatever the password, if and only if five failures of the same address and client fall
  into the last fifteen minutes; a refusal neither looks at the password nor leaves a trace, and a wrong
  password adds itself to the history.\<close>

theorem login_throttle_exact:
  assumes "logins st = limit_run es login_limiter" "sorted (map event_time es)" "\<forall>t \<in> set (map event_time es). t \<le> c"
    and "finite (recorded_keys es)" "card (recorded_keys es) \<le> default_max_keys"
    and "key = login_key (cl_ip cl) email" "login_endpoint env dw email pw cl c now st = (r, st')"
  shows "((\<exists>s. r = TooManyAttempts s) \<longleftrightarrow> 5 \<le> length (filter (\<lambda>t. c - 900 < t) (attempts_of key es)))
    \<and> (\<forall>s. r = TooManyAttempts s \<longrightarrow> 1 \<le> s \<and> identity st' = identity st \<and> audit_log st' = audit_log st)
    \<and> (r = Unauthorized Unchanged \<longrightarrow> logins st' = limit_run (es @ [Checked key c, Recorded key c]) login_limiter)"
proof -
  let ?ts = "filter (\<lambda>t. c - 900 < t) (attempts_of key es)"
  obtain wait lim where cl: "check_limit (logins st) key c = (wait, lim)" by fastforce
  have "fst (check_limit (logins st) key c) = (if length ?ts < 5 then None else Some (max 1 \<lfloor>hd ?ts + 900 - c\<rfloor>))"
    using check_limit_exact [OF assms(2-5), of 5 900 key] assms(1) by (simp add: login_limiter_def Let_def)
  then have wait: "wait = (if length ?ts < 5 then None else Some (max 1 \<lfloor>hd ?ts + 900 - c\<rfloor>))" using cl by simp
  have lim: "lim = limit_run (es @ [Checked key c]) login_limiter"
    using cl assms(1) by (simp add: limit_run_snoc)
  show ?thesis
  proof (cases "length ?ts < 5")
    case True
    then have w: "wait = None" using wait by simp
    have "r \<noteq> TooManyAttempts s" for s
      using assms(6,7) cl w by (auto simp: login_endpoint_def Let_def split: sum.splits auth_error.splits)
    moreover have "logins st' = limit_run (es @ [Checked key c, Recorded key c]) login_limiter" if "r = Unauthorized Unchanged"
    proof -
      have "logins st' = record_attempt lim key c"
        using assms(6,7) cl w that by (auto simp: login_endpoint_def Let_def split: sum.splits auth_error.splits)
      then show ?thesis using limit_run_snoc(1) [of "es @ [Checked key c]" key c login_limiter] lim by simp
    qed
    ultimately show ?thesis using True by auto
  next
    case False
    then have "r = TooManyAttempts (max 1 \<lfloor>hd ?ts + 900 - c\<rfloor>)" "st' = st\<lparr>logins := lim\<rparr>"
      using assms(6,7) cl wait by (auto simp: login_endpoint_def Let_def)
    then show ?thesis using False by auto
  qed
qed

lemma login_throttle_exact_witness:
  "\<exists>s. fst (login_endpoint demo_env (demo_draws ''5'') ''ann@acme.com'' ''right'' demo_client 200 5 demo_api) = TooManyAttempts s"
proof -
  obtain r st' where r: "login_endpoint demo_env (demo_draws ''5'') ''ann@acme.com'' ''right'' demo_client 200 5 demo_api = (r, st')"
    by fastforce
  have key: "login_key (cl_ip demo_client) ''ann@acme.com'' = ''login:10.0.0.1:ann@acme.com''" by code_simp
  have keys: "recorded_keys demo_failures = {''login:10.0.0.1:ann@acme.com''}"
    by (auto simp: recorded_keys_def demo_failures_def)
  have "attempts_of ''login:10.0.0.1:ann@acme.com'' demo_failures = replicate 5 100"
    by (simp add: attempts_of_def demo_failures_def map_filter_def numeral_eq_Suc)
  then have five: "5 \<le> length (filter (\<lambda>t. 200 - 900 < t) (attempts_of (login_key (cl_ip demo_client) ''ann@acme.com'') demo_failures))"
    by (simp add: key)
  have "((\<exists>s. r = TooManyAttempts s) \<longleftrightarrow> 5 \<le> length (filter (\<lambda>t. 200 - 900 < t)
      (attempts_of (login_key (cl_ip demo_client) ''ann@acme.com'') demo_failures)))"
    by (rule login_throttle_exact [THEN conjunct1, OF _ _ _ _ _ refl r])
      (simp_all add: demo_api_def keys default_max_keys_def, simp_all add: demo_failures_def numeral_eq_Suc)
  then show ?thesis using five r by simp
qed

end
