(* ===== verification/JsonFacts.thy ===== *)
theory JsonFacts
  imports JsonText
begin

text \<open>
  The fuel of the parser is enough for every text, and parsing undoes printing.
\<close>

section \<open>The fuel\<close>

lemma skip_space_le: "length (skip_space s) \<le> length s"
  by (simp add: skip_space_def length_dropWhile_le)

lemma string_body_shorter: "string_body k s = Some (t, r) \<Longrightarrow> length r < length s"
proof (induction s arbitrary: t r rule: length_induct)
  case (1 s)
  have step: "length r' < length s" if u: "length u < length s"
    and b: "map_option (map_prod f id) (string_body k u) = Some (t', r')" for u f t' r'
  proof -
    obtain t'' where "string_body k u = Some (t'', r')" using b by (auto simp: map_prod_def)
    then have "length r' < length u" using "1.IH" u by blast
    then show ?thesis using u by simp
  qed
  show ?case
  proof (cases s)
    case Nil
    then show ?thesis using "1.prems" by simp
  next
    case (Cons c s0)
    note p = "1.prems" [unfolded Cons string_body.simps]
    consider (q) "c = CHR 0x22" | (b) "c \<noteq> CHR 0x22" "c = CHR 0x5C" | (p) "c \<noteq> CHR 0x22" "c \<noteq> CHR 0x5C" by blast
    then show ?thesis
    proof cases
      case q
      then show ?thesis using p Cons by simp
    next
      case p
      then have "map_option (map_prod (Cons c) id) (string_body k s0) = Some (t, r)"
        using \<open>(if c = CHR 0x22 then _ else _) = _\<close> by (simp split: if_splits)
      then show ?thesis by (rule step [rotated]) (simp add: Cons)
    next
      case b
      obtain e s1 where s0: "s0 = e # s1" using p b by (cases s0) simp_all
      show ?thesis
      proof (cases "e = CHR ''u''")
        case True
        obtain h1 h2 h3 h4 s2 n where s1: "s1 = h1 # h2 # h3 # h4 # s2"
          and m: "map_option (map_prod (append (code_text k n)) id) (string_body k s2) = Some (t, r)"
          using p b s0 True by (simp split: list.splits option.splits)
        show ?thesis by (rule step [OF _ m]) (simp add: Cons s0 s1)
      next
        case False
        obtain x where "map_option (map_prod (Cons x) id) (string_body k s1) = Some (t, r)"
          using p b s0 False by (simp split: option.splits)
        then show ?thesis by (rule step [rotated]) (simp add: Cons s0)
      qed
    qed
  qed
qed

lemma digits_of_le: "digits_of s = (a, b) \<Longrightarrow> length b \<le> length s"
  by (auto simp: digits_of_def length_dropWhile_le)

lemma int_digits_shorter: "int_digits s = Some (ds, r) \<Longrightarrow> length r < length s"
  by (auto simp: int_digits_def digits_of_def less_Suc_eq_le length_dropWhile_le split: list.splits if_splits)

lemma fraction_le: "length (snd (fraction s)) \<le> length s"
  by (auto simp: fraction_def digits_of_def le_SucI length_dropWhile_le split: list.split)

lemma exponent_le: "length (snd (exponent s)) \<le> length s"
  by (auto simp: exponent_def digits_of_def le_SucI length_dropWhile_le Let_def split: list.split prod.split if_splits)

lemma number_shorter: "number k s = Some (v, r) \<Longrightarrow> length r < length s"
proof -
  assume a: "number k s = Some (v, r)"
  define s1 where "s1 = snd (case s of c # r \<Rightarrow> if c = CHR ''-'' then ([c], r) else ([], s) | [] \<Rightarrow> ([], s))"
  have s1: "length s1 \<le> length s" by (auto simp: s1_def split: list.split)
  obtain ds s2 where i: "int_digits s1 = Some (ds, s2)" "r = snd (exponent (snd (fraction s2)))"
    using a by (auto simp: number_def s1_def Let_def split: prod.splits option.splits)
  have "length r \<le> length s2"
    using exponent_le [of "snd (fraction s2)"] fraction_le [of s2] i(2) by simp
  then show ?thesis using int_digits_shorter [OF i(1)] s1 by simp
qed

lemma constants_nonempty: "(t, v) \<in> set constants \<Longrightarrow> t \<noteq> []"
  by (auto simp: constants_def)

lemma literal_shorter: "literal k s = Some (v, r) \<Longrightarrow> length r < length s"
proof -
  assume a: "literal k s = Some (v, r)"
  show ?thesis
  proof (cases "List.find (\<lambda>(t, v). starts_with s t) constants")
    case None
    then show ?thesis using a number_shorter by (simp add: literal_def)
  next
    case (Some p)
    obtain t w where p: "p = (t, w)" by fastforce
    then have "starts_with s t" "t \<noteq> []" using Some constants_nonempty by (auto dest: find_Some_in)
    then show ?thesis using a Some p by (auto simp: literal_def starts_with_iff)
  qed
qed

lemma parse_shorter:
  "\<And>v r. parse_value k n s = Some (v, r) \<Longrightarrow> length r < length s"
  "\<And>vs r. parse_items k n s = Some (vs, r) \<Longrightarrow> length r < length s"
  "\<And>ms r. parse_members k n s = Some (ms, r) \<Longrightarrow> length r < length s"
proof (induction k n s and k n s and k n s rule: parse_value_parse_items_parse_members.induct)
  case (2 k n s)
  show ?case
  proof (cases s)
    case (Cons c s0)
    have le: "length u \<le> length s0" if "skip_space s0 = u" for u using skip_space_le [of s0] that by simp
    note p = "2.prems" [unfolded Cons parse_value.simps list.case]
    consider (q) "c = CHR 0x22" | (a) "c = CHR ''[''" | (o) "c = CHR ''{''"
      | (l) "c \<noteq> CHR 0x22" "c \<noteq> CHR ''[''" "c \<noteq> CHR ''{''" by blast
    then show ?thesis
    proof cases
      case q
      then show ?thesis using p Cons string_body_shorter by fastforce
    next
      case a
      then show ?thesis using p Cons "2.IH"(1) le by (fastforce split: list.splits if_splits)
    next
      case o
      then show ?thesis using p Cons "2.IH"(2) le by (fastforce split: list.splits if_splits)
    next
      case l
      then show ?thesis using p Cons literal_shorter by fastforce
    qed
  qed (use 2 in simp)
next
  case (4 k n s)
  then obtain v r1 c r2 where v: "parse_value k n s = Some (v, r1)" and r: "skip_space r1 = c # r2"
    by (auto split: option.splits list.splits)
  have "length r1 < length s" using "4.IH"(1) v by simp
  then have l: "Suc (length r2) < length s" using skip_space_le [of r1] r by simp
  show ?case
  proof (cases "c = CHR '']''")
    case True
    then show ?thesis using "4.prems" v r l by simp
  next
    case False
    then obtain vs' where "parse_items k n (skip_space r2) = Some (vs', r)" using "4.prems" v r by (auto split: if_splits)
    then have "length r < length (skip_space r2)" using "4.IH"(2) [OF v _ r] v r False "4.prems" by (auto split: if_splits)
    then show ?thesis using skip_space_le [of r2] l by simp
  qed
next
  case (6 k n s)
  then obtain q s1 where s: "s = q # s1" and q: "q = CHR 0x22" by (auto split: list.splits if_splits)
  obtain key s2 c s3 v s4 d s5 where b: "string_body k s1 = Some (key, s2)" "skip_space s2 = c # s3" "c = CHR '':''"
    and v: "parse_value k n (skip_space s3) = Some (v, s4)" and d: "skip_space s4 = d # s5"
    using "6.prems" unfolding s parse_members.simps list.case q by (auto split: option.splits list.splits if_splits)
  have "length s2 < length s1" using b(1) by (rule string_body_shorter)
  moreover have "length s4 < length (skip_space s3)"
    by (rule "6.IH"(1) [OF s _ _ refl b(2) _ v]) (simp_all add: q b)
  ultimately have l: "Suc (length s5) < length s"
    using skip_space_le [of s2] skip_space_le [of s3] skip_space_le [of s4] b(2) d s by simp
  show ?case
  proof (cases "d = CHR ''}''")
    case True
    then show ?thesis using "6.prems" b v d l q by (simp add: s)
  next
    case False
    then have c: "d = CHR '',''" and "\<exists>ms'. parse_members k n (skip_space s5) = Some (ms', r)"
      using "6.prems" b v d q by (auto simp: s split: if_splits)
    then obtain ms' where m: "parse_members k n (skip_space s5) = Some (ms', r)" by blast
    have "length r < length (skip_space s5)"
      by (rule "6.IH"(2) [OF s _ _ refl b(2) _ v refl d False c m]) (simp_all add: q b)
    then show ?thesis using skip_space_le [of s5] l by simp
  qed
qed simp_all

text \<open>Two units of fuel for each character are enough: more changes nothing.\<close>

lemma parse_fuel:
  "\<And>m. 2 * length s + 1 \<le> n \<Longrightarrow> 2 * length s + 1 \<le> m \<Longrightarrow> parse_value k n s = parse_value k m s"
  "\<And>m. 2 * length s + 2 \<le> n \<Longrightarrow> 2 * length s + 2 \<le> m \<Longrightarrow> parse_items k n s = parse_items k m s"
  "\<And>m. 2 * length s + 1 \<le> n \<Longrightarrow> 2 * length s + 1 \<le> m \<Longrightarrow> parse_members k n s = parse_members k m s"
proof (induction k n s and k n s and k n s rule: parse_value_parse_items_parse_members.induct)
  case (2 k n s)
  obtain m' where m: "m = Suc m'" using "2.prems"(2) by (cases m) simp_all
  show ?case
  proof (cases s)
    case (Cons c s0)
    have items: "parse_items k n (d # r) = parse_items k m' (d # r)"
      if "c = CHR ''[''" "skip_space s0 = d # r" "d \<noteq> CHR '']''" for d r
      using "2.IH"(1) [OF Cons _ that] "2.prems" m Cons skip_space_le [of s0] that by simp
    have members: "parse_members k n (d # r) = parse_members k m' (d # r)"
      if "c = CHR ''{''" "skip_space s0 = d # r" "d \<noteq> CHR ''}''" for d r
      using "2.IH"(2) [OF Cons _ _ that] "2.prems" m Cons skip_space_le [of s0] that by simp
    show ?thesis unfolding m Cons parse_value.simps list.case
      using items members by (cases "skip_space s0") auto
  qed (simp add: m)
next
  case (4 k n s)
  obtain m' where m: "m = Suc m'" using "4.prems"(2) by (cases m) simp_all
  have v: "parse_value k n s = parse_value k m' s" by (rule "4.IH"(1)) (use "4.prems" m in simp_all)
  have "parse_items k n (skip_space r') = parse_items k m' (skip_space r')"
    if a: "parse_value k n s = Some (w, r)" "skip_space r = c # r'" "c \<noteq> CHR '']''" "c = CHR '',''" for w r c r'
  proof (rule "4.IH"(2) [OF a(1) refl a(2-4)])
    have "length r < length s" using a(1) by (rule parse_shorter)
    then have "Suc (length (skip_space r')) < length s" using skip_space_le [of r] skip_space_le [of r'] a(2) by simp
    then show "2 * length (skip_space r') + 2 \<le> n" "2 * length (skip_space r') + 2 \<le> m'" using "4.prems" m by simp_all
  qed
  then show ?case unfolding m parse_items.simps v [symmetric] by (auto split: option.split list.split)
next
  case (6 k n s)
  obtain m' where m: "m = Suc m'" using "6.prems"(2) by (cases m) simp_all
  show ?case
  proof (cases s)
    case (Cons q s1)
    have v: "parse_value k n (skip_space s3) = parse_value k m' (skip_space s3)"
      if b: "\<not> q \<noteq> CHR 0x22" "string_body k s1 = Some (key, s2)" "skip_space s2 = c # s3" "\<not> c \<noteq> CHR '':''" for key s2 c s3
    proof (rule "6.IH"(1) [OF Cons b(1,2) refl b(3,4)])
      have "length s2 < length s1" using b(2) by (rule string_body_shorter)
      then have "Suc (length (skip_space s3)) < length s"
        using skip_space_le [of s2] skip_space_le [of s3] b(3) Cons by simp
      then show "2 * length (skip_space s3) + 1 \<le> n" "2 * length (skip_space s3) + 1 \<le> m'" using "6.prems" m by simp_all
    qed
    have r: "parse_members k n (skip_space s5) = parse_members k m' (skip_space s5)"
      if b: "\<not> q \<noteq> CHR 0x22" "string_body k s1 = Some (key, s2)" "skip_space s2 = c # s3" "\<not> c \<noteq> CHR '':''"
        and w: "parse_value k n (skip_space s3) = Some (v, s4)"
        and d: "skip_space s4 = d # s5" "d \<noteq> CHR ''}''" "d = CHR '',''" for key s2 c s3 v s4 d s5
    proof (rule "6.IH"(2) [OF Cons b(1,2) refl b(3,4) w refl d])
      have "length s2 < length s1" using b(2) by (rule string_body_shorter)
      moreover have "length s4 < length (skip_space s3)" using w by (rule parse_shorter)
      ultimately have "Suc (length (skip_space s5)) < length s"
        using skip_space_le [of s2] skip_space_le [of s3] skip_space_le [of s4] skip_space_le [of s5] b(3) d Cons by simp
      then show "2 * length (skip_space s5) + 1 \<le> n" "2 * length (skip_space s5) + 1 \<le> m'" using "6.prems" m by simp_all
    qed
    show ?thesis unfolding m Cons parse_members.simps list.case
      using v r by (auto split: option.split list.split)
  qed (simp add: m)
qed simp_all

lemma json_loads_fuel:
  "2 * length s + 1 \<le> n \<Longrightarrow> json_loads k s = (case parse_value k n (skip_space s) of
       Some (v, r) \<Rightarrow> if skip_space r = [] then Some v else None | None \<Rightarrow> None)"
  using parse_fuel(1) [of "skip_space s" "2 * length s + 2" n k] skip_space_le [of s] by (simp add: json_loads_def)

section \<open>Parsing what was printed\<close>

text \<open>The values printing keeps: ASCII texts, dictionaries with distinct keys, no floats.\<close>

definition ascii :: "string \<Rightarrow> bool" where
  "ascii s \<longleftrightarrow> list_all (\<lambda>c. (of_char c :: nat) < 128) s"

fun plain_json :: "json \<Rightarrow> bool" where
  "plain_json (JFloat r) = False"
| "plain_json (JStr s) = ascii s"
| "plain_json (JList xs) = list_all plain_json xs"
| "plain_json (JObject d) = (distinct (map fst d) \<and> list_all (\<lambda>(k, v). ascii k \<and> plain_json v) d)"
| "plain_json _ = True"

lemma hex_value_digit: "d < 16 \<Longrightarrow> hex_value (if d < 10 then char_of (48 + d) else char_of (87 + d :: nat)) = Some d"
  by (simp add: hex_value_def)

lemma hex_code_hex4:
  assumes "n < 128"
  shows "\<exists>h l. hex4 n = [CHR ''0'', CHR ''0'', h, l] \<and> hex_code (CHR ''0'') (CHR ''0'') h l = Some n"
proof -
  have zero: "hex_value (CHR ''0'') = Some 0" by (simp add: hex_value_def)
  have "hex_code (CHR ''0'') (CHR ''0'') (if n div 16 < 10 then char_of (48 + n div 16) else char_of (87 + n div 16))
      (if n mod 16 < 10 then char_of (48 + n mod 16) else char_of (87 + n mod 16)) = Some n"
    unfolding hex_code_def using hex_value_digit [of "n div 16"] hex_value_digit [of "n mod 16"] assms
    by (simp add: zero)
  then show ?thesis by (simp add: hex4_def Let_def)
qed

lemma string_body_escape:
  assumes "(of_char c :: nat) < 128"
  shows "string_body k (escape_char c @ s) = map_option (map_prod (Cons c) id) (string_body k s)"
proof -
  consider (named) "c \<in> {CHR 0x22, CHR 0x5C, CHR 0x0A, CHR 0x0D, CHR 0x09, CHR 0x0C, CHR 0x08}"
    | (code) "c \<notin> {CHR 0x22, CHR 0x5C, CHR 0x0A, CHR 0x0D, CHR 0x09, CHR 0x0C, CHR 0x08}"
        "(of_char c :: nat) < 32 \<or> 126 < (of_char c :: nat)"
    | (self) "c \<notin> {CHR 0x22, CHR 0x5C, CHR 0x0A, CHR 0x0D, CHR 0x09, CHR 0x0C, CHR 0x08}"
        "\<not> ((of_char c :: nat) < 32 \<or> 126 < (of_char c :: nat))" by blast
  then show ?thesis
  proof cases
    case named
    then show ?thesis by (auto simp: escape_char_def unescape_def)
  next
    case code
    obtain h l where h: "hex4 (of_char c) = [CHR ''0'', CHR ''0'', h, l]"
      "hex_code (CHR ''0'') (CHR ''0'') h l = Some (of_char c)" using hex_code_hex4 [OF assms] by blast
    have e: "escape_char c = CHR 0x5C # CHR ''u'' # [CHR ''0'', CHR ''0'', h, l]"
      using code h(1) by (simp add: escape_char_def)
    have "append (code_text k (of_char c)) = Cons c" using assms by (simp add: code_text_def fun_eq_iff)
    then show ?thesis by (simp add: e h(2))
  next
    case self
    then show ?thesis by (simp add: escape_char_def)
  qed
qed

lemma string_body_dump: "ascii s \<Longrightarrow> string_body k (concat (map escape_char s) @ CHR 0x22 # r) = Some (s, r)"
  by (induction s) (simp_all add: ascii_def string_body_escape)

lemma nat_str_digits: "list_all is_digit (nat_str n)"
proof (induction n rule: nat_str.induct)
  case (1 n)
  have d: "is_digit (digit_char m)" if "m < 10" for m
    using that by (simp add: is_digit_def digit_char_def of_char_le)
  show ?case
  proof (cases "n < 10")
    case False
    then show ?thesis using 1 d by (subst nat_str.simps) simp
  qed (subst nat_str.simps, simp add: d)
qed

lemma nat_str_head: "\<exists>c r. nat_str n = c # r \<and> (c = CHR ''0'' \<longrightarrow> n = 0 \<and> r = [])"
proof (induction n rule: nat_str.induct)
  case (1 n)
  show ?case
  proof (cases "n < 10")
    case True
    have "digit_char n = CHR ''0'' \<Longrightarrow> n = 0"
    proof -
      assume "digit_char n = CHR ''0''"
      then have "(of_char (digit_char n) :: nat) = of_char (CHR ''0'')" by simp
      then show "n = 0" using True by (simp add: digit_char_def)
    qed
    then show ?thesis using True by (subst nat_str.simps) simp
  next
    case False
    then show ?thesis using 1 by (subst nat_str.simps) auto
  qed
qed

text \<open>What follows a value in printed text.\<close>

definition ended :: "string \<Rightarrow> bool" where
  "ended r \<longleftrightarrow> r = [] \<or> hd r \<in> {CHR '','', CHR '']'', CHR ''}''}"

lemma ended_not_digit: "ended r \<Longrightarrow> takeWhile is_digit r = [] \<and> dropWhile is_digit r = r"
  by (cases r) (auto simp: ended_def is_digit_def of_char_le)

lemma digits_of_run: "list_all is_digit ds \<Longrightarrow> ended r \<Longrightarrow> digits_of (ds @ r) = (ds, r)"
  using ended_not_digit [of r] by (simp add: digits_of_def list_all_iff takeWhile_append2 dropWhile_append2)

lemma int_digits_nat_str: "ended r \<Longrightarrow> int_digits (nat_str n @ r) = Some (nat_str n, r)"
proof -
  assume r: "ended r"
  obtain c t where c: "nat_str n = c # t" "c = CHR ''0'' \<longrightarrow> n = 0 \<and> t = []" using nat_str_head by blast
  have "is_digit c" using nat_str_digits [of n] c by simp
  then show ?thesis using c digits_of_run [OF nat_str_digits r, of n] by (auto simp: int_digits_def)
qed

lemma ended_no_fraction: "ended r \<Longrightarrow> fraction r = ([], r) \<and> exponent r = ([], r)"
  by (cases r) (auto simp: ended_def fraction_def exponent_def)

lemma number_int_str: "ended r \<Longrightarrow> number k (int_str i @ r) = Some (JInt i, r)"
proof -
  assume r: "ended r"
  show ?thesis
  proof (cases "i < 0")
    case True
    then show ?thesis using int_digits_nat_str [OF r] ended_no_fraction [OF r]
      by (simp add: number_def int_str_def)
  next
    case False
    obtain c t where c: "nat_str (nat i) = c # t" using nat_str_head by blast
    then have "is_digit c" using nat_str_digits [of "nat i"] by simp
    then have "c \<noteq> CHR ''-''" by (auto simp: is_digit_def)
    moreover have "int_digits (c # t @ r) = Some (nat_str (nat i), r)" using int_digits_nat_str [OF r, of "nat i"] c by simp
    ultimately show ?thesis using False ended_no_fraction [OF r] by (simp add: number_def int_str_def c) (simp add: c [symmetric])
  qed
qed

lemma int_str_head: "\<exists>c r. int_str i = c # r \<and> (is_digit c \<or> c = CHR ''-'' \<and> (\<exists>d r'. r = d # r' \<and> is_digit d))"
proof -
  have n: "\<exists>d r'. nat_str n = d # r' \<and> is_digit d" for n
    using nat_str_head [of n] nat_str_digits [of n] by auto
  show ?thesis using n [of "nat i"] n [of "nat (- i)"] by (auto simp: int_str_def)
qed

lemma not_digit: "\<not> is_digit (CHR ''n'')" "\<not> is_digit (CHR ''t'')" "\<not> is_digit (CHR ''f'')"
  "\<not> is_digit (CHR ''N'')" "\<not> is_digit (CHR ''I'')" "\<not> is_digit (CHR ''-'')" "\<not> is_digit (CHR 0x22)"
  "\<not> is_digit (CHR ''['')" "\<not> is_digit (CHR ''{'')" "\<not> is_digit (CHR '']'')" "\<not> is_digit (CHR ''}'')"
  "\<not> is_digit (CHR 0x20)" "\<not> is_digit (CHR 0x09)" "\<not> is_digit (CHR 0x0A)" "\<not> is_digit (CHR 0x0D)"
  by (simp_all add: is_digit_def)

lemma no_constant: "is_digit c \<or> c = CHR ''-'' \<and> (\<exists>d r'. r = d # r' \<and> is_digit d) \<Longrightarrow>
    List.find (\<lambda>(t, v). starts_with (c # r) t) constants = None"
proof -
  assume c: "is_digit c \<or> c = CHR ''-'' \<and> (\<exists>d r'. r = d # r' \<and> is_digit d)"
  have n: "c \<noteq> CHR ''n''" "c \<noteq> CHR ''t''" "c \<noteq> CHR ''f''" "c \<noteq> CHR ''N''" "c \<noteq> CHR ''I''"
    using c not_digit by blast+
  moreover have "\<not> starts_with (c # r) ''-Infinity''"
  proof (cases "c = CHR ''-''")
    case True
    then obtain d r' where "r = d # r'" "is_digit d" using c not_digit by blast
    moreover from this have "d \<noteq> CHR ''I''" using not_digit by blast
    ultimately show ?thesis by simp
  qed simp
  ultimately show ?thesis unfolding constants_def by simp
qed

lemma literal_int_str: "ended r \<Longrightarrow> literal k (int_str i @ r) = Some (JInt i, r)"
proof -
  assume r: "ended r"
  obtain c t where c: "int_str i = c # t" "is_digit c \<or> c = CHR ''-'' \<and> (\<exists>d r'. t = d # r' \<and> is_digit d)"
    using int_str_head [of i] by (elim exE conjE) (rule that)
  have "is_digit c \<or> c = CHR ''-'' \<and> (\<exists>d r'. t @ r = d # r' \<and> is_digit d)"
    using c(2) by (elim disjE conjE exE) simp_all
  then show ?thesis using no_constant [of c "t @ r"] number_int_str [OF r, of k i] c(1) by (simp add: literal_def)
qed

text \<open>Printed values start with a character that is no white space and ends no sequence.\<close>

definition value_start :: "char \<Rightarrow> bool" where
  "value_start c \<longleftrightarrow> \<not> json_space c \<and> c \<noteq> CHR '']'' \<and> c \<noteq> CHR ''}''"

lemma json_text_start: "plain_json v \<Longrightarrow> \<exists>c r. json_text v = c # r \<and> value_start c"
proof (cases v)
  case (JInt i)
  obtain c r where c: "int_str i = c # r" "is_digit c \<or> c = CHR ''-''" using int_str_head by blast
  then have "value_start c" using not_digit by (auto simp: value_start_def json_space_def)
  then show ?thesis using c(1) JInt by simp
qed (auto simp: value_start_def json_space_def dump_string_def)

lemma skip_space_value [simp]: "plain_json v \<Longrightarrow> skip_space (json_text v @ r) = json_text v @ r"
  using json_text_start [of v] by (auto simp: skip_space_def value_start_def)

lemma skip_space_Cons: "skip_space (c # s) = (if json_space c then skip_space s else c # s)"
  by (simp add: skip_space_def)

lemma skip_space_simps [simp]: "skip_space [] = []" "skip_space (CHR 0x20 # s) = skip_space s"
  "skip_space (CHR '','' # s) = CHR '','' # s" "skip_space (CHR '']'' # s) = CHR '']'' # s"
  "skip_space (CHR ''}'' # s) = CHR ''}'' # s" "skip_space (CHR '':'' # s) = CHR '':'' # s"
  "skip_space (CHR 0x22 # s) = CHR 0x22 # s"
  by (simp_all add: skip_space_def json_space_def)

lemma join_Cons: "join sep (s # ts) = (if ts = [] then s else s @ sep @ join sep ts)"
  by (cases ts) simp_all

lemma json_text_pos: "plain_json v \<Longrightarrow> 0 < length (json_text v)"
  using json_text_start by fastforce

lemma dict_put_new: "k \<notin> fst ` set d \<Longrightarrow> dict_put k v d = d @ [(k, v)]"
  by (induction d) auto

lemma dict_of_distinct: "distinct (map fst d) \<Longrightarrow> dict_of d = d"
proof -
  have "foldl (\<lambda>d (k, v). dict_put k v d) acc d = acc @ d" if "distinct (map fst (acc @ d))" for acc
    using that by (induction d arbitrary: acc) (auto simp: dict_put_new)
  then show "distinct (map fst d) \<Longrightarrow> dict_of d = d" by (simp add: dict_of_def)
qed

definition parses :: "json_codec \<Rightarrow> json \<Rightarrow> bool" where
  "parses k v \<longleftrightarrow> (\<forall>n r. ended r \<longrightarrow> 2 * length (json_text v) \<le> Suc n
     \<longrightarrow> parse_value k n (json_text v @ r) = Some (v, r))"

lemma parse_items_text:
  "xs \<noteq> [] \<Longrightarrow> \<forall>x \<in> set xs. plain_json x \<and> parses k x \<Longrightarrow> 2 * length (join '', '' (map json_text xs)) \<le> n
    \<Longrightarrow> parse_items k n (join '', '' (map json_text xs) @ CHR '']'' # r) = Some (xs, r)"
proof (induction xs arbitrary: n)
  case (Cons x xs)
  have x: "plain_json x" "parses k x" using Cons.prems(2) by auto
  obtain m where n: "n = Suc m" using Cons.prems(3) json_text_pos [OF x(1)] by (cases n) (auto simp: join_Cons split: if_splits)
  show ?case
  proof (cases "xs = []")
    case True
    have "parse_value k m (json_text x @ CHR '']'' # r) = Some (x, CHR '']'' # r)"
      using x(2) Cons.prems(3) n True by (simp add: parses_def ended_def)
    then show ?thesis using True n by simp
  next
    case False
    let ?rest = "join '', '' (map json_text xs)"
    have "parse_value k m (json_text x @ CHR '','' # CHR 0x20 # ?rest @ CHR '']'' # r)
        = Some (x, CHR '','' # CHR 0x20 # ?rest @ CHR '']'' # r)"
      using x(2) Cons.prems(3) n False by (simp add: parses_def ended_def join_Cons)
    moreover have "parse_items k m (?rest @ CHR '']'' # r) = Some (xs, r)"
      using Cons.IH [OF False, of m] Cons.prems(2,3) n False json_text_pos [OF x(1)] by (simp add: join_Cons)
    moreover have "skip_space (?rest @ CHR '']'' # r) = ?rest @ CHR '']'' # r"
    proof -
      obtain y ys where xs: "xs = y # ys" using False by (cases xs) simp_all
      then have "plain_json y" using Cons.prems(2) by simp
      then show ?thesis using skip_space_value [of y] by (simp add: xs join_Cons)
    qed
    ultimately show ?thesis using False n by (simp add: join_Cons)
  qed
qed simp

definition member_text :: "string \<times> json \<Rightarrow> string" where
  "member_text p = dump_string (fst p) @ '': '' @ json_text (snd p)"

lemma parse_members_text:
  "d \<noteq> [] \<Longrightarrow> \<forall>p \<in> set d. ascii (fst p) \<and> plain_json (snd p) \<and> parses k (snd p)
    \<Longrightarrow> 2 * length (join '', '' (map member_text d)) \<le> n
    \<Longrightarrow> parse_members k n (join '', '' (map member_text d) @ CHR ''}'' # r) = Some (d, r)"
proof (induction d arbitrary: n)
  case (Cons p d)
  obtain key v where p: "p = (key, v)" by fastforce
  have v: "ascii key" "plain_json v" "parses k v" using Cons.prems(2) p by auto
  let ?key = "concat (map escape_char key)"
  have mt: "member_text (key, v) = CHR 0x22 # ?key @ CHR 0x22 # CHR '':'' # CHR 0x20 # json_text v"
    by (simp add: member_text_def dump_string_def)
  obtain m where n: "n = Suc m" using Cons.prems(3) by (cases n) (auto simp: join_Cons p mt split: if_splits)
  have key: "string_body k (?key @ CHR 0x22 # s) = Some (key, s)" for s using string_body_dump [OF v(1)] .
  show ?case
  proof (cases "d = []")
    case True
    have "parse_value k m (json_text v @ CHR ''}'' # r) = Some (v, CHR ''}'' # r)"
      using v(3) Cons.prems(3) n True by (simp add: parses_def ended_def p mt)
    then show ?thesis using True n v(2) by (simp add: mt key p)
  next
    case False
    let ?rest = "join '', '' (map member_text d)"
    have "parse_value k m (json_text v @ CHR '','' # CHR 0x20 # ?rest @ CHR ''}'' # r)
        = Some (v, CHR '','' # CHR 0x20 # ?rest @ CHR ''}'' # r)"
      using v(3) Cons.prems(3) n False by (simp add: parses_def ended_def join_Cons p mt)
    moreover have "parse_members k m (?rest @ CHR ''}'' # r) = Some (d, r)"
      using Cons.IH [OF False, of m] Cons.prems(2,3) n False by (simp add: join_Cons p mt)
    moreover have "skip_space (?rest @ CHR ''}'' # r) = ?rest @ CHR ''}'' # r"
      using False by (cases d) (simp_all add: join_Cons member_text_def dump_string_def)
    ultimately show ?thesis using False n v(2) by (simp add: join_Cons mt key p)
  qed
qed simp

lemma plain_parses: "plain_json v \<Longrightarrow> parses k v"
proof (induction v)
  case (JBool b)
  show ?case unfolding parses_def
  proof (intro allI impI)
    fix n r assume "2 * length (json_text (JBool b)) \<le> Suc n"
    then obtain m where "n = Suc m" by (cases n) (auto split: if_splits)
    then show "parse_value k n (json_text (JBool b) @ r) = Some (JBool b, r)"
      by (cases b) (simp_all add: literal_def constants_def)
  qed
next
  case JNull
  show ?case unfolding parses_def
  proof (intro allI impI)
    fix n r assume "2 * length (json_text JNull) \<le> Suc n"
    then obtain m where "n = Suc m" by (cases n) auto
    then show "parse_value k n (json_text JNull @ r) = Some (JNull, r)" by (simp add: literal_def constants_def)
  qed
next
  case (JInt i)
  obtain c t where c: "int_str i = c # t" "is_digit c \<or> c = CHR ''-''"
    using int_str_head [of i] by (elim exE conjE) (rule that, auto)
  then have q: "c \<noteq> CHR 0x22" "c \<noteq> CHR ''[''" "c \<noteq> CHR ''{''" using not_digit by auto
  show ?case unfolding parses_def
  proof (intro allI impI)
    fix n r assume r: "ended r" and "2 * length (json_text (JInt i)) \<le> Suc n"
    then obtain m where "n = Suc m" using c(1) by (cases n) auto
    then show "parse_value k n (json_text (JInt i) @ r) = Some (JInt i, r)"
      using literal_int_str [OF r, of k i] q by (simp add: c(1))
  qed
next
  case (JStr s)
  then have s: "ascii s" by simp
  show ?case unfolding parses_def
  proof (intro allI impI)
    fix n r assume "2 * length (json_text (JStr s)) \<le> Suc n"
    then obtain m where "n = Suc m" by (cases n) (auto simp: dump_string_def)
    then show "parse_value k n (json_text (JStr s) @ r) = Some (JStr s, r)"
      using string_body_dump [OF s, of k r] by (simp add: dump_string_def)
  qed
next
  case (JList xs)
  then have xs: "\<forall>x \<in> set xs. plain_json x \<and> parses k x" by (auto simp: list_all_iff)
  show ?case unfolding parses_def
  proof (intro allI impI)
    fix n r assume n: "2 * length (json_text (JList xs)) \<le> Suc n"
    then obtain m where m: "n = Suc m" by (cases n) auto
    show "parse_value k n (json_text (JList xs) @ r) = Some (JList xs, r)"
    proof (cases xs)
      case (Cons x ys)
      let ?body = "join '', '' (map json_text xs)"
      have "plain_json x" using xs Cons by simp
      then obtain c t where c: "json_text x = c # t" "value_start c" using json_text_start by blast
      then have body: "\<exists>u. ?body = c # u" by (simp add: Cons join_Cons)
      then obtain u where u: "?body = c # u" by blast
      have "parse_items k m (?body @ CHR '']'' # r) = Some (xs, r)"
        by (rule parse_items_text) (use xs n m Cons in auto)
      then show ?thesis using c(2) by (simp add: m u skip_space_Cons value_start_def)
    qed (simp add: m)
  qed
next
  case (JObject d)
  then have d: "\<forall>p \<in> set d. ascii (fst p) \<and> plain_json (snd p) \<and> parses k (snd p)" "distinct (map fst d)"
    by (fastforce simp: list_all_iff)+
  have printed: "json_text (JObject d) = CHR ''{'' # join '', '' (map member_text d) @ ''}''"
    by (simp add: member_text_def [abs_def] case_prod_beta')
  show ?case unfolding parses_def
  proof (intro allI impI)
    fix n r assume n: "2 * length (json_text (JObject d)) \<le> Suc n"
    then obtain m where m: "n = Suc m" by (cases n) auto
    show "parse_value k n (json_text (JObject d) @ r) = Some (JObject d, r)"
    proof (cases d)
      case (Cons p ps)
      let ?body = "join '', '' (map member_text d)"
      have "\<exists>u. ?body = CHR 0x22 # u" by (simp add: Cons join_Cons member_text_def dump_string_def)
      then obtain u where u: "?body = CHR 0x22 # u" by blast
      have "parse_members k m (?body @ CHR ''}'' # r) = Some (d, r)"
        by (rule parse_members_text) (use d n m Cons printed in auto)
      then show ?thesis using dict_of_distinct [OF d(2)] by (simp add: m u printed del: json_text.simps)
    qed (simp add: m)
  qed
qed simp

theorem json_round_trip:
  assumes "plain_json v"
  shows "json_loads k (json_text v) = Some v"
proof -
  have "parse_value k (2 * length (json_text v) + 2) (json_text v @ []) = Some (v, [])"
    using plain_parses [OF assms, of k] unfolding parses_def by (simp add: ended_def del: append_Nil2 parse_value.simps)
  then show ?thesis using skip_space_value [OF assms, of "[]"] by (simp add: json_loads_def del: parse_value.simps)
qed

end
