(* ===== verification/Budget.thy ===== *)
theory Budget
  imports SqlTable
begin

text \<open>
  \<^verbatim>\<open>enrichment/budget.py\<close>: what each tenant spends on language models per day, one row per
  tenant and day of \<^verbatim>\<open>models/llm_spend.py\<close>, and the daily cap. The cap, read from the
  environment when the module is loaded, is an argument; days are numbers. Spending is
  recorded by one statement that adds to the row, so that concurrent workers lose nothing;
  the check before it is a separate read, which is why \<open>consume_seen\<close> takes the row that was
  read.
\<close>

record llm_spend =
  sp_tenant :: string
  sp_date :: int
  sp_tokens_used :: int
  sp_calls_made :: int

definition sp_key :: "llm_spend \<Rightarrow> string \<times> int" where
  "sp_key r = (sp_tenant r, sp_date r)"

definition global_bucket :: string where
  "global_bucket = ''__global__''"

text \<open>\<^verbatim>\<open>LLM_DAILY_TOKEN_BUDGET\<close>, as a number when it is set.\<close>

definition daily_token_budget :: "int option \<Rightarrow> int" where
  "daily_token_budget setting = max 1 (case setting of None \<Rightarrow> 500000 | Some n \<Rightarrow> n)"

definition bucket :: "string option \<Rightarrow> string" where
  "bucket tenant = str_or tenant global_bucket"

definition spend_row :: "string option \<Rightarrow> int \<Rightarrow> llm_spend list \<Rightarrow> llm_spend option" where
  "spend_row tenant day t = row_of sp_key t (bucket tenant, day)"

text \<open>\<^verbatim>\<open>INSERT ... ON CONFLICT DO UPDATE SET tokens_used = tokens_used + ...\<close>\<close>

definition increment :: "string option \<Rightarrow> int \<Rightarrow> int \<Rightarrow> int \<Rightarrow> llm_spend list \<Rightarrow> llm_spend list" where
  "increment tenant tokens calls day t =
     (case sql_insert sp_key \<lparr>sp_tenant = bucket tenant, sp_date = day, sp_tokens_used = tokens,
             sp_calls_made = calls\<rparr> t of
        Some t' \<Rightarrow> t'
      | None \<Rightarrow> sql_update (\<lambda>r. sp_key r = (bucket tenant, day))
          (\<lambda>r. r\<lparr>sp_tokens_used := sp_tokens_used r + tokens, sp_calls_made := sp_calls_made r + calls\<rparr>) t)"

definition tokens_of :: "llm_spend option \<Rightarrow> int" where
  "tokens_of r = (case r of None \<Rightarrow> 0 | Some r \<Rightarrow> sp_tokens_used r)"

definition remaining_tokens :: "int \<Rightarrow> string option \<Rightarrow> int \<Rightarrow> llm_spend list \<Rightarrow> int" where
  "remaining_tokens cap tenant day t = max 0 (cap - tokens_of (spend_row tenant day t))"

definition within_budget :: "int \<Rightarrow> string option \<Rightarrow> int \<Rightarrow> int \<Rightarrow> llm_spend list \<Rightarrow> bool" where
  "within_budget cap tenant tokens day t \<longleftrightarrow> tokens \<le> remaining_tokens cap tenant day t"

text \<open>\<open>None\<close> is \<^verbatim>\<open>BudgetExceededError\<close>; \<open>seen\<close> is the table when the check read it.\<close>

definition consume_seen ::
  "llm_spend list \<Rightarrow> int \<Rightarrow> string option \<Rightarrow> int \<Rightarrow> int \<Rightarrow> int \<Rightarrow> llm_spend list \<Rightarrow> llm_spend list option" where
  "consume_seen seen cap tenant tokens calls day t =
     (if within_budget cap tenant tokens day seen then Some (increment tenant tokens calls day t) else None)"

definition consume ::
  "int \<Rightarrow> string option \<Rightarrow> int \<Rightarrow> int \<Rightarrow> int \<Rightarrow> llm_spend list \<Rightarrow> llm_spend list option" where
  "consume cap tenant tokens calls day t = consume_seen t cap tenant tokens calls day t"

definition consume_overage :: "string option \<Rightarrow> int \<Rightarrow> int \<Rightarrow> llm_spend list \<Rightarrow> llm_spend list" where
  "consume_overage tenant tokens day t = increment tenant tokens 1 day t"

section \<open>Facts\<close>

definition spent :: "string option \<Rightarrow> int \<Rightarrow> llm_spend list \<Rightarrow> int" where
  "spent tenant day t = tokens_of (spend_row tenant day t)"

lemma spend_row_increment: "spend_row tenant' day' (increment tenant tokens calls day t) =
    (if (bucket tenant', day') = (bucket tenant, day)
     then Some (case spend_row tenant day t of
       None \<Rightarrow> \<lparr>sp_tenant = bucket tenant, sp_date = day, sp_tokens_used = tokens, sp_calls_made = calls\<rparr>
     | Some r \<Rightarrow> r\<lparr>sp_tokens_used := sp_tokens_used r + tokens, sp_calls_made := sp_calls_made r + calls\<rparr>)
     else spend_row tenant' day' t)"
proof (cases "sql_insert sp_key \<lparr>sp_tenant = bucket tenant, sp_date = day, sp_tokens_used = tokens,
             sp_calls_made = calls\<rparr> t")
  case None
  then obtain r where r: "spend_row tenant day t = Some r"
    by (auto simp: sql_insert_None_iff spend_row_def sp_key_def)
  have key: "sp_key (r\<lparr>sp_tokens_used := a, sp_calls_made := b\<rparr>) = sp_key r" for r a b
    by (simp add: sp_key_def)
  show ?thesis
  proof (cases "(bucket tenant', day') = (bucket tenant, day)")
    case True
    have "sp_key r = (bucket tenant, day)" using r by (auto simp: spend_row_def dest: row_of_SomeD)
    then show ?thesis using None r True
      by (auto simp: increment_def spend_row_def row_of_update key)
  next
    case False
    have "(if sp_key x = (bucket tenant, day) then x\<lparr>sp_tokens_used := sp_tokens_used x + tokens,
          sp_calls_made := sp_calls_made x + calls\<rparr> else x) = x" if "row_of sp_key t (bucket tenant', day') = Some x" for x
      using row_of_SomeD [OF that] False by auto
    then show ?thesis using None False
      by (cases "row_of sp_key t (bucket tenant', day')") (auto simp: increment_def spend_row_def row_of_update key)
  qed
next
  case (Some t')
  have "row_of sp_key t (bucket tenant, day) = None"
    using Some by (auto simp: sql_insert_def row_of_None_iff sp_key_def split: if_splits)
  then show ?thesis using Some row_of_insert [OF Some]
    by (auto simp: increment_def spend_row_def sp_key_def)
qed

lemma spent_increment [simp]: "spent tenant' day' (increment tenant tokens calls day t) =
    spent tenant' day' t + (if (bucket tenant', day') = (bucket tenant, day) then tokens else 0)"
proof (cases "(bucket tenant', day') = (bucket tenant, day)")
  case True
  then have "spend_row tenant' day' t = spend_row tenant day t" by (simp add: spend_row_def)
  then show ?thesis using True by (simp add: spent_def spend_row_increment tokens_of_def split: option.split)
qed (auto simp: spent_def spend_row_increment)

lemma within_budget_iff: "within_budget cap tenant tokens day t \<longleftrightarrow> tokens \<le> max 0 (cap - spent tenant day t)"
  by (simp add: within_budget_def remaining_tokens_def spent_def)

lemma consume_SomeD: "consume_seen seen cap tenant tokens calls day t = Some t' \<Longrightarrow>
    within_budget cap tenant tokens day seen \<and> t' = increment tenant tokens calls day t"
  by (simp add: consume_seen_def split: if_splits)

text \<open>
  What workers do to the table: an attempt to consume after a check against a table some
  history ago, or the cost of a call that was over before the cap was known to be reached.
\<close>

datatype spend_event = Consumed "llm_spend list" "string option" int int int | Overran "string option" int int

primrec spend_step :: "int \<Rightarrow> llm_spend list \<Rightarrow> spend_event \<Rightarrow> llm_spend list" where
  "spend_step cap t (Consumed seen tenant tokens calls day) =
     (case consume_seen seen cap tenant tokens calls day t of None \<Rightarrow> t | Some t' \<Rightarrow> t')"
| "spend_step cap t (Overran tenant tokens day) = consume_overage tenant tokens day t"

primrec accepted :: "int \<Rightarrow> string option \<Rightarrow> int \<Rightarrow> spend_event \<Rightarrow> int" where
  "accepted cap who on (Consumed seen tenant tokens calls day) =
     (if (bucket who, on) = (bucket tenant, day) \<and> tokens \<le> max 0 (cap - spent tenant day seen) then tokens else 0)"
| "accepted cap who on (Overran tenant tokens day) =
     (if (bucket who, on) = (bucket tenant, day) then tokens else 0)"

lemma spent_step: "spent who on (spend_step cap t e) = spent who on t + accepted cap who on e"
  by (cases e) (auto simp: consume_overage_def consume_seen_def within_budget_iff)

lemma spent_history: "spent who on (foldl (spend_step cap) t es) = spent who on t + sum_list (map (accepted cap who on) es)"
  by (induction es arbitrary: t) (simp_all add: spent_step)

end
