(* ===== verification/AgentLoop.thy ===== *)
theory AgentLoop
  imports JsonFacts Budget
begin

text \<open>
  \<^verbatim>\<open>agents/client.py\<close> and \<^verbatim>\<open>agents/loop.py\<close>: how a reply of the model is read, and the bounded
  loop that answers its tool calls. The model itself is a parameter, indexed by the turn and
  given the conversation (\<open>None\<close> when the request raises); so are the tools, over a state of
  their own, the clock, and what other workers do to the spend table between two turns.
\<close>

section \<open>Replies of the model\<close>

type_synonym dict = "(string \<times> json) list"

record tool_call =
  tc_call_id :: string
  tc_name :: string
  tc_arguments :: dict

record agent_turn =
  at_text :: "string option"
  at_tool_calls :: "tool_call list"
  at_prompt_tokens :: int
  at_completion_tokens :: int

datatype request_error = TransportError | HttpStatusError nat | OtherError

definition retryable :: "request_error \<Rightarrow> bool" where
  "retryable e = (case e of TransportError \<Rightarrow> True | HttpStatusError n \<Rightarrow> n = 429 \<or> 500 \<le> n | OtherError \<Rightarrow> False)"

definition arguments_of :: "json_codec \<Rightarrow> json \<Rightarrow> dict" where
  "arguments_of k raw = (case raw of
       JObject d \<Rightarrow> d
     | JStr s \<Rightarrow> (case json_loads k s of Some (JObject d) \<Rightarrow> d | _ \<Rightarrow> [])
     | _ \<Rightarrow> [])"

definition dicts_in :: "json list \<Rightarrow> dict list" where
  "dicts_in xs = List.map_filter (\<lambda>x. case x of JObject d \<Rightarrow> Some d | _ \<Rightarrow> None) xs"

definition text_parts :: "dict list \<Rightarrow> string list" where
  "text_parts ds = List.map_filter (\<lambda>d. case jget d ''text'' of JStr s \<Rightarrow> Some s | _ \<Rightarrow> None) ds"

fun content_parts :: "dict list \<Rightarrow> string list option" where
  "content_parts [] = Some []"
| "content_parts (d # ds) =
     (case jiter (jor (jget d ''content'') (JList [])) of
        None \<Rightarrow> None
      | Some xs \<Rightarrow> map_option (append (text_parts (dicts_in xs))) (content_parts ds))"

definition extract_output_text :: "dict \<Rightarrow> string option" where
  "extract_output_text data =
     (case jget data ''output_text'' of
        JStr s \<Rightarrow> if strip s \<noteq> [] then Some s
          else Option.bind (jiter (jor (jget data ''output'') (JList []))) (\<lambda>xs. map_option (strip \<circ> concat) (content_parts (dicts_in xs)))
      | _ \<Rightarrow> Option.bind (jiter (jor (jget data ''output'') (JList []))) (\<lambda>xs. map_option (strip \<circ> concat) (content_parts (dicts_in xs))))"

definition text_or_empty :: "json_codec \<Rightarrow> json \<Rightarrow> string" where
  "text_or_empty k v = jstr k (jor v (JStr []))"

definition call_of :: "json_codec \<Rightarrow> dict \<Rightarrow> tool_call" where
  "call_of k item = \<lparr>tc_call_id = text_or_empty k (jget item ''call_id''),
     tc_name = text_or_empty k (jget item ''name''), tc_arguments = arguments_of k (jget item ''arguments'')\<rparr>"

definition turn_of_response :: "json_codec \<Rightarrow> dict \<Rightarrow> agent_turn option" where
  "turn_of_response k data =
     (case jor (jget data ''usage'') (JObject []) of
        JObject usage \<Rightarrow>
          Option.bind (jiter (jor (jget data ''output'') (JList []))) (\<lambda>items.
          Option.bind (extract_output_text data) (\<lambda>text.
          Option.bind (jint k (jor (jget usage ''input_tokens'') (JInt 0))) (\<lambda>p.
          Option.bind (jint k (jor (jget usage ''output_tokens'') (JInt 0))) (\<lambda>c.
            Some \<lparr>at_text = (if text = [] then None else Some text),
              at_tool_calls = map (call_of k) (filter (\<lambda>d. jget d ''type'' = JStr ''function_call'') (dicts_in items)),
              at_prompt_tokens = p, at_completion_tokens = c\<rparr>))))
      | _ \<Rightarrow> None)"

section \<open>Runs and their transcripts\<close>

datatype run_status = Running | Completed | Failed
datatype step_kind = ModelMessage | ToolCall | ToolResult | EvidenceCheck

record agent_run =
  ag_id :: nat
  ag_public_id :: string
  ag_organization_id :: nat
  ag_requested_by :: nat
  ag_supplier_public_id :: string
  ag_status :: run_status
  ag_model :: string
  ag_step_count :: nat
  ag_prompt_tokens :: int
  ag_completion_tokens :: int
  ag_started_at :: datetime
  ag_finished_at :: "datetime option"
  ag_failure_reason :: "string option"

record agent_step =
  as_run_id :: nat
  as_ordinal :: nat
  as_kind :: step_kind
  as_tool_name :: "string option"
  as_payload :: json

datatype message = UserMessage string | FunctionCall string string string | FunctionOutput string string

definition max_steps :: nat where
  "max_steps = 8"

definition estimated_tokens_per_turn :: int where
  "estimated_tokens_per_turn = 4000"

record 'd loop_env =
  le_respond :: "nat \<Rightarrow> message list \<Rightarrow> agent_turn option"
  le_dispatch :: "string \<Rightarrow> dict \<Rightarrow> 'd \<Rightarrow> json option \<times> 'd"
  le_known :: "string list"
  le_cap :: int
  le_today :: "nat \<Rightarrow> int"
  le_others :: "nat \<Rightarrow> llm_spend list \<Rightarrow> llm_spend list"
  le_clock :: datetime

text \<open>The rows of this run, the spend table, and the state of the tools.\<close>

record 'd loop_state =
  lp_run :: agent_run
  lp_steps :: "agent_step list"
  lp_spend :: "llm_spend list"
  lp_tools :: 'd

definition record_step :: "nat \<Rightarrow> step_kind \<Rightarrow> json \<Rightarrow> string option \<Rightarrow> 'd loop_state \<Rightarrow> 'd loop_state" where
  "record_step ordinal kind payload tool st = st\<lparr>
     lp_steps := lp_steps st @ [\<lparr>as_run_id = ag_id (lp_run st), as_ordinal = ordinal, as_kind = kind,
                                 as_tool_name = tool, as_payload = payload\<rparr>],
     lp_run := (lp_run st)\<lparr>ag_step_count := ordinal + 1\<rparr>\<rparr>"

definition finish_run :: "datetime \<Rightarrow> run_status \<Rightarrow> string option \<Rightarrow> 'd loop_state \<Rightarrow> 'd loop_state" where
  "finish_run now status reason st = st\<lparr>lp_run := (lp_run st)\<lparr>ag_status := status,
     ag_failure_reason := reason, ag_finished_at := Some now\<rparr>\<rparr>"

definition turn_tokens :: "agent_turn \<Rightarrow> int" where
  "turn_tokens t = at_prompt_tokens t + at_completion_tokens t"

definition charge :: "int \<Rightarrow> int \<Rightarrow> agent_turn \<Rightarrow> 'd loop_state \<Rightarrow> 'd loop_state" where
  "charge cap today t st =
     (let st1 = st\<lparr>lp_run := (lp_run st)\<lparr>
            ag_prompt_tokens := ag_prompt_tokens (lp_run st) + at_prompt_tokens t,
            ag_completion_tokens := ag_completion_tokens (lp_run st) + at_completion_tokens t\<rparr>\<rparr> in
      if turn_tokens t = 0 then st1
      else case consume cap None (turn_tokens t) 1 today (lp_spend st) of
        Some sp \<Rightarrow> st1\<lparr>lp_spend := sp\<rparr>
      | None \<Rightarrow> st1\<lparr>lp_spend := consume_overage None (turn_tokens t) today (lp_spend st)\<rparr>)"

section \<open>Tools\<close>

definition tool_error :: "string \<Rightarrow> json" where
  "tool_error message = JObject [(''error'', JStr message)]"

definition unknown_tool_message :: "string \<Rightarrow> string" where
  "unknown_tool_message name = ''unknown tool '' @ py_repr name @ ''; use only the tools provided''"

definition tool_failed_message :: "string \<Rightarrow> string" where
  "tool_failed_message name = ''tool '' @ py_repr name @ '' failed''"

text \<open>What is stored, what the model is told, and the tools afterwards.\<close>

definition run_tool :: "'d loop_env \<Rightarrow> tool_call \<Rightarrow> 'd \<Rightarrow> json \<times> string \<times> 'd" where
  "run_tool env call d =
     (if tc_name call \<notin> set (le_known env)
      then (tool_error (unknown_tool_message (tc_name call)), unknown_tool_message (tc_name call), d)
      else case le_dispatch env (tc_name call) (tc_arguments call) d of
        (None, d') \<Rightarrow> (tool_error (tool_failed_message (tc_name call)), tool_failed_message (tc_name call), d')
      | (Some r, d') \<Rightarrow> (r, json_text r, d'))"

definition call_payload :: "tool_call \<Rightarrow> json" where
  "call_payload call = JObject [(''call_id'', JStr (tc_call_id call)), (''arguments'', JObject (tc_arguments call))]"

fun run_calls ::
  "'d loop_env \<Rightarrow> tool_call list \<Rightarrow> message list \<Rightarrow> nat \<Rightarrow> 'd loop_state \<Rightarrow> message list \<times> nat \<times> 'd loop_state" where
  "run_calls env [] conv n st = (conv, n, st)"
| "run_calls env (c # cs) conv n st =
     (let st1 = record_step n ToolCall (call_payload c) (Some (tc_name c)) st;
          (stored, reply, d) = run_tool env c (lp_tools st1);
          st2 = record_step (Suc n) ToolResult stored (Some (tc_name c)) (st1\<lparr>lp_tools := d\<rparr>)
      in run_calls env cs
           (conv @ [FunctionCall (tc_call_id c) (tc_name c) (json_text (JObject (tc_arguments c))),
                    FunctionOutput (tc_call_id c) reply]) (Suc (Suc n)) st2)"

section \<open>The loop\<close>

text \<open>
  The remaining steps, the turn, the conversation and the next ordinal. The result is the
  answer, or \<open>None\<close> when the request to the model raised: the rows committed so far stay.
\<close>

fun run_loop_from ::
  "'d loop_env \<Rightarrow> nat \<Rightarrow> nat \<Rightarrow> message list \<Rightarrow> nat \<Rightarrow> 'd loop_state \<Rightarrow> string option \<times> 'd loop_state" where
  "run_loop_from env 0 turn conv n st =
     (Some [], finish_run (le_clock env) Failed (Some ''step_ceiling'') st)"
| "run_loop_from env (Suc left) turn conv n st0 =
     (let st = st0\<lparr>lp_spend := le_others env turn (lp_spend st0)\<rparr> in
      if \<not> within_budget (le_cap env) None estimated_tokens_per_turn (le_today env turn) (lp_spend st)
      then (Some [], finish_run (le_clock env) Failed (Some ''budget_exhausted'') st)
      else case le_respond env turn conv of
        None \<Rightarrow> (None, st)
      | Some t \<Rightarrow>
          (let st1 = charge (le_cap env) (le_today env turn) t st in
           if at_tool_calls t = [] then
             (let answer = (case at_text t of None \<Rightarrow> [] | Some s \<Rightarrow> s) in
              (Some answer, finish_run (le_clock env) Completed None
                 (record_step n ModelMessage (JObject [(''text'', JStr answer)]) None st1)))
           else (let (conv', n', st2) = run_calls env (at_tool_calls t) conv n st1
                 in run_loop_from env left (Suc turn) conv' n' st2)))"

definition run_loop :: "'d loop_env \<Rightarrow> nat \<Rightarrow> string \<Rightarrow> 'd loop_state \<Rightarrow> string option \<times> 'd loop_state" where
  "run_loop env steps opening st = run_loop_from env steps 0 [UserMessage opening] 0 st"

text \<open>
  What the bounded loop does whatever the model and the tools answer: how many turns it takes,
  how the run ends, what the transcript looks like, which tools are reached and what is spent.
\<close>

section \<open>Bounds and reach\<close>

text \<open>Two environments in which the known tools do the same.\<close>

definition same_tools :: "'d loop_env \<Rightarrow> 'd loop_env \<Rightarrow> bool" where
  "same_tools env env' \<longleftrightarrow> le_known env = le_known env' \<and> le_cap env = le_cap env' \<and> le_today env = le_today env'
     \<and> le_others env = le_others env' \<and> le_clock env = le_clock env'
     \<and> (\<forall>name \<in> set (le_known env). le_dispatch env name = le_dispatch env' name)"

lemma run_tool_same: "same_tools env env' \<Longrightarrow> run_tool env c d = run_tool env' c d"
  by (auto simp: run_tool_def same_tools_def)

lemma run_calls_same: "same_tools env env' \<Longrightarrow> run_calls env cs conv n st = run_calls env' cs conv n st"
proof (induction cs arbitrary: conv n st)
  case (Cons c cs)
  then show ?case by (simp add: Let_def run_tool_same [OF Cons.prems] split: prod.split)
qed simp

text \<open>A loop asks the model at most once for each of its steps, and reaches known tools only.\<close>

lemma run_loop_same:
  assumes "same_tools env env'" "\<forall>i. turn \<le> i \<and> i < turn + left \<longrightarrow> le_respond env i = le_respond env' i"
  shows "run_loop_from env left turn conv n st = run_loop_from env' left turn conv n st"
  using assms(2)
proof (induction left arbitrary: turn conv n st)
  case 0
  then show ?case using assms(1) by (simp add: same_tools_def)
next
  case (Suc left)
  have eq: "le_cap env = le_cap env'" "le_today env = le_today env'" "le_others env = le_others env'"
    "le_clock env = le_clock env'" using assms(1) by (simp_all add: same_tools_def)
  have r: "le_respond env turn = le_respond env' turn" using Suc.prems by simp
  have "run_loop_from env left (Suc turn) conv' n' st' = run_loop_from env' left (Suc turn) conv' n' st'" for conv' n' st'
    by (rule Suc.IH) (use Suc.prems in auto)
  then show ?case
    by (simp add: eq r run_calls_same [OF assms(1)] Let_def split: option.split prod.split)
qed

section \<open>Transcripts\<close>

fun well_paired :: "agent_step list \<Rightarrow> bool" where
  "well_paired [] = True"
| "well_paired [s] = (as_kind s = ModelMessage)"
| "well_paired (a # b # r) = (as_kind a = ToolCall \<and> as_kind b = ToolResult \<and> as_tool_name a = as_tool_name b \<and> well_paired r)"

text \<open>A transcript that ends with a tool result can be continued.\<close>

definition open_transcript :: "nat \<Rightarrow> 'd loop_state \<Rightarrow> bool" where
  "open_transcript n st \<longleftrightarrow> even n \<and> n = length (lp_steps st) \<and> ag_step_count (lp_run st) = n
     \<and> map as_ordinal (lp_steps st) = [0..<n] \<and> list_all (\<lambda>s. as_run_id s = ag_id (lp_run st)) (lp_steps st)
     \<and> well_paired (lp_steps st)"

definition transcript_ok :: "'d loop_state \<Rightarrow> bool" where
  "transcript_ok st \<longleftrightarrow> map as_ordinal (lp_steps st) = [0..<length (lp_steps st)]
     \<and> ag_step_count (lp_run st) = length (lp_steps st)
     \<and> list_all (\<lambda>s. as_run_id s = ag_id (lp_run st)) (lp_steps st) \<and> well_paired (lp_steps st)"

lemma open_transcript_ok: "open_transcript n st \<Longrightarrow> transcript_ok st"
  by (auto simp: open_transcript_def transcript_ok_def)

lemma well_paired_append: "well_paired xs \<Longrightarrow> even (length xs) \<Longrightarrow> well_paired (xs @ ys) = well_paired ys"
proof (induction xs rule: well_paired.induct)
  case (3 a b r)
  then show ?case by auto
qed simp_all

lemma charge_frame [simp]:
  "lp_steps (charge cap day t st) = lp_steps st" "lp_tools (charge cap day t st) = lp_tools st"
  "ag_id (lp_run (charge cap day t st)) = ag_id (lp_run st)"
  "ag_step_count (lp_run (charge cap day t st)) = ag_step_count (lp_run st)"
  "ag_status (lp_run (charge cap day t st)) = ag_status (lp_run st)"
  "ag_finished_at (lp_run (charge cap day t st)) = ag_finished_at (lp_run st)"
  by (simp_all add: charge_def Let_def split: option.split)

lemma open_charge: "open_transcript n (charge cap day t st) = open_transcript n st"
  by (simp add: open_transcript_def)

lemma open_spend: "open_transcript n (st\<lparr>lp_spend := sp\<rparr>) = open_transcript n st"
  by (simp add: open_transcript_def)

lemma open_finish: "transcript_ok (finish_run now status reason st) = transcript_ok st"
  by (simp add: transcript_ok_def finish_run_def)

lemma run_calls_frame:
  assumes "run_calls env cs conv n st = (conv', n', st')"
  shows "ag_status (lp_run st') = ag_status (lp_run st)" "ag_finished_at (lp_run st') = ag_finished_at (lp_run st)"
    "lp_spend st' = lp_spend st" "ag_prompt_tokens (lp_run st') = ag_prompt_tokens (lp_run st)"
    "ag_completion_tokens (lp_run st') = ag_completion_tokens (lp_run st)"
  using assms
  by (induction cs arbitrary: conv n st) (fastforce simp: Let_def record_step_def split: prod.splits)+

lemma run_calls_open:
  "run_calls env cs conv n st = (conv', n', st') \<Longrightarrow> open_transcript n st \<Longrightarrow> open_transcript n' st'"
proof (induction cs arbitrary: conv n st)
  case (Cons c cs)
  obtain stored reply d where t: "run_tool env c (lp_tools (record_step n ToolCall (call_payload c) (Some (tc_name c)) st)) = (stored, reply, d)"
    by (rule prod_cases3)
  let ?st = "record_step (Suc n) ToolResult stored (Some (tc_name c))
      ((record_step n ToolCall (call_payload c) (Some (tc_name c)) st)\<lparr>lp_tools := d\<rparr>)"
  have o: "open_transcript (Suc (Suc n)) ?st"
    using Cons.prems(2) by (auto simp: open_transcript_def record_step_def well_paired_append)
  show ?case by (rule Cons.IH [OF _ o]) (use Cons.prems(1) t in \<open>auto simp: Let_def\<close>)
qed simp

section \<open>Reasoning about the loop\<close>

text \<open>
  The rule for the loop: an invariant of the states between turns, kept by what other workers
  spend, by the charge of an affordable turn and by a round of tool calls, gives the property of
  the final state on each of the ways the loop can end.
\<close>

lemma run_loop_rule:
  assumes inv: "I n st"
    and others: "\<And>n st i. I n st \<Longrightarrow> I n (st\<lparr>lp_spend := le_others env i (lp_spend st)\<rparr>)"
    and charges: "\<And>n st i conv t. I n st \<Longrightarrow> le_respond env i conv = Some t
      \<Longrightarrow> within_budget (le_cap env) None estimated_tokens_per_turn (le_today env i) (lp_spend st)
      \<Longrightarrow> I n (charge (le_cap env) (le_today env i) t st)"
    and calls: "\<And>n st cs conv conv' n' st'. I n st \<Longrightarrow> run_calls env cs conv n st = (conv', n', st') \<Longrightarrow> I n' st'"
    and stops: "\<And>n st reason. I n st \<Longrightarrow> reason \<in> {''budget_exhausted'', ''step_ceiling''}
      \<Longrightarrow> Q (Some []) (finish_run (le_clock env) Failed (Some reason) st)"
    and raises: "\<And>n st. I n st \<Longrightarrow> Q None st"
    and answers: "\<And>n st a. I n st \<Longrightarrow> Q (Some a) (finish_run (le_clock env) Completed None
      (record_step n ModelMessage (JObject [(''text'', JStr a)]) None st))"
    and run: "run_loop_from env left turn conv n st = (res, st')"
  shows "Q res st'"
  using inv run
proof (induction left arbitrary: turn conv n st)
  case 0
  then show ?case using stops by auto
next
  case (Suc left)
  let ?st = "st\<lparr>lp_spend := le_others env turn (lp_spend st)\<rparr>"
  have i: "I n ?st" using others Suc.prems(1) by blast
  show ?case
  proof (cases "within_budget (le_cap env) None estimated_tokens_per_turn (le_today env turn) (lp_spend ?st)")
    case False
    then show ?thesis using stops [OF i] Suc.prems(2) by (auto simp: Let_def)
  next
    case True
    show ?thesis
    proof (cases "le_respond env turn conv")
      case None
      then show ?thesis using raises [OF i] Suc.prems(2) True by (auto simp: Let_def)
    next
      case (Some t)
      note c = charges [OF i Some True]
      show ?thesis
      proof (cases "at_tool_calls t = []")
        case True': True
        then show ?thesis using answers [OF c] Suc.prems(2) True Some by (auto simp: Let_def)
      next
        case False
        obtain conv' n' st2 where r: "run_calls env (at_tool_calls t) conv n
            (charge (le_cap env) (le_today env turn) t ?st) = (conv', n', st2)" by (rule prod_cases3)
        show ?thesis
          by (rule Suc.IH [OF calls [OF c r]]) (use Suc.prems(2) True Some False r in \<open>simp add: Let_def\<close>)
      qed
    qed
  qed
qed

text \<open>How a run ends.\<close>

definition ends_well :: "string option \<Rightarrow> run_status \<Rightarrow> agent_run \<Rightarrow> bool" where
  "ends_well res before r \<longleftrightarrow> (case res of
       None \<Rightarrow> ag_status r = before
     | Some a \<Rightarrow> ag_finished_at r \<noteq> None \<and> (ag_status r = Completed \<and> ag_failure_reason r = None
         \<or> a = [] \<and> ag_status r = Failed \<and> ag_failure_reason r \<in> {Some ''budget_exhausted'', Some ''step_ceiling''}))"

lemma run_loop_from_ok:
  assumes run: "run_loop_from env left turn conv n st = (res, st')" and op: "open_transcript n st"
  shows "transcript_ok st' \<and> ends_well res (ag_status (lp_run st)) (lp_run st')"
proof (rule run_loop_rule [where I = "\<lambda>n x. open_transcript n x \<and> ag_status (lp_run x) = ag_status (lp_run st)", OF _ _ _ _ _ _ _ run])
  show "open_transcript n st \<and> ag_status (lp_run st) = ag_status (lp_run st)" using op by simp
next
  fix m x a assume "open_transcript m x \<and> ag_status (lp_run x) = ag_status (lp_run st)"
  then have "transcript_ok (record_step m ModelMessage (JObject [(''text'', JStr a)]) None x)"
    by (auto simp: open_transcript_def transcript_ok_def record_step_def well_paired_append)
  then show "transcript_ok (finish_run (le_clock env) Completed None (record_step m ModelMessage (JObject [(''text'', JStr a)]) None x))
      \<and> ends_well (Some a) (ag_status (lp_run st)) (lp_run (finish_run (le_clock env) Completed None
          (record_step m ModelMessage (JObject [(''text'', JStr a)]) None x)))"
    by (simp add: open_finish ends_well_def) (simp add: finish_run_def)
next
  fix m x reason assume "open_transcript m x \<and> ag_status (lp_run x) = ag_status (lp_run st)"
    and "reason \<in> {''budget_exhausted'', ''step_ceiling''}"
  then show "transcript_ok (finish_run (le_clock env) Failed (Some reason) x)
      \<and> ends_well (Some []) (ag_status (lp_run st)) (lp_run (finish_run (le_clock env) Failed (Some reason) x))"
    using open_transcript_ok by (auto simp: open_finish ends_well_def) (auto simp: finish_run_def)
next
  fix m x cs conv1 conv2 m' x' assume "open_transcript m x \<and> ag_status (lp_run x) = ag_status (lp_run st)"
    and "run_calls env cs conv1 m x = (conv2, m', x')"
  then show "open_transcript m' x' \<and> ag_status (lp_run x') = ag_status (lp_run st)"
    using run_calls_open run_calls_frame(1) by metis
qed (auto simp: open_charge open_spend ends_well_def intro: open_transcript_ok)

text \<open>What a loop never changes of its run.\<close>

definition run_identity :: "agent_run \<Rightarrow> nat \<times> string \<times> nat \<times> nat \<times> string \<times> string \<times> datetime" where
  "run_identity r = (ag_id r, ag_public_id r, ag_organization_id r, ag_requested_by r, ag_supplier_public_id r,
     ag_model r, ag_started_at r)"

lemma identity_simps [simp]:
  "run_identity (lp_run (charge cap day t st)) = run_identity (lp_run st)"
  "run_identity (lp_run (record_step n kd p tn st)) = run_identity (lp_run st)"
  "run_identity (lp_run (finish_run now s reason st)) = run_identity (lp_run st)"
  by (simp_all add: charge_def record_step_def finish_run_def run_identity_def Let_def split: option.split)

lemma run_calls_identity:
  "run_calls env cs conv n st = (conv', n', st') \<Longrightarrow> run_identity (lp_run st') = run_identity (lp_run st)"
  by (induction cs arbitrary: conv n st) (fastforce simp: Let_def split: prod.splits)+

lemma run_loop_identity:
  assumes run: "run_loop_from env left turn conv n st = (res, st')"
  shows "run_identity (lp_run st') = run_identity (lp_run st)"
  by (rule run_loop_rule [where I = "\<lambda>n x. run_identity (lp_run x) = run_identity (lp_run st)"
        and Q = "\<lambda>r x. run_identity (lp_run x) = run_identity (lp_run st)", OF _ _ _ _ _ _ _ run])
    (auto dest: run_calls_identity)

section \<open>Spending\<close>

definition run_tokens :: "agent_run \<Rightarrow> int" where
  "run_tokens r = ag_prompt_tokens r + ag_completion_tokens r"

lemma spent_charge: "spent None day (lp_spend (charge cap day' t st)) =
    spent None day (lp_spend st) + (if day = day' then turn_tokens t else 0)"
  by (auto simp: charge_def Let_def consume_def consume_overage_def dest!: consume_SomeD split: option.split)

lemma tokens_charge: "run_tokens (lp_run (charge cap day t st)) = run_tokens (lp_run st) + turn_tokens t"
  by (simp add: charge_def Let_def run_tokens_def turn_tokens_def split: option.split)

lemma run_loop_tokens:
  assumes same: "\<And>i. le_today env i = day"
    and others: "\<And>i sp. spent None day sp \<le> spent None day (le_others env i sp)"
    and bounded: "\<And>i conv t. le_respond env i conv = Some t \<Longrightarrow> 0 \<le> turn_tokens t \<and> turn_tokens t \<le> most"
    and run: "run_loop_from env left turn conv n st = (res, st')"
  shows "run_tokens (lp_run st) \<le> run_tokens (lp_run st')
    \<and> run_tokens (lp_run st') - run_tokens (lp_run st) \<le> max 0 (le_cap env - estimated_tokens_per_turn - spent None day (lp_spend st) + most)
    \<and> run_tokens (lp_run st') - run_tokens (lp_run st) \<le> spent None day (lp_spend st') - spent None day (lp_spend st)"
proof -
  define ok where "ok x \<longleftrightarrow> run_tokens (lp_run st) \<le> run_tokens (lp_run x)
    \<and> run_tokens (lp_run x) - run_tokens (lp_run st) \<le> max 0 (le_cap env - estimated_tokens_per_turn - spent None day (lp_spend st) + most)
    \<and> run_tokens (lp_run x) - run_tokens (lp_run st) \<le> spent None day (lp_spend x) - spent None day (lp_spend st)" for x :: "'a loop_state"
  have frame: "ok x \<Longrightarrow> run_tokens (lp_run y) = run_tokens (lp_run x) \<Longrightarrow> spent None day (lp_spend x) \<le> spent None day (lp_spend y) \<Longrightarrow> ok y" for x y
    by (simp add: ok_def)
  have "ok st'"
  proof (rule run_loop_rule [where I = "\<lambda>n. ok" and Q = "\<lambda>r. ok", OF _ _ _ _ _ _ _ run])
    fix m x i conv1 t assume o: "ok x" and r: "le_respond env i conv1 = Some t"
      and w: "within_budget (le_cap env) None estimated_tokens_per_turn (le_today env i) (lp_spend x)"
    have "spent None day (lp_spend x) \<le> le_cap env - estimated_tokens_per_turn"
      using w by (simp add: within_budget_iff same estimated_tokens_per_turn_def)
    then show "ok (charge (le_cap env) (le_today env i) t x)"
      using o bounded [OF r] by (simp add: ok_def tokens_charge spent_charge same)
  next
    fix m x cs conv1 conv2 m' x' assume o: "ok x" and c: "run_calls env cs conv1 m x = (conv2, m', x')"
    show "ok x'" by (rule frame [OF o]) (simp_all add: run_calls_frame [OF c] run_tokens_def)
  next
    fix m x i assume "ok x"
    then show "ok (x\<lparr>lp_spend := le_others env i (lp_spend x)\<rparr>)" by (rule frame) (simp_all add: others)
  next
    fix m x a assume "ok x"
    then show "ok (finish_run (le_clock env) Completed None (record_step m ModelMessage (JObject [(''text'', JStr a)]) None x))"
      by (rule frame) (simp_all add: finish_run_def record_step_def run_tokens_def)
  next
    fix m x reason assume "ok x"
    then show "ok (finish_run (le_clock env) Failed (Some reason) x)"
      by (rule frame) (simp_all add: finish_run_def run_tokens_def)
  qed (simp_all add: ok_def)
  then show ?thesis by (simp add: ok_def)
qed

end
