(* ===== verification/AgentAnalysis.thy ===== *)
theory AgentAnalysis
  imports AgentLoop SupplierRegistry
begin

text \<open>
  \<^verbatim>\<open>agents/analysis.py\<close>: one analysis of a supplier. The event keys the tools returned during
  the run are collected on the way, the answer is parsed, and what cites none of them is not
  stored. An exception after the loop leaves the committed rows of the loop.
\<close>

section \<open>Evidence\<close>

text \<open>Every \<^verbatim>\<open>event_key\<close> anywhere in a tool result, in the order of the walk.\<close>

fun event_keys_in :: "json \<Rightarrow> string list" where
  "event_keys_in (JObject d) =
     (case jget d ''event_key'' of JStr key \<Rightarrow> if key = [] then [] else [key] | _ \<Rightarrow> [])
     @ concat (map (\<lambda>(_, v). event_keys_in v) d)"
| "event_keys_in (JList xs) = concat (map event_keys_in xs)"
| "event_keys_in _ = []"

section \<open>The answer\<close>

text \<open>\<^verbatim>\<open>s.rsplit(p, 1)[0]\<close> when \<open>p\<close> occurs: what stands before its last occurrence.\<close>

fun before_last :: "string \<Rightarrow> string \<Rightarrow> string option" where
  "before_last p [] = None"
| "before_last p (c # s) = (case before_last p s of
       Some a \<Rightarrow> Some (c # a)
     | None \<Rightarrow> if starts_with (c # s) p then Some [] else None)"

definition fence :: string where
  "fence = ''```''"

definition unfenced :: "string \<Rightarrow> string" where
  "unfenced s =
     (if \<not> starts_with s fence then s
      else let body = (if CHR 0x0A \<in> set s then snd (snd (partition_at (CHR 0x0A) s)) else []) in
        strip (case before_last fence body of None \<Rightarrow> body | Some a \<Rightarrow> a))"

definition parse_analysis :: "json_codec \<Rightarrow> string \<Rightarrow> dict option" where
  "parse_analysis k s = (if s = [] then None
     else case json_loads k (unfenced (strip s)) of Some (JObject d) \<Rightarrow> Some d | _ \<Rightarrow> None)"

section \<open>Recommendations\<close>

datatype recommendation_status = Proposed | Approved | Rejected

record recommendation =
  rc_run_id :: nat
  rc_ordinal :: nat
  rc_title :: string
  rc_rationale :: string
  rc_evidence_event_keys :: "string list"
  rc_status :: recommendation_status
  rc_decided_by :: "nat option"
  rc_decided_at :: "datetime option"
  rc_decision_note :: "string option"

definition strings_in :: "json list \<Rightarrow> string list" where
  "strings_in xs = List.map_filter (\<lambda>x. case x of JStr s \<Rightarrow> Some s | _ \<Rightarrow> None) xs"

text \<open>What is stored and the citations that no tool returned; \<open>None\<close> when iterating raises.\<close>

fun store_recommendations ::
  "json_codec \<Rightarrow> nat \<Rightarrow> string set \<Rightarrow> json list \<Rightarrow> nat \<Rightarrow> (recommendation list \<times> string list) option" where
  "store_recommendations k run verified [] n = Some ([], [])"
| "store_recommendations k run verified (item # rest) n =
     (case item of
        JObject d \<Rightarrow>
          (let heading = strip (text_or_empty k (jget d ''title'')) in
           if heading = [] then store_recommendations k run verified rest n
           else case jiter (jor (jget d ''evidence_event_keys'') (JList [])) of
             None \<Rightarrow> None
           | Some xs \<Rightarrow>
               (let cited = strings_in xs; kept = filter (\<lambda>e. e \<in> verified) cited;
                    invented = filter (\<lambda>e. e \<notin> verified) cited in
                if kept = [] then map_option (map_prod id (append invented)) (store_recommendations k run verified rest n)
                else map_option (map_prod (Cons \<lparr>rc_run_id = run, rc_ordinal = n, rc_title = take 300 heading,
                         rc_rationale = strip (text_or_empty k (jget d ''rationale'')),
                         rc_evidence_event_keys = kept, rc_status = Proposed, rc_decided_by = None,
                         rc_decided_at = None, rc_decision_note = None\<rparr>) (append invented))
                       (store_recommendations k run verified rest (Suc n))))
      | _ \<Rightarrow> store_recommendations k run verified rest n)"

text \<open>\<^verbatim>\<open>[str(finding) for finding in (analysis.get("findings") or [])[:20]]\<close>\<close>

definition findings_of :: "json_codec \<Rightarrow> dict \<Rightarrow> string list option" where
  "findings_of k analysis = (case jor (jget analysis ''findings'') (JList []) of
       JList xs \<Rightarrow> Some (map (jstr k) (take 20 xs))
     | JStr s \<Rightarrow> Some (map (\<lambda>c. [c]) (take 20 s))
     | _ \<Rightarrow> None)"

section \<open>An analysis\<close>

record agent_db =
  ab_runs :: "agent_run list"
  ab_steps :: "agent_step list"
  ab_recommendations :: "recommendation list"
  ab_spend :: "llm_spend list"

text \<open>What the analysis is given beside the database: the model, the tools with the caller's
  organization bound, the spend cap and the clocks.\<close>

record analysis_env =
  ae_codec :: json_codec
  ae_model :: string
  ae_respond :: "nat \<Rightarrow> message list \<Rightarrow> agent_turn option"
  ae_tools :: "string list"
  ae_dispatch :: "nat \<Rightarrow> string \<Rightarrow> dict \<Rightarrow> json option"
  ae_cap :: int
  ae_today :: "nat \<Rightarrow> int"
  ae_others :: "nat \<Rightarrow> llm_spend list \<Rightarrow> llm_spend list"
  ae_started :: datetime
  ae_finished :: datetime
  ae_value_error :: bool  \<comment> \<open>whether what a failing request of the client raises is a \<^verbatim>\<open>ValueError\<close>\<close>

text \<open>The tools' state is the evidence they have returned.\<close>

definition bound_dispatch :: "analysis_env \<Rightarrow> nat \<Rightarrow> string \<Rightarrow> dict \<Rightarrow> string list \<Rightarrow> json option \<times> string list" where
  "bound_dispatch env org name arguments verified = (case ae_dispatch env org name arguments of
       None \<Rightarrow> (None, verified)
     | Some r \<Rightarrow> (Some r, verified @ event_keys_in r))"

definition loop_env_of :: "analysis_env \<Rightarrow> nat \<Rightarrow> string list loop_env" where
  "loop_env_of env org = \<lparr>le_respond = ae_respond env, le_dispatch = bound_dispatch env org,
     le_known = ae_tools env, le_cap = ae_cap env, le_today = ae_today env, le_others = ae_others env,
     le_clock = ae_finished env\<rparr>"

definition opening_of :: "supplier \<Rightarrow> string" where
  "opening_of s = ''Assess supplier '' @ py_repr (s_canonical_name s) @ '' (public id '' @ s_public_id s
     @ ''). What is their current exposure, and what should we do about it?''"

text \<open>\<open>Raised\<close> says whether the exception is a \<^verbatim>\<open>ValueError\<close>, as the error of a response body that is not JSON is.
  What an answer of the wrong shape raises is a \<^verbatim>\<open>TypeError\<close> or a \<^verbatim>\<open>KeyError\<close>.\<close>

datatype analysis_outcome = NoActiveSupplier | Raised bool | Analysed agent_run

definition new_run :: "analysis_env \<Rightarrow> string \<Rightarrow> nat \<Rightarrow> nat \<Rightarrow> string \<Rightarrow> agent_db \<Rightarrow> agent_run" where
  "new_run env uuid org uid pid db = \<lparr>ag_id = fresh_id ag_id (ab_runs db), ag_public_id = uuid,
     ag_organization_id = org, ag_requested_by = uid, ag_supplier_public_id = pid, ag_status = Running,
     ag_model = ae_model env, ag_step_count = 0, ag_prompt_tokens = 0, ag_completion_tokens = 0,
     ag_started_at = ae_started env, ag_finished_at = None, ag_failure_reason = None\<rparr>"

definition committed :: "agent_run \<Rightarrow> agent_step list \<Rightarrow> recommendation list \<Rightarrow> llm_spend list \<Rightarrow> agent_db \<Rightarrow> agent_db" where
  "committed run steps recs spend db = \<lparr>ab_runs = ab_runs db @ [run], ab_steps = ab_steps db @ steps,
     ab_recommendations = ab_recommendations db @ recs, ab_spend = spend\<rparr>"

definition evidence_step :: "agent_run \<Rightarrow> string list \<Rightarrow> string list \<Rightarrow> string list \<Rightarrow> agent_step" where
  "evidence_step run verified dropped findings = \<lparr>as_run_id = ag_id run, as_ordinal = ag_step_count run,
     as_kind = EvidenceCheck, as_tool_name = None,
     as_payload = JObject [(''verified'', JList (map JStr (sort (remdups verified)))),
       (''dropped'', JList (map JStr dropped)), (''findings'', JList (map JStr findings))]\<rparr>"

definition conclude ::
  "analysis_env \<Rightarrow> string list loop_state \<Rightarrow> string \<Rightarrow> agent_db \<Rightarrow> analysis_outcome \<times> agent_db" where
  "conclude env st answer db =
     (let run = lp_run st; kept = committed run (lp_steps st) [] (lp_spend st) db in
      if ag_status run \<noteq> Completed then (Analysed run, kept)
      else case parse_analysis (ae_codec env) answer of
        None \<Rightarrow> (let failed = run\<lparr>ag_status := Failed, ag_failure_reason := Some ''unparseable_output''\<rparr> in
          (Analysed failed, committed failed (lp_steps st) [] (lp_spend st) db))
      | Some analysis \<Rightarrow>
          (case store_recommendations (ae_codec env) (ag_id run) (set (lp_tools st))
              (case jget analysis ''recommendations'' of JList xs \<Rightarrow> xs | _ \<Rightarrow> []) 0 of
             None \<Rightarrow> (Raised False, kept)
           | Some (recs, dropped) \<Rightarrow>
               (case findings_of (ae_codec env) analysis of
                  None \<Rightarrow> (Raised False, kept)
                | Some findings \<Rightarrow>
                    (let final = run\<lparr>ag_step_count := ag_step_count run + 1\<rparr> in
                     (Analysed final, committed final
                        (lp_steps st @ [evidence_step run (lp_tools st) dropped findings]) recs (lp_spend st) db)))))"

definition active_supplier :: "supplier_db \<Rightarrow> string \<Rightarrow> supplier option" where
  "active_supplier sdb pid = List.find (\<lambda>s. s_public_id s = pid \<and> s_is_active s) (suppliers sdb)"

definition analyse_supplier ::
  "analysis_env \<Rightarrow> supplier_db \<Rightarrow> string \<Rightarrow> nat \<Rightarrow> nat \<Rightarrow> string \<Rightarrow> agent_db \<Rightarrow> analysis_outcome \<times> agent_db" where
  "analyse_supplier env sdb uuid org uid pid db =
     (case active_supplier sdb pid of
        None \<Rightarrow> (NoActiveSupplier, db)
      | Some s \<Rightarrow>
          (let run = new_run env uuid org uid pid db in
           case run_loop (loop_env_of env org) max_steps (opening_of s)
               \<lparr>lp_run = run, lp_steps = [], lp_spend = ab_spend db, lp_tools = []\<rparr> of
             (None, st) \<Rightarrow> (Raised (ae_value_error env), committed (lp_run st) (lp_steps st) [] (lp_spend st) db)
           | (Some answer, st) \<Rightarrow> conclude env st answer db))"

end
