(* ===== verification/Search.thy ===== *)
theory Search
  imports Articles PyText
begin

text \<open>
  \<^verbatim>\<open>search/lexical.py\<close> and \<^verbatim>\<open>search/hybrid.py\<close>: keyword retrieval, and its fusion with vector
  retrieval by reciprocal rank. PostgreSQL's full-text and vector queries are parameters, as is
  the embedding model (the look-back window is the \<^verbatim>\<open>timedelta\<close> of its days); the substring search of the development database is modelled. Scores
  are rational numbers for Python's floats.
\<close>

record hit =
  ht_id :: nat
  ht_score :: rat

section \<open>Keyword retrieval\<close>

definition text_search_configs :: "(string \<times> string) list" where
  "text_search_configs = [(''en'', ''english''), (''de'', ''german''), (''fr'', ''french''), (''es'', ''spanish''),
     (''it'', ''italian''), (''nl'', ''dutch''), (''pt'', ''portuguese''), (''ru'', ''russian'')]"

definition fallback_config :: string where
  "fallback_config = ''simple''"

definition text_search_config :: "string \<Rightarrow> string" where
  "text_search_config language = (case map_of text_search_configs (lower (strip (hd (split_on (CHR ''-'') language)))) of
       None \<Rightarrow> fallback_config | Some c \<Rightarrow> c)"

definition word_char :: "char \<Rightarrow> bool" where
  "word_char c \<longleftrightarrow> is_alnum c \<or> c = CHR ''_''"

definition build_tsquery :: "string \<Rightarrow> string" where
  "build_tsquery query = (let collapsed = join '' '' (words query) in if list_ex word_char collapsed then collapsed else [])"

text \<open>\<^verbatim>\<open>ILIKE\<close>: a percent sign stands for any text, an underscore for any character.\<close>

fun like :: "string \<Rightarrow> string \<Rightarrow> bool" where
  "like [] s = (s = [])"
| "like (p # ps) [] = (p = CHR ''%'' \<and> like ps [])"
| "like (p # ps) (c # s) =
     (if p = CHR ''%'' then like ps (c # s) \<or> like (p # ps) s
      else (p = CHR ''_'' \<or> p = c) \<and> like ps s)"

definition ilike :: "string \<Rightarrow> string \<Rightarrow> bool" where
  "ilike s pattern \<longleftrightarrow> like (lower pattern) (lower s)"

definition field_weights :: "rat list" where
  "field_weights = [1, 4 / 10, 1, 2 / 10, 2 / 10]"

text \<open>Title and summary of the processed article; title, description and snippet of the raw one.\<close>

definition searched_fields :: "processed_article \<Rightarrow> news_raw \<Rightarrow> string option list" where
  "searched_fields p r = [Some (pa_normalized_title p), Some (pa_summary p), Some (ra_title (nr_article r)),
     ra_description (nr_article r), ra_content_snippet (nr_article r)]"

definition field_score :: "string \<Rightarrow> processed_article \<Rightarrow> news_raw \<Rightarrow> rat" where
  "field_score needle p r = sum_list (map (\<lambda>(s, w). if contains (lower (str_or s [])) needle then w else 0)
     (zip (searched_fields p r) field_weights))"

definition fallback_total :: rat where
  "fallback_total = sum_list field_weights"

record corpus =
  co_processed :: "processed_article list"
  co_raw :: "news_raw list"

definition joined_articles :: "corpus \<Rightarrow> (processed_article \<times> news_raw) list" where
  "joined_articles c = [(p, r). p \<leftarrow> co_processed c, r \<leftarrow> co_raw c, nr_id r = pa_raw_article_id p]"

text \<open>\<^verbatim>\<open>hits.sort(key=score, reverse=True)\<close> keeps the order of equal scores.\<close>

definition best_first :: "hit list \<Rightarrow> hit list" where
  "best_first hits = sort_key (\<lambda>h. - ht_score h) hits"

definition substring_search :: "corpus \<Rightarrow> string \<Rightarrow> datetime \<Rightarrow> nat \<Rightarrow> hit list" where
  "substring_search c prepared cutoff limit =
     (let rows = take (limit * 3) (sort_key (\<lambda>(p, r). - pa_processed_at p)
            (filter (\<lambda>(p, r). cutoff \<le> pa_processed_at p
                \<and> list_ex (\<lambda>f. case f of None \<Rightarrow> False | Some s \<Rightarrow> ilike s (''%'' @ prepared @ ''%'')) (searched_fields p r))
              (joined_articles c)));
          needle = lower prepared
      in take limit (best_first (List.map_filter (\<lambda>(p, r).
           let s = field_score needle p r in
           if s \<noteq> 0 then Some \<lparr>ht_id = pa_id p, ht_score = s / fallback_total\<rparr> else None) rows)))"

text \<open>A backend is the development database or PostgreSQL, given by what its queries answer.\<close>

record search_backend =
  sb_full_text :: "(string \<Rightarrow> string \<Rightarrow> datetime \<Rightarrow> nat \<Rightarrow> hit list) option"
  sb_nearest :: "rat list \<Rightarrow> string \<Rightarrow> datetime \<Rightarrow> rat \<Rightarrow> nat \<Rightarrow> hit list option"

definition lexical_search ::
  "search_backend \<Rightarrow> corpus \<Rightarrow> datetime \<Rightarrow> string \<Rightarrow> nat \<Rightarrow> timedelta \<Rightarrow> string \<Rightarrow> hit list" where
  "lexical_search be c now query limit window language =
     (let prepared = build_tsquery query in
      if prepared = [] then []
      else case sb_full_text be of
        Some sql \<Rightarrow> sql (text_search_config language) prepared (now - window) limit
      | None \<Rightarrow> substring_search c prepared (now - window) limit)"

section \<open>Fusion\<close>

definition rrf_k :: nat where
  "rrf_k = 60"

definition candidate_multiplier :: nat where
  "candidate_multiplier = 2"

definition minimum_similarity :: rat where
  "minimum_similarity = 1 / 4"

text \<open>The two dictionaries, as association lists: contributions, and the first sighting.\<close>

fun bump :: "nat \<Rightarrow> rat \<Rightarrow> (nat \<times> rat) list \<Rightarrow> (nat \<times> rat) list" where
  "bump i x [] = [(i, x)]"
| "bump i x ((j, y) # d) = (if j = i then (j, y + x) # d else (j, y) # bump i x d)"

definition set_default :: "nat \<Rightarrow> 'v \<Rightarrow> (nat \<times> 'v) list \<Rightarrow> (nat \<times> 'v) list" where
  "set_default i v d = (if i \<in> fst ` set d then d else d @ [(i, v)])"

definition count_hit ::
  "nat \<Rightarrow> nat \<times> nat \<times> nat \<Rightarrow> (nat \<times> rat) list \<times> (nat \<times> nat \<times> nat) list \<Rightarrow> (nat \<times> rat) list \<times> (nat \<times> nat \<times> nat) list" where
  "count_hit k h d = (case h of (source, rank, i) \<Rightarrow>
     (bump i (1 / of_nat (k + rank)) (fst d), set_default i (source, rank) (snd d)))"

definition ranked :: "nat \<Rightarrow> hit list \<Rightarrow> (nat \<times> nat \<times> nat) list" where
  "ranked source hits = map (\<lambda>(rank, h). (source, rank, ht_id h)) (enumerate 1 hits)"

definition fuse_with :: "nat \<Rightarrow> hit list \<Rightarrow> hit list \<Rightarrow> hit list" where
  "fuse_with k lexical vector =
     (let (contributions, provenance) = fold (count_hit k) (ranked 0 lexical @ ranked 1 vector) ([], []);
          order = (\<lambda>(i, s). (- s, the (map_of provenance i), i))
      in map (\<lambda>(i, s). \<lparr>ht_id = i, ht_score = s\<rparr>) (sort_key order contributions))"

definition fuse :: "hit list \<Rightarrow> hit list \<Rightarrow> hit list" where
  "fuse lexical vector = fuse_with rrf_k lexical vector"

section \<open>Search\<close>

datatype search_mode = Hybrid | Lexical | Degraded

record search_outcome =
  so_hits :: "hit list"
  so_mode :: search_mode
  so_lexical_count :: nat
  so_vector_count :: nat

text \<open>A provider names its model and embeds texts; \<open>None\<close> is an exception.\<close>

record embedder =
  em_name :: string
  em_dimensions :: nat
  em_embed :: "string list \<Rightarrow> rat list list option"

definition vector_search ::
  "search_backend \<Rightarrow> datetime \<Rightarrow> rat list \<Rightarrow> string \<Rightarrow> nat \<Rightarrow> timedelta \<Rightarrow> rat \<Rightarrow> hit list option" where
  "vector_search be now embedding model limit window similarity = (case sb_full_text be of
       None \<Rightarrow> Some []
     | Some _ \<Rightarrow> sb_nearest be embedding model (now - window) (1 - similarity) limit)"

definition outcome_of :: "hit list \<Rightarrow> hit list \<Rightarrow> search_mode \<Rightarrow> nat \<Rightarrow> search_outcome" where
  "outcome_of lexical vector mode limit = \<lparr>so_hits = take limit (fuse lexical vector), so_mode = mode,
     so_lexical_count = length lexical, so_vector_count = length vector\<rparr>"

text \<open>The semantic half: \<open>None\<close> when any of its steps raised, also when no vector came back.\<close>

definition semantic ::
  "search_backend \<Rightarrow> datetime \<Rightarrow> embedder \<Rightarrow> string \<Rightarrow> nat \<Rightarrow> timedelta \<Rightarrow> hit list option" where
  "semantic be now provider prepared candidates window = (case em_embed provider [prepared] of
       Some (v # _) \<Rightarrow> vector_search be now v (em_name provider) candidates window minimum_similarity
     | _ \<Rightarrow> None)"

definition search ::
  "search_backend \<Rightarrow> corpus \<Rightarrow> datetime \<Rightarrow> string \<Rightarrow> nat \<Rightarrow> timedelta \<Rightarrow> embedder option \<Rightarrow> string \<Rightarrow> search_outcome" where
  "search be c now query limit window provider language =
     (let prepared = build_tsquery query in
      if prepared = [] then \<lparr>so_hits = [], so_mode = Lexical, so_lexical_count = 0, so_vector_count = 0\<rparr>
      else let candidates = limit * candidate_multiplier;
               lexical = lexical_search be c now query candidates window language in
        case provider of
          None \<Rightarrow> outcome_of lexical [] Lexical limit
        | Some p \<Rightarrow>
            (case semantic be now p prepared candidates window of
               None \<Rightarrow> outcome_of lexical [] Degraded limit
             | Some vector \<Rightarrow> if vector = [] then outcome_of lexical [] Degraded limit
                 else outcome_of lexical vector Hybrid limit))"

text \<open>
  Fusion computes the reciprocal rank scores of its specification, and a search says truthfully
  which retrievers its results come from.
\<close>

section \<open>The score of a document\<close>

text \<open>The specification: a document scores the sum of the reciprocals of its shifted ranks.\<close>

definition rrf :: "nat \<Rightarrow> hit list \<Rightarrow> nat \<Rightarrow> rat" where
  "rrf k hits i = sum_list (map (\<lambda>(rank, h). if ht_id h = i then 1 / of_nat (k + rank) else 0) (enumerate 1 hits))"

definition contrib :: "nat \<Rightarrow> (nat \<times> nat \<times> nat) list \<Rightarrow> nat \<Rightarrow> rat" where
  "contrib k xs i = sum_list (map (\<lambda>(source, rank, j). if j = i then 1 / of_nat (k + rank) else 0) xs)"

lemma map_of_bump: "map_of (bump i x d) j = (if j = i then Some ((case map_of d i of None \<Rightarrow> 0 | Some y \<Rightarrow> y) + x) else map_of d j)"
  by (induction i x d rule: bump.induct) auto

lemma keys_bump: "map fst (bump i x d) = (if i \<in> fst ` set d then map fst d else map fst d @ [i])"
  by (induction i x d rule: bump.induct) auto

lemma fold_count:
  "distinct (map fst (fst d)) \<Longrightarrow> map fst (snd d) = map fst (fst d) \<Longrightarrow>
   (let e = fold (count_hit k) xs d in
     distinct (map fst (fst e)) \<and> map fst (snd e) = map fst (fst e)
     \<and> fst ` set (fst e) = fst ` set (fst d) \<union> (snd \<circ> snd) ` set xs
     \<and> (\<forall>i. (case map_of (fst e) i of None \<Rightarrow> 0 | Some y \<Rightarrow> y) =
            (case map_of (fst d) i of None \<Rightarrow> 0 | Some y \<Rightarrow> y) + contrib k xs i)
     \<and> (\<forall>i. map_of (snd e) i = (case map_of (snd d) i of Some p \<Rightarrow> Some p
            | None \<Rightarrow> map_option (\<lambda>(source, rank, j). (source, rank)) (List.find (\<lambda>(source, rank, j). j = i) xs))))"
proof (induction xs arbitrary: d)
  case Nil
  then show ?case by (auto simp: contrib_def split: option.split)
next
  case (Cons x xs)
  obtain s r j where x: "x = (s, r, j)" by (rule prod_cases3)
  let ?d = "count_hit k x d"
  have fd: "fst ?d = bump j (1 / of_nat (k + r)) (fst d)" "snd ?d = set_default j (s, r) (snd d)"
    by (simp_all add: count_hit_def x)
  have same: "fst ` set (snd d) = fst ` set (fst d)" using Cons.prems(2) by (metis list.set_map)
  have d1: "distinct (map fst (fst ?d))" using Cons.prems(1) by (simp add: fd keys_bump)
  have d2: "map fst (snd ?d) = map fst (fst ?d)" using Cons.prems(2) same by (simp add: fd keys_bump set_default_def)
  note IH = Cons.IH [OF d1 d2, unfolded Let_def]
  have keys: "fst ` set (fst ?d) = insert j (fst ` set (fst d))"
    using keys_bump [of j "1 / of_nat (k + r)" "fst d"] unfolding fd
    by (metis insert_absorb list.set(2) list.set_map rotate1.simps(2) set_rotate1)
  have prov: "map_of (snd ?d) i = (case map_of (snd d) i of Some p \<Rightarrow> Some p
      | None \<Rightarrow> if j = i then Some (s, r) else None)" for i
    by (auto simp: fd set_default_def map_add_def map_of_eq_None_iff image_iff split: option.split)
       (metis fst_conv map_of_SomeD option.distinct(1) weak_map_of_SomeI)+
  show ?case unfolding Let_def
  proof (intro conjI allI)
    show "distinct (map fst (fst (fold (count_hit k) (x # xs) d)))" using IH by simp
    show "map fst (snd (fold (count_hit k) (x # xs) d)) = map fst (fst (fold (count_hit k) (x # xs) d))" using IH by simp
    show "fst ` set (fst (fold (count_hit k) (x # xs) d)) = fst ` set (fst d) \<union> (snd \<circ> snd) ` set (x # xs)"
      using IH keys x by auto
    fix i
    have "(case map_of (fst ?d) i of None \<Rightarrow> 0 | Some y \<Rightarrow> y) =
        (case map_of (fst d) i of None \<Rightarrow> 0 | Some y \<Rightarrow> y) + (if j = i then 1 / of_nat (k + r) else 0)"
      by (simp add: fd map_of_bump)
    then show "(case map_of (fst (fold (count_hit k) (x # xs) d)) i of None \<Rightarrow> 0 | Some y \<Rightarrow> y) =
        (case map_of (fst d) i of None \<Rightarrow> 0 | Some y \<Rightarrow> y) + contrib k (x # xs) i"
      using IH by (simp add: contrib_def x)
    show "map_of (snd (fold (count_hit k) (x # xs) d)) i = (case map_of (snd d) i of Some p \<Rightarrow> Some p
        | None \<Rightarrow> map_option (\<lambda>(source, rank, j). (source, rank)) (List.find (\<lambda>(source, rank, j). j = i) (x # xs)))"
      using IH prov [of i] by (simp add: x split: option.split)
  qed
qed

definition sightings :: "hit list \<Rightarrow> hit list \<Rightarrow> (nat \<times> nat \<times> nat) list" where
  "sightings lexical vector = ranked 0 lexical @ ranked 1 vector"

lemma contrib_ranked: "contrib k (ranked s hits) i = rrf k hits i"
  by (auto simp: contrib_def ranked_def rrf_def intro!: arg_cong [where f = sum_list])

lemma contrib_append: "contrib k (xs @ ys) i = contrib k xs i + contrib k ys i"
  by (simp add: contrib_def)

lemma ids_ranked: "(snd \<circ> snd) ` set (ranked s hits) = ht_id ` set hits"
proof -
  have "map (snd \<circ> snd) (ranked s hits) = map ht_id (map snd (enumerate 1 hits))"
    by (simp add: ranked_def case_prod_beta' del: map_snd_enumerate)
  then have "map (snd \<circ> snd) (ranked s hits) = map ht_id hits" by simp
  then show ?thesis by (metis list.set_map)
qed

lemma fuse_facts:
  "distinct (map ht_id (fuse_with k lexical vector))
    \<and> ht_id ` set (fuse_with k lexical vector) = ht_id ` set lexical \<union> ht_id ` set vector
    \<and> (\<forall>h \<in> set (fuse_with k lexical vector). ht_score h = rrf k lexical (ht_id h) + rrf k vector (ht_id h))
    \<and> sorted (map (\<lambda>h. - ht_score h) (fuse_with k lexical vector))"
proof -
  let ?e = "fold (count_hit k) (sightings lexical vector) ([], [])"
  note facts = fold_count [of "([], [])" k "sightings lexical vector", unfolded Let_def]
  have dist: "distinct (map fst (fst ?e))" using facts by simp
  have keys: "fst ` set (fst ?e) = ht_id ` set lexical \<union> ht_id ` set vector"
    using facts ids_ranked [of 0 lexical] ids_ranked [of 1 vector] by (simp add: sightings_def image_Un)
  have score: "y = rrf k lexical i + rrf k vector i" if "(i, y) \<in> set (fst ?e)" for i y
  proof -
    have "map_of (fst ?e) i = Some y" using that dist by (simp add: map_of_is_SomeI)
    moreover have "(case map_of (fst ?e) i of None \<Rightarrow> 0 | Some y \<Rightarrow> y) = contrib k (sightings lexical vector) i"
      using facts by simp
    ultimately have "y = contrib k (sightings lexical vector) i" by simp
    then show ?thesis by (simp add: sightings_def contrib_append contrib_ranked)
  qed
  define order where "order = (\<lambda>(i, s). (- s :: rat, the (map_of (snd ?e) i), i))"
  have fuse: "fuse_with k lexical vector = map (\<lambda>(i, s). \<lparr>ht_id = i, ht_score = s\<rparr>) (sort_key order (fst ?e))"
    by (simp add: fuse_with_def sightings_def order_def case_prod_beta' Let_def)
  have ids: "map ht_id (fuse_with k lexical vector) = map fst (sort_key order (fst ?e))"
    by (simp add: fuse case_prod_beta')
  have "distinct (map fst (sort_key order (fst ?e)))"
  proof -
    have "mset (map fst (sort_key order (fst ?e))) = mset (map fst (fst ?e))" by simp
    then show ?thesis using dist by (metis mset_eq_imp_distinct_iff)
  qed
  moreover have "ht_id ` set (fuse_with k lexical vector) = fst ` set (fst ?e)"
    by (metis ids list.set_map set_sort)
  moreover have "sorted (map (\<lambda>h. - ht_score h) (fuse_with k lexical vector))"
  proof -
    have "sorted (map order (sort_key order (fst ?e)))" by simp
    then have "sorted (map fst (map order (sort_key order (fst ?e))))"
      by (rule sorted_map_mono) (auto simp: mono_on_def less_eq_prod_def)
    then show ?thesis by (simp add: fuse order_def case_prod_beta' comp_def)
  qed
  moreover have "\<forall>h \<in> set (fuse_with k lexical vector). ht_score h = rrf k lexical (ht_id h) + rrf k vector (ht_id h)"
    using score by (auto simp: fuse)
  ultimately show ?thesis using ids keys by simp
qed

section \<open>Honest outcomes\<close>

lemma fuse_empty: "fuse lexical [] = [] \<longleftrightarrow> lexical = []"
proof -
  have "ht_id ` set (fuse lexical []) = ht_id ` set lexical" using fuse_facts [of rrf_k lexical "[]"] by (simp add: fuse_def)
  then show ?thesis by auto
qed

lemma outcome_of_simps [simp]: "so_mode (outcome_of l v m n) = m" "so_lexical_count (outcome_of l v m n) = length l"
  "so_vector_count (outcome_of l v m n) = length v" "so_hits (outcome_of l v m n) = take n (fuse l v)"
  by (simp_all add: outcome_of_def)

lemma search_cases:
  assumes "search be c now query limit window provider language = out"
  obtains (blank) "build_tsquery query = []" "so_hits out = []" "so_mode out = Lexical" "so_vector_count out = 0"
  | (off) "provider = None" "out = outcome_of (lexical_search be c now query (limit * candidate_multiplier) window language) [] Lexical limit"
  | (down) p where "provider = Some p" "semantic be now p (build_tsquery query) (limit * candidate_multiplier) window \<in> {None, Some []}"
      "out = outcome_of (lexical_search be c now query (limit * candidate_multiplier) window language) [] Degraded limit"
  | (both) p v where "provider = Some p" "semantic be now p (build_tsquery query) (limit * candidate_multiplier) window = Some v"
      "v \<noteq> []" "out = outcome_of (lexical_search be c now query (limit * candidate_multiplier) window language) v Hybrid limit"
proof (cases "build_tsquery query = []")
  case True
  have "out = \<lparr>so_hits = [], so_mode = Lexical, so_lexical_count = 0, so_vector_count = 0\<rparr>"
    using assms True by (simp add: search_def)
  then show ?thesis by (intro blank) (simp_all add: True)
next
  case False
  show ?thesis
  proof (cases provider)
    case None
    then show ?thesis using assms off False by (simp add: search_def Let_def)
  next
    case (Some p)
    show ?thesis
    proof (cases "semantic be now p (build_tsquery query) (limit * candidate_multiplier) window")
      case None
      then show ?thesis using assms down [of p] False Some by (simp add: search_def Let_def)
    next
      case s: (Some v)
      show ?thesis
      proof (cases "v = []")
        case True
        then show ?thesis using assms down [of p] False Some s by (simp add: search_def Let_def)
      next
        case F: False
        then show ?thesis using assms both [of p v] False Some s by (simp add: search_def Let_def)
      qed
    qed
  qed
qed

lemma lexical_blank: "build_tsquery query = [] \<Longrightarrow> lexical_search be c now query limit window language = []"
  by (simp add: lexical_search_def)

text \<open>The substring search finds only words of the query, and what it finds is in the window.\<close>

lemma substring_search_sound:
  assumes "h \<in> set (substring_search c prepared cutoff limit)"
  shows "\<exists>p r. (p, r) \<in> set (joined_articles c) \<and> ht_id h = pa_id p \<and> cutoff \<le> pa_processed_at p
    \<and> field_score (lower prepared) p r \<noteq> 0 \<and> ht_score h = field_score (lower prepared) p r / fallback_total"
  using assms
  by (auto simp: substring_search_def best_first_def in_map_filter Let_def dest!: in_set_takeD split: if_splits) metis

end
