(* ===== verification/AgentTools.thy ===== *)
theory AgentTools
  imports AgentAnalysis ImpactScoring PyTime Search
begin

text \<open>
  \<^verbatim>\<open>agents/tools.py\<close>: the four read-only tools and their dispatch. Arguments are JSON values as the
  model sent them; \<open>None\<close> is an exception (a missing argument, an operation on a value of the wrong
  type, a value the database driver refuses). \<open>te_round\<close> is the \<^verbatim>\<open>repr\<close> of a rounded float,
  \<open>te_float_window\<close> the \<^verbatim>\<open>timedelta\<close> of a float number of days under a limit. The ellipsis of
  a clipped text is one character outside ASCII. Rows with equal sort keys keep table order.
\<close>

definition max_items :: nat where
  "max_items = 20"

definition snippet_chars :: nat where
  "snippet_chars = 400"

definition ellipsis :: string where
  "ellipsis = [CHR 0x85]"

definition clip :: "string \<Rightarrow> string" where
  "clip s = (if length s \<le> snippet_chars then s else take (snippet_chars - 1) s @ ellipsis)"

record tools_env =
  te_suppliers :: supplier_db
  te_events :: "risk_event list"
  te_corpus :: corpus
  te_backend :: search_backend
  te_provider :: "embedder option"
  te_now :: datetime
  te_round :: "nat \<Rightarrow> real \<Rightarrow> string"
  te_float_window :: "string \<Rightarrow> int \<Rightarrow> timedelta option"

definition opt_json :: "string option \<Rightarrow> json" where
  "opt_json s = (case s of None \<Rightarrow> JNull | Some t \<Rightarrow> JStr t)"

text \<open>\<^verbatim>\<open>timedelta(days=min(v, limit))\<close>\<close>

definition window_of :: "tools_env \<Rightarrow> int \<Rightarrow> json \<Rightarrow> timedelta option" where
  "window_of env limit v = (case v of
       JInt i \<Rightarrow> Some (days (min i limit))
     | JBool b \<Rightarrow> Some (days (min (if b then 1 else 0) limit))
     | JFloat r \<Rightarrow> te_float_window env r limit
     | _ \<Rightarrow> None)"

section \<open>The tools\<close>

definition driver_json :: "tools_env \<Rightarrow> driver \<Rightarrow> json" where
  "driver_json env d = JObject [(''event_key'', JStr (dr_event_key d)), (''risk_type'', JStr (dr_risk_type d)),
     (''severity'', JStr (dr_severity d)), (''confidence'', JFloat (te_round env 3 (dr_confidence d))),
     (''published_at'', JStr (isoformat (dr_published_at d))), (''source_name'', JStr (dr_source_name d)),
     (''evidence_snippet'', JStr (clip (dr_evidence_snippet d)))]"

definition get_supplier_impact :: "tools_env \<Rightarrow> dict \<Rightarrow> json option" where
  "get_supplier_impact env args = (case map_of args ''supplier_public_id'' of
       Some (JStr pid) \<Rightarrow>
         (case supplier_impact (te_suppliers env) (te_events env) pid (te_now env) None of
            None \<Rightarrow> Some (JObject [(''error'', JStr (''no supplier with public id '' @ py_repr pid))])
          | Some i \<Rightarrow> Some (JObject [(''supplier_public_id'', JStr (si_public_id i)),
              (''supplier_name'', JStr (si_name i)), (''band'', JStr (is_band (si_score i))),
              (''value'', JFloat (te_round env 4 (is_value (si_score i)))),
              (''drivers'', JList (map (driver_json env) (take max_items (is_drivers (si_score i)))))]))
     | _ \<Rightarrow> None)"

definition event_json :: "tools_env \<Rightarrow> risk_event \<Rightarrow> json" where
  "event_json env e = JObject [(''event_key'', JStr (re_event_key e)), (''risk_type'', JStr (re_risk_type e)),
     (''severity'', JStr (re_severity e)), (''confidence'', JFloat (te_round env 3 (re_confidence e))),
     (''published_at'', JStr (isoformat (re_published_at e))), (''source_name'', JStr (re_source_name e)),
     (''affected_locations'', JList (map JStr (take max_items (re_affected_locations e)))),
     (''evidence_snippet'', JStr (clip (re_evidence_snippet e)))]"

definition events_naming :: "tools_env \<Rightarrow> json \<Rightarrow> timedelta \<Rightarrow> risk_event list" where
  "events_naming env pid window = filter (\<lambda>e. pid \<in> JStr ` set (re_affected_supplier_ids e))
     (sort_key (\<lambda>e. - re_published_at e) (filter (\<lambda>e. te_now env - window \<le> re_published_at e) (te_events env)))"

definition list_risk_events :: "tools_env \<Rightarrow> dict \<Rightarrow> json option" where
  "list_risk_events env args = (case map_of args ''supplier_public_id'' of
       None \<Rightarrow> None
     | Some pid \<Rightarrow>
         (case (case map_of args ''days'' of
                  None \<Rightarrow> Some (days risk_event_days)
                | Some JNull \<Rightarrow> Some (days risk_event_days)
                | Some v \<Rightarrow> window_of env 90 v) of
            None \<Rightarrow> None
          | Some window \<Rightarrow>
              (let matching = events_naming env pid window in
               Some (JObject [(''events'', JList (map (event_json env) (take max_items matching))),
                 (''truncated'', JBool (max_items < length matching))]))))"

definition supplier_json :: "supplier \<Rightarrow> json" where
  "supplier_json s = JObject [(''public_id'', JStr (s_public_id s)), (''canonical_name'', JStr (s_canonical_name s)),
     (''country'', opt_json (s_country s)), (''lei'', opt_json (s_lei s))]"

definition suppliers_in :: "tools_env \<Rightarrow> string \<Rightarrow> string option \<Rightarrow> supplier list" where
  "suppliers_in env country except = take (max_items + 1) (sort_key s_canonical_name (filter
     (\<lambda>s. s_country s = Some (take 2 (upper country)) \<and> s_is_active s \<and> Some (s_public_id s) \<noteq> except)
     (suppliers (te_suppliers env))))"

definition find_alternate_suppliers :: "tools_env \<Rightarrow> dict \<Rightarrow> json option" where
  "find_alternate_suppliers env args = (case map_of args ''country'' of
       Some (JStr country) \<Rightarrow>
         (let except = jget args ''exclude_public_id'' in
          case (if \<not> jtrue except then Some None else case except of JStr p \<Rightarrow> Some (Some p) | _ \<Rightarrow> None) of
            None \<Rightarrow> None
          | Some ex \<Rightarrow>
              (let found = suppliers_in env country ex in
               Some (JObject [(''suppliers'', JList (map supplier_json (take max_items found))),
                 (''truncated'', JBool (max_items < length found))])))
     | _ \<Rightarrow> None)"

definition mode_str :: "search_mode \<Rightarrow> string" where
  "mode_str m = (case m of Hybrid \<Rightarrow> ''hybrid'' | Lexical \<Rightarrow> ''lexical'' | Degraded \<Rightarrow> ''degraded'')"

definition article_json :: "processed_article \<Rightarrow> json" where
  "article_json a = JObject [(''title'', JStr (pa_normalized_title a)), (''summary'', JStr (clip (pa_summary a))),
     (''published_at'', JStr (isoformat (pa_processed_at a)))]"

definition search_articles :: "tools_env \<Rightarrow> dict \<Rightarrow> json option" where
  "search_articles env args = (case map_of args ''query'' of
       Some (JStr query) \<Rightarrow>
         (case window_of env 30 (jor (jget args ''days'') (JInt 7)) of
            None \<Rightarrow> None
          | Some window \<Rightarrow>
              (let out = search (te_backend env) (te_corpus env) (te_now env) query max_items window (te_provider env) ''en'' in
               Some (JObject [(''mode'', JStr (mode_str (so_mode out))),
                 (''articles'', JList (map article_json (List.map_filter
                    (\<lambda>h. row_of pa_id (co_processed (te_corpus env)) (ht_id h)) (so_hits out))))])))
     | _ \<Rightarrow> None)"

section \<open>Dispatch\<close>

datatype tool = SupplierImpact | RiskEventList | AlternateSuppliers | ArticleSearch

definition tool_catalogue :: "(string \<times> tool) list" where
  "tool_catalogue = [(''get_supplier_impact'', SupplierImpact), (''list_risk_events'', RiskEventList),
     (''find_alternate_suppliers'', AlternateSuppliers), (''search_articles'', ArticleSearch)]"

definition tool_names :: "string list" where
  "tool_names = map fst tool_catalogue"

primrec declared :: "tool \<Rightarrow> string list" where
  "declared SupplierImpact = [''supplier_public_id'']"
| "declared RiskEventList = [''supplier_public_id'', ''days'']"
| "declared AlternateSuppliers = [''country'', ''exclude_public_id'']"
| "declared ArticleSearch = [''query'', ''days'']"

text \<open>The handlers are given the organization of the caller; none of them uses it.\<close>

primrec handler :: "tool \<Rightarrow> tools_env \<Rightarrow> nat \<Rightarrow> dict \<Rightarrow> json option" where
  "handler SupplierImpact env org args = get_supplier_impact env args"
| "handler RiskEventList env org args = list_risk_events env args"
| "handler AlternateSuppliers env org args = find_alternate_suppliers env args"
| "handler ArticleSearch env org args = search_articles env args"

definition dispatch :: "tools_env \<Rightarrow> nat \<Rightarrow> string \<Rightarrow> dict \<Rightarrow> json option" where
  "dispatch env org name arguments = (case map_of tool_catalogue name of
       None \<Rightarrow> None
     | Some t \<Rightarrow> handler t env org (filter (\<lambda>(k, v). k \<in> set (declared t)) arguments))"

section \<open>Facts\<close>

lemma length_clip: "length (clip s) \<le> snippet_chars"
  by (simp add: clip_def ellipsis_def snippet_chars_def)

lemma dispatch_declared: "map_of tool_catalogue name = Some t \<Longrightarrow>
    dispatch env org name args = dispatch env org name (filter (\<lambda>(k, v). k \<in> set (declared t)) args)"
  by (simp add: dispatch_def)

lemma no_organization_argument: "''organization_id'' \<notin> set (declared t)"
  by (cases t) simp_all

lemma event_keys_of_events: "set (concat (map (event_keys_in \<circ> event_json env) es)) \<subseteq> re_event_key ` set es"
  by (induction es) (auto simp: event_json_def jget_def split: if_splits)

lemma event_keys_of_drivers: "set (concat (map (event_keys_in \<circ> driver_json env) ds)) \<subseteq> dr_event_key ` set ds"
  by (induction ds) (auto simp: driver_json_def jget_def split: if_splits)

lemma no_event_keys: "event_keys_in (supplier_json s) = []" "event_keys_in (article_json a) = []"
  by (simp_all add: supplier_json_def article_json_def jget_def opt_json_def split: option.split)

lemma drivers_of_score: "set (is_drivers (score_supplier es now)) \<subseteq> driver_of now ` set es"
  by (simp add: score_supplier_def Let_def)

lemma impact_keys:
  assumes "supplier_impact sdb events pid now w = Some i"
  shows "dr_event_key ` set (is_drivers (si_score i)) \<subseteq> re_event_key ` {e \<in> set events. pid \<in> set (re_affected_supplier_ids e)}"
proof -
  obtain s w' where s: "s_public_id s = pid" "i = impact_of events now w' s"
    using assms by (auto simp: supplier_impact_def dest: find_Some_in split: option.splits)
  have "set (is_drivers (si_score i)) \<subseteq> driver_of now ` set (events_by_supplier events (now - days w') pid)"
    using drivers_of_score s by (simp add: impact_of_def)
  moreover have "dr_event_key (driver_of now e) = re_event_key e" for e by (simp add: driver_of_def)
  ultimately show ?thesis by (fastforce simp: events_by_supplier_def)
qed

text \<open>A tool cites only stored events.\<close>

lemma dispatch_keys:
  assumes "dispatch env org name args = Some r"
  shows "set (event_keys_in r) \<subseteq> re_event_key ` set (te_events env)"
proof -
  obtain t where t: "handler t env org (filter (\<lambda>(k, v). k \<in> set (declared t)) args) = Some r"
    using assms by (auto simp: dispatch_def split: option.splits)
  let ?args = "filter (\<lambda>(k, v). k \<in> set (declared t)) args"
  show ?thesis
  proof (cases t)
    case SupplierImpact
    then obtain pid where p: "map_of ?args ''supplier_public_id'' = Some (JStr pid)"
      and g: "get_supplier_impact env ?args = Some r"
      using t by (auto simp: get_supplier_impact_def split: option.splits json.splits)
    show ?thesis
    proof (cases "supplier_impact (te_suppliers env) (te_events env) pid (te_now env) None")
      case None
      then show ?thesis using g p by (auto simp: get_supplier_impact_def jget_def)
    next
      case (Some i)
      have "set (event_keys_in r) \<subseteq> set (concat (map (event_keys_in \<circ> driver_json env) (take max_items (is_drivers (si_score i)))))"
        using g p Some by (auto simp: get_supplier_impact_def jget_def)
      also have "\<dots> \<subseteq> dr_event_key ` set (take max_items (is_drivers (si_score i)))" by (rule event_keys_of_drivers)
      also have "\<dots> \<subseteq> dr_event_key ` set (is_drivers (si_score i))" by (auto dest: in_set_takeD)
      also have "\<dots> \<subseteq> re_event_key ` set (te_events env)" using impact_keys [OF Some] by blast
      finally show ?thesis .
    qed
  next
    case RiskEventList
    obtain pid window where r: "r = JObject [(''events'', JList (map (event_json env) (take max_items (events_naming env pid window)))),
               (''truncated'', JBool (max_items < length (events_naming env pid window)))]"
      using t RiskEventList by (auto simp: list_risk_events_def Let_def split: option.splits)
    have "set (event_keys_in r) \<subseteq> set (concat (map (event_keys_in \<circ> event_json env) (take max_items (events_naming env pid window))))"
      by (auto simp: r jget_def)
    also have "\<dots> \<subseteq> re_event_key ` set (take max_items (events_naming env pid window))" by (rule event_keys_of_events)
    also have "\<dots> \<subseteq> re_event_key ` set (te_events env)" by (auto simp: events_naming_def dest!: in_set_takeD)
    finally show ?thesis .
  next
    case AlternateSuppliers
    then show ?thesis using t
      by (auto simp: find_alternate_suppliers_def jget_def Let_def no_event_keys comp_def split: option.splits json.splits if_splits)
  next
    case ArticleSearch
    then show ?thesis using t
      by (auto simp: search_articles_def jget_def Let_def no_event_keys comp_def split: option.splits json.splits)
  qed
qed

end
