(* ===== verification/AgentApi.thy ===== *)
theory AgentApi
  imports AgentTools AuthApi
begin

text \<open>
  \<^verbatim>\<open>api/routers/agents.py\<close>: asking for an analysis, and the decision about a recommendation. The
  row a decision is based on is read before it is written, without a lock: \<open>decide_seen\<close> takes
  the tables as they were when it was read.
\<close>

record agent_api =
  aa_db :: agent_db
  aa_audit :: "audit_row list"

definition status_str :: "recommendation_status \<Rightarrow> string" where
  "status_str s = (case s of Proposed \<Rightarrow> ''proposed'' | Approved \<Rightarrow> ''approved'' | Rejected \<Rightarrow> ''rejected'')"

definition run_status_str :: "run_status \<Rightarrow> string" where
  "run_status_str s = (case s of Running \<Rightarrow> ''running'' | Completed \<Rightarrow> ''completed'' | Failed \<Rightarrow> ''failed'')"

section \<open>Asking for an analysis\<close>

text \<open>\<open>SupplierNotFound\<close> is the 404 the handler answers to any \<^verbatim>\<open>ValueError\<close> of the analysis.\<close>

datatype analysis_reply =
    NotAllowed
  | NotConfigured
  | SupplierNotFound
  | AnalysisBroke
  | AnalysisDone agent_run nat

definition run_analysis ::
  "analysis_env option \<Rightarrow> supplier_db \<Rightarrow> string \<Rightarrow> authenticated_user \<Rightarrow> string \<Rightarrow> client \<Rightarrow> agent_api
     \<Rightarrow> analysis_reply \<times> agent_api" where
  "run_analysis configured sdb uuid u pid cl st =
     (if \<not> admits MEMBER u then (NotAllowed, st)
      else case configured of
        None \<Rightarrow> (NotConfigured, st)
      | Some env \<Rightarrow>
          (case analyse_supplier env sdb uuid (au_organization_id u) (au_id u) pid (aa_db st) of
             (NoActiveSupplier, db) \<Rightarrow> (SupplierNotFound, st)
           | (Raised value_error, db) \<Rightarrow> (if value_error then SupplierNotFound else AnalysisBroke, st\<lparr>aa_db := db\<rparr>)
           | (Analysed run, db) \<Rightarrow>
               (let n = length (filter (\<lambda>r. rc_run_id r = ag_id run) (ab_recommendations db)) in
                (AnalysisDone run n, st\<lparr>aa_db := db, aa_audit := aa_audit st @
                  [audit_entry ''agent.analysis_run'' ''success'' (Some u) None (Some (''agent_run'', ag_public_id run))
                    [(''supplier_public_id'', JStr (ag_supplier_public_id run)), (''model'', JStr (ag_model run)),
                     (''status'', JStr (run_status_str (ag_status run))), (''recommendations'', JInt (int n))] cl]\<rparr>))))"

section \<open>Deciding\<close>

datatype decide_reply =
    DecisionForbidden
  | UnknownDecision
  | AnalysisNotFound
  | RecommendationNotFound
  | AlreadyDecided recommendation_status
  | Decided recommendation

definition decisions :: "(string \<times> recommendation_status) list" where
  "decisions = [(''approve'', Approved), (''reject'', Rejected)]"

definition owned_run :: "string \<Rightarrow> authenticated_user \<Rightarrow> agent_db \<Rightarrow> agent_run option" where
  "owned_run pid u db = List.find (\<lambda>r. ag_public_id r = pid \<and> ag_organization_id r = au_organization_id u) (ab_runs db)"

definition rc_key :: "recommendation \<Rightarrow> nat \<times> nat" where
  "rc_key r = (rc_run_id r, rc_ordinal r)"

definition decided :: "recommendation_status \<Rightarrow> nat \<Rightarrow> datetime \<Rightarrow> string \<Rightarrow> recommendation \<Rightarrow> recommendation" where
  "decided status uid now note r = r\<lparr>rc_status := status, rc_decided_by := Some uid, rc_decided_at := Some now,
     rc_decision_note := (if note = [] then None else Some note)\<rparr>"

definition decide_seen ::
  "agent_db \<Rightarrow> string \<Rightarrow> nat \<Rightarrow> string \<Rightarrow> string \<Rightarrow> authenticated_user \<Rightarrow> client \<Rightarrow> datetime \<Rightarrow> agent_api
     \<Rightarrow> decide_reply \<times> agent_api" where
  "decide_seen seen pid ordinal decision note u cl now st =
     (if \<not> admits ADMIN u then (DecisionForbidden, st)
      else case map_of decisions decision of
        None \<Rightarrow> (UnknownDecision, st)
      | Some status \<Rightarrow>
          (case owned_run pid u seen of
             None \<Rightarrow> (AnalysisNotFound, st)
           | Some run \<Rightarrow>
               (case row_of rc_key (ab_recommendations seen) (ag_id run, ordinal) of
                  None \<Rightarrow> (RecommendationNotFound, st)
                | Some r \<Rightarrow>
                    if rc_status r \<noteq> Proposed then (AlreadyDecided (rc_status r), st)
                    else (Decided (decided status (au_id u) now note r),
                      st\<lparr>aa_db := (aa_db st)\<lparr>ab_recommendations := sql_update (\<lambda>x. rc_key x = rc_key r)
                             (decided status (au_id u) now note) (ab_recommendations (aa_db st))\<rparr>,
                         aa_audit := aa_audit st @ [audit_entry (''agent.recommendation_'' @ status_str status) ''success''
                           (Some u) None (Some (''agent_run'', ag_public_id run))
                           [(''ordinal'', JInt (int ordinal)), (''title'', JStr (rc_title r)), (''note'', JStr note),
                            (''evidence_event_keys'', JList (map JStr (rc_evidence_event_keys r)))] cl]\<rparr>))))"

definition decide ::
  "string \<Rightarrow> nat \<Rightarrow> string \<Rightarrow> string \<Rightarrow> authenticated_user \<Rightarrow> client \<Rightarrow> datetime \<Rightarrow> agent_api
     \<Rightarrow> decide_reply \<times> agent_api" where
  "decide pid ordinal decision note u cl now st = decide_seen (aa_db st) pid ordinal decision note u cl now st"

text \<open>The lists and the detail page: newest first, and nothing of another organization.\<close>

definition list_analyses :: "nat \<Rightarrow> authenticated_user \<Rightarrow> agent_db \<Rightarrow> agent_run list \<times> nat" where
  "list_analyses limit u db =
     (let mine = filter (\<lambda>r. ag_organization_id r = au_organization_id u) (ab_runs db) in
      (take limit (sort_key (\<lambda>r. (- ag_started_at r, - int (ag_id r))) mine), length mine))"

definition get_analysis ::
  "string \<Rightarrow> authenticated_user \<Rightarrow> agent_db \<Rightarrow> (agent_run \<times> agent_step list \<times> recommendation list) option" where
  "get_analysis pid u db = map_option (\<lambda>run. (run,
       sort_key as_ordinal (filter (\<lambda>s. as_run_id s = ag_id run) (ab_steps db)),
       sort_key rc_ordinal (filter (\<lambda>r. rc_run_id r = ag_id run) (ab_recommendations db)))) (owned_run pid u db)"

text \<open>
  What an analysis stores: the evidence collected is exactly what the transcript shows the tools
  returned, and the recommendations are the supported ones of the answer. Then the histories of
  the endpoints, and the invariant of the tables that makes a decision final.
\<close>

section \<open>Evidence\<close>

definition tool_results :: "agent_step list \<Rightarrow> json list" where
  "tool_results steps = map as_payload (filter (\<lambda>s. as_kind s = ToolResult) steps)"

definition evidence_in :: "agent_step list \<Rightarrow> string list" where
  "evidence_in steps = concat (map event_keys_in (tool_results steps))"

lemma evidence_in_append [simp]: "evidence_in (xs @ ys) = evidence_in xs @ evidence_in ys"
  by (simp add: evidence_in_def tool_results_def)

lemma evidence_in_step [simp]: "evidence_in [s] = (if as_kind s = ToolResult then event_keys_in (as_payload s) else [])"
  by (simp add: evidence_in_def tool_results_def)

lemma evidence_in_Nil [simp]: "evidence_in [] = []"
  by (simp add: evidence_in_def tool_results_def)

lemma evidence_in_pair [simp]: "evidence_in [a, b] = evidence_in [a] @ evidence_in [b]"
  using evidence_in_append [of "[a]" "[b]"] by simp

lemma tool_error_keys [simp]: "event_keys_in (tool_error m) = []"
  by (simp add: tool_error_def jget_def)

lemma run_tool_evidence:
  assumes "run_tool (loop_env_of env org) c d = (stored, reply, d')"
  shows "d' = d @ event_keys_in stored"
  using assms by (auto simp: run_tool_def loop_env_of_def bound_dispatch_def split: if_splits option.splits)

lemma run_calls_evidence:
  "run_calls (loop_env_of env org) cs conv n st = (conv', n', st') \<Longrightarrow> lp_tools st = evidence_in (lp_steps st)
    \<Longrightarrow> lp_tools st' = evidence_in (lp_steps st')"
proof (induction cs arbitrary: conv n st)
  case (Cons c cs)
  obtain stored reply d where t: "run_tool (loop_env_of env org) c (lp_tools (record_step n ToolCall (call_payload c) (Some (tc_name c)) st)) = (stored, reply, d)"
    by (rule prod_cases3)
  have d: "d = lp_tools st @ event_keys_in stored" using run_tool_evidence [OF t] by (simp add: record_step_def)
  show ?case
  proof (rule Cons.IH)
    show "run_calls (loop_env_of env org) cs (conv @ [FunctionCall (tc_call_id c) (tc_name c) (json_text (JObject (tc_arguments c))),
        FunctionOutput (tc_call_id c) reply]) (Suc (Suc n)) (record_step (Suc n) ToolResult stored (Some (tc_name c))
          ((record_step n ToolCall (call_payload c) (Some (tc_name c)) st)\<lparr>lp_tools := d\<rparr>)) = (conv', n', st')"
      using Cons.prems(1) t by (simp add: Let_def)
  qed (simp add: record_step_def d Cons.prems(2))
qed simp

lemma run_loop_evidence:
  assumes run: "run_loop_from (loop_env_of env org) left turn conv n st = (res, st')"
    and "lp_tools st = evidence_in (lp_steps st)"
  shows "lp_tools st' = evidence_in (lp_steps st')"
  by (rule run_loop_rule [where I = "\<lambda>n x. lp_tools x = evidence_in (lp_steps x)"
        and Q = "\<lambda>r x. lp_tools x = evidence_in (lp_steps x)", OF _ _ _ _ _ _ _ run])
    (auto simp: assms(2) finish_run_def record_step_def dest: run_calls_evidence)

text \<open>What tools that return keys of \<open>K\<close> only can leave as evidence.\<close>

definition tools_within :: "analysis_env \<Rightarrow> nat \<Rightarrow> string set \<Rightarrow> bool" where
  "tools_within env org K \<longleftrightarrow> (\<forall>name args r. ae_dispatch env org name args = Some r \<longrightarrow> set (event_keys_in r) \<subseteq> K)"

lemma run_tool_within:
  assumes "run_tool (loop_env_of env org) c d = (stored, reply, d')" "tools_within env org K" "set d \<subseteq> K"
  shows "set d' \<subseteq> K"
proof -
  consider "d' = d" | r where "ae_dispatch env org (tc_name c) (tc_arguments c) = Some r" "d' = d @ event_keys_in r"
    using assms(1) by (auto simp: run_tool_def loop_env_of_def bound_dispatch_def split: if_splits option.splits)
  then show ?thesis
  proof cases
    case 2
    then have "set (event_keys_in r) \<subseteq> K" using assms(2) by (auto simp: tools_within_def)
    then show ?thesis using assms(3) 2(2) by simp
  qed (simp add: assms(3))
qed

lemma run_calls_within:
  "run_calls (loop_env_of env org) cs conv n st = (conv', n', st') \<Longrightarrow> tools_within env org K
    \<Longrightarrow> set (lp_tools st) \<subseteq> K \<Longrightarrow> set (lp_tools st') \<subseteq> K"
proof (induction cs arbitrary: conv n st)
  case (Cons c cs)
  obtain stored reply d where t: "run_tool (loop_env_of env org) c (lp_tools (record_step n ToolCall (call_payload c) (Some (tc_name c)) st)) = (stored, reply, d)"
    by (rule prod_cases3)
  have d: "set d \<subseteq> K" using run_tool_within [OF t Cons.prems(2)] Cons.prems(3) by (simp add: record_step_def)
  show ?case
  proof (rule Cons.IH [OF _ Cons.prems(2)])
    show "run_calls (loop_env_of env org) cs (conv @ [FunctionCall (tc_call_id c) (tc_name c) (json_text (JObject (tc_arguments c))),
        FunctionOutput (tc_call_id c) reply]) (Suc (Suc n)) (record_step (Suc n) ToolResult stored (Some (tc_name c))
          ((record_step n ToolCall (call_payload c) (Some (tc_name c)) st)\<lparr>lp_tools := d\<rparr>)) = (conv', n', st')"
      using Cons.prems(1) t by (simp add: Let_def)
  qed (simp add: record_step_def d)
qed simp

lemma run_loop_within:
  assumes run: "run_loop_from (loop_env_of env org) left turn conv n st = (res, st')"
    and "tools_within env org K" "set (lp_tools st) \<subseteq> K"
  shows "set (lp_tools st') \<subseteq> K"
proof (rule run_loop_rule [where I = "\<lambda>n x. set (lp_tools x) \<subseteq> K" and Q = "\<lambda>r x. set (lp_tools x) \<subseteq> K", OF _ _ _ _ _ _ _ run])
  fix m and x :: "string list loop_state" and cs conv1 conv2 m' x'
  assume "set (lp_tools x) \<subseteq> K" "run_calls (loop_env_of env org) cs conv1 m x = (conv2, m', x')"
  then show "set (lp_tools x') \<subseteq> K" using run_calls_within assms(2) by blast
qed (simp_all add: assms(3) finish_run_def record_step_def)

section \<open>Recommendations\<close>

text \<open>The specification: the items of the answer that have a title and cite some evidence.\<close>

definition heading_of :: "json_codec \<Rightarrow> dict \<Rightarrow> string" where
  "heading_of k d = strip (text_or_empty k (jget d ''title''))"

definition citations_of :: "dict \<Rightarrow> string list" where
  "citations_of d = (case jiter (jor (jget d ''evidence_event_keys'') (JList [])) of None \<Rightarrow> [] | Some xs \<Rightarrow> strings_in xs)"

definition titled :: "json_codec \<Rightarrow> json list \<Rightarrow> dict list" where
  "titled k items = filter (\<lambda>d. heading_of k d \<noteq> []) (dicts_in items)"

definition supported :: "json_codec \<Rightarrow> string set \<Rightarrow> json list \<Rightarrow> dict list" where
  "supported k verified items = filter (\<lambda>d. \<exists>e \<in> set (citations_of d). e \<in> verified) (titled k items)"

lemma dicts_in_Cons: "dicts_in (x # xs) = (case x of JObject d \<Rightarrow> d # dicts_in xs | _ \<Rightarrow> dicts_in xs)"
  by (simp add: dicts_in_def map_filter_def split: json.split)

lemma filter_nonempty: "filter P xs = [] \<longleftrightarrow> \<not> (\<exists>x \<in> set xs. P x)"
  by (simp add: filter_empty_conv)

lemma store_facts:
  "store_recommendations k run verified items n = Some (recs, dropped) \<Longrightarrow>
    map rc_title recs = map (\<lambda>d. take 300 (heading_of k d)) (supported k verified items)
    \<and> map rc_evidence_event_keys recs = map (\<lambda>d. filter (\<lambda>e. e \<in> verified) (citations_of d)) (supported k verified items)
    \<and> map rc_ordinal recs = [n..<n + length recs]
    \<and> (\<forall>r \<in> set recs. rc_run_id r = run \<and> rc_status r = Proposed \<and> rc_decided_by r = None)
    \<and> dropped = concat (map (\<lambda>d. filter (\<lambda>e. e \<notin> verified) (citations_of d)) (titled k items))"
proof (induction items arbitrary: n recs dropped)
  case (Cons item items)
  show ?case
  proof (cases "\<exists>d. item = JObject d \<and> heading_of k d \<noteq> []")
    case False
    then have "store_recommendations k run verified items n = Some (recs, dropped)"
      "titled k (item # items) = titled k items"
      using Cons.prems by (auto simp: heading_of_def titled_def dicts_in_Cons split: json.splits)
    then show ?thesis using Cons.IH by (simp add: supported_def)
  next
    case True
    then obtain d where d: "item = JObject d" "heading_of k d \<noteq> []" by blast
    obtain xs where xs: "jiter (jor (jget d ''evidence_event_keys'') (JList [])) = Some xs"
      using Cons.prems d by (auto simp: heading_of_def Let_def split: option.splits)
    then have cites: "citations_of d = strings_in xs" by (simp add: citations_of_def)
    have titled: "titled k (item # items) = d # titled k items" using d by (simp add: titled_def dicts_in_Cons)
    show ?thesis
    proof (cases "filter (\<lambda>e. e \<in> verified) (strings_in xs) = []")
      case True
      then obtain dr where r: "store_recommendations k run verified items n = Some (recs, dr)"
        and dr: "dropped = filter (\<lambda>e. e \<notin> verified) (strings_in xs) @ dr"
        using Cons.prems d xs by (auto simp: heading_of_def Let_def)
      have "supported k verified (item # items) = supported k verified items"
        using True by (simp add: supported_def titled cites filter_nonempty)
      then show ?thesis using Cons.IH [OF r] dr by (simp add: titled cites)
    next
      case False
      then obtain rs dr where r: "store_recommendations k run verified items (Suc n) = Some (rs, dr)"
        and recs: "recs = \<lparr>rc_run_id = run, rc_ordinal = n, rc_title = take 300 (heading_of k d),
             rc_rationale = strip (text_or_empty k (jget d ''rationale'')),
             rc_evidence_event_keys = filter (\<lambda>e. e \<in> verified) (strings_in xs), rc_status = Proposed, rc_decided_by = None,
             rc_decided_at = None, rc_decision_note = None\<rparr> # rs"
        and dr: "dropped = filter (\<lambda>e. e \<notin> verified) (strings_in xs) @ dr"
        using Cons.prems d xs by (auto simp: heading_of_def Let_def)
      have sup: "supported k verified (item # items) = d # supported k verified items"
        using False by (simp add: supported_def titled cites filter_nonempty)
      have "[n..<n + length recs] = n # [Suc n..<Suc n + length rs]" unfolding recs by (simp add: upt_rec)
      then show ?thesis using Cons.IH [OF r] by (simp add: sup titled cites recs dr)
    qed
  qed
qed (simp add: titled_def supported_def dicts_in_def map_filter_def)

section \<open>What an analysis leaves behind\<close>

definition new_recommendations :: "agent_run \<Rightarrow> agent_step list \<Rightarrow> recommendation list \<Rightarrow> bool" where
  "new_recommendations run steps recs \<longleftrightarrow> map rc_ordinal recs = [0..<length recs]
     \<and> list_all (\<lambda>r. rc_run_id r = ag_id run \<and> rc_status r = Proposed \<and> rc_decided_by r = None
          \<and> rc_evidence_event_keys r \<noteq> [] \<and> set (rc_evidence_event_keys r) \<subseteq> set (evidence_in steps)) recs"

lemma stored_are_new:
  assumes "store_recommendations k (ag_id run) (set (evidence_in steps)) items 0 = Some (recs, dropped)"
  shows "new_recommendations run steps recs"
proof -
  note f = store_facts [OF assms]
  have "rc_evidence_event_keys r \<noteq> [] \<and> set (rc_evidence_event_keys r) \<subseteq> set (evidence_in steps)" if "r \<in> set recs" for r
  proof -
    have "rc_evidence_event_keys r \<in> set (map rc_evidence_event_keys recs)" using that by simp
    then obtain d where "d \<in> set (supported k (set (evidence_in steps)) items)"
      "rc_evidence_event_keys r = filter (\<lambda>e. e \<in> set (evidence_in steps)) (citations_of d)"
      unfolding conjunct1 [OF conjunct2 [OF f]] by auto
    then show ?thesis by (auto simp: supported_def filter_empty_conv)
  qed
  then show ?thesis using f by (simp add: new_recommendations_def list_all_iff)
qed

lemma no_new_recommendations: "new_recommendations run steps []"
  by (simp add: new_recommendations_def)

lemma analyse_supplier_leaves:
  assumes "analyse_supplier env sdb uuid org uid pid db = (out, db')"
  shows "(out = NoActiveSupplier \<and> db' = db) \<or> (\<exists>run steps recs sp. db' = committed run steps recs sp db
    \<and> run_identity run = run_identity (new_run env uuid org uid pid db)
    \<and> (out = Analysed run \<or> (\<exists>v. out = Raised v) \<and> recs = []) \<and> (ag_status run = Completed \<or> recs = [])
    \<and> new_recommendations run steps recs \<and> (\<forall>K. tools_within env org K \<longrightarrow> set (evidence_in steps) \<subseteq> K))"
proof (cases "active_supplier sdb pid")
  case None
  then show ?thesis using assms by (simp add: analyse_supplier_def)
next
  case (Some s)
  let ?run = "new_run env uuid org uid pid db"
  let ?st0 = "\<lparr>lp_run = ?run, lp_steps = [], lp_spend = ab_spend db, lp_tools = []\<rparr>"
  obtain res st where l: "run_loop (loop_env_of env org) max_steps (opening_of s) ?st0 = (res, st)" by fastforce
  have id: "run_identity (lp_run st) = run_identity ?run"
    using run_loop_identity l by (fastforce simp: run_loop_def)
  have ev: "lp_tools st = evidence_in (lp_steps st)"
    by (rule run_loop_evidence [OF l [unfolded run_loop_def]]) simp
  have within: "\<forall>K. tools_within env org K \<longrightarrow> set (evidence_in (lp_steps st)) \<subseteq> K"
    using run_loop_within [OF l [unfolded run_loop_def]] ev by simp
  show ?thesis
  proof (cases res)
    case None
    then have "out = Raised (ae_value_error env)" "db' = committed (lp_run st) (lp_steps st) [] (lp_spend st) db"
      using assms Some l by (simp_all add: analyse_supplier_def Let_def)
    then show ?thesis using id no_new_recommendations within by blast
  next
    case answered: (Some answer)
    have c: "conclude env st answer db = (out, db')" using assms Some l answered by (simp add: analyse_supplier_def Let_def)
    consider (kept) "db' = committed (lp_run st) (lp_steps st) [] (lp_spend st) db" "out = Analysed (lp_run st) \<or> out = Raised False"
      | (failed) "db' = committed ((lp_run st)\<lparr>ag_status := Failed, ag_failure_reason := Some ''unparseable_output''\<rparr>)
            (lp_steps st) [] (lp_spend st) db"
          "out = Analysed ((lp_run st)\<lparr>ag_status := Failed, ag_failure_reason := Some ''unparseable_output''\<rparr>)"
      | (stored) analysis recs dropped findings where
          "store_recommendations (ae_codec env) (ag_id (lp_run st)) (set (lp_tools st))
             (case jget analysis ''recommendations'' of JList xs \<Rightarrow> xs | _ \<Rightarrow> []) 0 = Some (recs, dropped)"
          "db' = committed ((lp_run st)\<lparr>ag_step_count := ag_step_count (lp_run st) + 1\<rparr>)
             (lp_steps st @ [evidence_step (lp_run st) (lp_tools st) dropped findings]) recs (lp_spend st) db"
          "out = Analysed ((lp_run st)\<lparr>ag_step_count := ag_step_count (lp_run st) + 1\<rparr>)"
          "ag_status (lp_run st) = Completed"
      using c by (auto simp: conclude_def Let_def split: if_splits option.splits)
    then show ?thesis
    proof cases
      case kept
      then show ?thesis using id no_new_recommendations within by blast
    next
      case failed
      then show ?thesis using id no_new_recommendations within
        by (intro disjI2 exI [of _ "(lp_run st)\<lparr>ag_status := Failed, ag_failure_reason := Some ''unparseable_output''\<rparr>"]
            exI [of _ "lp_steps st"] exI [of _ "[]"] exI [of _ "lp_spend st"]) (simp add: run_identity_def)
    next
      case stored
      let ?run' = "(lp_run st)\<lparr>ag_step_count := ag_step_count (lp_run st) + 1\<rparr>"
      let ?steps = "lp_steps st @ [evidence_step (lp_run st) (lp_tools st) dropped findings]"
      have same: "evidence_in ?steps = evidence_in (lp_steps st)" by (simp add: evidence_step_def)
      moreover have "new_recommendations ?run' (lp_steps st) recs"
        using stored(1) ev by (intro stored_are_new [of "ae_codec env"]) simp
      ultimately have "new_recommendations ?run' ?steps recs" by (simp add: new_recommendations_def)
      then show ?thesis using stored id within same by (intro disjI2 exI [of _ ?run'] exI [of _ ?steps] exI [of _ recs] exI [of _ "lp_spend st"])
          (simp add: run_identity_def)
    qed
  qed
qed

section \<open>Histories of the endpoints\<close>

inductive agent_step :: "agent_api \<Rightarrow> agent_api \<Rightarrow> bool" where
  asks: "run_analysis configured sdb uuid u pid cl st = (reply, st') \<Longrightarrow> agent_step st st'"
| decides: "decide pid ordinal decision note u cl now st = (reply, st') \<Longrightarrow> agent_step st st'"

definition agent_inv :: "agent_api \<Rightarrow> bool" where
  "agent_inv st \<longleftrightarrow> distinct (map ag_id (ab_runs (aa_db st)))
     \<and> distinct (map rc_key (ab_recommendations (aa_db st)))
     \<and> rc_run_id ` set (ab_recommendations (aa_db st)) \<subseteq> ag_id ` set (ab_runs (aa_db st))"

lemma run_identity_id: "run_identity r = run_identity q \<Longrightarrow> ag_id r = ag_id q \<and> ag_organization_id r = ag_organization_id q"
  by (simp add: run_identity_def)

lemma rc_key_decided [simp]: "rc_key (decided s u now note r) = rc_key r"
  by (simp add: rc_key_def decided_def)

lemma decided_run [simp]: "rc_run_id (decided s u now note r) = rc_run_id r"
  by (simp add: decided_def)

text \<open>What an analysis adds to the tables.\<close>

lemma analysis_adds:
  assumes "run_analysis configured sdb uuid u pid cl st = (reply, st')" "agent_inv st"
  shows "agent_inv st' \<and> (\<exists>recs. ab_recommendations (aa_db st') = ab_recommendations (aa_db st) @ recs)"
proof -
  have same: "agent_inv st \<and> (\<exists>recs. ab_recommendations (aa_db st) = ab_recommendations (aa_db st) @ recs)"
    using assms(2) by simp
  have added: "agent_inv x \<and> (\<exists>recs. ab_recommendations (aa_db x) = ab_recommendations (aa_db st) @ recs)"
    if a: "analyse_supplier env sdb uuid org uid pid (aa_db st) = (out, db')" and x: "aa_db x = db'" for env org uid out db' x
  proof -
    consider "db' = aa_db st" | run steps recs sp where "db' = committed run steps recs sp (aa_db st)"
        "run_identity run = run_identity (new_run env uuid org uid pid (aa_db st))" "new_recommendations run steps recs"
      using analyse_supplier_leaves [OF a] by blast
    then show ?thesis
    proof cases
      case 1
      then show ?thesis using assms(2) x by (auto simp: agent_inv_def)
    next
      case 2
      have new: "ag_id run \<notin> ag_id ` set (ab_runs (aa_db st))"
        using run_identity_id [OF 2(2)] fresh_id_gt [of _ "ab_runs (aa_db st)" ag_id] by (fastforce simp: new_run_def)
      have keys: "map rc_key recs = map (Pair (ag_id run)) [0..<length recs]"
      proof -
        have "list_all (\<lambda>r. rc_run_id r = ag_id run) recs" using 2(3) by (auto simp: new_recommendations_def list_all_iff)
        then have "map rc_key recs = map (Pair (ag_id run)) (map rc_ordinal recs)"
          by (auto simp: rc_key_def list_all_iff)
        moreover have "map rc_ordinal recs = [0..<length recs]" using 2(3) by (simp add: new_recommendations_def)
        ultimately show ?thesis by (simp only:)
      qed
      have "distinct (map rc_key recs)" unfolding keys by (simp add: distinct_map inj_on_def)
      moreover have "rc_key ` set (ab_recommendations (aa_db st)) \<inter> rc_key ` set recs = {}"
      proof -
        have a: "fst key = ag_id run" if "key \<in> rc_key ` set recs" for key
          using that 2(3) by (auto simp: new_recommendations_def list_all_iff rc_key_def)
        have b: "fst key \<in> ag_id ` set (ab_runs (aa_db st))" if "key \<in> rc_key ` set (ab_recommendations (aa_db st))" for key
          using that assms(2) by (auto simp: agent_inv_def rc_key_def)
        show ?thesis
        proof (rule equals0I)
          fix key assume "key \<in> rc_key ` set (ab_recommendations (aa_db st)) \<inter> rc_key ` set recs"
          then show False using a b new by (metis IntE)
        qed
      qed
      moreover have "rc_run_id ` set recs \<subseteq> {ag_id run}" using 2(3) by (auto simp: new_recommendations_def list_all_iff)
      ultimately show ?thesis using assms(2) x 2(1) new by (auto simp: agent_inv_def committed_def)
    qed
  qed
  have "aa_db st' = aa_db st \<or> (\<exists>env out. analyse_supplier env sdb uuid (au_organization_id u) (au_id u) pid (aa_db st) = (out, aa_db st'))"
    using assms(1) by (auto simp: run_analysis_def Let_def split: if_splits option.splits prod.splits analysis_outcome.splits)
  then show ?thesis
  proof (elim disjE exE)
    assume "aa_db st' = aa_db st"
    then show ?thesis using same by (simp add: agent_inv_def)
  next
    fix env out assume "analyse_supplier env sdb uuid (au_organization_id u) (au_id u) pid (aa_db st) = (out, aa_db st')"
    then show ?thesis by (rule added [OF _ refl])
  qed
qed

lemma decide_cases:
  assumes "decide pid ordinal decision note u cl now st = (reply, st')"
  obtains (refused) "st' = st" "\<nexists>r. reply = Decided r"
  | (stored) run r status where "admits ADMIN u" "map_of decisions decision = Some status" "run \<in> set (ab_runs (aa_db st))"
      "ag_organization_id run = au_organization_id u" "ag_public_id run = pid"
      "r \<in> set (ab_recommendations (aa_db st))" "rc_key r = (ag_id run, ordinal)" "rc_status r = Proposed"
      "reply = Decided (decided status (au_id u) now note r)"
      "ab_recommendations (aa_db st') = sql_update (\<lambda>x. rc_key x = rc_key r) (decided status (au_id u) now note) (ab_recommendations (aa_db st))"
      "ab_runs (aa_db st') = ab_runs (aa_db st)" "ab_steps (aa_db st') = ab_steps (aa_db st)"
      "length (aa_audit st') = Suc (length (aa_audit st))"
proof (cases "admits ADMIN u")
  case False
  then show ?thesis by (intro refused) (use assms in \<open>auto simp: decide_def decide_seen_def\<close>)
next
  case True
  show ?thesis
  proof (cases "map_of decisions decision")
    case None
    then show ?thesis by (intro refused) (use assms True in \<open>auto simp: decide_def decide_seen_def\<close>)
  next
    case status: (Some status)
    show ?thesis
    proof (cases "owned_run pid u (aa_db st)")
      case None
      then show ?thesis by (intro refused) (use assms True status in \<open>auto simp: decide_def decide_seen_def\<close>)
    next
      case run: (Some run)
      show ?thesis
      proof (cases "row_of rc_key (ab_recommendations (aa_db st)) (ag_id run, ordinal)")
        case None
        then show ?thesis by (intro refused) (use assms True status run in \<open>auto simp: decide_def decide_seen_def\<close>)
      next
        case row: (Some r)
        show ?thesis
        proof (cases "rc_status r = Proposed")
          case False
          then show ?thesis by (intro refused) (use assms True status run row in \<open>auto simp: decide_def decide_seen_def\<close>)
        next
          case open_: True
          show ?thesis
            by (rule stored [of status run r])
              (use assms True status run row open_ row_of_SomeD [OF row] in
                \<open>auto simp: decide_def decide_seen_def owned_run_def dest: find_Some_in\<close>)
        qed
      qed
    qed
  qed
qed

lemma agent_step_inv: "agent_step st st' \<Longrightarrow> agent_inv st \<Longrightarrow> agent_inv st'"
proof (induction rule: agent_step.induct)
  case (asks configured sdb uuid u pid cl st reply st')
  then show ?case using analysis_adds by blast
next
  case (decides pid ordinal decision memo u cl now st reply st')
  show ?case
  proof (rule decide_cases [OF decides.hyps])
    assume "st' = st"
    then show ?thesis using decides.prems by simp
  next
    fix run r status
    assume d: "ab_recommendations (aa_db st') = sql_update (\<lambda>x. rc_key x = rc_key r) (decided status (au_id u) now memo) (ab_recommendations (aa_db st))"
      "ab_runs (aa_db st') = ab_runs (aa_db st)"
    have "map rc_key (ab_recommendations (aa_db st')) = map rc_key (ab_recommendations (aa_db st))"
      "rc_run_id ` set (ab_recommendations (aa_db st')) = rc_run_id ` set (ab_recommendations (aa_db st))"
      unfolding d by (simp_all add: keys_update image_update)
    then show ?thesis using decides.prems d(2) by (simp add: agent_inv_def)
  qed
qed

lemma decided_stays:
  assumes "agent_step st st'" "agent_inv st" "r \<in> set (ab_recommendations (aa_db st))" "rc_status r \<noteq> Proposed"
  shows "r \<in> set (ab_recommendations (aa_db st'))"
  using assms
proof (induction rule: agent_step.induct)
  case (asks configured sdb uuid u pid cl st reply st')
  then show ?case using analysis_adds [OF asks.hyps asks.prems(1)] by auto
next
  case (decides pid ordinal decision memo u cl now st reply st')
  show ?case
  proof (rule decide_cases [OF decides.hyps])
    assume "st' = st"
    then show ?thesis using decides.prems by simp
  next
    fix run q status
    assume d: "ab_recommendations (aa_db st') = sql_update (\<lambda>x. rc_key x = rc_key q) (decided status (au_id u) now memo) (ab_recommendations (aa_db st))"
      and q: "q \<in> set (ab_recommendations (aa_db st))" "rc_status q = Proposed"
    have "rc_key r \<noteq> rc_key q"
    proof
      assume "rc_key r = rc_key q"
      moreover have "inj_on rc_key (set (ab_recommendations (aa_db st)))" using decides.prems(1) by (simp add: agent_inv_def distinct_map)
      ultimately have "r = q" using decides.prems(2) q(1) by (simp add: inj_on_def)
      then show False using decides.prems(3) q(2) by simp
    qed
    then show ?thesis using decides.prems(2) unfolding d sql_update_def by force
  qed
qed

lemma decided_stays_ever:
  assumes "agent_step\<^sup>*\<^sup>* st st'" "agent_inv st" "r \<in> set (ab_recommendations (aa_db st))" "rc_status r \<noteq> Proposed"
  shows "agent_inv st' \<and> r \<in> set (ab_recommendations (aa_db st'))"
  using assms
proof (induction rule: rtranclp_induct)
  case (step y z)
  then show ?case using agent_step_inv decided_stays by blast
qed simp

end
