(* ===== verification/AgentProperties.thy ===== *)
theory AgentProperties
  imports AgentApi Search
begin

text \<open>
  What the agent and the search promise: a loop that ends and pays for itself, recommendations that
  rest on stored evidence, tools that cannot be talked into another tenant, decisions that stay,
  and results that say where they come from.
\<close>

section \<open>The loop\<close>

text \<open>C28: The loop is bounded and leaves a readable run: it asks the model at most once per allowed step
  and reaches no tool outside the catalogue (no other reply of the model and no other behaviour of an
  unknown tool changes anything), the transcript is numbered without gaps and every call in it is
  followed by its result, and the run ends as completed, or as failed for a recorded reason with an
  empty answer, unless the request to the model raised.\<close>

theorem agent_loop_bounded:
  assumes "same_tools env env'" "\<forall>i < steps. le_respond env i = le_respond env' i"
    and "lp_steps st = []" "ag_step_count (lp_run st) = 0" "run_loop env steps opening st = (res, st')"
  shows "run_loop env' steps opening st = (res, st') \<and> transcript_ok st'
    \<and> ends_well res (ag_status (lp_run st)) (lp_run st')"
proof -
  have "run_loop_from env' steps 0 [UserMessage opening] 0 st = run_loop_from env steps 0 [UserMessage opening] 0 st"
    by (rule run_loop_same [symmetric]) (use assms(1,2) in simp_all)
  moreover have "open_transcript 0 st" using assms(3,4) by (simp add: open_transcript_def)
  ultimately show ?thesis using assms(5) run_loop_from_ok unfolding run_loop_def by metis
qed

text \<open>An analysis can pass the daily cap by the tokens of one turn at most: however other workers
  spend in between, the tokens a loop adds to its run are at most what was left of the cap when it
  started, less the estimate of a turn, plus one turn; and all of them are in the spend table.\<close>

theorem agent_spending_bounded:
  assumes "\<forall>i. le_today env i = day" "\<forall>i sp. spent None day sp \<le> spent None day (le_others env i sp)"
    and "\<forall>i conv t. le_respond env i conv = Some t \<longrightarrow> 0 \<le> turn_tokens t \<and> turn_tokens t \<le> most"
    and "run_loop env steps opening st = (res, st')"
  shows "run_tokens (lp_run st) \<le> run_tokens (lp_run st')
    \<and> run_tokens (lp_run st') - run_tokens (lp_run st)
        \<le> max 0 (le_cap env - estimated_tokens_per_turn - spent None day (lp_spend st) + most)
    \<and> run_tokens (lp_run st') - run_tokens (lp_run st) \<le> spent None day (lp_spend st') - spent None day (lp_spend st)"
  using run_loop_tokens [of env day most] assms unfolding run_loop_def by blast

text \<open>C29: Spend is never lost and never refused wrongly: after any history of workers, with checks made
  against tables however old, the row of a tenant and day holds what it held before plus exactly the
  accepted amounts: of the requests those that fitted what was left in the table the check read, and what is
  recorded as overrun; a spend checked against
  the current row is refused exactly when it is more than what is left of the cap, and otherwise adds its
  amount to that row and to no other, which then is within the cap, or no higher than it was above the
  cap already.\<close>

theorem spending_exact:
  "spent who on (foldl (spend_step cap) t es) = spent who on t + sum_list (map (accepted cap who on) es)
    \<and> (consume cap tenant amount calls day now_spent = None \<longleftrightarrow> max 0 (cap - spent tenant day now_spent) < amount)
    \<and> (case consume cap tenant amount calls day now_spent of None \<Rightarrow> True
        | Some t' \<Rightarrow> spent who on t' = spent who on now_spent + (if (bucket who, on) = (bucket tenant, day) then amount else 0)
            \<and> spent tenant day t' \<le> max cap (spent tenant day now_spent))"
  by (auto simp: spent_history consume_def consume_seen_def within_budget_iff)

text \<open>A scripted model: it lists the risk events of a supplier, then recommends, citing one of them and
  one it made up.\<close>

definition demo_answer :: string where
  "demo_answer = json_text (JObject [(''findings'', JList [JStr ''Port strike'']),
     (''recommendations'', JList [JObject [(''title'', JStr ''Qualify a second source''), (''rationale'', JStr ''It is exposed.''),
        (''evidence_event_keys'', JList [JStr ''k1'', JStr ''k9''])]])])"

definition demo_respond :: "nat \<Rightarrow> message list \<Rightarrow> agent_turn option" where
  "demo_respond i conv = Some (if i = 0
     then \<lparr>at_text = None, at_tool_calls = [\<lparr>tc_call_id = ''c1'', tc_name = ''list_risk_events'',
            tc_arguments = [(''supplier_public_id'', JStr ''s1''), (''organization_id'', JInt 7)]\<rparr>],
            at_prompt_tokens = 100, at_completion_tokens = 20\<rparr>
     else \<lparr>at_text = Some demo_answer, at_tool_calls = [], at_prompt_tokens = 200, at_completion_tokens = 30\<rparr>)"

definition demo_tools :: tools_env where
  "demo_tools = \<lparr>te_suppliers = \<lparr>suppliers = [\<lparr>s_id = 1, s_public_id = ''s1'', s_canonical_name = ''Bosch'',
       s_normalized_name = ''bosch'', s_country = Some ''DE'', s_lei = None, s_is_active = True\<rparr>], aliases = [], mentions = []\<rparr>,
     te_events = [\<lparr>re_id = 1, re_event_key = ''k1'', re_processed_article_id = 1, re_risk_type = ''strike'', re_severity = ''high'',
       re_confidence = 1, re_affected_suppliers = [''Bosch''], re_affected_supplier_ids = [''s1''], re_affected_locations = [],
       re_affected_categories = [], re_evidence_snippet = ''Dock workers walk out'', re_recommendation = [], re_source_name = ''dpa'',
       re_source_url = None, re_published_at = 0, re_status = ''active''\<rparr>],
     te_corpus = \<lparr>co_processed = [], co_raw = []\<rparr>,
     te_backend = \<lparr>sb_full_text = None, sb_nearest = (\<lambda>_ _ _ _ _. None)\<rparr>, te_provider = None, te_now = 1000,
     te_round = (\<lambda>_ _. ''1.0''), te_float_window = (\<lambda>_ _. None)\<rparr>"

definition demo_analysis_env :: analysis_env where
  "demo_analysis_env = \<lparr>ae_codec = plain_codec, ae_model = ''m'', ae_respond = demo_respond, ae_tools = tool_names,
     ae_dispatch = dispatch demo_tools, ae_cap = 10000, ae_today = (\<lambda>_. 5), ae_others = (\<lambda>_ sp. sp),
     ae_started = 1000, ae_finished = 2000, ae_value_error = False\<rparr>"

definition demo_agent_db :: agent_db where
  "demo_agent_db = \<lparr>ab_runs = [], ab_steps = [], ab_recommendations = [], ab_spend = []\<rparr>"

definition demo_analysis :: "analysis_outcome \<times> agent_db" where
  "demo_analysis = analyse_supplier demo_analysis_env (te_suppliers demo_tools) ''r1'' 1 7 ''s1'' demo_agent_db"

definition demo_loop_start :: "string list loop_state" where
  "demo_loop_start = \<lparr>lp_run = new_run demo_analysis_env ''r1'' 1 7 ''s1'' demo_agent_db, lp_steps = [], lp_spend = [], lp_tools = []\<rparr>"

lemma agent_loop_bounded_witness:
  "transcript_ok (snd (run_loop (loop_env_of demo_analysis_env 1) 8 ''Assess'' demo_loop_start))"
proof -
  let ?env = "loop_env_of demo_analysis_env 1"
  let ?other = "?env\<lparr>le_respond := \<lambda>i. if i < 8 then demo_respond i else (\<lambda>_. None),
    le_dispatch := \<lambda>name. if name \<in> set tool_names then bound_dispatch demo_analysis_env 1 name else (\<lambda>_ d. (None, d))\<rparr>"
  have a: "same_tools ?env ?other" by (simp add: same_tools_def loop_env_of_def demo_analysis_env_def)
  have b: "\<forall>i < 8. le_respond ?env i = le_respond ?other i" by (simp add: loop_env_of_def demo_analysis_env_def)
  have c: "lp_steps demo_loop_start = []" "ag_step_count (lp_run demo_loop_start) = 0"
    by (simp_all add: demo_loop_start_def new_run_def)
  show ?thesis using agent_loop_bounded [OF a b c prod.collapse [symmetric], of "''Assess''"] by blast
qed

lemma agent_spending_bounded_witness:
  "run_tokens (lp_run (snd (run_loop (loop_env_of demo_analysis_env 1) 8 ''Assess'' demo_loop_start))) \<le> 6230"
proof -
  let ?env = "loop_env_of demo_analysis_env 1"
  have a: "\<forall>i. le_today ?env i = 5" "\<forall>i sp. spent None 5 sp \<le> spent None 5 (le_others ?env i sp)"
    by (simp_all add: loop_env_of_def demo_analysis_env_def)
  have b: "\<forall>i conv t. le_respond ?env i conv = Some t \<longrightarrow> 0 \<le> turn_tokens t \<and> turn_tokens t \<le> 230"
    by (auto simp: loop_env_of_def demo_analysis_env_def demo_respond_def turn_tokens_def)
  have "run_tokens (lp_run (snd (run_loop ?env 8 ''Assess'' demo_loop_start))) - run_tokens (lp_run demo_loop_start)
      \<le> max 0 (le_cap ?env - estimated_tokens_per_turn - spent None 5 (lp_spend demo_loop_start) + 230)"
    using agent_spending_bounded [OF a b prod.collapse [symmetric]] by blast
  moreover have "le_cap ?env = 10000" "spent None 5 (lp_spend demo_loop_start) = 0" "run_tokens (lp_run demo_loop_start) = 0"
    by (simp_all add: loop_env_of_def demo_analysis_env_def demo_loop_start_def new_run_def spent_def spend_row_def tokens_of_def
        run_tokens_def row_of_Nil)
  ultimately show ?thesis by (simp add: estimated_tokens_per_turn_def)
qed

section \<open>Evidence\<close>

text \<open>C30: No recommendation rests on an invented citation: every recommendation an analysis stores is a
  proposal, cites something, and cites only keys that stand in a tool result of the stored transcript
  and belong to a stored risk event; an analysis that did not complete stores none.\<close>

theorem citations_are_evidence:
  assumes "ae_dispatch env = dispatch tools" "analyse_supplier env sdb uuid org uid pid db = (out, db')"
  shows "\<exists>steps recs. ab_steps db' = ab_steps db @ steps \<and> ab_recommendations db' = ab_recommendations db @ recs
    \<and> list_all (\<lambda>r. rc_status r = Proposed \<and> rc_evidence_event_keys r \<noteq> []
         \<and> set (rc_evidence_event_keys r) \<subseteq> set (evidence_in steps) \<inter> re_event_key ` set (te_events tools)) recs
    \<and> (recs = [] \<or> (\<exists>run. out = Analysed run \<and> ag_status run = Completed \<and> ag_organization_id run = org))"
proof -
  have w: "tools_within env org (re_event_key ` set (te_events tools))"
    using dispatch_keys assms(1) by (auto simp: tools_within_def)
  consider "db' = db" | run steps recs sp where "db' = committed run steps recs sp db"
    "run_identity run = run_identity (new_run env uuid org uid pid db)"
    "out = Analysed run \<or> (\<exists>v. out = Raised v) \<and> recs = []" "ag_status run = Completed \<or> recs = []"
    "new_recommendations run steps recs" "set (evidence_in steps) \<subseteq> re_event_key ` set (te_events tools)"
    using analyse_supplier_leaves [OF assms(2)] w by blast
  then show ?thesis
  proof cases
    case 1
    then show ?thesis by (intro exI [of _ "[]"]) simp
  next
    case 2
    have "ag_organization_id run = org" using run_identity_id [OF 2(2)] by (simp add: new_run_def)
    then show ?thesis using 2(1,3-6)
      by (intro exI [of _ steps] exI [of _ recs]) (auto simp: committed_def new_recommendations_def list_all_iff)
  qed
qed

lemma demo_analysis_stores:
  "map rc_evidence_event_keys (ab_recommendations (snd demo_analysis)) = [[''k1'']]"
  by code_simp

lemma citations_are_evidence_witness:
  "\<exists>steps recs. ab_steps (snd demo_analysis) = steps \<and> ab_recommendations (snd demo_analysis) = recs
    \<and> list_all (\<lambda>r. set (rc_evidence_event_keys r) \<subseteq> set (evidence_in steps)) recs \<and> length recs = 1"
proof -
  have "ae_dispatch demo_analysis_env = dispatch demo_tools" by (simp add: demo_analysis_env_def)
  from citations_are_evidence [OF this prod.collapse [symmetric], of "te_suppliers demo_tools" "''r1''" 1 7 "''s1''" demo_agent_db]
  have "list_all (\<lambda>r. set (rc_evidence_event_keys r) \<subseteq> set (evidence_in (ab_steps (snd demo_analysis)))) (ab_recommendations (snd demo_analysis))"
    by (auto simp: demo_analysis_def demo_agent_db_def list_all_iff)
  moreover have "length (ab_recommendations (snd demo_analysis)) = 1"
    using arg_cong [OF demo_analysis_stores, of length] by simp
  ultimately show ?thesis by blast
qed

text \<open>The model cannot choose whose data it reads: no argument called \<^verbatim>\<open>organization_id\<close> reaches a
  tool, whatever the arguments and whatever organization is bound; names outside the catalogue have
  no tool; and the event keys of a result are keys of stored risk events.\<close>

theorem tools_confined:
  "dispatch env org name args = dispatch env org' name (filter (\<lambda>(k, v). k \<noteq> ''organization_id'') args)
    \<and> (name \<in> set tool_names \<or> dispatch env org name args = None)
    \<and> set (case dispatch env org name args of None \<Rightarrow> [] | Some r \<Rightarrow> event_keys_in r) \<subseteq> re_event_key ` set (te_events env)"
proof -
  have "handler t env org a = handler t env org' a" for t a by (cases t) simp_all
  moreover have "filter (\<lambda>(k, v). k \<in> set (declared t)) (filter (\<lambda>(k, v). k \<noteq> ''organization_id'') args)
      = filter (\<lambda>(k, v). k \<in> set (declared t)) args" for t
    using no_organization_argument [of t] by (auto intro!: filter_cong simp: case_prod_beta')
  ultimately have "dispatch env org name args = dispatch env org' name (filter (\<lambda>(k, v). k \<noteq> ''organization_id'') args)"
    unfolding dispatch_def by (auto split: option.split)
  moreover have "name \<in> set tool_names \<or> dispatch env org name args = None"
    by (auto simp: dispatch_def tool_names_def dest: map_of_SomeD intro: rev_image_eqI split: option.split)
  moreover have "set (case dispatch env org name args of None \<Rightarrow> [] | Some r \<Rightarrow> event_keys_in r) \<subseteq> re_event_key ` set (te_events env)"
    by (cases "dispatch env org name args") (simp_all add: dispatch_keys)
  ultimately show ?thesis by (intro conjI)
qed

section \<open>Decisions\<close>

text \<open>C31: A decision about a recommendation is final and accounted for: whatever analyses and decisions
  follow, a decided recommendation stays exactly as it was decided; and who decides one is an
  administrator of the organization the run belongs to, found it undecided, is named on it, and
  leaves one line in the audit log.\<close>

theorem decisions_final:
  assumes "agent_step\<^sup>*\<^sup>* st st'" "agent_inv st" "decide pid ordinal decision memo u cl now st' = (Decided r, st'')"
  shows "(\<forall>q \<in> set (ab_recommendations (aa_db st)). rc_status q = Proposed \<or> q \<in> set (ab_recommendations (aa_db st'')))
    \<and> admits ADMIN u \<and> rc_status r \<in> {Approved, Rejected} \<and> rc_decided_by r = Some (au_id u)
    \<and> (\<exists>run \<in> set (ab_runs (aa_db st')). ag_public_id run = pid \<and> ag_organization_id run = au_organization_id u
         \<and> ag_id run = rc_run_id r)
    \<and> (\<exists>q \<in> set (ab_recommendations (aa_db st')). rc_key q = rc_key r \<and> rc_status q = Proposed)
    \<and> r \<in> set (ab_recommendations (aa_db st'')) \<and> length (aa_audit st'') = Suc (length (aa_audit st'))"
proof -
  have reach: "agent_step\<^sup>*\<^sup>* st st''" using assms(1) agent_step.decides [OF assms(3)] by (rule rtranclp.rtrancl_into_rtrancl)
  have one: "\<forall>q \<in> set (ab_recommendations (aa_db st)). rc_status q = Proposed \<or> q \<in> set (ab_recommendations (aa_db st''))"
    using decided_stays_ever [OF reach assms(2)] by blast
  show ?thesis
  proof (rule decide_cases [OF assms(3)])
    assume "\<nexists>q. Decided r = Decided q"
    then show ?thesis by simp
  next
    fix run q status
    assume d: "admits ADMIN u" "map_of decisions decision = Some status" "run \<in> set (ab_runs (aa_db st'))"
      "ag_organization_id run = au_organization_id u" "ag_public_id run = pid"
      "q \<in> set (ab_recommendations (aa_db st'))" "rc_key q = (ag_id run, ordinal)" "rc_status q = Proposed"
      "Decided r = Decided (decided status (au_id u) now memo q)"
      "ab_recommendations (aa_db st'') = sql_update (\<lambda>x. rc_key x = rc_key q) (decided status (au_id u) now memo) (ab_recommendations (aa_db st'))"
      "length (aa_audit st'') = Suc (length (aa_audit st'))"
    have r: "r = decided status (au_id u) now memo q" using d(9) by simp
    have "r \<in> set (ab_recommendations (aa_db st''))" using d(6) unfolding d(10) r sql_update_def by force
    moreover have "status \<in> {Approved, Rejected}" using d(2) by (auto simp: decisions_def split: if_splits)
    moreover have "rc_key q = rc_key r" by (simp add: r)
    moreover have "rc_run_id r = ag_id run" using d(7) by (simp add: r rc_key_def)
    ultimately show ?thesis using one d by (auto simp: r decided_def)
  qed
qed

definition demo_admin :: authenticated_user where
  "demo_admin = \<lparr>au_id = 3, au_public_id = ''u3'', au_email = ''eva@acme.com'', au_organization_id = 1,
     au_organization_public_id = ''o1'', au_role = ADMIN\<rparr>"

definition demo_agent_api :: agent_api where
  "demo_agent_api = \<lparr>aa_db = \<lparr>ab_runs = [(new_run demo_analysis_env ''r1'' 1 7 ''s1'' demo_agent_db)\<lparr>ag_status := Completed\<rparr>],
     ab_steps = [], ab_recommendations = [\<lparr>rc_run_id = 1, rc_ordinal = 0, rc_title = ''Qualify'', rc_rationale = [],
       rc_evidence_event_keys = [''k1''], rc_status = Proposed, rc_decided_by = None, rc_decided_at = None, rc_decision_note = None\<rparr>],
     ab_spend = []\<rparr>, aa_audit = []\<rparr>"

lemma decisions_final_witness:
  "\<exists>r. fst (decide ''r1'' 0 ''approve'' ''ok'' demo_admin \<lparr>cl_ip = None, cl_user_agent = None\<rparr> 9 demo_agent_api) = Decided r
     \<and> rc_decided_by r = Some 3"
proof -
  let ?d = "decide ''r1'' 0 ''approve'' ''ok'' demo_admin \<lparr>cl_ip = None, cl_user_agent = None\<rparr> 9 demo_agent_api"
  have inv: "agent_inv demo_agent_api"
    by (simp add: agent_inv_def demo_agent_api_def new_run_def demo_agent_db_def fresh_id_def)
  have "\<exists>r. fst ?d = Decided r"
    by (simp add: decide_def decide_seen_def admits_def demo_admin_def decisions_def owned_run_def demo_agent_api_def new_run_def
        demo_agent_db_def fresh_id_def row_of_def rc_key_def)
  then obtain r where r: "?d = (Decided r, snd ?d)" by (metis prod.collapse)
  have "rc_decided_by r = Some (au_id demo_admin)" using decisions_final [OF rtranclp.rtrancl_refl inv r] by blast
  moreover have "fst ?d = Decided r" by (subst r) simp
  ultimately show ?thesis by (intro exI [of _ r]) (simp add: demo_admin_def)
qed

text \<open>Between reading a recommendation and writing the decision nothing is locked: two decisions that
  both read the proposal are both accepted, and the later one replaces the earlier.\<close>

lemma concurrent_decisions_overwrite:
  assumes "row_of rc_key (ab_recommendations (aa_db st)) (ag_id run, ordinal) = Some r" "rc_status r = Proposed"
    and "owned_run pid u (aa_db st) = Some run" "owned_run pid v (aa_db st) = Some run" "admits ADMIN u" "admits ADMIN v"
    and "decide_seen (aa_db st) pid ordinal ''approve'' [] u cl t st = (first, st1)"
    and "decide_seen (aa_db st) pid ordinal ''reject'' [] v cl t' st1 = (second, st2)"
  shows "first = Decided (decided Approved (au_id u) t [] r) \<and> second = Decided (decided Rejected (au_id v) t' [] r)
    \<and> row_of rc_key (ab_recommendations (aa_db st2)) (ag_id run, ordinal) = Some (decided Rejected (au_id v) t' [] r)"
proof -
  have key: "rc_key r = (ag_id run, ordinal)" using row_of_SomeD [OF assms(1)] by simp
  have "ab_recommendations (aa_db st1) = sql_update (\<lambda>x. rc_key x = rc_key r) (decided Approved (au_id u) t []) (ab_recommendations (aa_db st))"
    and one: "first = Decided (decided Approved (au_id u) t [] r)"
    using assms by (auto simp: decide_seen_def decisions_def)
  moreover have "ab_recommendations (aa_db st2) = sql_update (\<lambda>x. rc_key x = rc_key r) (decided Rejected (au_id v) t' []) (ab_recommendations (aa_db st1))"
    and two: "second = Decided (decided Rejected (au_id v) t' [] r)"
    using assms by (auto simp: decide_seen_def decisions_def)
  ultimately have "row_of rc_key (ab_recommendations (aa_db st2)) (ag_id run, ordinal) =
      Some (decided Rejected (au_id v) t' [] (decided Approved (au_id u) t [] r))"
    using assms(1) key by (simp add: row_of_update)
  then show ?thesis using one two by (simp add: decided_def)
qed

section \<open>Search\<close>




end
