(* ===== verification/TextMatch.thy ===== *)
theory TextMatch
  imports PyText
begin

text \<open>
  Text matching the program does with regular expressions: runs of white space replaced by one
  blank, and the search for a literal that is not part of a longer word,
  \<^verbatim>\<open>(?<![...])literal(?![...])\<close>, where \<open>p\<close> holds of the characters in the brackets.
\<close>

fun collapse_spaces :: "bool \<Rightarrow> string \<Rightarrow> string" where
  "collapse_spaces inside [] = []"
| "collapse_spaces inside (c # s) =
     (if is_space c then (if inside then collapse_spaces True s else CHR '' '' # collapse_spaces True s)
      else c # collapse_spaces False s)"

definition single_spaced :: "string \<Rightarrow> string" where
  "single_spaced s = collapse_spaces False s"

definition ends_word :: "(char \<Rightarrow> bool) \<Rightarrow> string \<Rightarrow> bool" where
  "ends_word p s = (case s of [] \<Rightarrow> True | c # t \<Rightarrow> \<not> p c)"

definition before_ok :: "(char \<Rightarrow> bool) \<Rightarrow> char option \<Rightarrow> bool" where
  "before_ok p prev = (case prev of None \<Rightarrow> True | Some c \<Rightarrow> \<not> p c)"

fun whole_after :: "(char \<Rightarrow> bool) \<Rightarrow> char option \<Rightarrow> string \<Rightarrow> string \<Rightarrow> bool" where
  "whole_after p prev term s =
     (before_ok p prev \<and> starts_with s term \<and> ends_word p (drop (length term) s)
      \<or> (case s of [] \<Rightarrow> False | c # t \<Rightarrow> whole_after p (Some c) term t))"

declare whole_after.simps [simp del]

definition mentions_whole :: "(char \<Rightarrow> bool) \<Rightarrow> string \<Rightarrow> string \<Rightarrow> bool" where
  "mentions_whole p term s = whole_after p None term s"

definition lower_alnum :: "char \<Rightarrow> bool" where
  "lower_alnum c \<longleftrightarrow> is_lower c \<or> is_digit c"

section \<open>What a match means\<close>

lemma ends_word_iff: "ends_word p s \<longleftrightarrow> s = [] \<or> \<not> p (hd s)"
  by (cases s) (simp_all add: ends_word_def)

lemma whole_after_iff: "whole_after p prev term s \<longleftrightarrow>
    (\<exists>a b. s = a @ term @ b \<and> before_ok p (if a = [] then prev else Some (last a)) \<and> ends_word p b)"
proof (induction s arbitrary: prev)
  case Nil
  show ?case by (subst whole_after.simps) (auto simp: starts_with_iff)
next
  case (Cons c s)
  have "(\<exists>a b. c # s = a @ term @ b \<and> before_ok p (if a = [] then prev else Some (last a)) \<and> ends_word p b)
      \<longleftrightarrow> before_ok p prev \<and> (\<exists>b. c # s = term @ b \<and> ends_word p b)
        \<or> (\<exists>a b. s = a @ term @ b \<and> before_ok p (Some (if a = [] then c else last a)) \<and> ends_word p b)"
    (is "?l \<longleftrightarrow> ?now \<or> ?later")
  proof
    assume ?l
    then obtain a b where ab: "c # s = a @ term @ b" "before_ok p (if a = [] then prev else Some (last a))" "ends_word p b"
      by blast
    then show "?now \<or> ?later" by (cases a) (auto split: if_splits)
  next
    assume "?now \<or> ?later"
    then show ?l
    proof
      assume ?now
      then obtain b where "c # s = [] @ term @ b" "before_ok p prev" "ends_word p b" by auto
      then show ?l by (metis (full_types))
    next
      assume ?later
      then obtain a b where "s = a @ term @ b" "before_ok p (Some (if a = [] then c else last a))" "ends_word p b" by blast
      then have "c # s = (c # a) @ term @ b" "before_ok p (if c # a = [] then prev else Some (last (c # a)))" "ends_word p b"
        by (simp_all split: if_splits)
      then show ?l by blast
    qed
  qed
  moreover have "starts_with (c # s) term \<and> ends_word p (drop (length term) (c # s))
      \<longleftrightarrow> (\<exists>b. c # s = term @ b \<and> ends_word p b)"
    by (auto simp: starts_with_iff)
  ultimately show ?case
    by (subst whole_after.simps) (auto simp: Cons.IH)
qed

lemma mentions_whole_iff: "mentions_whole p term s \<longleftrightarrow>
    (\<exists>a b. s = a @ term @ b \<and> (a = [] \<or> \<not> p (last a)) \<and> (b = [] \<or> \<not> p (hd b)))"
  unfolding mentions_whole_def whole_after_iff ends_word_iff
  by (auto simp: before_ok_def split: if_splits)

section \<open>White space\<close>

lemma collapse_word: "list_all (\<lambda>c. \<not> is_space c) w \<Longrightarrow> w \<noteq> [] \<Longrightarrow> collapse_spaces b (w @ t) = w @ collapse_spaces False t"
  by (induction w arbitrary: b) (auto split: if_splits, metis append_Nil)

lemma collapse_inside: "collapse_spaces True s = collapse_spaces False (dropWhile is_space s)"
  by (induction s) auto

lemma last_strip: "strip s = [] \<or> \<not> is_space (last (strip s))"
  by (auto simp: strip_def strip_by_def rstrip_by_def last_rev hd_dropWhile simp del: dropWhile_eq_Nil_conv)

lemma dropWhile_strip [simp]: "dropWhile is_space (strip s) = strip s"
  by (simp add: strip_def strip_by_def lstrip_by_def dropWhile_rstrip)

lemma collapse_words: "s = [] \<or> \<not> is_space (last s) \<Longrightarrow> collapse_spaces False (dropWhile is_space s) = join '' '' (words s)"
proof (induction s rule: words.induct)
  case (1 s)
  show ?case
  proof (cases "dropWhile is_space s")
    case Nil
    then show ?thesis by (simp add: words_no_word del: dropWhile_eq_Nil_conv)
  next
    case (Cons c t)
    let ?w = "takeWhile (\<lambda>x. \<not> is_space x) (c # t)" and ?r = "dropWhile (\<lambda>x. \<not> is_space x) (c # t)"
    have nc: "\<not> is_space c" using Cons by (metis dropWhile_eq_Cons_conv)
    have split: "dropWhile is_space s = ?w @ ?r" using Cons by simp
    have w: "list_all (\<lambda>c. \<not> is_space c) ?w" "?w \<noteq> []" using nc by (auto simp: list_all_iff dest: set_takeWhileD)
    have lastr: "?r = [] \<or> \<not> is_space (last ?r)"
    proof (cases "?r = []")
      case False
      then have "last (dropWhile is_space s) = last ?r" unfolding split by (rule last_appendR)
      moreover have "last (dropWhile is_space s) = last s"
        using Cons by (metis last_append list.distinct(1) takeWhile_dropWhile_id)
      moreover have "s \<noteq> []" using Cons by auto
      ultimately show ?thesis using "1.prems" by metis
    qed simp
    have rest: "words s = ?w # words ?r" by (rule words_first [OF Cons])
    have one: "collapse_spaces False (dropWhile is_space s) = ?w @ collapse_spaces False ?r"
      unfolding split by (rule collapse_word [OF w])
    show ?thesis
    proof (cases "?r")
      case Nil
      with one rest show ?thesis by simp
    next
      case (Cons d u)
      have d: "is_space d" using Cons by (metis dropWhile_eq_Cons_conv)
      have "dropWhile is_space ?r \<noteq> []"
        using lastr Cons by (metis dropWhile_eq_Nil_conv last_in_set list.distinct(1))
      then obtain e v where "dropWhile is_space ?r = e # v" by (meson list.exhaust)
      then have "words ?r \<noteq> []" by (simp only: words_first) simp
      then have "join '' '' (?w # words ?r) = ?w @ '' '' @ join '' '' (words ?r)" by (cases "words ?r") simp_all
      moreover have "collapse_spaces False ?r = '' '' @ collapse_spaces False (dropWhile is_space ?r)"
        unfolding Cons using d by (simp add: collapse_inside)
      ultimately show ?thesis using one rest "1.IH" [OF \<open>dropWhile is_space s = c # t\<close> lastr] by simp
    qed
  qed
qed

lemma single_spaced_words: "single_spaced (strip s) = join '' '' (words (strip s))"
  using collapse_words [OF last_strip, of s] by (simp add: single_spaced_def)

lemma words_single_spaced [simp]: "words (single_spaced (strip s)) = words (strip s)"
  unfolding single_spaced_words by (rule words_join, rule words_are_words)

lemma dropWhile_id: "s = [] \<or> \<not> p (hd s) \<Longrightarrow> dropWhile p s = s"
  by (cases s) auto

lemma strip_join_words: "list_all (\<lambda>w. w \<noteq> [] \<and> list_all (\<lambda>c. \<not> is_space c) w) ws \<Longrightarrow> strip (join '' '' ws) = join '' '' ws"
proof -
  assume ok: "list_all (\<lambda>w. w \<noteq> [] \<and> list_all (\<lambda>c. \<not> is_space c) w) ws"
  have "join '' '' ws = [] \<or> \<not> is_space (hd (join '' '' ws)) \<and> \<not> is_space (last (join '' '' ws))"
    using ok
  proof (induction "'' ''" ws rule: join.induct)
    case (2 w)
    then show ?case by (auto simp: list_all_iff)
  next
    case (3 w v ws)
    then have "join '' '' (v # ws) \<noteq> []" by (simp add: join_Nil_iff list_all_iff)
    with 3 show ?case by (auto simp: list_all_iff hd_append)
  qed simp
  then have "dropWhile is_space (join '' '' ws) = join '' '' ws" "dropWhile is_space (rev (join '' '' ws)) = rev (join '' '' ws)"
    by (auto intro!: dropWhile_id simp: hd_rev)
  then show ?thesis by (simp only: strip_def strip_by_def lstrip_by_def rstrip_by_def rev_rev_ident)
qed

lemma strip_single_spaced [simp]: "strip (single_spaced (strip s)) = single_spaced (strip s)"
  unfolding single_spaced_words by (rule strip_join_words, rule words_are_words)

lemma single_spaced_idem: "single_spaced (strip (single_spaced (strip s))) = single_spaced (strip s)"
  by (subst single_spaced_words) (simp, simp add: single_spaced_words)

lemma collapse_lower: "collapse_spaces b (lower s) = lower (collapse_spaces b s)"
  by (induction s arbitrary: b) (simp_all add: lower_def, simp add: to_lower_def is_upper_nat)

lemma single_spaced_lower: "single_spaced (lower s) = lower (single_spaced s)"
  by (simp add: single_spaced_def collapse_lower)

end
