(* ===== verification/Categories.thy ===== *)
theory Categories
  imports TextMatch
begin

text \<open>
  \<^verbatim>\<open>personalization/categories.py\<close>: the article taxonomy. The keyword dictionary keeps its insertion
  order, since \<^verbatim>\<open>max\<close> returns the first of several best categories.
\<close>

definition canonical_categories :: "string list" where
  "canonical_categories = [
     ''automotive'', ''electronics'', ''chemicals'', ''raw_materials'', ''metals_mining'',
     ''energy'', ''manufacturing'', ''logistics'', ''packaging'', ''construction'',
     ''food_agriculture'', ''pharma_healthcare'', ''aerospace_defense'', ''retail_consumer'',
     ''technology'', ''finance'', ''labor'', ''geopolitical'', ''sustainability'', ''regulatory'',
     ''general'']"

definition category_aliases :: "(string \<times> string) list" where
  "category_aliases = [
     (''auto'', ''automotive''), (''automobile'', ''automotive''),
     (''automobiles'', ''automotive''), (''car'', ''automotive''), (''cars'', ''automotive''),
     (''ev'', ''automotive''), (''evs'', ''automotive''), (''vehicle'', ''automotive''),
     (''vehicles'', ''automotive''), (''chip'', ''electronics''), (''chips'', ''electronics''),
     (''electronic'', ''electronics''), (''semiconductor'', ''electronics''),
     (''semiconductors'', ''electronics''), (''tech'', ''technology''),
     (''software'', ''technology''), (''saas'', ''technology''), (''cloud'', ''technology''),
     (''artificial intelligence'', ''technology''), (''ai'', ''technology''),
     (''chemical'', ''chemicals''), (''commodity'', ''raw_materials''),
     (''commodities'', ''raw_materials''), (''raw material'', ''raw_materials''),
     (''raw materials'', ''raw_materials''), (''critical material'', ''raw_materials''),
     (''critical materials'', ''raw_materials''), (''metal'', ''metals_mining''),
     (''metals'', ''metals_mining''), (''mining'', ''metals_mining''),
     (''critical mineral'', ''metals_mining''), (''critical minerals'', ''metals_mining''),
     (''lithium'', ''metals_mining''), (''copper'', ''metals_mining''),
     (''steel'', ''metals_mining''), (''freight'', ''logistics''), (''shipping'', ''logistics''),
     (''supply chain'', ''logistics''), (''supply_chain'', ''logistics''),
     (''transport'', ''logistics''), (''transportation'', ''logistics''),
     (''factory'', ''manufacturing''), (''factories'', ''manufacturing''),
     (''industrial'', ''manufacturing''), (''industry'', ''manufacturing''),
     (''pack'', ''packaging''), (''packaging'', ''packaging''), (''container'', ''packaging''),
     (''containers'', ''packaging''), (''building'', ''construction''),
     (''construction'', ''construction''), (''infrastructure'', ''construction''),
     (''agriculture'', ''food_agriculture''), (''agri'', ''food_agriculture''),
     (''food'', ''food_agriculture''), (''farming'', ''food_agriculture''),
     (''crop'', ''food_agriculture''), (''crops'', ''food_agriculture''),
     (''pharma'', ''pharma_healthcare''), (''pharmaceutical'', ''pharma_healthcare''),
     (''pharmaceuticals'', ''pharma_healthcare''), (''healthcare'', ''pharma_healthcare''),
     (''medical'', ''pharma_healthcare''), (''aerospace'', ''aerospace_defense''),
     (''defence'', ''aerospace_defense''), (''defense'', ''aerospace_defense''),
     (''consumer'', ''retail_consumer''), (''retail'', ''retail_consumer''),
     (''finance'', ''finance''), (''financial'', ''finance''), (''currency'', ''finance''),
     (''fx'', ''finance''), (''labor'', ''labor''), (''labour'', ''labor''),
     (''workforce'', ''labor''), (''geopolitical'', ''geopolitical''),
     (''geopolitics'', ''geopolitical''), (''war'', ''geopolitical''),
     (''conflict'', ''geopolitical''), (''sustainability'', ''sustainability''),
     (''climate'', ''sustainability''), (''emissions'', ''sustainability''),
     (''esg'', ''sustainability''), (''compliance'', ''regulatory''), (''legal'', ''regulatory''),
     (''regulation'', ''regulatory''), (''regulations'', ''regulatory''), (''oil'', ''energy''),
     (''gas'', ''energy''), (''power'', ''energy''), (''renewable'', ''energy''),
     (''renewables'', ''energy''), (''utility'', ''energy''), (''utilities'', ''energy'')]"

definition category_keywords :: "(string \<times> string list) list" where
  "category_keywords = [
     (''automotive'', [''automotive'', ''auto'', ''automobile'', ''car'', ''cars'', ''ev'', ''fleet'',
        ''mobility'', ''vehicle'', ''vehicles'']),
     (''electronics'', [''chip'', ''chips'', ''electronics'', ''hardware'', ''memory'', ''semiconductor'',
        ''semiconductors'']),
     (''technology'', [''ai'', ''artificial'', ''cloud'', ''cybersecurity'', ''data'', ''digital'', ''saas'',
        ''software'', ''tech'', ''technology'']),
     (''chemicals'', [''chemical'', ''chemicals'', ''fertilizer'', ''plastics'', ''polymer'', ''resin'']),
     (''raw_materials'', [''commodity'', ''commodities'', ''material'', ''materials'', ''raw'', ''shortage'']),
     (''metals_mining'', [''aluminum'', ''copper'', ''critical'', ''lithium'', ''metal'', ''metals'', ''mineral'',
        ''minerals'', ''mining'', ''nickel'', ''rare'', ''steel'']),
     (''energy'', [''battery'', ''electricity'', ''energy'', ''gas'', ''oil'', ''power'', ''renewable'',
        ''renewables'', ''solar'', ''utility'', ''wind'']),
     (''manufacturing'', [''factory'', ''factories'', ''industrial'', ''industry'', ''manufacturing'', ''plant'',
        ''production'']),
     (''logistics'', [''cargo'', ''freight'', ''logistics'', ''port'', ''shipping'', ''supply'', ''transport'',
        ''transportation'', ''warehouse'']),
     (''packaging'', [''bottle'', ''box'', ''container'', ''containers'', ''pack'', ''packaging'', ''paper'',
        ''pallet'']),
     (''construction'', [''building'', ''cement'', ''construction'', ''infrastructure'', ''lumber'', ''project'']),
     (''food_agriculture'', [''agriculture'', ''crop'', ''crops'', ''farm'', ''farming'', ''food'', ''grain'', ''wheat'']),
     (''pharma_healthcare'', [''drug'', ''healthcare'', ''medical'', ''medicine'', ''pharma'', ''pharmaceutical'',
        ''pharmaceuticals'']),
     (''aerospace_defense'', [''aerospace'', ''aircraft'', ''aviation'', ''defence'', ''defense'', ''military'']),
     (''retail_consumer'', [''consumer'', ''demand'', ''retail'', ''store'', ''stores'']),
     (''finance'', [''currency'', ''finance'', ''financial'', ''fx'', ''inflation'', ''rate'', ''rates'']),
     (''labor'', [''labor'', ''labour'', ''strike'', ''union'', ''wage'', ''workforce'']),
     (''geopolitical'', [''conflict'', ''geopolitical'', ''geopolitics'', ''military'', ''sanctions'', ''war'']),
     (''sustainability'', [''carbon'', ''climate'', ''emissions'', ''esg'', ''sustainability'', ''sustainable'']),
     (''regulatory'', [''compliance'', ''law'', ''legal'', ''policy'', ''regulation'', ''regulations'',
        ''regulatory'', ''rules'', ''sanctions'', ''tariff'', ''trade''])]"

definition normalize_category_key :: "string \<Rightarrow> string" where
  "normalize_category_key v = join '' '' (words (replace_char (CHR ''_'') (CHR '' '')
     (replace_char (CHR ''-'') (CHR '' '') (lower (strip v)))))"

text \<open>\<^verbatim>\<open>len(tokens & keywords)\<close>, and \<^verbatim>\<open>max(scores.items(), key=lambda item: item[1])\<close>.\<close>

definition keyword_score :: "string list \<Rightarrow> string list \<Rightarrow> nat" where
  "keyword_score toks keywords = length (filter (\<lambda>t. t \<in> set keywords) (remdups toks))"

fun best_score :: "('k \<times> nat) \<Rightarrow> ('k \<times> nat) list \<Rightarrow> 'k \<times> nat" where
  "best_score best [] = best"
| "best_score best (x # xs) = best_score (if snd best < snd x then x else best) xs"

definition canonical_category :: "string \<Rightarrow> string" where
  "canonical_category v = (let key = normalize_category_key v in
     if key \<in> set canonical_categories then key
     else case map_of category_aliases key of Some c \<Rightarrow> c
     | None \<Rightarrow> (let scores = map (\<lambda>(c, ks). (c, keyword_score (words key) ks)) category_keywords;
                    best = best_score (hd scores) (tl scores)
                in if 0 < snd best then fst best else key))"

definition canonical_category_list :: "string list \<Rightarrow> string list" where
  "canonical_category_list values = foldl (\<lambda>xs v. let c = canonical_category v in
     if c \<noteq> [] \<and> c \<notin> set xs then xs @ [c] else xs) [] values"

end
