(* ===== verification/Preferences.thy ===== *)
theory Preferences
  imports SupplierRegistry Categories Articles
begin

text \<open>
  \<^verbatim>\<open>models/preferences.py\<close> and \<^verbatim>\<open>personalization/preference_manager.py\<close>: what a user wants to see,
  the feed made of it, and the saving of preferences. A field of an update that was not given is
  \<open>None\<close>.
\<close>

record user_preference =
  up_user_id :: string
  up_preferred_categories :: "string list"
  up_preferred_suppliers :: "string list"
  up_preferred_regions :: "string list"
  up_preferred_signals :: "string list"
  up_excluded_categories :: "string list"
  up_excluded_suppliers :: "string list"
  up_excluded_regions :: "string list"
  up_excluded_signals :: "string list"
  up_excluded_topics :: "string list"
  up_preferred_supplier_ids :: "string list"
  up_excluded_supplier_ids :: "string list"
  up_onboarding_completed :: bool
  up_platform_language :: string

record match_reasons =
  mr_category :: rat
  mr_supplier :: rat
  mr_region :: rat
  mr_signal :: rat

record feed_entry =
  uf_user_id :: string
  uf_processed_article_id :: nat
  uf_top_level_category :: string
  uf_rank_score :: rat
  uf_match_reasons :: match_reasons
  uf_related_sourcing_event_ids :: "nat list"
  uf_surfaced_at :: datetime
  uf_is_read :: bool
  uf_is_hidden :: bool

record feed_db =
  fd_preferences :: "user_preference list"
  fd_feed :: "feed_entry list"

text \<open>A preference as its constructor leaves it when only the user is given.\<close>

definition new_preference :: "string \<Rightarrow> user_preference" where
  "new_preference uid = \<lparr>up_user_id = uid, up_preferred_categories = [], up_preferred_suppliers = [],
     up_preferred_regions = [], up_preferred_signals = [], up_excluded_categories = [],
     up_excluded_suppliers = [], up_excluded_regions = [], up_excluded_signals = [],
     up_excluded_topics = [], up_preferred_supplier_ids = [], up_excluded_supplier_ids = [],
     up_onboarding_completed = False, up_platform_language = ''en''\<rparr>"

section \<open>Saving\<close>

record preference_update =
  pu_preferred_categories :: "string list option"
  pu_preferred_suppliers :: "string list option"
  pu_preferred_regions :: "string list option"
  pu_preferred_signals :: "string list option"
  pu_excluded_categories :: "string list option"
  pu_excluded_suppliers :: "string list option"
  pu_excluded_regions :: "string list option"
  pu_excluded_signals :: "string list option"
  pu_excluded_topics :: "string list option"
  pu_platform_language :: string

definition resolve_supplier_ids :: "supplier_db \<Rightarrow> string list option \<Rightarrow> string list" where
  "resolve_supplier_ids sdb names = sort (remdups (List.map_filter
     (\<lambda>r. case rs_public_id r of Some p \<Rightarrow> (if p = [] then None else Some p) | None \<Rightarrow> None)
     (resolve_many sdb (case names of None \<Rightarrow> [] | Some ns \<Rightarrow> ns))))"

definition clean_language :: "string \<Rightarrow> string" where
  "clean_language l = (let s = lower (strip (if l = [] then ''en'' else l)) in if s = [] then ''en'' else s)"

text \<open>\<^verbatim>\<open>x or y or []\<close>, and keeping a column when no value was given.\<close>

definition list_or :: "'a list option \<Rightarrow> 'a list \<Rightarrow> 'a list" where
  "list_or x ys = (case x of None \<Rightarrow> ys | Some xs \<Rightarrow> if xs = [] then ys else xs)"

definition given :: "'a option \<Rightarrow> 'a \<Rightarrow> 'a" where
  "given x y = (case x of None \<Rightarrow> y | Some v \<Rightarrow> v)"

definition updated_preference :: "preference_update \<Rightarrow> user_preference \<Rightarrow> user_preference" where
  "updated_preference u p = (let cats = map_option canonical_category_list (pu_excluded_categories u);
       tops = map_option canonical_category_list (pu_excluded_topics u);
       excluded = (case cats of Some c \<Rightarrow> Some c | None \<Rightarrow> tops) in
     p\<lparr>up_preferred_categories := given (map_option canonical_category_list (pu_preferred_categories u)) (up_preferred_categories p),
       up_preferred_suppliers := given (pu_preferred_suppliers u) (up_preferred_suppliers p),
       up_preferred_regions := given (pu_preferred_regions u) (up_preferred_regions p),
       up_preferred_signals := given (pu_preferred_signals u) (up_preferred_signals p),
       up_excluded_categories := given excluded (up_excluded_categories p),
       up_excluded_topics := given excluded (up_excluded_topics p),
       up_excluded_suppliers := given (pu_excluded_suppliers u) (up_excluded_suppliers p),
       up_excluded_regions := given (pu_excluded_regions u) (up_excluded_regions p),
       up_excluded_signals := given (pu_excluded_signals u) (up_excluded_signals p),
       up_platform_language := clean_language (pu_platform_language u)\<rparr>)"

definition created_preference :: "string \<Rightarrow> preference_update \<Rightarrow> user_preference" where
  "created_preference uid u = (let cats = map_option canonical_category_list (pu_excluded_categories u);
       tops = map_option canonical_category_list (pu_excluded_topics u) in
     (new_preference uid)\<lparr>up_preferred_categories := list_or (map_option canonical_category_list (pu_preferred_categories u)) [],
       up_preferred_suppliers := list_or (pu_preferred_suppliers u) [],
       up_preferred_regions := list_or (pu_preferred_regions u) [],
       up_preferred_signals := list_or (pu_preferred_signals u) [],
       up_excluded_categories := list_or cats (list_or tops []),
       up_excluded_suppliers := list_or (pu_excluded_suppliers u) [],
       up_excluded_regions := list_or (pu_excluded_regions u) [],
       up_excluded_signals := list_or (pu_excluded_signals u) [],
       up_excluded_topics := list_or tops (list_or cats []),
       up_platform_language := clean_language (pu_platform_language u)\<rparr>)"

definition with_supplier_ids :: "supplier_db \<Rightarrow> user_preference \<Rightarrow> user_preference" where
  "with_supplier_ids sdb p = p\<lparr>up_preferred_supplier_ids := resolve_supplier_ids sdb (Some (up_preferred_suppliers p)),
     up_excluded_supplier_ids := resolve_supplier_ids sdb (Some (up_excluded_suppliers p))\<rparr>"

definition get_preference :: "string \<Rightarrow> feed_db \<Rightarrow> user_preference option" where
  "get_preference uid db = row_of up_user_id (fd_preferences db) uid"

definition put_preference :: "user_preference \<Rightarrow> user_preference list \<Rightarrow> user_preference list" where
  "put_preference p ps = (if row_of up_user_id ps (up_user_id p) = None then ps @ [p]
     else sql_update (\<lambda>q. up_user_id q = up_user_id p) (\<lambda>q. p) ps)"

definition create_or_update_preference ::
  "supplier_db \<Rightarrow> string \<Rightarrow> preference_update \<Rightarrow> feed_db \<Rightarrow> user_preference \<times> feed_db" where
  "create_or_update_preference sdb uid u db =
     (let p = with_supplier_ids sdb (case get_preference uid db of
            Some p \<Rightarrow> updated_preference u p | None \<Rightarrow> created_preference uid u)
      in (p, db\<lparr>fd_preferences := put_preference p (fd_preferences db),
                fd_feed := filter (\<lambda>f. uf_user_id f \<noteq> uid) (fd_feed db)\<rparr>))"

definition update_platform_language :: "string \<Rightarrow> string \<Rightarrow> feed_db \<Rightarrow> user_preference \<times> feed_db" where
  "update_platform_language uid l db =
     (let p = (case get_preference uid db of Some p \<Rightarrow> p | None \<Rightarrow> new_preference uid)\<lparr>up_platform_language := clean_language l\<rparr>
      in (p, db\<lparr>fd_preferences := put_preference p (fd_preferences db)\<rparr>))"

section \<open>Facts\<close>

lemma up_user_id_kept [simp]:
  "up_user_id (updated_preference u p) = up_user_id p" "up_user_id (created_preference uid u) = uid"
  "up_user_id (with_supplier_ids sdb p) = up_user_id p" "up_user_id (new_preference uid) = uid"
  by (simp_all add: updated_preference_def created_preference_def with_supplier_ids_def new_preference_def Let_def)

lemma row_of_put_preference: "row_of up_user_id (put_preference p ps) uid =
    (if uid = up_user_id p then Some p else row_of up_user_id ps uid)"
proof (cases "row_of up_user_id ps (up_user_id p) = None")
  case True
  then show ?thesis by (auto simp: put_preference_def row_of_append row_of_Cons row_of_Nil split: option.split)
next
  case False
  have "row_of up_user_id (sql_update (\<lambda>q. up_user_id q = up_user_id p) (\<lambda>q. p) ps) uid =
      (if uid = up_user_id p then map_option (\<lambda>q. p) (row_of up_user_id ps uid) else row_of up_user_id ps uid)"
    by (induction ps) (auto simp: sql_update_def row_of_Cons row_of_Nil)
  then show ?thesis using False by (auto simp: put_preference_def)
qed

lemma distinct_put_preference: "distinct (map up_user_id ps) \<Longrightarrow> distinct (map up_user_id (put_preference p ps))"
proof (cases "row_of up_user_id ps (up_user_id p) = None")
  case True
  moreover assume "distinct (map up_user_id ps)"
  ultimately show ?thesis by (auto simp: put_preference_def row_of_None_iff)
next
  case False
  have "map up_user_id (sql_update (\<lambda>q. up_user_id q = up_user_id p) (\<lambda>q. p) ps) = map up_user_id ps"
    by (induction ps) (auto simp: sql_update_def)
  moreover assume "distinct (map up_user_id ps)"
  ultimately show ?thesis using False by (simp only: put_preference_def) simp
qed

end
