(* ===== verification/Taxonomy.thy ===== *)
theory Taxonomy
  imports TextMatch
begin

text \<open>
  \<^verbatim>\<open>signals/taxonomy.py\<close>: the vocabulary of signals. A Python set of terms is a list; only which
  terms it holds matters. \<open>expand_from\<close> is the loop of \<^verbatim>\<open>expand_signal_terms\<close>, its queue a list
  with the end that is popped in front; it ends because no term is expanded twice.
\<close>

section \<open>The vocabulary\<close>

definition valid_signal_tags :: "string list" where
  "valid_signal_tags = [
     ''bankruptcy'', ''capacity_change'', ''executive_change'', ''expansion'', ''labor_dispute'',
     ''m_and_a'', ''natural_disaster'', ''port_strike'', ''price_change'', ''quality_issue'',
     ''regulatory'', ''sanctions'', ''strike'', ''supplier_risk'', ''supply_disruption'', ''tariff'']"

definition canonical_signal_tag_order :: "string list" where
  "canonical_signal_tag_order = [
     ''bankruptcy'', ''m_and_a'', ''tariff'', ''sanctions'', ''strike'', ''port_strike'',
     ''labor_dispute'', ''supply_disruption'', ''supplier_risk'', ''quality_issue'', ''regulatory'',
     ''natural_disaster'', ''price_change'', ''capacity_change'', ''executive_change'', ''expansion'']"

definition priority_signal_tags :: "string list" where
  "priority_signal_tags = [
     ''bankruptcy'', ''m_and_a'', ''port_strike'', ''quality_issue'', ''sanctions'', ''strike'',
     ''supply_disruption'', ''tariff'']"

definition signal_alias_groups :: "string list list" where
  "signal_alias_groups = [
    [''bankruptcy'', ''chapter 11'', ''insolvency'', ''liquidation'', ''receivership''],
    [''m&a'', ''m_and_a'', ''acquisition'', ''deal'', ''merger'', ''merger and acquisition'',
     ''takeover''],
    [''tariff'', ''tariffs'', ''customs'', ''duties'', ''export restriction'', ''import duty'',
     ''trade barrier'', ''trade war''],
    [''sanction'', ''sanctions'', ''embargo'', ''export control'', ''restricted party'',
     ''trade restriction''],
    [''strike'', ''labor_dispute'', ''labour dispute'', ''labor dispute'', ''industrial action'',
     ''port strike'', ''port_strike'', ''walkout'', ''work stoppage''],
    [''supply chain'', ''supply_chain'', ''supply disruption'', ''supply_disruption'',
     ''supply shortage'', ''component shortage'', ''facility closure'', ''logistics delay'',
     ''logistics delays'', ''logistics disruption'', ''port closure'', ''production halt'',
     ''shortage'', ''transport disruption''],
    [''war'', ''attack'', ''conflict'', ''escalation'', ''geopolitical'', ''geopolitical risk'',
     ''hostilities'', ''military action'', ''missile'', ''shipping attack''],
    [''middle east'', ''mideast'', ''bahrain'', ''gulf'', ''hormuz'', ''iran'', ''iraq'',
     ''israel'', ''jordan'', ''kuwait'', ''lebanon'', ''oman'', ''persian gulf'', ''qatar'',
     ''red sea'', ''saudi arabia'', ''strait of hormuz'', ''suez'', ''syria'', ''uae'',
     ''united arab emirates'', ''yemen''],
    [''regulation'', ''regulatory'', ''compliance'', ''legislation'', ''mandate'', ''policy change''],
    [''quality'', ''quality issue'', ''quality_issue'', ''recall'', ''defect''],
    [''natural disaster'', ''natural_disaster'', ''earthquake'', ''flood'', ''hurricane'',
     ''typhoon'', ''wildfire''],
    [''price change'', ''price_change'', ''price increase'', ''price cut'', ''pricing''],
    [''capacity change'', ''capacity_change'', ''expansion'', ''plant closure'',
     ''production capacity'']]"

text \<open>\<^verbatim>\<open>_SIGNAL_ALIAS_LOOKUP\<close>: of two groups that share an alias the later one is found.\<close>

definition alias_group :: "string \<Rightarrow> string list" where
  "alias_group term = (case List.find (\<lambda>g. term \<in> set g) (rev signal_alias_groups) of None \<Rightarrow> [] | Some g \<Rightarrow> g)"

definition normalize_signal_term :: "string \<Rightarrow> string" where
  "normalize_signal_term v = single_spaced (lower (strip v))"

definition signal_term_variants :: "string \<Rightarrow> string list" where
  "signal_term_variants t = (if t = [] then []
     else remdups [t, replace_char (CHR '' '') (CHR ''_'') t, replace_char (CHR ''_'') (CHR '' '') t])"

section \<open>Expansion\<close>

definition alias_variants :: "string \<Rightarrow> string list" where
  "alias_variants t = concat (map signal_term_variants (alias_group t))"

definition all_variants :: "string set" where
  "all_variants = set (concat (map signal_term_variants (concat signal_alias_groups)))"

lemma alias_variants_all: "set (alias_variants t) \<subseteq> all_variants"
  by (auto simp: alias_variants_def alias_group_def all_variants_def find_Some_iff rev_nth split: option.splits
      intro: nth_mem) (metis find_Some_in in_set_conv_nth set_rev)

lemma finite_all_variants [simp]: "finite all_variants"
  by (simp add: all_variants_def)

function expand_from :: "string list \<Rightarrow> string list \<Rightarrow> string list" where
  "expand_from [] expanded = expanded"
| "expand_from (t # queue) expanded =
     (if t \<in> set expanded then expand_from queue expanded
      else expand_from (filter (\<lambda>v. v \<notin> set (t # expanded)) (alias_variants t) @ queue) (t # expanded))"
  by pat_completeness auto
termination
proof (relation "inv_image (finite_psubset <*lex*> less_than)
    (\<lambda>(q, ex). ((set q \<union> all_variants) - set ex, length q))")
  fix t :: string and queue expanded
  assume new: "\<not> t \<in> set expanded"
  let ?q = "filter (\<lambda>v. v \<notin> set (t # expanded)) (alias_variants t) @ queue"
  have "(set ?q \<union> all_variants) - set (t # expanded) \<subset> (set (t # queue) \<union> all_variants) - set expanded"
    using new alias_variants_all [of t] by auto
  then show "((?q, t # expanded), (t # queue, expanded)) \<in> inv_image (finite_psubset <*lex*> less_than)
      (\<lambda>(q, ex). ((set q \<union> all_variants) - set ex, length q))"
    by (simp add: finite_psubset_def)
next
  fix t :: string and queue expanded
  assume "t \<in> set expanded"
  then have "(set queue \<union> all_variants) - set expanded \<subseteq> (set (t # queue) \<union> all_variants) - set expanded" by auto
  then show "((queue, expanded), (t # queue, expanded)) \<in> inv_image (finite_psubset <*lex*> less_than)
      (\<lambda>(q, ex). ((set q \<union> all_variants) - set ex, length q))"
    by (auto simp: finite_psubset_def)
qed auto

definition expand_signal_terms :: "string list \<Rightarrow> string list" where
  "expand_signal_terms values = expand_from
     (rev (concat (map (\<lambda>v. signal_term_variants (normalize_signal_term v)) values))) []"

definition canonical_signal_tag :: "string option \<Rightarrow> string option" where
  "canonical_signal_tag value = (case value of
       None \<Rightarrow> None
     | Some v \<Rightarrow>
         (let term = normalize_signal_term v in
          if term = [] then None
          else case List.find (\<lambda>x. x \<in> set valid_signal_tags) (signal_term_variants term) of
            Some x \<Rightarrow> Some x
          | None \<Rightarrow> List.find (\<lambda>x. x \<in> set (expand_signal_terms [term])) canonical_signal_tag_order))"

text \<open>\<^verbatim>\<open>if tag and tag not in tags: tags.append(tag)\<close>\<close>

definition add_once :: "string list \<Rightarrow> string \<Rightarrow> string list" where
  "add_once xs x = (if x \<noteq> [] \<and> x \<notin> set xs then xs @ [x] else xs)"

definition canonical_signal_tags :: "string list \<Rightarrow> string list" where
  "canonical_signal_tags values = foldl (\<lambda>xs v. add_once xs (str_or (canonical_signal_tag (Some v)) [])) [] values"

definition text_matches_signal_terms :: "string \<Rightarrow> string list \<Rightarrow> bool" where
  "text_matches_signal_terms s terms =
     (let normal = normalize_signal_term s in
      normal \<noteq> [] \<and> list_ex (\<lambda>t. 3 \<le> length t \<and> mentions_whole lower_alnum t normal) (expand_signal_terms terms))"

section \<open>Facts\<close>

definition alias_step :: "(string \<times> string) set" where
  "alias_step = {(t, v). v \<in> set (alias_variants t)}"

lemma expand_from_sound: "set (expand_from queue expanded) \<subseteq> alias_step\<^sup>* `` set queue \<union> set expanded"
proof (induction queue expanded rule: expand_from.induct)
  case (2 t queue expanded)
  show ?case
  proof (cases "t \<in> set expanded")
    case True
    with 2(1) show ?thesis by auto
  next
    case False
    have "alias_step\<^sup>* `` set (alias_variants t) \<subseteq> alias_step\<^sup>* `` {t}"
      by (auto simp: alias_step_def intro: converse_rtrancl_into_rtrancl)
    with 2(2) [OF False] False show ?thesis by (fastforce simp: Image_Un)
  qed
qed simp

lemma expand_from_keeps: "set queue \<union> set expanded \<subseteq> set (expand_from queue expanded)"
  by (induction queue expanded rule: expand_from.induct) auto

lemma expand_from_closed: "alias_step `` set expanded \<subseteq> set queue \<union> set expanded \<Longrightarrow>
    alias_step `` set (expand_from queue expanded) \<subseteq> set (expand_from queue expanded)"
proof (induction queue expanded rule: expand_from.induct)
  case (2 t queue expanded)
  show ?case
  proof (cases "t \<in> set expanded")
    case True
    with 2(1,3) show ?thesis by auto
  next
    case False
    have "alias_step `` set (t # expanded) \<subseteq>
        set (filter (\<lambda>v. v \<notin> set (t # expanded)) (alias_variants t) @ queue) \<union> set (t # expanded)"
      using 2(3) by (auto simp: alias_step_def)
    with 2(2) [OF False] False show ?thesis by simp
  qed
qed simp

lemma closed_rtrancl: "r `` X \<subseteq> X \<Longrightarrow> r\<^sup>* `` X \<subseteq> X"
proof
  fix y assume closed: "r `` X \<subseteq> X" and "y \<in> r\<^sup>* `` X"
  then obtain x where "x \<in> X" "(x, y) \<in> r\<^sup>*" by blast
  from this(2,1) show "y \<in> X" by induction (use closed in blast)+
qed

lemma set_expand_from: "set (expand_from queue []) = alias_step\<^sup>* `` set queue"
proof
  show "set (expand_from queue []) \<subseteq> alias_step\<^sup>* `` set queue" using expand_from_sound [of queue "[]"] by simp
  have "alias_step\<^sup>* `` set queue \<subseteq> alias_step\<^sup>* `` set (expand_from queue [])"
    using expand_from_keeps [of queue "[]"] by (intro Image_mono) auto
  also have "\<dots> \<subseteq> set (expand_from queue [])" by (rule closed_rtrancl, rule expand_from_closed) simp
  finally show "alias_step\<^sup>* `` set queue \<subseteq> set (expand_from queue [])" .
qed

lemma set_expand: "set (expand_signal_terms values) =
    alias_step\<^sup>* `` (\<Union>v \<in> set values. set (signal_term_variants (normalize_signal_term v)))"
  by (simp add: expand_signal_terms_def set_expand_from)

lemma expand_mono: "set xs \<subseteq> set ys \<Longrightarrow> set (expand_signal_terms xs) \<subseteq> set (expand_signal_terms ys)"
  unfolding set_expand by (intro Image_mono) auto

lemma expand_append: "set (expand_signal_terms (xs @ ys)) = set (expand_signal_terms xs) \<union> set (expand_signal_terms ys)"
  unfolding set_expand by (simp add: Image_Un)

lemma expand_Nil [simp]: "expand_signal_terms [] = []"
  by (simp add: expand_signal_terms_def)

text \<open>
  What the signal vocabulary promises: the terms of a set are expanded to a set that is closed under
  aliases and spelling, expanding again loses nothing, and a canonical tag is a tag.
\<close>

lemma normalize_signal_idem [simp]: "normalize_signal_term (normalize_signal_term v) = normalize_signal_term v"
proof -
  have n: "normalize_signal_term w = single_spaced (strip (lower w))" for w
    by (simp add: normalize_signal_term_def strip_lower)
  have "lower (single_spaced (strip (lower v))) = single_spaced (strip (lower v))"
    by (simp add: single_spaced_lower [symmetric] strip_lower [symmetric])
  then have "normalize_signal_term (normalize_signal_term v) = single_spaced (single_spaced (strip (lower v)))"
    by (simp add: n)
  also have "\<dots> = single_spaced (strip (lower v))" using single_spaced_idem [of "lower v"] by simp
  finally show ?thesis by (simp add: n)
qed

lemma aliases_normal: "list_all (\<lambda>a. normalize_signal_term a = a \<and> a \<noteq> []) (concat signal_alias_groups)"
  by code_simp

lemma canonical_order_valid: "set canonical_signal_tag_order = set valid_signal_tags"
  by code_simp

lemma alias_group_sub: "set (alias_group t) \<subseteq> set (concat signal_alias_groups)"
proof (cases "List.find (\<lambda>g. t \<in> set g) (rev signal_alias_groups)")
  case (Some g)
  then show ?thesis using find_Some_in [OF Some] by (auto simp: alias_group_def)
qed (simp add: alias_group_def)

text \<open>Every term of an expansion is a spelling of a normal term.\<close>

definition normal_terms :: "string list \<Rightarrow> string set" where
  "normal_terms values = {n \<in> set (expand_signal_terms values). normalize_signal_term n = n}"

lemma own_variant: "t \<noteq> [] \<Longrightarrow> t \<in> set (signal_term_variants t)"
  by (simp add: signal_term_variants_def)

lemma expansion_step: "t \<in> set (expand_signal_terms values) \<Longrightarrow> v \<in> set (alias_variants t) \<Longrightarrow> v \<in> set (expand_signal_terms values)"
  unfolding set_expand Image_iff by (metis alias_step_def case_prod_conv mem_Collect_eq rtrancl.rtrancl_into_rtrancl)

lemma expansion_start: "v \<in> set values \<Longrightarrow> t \<in> set (signal_term_variants (normalize_signal_term v))
    \<Longrightarrow> t \<in> set (expand_signal_terms values)"
  unfolding set_expand by blast

lemma variants_nonempty: "t \<in> set (signal_term_variants n) \<Longrightarrow> n \<noteq> []"
  by (auto simp: signal_term_variants_def)

lemma expansion_of_normal:
  assumes "t \<in> set (expand_signal_terms values)"
  shows "\<exists>n \<in> normal_terms values. t \<in> set (signal_term_variants n)"
proof -
  obtain s where s: "s \<in> (\<Union>v \<in> set values. set (signal_term_variants (normalize_signal_term v)))" "(s, t) \<in> alias_step\<^sup>*"
    using assms unfolding set_expand by blast
  from s(2) show ?thesis
  proof (cases rule: rtranclE)
    case base
    then obtain v where v: "v \<in> set values" "t \<in> set (signal_term_variants (normalize_signal_term v))" using s(1) by blast
    then have "normalize_signal_term v \<in> normal_terms values"
      using expansion_start [OF v(1) own_variant] variants_nonempty by (simp add: normal_terms_def)
    with v show ?thesis by blast
  next
    case (step u)
    then obtain a where a: "a \<in> set (alias_group u)" "t \<in> set (signal_term_variants a)"
      by (auto simp: alias_step_def alias_variants_def)
    have norm: "normalize_signal_term a = a" "a \<noteq> []"
      using a(1) alias_group_sub [of u] aliases_normal by (auto simp: list_all_iff)
    have "u \<in> set (expand_signal_terms values)" unfolding set_expand using s(1) step(1) by blast
    then have "a \<in> set (expand_signal_terms values)"
      using expansion_step [of u "values" a] a(1) own_variant norm(2) by (auto simp: alias_variants_def)
    then show ?thesis using a(2) norm by (auto simp: normal_terms_def)
  qed
qed

lemma expand_twice: "set (expand_signal_terms values) \<subseteq> set (expand_signal_terms (expand_signal_terms values))"
proof
  fix t assume "t \<in> set (expand_signal_terms values)"
  then obtain n where n: "n \<in> normal_terms values" "t \<in> set (signal_term_variants n)" using expansion_of_normal by blast
  then show "t \<in> set (expand_signal_terms (expand_signal_terms values))"
    using expansion_start [of n "expand_signal_terms values" t] by (simp add: normal_terms_def)
qed

lemma text_matches_mono: "set (expand_signal_terms xs) \<subseteq> set (expand_signal_terms ys) \<Longrightarrow>
    text_matches_signal_terms s xs \<Longrightarrow> text_matches_signal_terms s ys"
  by (auto simp: text_matches_signal_terms_def Let_def list_ex_iff)

lemma canonical_tag_valid: "canonical_signal_tag v = Some t \<Longrightarrow> t \<in> set valid_signal_tags"
  by (auto simp: canonical_signal_tag_def Let_def canonical_order_valid [symmetric] split: option.splits if_splits
      dest!: find_Some_in)

lemma canonical_tags_step:
  "set acc \<subseteq> set valid_signal_tags \<Longrightarrow> distinct acc \<Longrightarrow>
    set (foldl (\<lambda>xs v. add_once xs (str_or (canonical_signal_tag (Some v)) [])) acc vs) \<subseteq> set valid_signal_tags
    \<and> distinct (foldl (\<lambda>xs v. add_once xs (str_or (canonical_signal_tag (Some v)) [])) acc vs)"
proof (induction vs arbitrary: acc)
  case (Cons v vs)
  have "set (add_once acc (str_or (canonical_signal_tag (Some v)) [])) \<subseteq> set valid_signal_tags"
    "distinct (add_once acc (str_or (canonical_signal_tag (Some v)) []))"
    using Cons.prems canonical_tag_valid [of "Some v"]
    by (auto simp: add_once_def str_or_def split: option.splits)
  then show ?case using Cons.IH by simp
qed simp

lemma canonical_tags_valid: "set (canonical_signal_tags vs) \<subseteq> set valid_signal_tags" "distinct (canonical_signal_tags vs)"
  using canonical_tags_step [of "[]" vs] by (simp_all add: canonical_signal_tags_def)

end
