(* ===== verification/PyRegex.thy ===== *)
theory PyRegex
  imports PyText
begin

text \<open>
  The regular expressions of Python's \<^verbatim>\<open>re\<close> that the program uses where a plain search for a
  literal does not do. A state is the text read so far, reversed, and the text ahead. \<open>run\<close> lists
  the states in which a match may end in the order the backtracking matcher tries them, so its
  first element is the match; a repetition is greedy, and an iteration that reads nothing ends it.
\<close>

datatype regex =
    One "char \<Rightarrow> bool"
  | Seq regex regex
  | Alt regex regex
  | Rep regex nat "nat option"
  | Boundary

type_synonym rstate = "string \<times> string"

definition regex_word :: "char \<Rightarrow> bool" where
  "regex_word c \<longleftrightarrow> is_alnum c \<or> c = CHR ''_''"

definition at_boundary :: "rstate \<Rightarrow> bool" where
  "at_boundary st = (let side = (\<lambda>s. case s of [] \<Rightarrow> False | c # t \<Rightarrow> regex_word c) in side (fst st) \<noteq> side (snd st))"

fun repeated :: "(rstate \<Rightarrow> rstate list) \<Rightarrow> nat \<Rightarrow> nat \<Rightarrow> rstate \<Rightarrow> rstate list" where
  "repeated f least 0 st = (if least = 0 then [st] else [])"
| "repeated f least (Suc n) st =
     concat (map (\<lambda>st'. if st' = st \<and> least = 0 then [] else repeated f (least - 1) n st') (f st))
     @ (if least = 0 then [st] else [])"

primrec run :: "regex \<Rightarrow> rstate \<Rightarrow> rstate list" where
  "run (One p) st = (case snd st of [] \<Rightarrow> [] | c # t \<Rightarrow> if p c then [(c # fst st, t)] else [])"
| "run (Seq r q) st = concat (map (run q) (run r st))"
| "run (Alt r q) st = run r st @ run q st"
| "run (Rep r least most) st = repeated (run r) least
     (case most of Some n \<Rightarrow> n | None \<Rightarrow> least + length (snd st)) st"
| "run Boundary st = (if at_boundary st then [st] else [])"

text \<open>A literal, one of several patterns, an optional pattern.\<close>

fun literal_of :: "string \<Rightarrow> regex" where
  "literal_of [] = Rep (One (\<lambda>c. False)) 0 (Some 0)"
| "literal_of [c] = One (\<lambda>x. x = c)"
| "literal_of (c # d # s) = Seq (One (\<lambda>x. x = c)) (literal_of (d # s))"

fun any_of :: "regex list \<Rightarrow> regex" where
  "any_of [] = Rep (One (\<lambda>c. False)) 1 (Some 0)"
| "any_of [r] = r"
| "any_of (r # q # rs) = Alt r (any_of (q # rs))"

definition optional :: "regex \<Rightarrow> regex" where
  "optional r = Rep r 0 (Some 1)"

text \<open>\<^verbatim>\<open>finditer\<close>: the matched texts, from left to right without overlaps. A match that reads
  nothing moves the search on by one character.\<close>

fun find_all :: "regex \<Rightarrow> nat \<Rightarrow> rstate \<Rightarrow> string list" where
  "find_all r 0 st = []"
| "find_all r (Suc n) st =
     (case run r st of
        end # _ \<Rightarrow>
          (let matched = take (length (snd st) - length (snd end)) (snd st) in
           if matched = []
           then [] # (case snd st of [] \<Rightarrow> [] | c # t \<Rightarrow> find_all r n (c # fst st, t))
           else matched # find_all r n end)
      | [] \<Rightarrow> (case snd st of [] \<Rightarrow> [] | c # t \<Rightarrow> find_all r n (c # fst st, t)))"

definition finditer :: "regex \<Rightarrow> string \<Rightarrow> string list" where
  "finditer r s = find_all r (Suc (length s)) ([], s)"

section \<open>Facts\<close>

text \<open>Matching only moves the position: the text stays the same, and never goes back.\<close>

definition onward :: "rstate \<Rightarrow> rstate \<Rightarrow> bool" where
  "onward st st' \<longleftrightarrow> (\<exists>s. snd st = s @ snd st' \<and> fst st' = rev s @ fst st)"

lemma onward_refl [simp]: "onward st st"
  by (simp add: onward_def)

lemma onward_trans: "onward a b \<Longrightarrow> onward b c \<Longrightarrow> onward a c"
  by (auto simp: onward_def)

lemma repeated_onward:
  "(\<And>st st'. st' \<in> set (f st) \<Longrightarrow> onward st st') \<Longrightarrow> st' \<in> set (repeated f least n st) \<Longrightarrow> onward st st'"
proof (induction n arbitrary: st st' least)
  case (Suc n)
  note step = Suc.prems(1)
  have IH: "mid \<in> set (f st) \<Longrightarrow> st' \<in> set (repeated f (least - 1) n mid) \<Longrightarrow> onward mid st'" for mid
    using Suc.IH [OF step] by blast
  consider "st' = st" | mid where "mid \<in> set (f st)" "st' \<in> set (repeated f (least - 1) n mid)"
    using Suc.prems(2) by (auto split: if_splits)
  then show ?case
  proof cases
    case (2 mid)
    then have "onward mid st'" using IH [of mid] by simp
    with 2(1) step show ?thesis using onward_trans by blast
  qed simp
qed (auto split: if_splits)

lemma run_onward: "st' \<in> set (run r st) \<Longrightarrow> onward st st'"
proof (induction r arbitrary: st st')
  case (One p)
  then show ?case by (auto simp: onward_def split: list.splits if_splits)
next
  case (Seq r q)
  from Seq.prems obtain mid where mid: "mid \<in> set (run r st)" "st' \<in> set (run q mid)" by auto
  then show ?case using Seq.IH onward_trans by blast
next
  case (Rep r least most)
  then show ?case using repeated_onward [of "run r"] by (auto split: option.splits)
qed (auto split: if_splits)

end
