(* ===== verification/Entities.thy ===== *)
theory Entities
  imports TextMatch PyRegex
begin

text \<open>
  \<^verbatim>\<open>enrichment/entities.py\<close>: regions and suppliers found in text by fixed tables. Dictionaries keep
  their insertion order; the order in which Python walks the set of known suppliers is the
  argument \<open>walk\<close>, which matters for names of equal length only.
\<close>

definition region_aliases :: "(string \<times> string) list" where
  "region_aliases = [
     (''us'', ''United States''), (''u.s.'', ''United States''), (''usa'', ''United States''),
     (''united states'', ''United States''), (''uk'', ''United Kingdom''),
     (''u.k.'', ''United Kingdom''), (''united kingdom'', ''United Kingdom''),
     (''eu'', ''European Union''), (''european union'', ''European Union''),
     (''europe'', ''Europe''), (''european'', ''Europe''), (''eurozone'', ''Europe''),
     (''brussels'', ''European Union''), (''asia'', ''Asia''), (''middle east'', ''Middle East''),
     (''mideast'', ''Middle East''), (''gulf'', ''Middle East''),
     (''persian gulf'', ''Middle East''), (''hormuz'', ''Middle East''),
     (''strait of hormuz'', ''Middle East''), (''red sea'', ''Middle East''),
     (''suez'', ''Middle East''), (''bahrain'', ''Bahrain''), (''iran'', ''Iran''),
     (''iranian'', ''Iran''), (''iraq'', ''Iraq''), (''israel'', ''Israel''),
     (''jordan'', ''Jordan''), (''kuwait'', ''Kuwait''), (''lebanon'', ''Lebanon''),
     (''oman'', ''Oman''), (''qatar'', ''Qatar''), (''qatari'', ''Qatar''),
     (''saudi arabia'', ''Saudi Arabia''), (''saudi'', ''Saudi Arabia''), (''syria'', ''Syria''),
     (''uae'', ''United Arab Emirates''), (''united arab emirates'', ''United Arab Emirates''),
     (''yemen'', ''Yemen''), (''china'', ''China''), (''chinese'', ''China''),
     (''germany'', ''Germany''), (''german'', ''Germany''), (''deutschland'', ''Germany''),
     (''allemagne'', ''Germany''), (''france'', ''France''), (''french'', ''France''),
     (''italy'', ''Italy''), (''italian'', ''Italy''), (''netherlands'', ''Netherlands''),
     (''dutch'', ''Netherlands''), (''spain'', ''Spain''), (''spanish'', ''Spain''),
     (''poland'', ''Poland''), (''polish'', ''Poland''), (''czech republic'', ''Czech Republic''),
     (''czechia'', ''Czech Republic''), (''austria'', ''Austria''), (''belgium'', ''Belgium''),
     (''sweden'', ''Sweden''), (''switzerland'', ''Switzerland''), (''swiss'', ''Switzerland''),
     (''denmark'', ''Denmark''), (''finland'', ''Finland''), (''norway'', ''Norway''),
     (''ireland'', ''Ireland''), (''portugal'', ''Portugal''), (''hungary'', ''Hungary''),
     (''romania'', ''Romania''), (''slovakia'', ''Slovakia''), (''slovenia'', ''Slovenia''),
     (''lithuania'', ''Lithuania''), (''latvia'', ''Latvia''), (''estonia'', ''Estonia''),
     (''india'', ''India''), (''japan'', ''Japan''), (''mexico'', ''Mexico''),
     (''canada'', ''Canada''), (''brazil'', ''Brazil''), (''vietnam'', ''Vietnam''),
     (''taiwan'', ''Taiwan''), (''south korea'', ''South Korea''), (''korea'', ''South Korea'')]"

definition known_suppliers :: "string list" where
  "known_suppliers = [
     ''Anthropic'', ''Apple'', ''Bosch'', ''Critical Metals'', ''Ferrari'', ''Genuine Parts'',
     ''Mercedes'', ''Motherson'', ''Nexans'', ''OpenAI'',
     (''O'' @ [CHR 39] @ ''Reilly Automotive''), ''Siemens'', ''Toyota'', ''Volkswagen'']"

text \<open>\<^verbatim>\<open>if text and text not in merged: merged.append(text)\<close>\<close>

definition keep_new :: "string list \<Rightarrow> string \<Rightarrow> string list" where
  "keep_new merged s = (if s \<noteq> [] \<and> s \<notin> set merged then merged @ [s] else merged)"

definition merge_entities :: "string list list \<Rightarrow> string list" where
  "merge_entities groups = foldl (\<lambda>m v. keep_new m (strip v)) [] (concat groups)"

definition canonical_region_name :: "string \<Rightarrow> string" where
  "canonical_region_name v = (let s = strip v in
     if s = [] then [] else case map_of region_aliases (lower s) of Some r \<Rightarrow> r | None \<Rightarrow> s)"

definition extract_regions_from_text :: "string \<Rightarrow> string list" where
  "extract_regions_from_text s = (let lowered = lower s in
     foldl (\<lambda>found (alias, canonical). if mentions_whole is_lower alias lowered \<and> canonical \<notin> set found
       then found @ [canonical] else found) [] region_aliases)"

section \<open>Suppliers\<close>

definition name_char :: "char \<Rightarrow> bool" where
  "name_char c \<longleftrightarrow> is_alpha c \<or> c \<in> {CHR ''&'', CHR 39, CHR ''.'', CHR ''-''}"

definition blanks :: regex where
  "blanks = Rep (One is_space) 1 None"

definition capitalized :: regex where
  "capitalized = Seq (One is_upper) (Rep (One name_char) 0 None)"

definition company_suffixes :: regex where
  "company_suffixes = any_of [literal_of ''AG'', Seq (literal_of ''Corp'') (optional (literal_of ''.'')),
     literal_of ''Corporation'', Seq (literal_of ''Co'') (optional (literal_of ''.'')), literal_of ''Company'',
     literal_of ''GmbH'', literal_of ''Group'', Seq (literal_of ''Inc'') (optional (literal_of ''.'')),
     Seq (literal_of ''Ltd'') (optional (literal_of ''.'')), literal_of ''PLC'', literal_of ''SA'', literal_of ''SE'']"

definition company_suffix_pattern :: regex where
  "company_suffix_pattern = Seq Boundary (Seq capitalized (Seq (Rep (Seq blanks capitalized) 0 (Some 4))
     (Seq blanks (Seq company_suffixes Boundary))))"

definition extract_suppliers_from_text :: "(string list \<Rightarrow> string list) \<Rightarrow> string \<Rightarrow> string list" where
  "extract_suppliers_from_text walk s =
     (let known = foldl (\<lambda>found n. if mentions_whole is_alpha n s \<and> n \<notin> set found then found @ [n] else found) []
            (sort_key (\<lambda>n. - int (length n)) (walk known_suppliers))
      in foldl (\<lambda>found m. keep_new found (strip_by (\<lambda>c. c \<in> {CHR '' '', CHR ''.''}) m)) known
           (finditer company_suffix_pattern s))"

end
