(* ===== verification/Matcher.thy ===== *)
theory Matcher
  imports Preferences Taxonomy Entities
begin

text \<open>
  \<^verbatim>\<open>personalization/matcher.py\<close>: which articles a preference lets through and how they score. A Python
  set is a list without repetitions; where the program walks a set to build a text, the
  order is the argument \<open>walk\<close>. \<open>ids\<close> are the public identifiers of the suppliers the article was
  resolved to. An absent priority signal becomes the term \<^verbatim>\<open>none\<close>, as \<^verbatim>\<open>str(None)\<close> does.
\<close>

definition meets :: "'a list \<Rightarrow> 'a list \<Rightarrow> bool" where
  "meets xs ys = list_ex (\<lambda>x. x \<in> set ys) xs"

definition common :: "'a list \<Rightarrow> 'a list \<Rightarrow> nat" where
  "common xs ys = length (filter (\<lambda>x. x \<in> set ys) (remdups xs))"

definition set_union :: "'a list \<Rightarrow> 'a list \<Rightarrow> 'a list" where
  "set_union xs ys = remdups (xs @ ys)"

definition opt_list :: "'a list option \<Rightarrow> 'a list" where
  "opt_list x = (case x of None \<Rightarrow> [] | Some xs \<Rightarrow> xs)"

definition str_of_opt :: "string option \<Rightarrow> string" where
  "str_of_opt x = (case x of None \<Rightarrow> ''None'' | Some s \<Rightarrow> s)"

section \<open>Terms of preferences and articles\<close>

definition normalized_terms :: "string list \<Rightarrow> string list" where
  "normalized_terms values = remdups (map (\<lambda>v. lower (strip v)) (filter (\<lambda>v. strip v \<noteq> []) values))"

definition preferred_categories_of :: "user_preference \<Rightarrow> string list" where
  "preferred_categories_of p = canonical_category_list (up_preferred_categories p)"

definition excluded_categories_of :: "user_preference \<Rightarrow> string list" where
  "excluded_categories_of p = canonical_category_list
     (if up_excluded_categories p = [] then up_excluded_topics p else up_excluded_categories p)"

definition region_tokens :: "string list \<Rightarrow> string list" where
  "region_tokens values = remdups (map (\<lambda>v. lower (strip (canonical_region_name v)))
     (filter (\<lambda>v. strip (canonical_region_name v) \<noteq> []) values))"

definition preferred_supplier_ids_of :: "user_preference \<Rightarrow> string list" where
  "preferred_supplier_ids_of p = normalized_terms (up_preferred_supplier_ids p)"

definition excluded_supplier_ids_of :: "user_preference \<Rightarrow> string list" where
  "excluded_supplier_ids_of p = normalized_terms (up_excluded_supplier_ids p)"

definition preferred_suppliers_of :: "user_preference \<Rightarrow> string list" where
  "preferred_suppliers_of p = normalized_terms (up_preferred_suppliers p)"

definition preferred_regions_of :: "user_preference \<Rightarrow> string list" where
  "preferred_regions_of p = region_tokens (up_preferred_regions p)"

definition preferred_signals_of :: "user_preference \<Rightarrow> string list" where
  "preferred_signals_of p = expand_signal_terms (up_preferred_signals p)"

definition excluded_signals_of :: "user_preference \<Rightarrow> string list" where
  "excluded_signals_of p = expand_signal_terms (up_excluded_signals p)"

definition article_categories :: "processed_article \<Rightarrow> string list" where
  "article_categories a = canonical_category_list (pa_top_level_category a # opt_list (pa_detected_categories a))"

definition article_suppliers :: "processed_article \<Rightarrow> string list" where
  "article_suppliers a = normalized_terms (opt_list (pa_detected_suppliers a))"

definition article_text :: "processed_article \<Rightarrow> string" where
  "article_text a = join '' '' (map (\<lambda>s. lower (strip s))
     (filter (\<lambda>s. strip s \<noteq> []) [pa_normalized_title a, pa_summary a]))"

definition text_mentions_supplier :: "string \<Rightarrow> string \<Rightarrow> bool" where
  "text_mentions_supplier txt supplier = (let name = strip supplier in
     minimum_derived_alias_length \<le> length name \<and> mentions_whole lower_alnum (lower name) (lower txt))"

definition supplier_text_matches :: "processed_article \<Rightarrow> string list \<Rightarrow> string list" where
  "supplier_text_matches a preferred = filter (text_mentions_supplier (article_text a)) preferred"

definition article_regions :: "processed_article \<Rightarrow> string list" where
  "article_regions a = region_tokens (opt_list (pa_detected_regions a))"

definition text_regions :: "processed_article \<Rightarrow> string list" where
  "text_regions a = region_tokens (extract_regions_from_text (article_text a))"

definition article_regions_for_matching :: "processed_article \<Rightarrow> string list" where
  "article_regions_for_matching a = set_union (article_regions a) (text_regions a)"

definition article_signals :: "processed_article \<Rightarrow> string list" where
  "article_signals a = expand_signal_terms (str_of_opt (pa_priority_signal a) # opt_list (pa_signal_tags a))"

definition article_signal_context :: "(string list \<Rightarrow> string list) \<Rightarrow> processed_article \<Rightarrow> string" where
  "article_signal_context walk a = join '' '' (filter (\<lambda>s. s \<noteq> [])
     (article_text a # walk (article_regions_for_matching a)))"

definition signal_matches_article :: "(string list \<Rightarrow> string list) \<Rightarrow> processed_article \<Rightarrow> string list \<Rightarrow> bool" where
  "signal_matches_article walk a signals = (let terms = expand_signal_terms signals in
     terms \<noteq> [] \<and>
     (meets (set_union (article_signals a) (expand_signal_terms (article_regions_for_matching a))) terms
      \<or> text_matches_signal_terms (article_signal_context walk a) terms))"

section \<open>Eligibility\<close>

definition has_excluded_match ::
  "(string list \<Rightarrow> string list) \<Rightarrow> processed_article \<Rightarrow> user_preference \<Rightarrow> string list \<Rightarrow> bool" where
  "has_excluded_match walk a p ids =
     (meets ids (excluded_supplier_ids_of p)
      \<or> meets (article_categories a) (excluded_categories_of p)
      \<or> meets (article_suppliers a) (normalized_terms (up_excluded_suppliers p))
      \<or> meets (article_regions_for_matching a) (region_tokens (normalized_terms (up_excluded_regions p)))
      \<or> signal_matches_article walk a (excluded_signals_of p))"

definition supplier_matches :: "processed_article \<Rightarrow> user_preference \<Rightarrow> string list \<Rightarrow> string list \<Rightarrow> bool" where
  "supplier_matches a p preferred ids =
     (if ids \<noteq> [] then meets ids (preferred_supplier_ids_of p)
      else meets (article_suppliers a) preferred \<or> supplier_text_matches a preferred \<noteq> [])"

definition should_include_article ::
  "(string list \<Rightarrow> string list) \<Rightarrow> processed_article \<Rightarrow> user_preference \<Rightarrow> string list \<Rightarrow> bool" where
  "should_include_article walk a p ids =
     (if has_excluded_match walk a p ids then False
      else let cats = preferred_categories_of p; sups = preferred_suppliers_of p;
               regs = preferred_regions_of p; sigs = preferred_signals_of p in
        if cats \<noteq> [] \<or> sups \<noteq> [] then meets (article_categories a) cats \<or> supplier_matches a p sups ids
        else if regs \<noteq> [] then meets (article_regions_for_matching a) regs
        else if sigs \<noteq> [] then signal_matches_article walk a sigs
        else True)"

section \<open>Scores\<close>

definition match_score :: "nat \<Rightarrow> rat" where
  "match_score matches = (if 0 < matches then min 1 (1 / 2 + of_nat matches * (1 / 4)) else 3 / 10)"

definition calculate_category_match :: "string \<Rightarrow> user_preference \<Rightarrow> rat" where
  "calculate_category_match category p = (let c = canonical_category category; preferred = preferred_categories_of p in
     if c \<in> set (excluded_categories_of p) then 0
     else if preferred = [] then 1 / 2
     else if c \<in> set preferred then 1 else 3 / 10)"

definition calculate_supplier_match :: "string list \<Rightarrow> user_preference \<Rightarrow> string list \<Rightarrow> rat" where
  "calculate_supplier_match article_sups p ids =
     (let preferred = preferred_suppliers_of p; names = normalized_terms article_sups in
      if meets ids (excluded_supplier_ids_of p) then 0
      else if meets names (normalized_terms (up_excluded_suppliers p)) then 0
      else if article_sups = [] \<or> preferred = [] then 1 / 2
      else match_score (common names preferred + common ids (preferred_supplier_ids_of p)))"

definition calculate_region_match :: "string list \<Rightarrow> user_preference \<Rightarrow> rat" where
  "calculate_region_match regions p =
     (let preferred = preferred_regions_of p; mine = region_tokens regions in
      if meets mine (region_tokens (up_excluded_regions p)) then 0
      else if regions = [] \<or> preferred = [] then 1 / 2
      else match_score (common mine preferred))"

definition calculate_signal_match :: "string list \<Rightarrow> string option \<Rightarrow> user_preference \<Rightarrow> string \<Rightarrow> rat" where
  "calculate_signal_match tags priority p context_text =
     (let preferred = preferred_signals_of p; excluded = excluded_signals_of p;
          mine = expand_signal_terms (tags @ [str_of_opt priority]) in
      if meets mine excluded \<or> text_matches_signal_terms context_text excluded then 0
      else if preferred = [] then 1 / 2
      else if str_or priority [] \<noteq> [] \<and> meets (expand_signal_terms [str_or priority []]) preferred then 1
      else match_score (common mine preferred + (if text_matches_signal_terms context_text preferred then 1 else 0)))"

record match_result =
  ms_overall_score :: rat
  ms_category_match :: rat
  ms_supplier_match :: rat
  ms_region_match :: rat
  ms_signal_match :: rat

definition score_article ::
  "(string list \<Rightarrow> string list) \<Rightarrow> processed_article \<Rightarrow> user_preference \<Rightarrow> string list \<Rightarrow> match_result" where
  "score_article walk a p ids =
     (let category = calculate_category_match (pa_top_level_category a) p;
          supplier_tokens = set_union (opt_list (pa_detected_suppliers a)) (supplier_text_matches a (preferred_suppliers_of p));
          supplier = calculate_supplier_match supplier_tokens p ids;
          region = calculate_region_match (article_regions_for_matching a) p;
          sig = calculate_signal_match (opt_list (pa_signal_tags a)) (pa_priority_signal a) p (article_signal_context walk a)
      in \<lparr>ms_overall_score = category * (3 / 10) + supplier * (3 / 10) + region * (2 / 10) + sig * (2 / 10),
          ms_category_match = category, ms_supplier_match = supplier, ms_region_match = region, ms_signal_match = sig\<rparr>)"

end
