(* ===== verification/Feed.thy ===== *)
theory Feed
  imports Matcher
begin

text \<open>
  \<^verbatim>\<open>personalization/pipeline.py\<close>, \<^verbatim>\<open>api/routers/feed.py\<close> and the feed part of
  \<^verbatim>\<open>api/routers/articles.py\<close>: the feed of a user is generated from recent articles and stored.
  Which articles the feed holds already is read before the new entries are written, so
  \<open>generate_feed_seen\<close> takes the feed as it was then. \<open>clock\<close> gives the successive readings of the
  clock. Rows with equal sort keys keep table order.
\<close>

definition fallback_preference :: "string \<Rightarrow> user_preference \<Rightarrow> user_preference" where
  "fallback_preference uid p = (new_preference uid)\<lparr>up_excluded_categories := up_excluded_categories p,
     up_excluded_suppliers := up_excluded_suppliers p, up_excluded_regions := up_excluded_regions p,
     up_excluded_signals := up_excluded_signals p, up_excluded_topics := up_excluded_topics p\<rparr>"

definition supplier_ids_by_article :: "supplier_db \<Rightarrow> nat \<Rightarrow> string list" where
  "supplier_ids_by_article sdb aid = remdups [s_public_id s. m \<leftarrow> mentions sdb, s \<leftarrow> suppliers sdb,
     am_article_id m = aid \<and> am_supplier_id m = Some (s_id s) \<and> s_is_active s]"

definition feed_threshold :: rat where
  "feed_threshold = 3 / 10"

definition score_articles ::
  "(string list \<Rightarrow> string list) \<Rightarrow> processed_article list \<Rightarrow> user_preference \<Rightarrow> nat set \<Rightarrow> (nat \<Rightarrow> string list)
     \<Rightarrow> (processed_article \<times> match_result) list" where
  "score_articles walk articles p existing ids = List.map_filter (\<lambda>a.
     if pa_id a \<in> existing then None
     else if \<not> should_include_article walk a p (ids (pa_id a)) then None
     else let s = score_article walk a p (ids (pa_id a)) in
          if feed_threshold \<le> ms_overall_score s then Some (a, s) else None) articles"

definition feed_row :: "string \<Rightarrow> datetime \<Rightarrow> processed_article \<Rightarrow> match_result \<Rightarrow> feed_entry" where
  "feed_row uid t a s = \<lparr>uf_user_id = uid, uf_processed_article_id = pa_id a,
     uf_top_level_category = pa_top_level_category a, uf_rank_score = ms_overall_score s,
     uf_match_reasons = \<lparr>mr_category = ms_category_match s, mr_supplier = ms_supplier_match s,
       mr_region = ms_region_match s, mr_signal = ms_signal_match s\<rparr>,
     uf_related_sourcing_event_ids = [], uf_surfaced_at = t, uf_is_read = False, uf_is_hidden = False\<rparr>"

definition recent_articles :: "datetime \<Rightarrow> processed_article list \<Rightarrow> processed_article list" where
  "recent_articles cutoff articles = sort_key (\<lambda>a. - pa_processed_at a) (filter (\<lambda>a. cutoff \<le> pa_processed_at a) articles)"

definition existing_articles :: "string \<Rightarrow> feed_entry list \<Rightarrow> nat set" where
  "existing_articles uid feed = uf_processed_article_id ` set (filter (\<lambda>f. uf_user_id f = uid) feed)"

definition scored_articles ::
  "(string list \<Rightarrow> string list) \<Rightarrow> supplier_db \<Rightarrow> processed_article list \<Rightarrow> string \<Rightarrow> user_preference \<Rightarrow> nat set
     \<Rightarrow> (processed_article \<times> match_result) list" where
  "scored_articles walk sdb articles uid p existing =
     (let first = score_articles walk articles p existing (supplier_ids_by_article sdb) in
      if first \<noteq> [] then first
      else score_articles walk articles (fallback_preference uid p) existing (supplier_ids_by_article sdb))"

definition generate_feed_seen ::
  "(string list \<Rightarrow> string list) \<Rightarrow> feed_entry list \<Rightarrow> supplier_db \<Rightarrow> processed_article list \<Rightarrow> (nat \<Rightarrow> datetime) \<Rightarrow> string
     \<Rightarrow> nat \<Rightarrow> timedelta \<Rightarrow> feed_db \<Rightarrow> (feed_entry list \<times> nat \<times> nat) \<times> feed_db" where
  "generate_feed_seen walk seen sdb table clock uid limit window db =
     (let p = (case get_preference uid db of Some p \<Rightarrow> p | None \<Rightarrow> new_preference uid);
          articles = recent_articles (clock 0 - window) table;
          scored = sort_key (\<lambda>(a, s). - ms_overall_score s)
            (scored_articles walk sdb articles uid p (existing_articles uid seen));
          entries = map (\<lambda>(rank, a, s). feed_row uid (clock rank) a s) (enumerate 1 (take limit scored))
      in ((entries, length scored, length articles), db\<lparr>fd_feed := fd_feed db @ entries\<rparr>))"

definition generate_feed ::
  "(string list \<Rightarrow> string list) \<Rightarrow> supplier_db \<Rightarrow> processed_article list \<Rightarrow> (nat \<Rightarrow> datetime) \<Rightarrow> string
     \<Rightarrow> nat \<Rightarrow> timedelta \<Rightarrow> feed_db \<Rightarrow> (feed_entry list \<times> nat \<times> nat) \<times> feed_db" where
  "generate_feed walk sdb table clock uid limit window db =
     generate_feed_seen walk (fd_feed db) sdb table clock uid limit window db"

definition get_user_feed :: "processed_article list \<Rightarrow> string \<Rightarrow> nat \<Rightarrow> feed_db \<Rightarrow> (processed_article \<times> feed_entry) list" where
  "get_user_feed table uid limit db = List.map_filter
     (\<lambda>f. map_option (\<lambda>a. (a, f)) (row_of pa_id table (uf_processed_article_id f)))
     (take limit (sort_key (\<lambda>f. - uf_rank_score f) (filter (\<lambda>f. uf_user_id f = uid) (fd_feed db))))"

section \<open>Endpoints\<close>

definition load_feed_rows ::
  "processed_article list \<Rightarrow> news_raw list \<Rightarrow> string \<Rightarrow> nat \<Rightarrow> feed_db \<Rightarrow> (feed_entry \<times> processed_article \<times> news_raw) list" where
  "load_feed_rows table raws uid limit db = take limit
     (sort_key (\<lambda>(f, a, r). - uf_rank_score f) (sort_key (\<lambda>(f, a, r). - uf_surfaced_at f)
       [(f, a, r). f \<leftarrow> fd_feed db, a \<leftarrow> table, r \<leftarrow> raws,
         uf_processed_article_id f = pa_id a \<and> pa_raw_article_id a = nr_id r \<and> uf_user_id f = uid \<and> \<not> uf_is_hidden f]))"

definition count_feed_rows :: "string \<Rightarrow> feed_db \<Rightarrow> nat" where
  "count_feed_rows uid db = length (filter (\<lambda>f. uf_user_id f = uid \<and> \<not> uf_is_hidden f) (fd_feed db))"

text \<open>The rows of the answer, in order, and the total; the rendering adds the text of the articles.\<close>

definition get_personalized_feed ::
  "(string list \<Rightarrow> string list) \<Rightarrow> supplier_db \<Rightarrow> processed_article list \<Rightarrow> news_raw list \<Rightarrow> (nat \<Rightarrow> datetime) \<Rightarrow> string
     \<Rightarrow> nat \<Rightarrow> timedelta \<Rightarrow> feed_db \<Rightarrow> ((feed_entry \<times> processed_article \<times> news_raw) list \<times> nat) \<times> feed_db" where
  "get_personalized_feed walk sdb table raws clock uid limit window db =
     (let rows = load_feed_rows table raws uid limit db;
          db' = (if length rows < limit then snd (generate_feed walk sdb table clock uid limit window db) else db);
          shown = (if length rows < limit then load_feed_rows table raws uid limit db' else rows)
      in ((shown, count_feed_rows uid db'), db'))"

datatype read_reply = FeedEntryNotFound | SeveralEntries | ReadMarked

definition mark_article_read :: "nat \<Rightarrow> string \<Rightarrow> feed_db \<Rightarrow> read_reply \<times> feed_db" where
  "mark_article_read aid uid db = (let p = (\<lambda>f. uf_user_id f = uid \<and> uf_processed_article_id f = aid) in
     case rowcount p (fd_feed db) of
       0 \<Rightarrow> (FeedEntryNotFound, db)
     | Suc 0 \<Rightarrow> (ReadMarked, db\<lparr>fd_feed := sql_update p (\<lambda>f. f\<lparr>uf_is_read := True\<rparr>) (fd_feed db)\<rparr>)
     | _ \<Rightarrow> (SeveralEntries, db))"

end
