(* ===== verification/FeedFacts.thy ===== *)
theory FeedFacts
  imports Feed Taxonomy
begin

text \<open>
  Facts about matching: regions keep their meaning when they are tokenized again, scores are between
  zero and one, and an article that no exclusion names reaches the threshold of the feed.
\<close>

section \<open>Sets as lists\<close>

named_theorems term_sets

lemma meets_iff [term_sets]: "meets xs ys \<longleftrightarrow> set xs \<inter> set ys \<noteq> {}"
  by (auto simp: meets_def list_ex_iff)

lemma set_union_set [simp]: "set (set_union xs ys) = set xs \<union> set ys"
  by (simp add: set_union_def)

lemma common_0: "common xs ys = 0 \<longleftrightarrow> \<not> meets xs ys"
  by (auto simp: common_def meets_iff filter_empty_conv)

lemma set_normalized [term_sets]: "set (normalized_terms vs) = (\<lambda>v. lower (strip v)) ` {v \<in> set vs. strip v \<noteq> []}"
  by (auto simp: normalized_terms_def)

lemma canonical_category_list_step:
  "set (foldl (\<lambda>xs v. let c = canonical_category v in if c \<noteq> [] \<and> c \<notin> set xs then xs @ [c] else xs) acc vs)
    = set acc \<union> {c \<in> canonical_category ` set vs. c \<noteq> []}"
  by (induction vs arbitrary: acc) (auto simp: Let_def)

lemma set_category_list [term_sets]: "set (canonical_category_list vs) = {c \<in> canonical_category ` set vs. c \<noteq> []}"
  by (simp add: canonical_category_list_def canonical_category_list_step)

section \<open>Regions\<close>

lemma strip_lower_strip [simp]: "strip (lower (strip v)) = lower (strip v)"
  by (simp add: strip_lower)

lemma lower_Nil_iff [simp]: "lower s = [] \<longleftrightarrow> s = []"
  by (simp add: lower_def)

definition region_token :: "string \<Rightarrow> string" where
  "region_token v = lower (strip (canonical_region_name v))"

lemma region_token_Nil: "region_token v = [] \<longleftrightarrow> strip (canonical_region_name v) = []"
  by (simp add: region_token_def)

lemma set_region_tokens: "set (region_tokens vs) = region_token ` set vs - {[]}"
  by (force simp: region_tokens_def region_token_Nil region_token_def [symmetric])

lemma strip_Nil [simp]: "strip [] = []"
  by (simp add: strip_def strip_by_def lstrip_by_def rstrip_by_def)

lemma region_token_blank: "strip v = [] \<Longrightarrow> region_token v = []"
  using strip_idem [of v] by (simp add: canonical_region_name_def region_token_def)

lemma region_token_lower: "region_token (lower (strip v)) = region_token v"
  by (simp add: region_token_def canonical_region_name_def Let_def strip_lower split: option.split)

lemma region_tokens_normalized: "set (region_tokens (normalized_terms vs)) = set (region_tokens vs)"
proof -
  have "region_token ` (\<lambda>v. lower (strip v)) ` {v \<in> set vs. strip v \<noteq> []} = region_token ` {v \<in> set vs. strip v \<noteq> []}"
    by (simp add: image_image region_token_lower)
  moreover have "region_token ` {v \<in> set vs. strip v \<noteq> []} - {[]} = region_token ` set vs - {[]}"
    using region_token_blank by auto
  ultimately show ?thesis by (simp add: set_region_tokens set_normalized)
qed

fun labels_ok :: "(string \<times> string) list \<Rightarrow> (string \<times> string) list \<Rightarrow> bool" where
  "labels_ok t [] = True"
| "labels_ok t ((a, c) # r) = ((if lower c = a then True else (lower c, c) \<in> set t) \<and> strip c = c \<and> labels_ok t r)"

lemma labels_okD: "labels_ok t r \<Longrightarrow> set r \<subseteq> set t \<Longrightarrow> (a, c) \<in> set r \<Longrightarrow> (lower c, c) \<in> set t \<and> strip c = c"
  by (induction t r rule: labels_ok.induct) (auto split: if_splits)

lemma region_labels: "labels_ok region_aliases region_aliases"
  by code_simp

lemma distinct_aliases: "distinct (map fst region_aliases)"
  by code_simp

lemma region_token_idem [simp]: "region_token (region_token v) = region_token v"
proof (cases "map_of region_aliases (lower (strip v))")
  case None
  then show ?thesis using region_token_lower [of v] by (simp add: region_token_def canonical_region_name_def Let_def)
next
  case (Some c)
  then have "(lower (strip v), c) \<in> set region_aliases" by (rule map_of_SomeD)
  then have "(lower c, c) \<in> set region_aliases" "strip c = c" using labels_okD [OF region_labels] by auto
  then have "map_of region_aliases (lower c) = Some c" "strip c = c" using map_of_is_SomeI [OF distinct_aliases] by simp_all
  with Some show ?thesis by (auto simp: region_token_def canonical_region_name_def Let_def strip_lower)
qed

lemma matching_regions_idem: "set (region_tokens (article_regions_for_matching a)) = set (article_regions_for_matching a)"
proof -
  have fixed: "x \<in> set (article_regions_for_matching a) \<Longrightarrow> region_token x = x \<and> x \<noteq> []" for x
    by (auto simp: article_regions_for_matching_def set_region_tokens article_regions_def text_regions_def)
  then have "region_token ` set (article_regions_for_matching a) = set (article_regions_for_matching a)"
    by (simp cong: image_cong_simp)
  then show ?thesis using fixed by (auto simp: set_region_tokens)
qed

section \<open>Scores\<close>

lemma match_score_bounds: "3 / 10 \<le> match_score m" "match_score m \<le> 1"
  by (simp_all add: match_score_def min_def)

lemma component_bounds:
  "0 \<le> calculate_category_match c p" "calculate_category_match c p \<le> 1"
  "0 \<le> calculate_supplier_match ss p ids" "calculate_supplier_match ss p ids \<le> 1"
  "0 \<le> calculate_region_match rs p" "calculate_region_match rs p \<le> 1"
  "0 \<le> calculate_signal_match tags prio p ctx" "calculate_signal_match tags prio p ctx \<le> 1"
  using match_score_bounds order_trans [OF _ match_score_bounds(1), of 0]
  by (simp_all add: calculate_category_match_def calculate_supplier_match_def calculate_region_match_def
      calculate_signal_match_def Let_def)

lemma score_bounds: "0 \<le> ms_overall_score (score_article walk a p ids)" "ms_overall_score (score_article walk a p ids) \<le> 1"
proof -
  have "0 \<le> c * (3 / 10) + s * (3 / 10) + r * (2 / 10) + g * (2 / 10) \<and> c * (3 / 10) + s * (3 / 10) + r * (2 / 10) + g * (2 / 10) \<le> 1"
    if "0 \<le> c" "c \<le> 1" "0 \<le> s" "s \<le> 1" "0 \<le> r" "r \<le> 1" "0 \<le> g" "g \<le> 1" for c s r g :: rat
    using that by linarith
  from this [OF component_bounds] show "0 \<le> ms_overall_score (score_article walk a p ids)"
    "ms_overall_score (score_article walk a p ids) \<le> 1"
    by (simp_all only: score_article_def Let_def match_result.simps)
qed

text \<open>A component is zero only for what an exclusion names.\<close>

lemma category_not_excluded: "\<not> has_excluded_match walk a p ids \<Longrightarrow> 3 / 10 \<le> calculate_category_match (pa_top_level_category a) p"
  by (auto simp: has_excluded_match_def calculate_category_match_def Let_def article_categories_def excluded_categories_of_def term_sets)

lemma region_not_excluded: "\<not> has_excluded_match walk a p ids \<Longrightarrow> 3 / 10 \<le> calculate_region_match (article_regions_for_matching a) p"
  using match_score_bounds(1)
  by (auto simp: has_excluded_match_def calculate_region_match_def Let_def meets_iff region_tokens_normalized matching_regions_idem)

definition no_conflict :: "user_preference \<Rightarrow> bool" where
  "no_conflict p \<longleftrightarrow> \<not> meets (preferred_suppliers_of p) (normalized_terms (up_excluded_suppliers p))"

lemma preferred_normal: "t \<in> set (preferred_suppliers_of p) \<Longrightarrow> lower (strip t) = t \<and> strip t \<noteq> []"
  by (auto simp: preferred_suppliers_of_def term_sets)

lemma supplier_not_excluded:
  assumes "\<not> has_excluded_match walk a p ids" "no_conflict p"
  shows "3 / 10 \<le> calculate_supplier_match (set_union (opt_list (pa_detected_suppliers a)) (supplier_text_matches a (preferred_suppliers_of p))) p ids"
proof -
  let ?names = "normalized_terms (set_union (opt_list (pa_detected_suppliers a)) (supplier_text_matches a (preferred_suppliers_of p)))"
  have "set ?names \<subseteq> set (article_suppliers a) \<union> set (preferred_suppliers_of p)"
    using preferred_normal [of _ p] by (auto simp: term_sets article_suppliers_def supplier_text_matches_def)
  then have "\<not> meets ?names (normalized_terms (up_excluded_suppliers p))"
    using assms by (auto simp: has_excluded_match_def no_conflict_def meets_iff)
  moreover have "\<not> meets ids (excluded_supplier_ids_of p)" using assms(1) by (simp add: has_excluded_match_def)
  ultimately show ?thesis using match_score_bounds(1) by (simp add: calculate_supplier_match_def Let_def)
qed

lemma signal_not_excluded:
  assumes "\<not> has_excluded_match walk a p ids"
  shows "3 / 10 \<le> calculate_signal_match (opt_list (pa_signal_tags a)) (pa_priority_signal a) p (article_signal_context walk a)"
proof -
  let ?ex = "excluded_signals_of p" and ?mine = "expand_signal_terms (opt_list (pa_signal_tags a) @ [str_of_opt (pa_priority_signal a)])"
  have no: "\<not> signal_matches_article walk a ?ex" using assms by (simp add: has_excluded_match_def)
  have sub: "set ?ex \<subseteq> set (expand_signal_terms ?ex)" unfolding excluded_signals_of_def by (rule expand_twice)
  have "set ?mine = set (article_signals a)"
    using expand_append [of "opt_list (pa_signal_tags a)" "[str_of_opt (pa_priority_signal a)]"]
      expand_append [of "[str_of_opt (pa_priority_signal a)]" "opt_list (pa_signal_tags a)"]
    by (simp add: article_signals_def Un_commute)
  then have "\<not> meets ?mine ?ex"
    using no sub by (auto simp: signal_matches_article_def Let_def meets_iff)
  moreover have "\<not> text_matches_signal_terms (article_signal_context walk a) ?ex"
  proof
    assume t: "text_matches_signal_terms (article_signal_context walk a) ?ex"
    then have "expand_signal_terms ?ex \<noteq> []" by (auto simp: text_matches_signal_terms_def Let_def)
    moreover have "text_matches_signal_terms (article_signal_context walk a) (expand_signal_terms ?ex)"
      by (rule text_matches_mono [OF expand_twice t])
    ultimately show False using no by (simp add: signal_matches_article_def Let_def)
  qed
  ultimately show ?thesis using match_score_bounds(1) by (simp add: calculate_signal_match_def Let_def)
qed

lemma included_reaches_threshold:
  assumes "\<not> has_excluded_match walk a p ids" "no_conflict p"
  shows "feed_threshold \<le> ms_overall_score (score_article walk a p ids)"
  using category_not_excluded [OF assms(1)] region_not_excluded [OF assms(1)] supplier_not_excluded [OF assms]
    signal_not_excluded [OF assms(1)]
  by (simp add: score_article_def Let_def feed_threshold_def)

text \<open>
  What generating a feed adds: the scored articles as a selection of the recent ones, with and
  without the fallback preference, and the rows made of them.
\<close>

section \<open>Generation\<close>

lemma in_score_articles: "(a, s) \<in> set (score_articles walk articles p existing ids) \<longleftrightarrow>
    a \<in> set articles \<and> pa_id a \<notin> existing \<and> should_include_article walk a p (ids (pa_id a))
    \<and> s = score_article walk a p (ids (pa_id a)) \<and> feed_threshold \<le> ms_overall_score s"
  by (auto simp: score_articles_def in_map_filter Let_def split: if_splits)

lemma score_articles_fst: "map fst (score_articles walk articles p existing ids) =
    filter (\<lambda>a. pa_id a \<notin> existing \<and> should_include_article walk a p (ids (pa_id a))
      \<and> feed_threshold \<le> ms_overall_score (score_article walk a p (ids (pa_id a)))) articles"
  by (induction articles) (auto simp: score_articles_def List.map_filter_simps Let_def)

lemma included_not_excluded: "should_include_article walk a p ids \<Longrightarrow> \<not> has_excluded_match walk a p ids"
  by (simp add: should_include_article_def split: if_splits)

lemma score_articles_no_conflict: "no_conflict p \<Longrightarrow> map fst (score_articles walk articles p existing ids) =
    filter (\<lambda>a. pa_id a \<notin> existing \<and> should_include_article walk a p (ids (pa_id a))) articles"
  unfolding score_articles_fst
  by (rule filter_cong) (auto dest: included_not_excluded intro: included_reaches_threshold)

lemma canonical_list_Nil [simp]: "canonical_category_list [] = []"
  by (simp add: canonical_category_list_def)

lemma normalized_Nil [simp]: "normalized_terms [] = []"
  by (simp add: normalized_terms_def)

lemma region_tokens_Nil [simp]: "region_tokens [] = []"
  by (simp add: region_tokens_def)

lemma meets_Nil [simp]: "\<not> meets [] xs" "\<not> meets xs []"
  by (auto simp: meets_iff)

lemma fallback_excludes: "has_excluded_match walk a (fallback_preference uid p) ids = has_excluded_match walk a p []"
  by (simp add: has_excluded_match_def fallback_preference_def new_preference_def excluded_supplier_ids_of_def
      excluded_categories_of_def excluded_signals_of_def)

lemma fallback_includes: "should_include_article walk a (fallback_preference uid p) ids \<longleftrightarrow> \<not> has_excluded_match walk a p []"
  by (simp add: should_include_article_def fallback_excludes Let_def)
    (simp add: fallback_preference_def new_preference_def preferred_categories_of_def preferred_suppliers_of_def
      preferred_regions_of_def preferred_signals_of_def)

lemma fallback_no_conflict: "no_conflict (fallback_preference uid p)"
  by (simp add: no_conflict_def fallback_preference_def new_preference_def preferred_suppliers_of_def)

lemma fallback_scored: "map fst (score_articles walk articles (fallback_preference uid p) existing ids) =
    filter (\<lambda>a. pa_id a \<notin> existing \<and> \<not> has_excluded_match walk a p []) articles"
  by (simp add: score_articles_no_conflict [OF fallback_no_conflict] fallback_includes)

lemma no_exclusion_weaker: "\<not> has_excluded_match walk a p ids \<Longrightarrow> \<not> has_excluded_match walk a p []"
  by (simp add: has_excluded_match_def)

lemma in_scored_articles: "(a, s) \<in> set (scored_articles walk sdb articles uid p existing) \<Longrightarrow>
    a \<in> set articles \<and> pa_id a \<notin> existing \<and> \<not> has_excluded_match walk a p [] \<and> feed_threshold \<le> ms_overall_score s
    \<and> ms_overall_score s \<le> 1"
proof -
  assume mem: "(a, s) \<in> set (scored_articles walk sdb articles uid p existing)"
  let ?ids = "supplier_ids_by_article sdb (pa_id a)"
  obtain q where q: "a \<in> set articles" "pa_id a \<notin> existing" "should_include_article walk a q ?ids" "s = score_article walk a q ?ids"
    "feed_threshold \<le> ms_overall_score s" "q = p \<or> q = fallback_preference uid p"
    using mem unfolding scored_articles_def Let_def by (auto simp: in_score_articles split: if_splits)
  have "\<not> has_excluded_match walk a p []"
    using q(3,6) fallback_includes [of walk a uid p ?ids] no_exclusion_weaker [OF included_not_excluded] by blast
  then show ?thesis using q score_bounds(2) by simp
qed

lemma scored_sublist: "\<exists>q. map fst (scored_articles walk sdb articles uid p existing) = filter q articles"
  by (auto simp: scored_articles_def Let_def score_articles_fst)

lemma set_recent: "set (recent_articles cutoff table) = {a \<in> set table. cutoff \<le> pa_processed_at a}"
  by (auto simp: recent_articles_def)

lemma distinct_recent: "distinct (map pa_id table) \<Longrightarrow> distinct (map pa_id (recent_articles cutoff table))"
proof -
  assume "distinct (map pa_id table)"
  then have "distinct (filter (\<lambda>a. cutoff \<le> pa_processed_at a) table)" "inj_on pa_id {a \<in> set table. cutoff \<le> pa_processed_at a}"
    by (auto simp: distinct_map inj_on_def)
  then show ?thesis by (simp add: distinct_map set_recent) (simp add: recent_articles_def)
qed

lemma generate_feed_entries:
  assumes "generate_feed_seen walk seen sdb table clock uid limit window db = ((entries, matched, considered), db')"
  obtains scored where
    "scored = sort_key (\<lambda>(a, s). - ms_overall_score s) (scored_articles walk sdb (recent_articles (clock 0 - window) table) uid
       (case get_preference uid db of Some p \<Rightarrow> p | None \<Rightarrow> new_preference uid) (existing_articles uid seen))"
    and "entries = map (\<lambda>(rank, a, s). feed_row uid (clock rank) a s) (enumerate 1 (take limit scored))"
    and "matched = length scored" and "considered = length (recent_articles (clock 0 - window) table)"
    and "db' = db\<lparr>fd_feed := fd_feed db @ entries\<rparr>"
proof -
  note e = assms [unfolded generate_feed_seen_def Let_def prod.inject]
  note e1 = conjunct1 [OF conjunct1 [OF e]] and e2 = conjunct2 [OF conjunct1 [OF e]]
  show thesis
    by (rule that [OF refl e1 [symmetric] conjunct1 [OF e2, symmetric] conjunct2 [OF e2, symmetric]
        conjunct2 [OF e, unfolded e1, symmetric]])
qed

lemma feed_row_simps [simp]:
  "uf_user_id (feed_row uid t a s) = uid" "uf_processed_article_id (feed_row uid t a s) = pa_id a"
  "uf_rank_score (feed_row uid t a s) = ms_overall_score s" "\<not> uf_is_hidden (feed_row uid t a s)"
  by (simp_all add: feed_row_def)

lemma ids_of_rows: "map uf_processed_article_id (map (\<lambda>(rank, a, s). feed_row uid (clock rank) a s) (enumerate n xs)) = map (pa_id \<circ> fst) xs"
  by (induction xs arbitrary: n) auto

lemma scores_of_rows: "map uf_rank_score (map (\<lambda>(rank, a, s). feed_row uid (clock rank) a s) (enumerate n xs)) = map (ms_overall_score \<circ> snd) xs"
  by (induction xs arbitrary: n) auto

lemma rows_of_list_all: "list_all (\<lambda>(a, s). \<forall>t. P (feed_row uid t a s)) xs \<Longrightarrow>
    list_all P (map (\<lambda>(rank, a, s). feed_row uid (clock rank) a s) (enumerate n xs))"
  by (induction xs arbitrary: n) auto

lemma scores_of_rows_sorted: "sorted (map (\<lambda>(a, s). - ms_overall_score s) scored) \<Longrightarrow>
    sorted (map (\<lambda>f. - uf_rank_score f) (map (\<lambda>(rank, a, s). feed_row uid (clock rank) a s) (enumerate n (take limit scored))))"
proof -
  assume "sorted (map (\<lambda>(a, s). - ms_overall_score s) scored)"
  then have "sorted (map (\<lambda>(a, s). - ms_overall_score s) (take limit scored))" by (simp add: take_map [symmetric] sorted_wrt_take)
  moreover have "map (\<lambda>f. - uf_rank_score f) (map (\<lambda>(rank, a, s). feed_row uid (clock rank) a s) (enumerate n (take limit scored)))
      = map (\<lambda>(a, s). - ms_overall_score s) (take limit scored)"
    using arg_cong [OF scores_of_rows [of uid clock n "take limit scored"], of "map uminus"]
    by (simp add: case_prod_beta' comp_def)
  ultimately show ?thesis by (simp only:)
qed

end
