(* ===== verification/FeedProperties.thy ===== *)
theory FeedProperties
  imports FeedFacts
begin

text \<open>
  What personalization promises: a feed holds an article once, shows exactly what the preference
  admits, and scores within bounds; and where two generations at the same time break that.
\<close>

section \<open>Histories of feeds\<close>

inductive feed_step :: "feed_db \<Rightarrow> feed_db \<Rightarrow> bool" where
  generates: "distinct (map pa_id table) \<Longrightarrow> generate_feed walk sdb table clock uid limit window db = (r, db') \<Longrightarrow> feed_step db db'"
| requests: "distinct (map pa_id table) \<Longrightarrow> get_personalized_feed walk sdb table raws clock uid limit window db = (out, db') \<Longrightarrow> feed_step db db'"
| saves: "create_or_update_preference sdb uid u db = (p, db') \<Longrightarrow> feed_step db db'"
| language: "update_platform_language uid l db = (p, db') \<Longrightarrow> feed_step db db'"
| marks: "mark_article_read aid uid db = (reply, db') \<Longrightarrow> feed_step db db'"

definition entry_key :: "feed_entry \<Rightarrow> string \<times> nat" where
  "entry_key f = (uf_user_id f, uf_processed_article_id f)"

definition feed_inv :: "feed_db \<Rightarrow> bool" where
  "feed_inv db \<longleftrightarrow> distinct (map up_user_id (fd_preferences db)) \<and> distinct (map entry_key (fd_feed db))
     \<and> list_all (\<lambda>f. feed_threshold \<le> uf_rank_score f \<and> uf_rank_score f \<le> 1) (fd_feed db)"

lemma generated_entries_ok:
  assumes "generate_feed_seen walk seen sdb table clock uid limit window db = ((es, m, c), db')" "distinct (map pa_id table)"
  shows "distinct (map uf_processed_article_id es) \<and> length es = min limit m \<and> sorted (map (\<lambda>f. - uf_rank_score f) es)
    \<and> list_all (\<lambda>f. uf_user_id f = uid \<and> feed_threshold \<le> uf_rank_score f \<and> uf_rank_score f \<le> 1
        \<and> uf_processed_article_id f \<notin> existing_articles uid seen) es"
proof (rule generate_feed_entries [OF assms(1)])
  fix scored
  let ?p = "case get_preference uid db of Some p \<Rightarrow> p | None \<Rightarrow> new_preference uid"
  let ?all = "scored_articles walk sdb (recent_articles (clock 0 - window) table) uid ?p (existing_articles uid seen)"
  assume scored: "scored = sort_key (\<lambda>(a, s). - ms_overall_score s) ?all"
    and es: "es = map (\<lambda>(rank, a, s). feed_row uid (clock rank) a s) (enumerate 1 (take limit scored))"
    and m: "m = length scored"
  obtain q where q: "map fst ?all = filter q (recent_articles (clock 0 - window) table)" using scored_sublist by blast
  have "distinct (map pa_id (map fst ?all))"
    unfolding q using distinct_recent [OF assms(2)] by (simp add: distinct_map_filter)
  moreover have "mset (map (pa_id \<circ> fst) scored) = mset (map pa_id (map fst ?all))" by (simp add: scored image_mset.compositionality)
  ultimately have "distinct (map (pa_id \<circ> fst) scored)" using mset_eq_imp_distinct_iff by blast
  then have one: "distinct (map uf_processed_article_id es)" unfolding es ids_of_rows by (simp add: take_map [symmetric] distinct_take)
  have "sorted (map (\<lambda>(a, s). - ms_overall_score s) scored)" unfolding scored by (rule sorted_sort_key)
  then have "sorted (map (\<lambda>f. - uf_rank_score f) es)" unfolding es by (rule scores_of_rows_sorted)
  moreover have "list_all (\<lambda>f. uf_user_id f = uid \<and> feed_threshold \<le> uf_rank_score f \<and> uf_rank_score f \<le> 1
        \<and> uf_processed_article_id f \<notin> existing_articles uid seen) es"
    unfolding es by (rule rows_of_list_all)
      (auto simp: list_all_iff scored dest!: in_set_takeD in_scored_articles)
  moreover have "length es = min limit m" by (simp add: es m)
  ultimately show ?thesis using one by blast
qed

lemma existing_iff: "i \<in> existing_articles uid feed \<longleftrightarrow> (uid, i) \<in> entry_key ` set feed"
  by (auto simp: existing_articles_def entry_key_def image_iff)

lemma generate_inv:
  assumes "generate_feed walk sdb table clock uid limit window db = (r, db')" "distinct (map pa_id table)" "feed_inv db"
  shows "feed_inv db'"
proof -
  obtain es m c where r: "r = (es, m, c)" by (cases r)
  have g: "generate_feed_seen walk (fd_feed db) sdb table clock uid limit window db = ((es, m, c), db')"
    using assms(1) by (simp add: generate_feed_def r)
  have ok: "distinct (map uf_processed_article_id es)" "list_all (\<lambda>f. uf_user_id f = uid \<and> feed_threshold \<le> uf_rank_score f
      \<and> uf_rank_score f \<le> 1 \<and> uf_processed_article_id f \<notin> existing_articles uid (fd_feed db)) es"
    using generated_entries_ok [OF g assms(2)] by simp_all
  have db': "db' = db\<lparr>fd_feed := fd_feed db @ es\<rparr>" by (rule generate_feed_entries [OF g])
  have "map entry_key es = map (Pair uid) (map uf_processed_article_id es)"
    using ok(2) by (auto simp: entry_key_def list_all_iff)
  moreover have "distinct (map (Pair uid) (map uf_processed_article_id es))"
    using ok(1) by (simp add: distinct_map inj_on_def)
  ultimately have "distinct (map entry_key es)" by (simp only:)
  moreover have "entry_key ` set (fd_feed db) \<inter> entry_key ` set es = {}"
    using ok(2) by (fastforce simp: list_all_iff existing_iff entry_key_def)
  ultimately show ?thesis using assms(3) ok(2) by (auto simp: feed_inv_def db' list_all_iff)
qed

lemma entry_key_read [simp]: "entry_key (f\<lparr>uf_is_read := b\<rparr>) = entry_key f"
  by (simp add: entry_key_def)

lemma mark_read_inv: "mark_article_read aid uid db = (reply, db') \<Longrightarrow> feed_inv db \<Longrightarrow> feed_inv db'"
  unfolding mark_article_read_def Let_def feed_inv_def
  by (auto simp: keys_update list_all_update split: nat.splits)

lemma save_inv: "create_or_update_preference sdb uid u db = (p, db') \<Longrightarrow> feed_inv db \<Longrightarrow> feed_inv db'"
  by (auto simp: create_or_update_preference_def Let_def feed_inv_def distinct_put_preference list_all_iff distinct_map_filter)

lemma language_inv: "update_platform_language uid l db = (p, db') \<Longrightarrow> feed_inv db \<Longrightarrow> feed_inv db'"
  by (auto simp: update_platform_language_def Let_def feed_inv_def distinct_put_preference)

lemma feed_step_inv: "feed_step db db' \<Longrightarrow> feed_inv db \<Longrightarrow> feed_inv db'"
proof (induction rule: feed_step.induct)
  case (requests table walk sdb raws clock uid limit window db out db')
  then have "db' = db \<or> (\<exists>r. generate_feed walk sdb table clock uid limit window db = (r, db'))"
    unfolding get_personalized_feed_def Let_def by (auto simp: prod_eq_iff split: if_splits)
  with requests show ?case using generate_inv by blast
qed (simp_all add: generate_inv save_inv language_inv mark_read_inv)

text \<open>C7: A feed holds an article once: however generations, requests for the feed, saved preferences and
  read marks of all users follow one another, no user has an article twice, every score lies between the
  threshold and one, and marking an article as read never meets two entries.\<close>

theorem feed_never_repeats:
  assumes "feed_step\<^sup>*\<^sup>* db db'" "feed_inv db"
  shows "feed_inv db' \<and> fst (mark_article_read aid uid db') \<noteq> SeveralEntries"
proof -
  have inv: "feed_inv db'" using assms by (induction rule: rtranclp_induct) (auto intro: feed_step_inv)
  then have "distinct (map entry_key (fd_feed db'))" by (simp add: feed_inv_def)
  then have "rowcount (\<lambda>f. entry_key f = (uid, aid)) (fd_feed db') \<le> 1" using rowcount_key [of entry_key "fd_feed db'" "(uid, aid)" "\<lambda>_. True"] by (simp split: option.split)
  then have "fst (mark_article_read aid uid db') \<noteq> SeveralEntries"
    by (auto simp: mark_article_read_def Let_def entry_key_def split: nat.split)
  with inv show ?thesis by blast
qed

lemma generated_user:
  assumes "generate_feed_seen walk seen sdb table clock uid limit window db = ((es, m, c), db')"
  shows "list_all (\<lambda>f. uf_user_id f = uid) es"
proof (rule generate_feed_entries [OF assms])
  fix scored :: "(processed_article \<times> match_result) list"
  assume es: "es = map (\<lambda>(rank, a, s). feed_row uid (clock rank) a s) (enumerate 1 (take limit scored))"
  show ?thesis unfolding es by (rule rows_of_list_all) (simp add: list_all_iff case_prod_beta')
qed

lemma generated_ids:
  assumes "generate_feed_seen walk seen sdb table clock uid limit window db = ((es, m, c), db')"
  shows "map uf_processed_article_id es = map (pa_id \<circ> fst) (take limit (sort_key (\<lambda>(a, s). - ms_overall_score s)
    (scored_articles walk sdb (recent_articles (clock 0 - window) table) uid
      (case get_preference uid db of Some p \<Rightarrow> p | None \<Rightarrow> new_preference uid) (existing_articles uid seen))))"
  by (rule generate_feed_entries [OF assms]) (simp only: ids_of_rows)

text \<open>Two generations that both read the feed before either wrote it each add the same articles; reading
  one of them then fails.\<close>

lemma concurrent_feeds_collide:
  assumes "generate_feed_seen walk (fd_feed db) sdb table clock uid limit window db = ((es, m, c), db1)"
    and "generate_feed_seen walk (fd_feed db) sdb table clock' uid limit window db1 = ((es', m', c'), db2)"
    and "clock' 0 = clock 0" "f \<in> set es"
  shows "fst (mark_article_read (uf_processed_article_id f) uid db2) = SeveralEntries"
proof -
  let ?p = "\<lambda>e. uf_user_id e = uid \<and> uf_processed_article_id e = uf_processed_article_id f"
  have d1: "db1 = db\<lparr>fd_feed := fd_feed db @ es\<rparr>" and d2: "db2 = db1\<lparr>fd_feed := fd_feed db1 @ es'\<rparr>"
    by (rule generate_feed_entries [OF assms(1)], assumption, rule generate_feed_entries [OF assms(2)])
  have pref: "get_preference uid db1 = get_preference uid db" by (simp add: d1 get_preference_def)
  have same: "map uf_processed_article_id es' = map uf_processed_article_id es"
    using generated_ids [OF assms(1)] generated_ids [OF assms(2)] by (simp add: pref assms(3))
  have user: "\<forall>e \<in> set es. uf_user_id e = uid" "\<forall>e \<in> set es'. uf_user_id e = uid"
    using generated_user [OF assms(1)] generated_user [OF assms(2)] by (simp_all add: list_all_iff)
  have "f \<in> set (filter ?p es)" using assms(4) user(1) by simp
  moreover obtain g where "g \<in> set (filter ?p es')"
  proof -
    have "uf_processed_article_id f \<in> set (map uf_processed_article_id es')" unfolding same using assms(4) by simp
    with user(2) show thesis using that by auto
  qed
  ultimately have "filter ?p es \<noteq> []" "filter ?p es' \<noteq> []" by (metis empty_iff empty_set)+
  then have "1 \<le> length (filter ?p es)" "1 \<le> length (filter ?p es')" by (simp_all add: Suc_le_eq)
  then have "2 \<le> rowcount ?p (fd_feed db2)" by (simp add: d1 d2 rowcount_def)
  then show ?thesis by (auto simp: mark_article_read_def Let_def numeral_2_eq_2 split: nat.split)
qed

section \<open>What is shown\<close>

definition feed_news :: "string \<Rightarrow> feed_db \<Rightarrow> datetime \<Rightarrow> processed_article list \<Rightarrow> processed_article list" where
  "feed_news uid db cutoff table = filter (\<lambda>a. pa_id a \<notin> existing_articles uid (fd_feed db)) (recent_articles cutoff table)"

definition feed_selection ::
  "(string list \<Rightarrow> string list) \<Rightarrow> supplier_db \<Rightarrow> user_preference \<Rightarrow> processed_article list \<Rightarrow> processed_article list" where
  "feed_selection walk sdb p news =
     (let wanted = filter (\<lambda>a. should_include_article walk a p (supplier_ids_by_article sdb (pa_id a))) news
      in if wanted \<noteq> [] then wanted else filter (\<lambda>a. \<not> has_excluded_match walk a p []) news)"

text \<open>The score an article of the selection is ranked by: under the preference, or under the fallback
  when the preference includes nothing.\<close>

definition feed_score ::
  "(string list \<Rightarrow> string list) \<Rightarrow> supplier_db \<Rightarrow> string \<Rightarrow> user_preference \<Rightarrow> processed_article list \<Rightarrow> processed_article \<Rightarrow> rat" where
  "feed_score walk sdb uid p news a =
     (let wanted = filter (\<lambda>a. should_include_article walk a p (supplier_ids_by_article sdb (pa_id a))) news;
          q = (if wanted \<noteq> [] then p else fallback_preference uid p)
      in ms_overall_score (score_article walk a q (supplier_ids_by_article sdb (pa_id a))))"

lemma score_articles_in:
  "(a, s) \<in> set (score_articles walk articles p existing ids) \<Longrightarrow> s = score_article walk a p (ids (pa_id a))"
  by (auto simp: score_articles_def map_filter_def Let_def split: if_splits)

lemma scored_selection: "no_conflict p \<Longrightarrow> map fst (scored_articles walk sdb articles uid p existing)
    = feed_selection walk sdb p (filter (\<lambda>a. pa_id a \<notin> existing) articles)"
proof -
  assume nc: "no_conflict p"
  let ?first = "score_articles walk articles p existing (supplier_ids_by_article sdb)"
  let ?news = "filter (\<lambda>a. pa_id a \<notin> existing) articles"
  let ?wanted = "filter (\<lambda>a. should_include_article walk a p (supplier_ids_by_article sdb (pa_id a))) ?news"
  have f: "map fst ?first = ?wanted" unfolding score_articles_no_conflict [OF nc] by (simp add: conj_commute)
  then have empty: "?first = [] \<longleftrightarrow> ?wanted = []" by (metis list.map_disc_iff)
  have fb: "map fst (score_articles walk articles (fallback_preference uid p) existing (supplier_ids_by_article sdb))
      = filter (\<lambda>a. \<not> has_excluded_match walk a p []) ?news"
    unfolding fallback_scored by (simp add: conj_commute)
  show ?thesis
    unfolding scored_articles_def feed_selection_def Let_def using f fb empty by (auto simp del: filter_filter)
qed

lemma scored_score:
  assumes "no_conflict p" "(a, s) \<in> set (scored_articles walk sdb articles uid p existing)"
  shows "ms_overall_score s = feed_score walk sdb uid p (filter (\<lambda>a. pa_id a \<notin> existing) articles) a"
proof -
  let ?first = "score_articles walk articles p existing (supplier_ids_by_article sdb)"
  let ?wanted = "filter (\<lambda>a. should_include_article walk a p (supplier_ids_by_article sdb (pa_id a)))
    (filter (\<lambda>a. pa_id a \<notin> existing) articles)"
  have "map fst ?first = ?wanted" unfolding score_articles_no_conflict [OF assms(1)] by (simp add: conj_commute)
  then have empty: "?first = [] \<longleftrightarrow> ?wanted = []" by (metis list.map_disc_iff)
  show ?thesis
  proof (cases "?first = []")
    case True
    then have "(a, s) \<in> set (score_articles walk articles (fallback_preference uid p) existing (supplier_ids_by_article sdb))"
      using assms(2) by (simp add: scored_articles_def)
    then show ?thesis using True empty score_articles_in by (auto simp: feed_score_def Let_def simp del: filter_filter)
  next
    case False
    then have "(a, s) \<in> set ?first" using assms(2) by (simp add: scored_articles_def)
    then show ?thesis using False empty score_articles_in by (auto simp: feed_score_def Let_def simp del: filter_filter)
  qed
qed

lemma entry_scored:
  assumes "f \<in> set (map (\<lambda>(rank, a, s). feed_row uid (clock rank) a s) (enumerate 1 ys))"
  shows "\<exists>a s. (a, s) \<in> set ys \<and> uf_processed_article_id f = pa_id a \<and> uf_rank_score f = ms_overall_score s"
proof -
  obtain n a s where "(n, a, s) \<in> set (enumerate 1 ys)" "f = feed_row uid (clock n) a s" using assms by auto
  moreover from this(1) have "(a, s) \<in> set ys" by (auto simp: enumerate_eq_zip dest: set_zip_rightD)
  ultimately show ?thesis by (auto simp: feed_row_def)
qed

lemma sorted_take_drop:
  assumes "sorted (map f xs)" "x \<in> set (take n xs)" "y \<in> set (drop n xs)"
  shows "f x \<le> f y"
proof -
  have "sorted (map f (take n xs @ drop n xs))" using assms(1) by simp
  then show ?thesis using assms(2,3) unfolding map_append sorted_append by simp
qed

text \<open>C8: The feed of a user with a preference shows exactly what it admits. Of the recent articles the user does not have
  yet, those the preference includes are counted and the best of them added, best first, up to the limit: each
  added entry carries the score of its article, and no article left out scores more than one added;
  the score threshold keeps none of them out unless the preference wants and excludes the same supplier.
  When nothing is included, the articles that no exclusion by name, category, region or signal hits are
  taken instead: an exclusion known only by the identity of the supplier does not count there.\<close>

theorem feed_selection_exact:
  assumes "generate_feed walk sdb table clock uid limit window db = ((entries, matched, considered), db')"
    and "get_preference uid db = Some p" "no_conflict p"
    and "news = feed_news uid db (clock 0 - window) table" "selection = feed_selection walk sdb p news"
  shows "matched = length selection \<and> length entries = min limit (length selection)
    \<and> list_all (\<lambda>f. \<exists>a \<in> set selection. uf_processed_article_id f = pa_id a \<and> uf_rank_score f = feed_score walk sdb uid p news a) entries
    \<and> (\<forall>a \<in> set selection. \<forall>f \<in> set entries.
         pa_id a \<in> uf_processed_article_id ` set entries \<or> feed_score walk sdb uid p news a \<le> uf_rank_score f)
    \<and> (length selection \<le> limit \<longrightarrow> mset (map uf_processed_article_id entries) = mset (map pa_id selection))
    \<and> sorted (map (\<lambda>f. - uf_rank_score f) entries) \<and> fd_feed db' = fd_feed db @ entries
    \<and> considered = length (recent_articles (clock 0 - window) table)"
proof (rule generate_feed_entries [OF assms(1) [unfolded generate_feed_def]])
  fix scored
  let ?all = "scored_articles walk sdb (recent_articles (clock 0 - window) table) uid p (existing_articles uid (fd_feed db))"
  assume sc: "scored = sort_key (\<lambda>(a, s). - ms_overall_score s) (scored_articles walk sdb (recent_articles (clock 0 - window) table) uid
       (case get_preference uid db of Some p \<Rightarrow> p | None \<Rightarrow> new_preference uid) (existing_articles uid (fd_feed db)))"
    and es: "entries = map (\<lambda>(rank, a, s). feed_row uid (clock rank) a s) (enumerate 1 (take limit scored))"
    and m: "matched = length scored" "considered = length (recent_articles (clock 0 - window) table)"
    and db': "db' = db\<lparr>fd_feed := fd_feed db @ entries\<rparr>"
  have scored: "scored = sort_key (\<lambda>(a, s). - ms_overall_score s) ?all" using sc by (simp add: assms(2))
  have sel: "map fst ?all = selection" using scored_selection [OF assms(3)] assms(4,5) by (simp add: feed_news_def)
  have score: "ms_overall_score s = feed_score walk sdb uid p news a" "a \<in> set selection" if "(a, s) \<in> set scored" for a s
  proof -
    have "(a, s) \<in> set ?all" using that by (simp add: scored)
    then show "ms_overall_score s = feed_score walk sdb uid p news a" "a \<in> set selection"
      using scored_score [OF assms(3)] sel by (force simp: assms(4) feed_news_def)+
  qed
  have ids: "mset (map (pa_id \<circ> fst) scored) = mset (map pa_id selection)"
    by (simp add: scored sel [symmetric] image_mset.compositionality)
  have len: "length scored = length selection" by (metis ids length_map size_mset)
  have eids: "map uf_processed_article_id entries = take limit (map (pa_id \<circ> fst) scored)"
    unfolding es ids_of_rows by (simp add: take_map)
  have entry: "\<exists>a s. (a, s) \<in> set (take limit scored) \<and> uf_processed_article_id f = pa_id a \<and> uf_rank_score f = ms_overall_score s"
    if "f \<in> set entries" for f
    using that unfolding es by (rule entry_scored)
  have "list_all (\<lambda>f. \<exists>a \<in> set selection. uf_processed_article_id f = pa_id a \<and> uf_rank_score f = feed_score walk sdb uid p news a) entries"
    unfolding list_all_iff
  proof
    fix f assume "f \<in> set entries"
    from entry [OF this] obtain a s where "(a, s) \<in> set (take limit scored)" "uf_processed_article_id f = pa_id a"
      "uf_rank_score f = ms_overall_score s" by blast
    then show "\<exists>a \<in> set selection. uf_processed_article_id f = pa_id a \<and> uf_rank_score f = feed_score walk sdb uid p news a"
      using score [OF in_set_takeD] by (intro bexI [of _ a]) simp_all
  qed
  moreover have "pa_id a \<in> uf_processed_article_id ` set entries \<or> feed_score walk sdb uid p news a \<le> uf_rank_score f"
    if a: "a \<in> set selection" and f: "f \<in> set entries" for a f
  proof -
    have "fst ` set scored = set selection" unfolding sel [symmetric] scored by simp
    then obtain s where as: "(a, s) \<in> set scored" using a by fastforce
    show ?thesis
    proof (cases "(a, s) \<in> set (take limit scored)")
      case True
      then have "pa_id a \<in> set (take limit (map (pa_id \<circ> fst) scored))" by (force simp: take_map)
      then show ?thesis unfolding eids [symmetric] by simp
    next
      case False
      then have late: "(a, s) \<in> set (drop limit scored)" using as by (metis append_take_drop_id in_set_conv_decomp Un_iff set_append)
      obtain b r where br: "(b, r) \<in> set (take limit scored)" "uf_rank_score f = ms_overall_score r" using entry [OF f] by blast
      have "sorted (map (\<lambda>(a, s). - ms_overall_score s) scored)" unfolding scored by (rule sorted_sort_key)
      from sorted_take_drop [OF this br(1) late] have "- ms_overall_score r \<le> - ms_overall_score s" by simp
      then show ?thesis using br(2) score(1) [OF as] by simp
    qed
  qed
  moreover have "length selection \<le> limit \<longrightarrow> mset (map uf_processed_article_id entries) = mset (map pa_id selection)"
    using ids unfolding eids by (simp add: len)
  moreover have "sorted (map (\<lambda>(a, s). - ms_overall_score s) scored)" unfolding scored by (rule sorted_sort_key)
  then have "sorted (map (\<lambda>f. - uf_rank_score f) entries)" unfolding es by (rule scores_of_rows_sorted)
  ultimately show ?thesis using m len db' by (simp add: es list_all_iff)
qed

section \<open>An example\<close>

definition demo_article :: "nat \<Rightarrow> string \<Rightarrow> string \<Rightarrow> processed_article" where
  "demo_article i heading category = \<lparr>pa_id = i, pa_raw_article_id = i, pa_normalized_title = heading, pa_summary = [],
     pa_top_level_category = category, pa_signal_tags = None, pa_priority_signal = None, pa_detected_regions = None,
     pa_detected_suppliers = None, pa_detected_categories = None, pa_signal_score = 0, pa_processing_status = ''completed'',
     pa_llm_model = None, pa_language = ''en'', pa_processed_at = 1000, pa_risk_event_checked_at = None,
     pa_enrichment_method = None, pa_enrichment_reason = None, pa_policy_version = None, pa_content_fingerprint = None,
     pa_deterministic_confidence = None, pa_llm_used = False\<rparr>"

definition demo_update :: preference_update where
  "demo_update = \<lparr>pu_preferred_categories = Some [''Oil''], pu_preferred_suppliers = None, pu_preferred_regions = None,
     pu_preferred_signals = None, pu_excluded_categories = None, pu_excluded_suppliers = None, pu_excluded_regions = None,
     pu_excluded_signals = None, pu_excluded_topics = None, pu_platform_language = ''DE''\<rparr>"

definition demo_feed_db :: feed_db where
  "demo_feed_db = \<lparr>fd_preferences = [], fd_feed = [feed_row ''ann'' 900 (demo_article 1 ''Gas'' ''energy'')
     \<lparr>ms_overall_score = 1 / 2, ms_category_match = 1, ms_supplier_match = 1 / 2, ms_region_match = 1 / 2, ms_signal_match = 1 / 2\<rparr>]\<rparr>"

lemma demo_feed_inv: "feed_inv demo_feed_db"
  by (simp add: feed_inv_def demo_feed_db_def feed_threshold_def)

lemma feed_never_repeats_witness:
  "fst (mark_article_read 1 ''ann'' (snd (generate_feed id empty_suppliers [demo_article 1 ''Gas'' ''energy''] (\<lambda>_. 1000) ''ann'' 5 (days 1) demo_feed_db)))
    \<noteq> SeveralEntries"
proof -
  let ?g = "generate_feed id empty_suppliers [demo_article 1 ''Gas'' ''energy''] (\<lambda>_. 1000) ''ann'' 5 (days 1) demo_feed_db"
  have "distinct (map pa_id [demo_article 1 ''Gas'' ''energy''])" by simp
  then have "feed_step demo_feed_db (snd ?g)" by (rule feed_step.generates [OF _ prod.collapse [symmetric]])
  then have "feed_step\<^sup>*\<^sup>* demo_feed_db (snd ?g)" by (rule r_into_rtranclp)
  from feed_never_repeats [OF this demo_feed_inv] show ?thesis by blast
qed

definition demo_chosen :: user_preference where
  "demo_chosen = created_preference ''ann'' demo_update"

definition demo_chosen_db :: feed_db where
  "demo_chosen_db = \<lparr>fd_preferences = [demo_chosen], fd_feed = []\<rparr>"

lemma demo_selection: "map pa_id (feed_selection id empty_suppliers demo_chosen
    (feed_news ''ann'' demo_chosen_db 0 [demo_article 1 ''Gas'' ''energy'', demo_article 2 ''Wage'' ''labor''])) = [1]"
  by code_simp

lemma feed_selection_exact_witness:
  "fst (snd (fst (generate_feed id empty_suppliers [demo_article 1 ''Gas'' ''energy'', demo_article 2 ''Wage'' ''labor'']
     (\<lambda>_. 1000) ''ann'' 5 1000 demo_chosen_db))) = 1"
proof -
  let ?g = "generate_feed id empty_suppliers [demo_article 1 ''Gas'' ''energy'', demo_article 2 ''Wage'' ''labor''] (\<lambda>_. 1000) ''ann'' 5 1000 demo_chosen_db"
  have g: "?g = ((fst (fst ?g), fst (snd (fst ?g)), snd (snd (fst ?g))), snd ?g)" by simp
  have p: "get_preference ''ann'' demo_chosen_db = Some demo_chosen"
    by (simp add: get_preference_def demo_chosen_db_def row_of_Cons demo_chosen_def)
  have nc: "no_conflict demo_chosen"
    by (simp add: no_conflict_def demo_chosen_def created_preference_def preferred_suppliers_of_def demo_update_def
        new_preference_def list_or_def Let_def)
  have "fst (snd (fst ?g)) = length (feed_selection id empty_suppliers demo_chosen
      (feed_news ''ann'' demo_chosen_db (1000 - 1000) [demo_article 1 ''Gas'' ''energy'', demo_article 2 ''Wage'' ''labor'']))"
    using feed_selection_exact [OF g p nc refl refl] by blast
  then show ?thesis using arg_cong [OF demo_selection, of length] by simp
qed

end
