(* ===== verification/PreferenceApi.thy ===== *)
theory PreferenceApi
  imports Feed AuthService
begin

text \<open>
  \<^verbatim>\<open>api/schemas/preference.py\<close> and \<^verbatim>\<open>api/routers/preferences.py\<close>: what a request for preferences means
  and what is answered. A field of the request may be missing, null, one text or a list of texts;
  \<open>None\<close> for a reply is the validation error.
\<close>

datatype request_field = Absent | Null | Single string | Items "string list"

definition normalize_list :: "string list \<Rightarrow> string list" where
  "normalize_list items = foldl (\<lambda>xs i. let s = lower (strip i) in if s \<noteq> [] \<and> s \<notin> set xs then xs @ [s] else xs) [] items"

definition field_value :: "request_field \<Rightarrow> string list option" where
  "field_value f = (case f of Absent \<Rightarrow> None | Null \<Rightarrow> Some (normalize_list [])
     | Single s \<Rightarrow> Some (normalize_list [s]) | Items xs \<Rightarrow> Some (normalize_list xs))"

definition normalize_language_field :: "string option \<Rightarrow> string option" where
  "normalize_language_field l = (let s = clean_language (str_or l ''en'') in
     if 2 \<le> length s \<and> length s \<le> 10 then Some s else None)"

record preference_request =
  pq_interested_categories :: request_field
  pq_interested_suppliers :: request_field
  pq_interested_regions :: request_field
  pq_interested_signals :: request_field
  pq_excluded_categories :: request_field
  pq_excluded_suppliers :: request_field
  pq_excluded_regions :: request_field
  pq_excluded_signals :: request_field
  pq_platform_language :: "string option"

definition preference_update_of :: "preference_request \<Rightarrow> preference_update option" where
  "preference_update_of q = (case normalize_language_field (pq_platform_language q) of
       None \<Rightarrow> None
     | Some l \<Rightarrow> Some \<lparr>pu_preferred_categories = field_value (pq_interested_categories q),
         pu_preferred_suppliers = field_value (pq_interested_suppliers q),
         pu_preferred_regions = field_value (pq_interested_regions q),
         pu_preferred_signals = field_value (pq_interested_signals q),
         pu_excluded_categories = field_value (pq_excluded_categories q),
         pu_excluded_suppliers = field_value (pq_excluded_suppliers q),
         pu_excluded_regions = field_value (pq_excluded_regions q),
         pu_excluded_signals = field_value (pq_excluded_signals q),
         pu_excluded_topics = None, pu_platform_language = l\<rparr>)"

record preference_response =
  pr_user_id :: string
  pr_interested_categories :: "string list"
  pr_interested_suppliers :: "string list"
  pr_interested_regions :: "string list"
  pr_interested_signals :: "string list"
  pr_excluded_categories :: "string list"
  pr_excluded_suppliers :: "string list"
  pr_excluded_regions :: "string list"
  pr_excluded_signals :: "string list"
  pr_platform_language :: string

definition preference_to_response :: "user_preference \<Rightarrow> preference_response" where
  "preference_to_response p = \<lparr>pr_user_id = up_user_id p,
     pr_interested_categories = canonical_category_list (up_preferred_categories p),
     pr_interested_suppliers = up_preferred_suppliers p, pr_interested_regions = up_preferred_regions p,
     pr_interested_signals = up_preferred_signals p,
     pr_excluded_categories = canonical_category_list (up_excluded_categories p),
     pr_excluded_suppliers = up_excluded_suppliers p, pr_excluded_regions = up_excluded_regions p,
     pr_excluded_signals = up_excluded_signals p,
     pr_platform_language = (if up_platform_language p = [] then ''en'' else up_platform_language p)\<rparr>"

definition update_preferences ::
  "supplier_db \<Rightarrow> authenticated_user \<Rightarrow> preference_request \<Rightarrow> feed_db \<Rightarrow> preference_response option \<times> feed_db" where
  "update_preferences sdb u q db = (case preference_update_of q of
       None \<Rightarrow> (None, db)
     | Some upd \<Rightarrow> (let (p, db') = create_or_update_preference sdb (au_public_id u) upd db
                   in (Some (preference_to_response p), db')))"

definition update_preference_language ::
  "authenticated_user \<Rightarrow> string option \<Rightarrow> feed_db \<Rightarrow> preference_response option \<times> feed_db" where
  "update_preference_language u l db = (case normalize_language_field l of
       None \<Rightarrow> (None, db)
     | Some lang \<Rightarrow> (let (p, db') = update_platform_language (au_public_id u) lang db
                    in (Some (preference_to_response p), db')))"

text \<open>\<open>None\<close> is the answer that there are no preferences.\<close>

definition get_preferences :: "authenticated_user \<Rightarrow> feed_db \<Rightarrow> preference_response option" where
  "get_preferences u db = map_option preference_to_response (get_preference (au_public_id u) db)"

end
