(* ===== verification/EnrichmentPolicy.thy ===== *)
theory EnrichmentPolicy
  imports JsonText
begin

text \<open>
  \<^verbatim>\<open>enrichment/policy.py\<close> and \<^verbatim>\<open>enrichment/router.py\<close>: the policy of a run read from its environment,
  the budget of calls and tokens within a run, and the choice of a route. A \<^verbatim>\<open>ValueError\<close> is the
  left side of a sum or \<open>None\<close>; floats are rational numbers, and a numeral that denotes infinity or
  no number is refused like a text that is no numeral, since both end in that error. Numerals
  with underscores are left out. The lock makes each operation of the budget atomic.
\<close>

section \<open>Reading numerals\<close>

definition signed :: "string \<Rightarrow> bool \<times> string" where
  "signed s = (case s of [] \<Rightarrow> (False, []) | c # t \<Rightarrow> if c = CHR ''-'' then (True, t) else if c = CHR ''+'' then (False, t) else (False, s))"

definition py_int :: "string \<Rightarrow> int option" where
  "py_int raw = (let (negative, ds) = signed (strip raw) in
     if ds \<noteq> [] \<and> list_all is_digit ds then Some (if negative then - int (str_nat ds) else int (str_nat ds)) else None)"

definition power10 :: "int \<Rightarrow> rat" where
  "power10 e = (if 0 \<le> e then 10 ^ nat e else 1 / 10 ^ nat (- e))"

definition py_float :: "string \<Rightarrow> rat option" where
  "py_float raw = (let (negative, body) = signed (strip raw);
       whole = takeWhile is_digit body; r1 = dropWhile is_digit body;
       (frac, r2) = (case r1 of c # t \<Rightarrow> if c = CHR ''.'' then (takeWhile is_digit t, dropWhile is_digit t) else ([], r1) | [] \<Rightarrow> ([], []));
       ex = (case r2 of [] \<Rightarrow> Some 0 | c # t \<Rightarrow> if to_lower c = CHR ''e'' then
               (let (down, ds) = signed t in if ds \<noteq> [] \<and> list_all is_digit ds
                 then Some (if down then - int (str_nat ds) else int (str_nat ds)) else None) else None)
     in if whole = [] \<and> frac = [] then None
        else case ex of None \<Rightarrow> None
        | Some e \<Rightarrow> (let v = of_nat (str_nat (whole @ frac)) * power10 (e - int (length frac)) in Some (if negative then - v else v)))"

section \<open>The policy\<close>

record enrichment_policy =
  ep_min_relevance :: rat
  ep_min_deterministic_confidence :: rat
  ep_max_llm_calls :: int
  ep_max_llm_tokens :: int
  ep_summary_max_chars :: int
  ep_policy_version :: string
  ep_taxonomy_version :: string
  ep_min_fallback_confidence :: rat

definition unit_score :: "rat \<Rightarrow> bool" where
  "unit_score v \<longleftrightarrow> 0 \<le> v \<and> v \<le> 1"

definition validate_policy :: "enrichment_policy \<Rightarrow> string + enrichment_policy" where
  "validate_policy p =
     (if \<not> unit_score (ep_min_relevance p) then Inl ''min_relevance must be between 0 and 1''
      else if \<not> unit_score (ep_min_deterministic_confidence p) then Inl ''min_deterministic_confidence must be between 0 and 1''
      else if \<not> unit_score (ep_min_fallback_confidence p) then Inl ''min_fallback_confidence must be between 0 and 1''
      else if ep_min_deterministic_confidence p < ep_min_fallback_confidence p
        then Inl ''min_fallback_confidence cannot exceed min_deterministic_confidence''
      else if ep_max_llm_calls p \<le> 0 then Inl ''max_llm_calls must be a positive integer''
      else if ep_max_llm_tokens p \<le> 0 then Inl ''max_llm_tokens must be a positive integer''
      else if ep_summary_max_chars p \<le> 0 then Inl ''summary_max_chars must be a positive integer''
      else Inr p)"

definition read_float :: "(string \<rightharpoonup> string) \<Rightarrow> string \<Rightarrow> rat \<Rightarrow> string + rat" where
  "read_float environ name preset = (case environ name of None \<Rightarrow> Inr preset
     | Some raw \<Rightarrow> (case py_float raw of None \<Rightarrow> Inl (name @ '' must be a number'') | Some v \<Rightarrow> Inr v))"

definition read_int :: "(string \<rightharpoonup> string) \<Rightarrow> string \<Rightarrow> int \<Rightarrow> string + int" where
  "read_int environ name preset = (case environ name of None \<Rightarrow> Inr preset
     | Some raw \<Rightarrow> (case py_int raw of None \<Rightarrow> Inl (name @ '' must be an integer'') | Some v \<Rightarrow> Inr v))"

definition and_then :: "'e + 'a \<Rightarrow> ('a \<Rightarrow> 'e + 'b) \<Rightarrow> 'e + 'b" where
  "and_then x f = (case x of Inl e \<Rightarrow> Inl e | Inr v \<Rightarrow> f v)"

definition policy_from_env :: "(string \<rightharpoonup> string) \<Rightarrow> string + enrichment_policy" where
  "policy_from_env environ =
     and_then (read_float environ ''ENRICH_MIN_RELEVANCE'' (35 / 100)) (\<lambda>relevance.
     and_then (read_float environ ''ENRICH_MIN_DETERMINISTIC_CONFIDENCE'' (72 / 100)) (\<lambda>deterministic.
     and_then (read_int environ ''ENRICH_MAX_LLM_CALLS'' 5) (\<lambda>calls.
     and_then (read_int environ ''ENRICH_MAX_LLM_TOKENS'' 6000) (\<lambda>toks.
     and_then (read_int environ ''ENRICH_SUMMARY_MAX_CHARS'' 420) (\<lambda>chars.
     and_then (read_float environ ''ENRICH_MIN_FALLBACK_CONFIDENCE'' (50 / 100)) (\<lambda>fallback.
     validate_policy \<lparr>ep_min_relevance = relevance, ep_min_deterministic_confidence = deterministic,
       ep_max_llm_calls = calls, ep_max_llm_tokens = toks, ep_summary_max_chars = chars,
       ep_policy_version = (case environ ''ENRICH_POLICY_VERSION'' of Some v \<Rightarrow> v | None \<Rightarrow> ''cost-v1''),
       ep_taxonomy_version = (case environ ''ENRICH_TAXONOMY_VERSION'' of Some v \<Rightarrow> v | None \<Rightarrow> ''signals-v1''),
       ep_min_fallback_confidence = fallback\<rparr>))))))"

section \<open>The budget of a run\<close>

record enrichment_budget =
  eb_max_calls :: int
  eb_max_tokens :: int
  eb_calls_reserved :: int
  eb_tokens_reserved :: int
  eb_tokens_used :: int

definition new_budget :: "int \<Rightarrow> int \<Rightarrow> enrichment_budget option" where
  "new_budget calls toks = (if calls \<le> 0 \<or> toks \<le> 0 then None
     else Some \<lparr>eb_max_calls = calls, eb_max_tokens = toks, eb_calls_reserved = 0, eb_tokens_reserved = 0, eb_tokens_used = 0\<rparr>)"

definition reserve :: "int \<Rightarrow> enrichment_budget \<Rightarrow> (bool \<times> enrichment_budget) option" where
  "reserve estimated b =
     (if estimated \<le> 0 then None
      else if eb_max_calls b \<le> eb_calls_reserved b then Some (False, b)
      else if eb_max_tokens b < eb_tokens_reserved b + estimated then Some (False, b)
      else Some (True, b\<lparr>eb_calls_reserved := eb_calls_reserved b + 1, eb_tokens_reserved := eb_tokens_reserved b + estimated\<rparr>))"

definition record_usage :: "int \<Rightarrow> enrichment_budget \<Rightarrow> enrichment_budget option" where
  "record_usage actual b = (if actual < 0 then None else Some (b\<lparr>eb_tokens_used := eb_tokens_used b + actual\<rparr>))"

section \<open>Routes\<close>

datatype enrichment_route = Cached | Deterministic | Llm | Skipped | Deferred

primrec route_str :: "enrichment_route \<Rightarrow> string" where
  "route_str Cached = ''cached''"
| "route_str Deterministic = ''deterministic''"
| "route_str Llm = ''llm''"
| "route_str Skipped = ''skipped''"
| "route_str Deferred = ''deferred''"

record route_decision =
  rd_route :: enrichment_route
  rd_reason :: string
  rd_confidence :: rat

definition decide_route :: "bool \<Rightarrow> rat \<Rightarrow> rat \<Rightarrow> enrichment_policy \<Rightarrow> bool \<Rightarrow> string + route_decision" where
  "decide_route cache_hit relevance confidence p budget_available =
     (let to = (\<lambda>r why. Inr \<lparr>rd_route = r, rd_reason = why, rd_confidence = confidence\<rparr>) in
      if \<not> unit_score relevance then Inl ''relevance must be between 0 and 1''
      else if \<not> unit_score confidence then Inl ''confidence must be between 0 and 1''
      else if cache_hit then to Cached ''compatible_cache_hit''
      else if relevance < ep_min_relevance p then to Skipped ''below_relevance_threshold''
      else if ep_min_deterministic_confidence p \<le> confidence then to Deterministic ''deterministic_confident''
      else if budget_available then to Llm ''ambiguous_relevant''
      else to Deferred ''llm_budget_exhausted'')"

section \<open>Facts\<close>

lemma and_then_Inr: "and_then x f = Inr r \<longleftrightarrow> (\<exists>v. x = Inr v \<and> f v = Inr r)"
  by (simp add: and_then_def split: sum.split)

lemma validate_policy_Inr: "validate_policy p = Inr q \<longleftrightarrow> q = p \<and> unit_score (ep_min_relevance p)
    \<and> unit_score (ep_min_deterministic_confidence p) \<and> unit_score (ep_min_fallback_confidence p)
    \<and> ep_min_fallback_confidence p \<le> ep_min_deterministic_confidence p
    \<and> 0 < ep_max_llm_calls p \<and> 0 < ep_max_llm_tokens p \<and> 0 < ep_summary_max_chars p"
  by (auto simp: validate_policy_def)

definition policy_ok :: "enrichment_policy \<Rightarrow> bool" where
  "policy_ok p \<longleftrightarrow> validate_policy p = Inr p"

lemma policy_from_env_ok: "policy_from_env environ = Inr p \<Longrightarrow> policy_ok p"
  by (auto simp: policy_from_env_def and_then_Inr policy_ok_def validate_policy_Inr)

definition budget_ok :: "enrichment_budget \<Rightarrow> bool" where
  "budget_ok b \<longleftrightarrow> 0 \<le> eb_calls_reserved b \<and> eb_calls_reserved b \<le> eb_max_calls b
     \<and> 0 \<le> eb_tokens_reserved b \<and> eb_tokens_reserved b \<le> eb_max_tokens b \<and> 0 \<le> eb_tokens_used b"

lemma new_budget_ok: "new_budget c t = Some b \<Longrightarrow> budget_ok b \<and> eb_calls_reserved b = 0 \<and> eb_max_calls b = c \<and> eb_max_tokens b = t"
  by (auto simp: new_budget_def budget_ok_def split: if_splits)

lemma reserve_ok: "reserve e b = Some (r, b') \<Longrightarrow> budget_ok b \<Longrightarrow>
    budget_ok b' \<and> eb_max_calls b' = eb_max_calls b \<and> eb_max_tokens b' = eb_max_tokens b
    \<and> eb_calls_reserved b' = eb_calls_reserved b + (if r then 1 else 0) \<and> (r \<longleftrightarrow> b' \<noteq> b)"
  by (auto simp: reserve_def budget_ok_def split: if_splits dest: arg_cong [of _ _ eb_calls_reserved])

lemma record_usage_ok: "record_usage u b = Some b' \<Longrightarrow> budget_ok b \<Longrightarrow> budget_ok b' \<and> eb_calls_reserved b' = eb_calls_reserved b
    \<and> eb_max_calls b' = eb_max_calls b \<and> eb_max_tokens b' = eb_max_tokens b"
  by (auto simp: record_usage_def budget_ok_def split: if_splits)

end
