(* ===== verification/CategoryFacts.thy ===== *)
theory CategoryFacts
  imports Categories Taxonomy
begin

text \<open>
  The two vocabularies are stable: what \<^verbatim>\<open>canonical_category\<close> returns it returns again, and the terms
  of a set of signals are exactly what aliases and spelling lead to.
\<close>

section \<open>Categories\<close>

lemma canonical_categories_fixed: "list_all (\<lambda>c. canonical_category c = c) canonical_categories"
  by code_simp

lemma alias_values: "list_all (\<lambda>(a, c). c \<in> set canonical_categories) category_aliases"
  by code_simp

lemma keyword_names: "list_all (\<lambda>(c, ks). c \<in> set canonical_categories) category_keywords" "category_keywords \<noteq> []"
  by code_simp (simp add: category_keywords_def)

lemma best_score_in: "best_score best xs \<in> set (best # xs)"
  by (induction best xs rule: best_score.induct) (auto split: if_splits)

lemma replace_char_id: "c \<notin> set s \<Longrightarrow> replace_char c d s = s"
  by (induction s) (auto simp: replace_char_def)

lemma not_in_replace: "c \<noteq> d \<Longrightarrow> c \<notin> set (replace_char c d s)"
  by (auto simp: replace_char_def)

lemma lower_fixed_chars: "lower s = s \<longleftrightarrow> (\<forall>c \<in> set s. to_lower c = c)"
  by (auto simp: lower_def map_idI intro: map_idI) (metis map_eq_conv map_ident)

lemma normalize_category_idem [simp]: "normalize_category_key (normalize_category_key v) = normalize_category_key v"
proof -
  let ?s = "replace_char (CHR ''_'') (CHR '' '') (replace_char (CHR ''-'') (CHR '' '') (lower (strip v)))"
  let ?k = "join '' '' (words ?s)"
  have chars: "c \<in> set ?k \<Longrightarrow> c = CHR '' '' \<or> c \<in> set ?s" for c
    using set_join [of "'' ''" "words ?s"] set_words by fastforce
  have low: "c \<in> set ?s \<Longrightarrow> to_lower c = c" for c
    by (auto simp: replace_char_def lower_def) (simp_all add: to_lower_def is_upper_nat)
  have "c \<in> set ?k \<Longrightarrow> to_lower c = c" for c using chars low by (fastforce simp: to_lower_def is_upper_nat)
  then have 1: "lower ?k = ?k" by (simp add: lower_fixed_chars)
  have 2: "strip ?k = ?k" by (rule strip_join_words, rule words_are_words)
  have "CHR ''_'' \<notin> set ?s" "CHR ''-'' \<notin> set ?s" by (auto simp: replace_char_def)
  then have 3: "CHR ''_'' \<notin> set ?k" "CHR ''-'' \<notin> set ?k" using chars by fastforce+
  have "words ?k = words ?s" by (rule words_join, rule words_are_words)
  then show ?thesis by (simp add: normalize_category_key_def 1 2 replace_char_id [OF 3(1)] replace_char_id [OF 3(2)])
qed

text \<open>A category settles: the canonical form of a name is its own canonical form, so categories
  compare alike however often they were normalized; and it is one of the article taxonomy, or the
  cleaned name itself when neither an alias nor a keyword knows it.\<close>

theorem categories_settle:
  "canonical_category (canonical_category v) = canonical_category v
    \<and> (canonical_category v \<in> set canonical_categories \<or> canonical_category v = normalize_category_key v)"
proof -
  let ?key = "normalize_category_key v"
  let ?scores = "map (\<lambda>(c, ks). (c, keyword_score (words ?key) ks)) category_keywords"
  let ?best = "best_score (hd ?scores) (tl ?scores)"
  have fixed: "c \<in> set canonical_categories \<Longrightarrow> canonical_category c = c" for c
    using canonical_categories_fixed by (simp add: list_all_iff)
  have unfold: "canonical_category v = (if ?key \<in> set canonical_categories then ?key
      else case map_of category_aliases ?key of Some c \<Rightarrow> c | None \<Rightarrow> if 0 < snd ?best then fst ?best else ?key)"
    by (simp only: canonical_category_def Let_def)
  have "?best \<in> set ?scores" using best_score_in [of "hd ?scores" "tl ?scores"] keyword_names(2) by simp
  then have kw: "fst ?best \<in> set canonical_categories" using keyword_names(1) by (auto simp: list_all_iff)
  consider "canonical_category v \<in> set canonical_categories"
    | "?key \<notin> set canonical_categories" "map_of category_aliases ?key = None" "\<not> 0 < snd ?best" "canonical_category v = ?key"
  proof (cases "map_of category_aliases ?key")
    case None
    show thesis
    proof (cases "?key \<in> set canonical_categories \<or> 0 < snd ?best")
      case True
      with None kw have "canonical_category v \<in> set canonical_categories" unfolding unfold by auto
      then show thesis by (rule that(1))
    next
      case False
      with None have "canonical_category v = ?key" unfolding unfold by simp
      with None False show thesis using that(2) by blast
    qed
  next
    case (Some c)
    then have "c \<in> set canonical_categories" using alias_values by (auto simp: list_all_iff dest: map_of_SomeD)
    with Some have "canonical_category v \<in> set canonical_categories" unfolding unfold by simp
    then show thesis by (rule that(1))
  qed
  then show ?thesis
  proof cases
    case 1
    then show ?thesis using fixed by blast
  next
    case 2
    then have "canonical_category ?key = ?key" by (simp only: canonical_category_def Let_def normalize_category_idem if_False option.case)
    with 2 show ?thesis by simp
  qed
qed

section \<open>Signals\<close>

text \<open>C9: The terms a set of signals stands for are exactly those that spelling variants and alias groups
  lead to from the normalized names, in any number of steps: the loop ends on every input, misses
  none, and adds none; expanding the result again loses nothing, more names never mean fewer terms,
  and the tags kept from any list are distinct members of the vocabulary.\<close>

theorem signal_terms_exact:
  "set (expand_signal_terms names) = alias_step\<^sup>* `` (\<Union>v \<in> set names. set (signal_term_variants (normalize_signal_term v)))
    \<and> set (expand_signal_terms names) \<subseteq> set (expand_signal_terms (expand_signal_terms names))
    \<and> set (expand_signal_terms names) \<subseteq> set (expand_signal_terms (names @ more))
    \<and> set (canonical_signal_tags names) \<subseteq> set valid_signal_tags \<and> distinct (canonical_signal_tags names)"
  using set_expand expand_twice expand_mono [of names "names @ more"] canonical_tags_valid by simp

end
