(* ===== verification/EnrichmentOutput.thy ===== *)
theory EnrichmentOutput
  imports JsonText Categories Taxonomy CategoryFacts
begin

text \<open>
  \<^verbatim>\<open>enrichment/output_parser.py\<close>: the structured result of enrichment, what a JSON object must hold to be
  one, and its way into the cache and back. Field constraints and validators are those the model
  class declares: unknown keys are ignored, a text field takes a string only. \<open>None\<close> is the
  validation error.
\<close>

record enrichment_output =
  eo_summary :: string
  eo_category :: string
  eo_signal_tags :: "string list"
  eo_priority_signal :: "string option"
  eo_detected_suppliers :: "string list"
  eo_detected_regions :: "string list"
  eo_detected_categories :: "string list"

definition validate_category :: "json \<Rightarrow> string" where
  "validate_category v = (case v of
       JStr s \<Rightarrow> (let c = canonical_category (lower s) in if c \<in> set canonical_categories then c else ''general'')
     | _ \<Rightarrow> ''general'')"

definition add_name :: "string list \<Rightarrow> json \<Rightarrow> string list" where
  "add_name names x = (case x of JStr s \<Rightarrow> add_once names (strip s) | _ \<Rightarrow> names)"

definition normalize_entity_list :: "json \<Rightarrow> string list" where
  "normalize_entity_list v = (case v of
       JList xs \<Rightarrow> foldl add_name [] xs
     | _ \<Rightarrow> [])"

fun strings_only :: "json list \<Rightarrow> string list option" where
  "strings_only [] = Some []"
| "strings_only (x # xs) = (case x of JStr s \<Rightarrow> map_option (Cons s) (strings_only xs) | _ \<Rightarrow> None)"

text \<open>A missing field takes its default; the defaults pass no validator.\<close>

definition tags_field :: "json option \<Rightarrow> string list option" where
  "tags_field v = (case v of None \<Rightarrow> Some [] | Some (JList xs) \<Rightarrow> map_option canonical_signal_tags (strings_only xs) | _ \<Rightarrow> None)"

definition priority_field :: "json option \<Rightarrow> string option option" where
  "priority_field v = (case v of None \<Rightarrow> Some None | Some JNull \<Rightarrow> Some None | Some (JStr s) \<Rightarrow> Some (canonical_signal_tag (Some s))
     | _ \<Rightarrow> None)"

definition entity_field :: "json option \<Rightarrow> string list" where
  "entity_field v = (case v of None \<Rightarrow> [] | Some x \<Rightarrow> normalize_entity_list x)"

definition summary_ok :: "string \<Rightarrow> bool" where
  "summary_ok s \<longleftrightarrow> 10 \<le> length s \<and> length s \<le> 1000"

definition validate_output :: "(string \<times> json) list \<Rightarrow> enrichment_output option" where
  "validate_output d =
     (case map_of d ''summary'' of
        Some (JStr summary) \<Rightarrow>
          (if \<not> summary_ok summary then None
           else case map_of d ''category'' of
             None \<Rightarrow> None
           | Some c \<Rightarrow>
               (case (tags_field (map_of d ''signal_tags''), priority_field (map_of d ''priority_signal'')) of
                  (Some tags, Some priority) \<Rightarrow>
                    Some \<lparr>eo_summary = summary, eo_category = validate_category c, eo_signal_tags = tags,
                      eo_priority_signal = priority, eo_detected_suppliers = entity_field (map_of d ''detected_suppliers''),
                      eo_detected_regions = entity_field (map_of d ''detected_regions''),
                      eo_detected_categories = entity_field (map_of d ''detected_categories'')\<rparr>
                | _ \<Rightarrow> None))
      | _ \<Rightarrow> None)"

definition dump_output :: "enrichment_output \<Rightarrow> (string \<times> json) list" where
  "dump_output res = [(''summary'', JStr (eo_summary res)), (''category'', JStr (eo_category res)),
     (''signal_tags'', JList (map JStr (eo_signal_tags res))),
     (''priority_signal'', (case eo_priority_signal res of None \<Rightarrow> JNull | Some s \<Rightarrow> JStr s)),
     (''detected_suppliers'', JList (map JStr (eo_detected_suppliers res))),
     (''detected_regions'', JList (map JStr (eo_detected_regions res))),
     (''detected_categories'', JList (map JStr (eo_detected_categories res)))]"

text \<open>An output made from values of the right types: \<^verbatim>\<open>EnrichmentOutput(...)\<close>.\<close>

definition make_output :: "enrichment_output \<Rightarrow> enrichment_output option" where
  "make_output res = validate_output (dump_output res)"

text \<open>The text from the first opening to the last closing brace.\<close>

definition json_block :: "string \<Rightarrow> string option" where
  "json_block s = (if CHR ''{'' \<notin> set s \<or> CHR ''}'' \<notin> set s then None
     else let i = length (takeWhile (\<lambda>c. c \<noteq> CHR ''{'') s); j = length s - length (takeWhile (\<lambda>c. c \<noteq> CHR ''}'') (rev s))
          in Some (take (j - i) (drop i s)))"

definition parse_output :: "json_codec \<Rightarrow> string \<Rightarrow> enrichment_output option" where
  "parse_output k response = (case json_block response of
       None \<Rightarrow> None
     | Some block \<Rightarrow> (case json_loads k block of Some (JObject d) \<Rightarrow> validate_output d | _ \<Rightarrow> None))"

definition get_fallback :: "string \<Rightarrow> enrichment_output option" where
  "get_fallback heading = make_output \<lparr>eo_summary = ''Article: '' @ take 100 heading, eo_category = ''general'', eo_signal_tags = [],
     eo_priority_signal = None, eo_detected_suppliers = [], eo_detected_regions = [], eo_detected_categories = [''general'']\<rparr>"

section \<open>Facts\<close>

definition clean_names :: "string list \<Rightarrow> bool" where
  "clean_names xs \<longleftrightarrow> distinct xs \<and> list_all (\<lambda>s. strip s = s \<and> s \<noteq> []) xs"

definition output_ok :: "enrichment_output \<Rightarrow> bool" where
  "output_ok res \<longleftrightarrow> summary_ok (eo_summary res) \<and> eo_category res \<in> set canonical_categories
     \<and> set (eo_signal_tags res) \<subseteq> set valid_signal_tags \<and> distinct (eo_signal_tags res)
     \<and> (case eo_priority_signal res of None \<Rightarrow> True | Some t \<Rightarrow> t \<in> set valid_signal_tags)
     \<and> clean_names (eo_detected_suppliers res) \<and> clean_names (eo_detected_regions res) \<and> clean_names (eo_detected_categories res)"

lemma valid_tags_fixed: "list_all (\<lambda>t. canonical_signal_tag (Some t) = Some t \<and> t \<noteq> []) valid_signal_tags"
  by code_simp

lemma categories_lower: "list_all (\<lambda>c. lower c = c) canonical_categories"
  by code_simp

lemma strings_only_JStr [simp]: "strings_only (map JStr xs) = Some xs"
  by (induction xs) simp_all

lemma canonical_tags_fixed: "set ts \<subseteq> set valid_signal_tags \<Longrightarrow> distinct (acc @ ts) \<Longrightarrow>
    foldl (\<lambda>xs v. add_once xs (str_or (canonical_signal_tag (Some v)) [])) acc ts = acc @ ts"
proof (induction ts arbitrary: acc)
  case (Cons t ts)
  have "canonical_signal_tag (Some t) = Some t" "t \<noteq> []" using Cons.prems(1) valid_tags_fixed by (auto simp: list_all_iff)
  then have "add_once acc (str_or (canonical_signal_tag (Some t)) []) = acc @ [t]"
    using Cons.prems(2) by (simp add: add_once_def str_or_def)
  then show ?case using Cons.IH [of "acc @ [t]"] Cons.prems by simp
qed simp

lemma clean_list_step: "list_all (\<lambda>s. strip s = s \<and> s \<noteq> []) xs \<Longrightarrow> distinct (acc @ xs) \<Longrightarrow>
    foldl add_name acc (map JStr xs) = acc @ xs"
  by (induction xs arbitrary: acc) (auto simp: add_once_def add_name_def)

lemma normalize_clean_names: "clean_names xs \<Longrightarrow> normalize_entity_list (JList (map JStr xs)) = xs"
  using clean_list_step [of xs "[]"] by (simp add: clean_names_def normalize_entity_list_def)

lemma clean_add_name: "clean_names names \<Longrightarrow> clean_names (add_name names x)"
  by (cases x) (simp_all add: add_name_def add_once_def clean_names_def)

lemma clean_foldl: "clean_names names \<Longrightarrow> clean_names (foldl add_name names xs)"
  by (induction xs arbitrary: names) (simp_all add: clean_add_name)

lemma clean_Nil [simp]: "clean_names []"
  by (simp add: clean_names_def)

lemma normalized_clean: "clean_names (normalize_entity_list v)"
  by (cases v) (simp_all add: normalize_entity_list_def clean_foldl)

lemma entity_field_clean: "clean_names (entity_field v)"
  by (simp add: entity_field_def normalized_clean split: option.split)

lemma tags_field_ok: "tags_field v = Some ts \<Longrightarrow> set ts \<subseteq> set valid_signal_tags \<and> distinct ts"
  using canonical_tags_valid by (fastforce simp: tags_field_def split: option.splits json.splits)

lemma tags_field_in: "tags_field v = Some ts \<Longrightarrow> x \<in> set ts \<Longrightarrow> x \<in> set valid_signal_tags"
  using tags_field_ok by blast

lemma tags_field_distinct: "tags_field v = Some ts \<Longrightarrow> distinct ts"
  using tags_field_ok by blast

lemma priority_field_ok: "priority_field v = Some p \<Longrightarrow> case p of None \<Rightarrow> True | Some t \<Rightarrow> t \<in> set valid_signal_tags"
  using canonical_tag_valid by (auto simp: priority_field_def split: option.splits json.splits)

lemma validate_category_in: "validate_category v \<in> set canonical_categories"
proof -
  have "''general'' \<in> set canonical_categories" by (simp add: canonical_categories_def)
  then show ?thesis by (auto simp: validate_category_def Let_def split: json.splits)
qed

lemma validate_category_fixed: "c \<in> set canonical_categories \<Longrightarrow> validate_category (JStr c) = c"
  using categories_lower canonical_categories_fixed by (auto simp: validate_category_def Let_def list_all_iff)

lemma validate_output_ok: "validate_output d = Some res \<Longrightarrow> output_ok res"
  unfolding validate_output_def
  by (auto simp: output_ok_def validate_category_in entity_field_clean dest: tags_field_in tags_field_distinct priority_field_ok
      split: option.splits json.splits if_splits)

lemma output_round_trip: "output_ok res \<Longrightarrow> validate_output (dump_output res) = Some res"
proof -
  assume ok: "output_ok res"
  have tags: "canonical_signal_tags (eo_signal_tags res) = eo_signal_tags res"
    using ok canonical_tags_fixed [of "eo_signal_tags res" "[]"] by (simp add: output_ok_def canonical_signal_tags_def)
  have priority: "priority_field (Some (case eo_priority_signal res of None \<Rightarrow> JNull | Some s \<Rightarrow> JStr s)) = Some (eo_priority_signal res)"
    using ok valid_tags_fixed by (auto simp: output_ok_def priority_field_def list_all_iff split: option.splits)
  show ?thesis
    using ok by (simp add: validate_output_def dump_output_def output_ok_def tags_field_def priority tags entity_field_def
        normalize_clean_names validate_category_fixed)
qed

text \<open>
  \<^verbatim>\<open>enrichment/prompts.py\<close>: the prompts of the enrichment, line by line.
\<close>

definition category_text :: string where
  "category_text = join '', '' (sort canonical_categories)"

definition priority_signal_text :: string where
  "priority_signal_text = join '', '' (sort priority_signal_tags)"

definition signal_tag_text :: string where
  "signal_tag_text = join '', '' (sort valid_signal_tags)"

definition system_prompt :: string where
  "system_prompt = join [CHR 0x0A] [
     ''You are an expert procurement analyst. Your task is to analyze news articles about suppliers, supply chains, and procurement topics.'',
     [],
     ''You must respond with ONLY valid JSON. No markdown, no explanations, no extra text.'',
     [],
     ''Your response must be valid JSON that can be parsed by Python'' @ [CHR 0x27] @ ''s json.loads().'',
     [],
     ''Categories: '' @ category_text,
     ''Signal tags: '' @ signal_tag_text,
     ''Priority signals: '' @ priority_signal_text,
     [],
     ''Extract suppliers as company or brand names mentioned in the article.'',
     ''Extract regions as countries, regions, cities, or trade blocs mentioned in the article.'']"

definition get_summarization_prompt :: "string \<Rightarrow> string \<Rightarrow> string \<Rightarrow> string" where
  "get_summarization_prompt heading description content_text = join [CHR 0x0A] [
     ''Analyze this procurement news article and provide:'',
     ''1. A 3-5 sentence factual summary'',
     ''2. Top-level category (one from: '' @ category_text @ '')'',
     ''3. List of signal tags (one or more from: '' @ signal_tag_text @ '')'',
     ''4. Whether this contains a priority signal (one from: '' @ priority_signal_text @ '', or null)'',
     ''5. Suppliers/company names mentioned'',
     ''6. Regions/locations/trade blocs mentioned'',
     ''7. Category tags that apply'',
     [],
     ''Title: '' @ heading,
     ''Description: '' @ description,
     ''Content: '' @ content_text,
     [],
     ''Respond with ONLY this JSON structure:'',
     ''{'',
     ''    '' @ [CHR 0x22] @ ''summary'' @ [CHR 0x22] @ '': '' @ [CHR 0x22] @ ''3-5 sentence summary here'' @ [CHR 0x22] @ '','',
     ''    '' @ [CHR 0x22] @ ''category'' @ [CHR 0x22] @ '': '' @ [CHR 0x22] @ ''category_name'' @ [CHR 0x22] @ '','',
     ''    '' @ [CHR 0x22] @ ''signal_tags'' @ [CHR 0x22] @ '': ['' @ [CHR 0x22] @ ''tag1'' @ [CHR 0x22] @ '', '' @ [CHR 0x22] @ ''tag2'' @ [CHR 0x22] @ ''],'',
     ''    '' @ [CHR 0x22] @ ''priority_signal'' @ [CHR 0x22] @ '': '' @ [CHR 0x22] @ ''signal_name or null'' @ [CHR 0x22] @ '','',
     ''    '' @ [CHR 0x22] @ ''detected_suppliers'' @ [CHR 0x22] @ '': ['' @ [CHR 0x22] @ ''supplier1'' @ [CHR 0x22] @ '', '' @ [CHR 0x22] @ ''supplier2'' @ [CHR 0x22] @ ''],'',
     ''    '' @ [CHR 0x22] @ ''detected_regions'' @ [CHR 0x22] @ '': ['' @ [CHR 0x22] @ ''region1'' @ [CHR 0x22] @ '', '' @ [CHR 0x22] @ ''region2'' @ [CHR 0x22] @ ''],'',
     ''    '' @ [CHR 0x22] @ ''detected_categories'' @ [CHR 0x22] @ '': ['' @ [CHR 0x22] @ ''category1'' @ [CHR 0x22] @ '', '' @ [CHR 0x22] @ ''category2'' @ [CHR 0x22] @ '']'',
     ''}'']"

end
