(* ===== verification/EnrichmentCache.thy ===== *)
theory EnrichmentCache
  imports EnrichmentOutput SqlTable RetrievalTypes
begin

text \<open>
  \<^verbatim>\<open>enrichment/fingerprint.py\<close>, \<^verbatim>\<open>enrichment/cache.py\<close> and \<^verbatim>\<open>models/enrichment.py\<close>: the cache of enrichments
  under fingerprint, policy and taxonomy version. On ASCII text NFKC normalization changes nothing;
  SHA-256 is a parameter. A put that read the table before another worker inserted the same
  identity updates that row: \<open>seen\<close> is the table as it was read.
\<close>

definition normalize_field :: "string option \<Rightarrow> string" where
  "normalize_field v = (case v of None \<Rightarrow> [] | Some s \<Rightarrow> join '' '' (words (lower s)))"

definition content_fingerprint :: "(string \<Rightarrow> string) \<Rightarrow> raw_article \<Rightarrow> string \<Rightarrow> string \<Rightarrow> string" where
  "content_fingerprint sha a policy_version taxonomy_version = sha (json_dumps (JList (map (\<lambda>v. JStr (normalize_field v))
     [Some policy_version, Some taxonomy_version, Some (ra_language a), Some (ra_title a), ra_description a, ra_content_snippet a])))"

record cache_entry =
  ce_fingerprint :: string
  ce_policy_version :: string
  ce_taxonomy_version :: string
  ce_payload :: "(string \<times> json) list"
  ce_original_method :: string
  ce_hit_count :: nat

definition ce_key :: "cache_entry \<Rightarrow> string \<times> string \<times> string" where
  "ce_key e = (ce_fingerprint e, ce_policy_version e, ce_taxonomy_version e)"

definition allowed_methods :: "string list" where
  "allowed_methods = [''deterministic'', ''llm'']"

record cached_enrichment =
  cx_output :: enrichment_output
  cx_original_method :: string

definition cache_get :: "string \<times> string \<times> string \<Rightarrow> cache_entry list \<Rightarrow> cached_enrichment option \<times> cache_entry list" where
  "cache_get k t = (case row_of ce_key t k of
       None \<Rightarrow> (None, t)
     | Some e \<Rightarrow> (case validate_output (ce_payload e) of
         None \<Rightarrow> (None, t)
       | Some res \<Rightarrow> (Some \<lparr>cx_output = res, cx_original_method = ce_original_method e\<rparr>,
           sql_update (\<lambda>r. ce_key r = k) (\<lambda>r. r\<lparr>ce_hit_count := Suc (ce_hit_count r)\<rparr>) t)))"

definition new_entry :: "string \<times> string \<times> string \<Rightarrow> enrichment_output \<Rightarrow> string \<Rightarrow> cache_entry" where
  "new_entry k res method = (case k of (f, p, x) \<Rightarrow> \<lparr>ce_fingerprint = f, ce_policy_version = p, ce_taxonomy_version = x,
     ce_payload = dump_output res, ce_original_method = method, ce_hit_count = 0\<rparr>)"

text \<open>\<open>None\<close> is the error for a method that may not be cached.\<close>

definition cache_put_seen ::
  "cache_entry list \<Rightarrow> string \<times> string \<times> string \<Rightarrow> enrichment_output \<Rightarrow> string \<Rightarrow> cache_entry list \<Rightarrow> cache_entry list option" where
  "cache_put_seen seen k res method t =
     (if method \<notin> set allowed_methods then None
      else let overwrite = sql_update (\<lambda>r. ce_key r = k) (\<lambda>r. r\<lparr>ce_payload := dump_output res, ce_original_method := method\<rparr>) t in
        Some (if row_of ce_key seen k \<noteq> None then overwrite
          else case sql_insert ce_key (new_entry k res method) t of Some t' \<Rightarrow> t' | None \<Rightarrow> overwrite))"

definition cache_put :: "string \<times> string \<times> string \<Rightarrow> enrichment_output \<Rightarrow> string \<Rightarrow> cache_entry list \<Rightarrow> cache_entry list option" where
  "cache_put k res method t = cache_put_seen t k res method t"

section \<open>Facts\<close>

lemma ce_key_updates [simp]:
  "ce_key (r\<lparr>ce_hit_count := n\<rparr>) = ce_key r" "ce_key (r\<lparr>ce_payload := p, ce_original_method := m\<rparr>) = ce_key r"
  "ce_key (new_entry k res m) = k"
  by (simp_all add: ce_key_def new_entry_def split: prod.split)

definition cache_ok :: "cache_entry list \<Rightarrow> bool" where
  "cache_ok t \<longleftrightarrow> distinct (map ce_key t) \<and> list_all (\<lambda>e. ce_original_method e \<in> set allowed_methods) t"

lemma cache_get_ok: "cache_get k t = (r, t') \<Longrightarrow> cache_ok t \<Longrightarrow> cache_ok t'"
  by (auto simp: cache_get_def cache_ok_def keys_update intro!: list_all_update split: option.splits)

lemma cache_put_ok: "cache_put_seen seen k res m t = Some t' \<Longrightarrow> cache_ok t \<Longrightarrow> cache_ok t'"
proof -
  assume put: "cache_put_seen seen k res m t = Some t'" and ok: "cache_ok t"
  have m: "m \<in> set allowed_methods" using put by (auto simp: cache_put_seen_def split: if_splits)
  let ?over = "sql_update (\<lambda>r. ce_key r = k) (\<lambda>r. r\<lparr>ce_payload := dump_output res, ce_original_method := m\<rparr>) t"
  have over: "cache_ok ?over" using ok m by (auto simp: cache_ok_def keys_update intro!: list_all_update)
  have "t' = ?over \<or> sql_insert ce_key (new_entry k res m) t = Some t'"
    using put m by (auto simp: cache_put_seen_def Let_def split: if_splits option.splits)
  moreover have "sql_insert ce_key (new_entry k res m) t = Some t' \<Longrightarrow> cache_ok t'"
    using ok m keys_insert [of ce_key "new_entry k res m" t t']
    by (auto simp: cache_ok_def sql_insert_def new_entry_def split: if_splits prod.splits)
  ultimately show ?thesis using over by blast
qed

lemma cache_put_get:
  assumes "cache_put_seen seen k res m t = Some t'" "row_of ce_key seen k \<noteq> None \<Longrightarrow> row_of ce_key t k \<noteq> None" "output_ok res"
  shows "fst (cache_get k t') = Some \<lparr>cx_output = res, cx_original_method = m\<rparr>"
proof -
  obtain e where "row_of ce_key t' k = Some e" "ce_payload e = dump_output res" "ce_original_method e = m"
  proof (cases "row_of ce_key t k")
    case None
    then have "sql_insert ce_key (new_entry k res m) t = Some (t @ [new_entry k res m])"
      by (simp add: sql_insert_def row_of_None_iff)
    then have "t' = t @ [new_entry k res m]" using assms(1,2) None
      by (auto simp: cache_put_seen_def Let_def split: if_splits)
    then show thesis using None that [of "new_entry k res m"]
      by (simp add: row_of_append row_of_Cons row_of_Nil) (simp add: new_entry_def split: prod.splits)
  next
    case (Some r)
    then have "t' = sql_update (\<lambda>r. ce_key r = k) (\<lambda>r. r\<lparr>ce_payload := dump_output res, ce_original_method := m\<rparr>) t"
      using assms(1) sql_insert_None_iff [of ce_key "new_entry k res m" t]
      by (auto simp: cache_put_seen_def Let_def split: if_splits option.splits)
    then show thesis using Some row_of_SomeD [OF Some] that [of "r\<lparr>ce_payload := dump_output res, ce_original_method := m\<rparr>"]
      by (simp add: row_of_update)
  qed
  then show ?thesis by (simp add: cache_get_def output_round_trip [OF assms(3)])
qed

end
