(* ===== verification/Classifier.thy ===== *)
theory Classifier
  imports TextMatch
begin

text \<open>
  \<^verbatim>\<open>signals/classifier.py\<close>, \<^verbatim>\<open>signals/risk_scorer.py\<close> and the task of \<^verbatim>\<open>worker/signal_tasks.py\<close>: signals
  found by keywords and their impact. Keywords in French are spelled with Latin-1 characters.
  Confidences are rational numbers. The resolver of the task is made without a database and
  resolves nothing, and the classifier names no entity; the fields it leaves empty are left out.
\<close>

section \<open>Classification\<close>

datatype signal_type = Bankruptcy | MergerAcquisition | Tariff | Strike | Regulatory | SupplyDisruption
  | NaturalDisaster | PriceChange | ExecutiveChange | CapacityChange

primrec signal_type_str :: "signal_type \<Rightarrow> string" where
  "signal_type_str Bankruptcy = ''bankruptcy''"
| "signal_type_str MergerAcquisition = ''m_and_a''"
| "signal_type_str Tariff = ''tariff''"
| "signal_type_str Strike = ''strike''"
| "signal_type_str Regulatory = ''regulatory''"
| "signal_type_str SupplyDisruption = ''supply_disruption''"
| "signal_type_str NaturalDisaster = ''natural_disaster''"
| "signal_type_str PriceChange = ''price_change''"
| "signal_type_str ExecutiveChange = ''executive_change''"
| "signal_type_str CapacityChange = ''capacity_change''"

datatype signal_severity = Critical | High | Medium | Low

primrec signal_severity_str :: "signal_severity \<Rightarrow> string" where
  "signal_severity_str Critical = ''critical''"
| "signal_severity_str High = ''high''"
| "signal_severity_str Medium = ''medium''"
| "signal_severity_str Low = ''low''"

record signal =
  sg_signal_type :: signal_type
  sg_entity_name :: string
  sg_entity_id :: "string option"
  sg_confidence :: rat
  sg_severity :: signal_severity
  sg_headline :: string
  sg_description :: string
  sg_impact_areas :: "string list"
  sg_keywords_matched :: "string list"

definition keyword_signal ::
  "string list \<Rightarrow> signal_type \<Rightarrow> rat \<Rightarrow> signal_severity \<Rightarrow> string list \<Rightarrow> string \<Rightarrow> string \<Rightarrow> signal list" where
  "keyword_signal keywords type confidence severity areas txt headline =
     (let text_lower = lower txt; headline_lower = lower headline in
      if list_ex (\<lambda>kw. contains text_lower kw \<or> contains headline_lower kw) keywords
      then [\<lparr>sg_signal_type = type, sg_entity_name = [], sg_entity_id = None, sg_confidence = confidence,
              sg_severity = severity, sg_headline = headline, sg_description = take 500 txt,
              sg_impact_areas = areas, sg_keywords_matched = keywords\<rparr>]
      else [])"

definition bankruptcy_keywords :: "string list" where
  "bankruptcy_keywords = [
     ''bankruptcy'', ''insolvency'', ''filed for bankruptcy'', ''chapter 11'', ''chapter 7'',
     ''debt restructuring'', ''going out of business'', ''liquidation'', ''receivership'']"

definition check_bankruptcy :: "string \<Rightarrow> string \<Rightarrow> signal list" where
  "check_bankruptcy txt headline = keyword_signal bankruptcy_keywords Bankruptcy (85 / 100) Critical [''procurement'', ''supply_chain'', ''compliance''] txt headline"

definition ma_keywords :: "string list" where
  "ma_keywords = [
     ''acquired'', ''merger'', ''acquisition'', ''merged with'', ''combine'', ''consolidation'',
     ''buyout'', ''takeover'', ''purchase agreement'', ''deal'']"

definition check_m_and_a :: "string \<Rightarrow> string \<Rightarrow> signal list" where
  "check_m_and_a txt headline = keyword_signal ma_keywords MergerAcquisition (80 / 100) High [''supply_chain'', ''pricing'', ''compliance''] txt headline"

definition tariff_keywords :: "string list" where
  "tariff_keywords = [
     ''tariff'', ''import duty'', ''export restriction'', ''trade war'', ''sanctions'', ''embargo'',
     ''trade agreement'', ''customs'']"

definition check_tariff :: "string \<Rightarrow> string \<Rightarrow> signal list" where
  "check_tariff txt headline = keyword_signal tariff_keywords Tariff (78 / 100) High [''pricing'', ''procurement'', ''compliance''] txt headline"

definition strike_keywords :: "string list" where
  "strike_keywords = [
     ''strike'', ''labor strike'', ''workers strike'', ''work stoppage'', ''union strike'',
     ''walkout'', ''industrial action'', ''streik'', ''arbeitskampf'', ''gr'' @ [CHR 0xE8] @ ''ve'',
     ''mouvement social'']"

definition check_strike :: "string \<Rightarrow> string \<Rightarrow> signal list" where
  "check_strike txt headline = keyword_signal strike_keywords Strike (88 / 100) Medium [''supply_chain'', ''procurement''] txt headline"

definition regulatory_keywords :: "string list" where
  "regulatory_keywords = [
     ''regulation'', ''compliance'', ''mandate'', ''legislation'', ''law change'',
     ''executive order'', ''policy change'', ''requirement'', ''regulierung'', ''verordnung'',
     ''gesetz'', ''r'' @ [CHR 0xE9] @ ''glementation'', ''r'' @ [CHR 0xE8] @ ''glement'',
     ''obligation r'' @ [CHR 0xE9] @ ''glementaire'']"

definition check_regulatory :: "string \<Rightarrow> string \<Rightarrow> signal list" where
  "check_regulatory txt headline = keyword_signal regulatory_keywords Regulatory (75 / 100) Medium [''compliance'', ''procurement''] txt headline"

definition disruption_keywords :: "string list" where
  "disruption_keywords = [
     ''supply chain disruption'', ''logistics delay'', ''port closure'', ''transportation halt'',
     ''facility closure'', ''production halt'', ''shortage'', ''supply shortage'']"

definition check_supply_disruption :: "string \<Rightarrow> string \<Rightarrow> signal list" where
  "check_supply_disruption txt headline = keyword_signal disruption_keywords SupplyDisruption (82 / 100) High [''supply_chain'', ''procurement''] txt headline"

definition classify :: "string \<Rightarrow> string \<Rightarrow> signal list" where
  "classify article_text headline = check_bankruptcy article_text headline @ check_m_and_a article_text headline
     @ check_tariff article_text headline @ check_strike article_text headline
     @ check_regulatory article_text headline @ check_supply_disruption article_text headline"

section \<open>Impact\<close>

record impact_score =
  im_procurement :: rat
  im_supply_chain :: rat
  im_compliance :: rat
  im_pricing :: rat
  im_overall :: rat

definition base_scores :: "(string \<times> (string \<times> rat) list) list" where
  "base_scores = [
     (''bankruptcy'', [(''procurement'', 95 / 100), (''supply_chain'', 90 / 100), (''compliance'', 60 / 100), (''pricing'', 70 / 100)]),
     (''m_and_a'', [(''procurement'', 80 / 100), (''supply_chain'', 75 / 100), (''compliance'', 70 / 100), (''pricing'', 65 / 100)]),
     (''tariff'', [(''procurement'', 85 / 100), (''supply_chain'', 70 / 100), (''compliance'', 90 / 100), (''pricing'', 95 / 100)]),
     (''strike'', [(''procurement'', 70 / 100), (''supply_chain'', 85 / 100), (''compliance'', 40 / 100), (''pricing'', 50 / 100)]),
     (''regulatory'', [(''procurement'', 75 / 100), (''supply_chain'', 50 / 100), (''compliance'', 95 / 100), (''pricing'', 40 / 100)]),
     (''supply_disruption'', [(''procurement'', 90 / 100), (''supply_chain'', 95 / 100), (''compliance'', 50 / 100), (''pricing'', 80 / 100)])]"

definition default_scores :: "(string \<times> rat) list" where
  "default_scores = [(''procurement'', 5 / 10), (''supply_chain'', 5 / 10), (''compliance'', 5 / 10), (''pricing'', 5 / 10)]"

definition severity_multiplier :: "string \<Rightarrow> rat" where
  "severity_multiplier severity = (case map_of [(''critical'', 1), (''high'', 85 / 100), (''medium'', 65 / 100), (''low'', 40 / 100)] severity
     of Some m \<Rightarrow> m | None \<Rightarrow> 5 / 10)"

definition value_or_0 :: "(string \<times> rat) list \<Rightarrow> string \<Rightarrow> rat" where
  "value_or_0 d k = (case map_of d k of Some v \<Rightarrow> v | None \<Rightarrow> 0)"

definition score_signal :: "string \<Rightarrow> string \<Rightarrow> string list \<Rightarrow> impact_score" where
  "score_signal type severity affected =
     (let base = (case map_of base_scores type of Some d \<Rightarrow> d | None \<Rightarrow> default_scores);
          scores = map (\<lambda>(k, v). (k, min 1 (v * severity_multiplier severity))) base
      in \<lparr>im_procurement = value_or_0 scores ''procurement'', im_supply_chain = value_or_0 scores ''supply_chain'',
          im_compliance = value_or_0 scores ''compliance'', im_pricing = value_or_0 scores ''pricing'',
          im_overall = sum_list (map snd scores) / of_nat (length scores)\<rparr>)"

section \<open>The task\<close>

text \<open>A row as \<^verbatim>\<open>_store_signal\<close> inserts it; without a database nothing is stored.\<close>

record signal_row =
  sw_signal_type :: string
  sw_entity_id :: "string option"
  sw_article_id :: string
  sw_confidence :: rat
  sw_severity :: string
  sw_impact_areas :: "string list"
  sw_keywords_matched :: "string list"

definition store_signal :: "bool \<Rightarrow> string \<Rightarrow> signal \<Rightarrow> impact_score \<Rightarrow> signal_row list \<Rightarrow> signal_row list" where
  "store_signal database aid s impact rows = (if database
     then rows @ [\<lparr>sw_signal_type = signal_type_str (sg_signal_type s), sw_entity_id = sg_entity_id s, sw_article_id = aid,
            sw_confidence = sg_confidence s, sw_severity = signal_severity_str (sg_severity s),
            sw_impact_areas = sg_impact_areas s, sw_keywords_matched = sg_keywords_matched s\<rparr>]
     else rows)"

definition process_article_for_signals :: "bool \<Rightarrow> string \<Rightarrow> string \<Rightarrow> string \<Rightarrow> signal_row list \<Rightarrow> nat \<times> signal_row list" where
  "process_article_for_signals database aid article_text headline rows =
     (let signals = classify article_text headline in
      (length signals, foldl (\<lambda>rs s. store_signal database aid s
         (score_signal (signal_type_str (sg_signal_type s)) (signal_severity_str (sg_severity s)) [sg_entity_name s]) rs) rows signals))"

section \<open>Facts\<close>

lemma keyword_signal_confidence: "s \<in> set (keyword_signal ks ty c sev areas txt h) \<Longrightarrow> sg_confidence s = c \<and> sg_signal_type s = ty"
  by (auto simp: keyword_signal_def Let_def split: if_splits)

lemmas checks = check_bankruptcy_def check_m_and_a_def check_tariff_def check_strike_def check_regulatory_def check_supply_disruption_def

lemma classify_confidence: "s \<in> set (classify txt h) \<Longrightarrow> 3 / 4 \<le> sg_confidence s \<and> sg_confidence s \<le> 22 / 25"
  by (auto simp: classify_def checks dest!: keyword_signal_confidence)

end
