(* ===== verification/Deterministic.thy ===== *)
theory Deterministic
  imports EnrichmentOutput Entities Classifier RetrievalTypes
begin

text \<open>
  \<^verbatim>\<open>enrichment/deterministic.py\<close> and \<^verbatim>\<open>retrieval/queries.py\<close>: the analysis of an article by rules. Floats are
  rational numbers, rounded to six decimals where the program rounds; the ellipsis of a cut
  summary is one character outside ASCII. \<open>None\<close> is an exception: a limit below ten, or an
  output that does not validate.
\<close>

definition query_groups :: "(string \<times> string list) list" where
  "query_groups = [
     (''supplier_risk'', [''supplier bankruptcy'', ''manufacturing facility shutdown'', ''M&A acquisition'',
        ''labor strike supplier'', ''quality issue recall'']),
     (''logistics_disruption'', [''port strike'', ''logistics disruption'', ''supply chain delay'', ''transportation crisis'']),
     (''tariff_changes'', [''tariff increase'', ''trade sanctions'', ''export restrictions'', ''trade agreement'']),
     (''commodity_prices'', [''steel price'', ''copper price'', ''aluminum price'', ''raw material shortage'']),
     (''regulatory'', [''CBAM regulation'', ''REACH compliance'', ''supply chain due diligence'',
        ''environmental regulation'']),
     (''regional'', [''supply chain Germany'', ''manufacturing Poland'', ''industrial Czech Republic'',
        ''automotive Mexico'']),
     (''europe_business'', [''Europe business procurement'', ''European manufacturing suppliers'',
        ''Germany industry supply chain'', ''EU trade business'', ''France business suppliers''])]"

definition get_queries_for_providers :: "string \<Rightarrow> string list" where
  "get_queries_for_providers provider = (let all_queries = concat (map snd query_groups) in
     if provider = ''newsapi'' then take 5 all_queries else all_queries)"

record deterministic_analysis =
  da_output :: enrichment_output
  da_relevance :: rat
  da_confidence :: rat

definition bounded :: "rat \<Rightarrow> rat" where
  "bounded v = of_int (round (max 0 (min 1 v) * 1000000)) / 1000000"

section \<open>The category\<close>

fun add_weight :: "string \<Rightarrow> nat \<Rightarrow> (string \<times> nat) list \<Rightarrow> (string \<times> nat) list" where
  "add_weight c w [] = [(c, w)]"
| "add_weight c w ((d, v) # rest) = (if d = c then (d, v + w) # rest else (d, v) # add_weight c w rest)"

definition infer_category :: "raw_article \<Rightarrow> string \<times> rat" where
  "infer_category a =
     (let candidates = [(ra_title a, 3), (str_or (ra_description a) [], 3), (str_or (ra_content_snippet a) [], 2),
            (ra_query_group a, 1), (ra_source_name a, 1)];
          scores = foldl (\<lambda>d (candidate, w). let c = canonical_category candidate in
            if c \<in> set canonical_categories \<and> c \<noteq> ''general'' then add_weight c w d else d) [] candidates
      in if scores \<noteq> [] then (fst (best_score (hd scores) (tl scores)), 1) else (''general'', 0))"

section \<open>The summary\<close>

definition summary_mark :: string where
  "summary_mark = [CHR 0x85]"

definition first_text :: "string option list \<Rightarrow> string" where
  "first_text sources = (case List.find (\<lambda>s. s \<noteq> []) (map (\<lambda>s. join '' '' (words (str_or s []))) sources) of
       Some s \<Rightarrow> s | None \<Rightarrow> ''No summary'')"

definition article_summary :: "raw_article \<Rightarrow> nat \<Rightarrow> string" where
  "article_summary a max_chars =
     (let found = first_text [ra_description a, ra_content_snippet a, Some (ra_title a)];
          padded = length found < 10;
          normalized = (if padded then found @ '' [summary unavailable]'' else found)
      in if length normalized \<le> max_chars then normalized
         else if padded then take max_chars normalized
         else let cut = rstrip_by is_space (take (max_chars - 1) normalized);
                  prefix = (if CHR '' '' \<in> set cut then fst (rpartition_at (CHR '' '') cut) else cut);
                  kept = (if length prefix + 1 < 10 then take (max_chars - 1) normalized else prefix)
              in kept @ summary_mark)"

section \<open>The analysis\<close>

definition article_parts :: "raw_article \<Rightarrow> string list" where
  "article_parts a = [ra_title a, str_or (ra_description a) [], str_or (ra_content_snippet a) []]"

definition article_full_text :: "raw_article \<Rightarrow> string" where
  "article_full_text a = join '' '' (filter (\<lambda>s. s \<noteq> []) (article_parts a))"

definition truth :: "bool \<Rightarrow> rat" where
  "truth b = (if b then 1 else 0)"

definition relevance_of :: "bool \<Rightarrow> bool \<Rightarrow> rat \<Rightarrow> rat \<Rightarrow> rat" where
  "relevance_of has_signal known_group entities category =
     bounded (45 / 100 * truth has_signal + 25 / 100 * truth known_group + 20 / 100 * entities + 10 / 100 * category)"

definition confidence_of :: "rat \<Rightarrow> rat \<Rightarrow> rat \<Rightarrow> rat \<Rightarrow> rat" where
  "confidence_of sig entities category completeness =
     bounded (45 / 100 * sig + 20 / 100 * entities + 20 / 100 * category + 15 / 100 * completeness)"

definition analyze :: "(string list \<Rightarrow> string list) \<Rightarrow> raw_article \<Rightarrow> int \<Rightarrow> deterministic_analysis option" where
  "analyze walk a summary_max_chars =
     (if summary_max_chars < 10 then None
      else let txt = article_full_text a;
               signals = classify txt (ra_title a);
               tags = canonical_signal_tags (map (\<lambda>s. signal_type_str (sg_signal_type s)) signals);
               found = extract_suppliers_from_text walk txt;
               regions = extract_regions_from_text txt;
               (category, category_evidence) = infer_category a;
               entities = min 1 (of_nat (length found + length regions) / 2);
               completeness = of_nat (length (filter (\<lambda>p. strip p \<noteq> []) (article_parts a))) / of_nat (length (article_parts a));
               sig = foldr max (map sg_confidence signals) 0
           in map_option (\<lambda>res. \<lparr>da_output = res,
                da_relevance = relevance_of (tags \<noteq> []) (ra_query_group a \<in> fst ` set query_groups) entities category_evidence,
                da_confidence = confidence_of sig entities category_evidence completeness\<rparr>)
              (make_output \<lparr>eo_summary = article_summary a (nat summary_max_chars), eo_category = category, eo_signal_tags = tags,
                 eo_priority_signal = List.find (\<lambda>t. t \<in> set priority_signal_tags) tags,
                 eo_detected_suppliers = found, eo_detected_regions = regions, eo_detected_categories = [category]\<rparr>))"

section \<open>Facts\<close>

lemma bounded_unit: "0 \<le> bounded v \<and> bounded v \<le> 1"
proof -
  let ?x = "max 0 (min 1 v) * 1000000"
  have "round (0 :: rat) \<le> round ?x" "round ?x \<le> round (1000000 :: rat)" by (rule round_mono, simp)+
  then have r: "0 \<le> round ?x" "round ?x \<le> 1000000" by simp_all
  have "(of_int (round ?x) :: rat) \<le> of_int 1000000" using r(2) by (simp only: of_int_le_iff)
  with r(1) show ?thesis by (simp add: bounded_def)
qed

lemma analyze_unit: "analyze walk a n = Some d \<Longrightarrow> 0 \<le> da_relevance d \<and> da_relevance d \<le> 1 \<and> 0 \<le> da_confidence d \<and> da_confidence d \<le> 1
    \<and> output_ok (da_output d)"
  using bounded_unit validate_output_ok
  by (auto simp: analyze_def Let_def relevance_of_def confidence_of_def make_output_def split: if_splits prod.splits)

lemma length_take_le: "length (take m s) \<le> m"
  by simp

lemma article_summary_length:
  assumes "10 \<le> n"
  shows "length (article_summary a n) \<le> n"
proof -
  have part: "length (fst (rpartition_at c s)) \<le> length s" for c s
    using length_dropWhile_le [of "\<lambda>x. x \<noteq> c" "rev s"] by (simp add: rpartition_at_def Let_def) arith
  have "length (rstrip_by is_space s) \<le> length s" for s
    using length_dropWhile_le [of is_space "rev s"] by (simp add: rstrip_by_def)
  then have strips: "length (rstrip_by is_space (take (n - 1) s)) \<le> n - 1" for s
    by (meson le_trans length_take_le)
  have "length (fst (rpartition_at (CHR '' '') (rstrip_by is_space (take (n - 1) s)))) \<le> n - 1" for s
    by (rule le_trans [OF part strips])
  moreover have "m \<le> n - 1 \<Longrightarrow> Suc m \<le> n" for m using assms by simp
  ultimately show ?thesis using strips assms by (simp add: article_summary_def Let_def summary_mark_def)
qed

end
