(* ===== verification/EnrichmentPipeline.thy ===== *)
theory EnrichmentPipeline
  imports EnrichmentPolicy EnrichmentCache Deterministic EnrichmentOutput Budget AgentLoop Screening Articles
begin

text \<open>
  \<^verbatim>\<open>enrichment/pipeline.py\<close>, \<^verbatim>\<open>enrichment/enricher.py\<close> and the client of \<^verbatim>\<open>enrichment/openai_client.py\<close>: a
  batch of raw articles through cache, rules and model. \<open>None\<close> is an exception, after which the
  transaction is rolled back. \<open>pe_respond\<close> is the decoded response to the n-th request, \<open>None\<close> when
  the request failed after its retries; \<open>pe_now\<close> and \<open>pe_day\<close> give the time and the date while the
  n-th article of the batch is processed. Which articles are processed already or leased by another worker
  is read before the loop: \<open>seen\<close> is the database as it was then.
\<close>

section \<open>The client\<close>

definition json_int :: "json \<Rightarrow> int option" where
  "json_int v = (case v of JInt i \<Rightarrow> Some i | JBool b \<Rightarrow> Some (if b then 1 else 0) | _ \<Rightarrow> None)"

definition total_tokens :: "json \<Rightarrow> int" where
  "total_tokens usage = (case usage of
       JObject u \<Rightarrow>
         (case json_int (jget u ''total_tokens'') of
            Some n \<Rightarrow> n
          | None \<Rightarrow> (case (json_int (jget u ''input_tokens''), json_int (jget u ''output_tokens'')) of
              (Some i, Some n) \<Rightarrow> i + n | _ \<Rightarrow> 0))
     | _ \<Rightarrow> 0)"

text \<open>The answer and the tokens counted for it; reading the answer may raise after the count.\<close>

definition client_call :: "dict option \<Rightarrow> string option \<times> int" where
  "client_call response = (case response of
       None \<Rightarrow> (None, 0)
     | Some d \<Rightarrow> (extract_output_text d, total_tokens (jget d ''usage'')))"

section \<open>State\<close>

record enrichment_metrics =
  em_cached :: nat
  em_deterministic :: nat
  em_llm :: nat
  em_skipped :: nat
  em_deferred :: nat
  em_failed :: nat
  em_cache_misses :: nat
  em_llm_calls :: nat
  em_llm_tokens :: int
  em_avoided_llm_calls :: nat

definition no_metrics :: enrichment_metrics where
  "no_metrics = \<lparr>em_cached = 0, em_deterministic = 0, em_llm = 0, em_skipped = 0, em_deferred = 0, em_failed = 0,
     em_cache_misses = 0, em_llm_calls = 0, em_llm_tokens = 0, em_avoided_llm_calls = 0\<rparr>"

record enrichment_db =
  en_raw :: "news_raw list"
  en_processed :: "processed_article list"
  en_cache :: "cache_entry list"
  en_spend :: "llm_spend list"
  en_suppliers :: supplier_db

record pipeline_env =
  pe_policy :: enrichment_policy
  pe_codec :: json_codec
  pe_sha :: "string \<Rightarrow> string"
  pe_walk :: "string list \<Rightarrow> string list"
  pe_model :: string
  pe_factory :: "bool option"
  pe_tenant :: "string option"
  pe_cap :: int
  pe_respond :: "nat \<Rightarrow> string \<Rightarrow> string \<Rightarrow> dict option"
  pe_now :: "nat \<Rightarrow> datetime"
  pe_day :: "nat \<Rightarrow> int"

text \<open>\<open>pr_enricher\<close> tells whether the pipeline has a client; \<open>pe_factory\<close> whether it can make one, and
  whether making one succeeds.\<close>

record pipeline_state =
  pr_db :: enrichment_db
  pr_metrics :: enrichment_metrics
  pr_saved :: nat
  pr_already :: nat
  pr_budget :: enrichment_budget
  pr_enricher :: bool

section \<open>Steps\<close>

definition rebuilt_article :: "news_raw \<Rightarrow> raw_article" where
  "rebuilt_article r = (nr_article r)\<lparr>ra_source_id := None, ra_source_class := None, ra_source_domains := [],
     ra_source_countries := [], ra_registry_version := None, ra_retrieved_at := None, ra_source_published_at_raw := None\<rparr>"

definition estimated_tokens :: "raw_article \<Rightarrow> int" where
  "estimated_tokens a = max 1 (int ((length (ra_title a) + length (str_or (ra_description a) [])
     + length (str_or (ra_content_snippet a) [])) div 4) + 400)"

definition generate_output :: "pipeline_env \<Rightarrow> nat \<Rightarrow> raw_article \<Rightarrow> enrichment_output option \<times> int" where
  "generate_output env i a =
     (let (response, used) = client_call (pe_respond env i system_prompt
            (get_summarization_prompt (ra_title a) (str_or (ra_description a) []) (str_or (ra_content_snippet a) [])))
      in (case response of None \<Rightarrow> None | Some s \<Rightarrow> parse_output (pe_codec env) s, used))"

definition merge_deterministic_evidence :: "enrichment_output \<Rightarrow> enrichment_output \<Rightarrow> enrichment_output" where
  "merge_deterministic_evidence llm det = llm\<lparr>
     eo_detected_suppliers := merge_entities [eo_detected_suppliers llm, eo_detected_suppliers det],
     eo_detected_regions := merge_entities [eo_detected_regions llm, eo_detected_regions det],
     eo_detected_categories := merge_entities [eo_detected_categories llm, [eo_category llm], eo_detected_categories det]\<rparr>"

definition processed_row ::
  "pipeline_env \<Rightarrow> nat \<Rightarrow> nat \<Rightarrow> raw_article \<Rightarrow> enrichment_output \<Rightarrow> enrichment_route \<Rightarrow> string \<Rightarrow> string \<Rightarrow> rat option \<Rightarrow> bool
     \<Rightarrow> processed_article" where
  "processed_row env n raw_id a res method reason fingerprint confidence llm_used =
     \<lparr>pa_id = 0, pa_raw_article_id = raw_id, pa_normalized_title = ra_title a, pa_summary = eo_summary res,
       pa_top_level_category = eo_category res, pa_signal_tags = Some (eo_signal_tags res),
       pa_priority_signal = eo_priority_signal res, pa_detected_regions = Some (eo_detected_regions res),
       pa_detected_suppliers = Some (eo_detected_suppliers res),
       pa_detected_categories = Some (if eo_detected_categories res = [] then [eo_category res] else eo_detected_categories res),
       pa_signal_score = 0, pa_processing_status = ''completed'',
       pa_llm_model = (if llm_used then Some (''openai/'' @ pe_model env) else None), pa_language = ra_language a,
       pa_processed_at = pe_now env n, pa_risk_event_checked_at = None,
       pa_enrichment_method = Some (route_str method), pa_enrichment_reason = Some reason,
       pa_policy_version = Some (ep_policy_version (pe_policy env)), pa_content_fingerprint = Some fingerprint,
       pa_deterministic_confidence = confidence, pa_llm_used = llm_used\<rparr>"

definition transition_raw ::
  "nat \<Rightarrow> string option \<Rightarrow> string \<Rightarrow> timedelta option \<Rightarrow> datetime \<Rightarrow> enrichment_db \<Rightarrow> enrichment_db" where
  "transition_raw raw_id owner status retry_delay now db =
     db\<lparr>en_raw := sql_update
          (\<lambda>r. nr_id r = raw_id \<and> (case owner of None \<Rightarrow> True | Some w \<Rightarrow> nr_lease_owner r = Some w))
          (\<lambda>r. r\<lparr>nr_enrichment_status := Some status,
             nr_next_attempt_at := (case retry_delay of None \<Rightarrow> None | Some d \<Rightarrow> Some (now + d)),
             nr_lease_owner := None, nr_lease_expires_at := None,
             nr_attempt_count := (if retry_delay = None then nr_attempt_count r else Suc (nr_attempt_count r))\<rparr>) (en_raw db)\<rparr>"

definition add_processed :: "processed_article \<Rightarrow> enrichment_db \<Rightarrow> bool \<times> enrichment_db" where
  "add_processed p db =
     (let row = p\<lparr>pa_id := fresh_id pa_id (en_processed db)\<rparr> in
      case sql_insert pa_raw_article_id row (en_processed db) of
        None \<Rightarrow> (False, db)
      | Some t \<Rightarrow> (True, db\<lparr>en_processed := t,
          en_suppliers := snd (record_mentions (pa_id row) (map Some (case pa_detected_suppliers row of None \<Rightarrow> [] | Some xs \<Rightarrow> xs))
            (en_suppliers db))\<rparr>))"

definition count_route :: "enrichment_route \<Rightarrow> enrichment_metrics \<Rightarrow> enrichment_metrics" where
  "count_route r m = (case r of
       Cached \<Rightarrow> m\<lparr>em_cached := Suc (em_cached m)\<rparr>
     | Deterministic \<Rightarrow> m\<lparr>em_deterministic := Suc (em_deterministic m)\<rparr>
     | Llm \<Rightarrow> m\<lparr>em_llm := Suc (em_llm m)\<rparr>
     | Skipped \<Rightarrow> m\<lparr>em_skipped := Suc (em_skipped m)\<rparr>
     | Deferred \<Rightarrow> m\<lparr>em_deferred := Suc (em_deferred m)\<rparr>)"

definition count_failed :: "enrichment_metrics \<Rightarrow> enrichment_metrics" where
  "count_failed m = m\<lparr>em_failed := Suc (em_failed m)\<rparr>"

definition ensure_llm_client :: "pipeline_env \<Rightarrow> bool \<Rightarrow> bool" where
  "ensure_llm_client env enricher = (enricher \<or> pe_factory env = Some True)"

definition charge_usage :: "pipeline_env \<Rightarrow> nat \<Rightarrow> int \<Rightarrow> llm_spend list \<Rightarrow> llm_spend list" where
  "charge_usage env n used t = (if used = 0 then t
     else case consume (pe_cap env) (pe_tenant env) used 1 (pe_day env n) t of
       Some t' \<Rightarrow> t' | None \<Rightarrow> consume_overage (pe_tenant env) used (pe_day env n) t)"

section \<open>One article\<close>

definition cache_key :: "pipeline_env \<Rightarrow> raw_article \<Rightarrow> string \<times> string \<times> string" where
  "cache_key env a = (content_fingerprint (pe_sha env) a (ep_policy_version (pe_policy env)) (ep_taxonomy_version (pe_policy env)),
     ep_policy_version (pe_policy env), ep_taxonomy_version (pe_policy env))"

text \<open>An article whose output is stored: the row, its place in the lifecycle, the counts.\<close>

definition store_result ::
  "pipeline_env \<Rightarrow> nat \<Rightarrow> string option \<Rightarrow> nat \<Rightarrow> processed_article \<Rightarrow> enrichment_route \<Rightarrow> pipeline_state \<Rightarrow> pipeline_state" where
  "store_result env n owner raw_id row method st =
     (let (added, db) = add_processed row (pr_db st);
          db' = transition_raw raw_id owner ''completed'' None (pe_now env n) db
      in if added then st\<lparr>pr_db := db', pr_saved := Suc (pr_saved st), pr_metrics := count_route method (pr_metrics st)\<rparr>
         else st\<lparr>pr_db := db', pr_already := Suc (pr_already st)\<rparr>)"

text \<open>An article without output: its metric and when it may be tried again.\<close>

definition leave_article ::
  "pipeline_env \<Rightarrow> nat \<Rightarrow> string option \<Rightarrow> nat \<Rightarrow> enrichment_route option \<Rightarrow> pipeline_state \<Rightarrow> pipeline_state" where
  "leave_article env n owner raw_id route st =
     (let move = (\<lambda>status delay. transition_raw raw_id owner status delay (pe_now env n) (pr_db st)) in
      case route of
        None \<Rightarrow> st\<lparr>pr_metrics := count_failed (pr_metrics st), pr_db := move ''enrichment_retry'' (Some (hours 2))\<rparr>
      | Some r \<Rightarrow> st\<lparr>pr_metrics := count_route r (pr_metrics st),
          pr_db := (case r of Skipped \<Rightarrow> move ''skipped'' None | Deferred \<Rightarrow> move ''deferred'' (Some (hours 2)) | _ \<Rightarrow> pr_db st)\<rparr>)"

text \<open>The call of the model: what it gave, the method and the reason that are stored with it, and
  the state with call, tokens and spend accounted for.\<close>

definition call_model ::
  "pipeline_env \<Rightarrow> nat \<Rightarrow> raw_article \<Rightarrow> deterministic_analysis \<Rightarrow> route_decision \<Rightarrow> enrichment_budget \<Rightarrow> pipeline_state
     \<Rightarrow> ((enrichment_output \<times> enrichment_route \<times> string \<times> bool) option \<times> pipeline_state) option" where
  "call_model env n a analysis decision budget st =
     (let i = em_llm_calls (pr_metrics st);
          (answer, counted) = generate_output env i a;
          used = max 0 counted
      in case record_usage used budget of
           None \<Rightarrow> None
         | Some budget' \<Rightarrow>
             (let st' = st\<lparr>pr_budget := budget',
                    pr_metrics := (pr_metrics st)\<lparr>em_llm_calls := Suc i, em_llm_tokens := em_llm_tokens (pr_metrics st) + used\<rparr>,
                    pr_db := (pr_db st)\<lparr>en_spend := charge_usage env n used (en_spend (pr_db st))\<rparr>\<rparr>
              in Some (case answer of
                   Some res \<Rightarrow> (Some (merge_deterministic_evidence res (da_output analysis), Llm, rd_reason decision, True), st')
                 | None \<Rightarrow>
                     if ep_min_fallback_confidence (pe_policy env) \<le> da_confidence analysis
                     then (Some (da_output analysis, Deterministic, ''llm_failure_deterministic_fallback'', False), st')
                     else (None, st'))))"

text \<open>Storing an output: under its method in the cache, and as a processed article.\<close>

definition keep_output ::
  "pipeline_env \<Rightarrow> string option \<Rightarrow> nat \<Rightarrow> news_raw \<Rightarrow> rat \<Rightarrow> enrichment_output \<times> enrichment_route \<times> string \<times> bool \<Rightarrow> pipeline_state
     \<Rightarrow> pipeline_state option" where
  "keep_output env owner n raw confidence kept st =
     (let (res, method, reason, llm_used) = kept; a = rebuilt_article raw; key = cache_key env a;
          row = processed_row env n (nr_id raw) a res method reason (fst key) (Some confidence) llm_used in
      if method \<in> {Deterministic, Llm}
      then case cache_put key res (route_str method) (en_cache (pr_db st)) of
          None \<Rightarrow> None
        | Some cache \<Rightarrow> Some (store_result env n owner (nr_id raw) row method (st\<lparr>pr_db := (pr_db st)\<lparr>en_cache := cache\<rparr>\<rparr>))
      else Some (store_result env n owner (nr_id raw) row method st))"

text \<open>No call is made after all: the routing again, without a budget.\<close>

definition give_up_call ::
  "pipeline_env \<Rightarrow> string option \<Rightarrow> nat \<Rightarrow> news_raw \<Rightarrow> deterministic_analysis \<Rightarrow> pipeline_state \<Rightarrow> pipeline_state option" where
  "give_up_call env owner n raw analysis st =
     (case decide_route False (da_relevance analysis) (da_confidence analysis) (pe_policy env) False of
        Inl e \<Rightarrow> None
      | Inr d \<Rightarrow> Some (leave_article env n owner (nr_id raw) (Some (rd_route d)) st))"

definition budget_available :: "pipeline_env \<Rightarrow> nat \<Rightarrow> int \<Rightarrow> pipeline_state \<Rightarrow> bool" where
  "budget_available env n estimate st \<longleftrightarrow>
     within_budget (pe_cap env) (pe_tenant env) estimate (pe_day env n) (en_spend (pr_db st))
     \<and> eb_calls_reserved (pr_budget st) < eb_max_calls (pr_budget st)
     \<and> eb_tokens_reserved (pr_budget st) + estimate \<le> eb_max_tokens (pr_budget st)
     \<and> (pr_enricher st \<or> pe_factory env \<noteq> None)"

definition ask_model ::
  "pipeline_env \<Rightarrow> string option \<Rightarrow> nat \<Rightarrow> news_raw \<Rightarrow> deterministic_analysis \<Rightarrow> route_decision \<Rightarrow> pipeline_state \<Rightarrow> pipeline_state option" where
  "ask_model env owner n raw analysis decision st =
     (if \<not> ensure_llm_client env (pr_enricher st) then give_up_call env owner n raw analysis st
      else let st' = st\<lparr>pr_enricher := True\<rparr>; a = rebuilt_article raw in
        case reserve (estimated_tokens a) (pr_budget st) of
          None \<Rightarrow> None
        | Some (False, _) \<Rightarrow> give_up_call env owner n raw analysis st'
        | Some (True, budget) \<Rightarrow>
            (case call_model env n a analysis decision budget st' of
               None \<Rightarrow> None
             | Some (Some kept, st'') \<Rightarrow> keep_output env owner n raw (da_confidence analysis) kept st''
             | Some (None, st'') \<Rightarrow> Some (leave_article env n owner (nr_id raw) None st'')))"

definition enrich_article ::
  "pipeline_env \<Rightarrow> string option \<Rightarrow> nat \<Rightarrow> news_raw \<Rightarrow> pipeline_state \<Rightarrow> pipeline_state option" where
  "enrich_article env owner n raw st =
     (let a = rebuilt_article raw; key = cache_key env a;
          (cached, cache) = cache_get key (en_cache (pr_db st));
          st0 = st\<lparr>pr_db := (pr_db st)\<lparr>en_cache := cache\<rparr>\<rparr>
      in case cached of
        Some c \<Rightarrow> Some (store_result env n owner (nr_id raw)
            (processed_row env n (nr_id raw) a (cx_output c) Cached ''compatible_cache_hit'' (fst key) None False) Cached st0)
      | None \<Rightarrow>
          (let st1 = st0\<lparr>pr_metrics := (pr_metrics st0)\<lparr>em_cache_misses := Suc (em_cache_misses (pr_metrics st0))\<rparr>\<rparr> in
           case analyze (pe_walk env) a (ep_summary_max_chars (pe_policy env)) of
             None \<Rightarrow> None
           | Some analysis \<Rightarrow>
               (case decide_route False (da_relevance analysis) (da_confidence analysis) (pe_policy env)
                       (budget_available env n (estimated_tokens a) st1) of
                  Inl e \<Rightarrow> None
                | Inr decision \<Rightarrow>
                    (case rd_route decision of
                       Deterministic \<Rightarrow> keep_output env owner n raw (da_confidence analysis)
                         (da_output analysis, Deterministic, rd_reason decision, False) st1
                     | Llm \<Rightarrow> ask_model env owner n raw analysis decision st1
                     | r \<Rightarrow> Some (leave_article env n owner (nr_id raw) (Some r) st1)))))"

section \<open>The batch\<close>

definition unavailable :: "string option \<Rightarrow> datetime \<Rightarrow> news_raw \<Rightarrow> bool" where
  "unavailable owner now r \<longleftrightarrow> nr_enrichment_status r = Some ''skipped'' \<or> nr_enrichment_status r = Some ''quality_rejected''
     \<or> null_gt (nr_next_attempt_at r) now
     \<or> null_gt (nr_lease_expires_at r) now \<and> (case nr_lease_owner r of None \<Rightarrow> False | Some w \<Rightarrow> owner \<noteq> Some w)"

fun to_process :: "nat set \<Rightarrow> nat set \<Rightarrow> news_raw list \<Rightarrow> news_raw list" where
  "to_process taken blocked [] = []"
| "to_process taken blocked (r # rs) =
     (if nr_id r \<in> taken \<or> nr_id r \<in> blocked then to_process taken blocked rs
      else r # to_process (insert (nr_id r) taken) blocked rs)"

fun enrich_all :: "pipeline_env \<Rightarrow> string option \<Rightarrow> nat \<Rightarrow> news_raw list \<Rightarrow> pipeline_state \<Rightarrow> pipeline_state option" where
  "enrich_all env owner n [] st = Some st"
| "enrich_all env owner n (r # rs) st = (case enrich_article env owner n r st of
     None \<Rightarrow> None | Some st' \<Rightarrow> enrich_all env owner (Suc n) rs st')"

record run_result =
  rn_saved :: nat
  rn_metrics :: enrichment_metrics
  rn_already_processed :: nat

definition chosen_articles :: "enrichment_db \<Rightarrow> string option \<Rightarrow> datetime \<Rightarrow> news_raw list \<Rightarrow> news_raw list" where
  "chosen_articles seen owner now raws = to_process
     (set (filter (\<lambda>i. i \<in> nr_id ` set raws) (map pa_raw_article_id (en_processed seen))))
     (set (filter (\<lambda>i. i \<in> nr_id ` set raws) (map nr_id (filter (unavailable owner now) (en_raw seen))))) raws"

definition process_raw_articles_seen ::
  "enrichment_db \<Rightarrow> pipeline_env \<Rightarrow> bool \<Rightarrow> string option \<Rightarrow> datetime \<Rightarrow> news_raw list \<Rightarrow> enrichment_db
     \<Rightarrow> run_result option \<times> enrichment_db" where
  "process_raw_articles_seen seen env has_client owner now raws db =
     (case new_budget (ep_max_llm_calls (pe_policy env)) (ep_max_llm_tokens (pe_policy env)) of
        None \<Rightarrow> (None, db)
      | Some budget \<Rightarrow>
          (let chosen = chosen_articles seen owner now raws in
           case enrich_all env owner 0 chosen \<lparr>pr_db = db, pr_metrics = no_metrics, pr_saved = 0,
               pr_already = length raws - length chosen, pr_budget = budget, pr_enricher = has_client\<rparr> of
             None \<Rightarrow> (None, db)
           | Some st \<Rightarrow> (let m = pr_metrics st in
               (Some \<lparr>rn_saved = pr_saved st, rn_metrics = m\<lparr>em_avoided_llm_calls := em_cached m + em_deterministic m + em_skipped m\<rparr>,
                  rn_already_processed = pr_already st\<rparr>, pr_db st))))"

definition process_raw_articles ::
  "pipeline_env \<Rightarrow> bool \<Rightarrow> string option \<Rightarrow> datetime \<Rightarrow> news_raw list \<Rightarrow> enrichment_db \<Rightarrow> run_result option \<times> enrichment_db" where
  "process_raw_articles env has_client owner now raws db = process_raw_articles_seen db env has_client owner now raws db"

end
