(* ===== verification/EnrichmentFacts.thy ===== *)
theory EnrichmentFacts
  imports EnrichmentPipeline
begin

text \<open>
  One article of a batch, case by case: it is answered from the cache, its output is kept, or it is left
  for later; and what each case does to counts, budget, spend and tables.
\<close>

section \<open>Outputs\<close>

lemma keep_new_clean: "clean_names m \<Longrightarrow> strip s = s \<Longrightarrow> clean_names (keep_new m s)"
  by (auto simp: keep_new_def clean_names_def)

lemma merge_entities_clean: "clean_names (merge_entities gs)"
proof -
  have "clean_names m \<Longrightarrow> clean_names (foldl (\<lambda>m v. keep_new m (strip v)) m xs)" for m xs
    by (induction xs arbitrary: m) (simp_all add: keep_new_clean)
  then show ?thesis by (simp add: merge_entities_def)
qed

lemma merge_evidence_ok: "output_ok res \<Longrightarrow> output_ok (merge_deterministic_evidence res det)"
  by (simp add: output_ok_def merge_deterministic_evidence_def merge_entities_clean)

lemma parse_output_ok: "parse_output k s = Some res \<Longrightarrow> output_ok res"
  by (auto simp: parse_output_def dest: validate_output_ok split: option.splits json.splits)

lemma generate_output_ok: "generate_output env i a = (Some res, u) \<Longrightarrow> output_ok res"
  by (auto simp: generate_output_def dest: parse_output_ok split: prod.splits option.splits)

lemma cache_get_output_ok: "cache_get k t = (Some c, t') \<Longrightarrow> output_ok (cx_output c)"
  by (auto simp: cache_get_def dest: validate_output_ok split: option.splits)

section \<open>What leads up to a result\<close>

definition outcomes :: "enrichment_metrics \<Rightarrow> nat list" where
  "outcomes m = [em_cached m, em_deterministic m, em_llm m, em_skipped m, em_deferred m, em_failed m]"

lemma spent_charge_usage:
  assumes "0 \<le> used"
  shows "spent who on (charge_usage env n used t) = spent who on t
    + (if bucket who = bucket (pe_tenant env) \<and> on = pe_day env n then used else 0)"
  by (auto simp: charge_usage_def consume_overage_def consume_def dest!: consume_SomeD split: option.split)

text \<open>What a call of the model, or none, may change before an output is kept or given up.\<close>

definition accounted :: "pipeline_env \<Rightarrow> nat \<Rightarrow> pipeline_state \<Rightarrow> pipeline_state \<Rightarrow> bool" where
  "accounted env n st st' \<longleftrightarrow>
     pr_saved st' = pr_saved st \<and> pr_already st' = pr_already st \<and> outcomes (pr_metrics st') = outcomes (pr_metrics st)
     \<and> (pr_db st') = (pr_db st)\<lparr>en_spend := en_spend (pr_db st')\<rparr>
     \<and> (budget_ok (pr_budget st) \<longrightarrow> budget_ok (pr_budget st') \<and> eb_max_calls (pr_budget st') = eb_max_calls (pr_budget st)
       \<and> int (em_llm_calls (pr_metrics st')) - int (em_llm_calls (pr_metrics st))
         = eb_calls_reserved (pr_budget st') - eb_calls_reserved (pr_budget st))
     \<and> (\<forall>who on. spent who on (en_spend (pr_db st')) = spent who on (en_spend (pr_db st))
          + (if bucket who = bucket (pe_tenant env) \<and> on = pe_day env n
             then em_llm_tokens (pr_metrics st') - em_llm_tokens (pr_metrics st) else 0))"

lemma accounted_refl [simp]: "accounted env n st st"
  by (simp add: accounted_def)

lemma accounted_enricher: "accounted env n st (st\<lparr>pr_enricher := b\<rparr>)"
  by (simp add: accounted_def)

lemma call_model_parts:
  assumes "call_model env n a analysis decision budget st = Some (kept, st')"
  obtains u b where "0 \<le> u" "record_usage u budget = Some b"
    "st' = st\<lparr>pr_budget := b,
       pr_metrics := (pr_metrics st)\<lparr>em_llm_calls := Suc (em_llm_calls (pr_metrics st)), em_llm_tokens := em_llm_tokens (pr_metrics st) + u\<rparr>,
       pr_db := (pr_db st)\<lparr>en_spend := charge_usage env n u (en_spend (pr_db st))\<rparr>\<rparr>"
    "\<And>res m why used. kept = Some (res, m, why, used) \<Longrightarrow> output_ok (da_output analysis) \<Longrightarrow> output_ok res \<and> (m = Deterministic \<and> \<not> used \<or> m = Llm \<and> used)"
proof -
  obtain ans c where g: "generate_output env (em_llm_calls (pr_metrics st)) a = (ans, c)" by force
  obtain b where b: "record_usage (max 0 c) budget = Some b"
    using assms g by (auto simp: call_model_def Let_def split: option.splits)
  have ok: "ans = Some res \<Longrightarrow> output_ok (merge_deterministic_evidence res (da_output analysis))" for res
    using g generate_output_ok merge_evidence_ok by blast
  show thesis
  proof (rule that [of "max 0 c" b])
    show "0 \<le> max 0 c" by simp
    show "record_usage (max 0 c) budget = Some b" by (rule b)
    show "st' = st\<lparr>pr_budget := b, pr_metrics := (pr_metrics st)\<lparr>em_llm_calls := Suc (em_llm_calls (pr_metrics st)),
        em_llm_tokens := em_llm_tokens (pr_metrics st) + max 0 c\<rparr>,
       pr_db := (pr_db st)\<lparr>en_spend := charge_usage env n (max 0 c) (en_spend (pr_db st))\<rparr>\<rparr>"
      using assms by (cases ans) (auto simp: call_model_def g b Let_def split: if_splits)
    show "output_ok res \<and> (m = Deterministic \<and> \<not> used \<or> m = Llm \<and> used)"
      if "kept = Some (res, m, why, used)" "output_ok (da_output analysis)" for res m why used
      using assms that ok by (auto simp: call_model_def g b Let_def split: option.splits if_splits)
  qed
qed

lemma call_model_accounted:
  assumes "reserve e (pr_budget st) = Some (True, budget)"
    and "call_model env n a analysis decision budget (st\<lparr>pr_enricher := True\<rparr>) = Some (kept, st')"
  shows "accounted env n st st'"
proof -
  let ?s = "st\<lparr>pr_enricher := True\<rparr>"
  obtain u b where u: "0 \<le> u" "record_usage u budget = Some b"
    and st': "st' = ?s\<lparr>pr_budget := b,
       pr_metrics := (pr_metrics ?s)\<lparr>em_llm_calls := Suc (em_llm_calls (pr_metrics ?s)), em_llm_tokens := em_llm_tokens (pr_metrics ?s) + u\<rparr>,
       pr_db := (pr_db ?s)\<lparr>en_spend := charge_usage env n u (en_spend (pr_db ?s))\<rparr>\<rparr>"
    by (rule call_model_parts [OF assms(2)]) blast
  have "budget_ok (pr_budget st) \<Longrightarrow> budget_ok b \<and> eb_max_calls b = eb_max_calls (pr_budget st)
      \<and> eb_calls_reserved b = eb_calls_reserved (pr_budget st) + 1"
    using reserve_ok [OF assms(1)] record_usage_ok [OF u(2)] by auto
  then show ?thesis using u(1) by (simp add: accounted_def st' outcomes_def spent_charge_usage)
qed

section \<open>One article\<close>

text \<open>The state after the cache was asked and had no answer.\<close>

definition after_miss :: "pipeline_env \<Rightarrow> news_raw \<Rightarrow> pipeline_state \<Rightarrow> pipeline_state" where
  "after_miss env raw st = st\<lparr>pr_metrics := (pr_metrics st)\<lparr>em_cache_misses := Suc (em_cache_misses (pr_metrics st))\<rparr>\<rparr>"

lemma cache_miss_keeps: "cache_get k t = (None, t') \<Longrightarrow> t' = t"
  by (auto simp: cache_get_def split: option.splits)

lemma decide_route_cases: "decide_route False r c p b = Inr d \<Longrightarrow> rd_route d \<in> {Skipped, Deterministic, Deferred} \<or> rd_route d = Llm \<and> b"
  by (auto simp: decide_route_def Let_def split: if_splits)

definition below_relevance :: "pipeline_env \<Rightarrow> news_raw \<Rightarrow> bool" where
  "below_relevance env raw \<longleftrightarrow> (case analyze (pe_walk env) (rebuilt_article raw) (ep_summary_max_chars (pe_policy env)) of
     None \<Rightarrow> False | Some an \<Rightarrow> da_relevance an < ep_min_relevance (pe_policy env))"

lemma decide_route_skips: "decide_route False r c p b = Inr d \<Longrightarrow> rd_route d = Skipped \<Longrightarrow> r < ep_min_relevance p"
  by (auto simp: decide_route_def Let_def split: if_splits)

lemma given_up:
  assumes "give_up_call env owner n raw analysis st = Some st'"
    and "decide_route False (da_relevance analysis) (da_confidence analysis) (pe_policy env) True = Inr d" "rd_route d = Llm"
  shows "st' = leave_article env n owner (nr_id raw) (Some Deferred) st"
  using assms by (auto simp: give_up_call_def decide_route_def Let_def split: if_splits)

lemma ask_model_cases:
  assumes ask: "ask_model env owner n raw analysis decision st = Some st'"
    and d: "decide_route False (da_relevance analysis) (da_confidence analysis) (pe_policy env) True = Inr decision" "rd_route decision = Llm"
    and ok: "output_ok (da_output analysis)"
  obtains (stored) st3 res m why used where "accounted env n st st3" "output_ok res" "m = Deterministic \<and> \<not> used \<or> m = Llm \<and> used"
      "keep_output env owner n raw (da_confidence analysis) (res, m, why, used) st3 = Some st'"
    | (left) st3 route where "accounted env n st st3" "route \<in> {None, Some Deferred}"
      "st' = leave_article env n owner (nr_id raw) route st3"
proof (cases "ensure_llm_client env (pr_enricher st)")
  case False
  then have "st' = leave_article env n owner (nr_id raw) (Some Deferred) st" using ask given_up [OF _ d] by (simp add: ask_model_def)
  then show thesis using left [of st "Some Deferred"] by simp
next
  case True
  let ?e = "estimated_tokens (rebuilt_article raw)"
  obtain r b where rb: "reserve ?e (pr_budget st) = Some (r, b)" using ask True by (auto simp: ask_model_def Let_def split: option.splits)
  show thesis
  proof (cases r)
    case False
    then have "give_up_call env owner n raw analysis (st\<lparr>pr_enricher := True\<rparr>) = Some st'" using ask True rb by (simp add: ask_model_def Let_def)
    from given_up [OF this d] show thesis using left [of "st\<lparr>pr_enricher := True\<rparr>" "Some Deferred"] accounted_enricher by simp
  next
    case r: True
    then obtain kept st3 where c: "call_model env n (rebuilt_article raw) analysis decision b (st\<lparr>pr_enricher := True\<rparr>) = Some (kept, st3)"
      using ask True rb by (auto simp: ask_model_def Let_def split: option.splits)
    have acc: "accounted env n st st3" using rb r c by (intro call_model_accounted) simp_all
    show thesis
    proof (cases kept)
      case None
      then have "st' = leave_article env n owner (nr_id raw) None st3" using ask True rb r c by (simp add: ask_model_def Let_def)
      then show thesis using left [OF acc, of None] by simp
    next
      case (Some k)
      obtain res m why used where k: "k = (res, m, why, used)" by (metis prod_cases4)
      have "output_ok res \<and> (m = Deterministic \<and> \<not> used \<or> m = Llm \<and> used)"
        by (rule call_model_parts [OF c]) (use Some k ok in blast)
      moreover have "keep_output env owner n raw (da_confidence analysis) k st3 = Some st'"
        using ask True rb r c Some by (simp add: ask_model_def Let_def)
      ultimately show thesis using stored [OF acc] k by blast
    qed
  qed
qed

lemma enrich_article_cases:
  assumes run: "enrich_article env owner n raw st = Some st'"
  obtains (hit) c t where "cache_get (cache_key env (rebuilt_article raw)) (en_cache (pr_db st)) = (Some c, t)"
      "st' = store_result env n owner (nr_id raw) (processed_row env n (nr_id raw) (rebuilt_article raw) (cx_output c) Cached
         ''compatible_cache_hit'' (fst (cache_key env (rebuilt_article raw))) None False) Cached (st\<lparr>pr_db := (pr_db st)\<lparr>en_cache := t\<rparr>\<rparr>)"
    | (stored) conf st3 res m why used where
      "fst (cache_get (cache_key env (rebuilt_article raw)) (en_cache (pr_db st))) = None"
      "accounted env n (after_miss env raw st) st3" "output_ok res" "m = Deterministic \<and> \<not> used \<or> m = Llm \<and> used"
      "keep_output env owner n raw conf (res, m, why, used) st3 = Some st'"
    | (left) st3 route where "fst (cache_get (cache_key env (rebuilt_article raw)) (en_cache (pr_db st))) = None"
      "accounted env n (after_miss env raw st) st3" "route \<in> {None, Some Skipped, Some Deferred}"
      "st' = leave_article env n owner (nr_id raw) route st3" "route = Some Skipped \<longrightarrow> below_relevance env raw"
proof -
  obtain cached t where g: "cache_get (cache_key env (rebuilt_article raw)) (en_cache (pr_db st)) = (cached, t)" by force
  show thesis
  proof (cases cached)
    case (Some c)
    then show thesis using run g by (intro hit [of c t]) (simp_all add: enrich_article_def Let_def)
  next
    case None
    have miss: "fst (cache_get (cache_key env (rebuilt_article raw)) (en_cache (pr_db st))) = None" using g None by simp
    have t: "t = en_cache (pr_db st)" using g None cache_miss_keeps by blast
    let ?s = "after_miss env raw st" and ?n = "ep_summary_max_chars (pe_policy env)"
    have s1: "st\<lparr>pr_db := (pr_db st)\<lparr>en_cache := t\<rparr>, pr_metrics := (pr_metrics st)\<lparr>em_cache_misses := Suc (em_cache_misses (pr_metrics st))\<rparr>\<rparr> = ?s"
      by (simp add: after_miss_def t)
    obtain an where an: "analyze (pe_walk env) (rebuilt_article raw) ?n = Some an"
      using run by (auto simp: enrich_article_def Let_def g None split: option.splits)
    have ok: "output_ok (da_output an)" using analyze_unit [OF an] by blast
    let ?b = "budget_available env n (estimated_tokens (rebuilt_article raw)) ?s"
    obtain d where d: "decide_route False (da_relevance an) (da_confidence an) (pe_policy env) ?b = Inr d"
      using run by (auto simp: enrich_article_def Let_def g None an s1 split: sum.splits)
    have run': "(case rd_route d of Deterministic \<Rightarrow> keep_output env owner n raw (da_confidence an) (da_output an, Deterministic, rd_reason d, False) ?s
        | Llm \<Rightarrow> ask_model env owner n raw an d ?s | r \<Rightarrow> Some (leave_article env n owner (nr_id raw) (Some r) ?s)) = Some st'"
      using run by (cases "rd_route d") (simp_all add: enrich_article_def Let_def g None an s1 d)
    consider "rd_route d = Deterministic" | "rd_route d \<in> {Skipped, Deferred}" | "rd_route d = Llm" "?b"
      using decide_route_cases [OF d] by blast
    then show thesis
    proof cases
      case 1
      then show thesis using run' miss ok by (intro stored [of ?s "da_output an" Deterministic False "da_confidence an" "rd_reason d"]) simp_all
    next
      case 2
      have "rd_route d = Skipped \<longrightarrow> below_relevance env raw"
        using decide_route_skips [OF d] by (simp add: below_relevance_def an)
      then show thesis using 2 run' miss by (intro left [of ?s "Some (rd_route d)"]) (auto split: enrichment_route.splits)
    next
      case 3
      then have "ask_model env owner n raw an d ?s = Some st'"
          "decide_route False (da_relevance an) (da_confidence an) (pe_policy env) True = Inr d" using run' d by simp_all
      from this 3(1) ok show thesis
      proof (cases rule: ask_model_cases)
        case (stored st3 res m why used)
        then show thesis by (rule that(2) [OF miss])
      next
        case (left st3 route)
        from left(2) have "route \<in> {None, Some Skipped, Some Deferred}" "route = Some Skipped \<longrightarrow> below_relevance env raw" by auto
        from that(3) [OF miss left(1) this(1) left(3) this(2)] show thesis .
      qed
    qed
  qed
qed

section \<open>Keeping and leaving\<close>

lemma add_processed_frame:
  "add_processed p db = (b, db') \<Longrightarrow> en_raw db' = en_raw db \<and> en_cache db' = en_cache db \<and> en_spend db' = en_spend db"
  by (auto simp: add_processed_def Let_def split: option.splits)

lemma add_processed_rows:
  assumes "add_processed p db = (b, db')"
  shows "en_processed db' = en_processed db @ (if b then [p\<lparr>pa_id := fresh_id pa_id (en_processed db)\<rparr>] else [])"
    and "b \<longleftrightarrow> pa_raw_article_id p \<notin> pa_raw_article_id ` set (en_processed db)"
  using assms by (auto simp: add_processed_def sql_insert_def Let_def split: option.splits if_splits)

lemma transition_frame [simp]:
  "en_processed (transition_raw i w s d t db) = en_processed db" "en_cache (transition_raw i w s d t db) = en_cache db"
  "en_spend (transition_raw i w s d t db) = en_spend db" "en_suppliers (transition_raw i w s d t db) = en_suppliers db"
  by (simp_all add: transition_raw_def)

text \<open>What one article does to the counts: one more outcome, or one more that another worker had.\<close>

definition stepped :: "pipeline_state \<Rightarrow> pipeline_state \<Rightarrow> bool" where
  "stepped st st' \<longleftrightarrow>
     sum_list (outcomes (pr_metrics st')) + pr_already st' = Suc (sum_list (outcomes (pr_metrics st)) + pr_already st)
     \<and> int (pr_saved st') - int (sum_list (take 3 (outcomes (pr_metrics st'))))
         = int (pr_saved st) - int (sum_list (take 3 (outcomes (pr_metrics st))))
     \<and> int (length (en_processed (pr_db st'))) - int (pr_saved st') = int (length (en_processed (pr_db st))) - int (pr_saved st)
     \<and> pr_budget st' = pr_budget st \<and> em_llm_calls (pr_metrics st') = em_llm_calls (pr_metrics st)
     \<and> em_llm_tokens (pr_metrics st') = em_llm_tokens (pr_metrics st) \<and> en_spend (pr_db st') = en_spend (pr_db st)"

lemma count_route_simps [simp]:
  "em_llm_calls (count_route r m) = em_llm_calls m" "em_llm_tokens (count_route r m) = em_llm_tokens m"
  "sum_list (outcomes (count_route r m)) = Suc (sum_list (outcomes m))"
  "sum_list (take 3 (outcomes (count_route r m))) = (if r \<in> {Cached, Deterministic, Llm} then 1 else 0) + sum_list (take 3 (outcomes m))"
  by (cases r; simp add: count_route_def outcomes_def)+

lemma count_failed_simps [simp]:
  "em_llm_calls (count_failed m) = em_llm_calls m" "em_llm_tokens (count_failed m) = em_llm_tokens m"
  "sum_list (outcomes (count_failed m)) = Suc (sum_list (outcomes m))"
  "sum_list (take 3 (outcomes (count_failed m))) = sum_list (take 3 (outcomes m))"
  by (simp_all add: count_failed_def outcomes_def)

lemma store_result_stepped: "m \<in> {Cached, Deterministic, Llm} \<Longrightarrow> stepped st (store_result env n owner i row m st)"
proof -
  assume m: "m \<in> {Cached, Deterministic, Llm}"
  obtain b db' where a: "add_processed row (pr_db st) = (b, db')" by force
  show ?thesis using m add_processed_frame [OF a] add_processed_rows(1) [OF a]
    by (cases b) (simp_all add: store_result_def a Let_def stepped_def)
qed

lemma leave_article_stepped: "route \<in> {None, Some Skipped, Some Deferred} \<Longrightarrow> stepped st (leave_article env n owner i route st)"
  by (auto simp: leave_article_def stepped_def Let_def)

lemma keep_output_cases:
  assumes "keep_output env owner n raw conf (res, m, why, used) st = Some st'" "m \<in> {Deterministic, Llm}"
  obtains t where "cache_put (cache_key env (rebuilt_article raw)) res (route_str m) (en_cache (pr_db st)) = Some t"
    "st' = store_result env n owner (nr_id raw) (processed_row env n (nr_id raw) (rebuilt_article raw) res m why
       (fst (cache_key env (rebuilt_article raw))) (Some conf) used) m (st\<lparr>pr_db := (pr_db st)\<lparr>en_cache := t\<rparr>\<rparr>)"
  using assms by (auto simp: keep_output_def Let_def split: option.splits)

end
