(* ===== verification/EnrichmentProperties.thy ===== *)
theory EnrichmentProperties
  imports EnrichmentFacts
begin

text \<open>
  What a batch of enrichment guarantees: its counts and spending add up, its tables stay well formed,
  rows other workers lease are not touched, and content that is in the cache is not paid for again.
\<close>

section \<open>Accounts\<close>

text \<open>A state of the loop, compared with the state it began in: \<open>k\<close> articles later, on one day.\<close>

definition balanced :: "pipeline_env \<Rightarrow> int \<Rightarrow> nat \<Rightarrow> pipeline_state \<Rightarrow> pipeline_state \<Rightarrow> bool" where
  "balanced env day k st st' \<longleftrightarrow>
     sum_list (outcomes (pr_metrics st')) + pr_already st' = k + (sum_list (outcomes (pr_metrics st)) + pr_already st)
     \<and> int (pr_saved st') - int (sum_list (take 3 (outcomes (pr_metrics st'))))
         = int (pr_saved st) - int (sum_list (take 3 (outcomes (pr_metrics st))))
     \<and> int (length (en_processed (pr_db st'))) - int (pr_saved st') = int (length (en_processed (pr_db st))) - int (pr_saved st)
     \<and> (budget_ok (pr_budget st) \<longrightarrow> budget_ok (pr_budget st') \<and> eb_max_calls (pr_budget st') = eb_max_calls (pr_budget st)
       \<and> int (em_llm_calls (pr_metrics st')) - int (em_llm_calls (pr_metrics st))
         = eb_calls_reserved (pr_budget st') - eb_calls_reserved (pr_budget st))
     \<and> (\<forall>who on. spent who on (en_spend (pr_db st')) = spent who on (en_spend (pr_db st))
          + (if bucket who = bucket (pe_tenant env) \<and> on = day
             then em_llm_tokens (pr_metrics st') - em_llm_tokens (pr_metrics st) else 0))"

lemma balanced_refl: "balanced env day 0 st st"
  by (simp add: balanced_def)

lemma balanced_trans: "balanced env day k st st' \<Longrightarrow> balanced env day j st' st'' \<Longrightarrow> balanced env day (j + k) st st''"
  by (auto simp: balanced_def)

lemma balanced_then: "balanced env day 0 st s \<Longrightarrow> balanced env day 1 s st' \<Longrightarrow> balanced env day 1 st st'"
  using balanced_trans [of env day 0 st s 1 st'] by simp

lemma balanced_accounted: "accounted env n st st' \<Longrightarrow> pe_day env n = day \<Longrightarrow> balanced env day 0 st st'"
  unfolding accounted_def balanced_def by (metis (no_types, lifting) add_0 enrichment_db.select_convs(2) enrichment_db.surjective enrichment_db.update_convs(4))

lemma balanced_stepped: "stepped st st' \<Longrightarrow> balanced env day 1 st st'"
  by (simp add: stepped_def balanced_def)

lemma balanced_miss: "balanced env day 0 st (after_miss env raw st)"
  by (simp add: after_miss_def balanced_def outcomes_def)

lemma balanced_cache: "balanced env day 0 st (st\<lparr>pr_db := (pr_db st)\<lparr>en_cache := t\<rparr>\<rparr>)"
  by (simp add: balanced_def)

lemma balanced_article:
  assumes "enrich_article env owner n raw st = Some st'" "pe_day env n = day"
  shows "balanced env day 1 st st'"
  using assms(1)
proof (cases rule: enrich_article_cases)
  case (hit c t)
  have "balanced env day 1 (st\<lparr>pr_db := (pr_db st)\<lparr>en_cache := t\<rparr>\<rparr>) st'"
    unfolding hit(2) by (rule balanced_stepped, rule store_result_stepped) simp
  with balanced_cache show ?thesis by (rule balanced_then)
next
  case (stored conf st3 res m why used)
  have m: "m \<in> {Deterministic, Llm}" using stored(4) by blast
  from keep_output_cases [OF stored(5) m] obtain t row where
    st': "st' = store_result env n owner (nr_id raw) row m (st3\<lparr>pr_db := (pr_db st3)\<lparr>en_cache := t\<rparr>\<rparr>)" by blast
  have "balanced env day 1 (st3\<lparr>pr_db := (pr_db st3)\<lparr>en_cache := t\<rparr>\<rparr>) st'"
    unfolding st' using m by (intro balanced_stepped store_result_stepped) blast
  with balanced_cache have "balanced env day 1 st3 st'" by (rule balanced_then)
  with balanced_accounted [OF stored(2) assms(2)] have "balanced env day 1 (after_miss env raw st) st'"
    by (rule balanced_then)
  with balanced_miss show ?thesis by (rule balanced_then)
next
  case (left st3 route)
  have "balanced env day 1 st3 st'" unfolding left(4) by (rule balanced_stepped, rule leave_article_stepped [OF left(3)])
  with balanced_accounted [OF left(2) assms(2)] have "balanced env day 1 (after_miss env raw st) st'"
    by (rule balanced_then)
  with balanced_miss show ?thesis by (rule balanced_then)
qed

lemma balanced_all:
  "enrich_all env owner n rs st = Some st' \<Longrightarrow> (\<And>i. pe_day env i = day) \<Longrightarrow> balanced env day (length rs) st st'"
proof (induction rs arbitrary: n st)
  case (Cons r rs)
  then obtain s where s: "enrich_article env owner n r st = Some s" "enrich_all env owner (Suc n) rs s = Some st'"
    by (auto split: option.splits)
  show ?case using balanced_trans [OF balanced_article [OF s(1) Cons.prems(2)] Cons.IH [OF s(2) Cons.prems(2)]] by simp
qed (simp add: balanced_refl)

lemma to_process_length: "length (to_process taken blocked rs) \<le> length rs"
  by (induction taken blocked rs rule: to_process.induct) auto

lemma process_cases:
  assumes "process_raw_articles_seen seen env client owner now raws db = (r, db')"
  obtains (failed) "r = None" "db' = db"
    | (finished) budget st where "new_budget (ep_max_llm_calls (pe_policy env)) (ep_max_llm_tokens (pe_policy env)) = Some budget"
      "enrich_all env owner 0 (chosen_articles seen owner now raws) \<lparr>pr_db = db, pr_metrics = no_metrics, pr_saved = 0,
         pr_already = length raws - length (chosen_articles seen owner now raws), pr_budget = budget, pr_enricher = client\<rparr> = Some st"
      "db' = pr_db st" "r = Some \<lparr>rn_saved = pr_saved st, rn_metrics = (pr_metrics st)\<lparr>em_avoided_llm_calls :=
         em_cached (pr_metrics st) + em_deterministic (pr_metrics st) + em_skipped (pr_metrics st)\<rparr>, rn_already_processed = pr_already st\<rparr>"
  using assms unfolding process_raw_articles_seen_def Let_def
  by (auto split: option.splits)

text \<open>C1: A batch of enrichment that succeeds accounts for every article it was given exactly once, as answered from
  the cache, by rules or by the model, skipped, deferred, failed, or processed already; what it saved is what the
  first three count, and that many rows are added. It never calls the model more often than the policy allows, and the
  tokens it reports are exactly what the daily spend of its tenant grows by, while no other spend changes. A batch that
  fails changes nothing.\<close>
theorem enrichment_accounts:
  assumes "process_raw_articles_seen seen env client owner now raws db = (r, db')" "\<And>i. pe_day env i = day"
  shows "case r of None \<Rightarrow> db' = db
    | Some r \<Rightarrow> let m = rn_metrics r in
        em_cached m + em_deterministic m + em_llm m + em_skipped m + em_deferred m + em_failed m + rn_already_processed r = length raws
        \<and> rn_saved r = em_cached m + em_deterministic m + em_llm m
        \<and> em_avoided_llm_calls m = em_cached m + em_deterministic m + em_skipped m
        \<and> length (en_processed db') = length (en_processed db) + rn_saved r
        \<and> int (em_llm_calls m) \<le> ep_max_llm_calls (pe_policy env)
        \<and> (\<forall>who on. spent who on (en_spend db') = spent who on (en_spend db)
            + (if bucket who = bucket (pe_tenant env) \<and> on = day then em_llm_tokens m else 0))"
  using assms(1)
proof (cases rule: process_cases)
  case failed
  then show ?thesis by simp
next
  case (finished b st)
  let ?c = "chosen_articles seen owner now raws"
  have "length ?c \<le> length raws" by (simp add: chosen_articles_def to_process_length)
  moreover note balanced_all [OF finished(2) assms(2)] new_budget_ok [OF finished(1)]
  ultimately show ?thesis
    unfolding finished(3,4) by (simp add: balanced_def no_metrics_def outcomes_def Let_def budget_ok_def eval_nat_numeral)
qed

section \<open>Tables\<close>

text \<open>What a stored row promises its readers, and the tables together.\<close>

definition processed_ok :: "processed_article \<Rightarrow> bool" where
  "processed_ok p \<longleftrightarrow> summary_ok (pa_summary p) \<and> pa_top_level_category p \<in> set canonical_categories
     \<and> (\<exists>ts. pa_signal_tags p = Some ts \<and> set ts \<subseteq> set valid_signal_tags \<and> distinct ts)
     \<and> (case pa_priority_signal p of None \<Rightarrow> True | Some t \<Rightarrow> t \<in> set valid_signal_tags)
     \<and> (\<exists>xs. pa_detected_suppliers p = Some xs \<and> clean_names xs) \<and> (\<exists>xs. pa_detected_regions p = Some xs \<and> clean_names xs)
     \<and> (\<exists>xs. pa_detected_categories p = Some xs \<and> xs \<noteq> [])
     \<and> pa_enrichment_method p \<in> Some ` {''cached'', ''deterministic'', ''llm''}
     \<and> (pa_llm_used p \<longleftrightarrow> pa_enrichment_method p = Some ''llm'') \<and> (pa_llm_used p \<longleftrightarrow> pa_llm_model p \<noteq> None)
     \<and> (pa_deterministic_confidence p = None \<longleftrightarrow> pa_enrichment_method p = Some ''cached'')"

definition enrichment_tables_ok :: "enrichment_db \<Rightarrow> bool" where
  "enrichment_tables_ok db \<longleftrightarrow> distinct (map pa_raw_article_id (en_processed db)) \<and> distinct (map pa_id (en_processed db))
     \<and> list_all processed_ok (en_processed db) \<and> cache_ok (en_cache db)"

lemma processed_row_ok:
  assumes "output_ok res" "m = Deterministic \<and> \<not> used \<or> m = Llm \<and> used \<or> m = Cached \<and> \<not> used" "conf = None \<longleftrightarrow> m = Cached"
  shows "processed_ok (processed_row env n i a res m why f conf used)"
  using assms by (elim disjE) (simp_all add: processed_ok_def processed_row_def output_ok_def)

lemma processed_ok_id [simp]: "processed_ok (p\<lparr>pa_id := i\<rparr>) = processed_ok p"
  by (simp add: processed_ok_def)

lemma add_processed_ok:
  assumes "add_processed p db = (b, db')" "processed_ok p" "enrichment_tables_ok db"
  shows "enrichment_tables_ok db'"
proof -
  have "fresh_id pa_id (en_processed db) \<notin> pa_id ` set (en_processed db)"
    using fresh_id_gt [of _ "en_processed db" pa_id] by (metis imageE nat_neq_iff)
  then show ?thesis using assms(2,3) add_processed_rows [OF assms(1)] add_processed_frame [OF assms(1)]
    by (cases b) (simp_all add: enrichment_tables_ok_def)
qed

text \<open>What one article writes: at most one row, of that article; its place in the lifecycle; the cache.\<close>

definition moves :: "string list" where
  "moves = [''completed'', ''enrichment_retry'', ''skipped'', ''deferred'']"

definition wrote :: "string option \<Rightarrow> news_raw \<Rightarrow> enrichment_db \<Rightarrow> enrichment_db \<Rightarrow> bool" where
  "wrote owner raw db db' \<longleftrightarrow>
     (\<exists>new. en_processed db' = en_processed db @ new \<and> list_all (\<lambda>p. processed_ok p \<and> pa_raw_article_id p = nr_id raw) new)
     \<and> (\<exists>status delay t. status \<in> set moves \<and> en_raw db' = en_raw (transition_raw (nr_id raw) owner status delay t db))
     \<and> (enrichment_tables_ok db \<longrightarrow> enrichment_tables_ok db')"

lemma transition_tables [simp]: "enrichment_tables_ok (transition_raw i w s d t db) = enrichment_tables_ok db"
  by (simp add: enrichment_tables_ok_def)

lemma store_result_wrote:
  assumes "processed_ok row" "pa_raw_article_id row = nr_id raw" "en_raw db0 = en_raw db" "en_processed db0 = en_processed db"
    and "enrichment_tables_ok db \<Longrightarrow> cache_ok (en_cache db0)"
  shows "wrote owner raw db (pr_db (store_result env n owner (nr_id raw) row m (st\<lparr>pr_db := db0\<rparr>)))"
proof -
  obtain b db' where a: "add_processed row db0 = (b, db')" by force
  let ?db = "transition_raw (nr_id raw) owner ''completed'' None (pe_now env n) db'"
  have tables: "enrichment_tables_ok db \<Longrightarrow> enrichment_tables_ok ?db"
    using add_processed_ok [OF a assms(1)] assms(4,5) by (simp add: enrichment_tables_ok_def)
  have raw: "en_raw ?db = en_raw (transition_raw (nr_id raw) owner ''completed'' None (pe_now env n) db)"
    using add_processed_frame [OF a] assms(3) by (simp add: transition_raw_def)
  have res: "pr_db (store_result env n owner (nr_id raw) row m (st\<lparr>pr_db := db0\<rparr>)) = ?db"
    by (simp add: store_result_def a Let_def)
  have new: "\<exists>new. en_processed ?db = en_processed db @ new \<and> list_all (\<lambda>p. processed_ok p \<and> pa_raw_article_id p = nr_id raw) new"
    using add_processed_rows(1) [OF a] assms(1,2,4) by (cases b) auto
  show ?thesis unfolding wrote_def res
    by (rule conjI [OF new], rule conjI, rule exI, rule exI, rule exI, rule conjI [rotated], rule raw,
      simp add: moves_def, rule impI, erule tables)
qed

lemma transition_wrote:
  assumes "status \<in> set moves"
  shows "wrote owner raw db (transition_raw (nr_id raw) owner status delay t (db\<lparr>en_spend := sp\<rparr>))"
proof -
  have "en_raw (transition_raw i w s d u (db\<lparr>en_spend := sp\<rparr>)) = en_raw (transition_raw i w s d u db)" for i w s d u
    by (simp add: transition_raw_def)
  moreover have "enrichment_tables_ok (db\<lparr>en_spend := sp\<rparr>) = enrichment_tables_ok db" by (simp add: enrichment_tables_ok_def)
  ultimately show ?thesis unfolding wrote_def using assms by auto
qed

lemma leave_article_wrote:
  assumes "route \<in> {None, Some Skipped, Some Deferred}" "pr_db st = db\<lparr>en_spend := sp\<rparr>"
  shows "wrote owner raw db (pr_db (leave_article env n owner (nr_id raw) route st))"
  using assms(1) by (elim insertE emptyE) (simp_all add: leave_article_def assms(2) Let_def transition_wrote moves_def)

lemma article_wrote:
  assumes "enrich_article env owner n raw st = Some st'"
  shows "wrote owner raw (pr_db st) (pr_db st')"
  using assms
proof (cases rule: enrich_article_cases)
  case (hit c t)
  have ok: "output_ok (cx_output c)" "cache_ok (en_cache (pr_db st)) \<Longrightarrow> cache_ok t"
    using cache_get_output_ok [OF hit(1)] cache_get_ok [OF hit(1)] by blast+
  show ?thesis unfolding hit(2)
    by (rule store_result_wrote, rule processed_row_ok [OF ok(1)]) (use ok(2) in \<open>simp_all add: processed_row_def enrichment_tables_ok_def\<close>)
next
  case (stored conf st3 res m why used)
  have m: "m \<in> {Deterministic, Llm}" using stored(4) by blast
  from keep_output_cases [OF stored(5) m] obtain t where
    t: "cache_put (cache_key env (rebuilt_article raw)) res (route_str m) (en_cache (pr_db st3)) = Some t" and
    st': "st' = store_result env n owner (nr_id raw) (processed_row env n (nr_id raw) (rebuilt_article raw) res m why
       (fst (cache_key env (rebuilt_article raw))) (Some conf) used) m (st3\<lparr>pr_db := (pr_db st3)\<lparr>en_cache := t\<rparr>\<rparr>)" by blast
  have db: "pr_db st3 = (pr_db st)\<lparr>en_spend := en_spend (pr_db st3)\<rparr>"
    using stored(2) by (simp add: accounted_def after_miss_def)
  have same: "en_raw (pr_db st3) = en_raw (pr_db st)" "en_processed (pr_db st3) = en_processed (pr_db st)" "en_cache (pr_db st3) = en_cache (pr_db st)"
    by (subst db, simp)+
  have cache: "cache_ok (en_cache (pr_db st)) \<Longrightarrow> cache_ok t"
    using t same(3) by (auto simp: cache_put_def intro: cache_put_ok)
  have row: "processed_ok (processed_row env n (nr_id raw) (rebuilt_article raw) res m why f (Some conf) used)" for f
    by (rule processed_row_ok [OF stored(3)]) (use stored(4) in auto)
  show ?thesis unfolding st'
    by (rule store_result_wrote [OF row]) (use same cache in \<open>simp_all add: processed_row_def enrichment_tables_ok_def\<close>)
next
  case (left st3 route)
  have "pr_db st3 = (pr_db st)\<lparr>en_spend := en_spend (pr_db st3)\<rparr>"
    using left(2) by (simp add: accounted_def after_miss_def)
  from leave_article_wrote [OF left(3) this] show ?thesis unfolding left(4) .
qed

lemma transition_others:
  "nr_lease_owner x \<noteq> Some w \<Longrightarrow> x \<in> set (en_raw db) \<Longrightarrow> x \<in> set (en_raw (transition_raw i (Some w) s d t db))"
  by (force simp: transition_raw_def sql_update_def)

lemma all_wrote:
  "enrich_all env owner n rs st = Some st' \<Longrightarrow>
     (enrichment_tables_ok (pr_db st) \<longrightarrow> enrichment_tables_ok (pr_db st'))
     \<and> (\<exists>new. en_processed (pr_db st') = en_processed (pr_db st) @ new
          \<and> list_all (\<lambda>p. processed_ok p \<and> pa_raw_article_id p \<in> nr_id ` set rs) new)
     \<and> (\<forall>w x. owner = Some w \<longrightarrow> nr_lease_owner x \<noteq> Some w \<longrightarrow> x \<in> set (en_raw (pr_db st)) \<longrightarrow> x \<in> set (en_raw (pr_db st')))"
proof (induction rs arbitrary: n st)
  case (Cons r rs)
  then obtain s where s: "enrich_article env owner n r st = Some s" "enrich_all env owner (Suc n) rs s = Some st'"
    by (auto split: option.splits)
  note w = article_wrote [OF s(1), unfolded wrote_def] and ih = Cons.IH [OF s(2)]
  from w obtain new1 where 1: "en_processed (pr_db s) = en_processed (pr_db st) @ new1"
      "list_all (\<lambda>p. processed_ok p \<and> pa_raw_article_id p = nr_id r) new1" by blast
  from ih obtain new2 where 2: "en_processed (pr_db st') = en_processed (pr_db s) @ new2"
      "list_all (\<lambda>p. processed_ok p \<and> pa_raw_article_id p \<in> nr_id ` set rs) new2" by blast
  from 1 2 have "en_processed (pr_db st') = en_processed (pr_db st) @ (new1 @ new2)
      \<and> list_all (\<lambda>p. processed_ok p \<and> pa_raw_article_id p \<in> nr_id ` set (r # rs)) (new1 @ new2)"
    by (auto simp: list_all_iff)
  moreover have "x \<in> set (en_raw (pr_db st'))"
    if "owner = Some w" "nr_lease_owner x \<noteq> Some w" "x \<in> set (en_raw (pr_db st))" for w x
  proof -
    have "x \<in> set (en_raw (pr_db s))" using w that transition_others [OF that(2,3)] by auto
    then show ?thesis using ih that by blast
  qed
  ultimately show ?case using w ih by blast
qed simp

lemma to_process_set: "r \<in> set (to_process taken blocked rs) \<Longrightarrow> r \<in> set rs \<and> nr_id r \<notin> taken \<and> nr_id r \<notin> blocked"
  by (induction taken blocked rs rule: to_process.induct) (auto split: if_splits)

text \<open>C5: A batch of enrichment, whatever it was given and whether it succeeds or fails, leaves the tables well formed: one
  processed row per raw article with ids of their own, each row with a summary, a category and signals of
  the vocabulary, clean lists of names and a method that agrees with the model it names; and a cache with one
  entry per content and version whose method may be cached.\<close>
theorem enrichment_tables_consistent:
  assumes "enrichment_tables_ok db" "process_raw_articles_seen seen env client owner now raws db = (r, db')"
  shows "enrichment_tables_ok db'"
  using assms(2)
proof (cases rule: process_cases)
  case failed
  with assms(1) show ?thesis by simp
next
  case (finished b st)
  from all_wrote [OF finished(2)] assms(1) show ?thesis by (simp add: finished(3))
qed

text \<open>A worker that enriches under its lease leaves every raw article alone that it does not lease, and the rows it
  adds are those of articles it was given which, when it looked, were neither processed nor skipped, rejected,
  waiting for another attempt or leased by somebody else.\<close>
theorem enrichment_respects_leases:
  assumes "process_raw_articles_seen seen env client (Some w) now raws db = (r, db')"
  shows "(x \<in> set (en_raw db) \<longrightarrow> nr_lease_owner x \<noteq> Some w \<longrightarrow> x \<in> set (en_raw db'))
    \<and> (p \<in> set (en_processed db') \<longrightarrow> p \<notin> set (en_processed db) \<longrightarrow> processed_ok p
       \<and> (\<exists>raw \<in> set raws. nr_id raw = pa_raw_article_id p)
       \<and> pa_raw_article_id p \<notin> pa_raw_article_id ` set (en_processed seen)
       \<and> \<not> (\<exists>y \<in> set (en_raw seen). nr_id y = pa_raw_article_id p \<and> unavailable (Some w) now y))"
  using assms
proof (cases rule: process_cases)
  case failed
  then show ?thesis by simp
next
  case (finished b st)
  note w = all_wrote [OF finished(2), simplified]
  have "processed_ok p \<and> pa_raw_article_id p \<in> nr_id ` set (chosen_articles seen (Some w) now raws)"
    if "p \<in> set (en_processed db')" "p \<notin> set (en_processed db)"
    using w that by (auto simp: finished(3) list_all_iff)
  moreover have "i \<in> nr_id ` set raws \<and> i \<notin> pa_raw_article_id ` set (en_processed seen)
      \<and> \<not> (\<exists>y \<in> set (en_raw seen). nr_id y = i \<and> unavailable (Some w) now y)"
    if i: "i \<in> nr_id ` set (chosen_articles seen (Some w) now raws)" for i
  proof -
    from i obtain r where r: "r \<in> set (chosen_articles seen (Some w) now raws)" "i = nr_id r" by blast
    from to_process_set [OF r(1) [unfolded chosen_articles_def]] show ?thesis by (auto simp: r(2) image_iff)
  qed
  ultimately show ?thesis using w by (simp add: finished(3)) (metis imageE)
qed

section \<open>Content that is known\<close>

lemma cache_get_again:
  assumes "cache_get k t = (Some c, t')"
  shows "fst (cache_get k t') = Some c"
proof -
  obtain e where e: "row_of ce_key t k = Some e" "validate_output (ce_payload e) = Some (cx_output c)"
    "cx_original_method c = ce_original_method e" "t' = sql_update (\<lambda>r. ce_key r = k) (\<lambda>r. r\<lparr>ce_hit_count := Suc (ce_hit_count r)\<rparr>) t"
    using assms by (auto simp: cache_get_def split: option.splits)
  have "row_of ce_key t' k = Some (e\<lparr>ce_hit_count := Suc (ce_hit_count e)\<rparr>)"
    using e(1) row_of_SomeD [OF e(1)] by (simp add: e(4) row_of_update)
  then show ?thesis using e(2,3) by (simp add: cache_get_def)
qed

definition same_findings :: "processed_article \<Rightarrow> processed_article \<Rightarrow> bool" where
  "same_findings p q \<longleftrightarrow> pa_summary p = pa_summary q \<and> pa_top_level_category p = pa_top_level_category q
     \<and> pa_signal_tags p = pa_signal_tags q \<and> pa_priority_signal p = pa_priority_signal q
     \<and> pa_detected_regions p = pa_detected_regions q \<and> pa_detected_suppliers p = pa_detected_suppliers q
     \<and> pa_detected_categories p = pa_detected_categories q"

lemma store_result_effect:
  "en_cache (pr_db (store_result env n owner i row m st)) = en_cache (pr_db st)"
  "pr_saved st < pr_saved (store_result env n owner i row m st) \<Longrightarrow>
     \<exists>j. last (en_processed (pr_db (store_result env n owner i row m st))) = row\<lparr>pa_id := j\<rparr>"
proof -
  obtain b db' where a: "add_processed row (pr_db st) = (b, db')" by force
  show "en_cache (pr_db (store_result env n owner i row m st)) = en_cache (pr_db st)"
    using add_processed_frame [OF a] by (simp add: store_result_def a Let_def)
  show "\<exists>j. last (en_processed (pr_db (store_result env n owner i row m st))) = row\<lparr>pa_id := j\<rparr>"
    if "pr_saved st < pr_saved (store_result env n owner i row m st)"
    using that add_processed_rows(1) [OF a] by (cases b) (auto simp: store_result_def a Let_def)
qed

text \<open>After an article was saved, the cache holds what its row says.\<close>

lemma saved_is_cached:
  assumes "enrich_article env owner n raw st = Some st'" "pr_saved st < pr_saved st'"
  obtains c m f conf used why j where "fst (cache_get (cache_key env (rebuilt_article raw)) (en_cache (pr_db st'))) = Some c"
    "last (en_processed (pr_db st')) = (processed_row env n (nr_id raw) (rebuilt_article raw) (cx_output c) m why f conf used)\<lparr>pa_id := j\<rparr>"
  using assms(1)
proof (cases rule: enrich_article_cases)
  case (hit c t)
  let ?s = "st\<lparr>pr_db := (pr_db st)\<lparr>en_cache := t\<rparr>\<rparr>"
  let ?row = "processed_row env n (nr_id raw) (rebuilt_article raw) (cx_output c) Cached ''compatible_cache_hit''
     (fst (cache_key env (rebuilt_article raw))) None False"
  have "pr_saved ?s < pr_saved (store_result env n owner (nr_id raw) ?row Cached ?s)"
    using assms(2) unfolding hit(2) by simp
  from store_result_effect(2) [OF this] obtain j where j: "last (en_processed (pr_db st')) = ?row\<lparr>pa_id := j\<rparr>" unfolding hit(2) ..
  have "fst (cache_get (cache_key env (rebuilt_article raw)) (en_cache (pr_db st'))) = Some c"
    unfolding hit(2) store_result_effect(1) using cache_get_again [OF hit(1)] by simp
  from that [OF this j] show thesis .
next
  case (stored conf st3 res m why used)
  have m: "m \<in> {Deterministic, Llm}" using stored(4) by blast
  let ?k = "cache_key env (rebuilt_article raw)"
  from keep_output_cases [OF stored(5) m] obtain t where
    t: "cache_put ?k res (route_str m) (en_cache (pr_db st3)) = Some t" and
    st': "st' = store_result env n owner (nr_id raw) (processed_row env n (nr_id raw) (rebuilt_article raw) res m why
       (fst ?k) (Some conf) used) m (st3\<lparr>pr_db := (pr_db st3)\<lparr>en_cache := t\<rparr>\<rparr>)" by blast
  have c: "fst (cache_get ?k t) = Some \<lparr>cx_output = res, cx_original_method = route_str m\<rparr>"
    using t by (intro cache_put_get [OF _ _ stored(3)]) (auto simp: cache_put_def)
  let ?s = "st3\<lparr>pr_db := (pr_db st3)\<lparr>en_cache := t\<rparr>\<rparr>"
  let ?row = "processed_row env n (nr_id raw) (rebuilt_article raw) res m why (fst ?k) (Some conf) used"
  have "pr_saved st3 = pr_saved st" using stored(2) by (simp add: accounted_def after_miss_def)
  then have "pr_saved ?s < pr_saved (store_result env n owner (nr_id raw) ?row m ?s)" using assms(2) by (simp add: st')
  from store_result_effect(2) [OF this] obtain j where j: "last (en_processed (pr_db st')) = ?row\<lparr>pa_id := j\<rparr>" unfolding st' ..
  have cache: "fst (cache_get ?k (en_cache (pr_db st'))) = Some \<lparr>cx_output = res, cx_original_method = route_str m\<rparr>"
    unfolding st' store_result_effect(1) using c by simp
  show thesis using that [OF cache, of j m why "fst ?k" "Some conf" used] j by simp
next
  case (left st3 route)
  have "pr_saved st' = pr_saved st" using left(2,3) by (auto simp: left(4) leave_article_def Let_def accounted_def after_miss_def)
  with assms(2) show thesis by simp
qed

text \<open>Content is paid for once. When an article was saved and another one with the same content is enriched next, under
  the same versions of policy and taxonomy, the model is not called: no tokens, no spend, no part of the run's budget.
  If its row is new it says what the first one says, and that it comes from the cache.\<close>
theorem known_content_is_free:
  assumes "enrich_article env owner n raw1 st = Some st1" "pr_saved st < pr_saved st1"
    and "cache_key env (rebuilt_article raw2) = cache_key env (rebuilt_article raw1)"
  shows "\<exists>st2. enrich_article env owner' k raw2 st1 = Some st2
    \<and> em_llm_calls (pr_metrics st2) = em_llm_calls (pr_metrics st1) \<and> em_llm_tokens (pr_metrics st2) = em_llm_tokens (pr_metrics st1)
    \<and> en_spend (pr_db st2) = en_spend (pr_db st1) \<and> pr_budget st2 = pr_budget st1
    \<and> (pr_saved st1 < pr_saved st2 \<longrightarrow>
         same_findings (last (en_processed (pr_db st2))) (last (en_processed (pr_db st1)))
         \<and> pa_enrichment_method (last (en_processed (pr_db st2))) = Some ''cached'')"
proof -
  let ?k = "cache_key env (rebuilt_article raw2)"
  obtain c m f conf used why j where c: "fst (cache_get ?k (en_cache (pr_db st1))) = Some c"
    and row1: "last (en_processed (pr_db st1)) = (processed_row env n (nr_id raw1) (rebuilt_article raw1) (cx_output c) m why f conf used)\<lparr>pa_id := j\<rparr>"
    using assms(3) by (metis saved_is_cached [OF assms(1,2)])
  from c obtain t where t: "cache_get ?k (en_cache (pr_db st1)) = (Some c, t)" by (metis prod.collapse)
  let ?s = "st1\<lparr>pr_db := (pr_db st1)\<lparr>en_cache := t\<rparr>\<rparr>"
  let ?row = "processed_row env k (nr_id raw2) (rebuilt_article raw2) (cx_output c) Cached ''compatible_cache_hit'' (fst ?k) None False"
  let ?st2 = "store_result env k owner' (nr_id raw2) ?row Cached ?s"
  have run: "enrich_article env owner' k raw2 st1 = Some ?st2" by (simp add: enrich_article_def Let_def t)
  have step: "stepped ?s ?st2" by (rule store_result_stepped) simp
  have "same_findings (last (en_processed (pr_db ?st2))) (last (en_processed (pr_db st1)))
      \<and> pa_enrichment_method (last (en_processed (pr_db ?st2))) = Some ''cached''" if "pr_saved st1 < pr_saved ?st2"
  proof -
    have "pr_saved ?s < pr_saved ?st2" using that by simp
    from store_result_effect(2) [OF this] obtain i where "last (en_processed (pr_db ?st2)) = ?row\<lparr>pa_id := i\<rparr>" ..
    then show ?thesis by (simp add: row1 same_findings_def processed_row_def)
  qed
  then show ?thesis using run step unfolding stepped_def by (intro exI [of _ ?st2]) simp
qed

end
