(* ===== verification/EnrichmentExample.thy ===== *)
theory EnrichmentExample
  imports EnrichmentProperties
begin

text \<open>
  The properties of enrichment at work: a batch of three articles of the same content, one of them leased by
  another worker, with a model that answers once.
\<close>

definition demo_raw :: "nat \<Rightarrow> news_raw" where
  "demo_raw i = \<lparr>nr_id = i, nr_article = \<lparr>ra_provider = ''rss'', ra_provider_article_id = None, ra_query_group = ''tariffs'',
     ra_title = ''Gas up'', ra_description = None, ra_content_snippet = None, ra_article_url = ''u'', ra_canonical_url = None,
     ra_source_name = ''s'', ra_source_url = None, ra_published_at = 0, ra_language = ''en'', ra_raw_payload_json = None,
     ra_source_id = None, ra_source_class = None, ra_source_domains = [], ra_source_countries = [], ra_registry_version = None,
     ra_retrieved_at = None, ra_source_published_at_raw = None\<rparr>,
     nr_ingested_at = 0, nr_enrichment_status = None, nr_attempt_count = 0, nr_next_attempt_at = None,
     nr_lease_owner = Some (if i = 3 then ''other'' else ''me''), nr_lease_expires_at = Some 1000\<rparr>"

definition demo_answer :: dict where
  "demo_answer = [(''output_text'', JStr (''{'' @ [CHR 0x22] @ ''summary'' @ [CHR 0x22] @ '': '' @ [CHR 0x22] @ ''Gas prices rise.'' @ [CHR 0x22] @ '', ''
       @ [CHR 0x22] @ ''category'' @ [CHR 0x22] @ '': '' @ [CHR 0x22] @ ''energy'' @ [CHR 0x22] @ ''}'')),
     (''usage'', JObject [(''total_tokens'', JInt 90)])]"

definition demo_env :: pipeline_env where
  "demo_env = \<lparr>pe_policy = \<lparr>ep_min_relevance = 0, ep_min_deterministic_confidence = 1, ep_max_llm_calls = 1, ep_max_llm_tokens = 1000,
       ep_summary_max_chars = 60, ep_policy_version = ''p'', ep_taxonomy_version = ''t'', ep_min_fallback_confidence = 1\<rparr>,
     pe_codec = \<lparr>jc_float = id, jc_code = (\<lambda>_. []), jc_repr = (\<lambda>_. []), jc_int = (\<lambda>_. None)\<rparr>,
     pe_sha = id, pe_walk = id, pe_model = ''m'', pe_factory = None, pe_tenant = Some ''acme'', pe_cap = 1000,
     pe_respond = (\<lambda>_ _ _. Some demo_answer), pe_now = (\<lambda>n. int n), pe_day = (\<lambda>_. 7)\<rparr>"

definition demo_tables :: enrichment_db where
  "demo_tables = \<lparr>en_raw = map demo_raw [1, 2, 3], en_processed = [], en_cache = [], en_spend = [], en_suppliers = empty_suppliers\<rparr>"

definition demo_batch :: "run_result option \<times> enrichment_db" where
  "demo_batch = process_raw_articles_seen demo_tables demo_env True (Some ''me'') 5 (map demo_raw [1, 2, 3]) demo_tables"

text \<open>Nothing of the other worker, one call for two articles of the same content.\<close>

definition batch_counts :: "run_result option \<Rightarrow> nat list option" where
  "batch_counts r = map_option (\<lambda>r. let m = rn_metrics r in
     [rn_saved r, em_cached m, em_deterministic m, em_llm m, em_llm_calls m, rn_already_processed r]) r"

lemma demo_run: "process_raw_articles_seen demo_tables demo_env True (Some ''me'') 5 (map demo_raw [1, 2, 3]) demo_tables = (fst demo_batch, snd demo_batch)"
  by (simp add: demo_batch_def)

lemma demo_batch_counts: "batch_counts (fst demo_batch) = Some [2, 1, 0, 1, 1, 1]"
  by code_simp

lemma enrichment_accounts_witness:
  "case fst demo_batch of None \<Rightarrow> snd demo_batch = demo_tables
    | Some r \<Rightarrow> let m = rn_metrics r in
        em_cached m + em_deterministic m + em_llm m + em_skipped m + em_deferred m + em_failed m + rn_already_processed r = 3
        \<and> rn_saved r = em_cached m + em_deterministic m + em_llm m
        \<and> spent (Some ''acme'') 7 (en_spend (snd demo_batch)) = em_llm_tokens m"
proof -
  have "spent (Some ''acme'') 7 (en_spend demo_tables) = 0" by (simp add: demo_tables_def spent_def tokens_of_def spend_row_def row_of_def)
  moreover have "pe_tenant demo_env = Some ''acme''" "\<And>i. pe_day demo_env i = 7" by (simp_all add: demo_env_def)
  ultimately show ?thesis
    using enrichment_accounts [OF demo_run, of 7] by (simp add: Let_def split: option.splits)
qed

lemma demo_tables_ok: "enrichment_tables_ok demo_tables"
  by (simp add: enrichment_tables_ok_def demo_tables_def cache_ok_def)

lemma enrichment_tables_consistent_witness: "enrichment_tables_ok (snd demo_batch)"
  by (rule enrichment_tables_consistent [OF demo_tables_ok demo_run])

lemma enrichment_respects_leases_witness: "demo_raw 3 \<in> set (en_raw (snd demo_batch))"
proof -
  have "demo_raw 3 \<in> set (en_raw demo_tables)" "nr_lease_owner (demo_raw 3) \<noteq> Some ''me''"
    by (simp_all add: demo_tables_def) (simp add: demo_raw_def)
  then show ?thesis using enrichment_respects_leases [OF demo_run, of "demo_raw 3"] by blast
qed

definition demo_known :: enrichment_output where
  "demo_known = \<lparr>eo_summary = ''Gas prices rise.'', eo_category = ''energy'', eo_signal_tags = [], eo_priority_signal = None,
     eo_detected_suppliers = [], eo_detected_regions = [], eo_detected_categories = [''energy'']\<rparr>"

definition demo_state :: pipeline_state where
  "demo_state = \<lparr>pr_db = demo_tables\<lparr>en_cache := [new_entry (cache_key demo_env (rebuilt_article (demo_raw 1))) demo_known ''llm'']\<rparr>,
     pr_metrics = no_metrics, pr_saved = 0, pr_already = 0,
     pr_budget = \<lparr>eb_max_calls = 1, eb_max_tokens = 1000, eb_calls_reserved = 0, eb_tokens_reserved = 0, eb_tokens_used = 0\<rparr>, pr_enricher = True\<rparr>"

lemma demo_first: "map_option pr_saved (enrich_article demo_env (Some ''me'') 0 (demo_raw 1) demo_state) = Some 1"
  by code_simp

lemma known_content_is_free_witness:
  "\<exists>st1 st2. enrich_article demo_env (Some ''me'') 0 (demo_raw 1) demo_state = Some st1
    \<and> enrich_article demo_env (Some ''me'') 1 (demo_raw 2) st1 = Some st2
    \<and> em_llm_calls (pr_metrics st2) = em_llm_calls (pr_metrics st1)"
proof -
  obtain st1 where st1: "enrich_article demo_env (Some ''me'') 0 (demo_raw 1) demo_state = Some st1" "pr_saved demo_state < pr_saved st1"
    using demo_first by (auto simp: demo_state_def)
  have "cache_key demo_env (rebuilt_article (demo_raw 2)) = cache_key demo_env (rebuilt_article (demo_raw 1))"
    by (simp add: cache_key_def content_fingerprint_def rebuilt_article_def demo_raw_def)
  from known_content_is_free [OF st1 this] st1(1) show ?thesis by blast
qed

end
