(* ===== verification/Normalization.thy ===== *)
theory Normalization
  imports ArticleStore TextMatch Url
begin

text \<open>
  \<^verbatim>\<open>normalization/\<close>: blocked sources, quality gates, cleaned text, language and the older check for duplicates.
  Parameters are what the code takes from elsewhere: \<open>ne_detect\<close> is the language detector (\<open>None\<close> where it
  raises its own exception), \<open>ne_unescape\<close> the decoding of HTML entities, \<open>ne_sha\<close> SHA-256. The
  outer \<open>None\<close> of a result is an exception, the inner one a rejected article.
\<close>

record normalization_env =
  ne_detect :: "string \<Rightarrow> string option"
  ne_unescape :: "string \<Rightarrow> string"
  ne_sha :: "string \<Rightarrow> string"

section \<open>Source trust\<close>

definition blocked_domains :: "string list" where
  "blocked_domains = [''example-spam.com'', ''fake-news.ru'', ''content-farm.com'']"

definition low_priority_domains :: "string list" where
  "low_priority_domains = [''aggregator.com'', ''pinterest.com'', ''instagram.com'']"

definition trusted_domains :: "(string \<times> rat) list" where
  "trusted_domains = [(''reuters.com'', 95 / 100), (''bloomberg.com'', 95 / 100), (''ft.com'', 90 / 100), (''wsj.com'', 90 / 100),
     (''bbc.com'', 85 / 100), (''cnbc.com'', 80 / 100), (''ec.europa.eu'', 95 / 100), (''govinfo.gov'', 95 / 100)]"

text \<open>\<^verbatim>\<open>s.replace(sub, "")\<close>; the first argument counts the characters of an occurrence still to be dropped.\<close>

fun removing :: "nat \<Rightarrow> string \<Rightarrow> string \<Rightarrow> string" where
  "removing k sub [] = []"
| "removing (Suc k) sub (c # s) = removing k sub s"
| "removing 0 sub (c # s) = (if sub \<noteq> [] \<and> starts_with (c # s) sub then removing (length sub - 1) sub s else c # removing 0 sub s)"

definition remove_text :: "string \<Rightarrow> string \<Rightarrow> string" where
  "remove_text sub s = removing 0 sub s"

definition get_domain :: "string \<Rightarrow> string option" where
  "get_domain url = (if url = [] then Some [] else map_option (\<lambda>u. remove_text ''www.'' (u_netloc u)) (urlsplit (lower url)))"

definition is_blocked :: "string \<Rightarrow> bool option" where
  "is_blocked url = map_option (\<lambda>d. d \<in> set blocked_domains) (get_domain url)"

definition is_low_priority :: "string \<Rightarrow> bool option" where
  "is_low_priority url = map_option (\<lambda>d. d \<in> set low_priority_domains) (get_domain url)"

definition get_trust_score :: "string \<Rightarrow> rat option" where
  "get_trust_score url = map_option (\<lambda>d. case map_of trusted_domains d of Some s \<Rightarrow> s | None \<Rightarrow> 1 / 2) (get_domain url)"

section \<open>Quality gates\<close>

record quality_check =
  qc_passed :: bool
  qc_reason :: "string option"
  qc_severity :: string

definition quality_pass :: quality_check where
  "quality_pass = \<lparr>qc_passed = True, qc_reason = None, qc_severity = ''warning''\<rparr>"

definition quality_fail :: "string \<Rightarrow> string \<Rightarrow> quality_check" where
  "quality_fail why severity = \<lparr>qc_passed = False, qc_reason = Some why, qc_severity = severity\<rparr>"

text \<open>The keywords are a set; which of several is named is decided by its order.\<close>

definition spam_keywords :: "string list" where
  "spam_keywords = [''click here'', ''buy now'', ''limited offer'', ''subscribe'', ''watch video'', ''ad'']"

definition check_title :: "string \<Rightarrow> quality_check" where
  "check_title heading =
     (if heading = [] then quality_fail ''Missing title'' ''critical''
      else let s = strip heading in
        if length s < 10 then quality_fail ''Title too short'' ''error''
        else if 500 < length s then quality_fail ''Title too long'' ''error''
        else case List.find (contains (lower s)) spam_keywords of
            Some w \<Rightarrow> quality_fail (''Spam word detected: '' @ w) ''warning''
          | None \<Rightarrow> quality_pass)"

definition check_content :: "string option \<Rightarrow> string option \<Rightarrow> quality_check" where
  "check_content description snippet =
     (if \<not> truthy description \<and> \<not> truthy snippet then quality_fail ''No description or content'' ''error''
      else if truthy description \<and> 20 \<le> length (strip (str_or description [])) then quality_pass
      else if truthy snippet \<and> 30 \<le> length (strip (str_or snippet [])) then quality_pass
      else quality_fail ''Content too short or weak'' ''warning'')"

definition check_url :: "string \<Rightarrow> quality_check" where
  "check_url url =
     (if strip url = [] then quality_fail ''Missing URL'' ''critical''
      else let s = strip url in
        if \<not> (starts_with (lower s) ''http://'' \<or> starts_with (lower s) ''https://'') then quality_fail ''Invalid URL scheme'' ''error''
        else if 2000 < length s then quality_fail ''URL too long'' ''error''
        else quality_pass)"

definition check_timestamp :: "datetime \<Rightarrow> raw_article \<Rightarrow> quality_check" where
  "check_timestamp now a =
     (if now < ra_published_at a then quality_fail ''Article from future'' ''warning''
      else if ra_published_at a < now - days 730 then quality_fail ''Article too old'' ''warning''
      else quality_pass)"

definition failure_of :: "string list \<Rightarrow> quality_check \<Rightarrow> string list" where
  "failure_of severities c = (if \<not> qc_passed c \<and> qc_severity c \<in> set severities
     then case qc_reason c of Some r \<Rightarrow> if r = [] then [] else [r] | None \<Rightarrow> [] else [])"

definition check_all :: "datetime \<Rightarrow> raw_article \<Rightarrow> bool \<times> string list" where
  "check_all now a =
     (let failures = failure_of [''critical'', ''error''] (check_title (ra_title a))
        @ failure_of [''error''] (check_content (ra_description a) (ra_content_snippet a))
        @ failure_of [''critical'', ''error''] (check_url (ra_article_url a))
        @ failure_of [''error''] (check_timestamp now a)
      in (failures = [], failures))"

section \<open>Language\<close>

definition supported_languages :: "string list" where
  "supported_languages = [''en'', ''de'', ''fr'', ''es'', ''it'', ''nl'', ''pl'', ''pt'', ''ru'', ''ja'', ''zh'', ''ko'']"

definition detect_language :: "normalization_env \<Rightarrow> string option \<Rightarrow> string option" where
  "detect_language env v = (case v of None \<Rightarrow> None
     | Some s \<Rightarrow> if s = [] \<or> length (strip s) < 10 then None
         else (case ne_detect env s of Some l \<Rightarrow> if l \<in> set supported_languages then Some l else None | None \<Rightarrow> None))"

definition validate_language :: "normalization_env \<Rightarrow> string \<Rightarrow> string \<Rightarrow> bool \<times> string option" where
  "validate_language env heading declared = (case detect_language env (Some heading) of
       None \<Rightarrow> (False, None) | Some l \<Rightarrow> if declared \<noteq> l then (False, Some l) else (True, Some l))"

section \<open>Normalization\<close>

text \<open>\<^verbatim>\<open>re.sub(r"\n+", "\n", text)\<close>\<close>

fun single_newlines :: "string \<Rightarrow> string" where
  "single_newlines (c # d # s) = (if c = CHR 0x0A \<and> d = CHR 0x0A then single_newlines (d # s) else c # single_newlines (d # s))"
| "single_newlines s = s"

definition normalize_text :: "normalization_env \<Rightarrow> string option \<Rightarrow> string option" where
  "normalize_text env v = (if \<not> truthy v then None
     else let s = ne_unescape env (single_newlines (strip (str_or v []))) in if s = [] then None else Some s)"

definition normalize_article :: "normalization_env \<Rightarrow> datetime \<Rightarrow> raw_article \<Rightarrow> raw_article option option" where
  "normalize_article env now a = (case is_blocked (ra_article_url a) of
       None \<Rightarrow> None
     | Some True \<Rightarrow> Some None
     | Some False \<Rightarrow>
         if \<not> fst (check_all now a) then Some None
         else (case normalize_text env (Some (ra_title a)) of
             None \<Rightarrow> Some None
           | Some heading \<Rightarrow>
               (let b = a\<lparr>ra_title := heading, ra_description := normalize_text env (ra_description a),
                      ra_content_snippet := normalize_text env (ra_content_snippet a)\<rparr> in
                if truthy (ra_description b) \<or> truthy (ra_content_snippet b)
                then (case validate_language env heading (ra_language b) of
                       (True, Some l) \<Rightarrow> Some (Some (b\<lparr>ra_language := l\<rparr>))
                     | (True, None) \<Rightarrow> Some (Some b)
                     | (False, _) \<Rightarrow> Some None)
                else Some (Some b))))"

section \<open>The older check for duplicates\<close>

text \<open>\<^verbatim>\<open>urlparse\<close> takes parameters after a semicolon off the last segment of the path.\<close>

definition uses_params :: "string list" where
  "uses_params = [[], ''ftp'', ''hdl'', ''prospero'', ''http'', ''https'', ''shttp'', ''rtsp'', ''rtsps'', ''rtspu'', ''sip'', ''sips'', ''mms'', ''sftp'', ''tel'']"

definition parsed_path :: "split_url \<Rightarrow> string" where
  "parsed_path u = (if u_scheme u \<in> set uses_params
     then let (before, slash, segment) = rpartition_at (CHR ''/'') (u_path u) in
       (if slash then before @ ''/'' else []) @ fst (partition_at (CHR '';'') segment)
     else u_path u)"

definition create_url_hash :: "normalization_env \<Rightarrow> string \<Rightarrow> string option" where
  "create_url_hash env url = (if url = [] then Some []
     else map_option (\<lambda>u. ne_sha env (remove_text ''www.'' (u_netloc u) @ parsed_path u)) (urlsplit (lower url)))"

definition create_title_hash :: "normalization_env \<Rightarrow> string \<Rightarrow> string" where
  "create_title_hash env heading = (if heading = [] then []
     else ne_sha env (strip (single_spaced (filter (\<lambda>c. is_alnum c \<or> c = CHR ''_'' \<or> is_space c) (lower heading)))))"

definition create_ingest_hash :: "normalization_env \<Rightarrow> string \<Rightarrow> string \<Rightarrow> datetime \<Rightarrow> string" where
  "create_ingest_hash env heading src published = (if heading = [] \<or> src = [] then []
     else ne_sha env (strip heading @ ''|'' @ strip src @ ''|'' @ isoformat published))"

definition is_duplicate :: "normalization_env \<Rightarrow> raw_row list \<Rightarrow> raw_article \<Rightarrow> bool option" where
  "is_duplicate env t a =
     (case (case ra_canonical_url a of Some u \<Rightarrow> if u = [] then create_url_hash env (ra_article_url a) else create_url_hash env u
            | None \<Rightarrow> create_url_hash env (ra_article_url a)) of
        None \<Rightarrow> None
      | Some url_hash \<Rightarrow>
          (let title_hash = create_title_hash env (ra_title a);
               ingest = create_ingest_hash env (ra_title a) (ra_source_name a) (ra_published_at a)
           in Some (url_hash \<noteq> [] \<and> url_hash \<in> rr_ingest_hash ` set t
                \<or> title_hash \<noteq> [] \<and> list_ex (\<lambda>r. ra_source_name (rr_article r) = ra_source_name a
                     \<and> ra_published_at a - hours 48 \<le> ra_published_at (rr_article r)
                     \<and> ra_published_at (rr_article r) \<le> ra_published_at a \<and> rr_ingest_hash r = title_hash) t
                \<or> ingest \<noteq> [] \<and> ingest \<in> rr_ingest_hash ` set t)))"

record normalization_counts =
  nc_duplicates :: nat
  nc_quality_failures :: nat
  nc_errors :: nat

fun process_articles ::
  "normalization_env \<Rightarrow> datetime \<Rightarrow> raw_row list \<Rightarrow> raw_article list \<Rightarrow> raw_article list \<times> normalization_counts" where
  "process_articles env now t [] = ([], \<lparr>nc_duplicates = 0, nc_quality_failures = 0, nc_errors = 0\<rparr>)"
| "process_articles env now t (a # as) =
     (let (kept, n) = process_articles env now t as in
      case is_duplicate env t a of
        None \<Rightarrow> (kept, n\<lparr>nc_errors := Suc (nc_errors n)\<rparr>)
      | Some True \<Rightarrow> (kept, n\<lparr>nc_duplicates := Suc (nc_duplicates n)\<rparr>)
      | Some False \<Rightarrow>
          (case normalize_article env now a of
             None \<Rightarrow> (kept, n\<lparr>nc_errors := Suc (nc_errors n)\<rparr>)
           | Some None \<Rightarrow> (kept, n\<lparr>nc_quality_failures := Suc (nc_quality_failures n)\<rparr>)
           | Some (Some b) \<Rightarrow> (b # kept, n)))"

end
