(* ===== verification/EnrichmentWorker.thy ===== *)
theory EnrichmentWorker
  imports EnrichmentProperties Normalization
begin

text \<open>
  The enrichment worker of \<^verbatim>\<open>worker/tasks.py\<close>: due articles are leased, normalized and enriched in batches. A
  claim selects candidates from the database as it reads it, \<open>seen\<close>, passing over the rows other workers
  have locked, and then leases each with a statement of its own. \<open>clock\<close> gives the time when that many
  articles have been scanned.
\<close>

section \<open>Which articles are due\<close>

definition claimable :: "datetime \<Rightarrow> news_raw \<Rightarrow> bool" where
  "claimable now r \<longleftrightarrow>
     (case nr_enrichment_status r of None \<Rightarrow> True
      | Some s \<Rightarrow> s \<in> {''normalization_retry'', ''enrichment_retry'', ''deferred'', ''processing''})
     \<and> (nr_next_attempt_at r = None \<or> null_le (nr_next_attempt_at r) now)
     \<and> (nr_lease_owner r = None \<or> null_le (nr_lease_expires_at r) now)"

definition newest_first :: "news_raw list \<Rightarrow> news_raw list" where
  "newest_first rs = sort_key (\<lambda>r. - nr_ingested_at r) rs"

definition load_recent_raw_articles :: "timedelta \<Rightarrow> nat \<Rightarrow> datetime \<Rightarrow> enrichment_db \<Rightarrow> news_raw list" where
  "load_recent_raw_articles window limit now db =
     take limit (newest_first (filter (\<lambda>r. now - window \<le> nr_ingested_at r \<and> claimable now r) (en_raw db)))"

definition load_enrichment_candidates :: "nat \<Rightarrow> nat set \<Rightarrow> datetime \<Rightarrow> enrichment_db \<Rightarrow> news_raw list" where
  "load_enrichment_candidates limit exclude now db = take limit (newest_first (filter
     (\<lambda>r. nr_id r \<notin> pa_raw_article_id ` set (en_processed db) \<and> claimable now r \<and> nr_id r \<notin> exclude) (en_raw db)))"

section \<open>Leases\<close>

definition enrich_lease :: timedelta where
  "enrich_lease = minutes 65"

definition lease_row :: "string \<Rightarrow> datetime \<Rightarrow> news_raw \<Rightarrow> news_raw" where
  "lease_row owner now r = r\<lparr>nr_enrichment_status := Some ''processing'', nr_lease_owner := Some owner,
     nr_lease_expires_at := Some (now + enrich_lease)\<rparr>"

fun claim_each :: "datetime \<Rightarrow> string \<Rightarrow> nat list \<Rightarrow> enrichment_db \<Rightarrow> nat list \<times> enrichment_db" where
  "claim_each now owner [] db = ([], db)"
| "claim_each now owner (i # is) db =
     (let p = (\<lambda>r. nr_id r = i \<and> claimable now r);
          (claimed, db') = claim_each now owner is (db\<lparr>en_raw := sql_update p (lease_row owner now) (en_raw db)\<rparr>)
      in (if rowcount p (en_raw db) = 1 then i # claimed else claimed, db'))"

definition claim_candidates_seen ::
  "enrichment_db \<Rightarrow> nat set \<Rightarrow> nat \<Rightarrow> string \<Rightarrow> nat set \<Rightarrow> datetime \<Rightarrow> enrichment_db \<Rightarrow> news_raw list \<times> enrichment_db" where
  "claim_candidates_seen seen locked limit owner exclude now db =
     (let ids = map nr_id (load_enrichment_candidates limit (exclude \<union> locked) now seen);
          (claimed, db') = claim_each now owner ids db
      in (newest_first (filter (\<lambda>r. nr_id r \<in> set claimed \<and> nr_lease_owner r = Some owner) (en_raw db')), db'))"

definition claim_candidates :: "nat \<Rightarrow> string \<Rightarrow> nat set \<Rightarrow> datetime \<Rightarrow> enrichment_db \<Rightarrow> news_raw list \<times> enrichment_db" where
  "claim_candidates limit owner exclude now db = claim_candidates_seen db {} limit owner exclude now db"

definition release_claims :: "string \<Rightarrow> datetime \<Rightarrow> enrichment_db \<Rightarrow> enrichment_db" where
  "release_claims owner now db = db\<lparr>en_raw := sql_update (\<lambda>r. nr_lease_owner r = Some owner)
     (\<lambda>r. r\<lparr>nr_enrichment_status := Some ''enrichment_retry'', nr_attempt_count := nr_attempt_count r + 1,
       nr_next_attempt_at := Some (now + minutes 1), nr_lease_owner := None, nr_lease_expires_at := None\<rparr>) (en_raw db)\<rparr>"

section \<open>Normalization of a batch\<close>

record normalize_stats =
  ns_raw :: "news_raw list"
  ns_normalized :: "news_raw list"
  ns_quality_failures :: nat
  ns_errors :: nat

definition no_stats :: normalize_stats where
  "no_stats = \<lparr>ns_raw = [], ns_normalized = [], ns_quality_failures = 0, ns_errors = 0\<rparr>"

definition retry_minutes :: "nat \<Rightarrow> int" where
  "retry_minutes attempts = min 360 (15 * 2 ^ (attempts - 1))"

definition put_raw :: "nat \<Rightarrow> (news_raw \<Rightarrow> news_raw) \<Rightarrow> enrichment_db \<Rightarrow> enrichment_db" where
  "put_raw i f db = db\<lparr>en_raw := sql_update (\<lambda>x. nr_id x = i) f (en_raw db)\<rparr>"

definition reject_row :: "news_raw \<Rightarrow> news_raw" where
  "reject_row r = r\<lparr>nr_enrichment_status := Some ''quality_rejected'', nr_next_attempt_at := None,
     nr_lease_owner := None, nr_lease_expires_at := None\<rparr>"

definition retry_row :: "datetime \<Rightarrow> nat \<Rightarrow> news_raw \<Rightarrow> news_raw" where
  "retry_row now attempts r = r\<lparr>nr_attempt_count := attempts, nr_enrichment_status := Some ''normalization_retry'',
     nr_next_attempt_at := Some (now + minutes (retry_minutes attempts)), nr_lease_owner := None, nr_lease_expires_at := None\<rparr>"

definition normalize_one ::
  "normalization_env \<Rightarrow> datetime \<Rightarrow> news_raw \<Rightarrow> normalize_stats \<times> enrichment_db \<Rightarrow> normalize_stats \<times> enrichment_db" where
  "normalize_one env now r sd = (let (st, db) = sd; st = st\<lparr>ns_raw := ns_raw st @ [r]\<rparr> in
     case normalize_article env now (rebuilt_article r) of
       None \<Rightarrow> (st\<lparr>ns_errors := Suc (ns_errors st)\<rparr>, put_raw (nr_id r) (retry_row now (Suc (nr_attempt_count r))) db)
     | Some None \<Rightarrow> (st\<lparr>ns_quality_failures := Suc (ns_quality_failures st)\<rparr>, put_raw (nr_id r) reject_row db)
     | Some (Some a) \<Rightarrow> (st\<lparr>ns_normalized := ns_normalized st @ [r\<lparr>nr_article := a\<rparr>]\<rparr>, db))"

fun normalize_batch ::
  "normalization_env \<Rightarrow> (nat \<Rightarrow> datetime) \<Rightarrow> news_raw list \<Rightarrow> normalize_stats \<times> enrichment_db \<Rightarrow> normalize_stats \<times> enrichment_db" where
  "normalize_batch env clock [] sd = sd"
| "normalize_batch env clock (r # rs) sd = normalize_batch env clock rs (normalize_one env (clock (length (ns_raw (fst sd)))) r sd)"

definition next_batch :: "string option \<Rightarrow> nat \<Rightarrow> nat set \<Rightarrow> datetime \<Rightarrow> enrichment_db \<Rightarrow> news_raw list \<times> enrichment_db" where
  "next_batch owner limit scanned now db = (case owner of
       Some w \<Rightarrow> if w = [] then (load_enrichment_candidates limit scanned now db, db) else claim_candidates limit w scanned now db
     | None \<Rightarrow> (load_enrichment_candidates limit scanned now db, db))"

section \<open>The ids of raw articles\<close>

lemma put_raw_ids: "(\<And>r. nr_id (f r) = nr_id r) \<Longrightarrow> map nr_id (en_raw (put_raw i f db)) = map nr_id (en_raw db)"
  by (simp add: put_raw_def keys_update)

lemma row_updates_id [simp]:
  "nr_id (reject_row r) = nr_id r" "nr_id (retry_row now n r) = nr_id r" "nr_id (lease_row owner now r) = nr_id r"
  by (simp_all add: reject_row_def retry_row_def lease_row_def)

lemma normalize_one_ids: "map nr_id (en_raw (snd (normalize_one env now r sd))) = map nr_id (en_raw (snd sd))"
  by (cases sd) (simp add: normalize_one_def Let_def put_raw_ids split: option.split)

lemma normalize_batch_ids: "map nr_id (en_raw (snd (normalize_batch env clock rs sd))) = map nr_id (en_raw (snd sd))"
  by (induction env clock rs sd rule: normalize_batch.induct) (simp_all add: normalize_one_ids)

lemma claim_each_ids: "map nr_id (en_raw (snd (claim_each now owner is db))) = map nr_id (en_raw db)"
  by (induction now owner "is" db rule: claim_each.induct) (simp_all add: Let_def keys_update split_def)

lemma claim_each_sub: "set (fst (claim_each now owner is db)) \<subseteq> set is"
  by (induction now owner "is" db rule: claim_each.induct) (auto simp: Let_def split: prod.splits if_splits)

lemma newest_first_set [simp]: "set (newest_first rs) = set rs"
  by (simp add: newest_first_def)

lemma candidates_set: "set (load_enrichment_candidates limit exclude now db) \<subseteq>
    {r \<in> set (en_raw db). nr_id r \<notin> pa_raw_article_id ` set (en_processed db) \<and> claimable now r \<and> nr_id r \<notin> exclude}"
  by (auto simp: load_enrichment_candidates_def dest: in_set_takeD)

lemma claim_candidates_ids:
  assumes "claim_candidates limit w scanned now db = (batch, db')"
  shows "map nr_id (en_raw db') = map nr_id (en_raw db)" "nr_id ` set batch \<subseteq> nr_id ` set (en_raw db) - scanned"
proof -
  let ?ids = "map nr_id (load_enrichment_candidates limit scanned now db)"
  obtain c d where c: "claim_each now w ?ids db = (c, d)" by force
  have b: "batch = newest_first (filter (\<lambda>r. nr_id r \<in> set c \<and> nr_lease_owner r = Some w) (en_raw d))" "db' = d"
    using assms c by (auto simp: claim_candidates_def claim_candidates_seen_def)
  show "map nr_id (en_raw db') = map nr_id (en_raw db)" using claim_each_ids [of now w ?ids db] c b by simp
  have "set c \<subseteq> set ?ids" using claim_each_sub [of now w ?ids db] c by simp
  also have "\<dots> \<subseteq> nr_id ` set (en_raw db) - scanned" using candidates_set [of limit scanned now db] by auto
  finally show "nr_id ` set batch \<subseteq> nr_id ` set (en_raw db) - scanned" using b(1) by auto
qed

lemma next_batch_ids:
  assumes "next_batch owner limit scanned now db = (batch, db')"
  shows "map nr_id (en_raw db') = map nr_id (en_raw db)" "nr_id ` set batch \<subseteq> nr_id ` set (en_raw db) - scanned"
proof -
  have load: "nr_id ` set (load_enrichment_candidates limit scanned now db) \<subseteq> nr_id ` set (en_raw db) - scanned"
    using candidates_set [of limit scanned now db] by auto
  have "map nr_id (en_raw db') = map nr_id (en_raw db) \<and> nr_id ` set batch \<subseteq> nr_id ` set (en_raw db) - scanned"
  proof (cases "\<exists>w. claim_candidates limit w scanned now db = (batch, db')")
    case True
    then show ?thesis using claim_candidates_ids by blast
  next
    case False
    then have "batch = load_enrichment_candidates limit scanned now db \<and> db' = db"
      using assms by (auto simp: next_batch_def split: option.splits if_splits)
    then show ?thesis using load by simp
  qed
  then show "map nr_id (en_raw db') = map nr_id (en_raw db)" "nr_id ` set batch \<subseteq> nr_id ` set (en_raw db) - scanned" by blast+
qed

section \<open>Batches until there is enough\<close>

text \<open>Every round scans an article that was not scanned before, so the loop ends.\<close>

function gather ::
  "normalization_env \<Rightarrow> string option \<Rightarrow> (nat \<Rightarrow> datetime) \<Rightarrow> nat \<Rightarrow> normalize_stats \<times> enrichment_db \<Rightarrow> normalize_stats \<times> enrichment_db" where
  "gather env owner clock limit sd =
     (if limit \<le> length (ns_normalized (fst sd)) then sd
      else let (batch, db) = next_batch owner (limit - length (ns_normalized (fst sd))) (nr_id ` set (ns_raw (fst sd)))
             (clock (length (ns_raw (fst sd)))) (snd sd)
        in if batch = [] then (fst sd, db) else gather env owner clock limit (normalize_batch env clock batch (fst sd, db)))"
  by pat_completeness auto

lemma normalize_batch_raw: "ns_raw (fst (normalize_batch env clock rs sd)) = ns_raw (fst sd) @ rs"
proof (induction env clock rs sd rule: normalize_batch.induct)
  case (2 env clock r rs sd)
  have "ns_raw (fst (normalize_one env now r sd)) = ns_raw (fst sd) @ [r]" for now
    by (cases sd) (simp add: normalize_one_def Let_def split: option.split)
  with 2 show ?case by simp
qed simp

termination gather
proof (relation "measure (\<lambda>(env, owner, clock, limit, sd). card (nr_id ` set (en_raw (snd sd)) - nr_id ` set (ns_raw (fst sd))))")
  fix env owner clock limit x batch db and sd :: "normalize_stats \<times> enrichment_db"
  assume b: "x = next_batch owner (limit - length (ns_normalized (fst sd))) (nr_id ` set (ns_raw (fst sd)))
      (clock (length (ns_raw (fst sd)))) (snd sd)" "(batch, db) = x" "batch \<noteq> []"
  let ?sd = "normalize_batch env clock batch (fst sd, db)"
  have next_: "next_batch owner (limit - length (ns_normalized (fst sd))) (nr_id ` set (ns_raw (fst sd)))
      (clock (length (ns_raw (fst sd)))) (snd sd) = (batch, db)" using b by simp
  have "map nr_id (en_raw (snd ?sd)) = map nr_id (en_raw (snd sd))"
    using next_batch_ids(1) [OF next_] normalize_batch_ids [of env clock batch "(fst sd, db)"] by simp
  then have same: "nr_id ` set (en_raw (snd ?sd)) = nr_id ` set (en_raw (snd sd))" by (metis list.set_map)
  have raw: "set (ns_raw (fst ?sd)) = set (ns_raw (fst sd)) \<union> set batch" by (simp add: normalize_batch_raw)
  have "nr_id (hd batch) \<in> nr_id ` set (en_raw (snd sd)) - nr_id ` set (ns_raw (fst sd))"
    using next_batch_ids(2) [OF next_] b(3) by (meson hd_in_set image_eqI subsetD)
  moreover have "hd batch \<in> set batch" using b(3) by simp
  ultimately have "nr_id ` set (en_raw (snd ?sd)) - nr_id ` set (ns_raw (fst ?sd)) \<subset> nr_id ` set (en_raw (snd sd)) - nr_id ` set (ns_raw (fst sd))"
    unfolding same raw by blast
  then show "((env, owner, clock, limit, ?sd), env, owner, clock, limit, sd)
      \<in> measure (\<lambda>(env, owner, clock, limit, sd). card (nr_id ` set (en_raw (snd sd)) - nr_id ` set (ns_raw (fst sd))))"
    by (simp add: psubset_card_mono)
qed simp

declare gather.simps [simp del]

definition normalize_articles_task_body ::
  "normalization_env \<Rightarrow> (nat \<Rightarrow> datetime) \<Rightarrow> timedelta \<Rightarrow> nat \<Rightarrow> enrichment_db \<Rightarrow> normalize_stats \<times> enrichment_db" where
  "normalize_articles_task_body env clock window limit db =
     normalize_batch env clock (load_recent_raw_articles window limit (clock 0) db) (no_stats, db)"

definition enrichment_batch ::
  "normalization_env \<Rightarrow> string option \<Rightarrow> (nat \<Rightarrow> datetime) \<Rightarrow> nat \<Rightarrow> enrichment_db \<Rightarrow> normalize_stats \<times> enrichment_db" where
  "enrichment_batch env owner clock limit db = gather env owner clock limit (no_stats, db)"

section \<open>The task\<close>

definition enrich_max_per_run :: nat where
  "enrich_max_per_run = 20"

record enrichment_report =
  et_enriched_count :: nat
  et_skipped_count :: nat
  et_error_count :: nat
  et_metrics :: enrichment_metrics

text \<open>\<open>None\<close> is an exception, on which the claims are released. The transaction rolled back is that of the batch;
  the claims and what normalization decided were committed.\<close>

definition enrich_articles_task ::
  "(string \<rightharpoonup> string) \<Rightarrow> normalization_env \<Rightarrow> pipeline_env \<Rightarrow> string \<Rightarrow> (nat \<Rightarrow> datetime) \<Rightarrow> enrichment_db
     \<Rightarrow> enrichment_report option \<times> enrichment_db" where
  "enrich_articles_task environ nenv env owner clock db =
     (let (st, db1) = enrichment_batch nenv (Some owner) clock enrich_max_per_run db; now = clock (length (ns_raw st)) in
      if ns_normalized st = []
      then (Some \<lparr>et_enriched_count = 0, et_skipped_count = length (ns_raw st), et_error_count = ns_errors st, et_metrics = no_metrics\<rparr>, db1)
      else case policy_from_env environ of
          Inl e \<Rightarrow> (None, release_claims owner now db1)
        | Inr p \<Rightarrow>
            (case process_raw_articles (env\<lparr>pe_policy := p\<rparr>) False (Some owner) now (ns_normalized st) db1 of
               (None, _) \<Rightarrow> (None, release_claims owner now db1)
             | (Some r, db2) \<Rightarrow> (Some \<lparr>et_enriched_count = rn_saved r,
                  et_skipped_count = em_skipped (rn_metrics r) + rn_already_processed r, et_error_count = em_failed (rn_metrics r),
                  et_metrics = rn_metrics r\<rparr>, db2)))"

end
