(* ===== verification/EnrichmentWorkerFacts.thy ===== *)
theory EnrichmentWorkerFacts
  imports EnrichmentWorker
begin

text \<open>
  The enrichment worker as a lifecycle of raw articles: leases are exclusive, a batch is bounded, a task gives
  back what it leased, and no article is lost, whatever fate it has.
\<close>

section \<open>The lifecycle\<close>

definition lifecycle_states :: "string list" where
  "lifecycle_states = [''normalization_retry'', ''enrichment_retry'', ''deferred'', ''processing'', ''completed'', ''skipped'', ''quality_rejected'']"

definition finished_states :: "string list" where
  "finished_states = [''completed'', ''skipped'', ''quality_rejected'']"

definition lifecycle_ok :: "news_raw \<Rightarrow> bool" where
  "lifecycle_ok r \<longleftrightarrow> (nr_lease_owner r = None \<longleftrightarrow> nr_lease_expires_at r = None)
     \<and> (case nr_enrichment_status r of None \<Rightarrow> True | Some s \<Rightarrow> s \<in> set lifecycle_states)"

definition article_finished :: "news_raw \<Rightarrow> bool" where
  "article_finished r \<longleftrightarrow> (case nr_enrichment_status r of None \<Rightarrow> False | Some s \<Rightarrow> s \<in> set finished_states)"

lemma claimable_later:
  assumes "lifecycle_ok r" "\<not> article_finished r"
  obtains t where "\<And>u. t \<le> u \<Longrightarrow> claimable u r"
proof -
  have status: "case nr_enrichment_status r of None \<Rightarrow> True
      | Some s \<Rightarrow> s \<in> {''normalization_retry'', ''enrichment_retry'', ''deferred'', ''processing''}"
    using assms by (auto simp: lifecycle_ok_def article_finished_def lifecycle_states_def finished_states_def split: option.splits)
  let ?n = "case nr_next_attempt_at r of None \<Rightarrow> 0 | Some n \<Rightarrow> n"
  let ?e = "case nr_lease_expires_at r of None \<Rightarrow> 0 | Some e \<Rightarrow> e"
  have "claimable u r" if "max ?n ?e \<le> u" for u
    using that status assms(1) unfolding claimable_def lifecycle_ok_def
    by (cases "nr_next_attempt_at r"; cases "nr_lease_expires_at r") simp_all
  from that [OF this] show thesis .
qed

lemma row_updates_ok [simp]:
  "lifecycle_ok (lease_row w now r)" "lifecycle_ok (reject_row r)" "lifecycle_ok (retry_row now n r)"
  by (simp_all add: lifecycle_ok_def lease_row_def reject_row_def retry_row_def lifecycle_states_def)

abbreviation lifecycles :: "enrichment_db \<Rightarrow> bool" where
  "lifecycles db \<equiv> list_all lifecycle_ok (en_raw db)"

lemma claim_each_lifecycles: "lifecycles db \<Longrightarrow> lifecycles (snd (claim_each now w is db))"
  by (induction now w "is" db rule: claim_each.induct) (simp_all add: Let_def split_def list_all_update)

lemma put_raw_lifecycles: "lifecycles db \<Longrightarrow> (\<And>r. lifecycle_ok (f r)) \<Longrightarrow> lifecycles (put_raw i f db)"
  by (simp add: put_raw_def list_all_update)

lemma normalize_batch_lifecycles: "lifecycles (snd sd) \<Longrightarrow> lifecycles (snd (normalize_batch env clock rs sd))"
proof (induction env clock rs sd rule: normalize_batch.induct)
  case (2 env clock r rs sd)
  have "lifecycles (snd (normalize_one env now r sd))" for now
    using 2(2) by (cases sd) (simp add: normalize_one_def Let_def put_raw_lifecycles split: option.split)
  with 2 show ?case by simp
qed simp

lemma next_batch_lifecycles: "next_batch owner limit scanned now db = (batch, db') \<Longrightarrow> lifecycles db \<Longrightarrow> lifecycles db'"
  using claim_each_lifecycles [of db now "the owner" "map nr_id (load_enrichment_candidates limit scanned now db)"]
  by (auto simp: next_batch_def claim_candidates_def claim_candidates_seen_def split: option.splits if_splits prod.splits)

lemma gather_lifecycles: "lifecycles (snd sd) \<Longrightarrow> lifecycles (snd (gather env owner clock limit sd))"
proof (induction env owner clock limit sd rule: gather.induct)
  case (1 env owner clock limit sd)
  obtain batch db where b: "next_batch owner (limit - length (ns_normalized (fst sd))) (nr_id ` set (ns_raw (fst sd)))
      (clock (length (ns_raw (fst sd)))) (snd sd) = (batch, db)" by force
  have "lifecycles (snd (fst sd, db))" using next_batch_lifecycles [OF b 1(2)] by simp
  then show ?case using 1 b normalize_batch_lifecycles [of "(fst sd, db)" env clock batch]
    by (subst gather.simps) (simp add: Let_def)
qed

lemma transition_lifecycles:
  "s \<in> set lifecycle_states \<Longrightarrow> lifecycles db \<Longrightarrow> lifecycles (transition_raw i w s d t db)"
  by (auto simp: transition_raw_def lifecycle_ok_def intro!: list_all_update)

lemma enrich_all_lifecycles: "enrich_all env owner n rs st = Some st' \<Longrightarrow> lifecycles (pr_db st) \<Longrightarrow> lifecycles (pr_db st')"
proof (induction rs arbitrary: n st)
  case (Cons r rs)
  then obtain s where s: "enrich_article env owner n r st = Some s" "enrich_all env owner (Suc n) rs s = Some st'"
    by (auto split: option.splits)
  from article_wrote [OF s(1)] obtain status delay t where w: "status \<in> set moves"
      "en_raw (pr_db s) = en_raw (transition_raw (nr_id r) owner status delay t (pr_db st))" unfolding wrote_def by blast
  have "status \<in> set lifecycle_states" using w(1) by (auto simp: moves_def lifecycle_states_def)
  from transition_lifecycles [OF this Cons.prems(2)] have "lifecycles (pr_db s)" by (simp add: w(2))
  from Cons.IH [OF s(2) this] show ?case .
qed simp

lemma process_lifecycles:
  assumes "process_raw_articles env client owner now raws db = (r, db')" "lifecycles db"
  shows "lifecycles db'"
  using assms(1) unfolding process_raw_articles_def
proof (cases rule: process_cases)
  case (finished b st)
  from enrich_all_lifecycles [OF finished(2)] assms(2) show ?thesis by (simp add: finished(3))
qed (use assms(2) in simp)

lemma release_lifecycles: "lifecycles db \<Longrightarrow> lifecycles (release_claims w now db)"
  by (simp add: release_claims_def list_all_update lifecycle_ok_def lifecycle_states_def)

text \<open>A task: the batch it gathers, and what it ends with.\<close>

lemma enrich_task_cases:
  assumes "enrich_articles_task environ nenv env w clock db = (r, db')"
  obtains (empty) st where "enrichment_batch nenv (Some w) clock enrich_max_per_run db = (st, db')" "ns_normalized st = []" "r \<noteq> None"
    | (failed) st db1 where "enrichment_batch nenv (Some w) clock enrich_max_per_run db = (st, db1)" "r = None"
      "db' = release_claims w (clock (length (ns_raw st))) db1"
    | (finished) st db1 p res where "enrichment_batch nenv (Some w) clock enrich_max_per_run db = (st, db1)" "policy_from_env environ = Inr p"
      "process_raw_articles (env\<lparr>pe_policy := p\<rparr>) False (Some w) (clock (length (ns_raw st))) (ns_normalized st) db1 = (Some res, db')"
      "map_option et_metrics r = Some (rn_metrics res)"
  using assms unfolding enrich_articles_task_def
  by (auto simp: Let_def split: prod.splits if_splits sum.splits option.splits)

lemma task_lifecycles:
  assumes "enrich_articles_task environ nenv env w clock db = (r, db')" "lifecycles db"
  shows "lifecycles db'"
proof -
  have gathered: "lifecycles db1" if "enrichment_batch nenv (Some w) clock enrich_max_per_run db = (st, db1)" for st db1
    using that gather_lifecycles [of "(no_stats, db)" nenv "Some w" clock enrich_max_per_run] assms(2) by (simp add: enrichment_batch_def)
  from assms(1) show ?thesis
  proof (cases rule: enrich_task_cases)
    case (empty st)
    then show ?thesis using gathered by blast
  next
    case (failed st db1)
    then show ?thesis using gathered [OF failed(1)] release_lifecycles by simp
  next
    case (finished st db1 p res)
    from process_lifecycles [OF finished(3) gathered [OF finished(1)]] show ?thesis .
  qed
qed

section \<open>Leases\<close>

lemma leased_not_claimable [simp]: "\<not> claimable now (lease_row w now r)"
  by (simp add: claimable_def lease_row_def enrich_lease_def minutes_def seconds_def)

lemma claim_each_rows:
  assumes "claim_each now w is db = (c, db')" "x \<in> set (en_raw db')"
  shows "x \<in> set (en_raw db) \<or> (\<exists>r \<in> set (en_raw db). claimable now r \<and> x = lease_row w now r \<and> nr_id r \<in> set is)"
  using assms
proof (induction "is" arbitrary: db c)
  case (Cons i "is")
  let ?p = "\<lambda>r. nr_id r = i \<and> claimable now r"
  let ?d = "db\<lparr>en_raw := sql_update ?p (lease_row w now) (en_raw db)\<rparr>"
  obtain c1 where c1: "claim_each now w is ?d = (c1, db')" using Cons.prems(1) by (auto simp: Let_def split: prod.splits)
  have origin: "y \<in> set (en_raw db) \<or> (\<exists>r \<in> set (en_raw db). ?p r \<and> y = lease_row w now r)" if "y \<in> set (en_raw ?d)" for y
    using that by (auto simp: sql_update_def)
  from Cons.IH [OF c1 Cons.prems(2)] show ?case
  proof
    assume "x \<in> set (en_raw ?d)"
    then show ?thesis using origin by auto
  next
    assume "\<exists>r \<in> set (en_raw ?d). claimable now r \<and> x = lease_row w now r \<and> nr_id r \<in> set is"
    then obtain r where r: "r \<in> set (en_raw ?d)" "claimable now r" "x = lease_row w now r" "nr_id r \<in> set is" by blast
    then have "r \<in> set (en_raw db)" using origin [of r] by auto
    with r show ?thesis by auto
  qed
qed simp

lemma claim_each_keeps:
  "claim_each now w is db = (c, db') \<Longrightarrow> x \<in> set (en_raw db) \<Longrightarrow> \<not> claimable now x \<Longrightarrow> x \<in> set (en_raw db')"
proof (induction "is" arbitrary: db c)
  case (Cons i "is")
  let ?d = "db\<lparr>en_raw := sql_update (\<lambda>r. nr_id r = i \<and> claimable now r) (lease_row w now) (en_raw db)\<rparr>"
  obtain c1 where "claim_each now w is ?d = (c1, db')" using Cons.prems(1) by (auto simp: Let_def split: prod.splits)
  moreover have "x \<in> set (en_raw ?d)" using Cons.prems(2,3) by (force simp: sql_update_def)
  ultimately show ?case using Cons.IH Cons.prems(3) by blast
qed simp

lemma claim_each_exact:
  assumes "claim_each now w is db = (c, db')" "distinct (map nr_id (en_raw db))"
  shows "db' = db\<lparr>en_raw := map (\<lambda>r. if nr_id r \<in> set is \<and> claimable now r then lease_row w now r else r) (en_raw db)\<rparr>
    \<and> set c = nr_id ` {r \<in> set (en_raw db). nr_id r \<in> set is \<and> claimable now r}"
  using assms
proof (induction "is" arbitrary: db c)
  case (Cons i "is")
  let ?p = "\<lambda>r. nr_id r = i \<and> claimable now r"
  let ?d = "db\<lparr>en_raw := sql_update ?p (lease_row w now) (en_raw db)\<rparr>"
  obtain c1 where c1: "claim_each now w is ?d = (c1, db')" "c = (if rowcount ?p (en_raw db) = 1 then i # c1 else c1)"
    using Cons.prems(1) by (auto simp: Let_def split: prod.splits)
  have d: "distinct (map nr_id (en_raw ?d))" using Cons.prems(2) by (simp add: keys_update)
  note ih = Cons.IH [OF c1(1) d]
  have count: "rowcount ?p (en_raw db) = 1 \<longleftrightarrow> (\<exists>r \<in> set (en_raw db). ?p r)"
  proof
    assume "rowcount ?p (en_raw db) = 1"
    then have "filter ?p (en_raw db) \<noteq> []" by (auto simp: rowcount_def)
    then show "\<exists>r \<in> set (en_raw db). ?p r" by (auto simp: filter_empty_conv)
  next
    assume "\<exists>r \<in> set (en_raw db). ?p r"
    then obtain r where r: "r \<in> set (en_raw db)" "?p r" by blast
    then have "row_of nr_id (en_raw db) i = Some r" using row_of_in [OF Cons.prems(2) r(1)] by simp
    then show "rowcount ?p (en_raw db) = 1" using rowcount_key [OF Cons.prems(2), of i "claimable now"] r(2) by simp
  qed
  have "{r \<in> set (en_raw ?d). nr_id r \<in> set is \<and> claimable now r}
      = {r \<in> set (en_raw db). nr_id r \<in> set is \<and> claimable now r \<and> nr_id r \<noteq> i}"
    by (force simp: sql_update_def)
  then have "set c = nr_id ` {r \<in> set (en_raw db). nr_id r \<in> set (i # is) \<and> claimable now r}"
    using ih count by (auto simp: c1(2))
  moreover have "db' = db\<lparr>en_raw := map (\<lambda>r. if nr_id r \<in> set (i # is) \<and> claimable now r then lease_row w now r else r) (en_raw db)\<rparr>"
  proof -
    have "(if nr_id (if ?p r then lease_row w now r else r) \<in> set is \<and> claimable now (if ?p r then lease_row w now r else r)
        then lease_row w now (if ?p r then lease_row w now r else r) else if ?p r then lease_row w now r else r)
      = (if nr_id r \<in> set (i # is) \<and> claimable now r then lease_row w now r else r)" for r by auto
    then show ?thesis using ih by (simp add: sql_update_def comp_def)
  qed
  ultimately show ?case by blast
qed simp

lemma claim_candidates_exact:
  assumes "claim_candidates_seen seen locked limit w exclude now db = (batch, db')" "distinct (map nr_id (en_raw db))"
    and "taken = (\<lambda>r. nr_id r \<in> nr_id ` set (load_enrichment_candidates limit (exclude \<union> locked) now seen) \<and> claimable now r)"
  shows "db' = db\<lparr>en_raw := map (\<lambda>r. if taken r then lease_row w now r else r) (en_raw db)\<rparr>"
    and "batch = newest_first (map (lease_row w now) (filter taken (en_raw db)))"
proof -
  let ?ids = "map nr_id (load_enrichment_candidates limit (exclude \<union> locked) now seen)"
  let ?g = "\<lambda>r. if taken r then lease_row w now r else r"
  obtain c where c: "claim_each now w ?ids db = (c, db')"
    "batch = newest_first (filter (\<lambda>r. nr_id r \<in> set c \<and> nr_lease_owner r = Some w) (en_raw db'))"
    using assms(1) by (auto simp: claim_candidates_seen_def split: prod.splits)
  note exact = claim_each_exact [OF c(1) assms(2)]
  have g: "(\<lambda>r. if nr_id r \<in> set ?ids \<and> claimable now r then lease_row w now r else r) = ?g" by (simp add: assms(3))
  show db': "db' = db\<lparr>en_raw := map ?g (en_raw db)\<rparr>" using exact [THEN conjunct1] unfolding g .
  have sc: "set c = nr_id ` {r \<in> set (en_raw db). taken r}" using exact [THEN conjunct2] by (simp add: assms(3))
  have "nr_id r \<in> set c \<longleftrightarrow> taken r" if "r \<in> set (en_raw db)" for r
    using that assms(2) unfolding sc by (auto simp: distinct_map dest: inj_onD)
  then have keep: "filter (\<lambda>r. nr_id (?g r) \<in> set c \<and> nr_lease_owner (?g r) = Some w) (en_raw db) = filter taken (en_raw db)"
    by (intro filter_cong refl) (auto simp: lease_row_def)
  have "filter (\<lambda>r. nr_id r \<in> set c \<and> nr_lease_owner r = Some w) (map ?g (en_raw db)) = map ?g (filter taken (en_raw db))"
    using keep by (simp add: filter_map comp_def)
  also have "\<dots> = map (lease_row w now) (filter taken (en_raw db))" by (rule map_cong) simp_all
  finally show "batch = newest_first (map (lease_row w now) (filter taken (en_raw db)))" by (simp add: c(2) db')
qed

text \<open>C4: A claim is exclusive, also when it acts on candidates it read before other workers changed the table.
  It takes the candidates that are still due when it updates them, and these only: each is leased to the
  claimant for sixty-five minutes, returned newest first, and due to nobody before the lease expires; every
  other row stays exactly as it is, among them every row whose lease has not expired, and none that the
  claimant scanned before or that another worker has locked is taken. Identifiers are unique, as in the table.\<close>
theorem claims_are_exclusive:
  assumes "claim_candidates_seen seen locked limit w exclude now db = (batch, db')" "distinct (map nr_id (en_raw db))"
    and "taken = (\<lambda>r. nr_id r \<in> nr_id ` set (load_enrichment_candidates limit (exclude \<union> locked) now seen) \<and> claimable now r)"
  shows "db' = db\<lparr>en_raw := map (\<lambda>r. if taken r then lease_row w now r else r) (en_raw db)\<rparr>
    \<and> batch = newest_first (map (lease_row w now) (filter taken (en_raw db)))
    \<and> list_all (\<lambda>b. nr_enrichment_status b = Some ''processing'' \<and> nr_lease_owner b = Some w
        \<and> nr_lease_expires_at b = Some (now + minutes 65) \<and> nr_id b \<notin> exclude \<and> nr_id b \<notin> locked) batch
    \<and> (t < now + minutes 65 \<longrightarrow> list_all (\<lambda>b. \<not> claimable t b) batch)
    \<and> list_all (\<lambda>r. nr_lease_owner r \<noteq> None \<and> null_gt (nr_lease_expires_at r) now \<longrightarrow> \<not> taken r) (en_raw db)"
proof -
  note exact = claim_candidates_exact [OF assms]
  have new: "\<exists>r. b = lease_row w now r \<and> nr_id r \<notin> exclude \<union> locked" if "b \<in> set batch" for b
  proof -
    obtain r where r: "b = lease_row w now r" "taken r" using \<open>b \<in> set batch\<close> by (auto simp: exact(2))
    then obtain y where y: "y \<in> set (load_enrichment_candidates limit (exclude \<union> locked) now seen)" "nr_id r = nr_id y"
      by (auto simp: assms(3))
    have "nr_id r \<notin> exclude \<union> locked" using subsetD [OF candidates_set y(1)] y(2) by simp
    with r(1) show ?thesis by blast
  qed
  have "list_all (\<lambda>b. nr_enrichment_status b = Some ''processing'' \<and> nr_lease_owner b = Some w
        \<and> nr_lease_expires_at b = Some (now + minutes 65) \<and> nr_id b \<notin> exclude \<and> nr_id b \<notin> locked) batch"
    unfolding list_all_iff by (auto dest!: new simp: lease_row_def enrich_lease_def)
  moreover have "t < now + minutes 65 \<longrightarrow> list_all (\<lambda>b. \<not> claimable t b) batch"
    unfolding list_all_iff by (auto dest!: new simp: lease_row_def enrich_lease_def claimable_def)
  moreover have "\<not> claimable now r" if "nr_lease_owner r \<noteq> None" "null_gt (nr_lease_expires_at r) now" for r
    using that by (cases "nr_lease_expires_at r") (auto simp: claimable_def)
  then have "list_all (\<lambda>r. nr_lease_owner r \<noteq> None \<and> null_gt (nr_lease_expires_at r) now \<longrightarrow> \<not> taken r) (en_raw db)"
    by (simp add: list_all_iff assms(3))
  ultimately show ?thesis using exact by blast
qed

section \<open>What was leased is given back\<close>

text \<open>The articles this worker leases are being processed, due, not processed yet, and either normalized or still to be.\<close>

definition pending :: "string \<Rightarrow> datetime \<Rightarrow> nat set \<Rightarrow> normalize_stats \<Rightarrow> enrichment_db \<Rightarrow> bool" where
  "pending w t P st db \<longleftrightarrow> distinct (map nr_id (en_raw db))
     \<and> (\<forall>x \<in> set (en_raw db). nr_lease_owner x = Some w \<longrightarrow>
          nr_id x \<in> nr_id ` set (ns_normalized st) \<union> P \<and> nr_enrichment_status x = Some ''processing''
          \<and> (nr_next_attempt_at x = None \<or> null_le (nr_next_attempt_at x) t)
          \<and> nr_id x \<notin> pa_raw_article_id ` set (en_processed db))"

lemma pending_put:
  assumes "pending w t (insert i P) st db" "\<And>r. nr_id (f r) = nr_id r" "\<And>r. nr_lease_owner (f r) = None"
    "ns_normalized st' = ns_normalized st"
  shows "pending w t P st' (put_raw i f db)"
  unfolding pending_def
proof (intro conjI ballI impI)
  show "distinct (map nr_id (en_raw (put_raw i f db)))" using assms(1,2) by (simp add: put_raw_ids pending_def)
  fix x assume x: "x \<in> set (en_raw (put_raw i f db))" "nr_lease_owner x = Some w"
  then have old: "x \<in> set (en_raw db)" "nr_id x \<noteq> i" using assms(3) by (auto simp: put_raw_def sql_update_def split: if_splits)
  then show "nr_id x \<in> nr_id ` set (ns_normalized st') \<union> P" using assms(1,4) x(2) by (auto simp: pending_def)
  show "nr_enrichment_status x = Some ''processing''" "nr_next_attempt_at x = None \<or> null_le (nr_next_attempt_at x) t"
    "nr_id x \<notin> pa_raw_article_id ` set (en_processed (put_raw i f db))"
    using assms(1) old(1) x(2) by (auto simp: pending_def put_raw_def)
qed

lemma pending_normalize_one:
  assumes "pending w t (insert (nr_id r) P) (fst sd) (snd sd)"
  shows "pending w t P (fst (normalize_one env now r sd)) (snd (normalize_one env now r sd))"
proof -
  let ?st = "(fst sd)\<lparr>ns_raw := ns_raw (fst sd) @ [r]\<rparr>"
  consider (error) "normalize_article env now (rebuilt_article r) = None" | (rejected) "normalize_article env now (rebuilt_article r) = Some None"
    | (kept) a where "normalize_article env now (rebuilt_article r) = Some (Some a)"
    by (cases "normalize_article env now (rebuilt_article r)") auto
  then show ?thesis
  proof cases
    case error
    then show ?thesis
      using pending_put [OF assms, of "retry_row now (Suc (nr_attempt_count r))" "?st\<lparr>ns_errors := Suc (ns_errors ?st)\<rparr>"]
      by (simp add: normalize_one_def split_def retry_row_def)
  next
    case rejected
    then show ?thesis
      using pending_put [OF assms, of reject_row "?st\<lparr>ns_quality_failures := Suc (ns_quality_failures ?st)\<rparr>"]
      by (simp add: normalize_one_def split_def reject_row_def)
  next
    case kept
    then show ?thesis using assms by (simp add: normalize_one_def split_def pending_def)
  qed
qed

lemma pending_normalize_batch:
  "pending w t (nr_id ` set rs \<union> P) (fst sd) (snd sd) \<Longrightarrow>
     pending w t P (fst (normalize_batch env clock rs sd)) (snd (normalize_batch env clock rs sd))"
proof (induction env clock rs sd rule: normalize_batch.induct)
  case (2 env clock r rs sd)
  have "pending w t (insert (nr_id r) (nr_id ` set rs \<union> P)) (fst sd) (snd sd)" using 2(2) by simp
  from 2(1) [OF pending_normalize_one [OF this]] show ?case by simp
qed simp

lemma claim_each_new:
  assumes "claim_each now w is db = (c, db')" "x \<in> set (en_raw db')" "x \<notin> set (en_raw db)" "distinct (map nr_id (en_raw db))"
  shows "nr_id x \<in> set c"
  using assms
proof (induction "is" arbitrary: db c)
  case (Cons i "is")
  let ?p = "\<lambda>r. nr_id r = i \<and> claimable now r"
  let ?d = "db\<lparr>en_raw := sql_update ?p (lease_row w now) (en_raw db)\<rparr>"
  obtain c1 where c1: "claim_each now w is ?d = (c1, db')" "c = (if rowcount ?p (en_raw db) = 1 then i # c1 else c1)"
    using Cons.prems(1) by (auto simp: Let_def split: prod.splits)
  have d: "distinct (map nr_id (en_raw ?d))" using Cons.prems(4) by (simp add: keys_update)
  show ?case
  proof (cases "x \<in> set (en_raw ?d)")
    case False
    from Cons.IH [OF c1(1) Cons.prems(2) False d] show ?thesis by (simp add: c1(2))
  next
    case True
    then obtain r where r: "r \<in> set (en_raw db)" "?p r" "x = lease_row w now r"
      using Cons.prems(3) by (auto simp: sql_update_def split: if_splits)
    have "row_of nr_id (en_raw db) i = Some r" using row_of_in [OF Cons.prems(4) r(1)] r(2) by simp
    then have "rowcount ?p (en_raw db) = 1" using rowcount_key [OF Cons.prems(4), of i "claimable now"] r(2) by simp
    then show ?thesis using r by (simp add: c1(2))
  qed
qed simp

lemma claim_each_processed: "claim_each now w is db = (c, db') \<Longrightarrow> en_processed db' = en_processed db"
proof (induction "is" arbitrary: db c)
  case (Cons i "is")
  then obtain c1 where "claim_each now w is (db\<lparr>en_raw := sql_update (\<lambda>r. nr_id r = i \<and> claimable now r) (lease_row w now) (en_raw db)\<rparr>) = (c1, db')"
    by (auto simp: Let_def split: prod.splits)
  from Cons.IH [OF this] show ?case by simp
qed simp

lemma pending_claim:
  assumes "pending w t {} st db" "t \<le> now" "claim_candidates limit w scanned now db = (batch, db')"
  shows "pending w now (nr_id ` set batch) st db'"
proof -
  let ?ids = "map nr_id (load_enrichment_candidates limit scanned now db)"
  obtain c where c: "claim_each now w ?ids db = (c, db')"
    "batch = newest_first (filter (\<lambda>r. nr_id r \<in> set c \<and> nr_lease_owner r = Some w) (en_raw db'))"
    using assms(3) by (auto simp: claim_candidates_def claim_candidates_seen_def split: prod.splits)
  have dist: "distinct (map nr_id (en_raw db))" using assms(1) by (simp add: pending_def)
  have processed: "en_processed db' = en_processed db" using claim_each_processed [OF c(1)] .
  have row: "nr_id x \<in> nr_id ` set (ns_normalized st) \<union> nr_id ` set batch \<and> nr_enrichment_status x = Some ''processing''
        \<and> (nr_next_attempt_at x = None \<or> null_le (nr_next_attempt_at x) now) \<and> nr_id x \<notin> pa_raw_article_id ` set (en_processed db)"
    if x: "x \<in> set (en_raw db')" "nr_lease_owner x = Some w" for x
  proof (cases "x \<in> set (en_raw db)")
    case True
    then have "nr_id x \<in> nr_id ` set (ns_normalized st) \<and> nr_enrichment_status x = Some ''processing''
        \<and> (nr_next_attempt_at x = None \<or> null_le (nr_next_attempt_at x) t) \<and> nr_id x \<notin> pa_raw_article_id ` set (en_processed db)"
      using assms(1) x(2) by (auto simp: pending_def)
    then show ?thesis using assms(2) by (cases "nr_next_attempt_at x") auto
  next
    case False
    have "nr_id x \<in> set c" by (rule claim_each_new [OF c(1) x(1) False dist])
    then have b: "x \<in> set batch" using x by (simp add: c(2))
    from claim_each_rows [OF c(1) x(1)] False obtain r where
      r: "r \<in> set (en_raw db)" "claimable now r" "x = lease_row w now r" "nr_id r \<in> set ?ids" by blast
    from r(4) obtain y where y: "y \<in> set (load_enrichment_candidates limit scanned now db)" "nr_id r = nr_id y" by auto
    have "nr_id r \<notin> pa_raw_article_id ` set (en_processed db)" using subsetD [OF candidates_set y(1)] y(2) by simp
    moreover have "nr_id x = nr_id r" "nr_enrichment_status x = Some ''processing''" "nr_next_attempt_at x = nr_next_attempt_at r"
      by (simp_all add: r(3)) (simp_all add: lease_row_def)
    moreover have "nr_id x \<in> nr_id ` set batch" using b by blast
    ultimately show ?thesis using r(2) by (simp add: claimable_def)
  qed
  show ?thesis unfolding pending_def processed
    using row claim_each_ids [of now w ?ids db] dist by (simp add: c(1))
qed

lemma pending_later: "pending w t P st db \<Longrightarrow> t \<le> u \<Longrightarrow> pending w u P st db"
proof -
  assume p: "pending w t P st db" and u: "t \<le> u"
  have "null_le v t \<Longrightarrow> null_le v u" for v using u by (cases v) auto
  with p show ?thesis by (auto simp: pending_def)
qed

lemma gather_enough: "limit \<le> length (ns_normalized (fst sd)) \<Longrightarrow> gather env owner clock limit sd = sd"
  by (subst gather.simps) simp

lemma gather_more:
  assumes "\<not> limit \<le> length (ns_normalized (fst sd))"
    and "next_batch owner (limit - length (ns_normalized (fst sd))) (nr_id ` set (ns_raw (fst sd))) (clock (length (ns_raw (fst sd)))) (snd sd) = (batch, db)"
  shows "gather env owner clock limit sd = (if batch = [] then (fst sd, db)
     else gather env owner clock limit (normalize_batch env clock batch (fst sd, db)))"
  using assms by (subst gather.simps) simp

lemma pending_gather:
  assumes "w \<noteq> []"
  shows "mono clock \<Longrightarrow> pending w (clock (length (ns_raw (fst sd)))) {} (fst sd) (snd sd) \<Longrightarrow>
    (let sd' = gather env (Some w) clock limit sd in pending w (clock (length (ns_raw (fst sd')))) {} (fst sd') (snd sd'))"
proof (induction env "Some w" clock limit sd rule: gather.induct)
  case (1 env clock limit sd)
  let ?now = "clock (length (ns_raw (fst sd)))"
  show ?case
  proof (cases "limit \<le> length (ns_normalized (fst sd))")
    case True
    then show ?thesis using 1(3) by (simp add: gather_enough Let_def)
  next
    case False
    obtain batch db where b: "next_batch (Some w) (limit - length (ns_normalized (fst sd))) (nr_id ` set (ns_raw (fst sd))) ?now (snd sd) = (batch, db)"
      by force
    have p: "pending w ?now (nr_id ` set batch) (fst sd) db"
      using pending_claim [OF 1(3) order_refl] b assms by (simp add: next_batch_def)
    show ?thesis
    proof (cases "batch = []")
      case True
      then show ?thesis using p by (simp add: gather_more [where clock = clock, OF False b] Let_def)
    next
      case more: False
      let ?sd = "normalize_batch env clock batch (fst sd, db)"
      have "pending w ?now {} (fst ?sd) (snd ?sd)" using p by (intro pending_normalize_batch) simp
      moreover have "?now \<le> clock (length (ns_raw (fst ?sd)))"
        using monoD [OF 1(2)] by (simp add: normalize_batch_raw)
      ultimately have "pending w (clock (length (ns_raw (fst ?sd)))) {} (fst ?sd) (snd ?sd)" by (rule pending_later)
      from 1(1) [OF False b [symmetric] refl more 1(2) this] show ?thesis
        using more by (simp add: gather_more [where clock = clock, OF False b])
    qed
  qed
qed

lemma to_process_covers: "r \<in> set rs \<Longrightarrow> nr_id r \<notin> taken \<Longrightarrow> nr_id r \<notin> blocked \<Longrightarrow> nr_id r \<in> nr_id ` set (to_process taken blocked rs)"
  by (induction taken blocked rs rule: to_process.induct) (auto split: if_splits)

lemma transition_releases:
  "x \<in> set (en_raw (transition_raw i (Some w) s d t db)) \<Longrightarrow> nr_lease_owner x = Some w \<Longrightarrow> x \<in> set (en_raw db) \<and> nr_id x \<noteq> i"
  by (auto simp: transition_raw_def sql_update_def split: if_splits)

lemma enrich_all_releases:
  "enrich_all env (Some w) n rs st = Some st' \<Longrightarrow> x \<in> set (en_raw (pr_db st')) \<Longrightarrow> nr_lease_owner x = Some w \<Longrightarrow>
     x \<in> set (en_raw (pr_db st)) \<and> nr_id x \<notin> nr_id ` set rs"
proof (induction rs arbitrary: n st)
  case (Cons r rs)
  then obtain s where s: "enrich_article env (Some w) n r st = Some s" "enrich_all env (Some w) (Suc n) rs s = Some st'"
    by (auto split: option.splits)
  from Cons.IH [OF s(2) Cons.prems(2,3)] have x: "x \<in> set (en_raw (pr_db s))" "nr_id x \<notin> nr_id ` set rs" by blast+
  from article_wrote [OF s(1)] obtain status delay t where
    "en_raw (pr_db s) = en_raw (transition_raw (nr_id r) (Some w) status delay t (pr_db st))" unfolding wrote_def by blast
  from transition_releases [OF x(1) [unfolded this] Cons.prems(3)] x(2) show ?case by simp
qed simp

lemma pending_chosen:
  assumes "pending w t {} st db" "x \<in> set (en_raw db)" "nr_lease_owner x = Some w"
  shows "nr_id x \<in> nr_id ` set (chosen_articles db (Some w) t (ns_normalized st))"
proof -
  obtain r where r: "r \<in> set (ns_normalized st)" "nr_id r = nr_id x" using assms by (fastforce simp: pending_def)
  have "\<not> (\<exists>y \<in> set (en_raw db). nr_id y = nr_id x \<and> unavailable (Some w) t y)"
  proof
    assume "\<exists>y \<in> set (en_raw db). nr_id y = nr_id x \<and> unavailable (Some w) t y"
    then obtain y where y: "y \<in> set (en_raw db)" "nr_id y = nr_id x" "unavailable (Some w) t y" by blast
    have "row_of nr_id (en_raw db) (nr_id x) = Some x" "row_of nr_id (en_raw db) (nr_id y) = Some y"
      using assms(1,2) y(1) by (simp_all add: row_of_in pending_def)
    then have "y = x" using y(2) by simp
    moreover have "nr_enrichment_status x = Some ''processing''" "nr_next_attempt_at x = None \<or> null_le (nr_next_attempt_at x) t"
      using assms by (simp_all add: pending_def)
    ultimately show False using y(3) assms(3) by (cases "nr_next_attempt_at x") (auto simp: unavailable_def)
  qed
  moreover have "nr_id x \<notin> pa_raw_article_id ` set (en_processed db)" using assms by (simp add: pending_def)
  ultimately show ?thesis unfolding chosen_articles_def r(2) [symmetric]
    by (intro to_process_covers r(1)) auto
qed

text \<open>C3: A task of the enrichment worker gives back every lease it took, whether it succeeds or fails: under a name of its own and
  a clock that does not run backwards, no raw article is leased to it any more when it ends.\<close>
theorem worker_releases_leases:
  assumes "enrich_articles_task environ nenv env w clock db = (r, db')" "mono clock" "w \<noteq> []"
    and "distinct (map nr_id (en_raw db))" "\<And>x. x \<in> set (en_raw db) \<Longrightarrow> nr_lease_owner x \<noteq> Some w"
  shows "\<forall>x \<in> set (en_raw db'). nr_lease_owner x \<noteq> Some w"
proof -
  have gathered: "pending w (clock (length (ns_raw st))) {} st db1"
    if "enrichment_batch nenv (Some w) clock enrich_max_per_run db = (st, db1)" for st db1
    using that pending_gather [OF assms(3,2), of "(no_stats, db)" nenv enrich_max_per_run] assms(4,5)
    by (simp add: enrichment_batch_def pending_def Let_def no_stats_def)
  from assms(1) show ?thesis
  proof (cases rule: enrich_task_cases)
    case (empty st)
    then show ?thesis using gathered [OF empty(1)] by (auto simp: pending_def)
  next
    case (failed st db1)
    then show ?thesis by (auto simp: release_claims_def sql_update_def)
  next
    case (finished st db1 p res)
    let ?t = "clock (length (ns_raw st))"
    show ?thesis
    proof (intro ballI notI)
      fix x assume x: "x \<in> set (en_raw db')" "nr_lease_owner x = Some w"
      from finished(3) [unfolded process_raw_articles_def] obtain st1 s where
        run: "enrich_all (env\<lparr>pe_policy := p\<rparr>) (Some w) 0 (chosen_articles db1 (Some w) ?t (ns_normalized st)) s = Some st1"
        and s: "pr_db s = db1" "db' = pr_db st1"
        by (auto elim!: process_cases)
      from enrich_all_releases [OF run x(1) [unfolded s(2)] x(2)] pending_chosen [OF gathered [OF finished(1)] _ x(2)] show False
        by (simp add: s(1))
    qed
  qed
qed

section \<open>What becomes of an article\<close>

definition closed_row :: "string \<Rightarrow> news_raw \<Rightarrow> news_raw" where
  "closed_row s x = x\<lparr>nr_enrichment_status := Some s, nr_next_attempt_at := None, nr_lease_owner := None, nr_lease_expires_at := None\<rparr>"

definition waiting_row :: "string \<Rightarrow> datetime \<Rightarrow> news_raw \<Rightarrow> news_raw" where
  "waiting_row s t x = x\<lparr>nr_enrichment_status := Some s, nr_attempt_count := Suc (nr_attempt_count x), nr_next_attempt_at := Some t,
     nr_lease_owner := None, nr_lease_expires_at := None\<rparr>"

definition held :: "string \<Rightarrow> (nat \<Rightarrow> datetime) \<Rightarrow> news_raw \<Rightarrow> bool" where
  "held w clock x \<longleftrightarrow> nr_lease_owner x = Some w \<or> (\<exists>i. claimable (clock i) x)"

text \<open>The fate of a raw article \<open>x\<close> in a task of \<open>w\<close>; \<open>ok\<close> tells whether the task succeeds, \<open>ps\<close> are the
  processed articles it leaves.\<close>

inductive article_fate :: "(string \<rightharpoonup> string) \<Rightarrow> normalization_env \<Rightarrow> pipeline_env \<Rightarrow> string \<Rightarrow> (nat \<Rightarrow> datetime) \<Rightarrow> bool
    \<Rightarrow> processed_article list \<Rightarrow> news_raw \<Rightarrow> news_raw \<Rightarrow> bool"
  for environ nenv env w clock ok ps where
  untouched: "article_fate environ nenv env w clock ok ps x x"
| rejected: "claimable (clock i) x \<Longrightarrow> normalize_article nenv (clock j) (rebuilt_article x) = Some None
    \<Longrightarrow> article_fate environ nenv env w clock ok ps x (closed_row ''quality_rejected'' x)"
| not_normalized: "claimable (clock i) x \<Longrightarrow> normalize_article nenv (clock j) (rebuilt_article x) = None
    \<Longrightarrow> article_fate environ nenv env w clock ok ps x
          (waiting_row ''normalization_retry'' (clock j + minutes (min 360 (15 * 2 ^ nr_attempt_count x))) x)"
| leased: "ok \<Longrightarrow> claimable (clock i) x \<Longrightarrow> article_fate environ nenv env w clock ok ps x (lease_row w (clock i) x)"
| stored: "ok \<Longrightarrow> held w clock x \<Longrightarrow> nr_id x \<in> pa_raw_article_id ` set ps
    \<Longrightarrow> article_fate environ nenv env w clock ok ps x (closed_row ''completed'' x)"
| irrelevant: "ok \<Longrightarrow> held w clock x \<Longrightarrow> policy_from_env environ = Inr p
    \<Longrightarrow> normalize_article nenv (clock j) (rebuilt_article x) = Some (Some a)
    \<Longrightarrow> below_relevance (env\<lparr>pe_policy := p\<rparr>) (x\<lparr>nr_article := a\<rparr>)
    \<Longrightarrow> article_fate environ nenv env w clock ok ps x (closed_row ''skipped'' x)"
| put_off: "ok \<Longrightarrow> held w clock x \<Longrightarrow> s \<in> {''enrichment_retry'', ''deferred''}
    \<Longrightarrow> article_fate environ nenv env w clock ok ps x (waiting_row s (pe_now env n + hours 2) x)"
| released: "\<not> ok \<Longrightarrow> held w clock x
    \<Longrightarrow> article_fate environ nenv env w clock ok ps x (waiting_row ''enrichment_retry'' (clock i + minutes 1) x)"

lemma rows_of_fate:
  "reject_row x = closed_row ''quality_rejected'' x"
  "retry_row t (Suc (nr_attempt_count x)) x = waiting_row ''normalization_retry'' (t + minutes (min 360 (15 * 2 ^ nr_attempt_count x))) x"
  "closed_row s (lease_row w t x) = closed_row s x" "waiting_row s u (lease_row w t x) = waiting_row s u x"
  by (simp_all add: reject_row_def closed_row_def retry_row_def waiting_row_def retry_minutes_def lease_row_def)

text \<open>While articles are gathered: \<open>S\<close> was scanned, \<open>P\<close> is claimed and still to be normalized.\<close>

definition gathered :: "normalization_env \<Rightarrow> string \<Rightarrow> (nat \<Rightarrow> datetime) \<Rightarrow> nat set \<Rightarrow> nat set \<Rightarrow> news_raw \<Rightarrow> news_raw \<Rightarrow> bool" where
  "gathered nenv w clock S P x0 x \<longleftrightarrow> x = x0 \<or> nr_id x0 \<in> S \<union> P \<and> (\<exists>i. claimable (clock i) x0 \<and> (x = lease_row w (clock i) x0
     \<or> nr_id x0 \<notin> P \<and> (\<exists>j. normalize_article nenv (clock j) (rebuilt_article x0) = Some None \<and> x = reject_row x0
         \<or> normalize_article nenv (clock j) (rebuilt_article x0) = None \<and> x = retry_row (clock j) (Suc (nr_attempt_count x0)) x0)))"

definition claimed_from :: "(nat \<Rightarrow> datetime) \<Rightarrow> news_raw list \<Rightarrow> news_raw \<Rightarrow> bool" where
  "claimed_from clock rows r \<longleftrightarrow> (\<exists>x0 \<in> set rows. nr_id r = nr_id x0 \<and> nr_article r = nr_article x0
     \<and> nr_attempt_count r = nr_attempt_count x0 \<and> (\<exists>i. claimable (clock i) x0))"

definition normalized_from :: "normalization_env \<Rightarrow> (nat \<Rightarrow> datetime) \<Rightarrow> news_raw list \<Rightarrow> news_raw \<Rightarrow> bool" where
  "normalized_from nenv clock rows r \<longleftrightarrow> (\<exists>x0 \<in> set rows. nr_id r = nr_id x0
     \<and> (\<exists>j. normalize_article nenv (clock j) (rebuilt_article x0) = Some (Some (nr_article r))))"

definition gathering :: "normalization_env \<Rightarrow> string \<Rightarrow> (nat \<Rightarrow> datetime) \<Rightarrow> news_raw list \<Rightarrow> nat set \<Rightarrow> normalize_stats \<times> enrichment_db \<Rightarrow> bool" where
  "gathering nenv w clock rows P sd \<longleftrightarrow> distinct (map nr_id rows)
     \<and> list_all2 (gathered nenv w clock (nr_id ` set (ns_raw (fst sd))) P) rows (en_raw (snd sd))
     \<and> list_all (normalized_from nenv clock rows) (ns_normalized (fst sd))"

lemma gathered_id: "gathered nenv w clock S P x0 x \<Longrightarrow> nr_id x = nr_id x0"
  by (auto simp: gathered_def)

lemma same_keys: "list_all2 R xs ys \<Longrightarrow> (\<And>x y. R x y \<Longrightarrow> f y = f x) \<Longrightarrow> map f ys = map f xs"
  by (induction rule: list_all2_induct) simp_all

lemma gathered_normalized:
  assumes "gathered nenv w clock S (insert i P) x0 x"
  shows "gathered nenv w clock (insert i S) P x0 x"
  using assms by (auto simp: gathered_def)

lemma gathered_put:
  assumes "list_all2 (gathered nenv w clock S (insert (nr_id r) P)) rows rs" "distinct (map nr_id rows)"
    and "nr_id r \<notin> P" "claimed_from clock rows r"
    and "\<And>x0 x. nr_id x0 = nr_id r \<Longrightarrow> nr_article x0 = nr_article r \<Longrightarrow> nr_attempt_count x0 = nr_attempt_count r \<Longrightarrow>
           x = x0 \<or> (\<exists>t. x = lease_row w t x0) \<Longrightarrow>
           normalize_article nenv (clock n) (rebuilt_article x0) = Some None \<and> f x = reject_row x0
         \<or> normalize_article nenv (clock n) (rebuilt_article x0) = None \<and> f x = retry_row (clock n) (Suc (nr_attempt_count x0)) x0"
  shows "list_all2 (gathered nenv w clock (insert (nr_id r) S) P) rows (sql_update (\<lambda>x. nr_id x = nr_id r) f rs)"
  unfolding sql_update_def list_all2_map2
proof (rule list_all2_all_nthI)
  show "length rows = length rs" using assms(1) by (rule list_all2_lengthD)
next
  fix k assume k: "k < length rows"
  have g: "gathered nenv w clock S (insert (nr_id r) P) (rows ! k) (rs ! k)" using assms(1) k by (rule list_all2_nthD)
  show "gathered nenv w clock (insert (nr_id r) S) P (rows ! k) (if nr_id (rs ! k) = nr_id r then f (rs ! k) else rs ! k)"
  proof (cases "nr_id (rs ! k) = nr_id r")
    case False
    then show ?thesis using gathered_normalized [OF g] by simp
  next
    case True
    then have id: "nr_id (rows ! k) = nr_id r" using gathered_id [OF g] by simp
    from assms(4) obtain y i where y: "y \<in> set rows" "nr_id r = nr_id y" "nr_article r = nr_article y"
        "nr_attempt_count r = nr_attempt_count y" "claimable (clock i) y" unfolding claimed_from_def by blast
    have "rows ! k = y" using y(1,2) id k assms(2) by (auto simp: distinct_map dest: inj_onD)
    moreover have "rs ! k = rows ! k \<or> (\<exists>t. rs ! k = lease_row w t (rows ! k))" using g id by (auto simp: gathered_def)
    ultimately have "normalize_article nenv (clock n) (rebuilt_article (rows ! k)) = Some None \<and> f (rs ! k) = reject_row (rows ! k)
         \<or> normalize_article nenv (clock n) (rebuilt_article (rows ! k)) = None
           \<and> f (rs ! k) = retry_row (clock n) (Suc (nr_attempt_count (rows ! k))) (rows ! k)"
      using assms(5) [of "rows ! k" "rs ! k"] y id by auto
    then show ?thesis using True id assms(3) y(5) \<open>rows ! k = y\<close> by (auto simp: gathered_def)
  qed
qed

lemma gathering_normalize_one:
  assumes "gathering nenv w clock rows (insert (nr_id r) P) sd" "nr_id r \<notin> P" "claimed_from clock rows r"
  shows "gathering nenv w clock rows P (normalize_one nenv (clock n) r sd)"
proof -
  obtain st db where sd: "sd = (st, db)" by force
  let ?S = "nr_id ` set (ns_raw st)"
  have d: "distinct (map nr_id rows)" and g: "list_all2 (gathered nenv w clock ?S (insert (nr_id r) P)) rows (en_raw db)"
    and kept: "list_all (normalized_from nenv clock rows) (ns_normalized st)"
    using assms(1) by (simp_all add: gathering_def sd)
  have put: "list_all2 (gathered nenv w clock (insert (nr_id r) ?S) P) rows (en_raw (put_raw (nr_id r) f db))"
    if "\<And>x0 x. nr_id x0 = nr_id r \<Longrightarrow> nr_article x0 = nr_article r \<Longrightarrow> nr_attempt_count x0 = nr_attempt_count r \<Longrightarrow>
           x = x0 \<or> (\<exists>t. x = lease_row w t x0) \<Longrightarrow>
           normalize_article nenv (clock n) (rebuilt_article x0) = Some None \<and> f x = reject_row x0
         \<or> normalize_article nenv (clock n) (rebuilt_article x0) = None \<and> f x = retry_row (clock n) (Suc (nr_attempt_count x0)) x0" for f
    using gathered_put [where f = f and n = n, OF g d assms(2,3)] that by (simp add: put_raw_def)
  consider (error) "normalize_article nenv (clock n) (rebuilt_article r) = None" | (rejected) "normalize_article nenv (clock n) (rebuilt_article r) = Some None"
    | (kept) a where "normalize_article nenv (clock n) (rebuilt_article r) = Some (Some a)"
    by (cases "normalize_article nenv (clock n) (rebuilt_article r)") auto
  then show ?thesis
  proof cases
    case error
    have "list_all2 (gathered nenv w clock (insert (nr_id r) ?S) P) rows (en_raw (put_raw (nr_id r) (retry_row (clock n) (Suc (nr_attempt_count r))) db))"
      by (rule put) (use error in \<open>auto simp: rebuilt_article_def retry_row_def lease_row_def\<close>)
    then show ?thesis using error d kept by (simp add: gathering_def normalize_one_def sd Let_def)
  next
    case rejected
    have "list_all2 (gathered nenv w clock (insert (nr_id r) ?S) P) rows (en_raw (put_raw (nr_id r) reject_row db))"
      by (rule put) (use rejected in \<open>auto simp: rebuilt_article_def reject_row_def lease_row_def\<close>)
    then show ?thesis using rejected d kept by (simp add: gathering_def normalize_one_def sd Let_def)
  next
    case (kept a)
    have "list_all2 (gathered nenv w clock (insert (nr_id r) ?S) P) rows (en_raw db)"
      using g by (rule list_all2_mono) (rule gathered_normalized)
    moreover obtain x0 where x0: "x0 \<in> set rows" "nr_id r = nr_id x0" "nr_article r = nr_article x0"
      using assms(3) by (auto simp: claimed_from_def)
    then have "normalize_article nenv (clock n) (rebuilt_article x0) = Some (Some a)" using kept by (simp add: rebuilt_article_def)
    then have "normalized_from nenv clock rows (r\<lparr>nr_article := a\<rparr>)"
      using x0 by (auto simp: normalized_from_def)
    ultimately show ?thesis using kept d \<open>list_all (normalized_from nenv clock rows) (ns_normalized st)\<close>
      by (simp add: gathering_def normalize_one_def sd Let_def)
  qed
qed

lemma gathering_normalize_batch:
  "gathering nenv w clock rows (nr_id ` set rs) sd \<Longrightarrow> distinct (map nr_id rs) \<Longrightarrow> list_all (claimed_from clock rows) rs \<Longrightarrow>
     gathering nenv w clock rows {} (normalize_batch nenv clock rs sd)"
proof (induction nenv clock rs sd rule: normalize_batch.induct)
  case (2 nenv clock r rs sd)
  have "gathering nenv w clock rows (nr_id ` set rs) (normalize_one nenv (clock (length (ns_raw (fst sd)))) r sd)"
    by (rule gathering_normalize_one) (use 2(2-4) in \<open>auto simp: image_iff\<close>)
  from 2(1) [OF this] 2(3,4) show ?case by simp
qed simp

lemma gathering_next_batch:
  assumes "gathering nenv w clock rows {} (st, db)"
    and "next_batch (Some w) k (nr_id ` set (ns_raw st)) (clock n) db = (batch, db')"
  shows "gathering nenv w clock rows (nr_id ` set batch) (st, db')" "distinct (map nr_id batch)" "list_all (claimed_from clock rows) batch"
proof -
  let ?S = "nr_id ` set (ns_raw st)" and ?now = "clock n"
  let ?load = "load_enrichment_candidates k ?S ?now db"
  have d: "distinct (map nr_id rows)" and g: "list_all2 (gathered nenv w clock ?S {}) rows (en_raw db)"
    and kept: "list_all (normalized_from nenv clock rows) (ns_normalized st)"
    using assms(1) by (simp_all add: gathering_def)
  have ids: "map nr_id (en_raw db) = map nr_id rows"
    using g by (rule same_keys) (rule gathered_id)
  then have d': "distinct (map nr_id (en_raw db))" using d by simp
  have same: "x \<in> set rows" if "x \<in> set (en_raw db)" "nr_id x \<notin> ?S" for x
  proof -
    obtain i where i: "i < length rows" "en_raw db ! i = x" using \<open>x \<in> set (en_raw db)\<close> g by (metis in_set_conv_nth list_all2_lengthD)
    then have x: "gathered nenv w clock ?S {} (rows ! i) x" using list_all2_nthD [OF g i(1)] by simp
    then have "nr_id (rows ! i) \<notin> ?S" using gathered_id [OF x] that(2) by simp
    then have "x = rows ! i" using x by (simp add: gathered_def)
    then show ?thesis using i(1) by simp
  qed
  have more: "gathered nenv w clock ?S P x0 x" if "gathered nenv w clock ?S {} x0 x" "P \<inter> ?S = {}" for P x0 x
    using that by (auto simp: gathered_def)
  have "gathering nenv w clock rows (nr_id ` set batch) (st, db') \<and> distinct (map nr_id batch) \<and> list_all (claimed_from clock rows) batch"
  proof (cases "w = []")
    case True
    then have b: "batch = ?load" "db' = db" using assms(2) by (auto simp: next_batch_def)
    have fresh: "nr_id ` set batch \<inter> ?S = {}" using candidates_set [of k ?S ?now db] by (auto simp: b)
    have "claimed_from clock rows r" if "r \<in> set batch" for r
      using candidates_set [of k ?S ?now db] that same [of r] by (auto simp: b claimed_from_def)
    moreover have "distinct (map nr_id batch)" unfolding b load_enrichment_candidates_def newest_first_def
      using d' by (simp add: take_map [symmetric] distinct_map distinct_filter inj_on_def)
    moreover have "list_all2 (gathered nenv w clock ?S (nr_id ` set batch)) rows (en_raw db')"
      unfolding b(2) using g by (rule list_all2_mono) (rule more [OF _ fresh])
    ultimately show ?thesis using d kept by (simp add: gathering_def list_all_iff)
  next
    case False
    define taken where "taken = (\<lambda>r. nr_id r \<in> nr_id ` set (load_enrichment_candidates k (?S \<union> {}) ?now db) \<and> claimable ?now r)"
    have "claim_candidates_seen db {} k w ?S ?now db = (batch, db')"
      using assms(2) False by (simp add: next_batch_def claim_candidates_def)
    note exact = claim_candidates_exact [OF this d' taken_def]
    have free: "nr_id x \<notin> ?S" if "taken x" for x
    proof -
      obtain y where y: "y \<in> set ?load" "nr_id x = nr_id y" using \<open>taken x\<close> by (auto simp: taken_def)
      show ?thesis using subsetD [OF candidates_set y(1)] y(2) by simp
    qed
    have ids_b: "nr_id ` set batch = nr_id ` {x \<in> set (en_raw db). taken x}" by (auto simp: exact(2) image_image)
    have fresh: "nr_id ` set batch \<inter> ?S = {}" unfolding ids_b using free by auto
    have "claimed_from clock rows r" if "r \<in> set batch" for r
    proof -
      obtain x where x: "x \<in> set (en_raw db)" "taken x" "r = lease_row w ?now x" using \<open>r \<in> set batch\<close> by (auto simp: exact(2))
      have "x \<in> set rows" using same [OF x(1)] free [OF x(2)] by blast
      moreover have "claimable ?now x" using x(2) by (simp add: taken_def)
      ultimately show ?thesis by (auto simp: claimed_from_def x(3) lease_row_def)
    qed
    moreover have "distinct (map nr_id batch)"
    proof -
      have "distinct (map nr_id (filter taken (en_raw db)))" using d' by (simp add: distinct_map_filter)
      then have "distinct (map nr_id (map (lease_row w ?now) (filter taken (en_raw db))))" by (simp add: comp_def)
      then show ?thesis by (simp only: exact(2) newest_first_def distinct_map set_sort distinct_sort)
    qed
    moreover have moved: "en_raw db' = map (\<lambda>x. if taken x then lease_row w ?now x else x) (en_raw db)"
      by (subst exact(1)) simp
    have "list_all2 (gathered nenv w clock ?S (nr_id ` set batch)) rows (en_raw db')"
      unfolding moved list_all2_map2
    proof (rule list_all2_all_nthI)
      show "length rows = length (en_raw db)" using g by (rule list_all2_lengthD)
      fix i assume i: "i < length rows"
      have x: "gathered nenv w clock ?S {} (rows ! i) (en_raw db ! i)" using g i by (rule list_all2_nthD)
      show "gathered nenv w clock ?S (nr_id ` set batch) (rows ! i) (if taken (en_raw db ! i) then lease_row w ?now (en_raw db ! i) else en_raw db ! i)"
      proof (cases "taken (en_raw db ! i)")
        case True
        then have "en_raw db ! i = rows ! i" using x free [OF True] gathered_id [OF x] by (auto simp: gathered_def)
        moreover have "en_raw db ! i \<in> set (en_raw db)" using i g by (simp add: list_all2_lengthD)
        then have "nr_id (en_raw db ! i) \<in> nr_id ` set batch" using True unfolding ids_b by blast
        ultimately show ?thesis using True by (auto simp: gathered_def taken_def)
      next
        case False
        then show ?thesis using more [OF x fresh] by simp
      qed
    qed
    ultimately show ?thesis using d kept by (simp add: gathering_def list_all_iff)
  qed
  then show "gathering nenv w clock rows (nr_id ` set batch) (st, db')" "distinct (map nr_id batch)" "list_all (claimed_from clock rows) batch"
    by blast+
qed

lemma gathering_gather:
  "gathering nenv w clock rows {} sd \<Longrightarrow> gathering nenv w clock rows {} (gather nenv (Some w) clock limit sd)"
proof (induction nenv "Some w" clock limit sd rule: gather.induct)
  case (1 nenv clock limit sd)
  show ?case
  proof (cases "limit \<le> length (ns_normalized (fst sd))")
    case True
    then show ?thesis using 1(2) by (simp add: gather_enough)
  next
    case False
    obtain batch db where b: "next_batch (Some w) (limit - length (ns_normalized (fst sd))) (nr_id ` set (ns_raw (fst sd)))
        (clock (length (ns_raw (fst sd)))) (snd sd) = (batch, db)" by force
    have "gathering nenv w clock rows {} (fst sd, snd sd)" using 1(2) by simp
    note next_ = gathering_next_batch [OF this b]
    show ?thesis
    proof (cases "batch = []")
      case True
      then show ?thesis using next_(1) by (simp add: gather_more [where clock = clock, OF False b])
    next
      case more: False
      from 1(1) [OF False b [symmetric] refl more gathering_normalize_batch [OF next_]] more show ?thesis
        by (simp add: gather_more [where clock = clock, OF False b])
    qed
  qed
qed

text \<open>What processing an article does to its row.\<close>

definition settled :: "pipeline_env \<Rightarrow> news_raw list \<Rightarrow> processed_article list \<Rightarrow> news_raw \<Rightarrow> news_raw \<Rightarrow> bool" where
  "settled env rs ps x x' \<longleftrightarrow> x' = closed_row ''completed'' x \<and> nr_id x \<in> pa_raw_article_id ` set ps
     \<or> x' = closed_row ''skipped'' x \<and> (\<exists>raw \<in> set rs. nr_id raw = nr_id x \<and> below_relevance env raw)
     \<or> (\<exists>s n. s \<in> {''enrichment_retry'', ''deferred''} \<and> x' = waiting_row s (pe_now env n + hours 2) x)"

lemma store_result_rows:
  assumes "pa_raw_article_id row = i" "en_raw db0 = en_raw db" "en_processed db0 = en_processed db"
  shows "en_raw (pr_db (store_result env n owner i row m (st\<lparr>pr_db := db0\<rparr>))) = en_raw (transition_raw i owner ''completed'' None (pe_now env n) db)
    \<and> (\<exists>new. en_processed (pr_db (store_result env n owner i row m (st\<lparr>pr_db := db0\<rparr>))) = en_processed db @ new)
    \<and> i \<in> pa_raw_article_id ` set (en_processed (pr_db (store_result env n owner i row m (st\<lparr>pr_db := db0\<rparr>))))"
proof -
  obtain b db' where a: "add_processed row db0 = (b, db')" by force
  have "pr_db (store_result env n owner i row m (st\<lparr>pr_db := db0\<rparr>)) = transition_raw i owner ''completed'' None (pe_now env n) db'"
    by (simp add: store_result_def a Let_def)
  then show ?thesis using add_processed_frame [OF a] add_processed_rows [OF a] assms
    by (cases b) (auto simp: transition_raw_def)
qed

lemma article_rows:
  assumes "enrich_article env owner n raw st = Some st'"
  shows "(\<exists>new. en_processed (pr_db st') = en_processed (pr_db st) @ new)
    \<and> (\<exists>s delay. en_raw (pr_db st') = en_raw (transition_raw (nr_id raw) owner s delay (pe_now env n) (pr_db st))
      \<and> (s = ''completed'' \<and> delay = None \<and> nr_id raw \<in> pa_raw_article_id ` set (en_processed (pr_db st'))
        \<or> s = ''skipped'' \<and> delay = None \<and> below_relevance env raw
        \<or> s \<in> {''enrichment_retry'', ''deferred''} \<and> delay = Some (hours 2)))"
  using assms
proof (cases rule: enrich_article_cases)
  case (hit c t)
  have "pa_raw_article_id (processed_row env n (nr_id raw) (rebuilt_article raw) (cx_output c) Cached why f None False) = nr_id raw" for why f
    by (simp add: processed_row_def)
  from store_result_rows [OF this, of "(pr_db st)\<lparr>en_cache := t\<rparr>" "pr_db st"] show ?thesis unfolding hit(2) by auto
next
  case (stored conf st3 res m why used)
  have m: "m \<in> {Deterministic, Llm}" using stored(4) by blast
  from keep_output_cases [OF stored(5) m] obtain t where
    st': "st' = store_result env n owner (nr_id raw) (processed_row env n (nr_id raw) (rebuilt_article raw) res m why
       (fst (cache_key env (rebuilt_article raw))) (Some conf) used) m (st3\<lparr>pr_db := (pr_db st3)\<lparr>en_cache := t\<rparr>\<rparr>)" by blast
  have db: "pr_db st3 = (pr_db st)\<lparr>en_spend := en_spend (pr_db st3)\<rparr>"
    using stored(2) by (simp add: accounted_def after_miss_def)
  have same: "en_raw (pr_db st3) = en_raw (pr_db st)" "en_processed (pr_db st3) = en_processed (pr_db st)"
    by (subst db, simp)+
  have "pa_raw_article_id (processed_row env n (nr_id raw) (rebuilt_article raw) res m why f (Some conf) used) = nr_id raw" for f
    by (simp add: processed_row_def)
  from store_result_rows [OF this, of "(pr_db st3)\<lparr>en_cache := t\<rparr>" "pr_db st"] same show ?thesis unfolding st' by auto
next
  case (left st3 route)
  have db: "pr_db st3 = (pr_db st)\<lparr>en_spend := en_spend (pr_db st3)\<rparr>"
    using left(2) by (simp add: accounted_def after_miss_def)
  have same: "en_raw (pr_db st3) = en_raw (pr_db st)" "en_processed (pr_db st3) = en_processed (pr_db st)"
    by (subst db, simp)+
  have raw: "en_raw (transition_raw i w s d t (pr_db st3)) = en_raw (transition_raw i w s d t (pr_db st))" for i w s d t
    using same(1) by (simp add: transition_raw_def)
  from left(3) consider "route = None" | "route = Some Skipped" | "route = Some Deferred" by blast
  then show ?thesis
  proof cases
    case 1
    then show ?thesis using raw same(2) by (auto simp: left(4) leave_article_def Let_def)
  next
    case 2
    then show ?thesis using raw same(2) left(5) by (auto simp: left(4) leave_article_def Let_def)
  next
    case 3
    then show ?thesis using raw same(2) by (auto simp: left(4) leave_article_def Let_def)
  qed
qed

lemma all_rows:
  "enrich_all env (Some w) n rs st = Some st' \<Longrightarrow>
     set (en_processed (pr_db st)) \<subseteq> set (en_processed (pr_db st'))
     \<and> list_all2 (\<lambda>x x'. x' = x \<or> nr_lease_owner x = Some w \<and> settled env rs (en_processed (pr_db st')) x x')
         (en_raw (pr_db st)) (en_raw (pr_db st'))"
proof (induction rs arbitrary: n st)
  case Nil
  then show ?case by (simp add: list.rel_refl)
next
  case (Cons r rs)
  then obtain s where s: "enrich_article env (Some w) n r st = Some s" "enrich_all env (Some w) (Suc n) rs s = Some st'"
    by (auto split: option.splits)
  let ?ps = "en_processed (pr_db st')"
  note one = article_rows [OF s(1)] and ih = Cons.IH [OF s(2)]
  have grow: "set (en_processed (pr_db st)) \<subseteq> set (en_processed (pr_db s))" "set (en_processed (pr_db s)) \<subseteq> set ?ps"
    using one ih by auto
  from one obtain status delay where raw: "en_raw (pr_db s) = en_raw (transition_raw (nr_id r) (Some w) status delay (pe_now env n) (pr_db st))"
    and why: "status = ''completed'' \<and> delay = None \<and> nr_id r \<in> pa_raw_article_id ` set (en_processed (pr_db s))
        \<or> status = ''skipped'' \<and> delay = None \<and> below_relevance env r
        \<or> status \<in> {''enrichment_retry'', ''deferred''} \<and> delay = Some (hours 2)" by blast
  let ?Q = "\<lambda>x x'. x' = x \<or> nr_lease_owner x = Some w \<and> nr_lease_owner x' = None \<and> settled env (r # rs) ?ps x x'"
  let ?t = "\<lambda>x. x\<lparr>nr_enrichment_status := Some status, nr_next_attempt_at := (case delay of None \<Rightarrow> None | Some d \<Rightarrow> Some (pe_now env n + d)),
             nr_lease_owner := None, nr_lease_expires_at := None,
             nr_attempt_count := (if delay = None then nr_attempt_count x else Suc (nr_attempt_count x))\<rparr>"
  have rows: "en_raw (pr_db s) = map (\<lambda>x. if nr_id x = nr_id r \<and> nr_lease_owner x = Some w then ?t x else x) (en_raw (pr_db st))"
    unfolding raw transition_raw_def sql_update_def by simp
  have first: "list_all2 ?Q (en_raw (pr_db st)) (en_raw (pr_db s))"
    unfolding rows list_all2_map2
  proof (rule list_all2_all_nthI)
    fix i assume "i < length (en_raw (pr_db st))"
    let ?x = "en_raw (pr_db st) ! i"
    let ?m = "?t ?x"
    have "settled env (r # rs) ?ps ?x ?m" if "nr_id ?x = nr_id r"
      using why
    proof (elim disjE conjE)
      assume "status = ''completed''" "delay = None" "nr_id r \<in> pa_raw_article_id ` set (en_processed (pr_db s))"
      then show ?thesis using that grow(2) by (auto simp: settled_def closed_row_def)
    next
      assume "status = ''skipped''" "delay = None" "below_relevance env r"
      then show ?thesis using that by (auto simp: settled_def closed_row_def)
    next
      assume "status \<in> {''enrichment_retry'', ''deferred''}" "delay = Some (hours 2)"
      then have "?m = waiting_row status (pe_now env n + hours 2) ?x" by (simp add: waiting_row_def)
      then show ?thesis using \<open>status \<in> {''enrichment_retry'', ''deferred''}\<close> unfolding settled_def by blast
    qed
    then show "?Q ?x (if nr_id ?x = nr_id r \<and> nr_lease_owner ?x = Some w then ?m else ?x)" by simp
  qed simp
  have second: "list_all2 (\<lambda>x x'. x' = x \<or> nr_lease_owner x = Some w \<and> settled env (r # rs) ?ps x x') (en_raw (pr_db s)) (en_raw (pr_db st'))"
    using ih [THEN conjunct2] by (rule list_all2_mono) (auto simp: settled_def)
  have "list_all2 (\<lambda>x x'. x' = x \<or> nr_lease_owner x = Some w \<and> settled env (r # rs) ?ps x x') (en_raw (pr_db st)) (en_raw (pr_db st'))"
    by (rule list_all2_trans [OF _ first second]) auto
  then show ?case using grow by blast
qed

lemma release_rows:
  "list_all2 (\<lambda>x x'. x' = (if nr_lease_owner x = Some w then waiting_row ''enrichment_retry'' (t + minutes 1) x else x))
     (en_raw db) (en_raw (release_claims w t db))"
  by (simp add: release_claims_def sql_update_def list_all2_map2 waiting_row_def list.rel_refl)

lemma gathered_fate:
  assumes "gathered nenv w clock S {} x0 x" "ok"
  shows "article_fate environ nenv env w clock ok ps x0 x"
proof -
  from assms(1) consider "x = x0" | i where "claimable (clock i) x0" "x = lease_row w (clock i) x0"
    | i j where "claimable (clock i) x0" "normalize_article nenv (clock j) (rebuilt_article x0) = Some None" "x = reject_row x0"
    | i j where "claimable (clock i) x0" "normalize_article nenv (clock j) (rebuilt_article x0) = None"
        "x = retry_row (clock j) (Suc (nr_attempt_count x0)) x0"
    unfolding gathered_def by blast
  then show ?thesis
    by cases (use assms(2) in \<open>auto simp: rows_of_fate intro: article_fate.intros\<close>)
qed

lemma gathered_held:
  assumes "gathered nenv w clock S {} x0 x" "nr_lease_owner x = Some w"
  shows "held w clock x0 \<and> (x = x0 \<or> (\<exists>i. x = lease_row w (clock i) x0))"
  using assms by (auto simp: gathered_def held_def reject_row_def retry_row_def)

lemma gathered_freed:
  assumes "gathered nenv w clock S {} x0 x" "nr_lease_owner x \<noteq> Some w"
  shows "article_fate environ nenv env w clock ok ps x0 x"
proof -
  have "nr_lease_owner (lease_row w t x0) = Some w" for t by (simp add: lease_row_def)
  with assms consider "x = x0"
    | i j where "claimable (clock i) x0" "normalize_article nenv (clock j) (rebuilt_article x0) = Some None" "x = reject_row x0"
    | i j where "claimable (clock i) x0" "normalize_article nenv (clock j) (rebuilt_article x0) = None"
        "x = retry_row (clock j) (Suc (nr_attempt_count x0)) x0"
    unfolding gathered_def by metis
  then show ?thesis by cases (auto simp: rows_of_fate intro: article_fate.intros)
qed

lemma gathered_settled:
  assumes "gathered nenv w clock S {} x0 x" "nr_lease_owner x = Some w" "settled (env\<lparr>pe_policy := p\<rparr>) rs ps x x'" "ok"
    and "policy_from_env environ = Inr p" "distinct (map nr_id rows)" "x0 \<in> set rows" "\<forall>raw \<in> set rs. normalized_from nenv clock rows raw"
  shows "article_fate environ nenv env w clock ok ps x0 x'"
proof -
  note h = gathered_held [OF assms(1,2)]
  have same: "closed_row s x = closed_row s x0" "waiting_row s u x = waiting_row s u x0" for s u
    using h [THEN conjunct2] by (auto simp: rows_of_fate)
  have id: "nr_id x = nr_id x0" using gathered_id [OF assms(1)] .
  from assms(3) [unfolded settled_def same id] show ?thesis
  proof (elim disjE conjE bexE exE)
    assume "x' = closed_row ''completed'' x0" "nr_id x0 \<in> pa_raw_article_id ` set ps"
    then show ?thesis using h assms(4) by (auto intro: stored)
  next
    fix raw assume raw: "raw \<in> set rs" "nr_id raw = nr_id x0" "below_relevance (env\<lparr>pe_policy := p\<rparr>) raw" and x': "x' = closed_row ''skipped'' x0"
    obtain y j where y: "y \<in> set rows" "nr_id raw = nr_id y" "normalize_article nenv (clock j) (rebuilt_article y) = Some (Some (nr_article raw))"
      using assms(8) raw(1) unfolding normalized_from_def by blast
    have "y = x0" using y(1,2) raw(2) assms(6,7) by (auto simp: distinct_map dest: inj_onD)
    moreover have "below_relevance (env\<lparr>pe_policy := p\<rparr>) (x0\<lparr>nr_article := nr_article raw\<rparr>)"
      using raw(3) by (simp add: below_relevance_def rebuilt_article_def)
    ultimately show ?thesis unfolding x' using y(3) h assms(4,5) by (auto intro: irrelevant)
  next
    fix s n assume "s \<in> {''enrichment_retry'', ''deferred''}" "x' = waiting_row s (pe_now (env\<lparr>pe_policy := p\<rparr>) n + hours 2) x0"
    then show ?thesis using put_off [OF assms(4) h [THEN conjunct1]] by simp
  qed
qed

lemma gathered_batch:
  assumes "enrichment_batch nenv (Some w) clock limit db = (st, db1)" "distinct (map nr_id (en_raw db))"
  shows "list_all2 (gathered nenv w clock (nr_id ` set (ns_raw st)) {}) (en_raw db) (en_raw db1)"
    and "\<forall>raw \<in> set (ns_normalized st). normalized_from nenv clock (en_raw db) raw"
proof -
  have "gathering nenv w clock (en_raw db) {} (no_stats, db)"
    using assms(2) by (simp add: gathering_def no_stats_def gathered_def list.rel_refl)
  from gathering_gather [OF this, of limit] have "gathering nenv w clock (en_raw db) {} (st, db1)"
    using assms(1) by (simp add: enrichment_batch_def)
  then show "list_all2 (gathered nenv w clock (nr_id ` set (ns_raw st)) {}) (en_raw db) (en_raw db1)"
    "\<forall>raw \<in> set (ns_normalized st). normalized_from nenv clock (en_raw db) raw"
    by (simp_all add: gathering_def list_all_iff)
qed

lemma task_fates:
  assumes "enrich_articles_task environ nenv env w clock db = (r, db')" "distinct (map nr_id (en_raw db))"
  shows "list_all2 (article_fate environ nenv env w clock (r \<noteq> None) (en_processed db')) (en_raw db) (en_raw db')"
  using assms(1)
proof (cases rule: enrich_task_cases)
  case (empty st)
  show ?thesis using gathered_batch(1) [OF empty(1) assms(2)] by (rule list_all2_mono) (rule gathered_fate, assumption, rule empty(3))
next
  case (failed st db1)
  note g = gathered_batch(1) [OF failed(1) assms(2)]
  show ?thesis unfolding failed(3)
  proof (rule list_all2_trans [OF _ g release_rows])
    fix x0 x x' assume g: "gathered nenv w clock (nr_id ` set (ns_raw st)) {} x0 x"
      and x': "x' = (if nr_lease_owner x = Some w then waiting_row ''enrichment_retry'' (clock (length (ns_raw st)) + minutes 1) x else x)"
    show "article_fate environ nenv env w clock (r \<noteq> None) (en_processed (release_claims w (clock (length (ns_raw st))) db1)) x0 x'"
    proof (cases "nr_lease_owner x = Some w")
      case True
      note h = gathered_held [OF g True]
      have "waiting_row s u x = waiting_row s u x0" for s u using h [THEN conjunct2] by (auto simp: rows_of_fate)
      then show ?thesis using x' True h failed(2) by (simp add: released)
    next
      case False
      then show ?thesis using gathered_freed [OF g False] x' by simp
    qed
  qed
next
  case (finished st db1 p res)
  note g = gathered_batch [OF finished(1) assms(2)]
  let ?rs = "chosen_articles db1 (Some w) (clock (length (ns_raw st))) (ns_normalized st)"
  let ?env = "env\<lparr>pe_policy := p\<rparr>"
  have ok: "r \<noteq> None" using finished(4) by auto
  from finished(3) [unfolded process_raw_articles_def] obtain st1 s where
    run: "enrich_all ?env (Some w) 0 ?rs s = Some st1" and s: "pr_db s = db1" "db' = pr_db st1"
    by (auto elim!: process_cases)
  have from_: "\<forall>raw \<in> set ?rs. normalized_from nenv clock (en_raw db) raw"
    using g(2) to_process_set unfolding chosen_articles_def by blast
  note rows = all_rows [OF run, THEN conjunct2, unfolded s(1) s(2) [symmetric]]
  have len: "length (en_raw db) = length (en_raw db1)" "length (en_raw db1) = length (en_raw db')"
    using g(1) rows by (simp_all add: list_all2_lengthD)
  show ?thesis
  proof (rule list_all2_all_nthI)
    fix i assume i: "i < length (en_raw db)"
    have x: "gathered nenv w clock (nr_id ` set (ns_raw st)) {} (en_raw db ! i) (en_raw db1 ! i)" using g(1) i by (rule list_all2_nthD)
    have "en_raw db' ! i = en_raw db1 ! i \<or> nr_lease_owner (en_raw db1 ! i) = Some w
        \<and> settled ?env ?rs (en_processed db') (en_raw db1 ! i) (en_raw db' ! i)"
      using list_all2_nthD [OF rows, of i] i len by simp
    then show "article_fate environ nenv env w clock (r \<noteq> None) (en_processed db') (en_raw db ! i) (en_raw db' ! i)"
    proof (elim disjE conjE)
      assume "en_raw db' ! i = en_raw db1 ! i"
      then show ?thesis using gathered_fate [OF x ok] by simp
    next
      assume "nr_lease_owner (en_raw db1 ! i) = Some w" "settled ?env ?rs (en_processed db') (en_raw db1 ! i) (en_raw db' ! i)"
      from gathered_settled [OF x this ok finished(2) assms(2) nth_mem [OF i] from_] show ?thesis .
    qed
  qed (simp add: len)
qed

text \<open>C2: No article is lost. Whatever a task of the enrichment worker does, also when it fails, every raw article keeps its
  row and its content, and its row changes only in one of these ways, when it was due or leased to this worker:
  rejected, and then normalization rejects it; put back by a failed normalization, with one attempt more and fifteen minutes
  doubled by every attempt before, at most six hours, to wait; completed, and then there is a processed article of it; skipped,
  and then its normalized form is below the relevance of the policy; put off for two hours with one attempt
  more; or, by a claim, leased. The last four only if the task succeeds: a task that fails puts what
  it held back for a minute, with one attempt more, and completes nothing. So every article it leaves is finished or
  becomes due again: from some time on it may be claimed by anyone. Identifiers are unique and statuses and
  leases are those of the lifecycle before the task.\<close>
theorem no_article_lost:
  assumes "enrich_articles_task environ nenv env w clock db = (r, db')"
    and "distinct (map nr_id (en_raw db))" "list_all lifecycle_ok (en_raw db)"
  shows "list_all2 (article_fate environ nenv env w clock (r \<noteq> None) (en_processed db')) (en_raw db) (en_raw db')
    \<and> list_all (\<lambda>x. article_finished x \<or> (\<exists>t. \<forall>u. t \<le> u \<longrightarrow> claimable u x)) (en_raw db')"
proof
  show "list_all2 (article_fate environ nenv env w clock (r \<noteq> None) (en_processed db')) (en_raw db) (en_raw db')"
    using assms(1,2) by (rule task_fates)
  have "lifecycles db'" using assms(1,3) by (rule task_lifecycles)
  then show "list_all (\<lambda>x. article_finished x \<or> (\<exists>t. \<forall>u. t \<le> u \<longrightarrow> claimable u x)) (en_raw db')"
    unfolding list_all_iff by (meson claimable_later)
qed

section \<open>How much is gathered\<close>

definition scanned_ok :: "normalize_stats \<Rightarrow> bool" where
  "scanned_ok st \<longleftrightarrow> length (ns_raw st) = length (ns_normalized st) + ns_quality_failures st + ns_errors st"

lemma normalize_one_counts:
  "scanned_ok (fst sd) \<Longrightarrow> scanned_ok (fst (normalize_one env now r sd))
     \<and> length (ns_normalized (fst (normalize_one env now r sd))) \<le> Suc (length (ns_normalized (fst sd)))"
  by (simp add: normalize_one_def split_def Let_def scanned_ok_def split: option.split)

lemma normalize_batch_counts:
  "scanned_ok (fst sd) \<Longrightarrow> scanned_ok (fst (normalize_batch env clock rs sd))
     \<and> length (ns_normalized (fst (normalize_batch env clock rs sd))) \<le> length (ns_normalized (fst sd)) + length rs"
proof (induction env clock rs sd rule: normalize_batch.induct)
  case (2 env clock r rs sd)
  let ?one = "normalize_one env (clock (length (ns_raw (fst sd)))) r sd"
  note one = normalize_one_counts [OF 2(2), of env "clock (length (ns_raw (fst sd)))" r]
  from 2(1) [OF one [THEN conjunct1]] one show ?case by simp
qed simp

lemma next_batch_length:
  assumes "next_batch owner k scanned now db = (batch, db')" "distinct (map nr_id (en_raw db))"
  shows "length batch \<le> k"
proof -
  have load: "length (load_enrichment_candidates k scanned now db) \<le> k" by (simp add: load_enrichment_candidates_def)
  consider (leased) w where "claim_candidates k w scanned now db = (batch, db')" | (loaded) "batch = load_enrichment_candidates k scanned now db"
    using assms(1) by (auto simp: next_batch_def split: option.splits if_splits)
  then show ?thesis
  proof cases
    case (leased w)
    let ?ids = "map nr_id (load_enrichment_candidates k scanned now db)"
    obtain c where c: "claim_each now w ?ids db = (c, db')"
      "batch = newest_first (filter (\<lambda>r. nr_id r \<in> set c \<and> nr_lease_owner r = Some w) (en_raw db'))"
      using leased by (auto simp: claim_candidates_def claim_candidates_seen_def split: prod.splits)
    have "map nr_id (en_raw db') = map nr_id (en_raw db)" using claim_each_ids [of now w ?ids db] c(1) by simp
    then have "distinct (map nr_id (filter (\<lambda>r. nr_id r \<in> set c \<and> nr_lease_owner r = Some w) (en_raw db')))"
      using assms(2) by (simp add: distinct_map_filter)
    then have "length batch = card (nr_id ` set batch)"
      using distinct_card [of "map nr_id (filter (\<lambda>r. nr_id r \<in> set c \<and> nr_lease_owner r = Some w) (en_raw db'))"]
      by (simp add: c(2) newest_first_def)
    also have "\<dots> \<le> card (set ?ids)"
      using claim_each_sub [of now w ?ids db] by (intro card_mono) (auto simp: c)
    also have "\<dots> \<le> k" using card_length [of ?ids] load by simp
    finally show ?thesis .
  qed (simp add: load)
qed

lemma gather_counts:
  "scanned_ok (fst sd) \<Longrightarrow> distinct (map nr_id (en_raw (snd sd))) \<Longrightarrow> length (ns_normalized (fst sd)) \<le> limit \<Longrightarrow>
    scanned_ok (fst (gather env owner clock limit sd)) \<and> length (ns_normalized (fst (gather env owner clock limit sd))) \<le> limit
    \<and> map nr_id (en_raw (snd (gather env owner clock limit sd))) = map nr_id (en_raw (snd sd))"
proof (induction env owner clock limit sd rule: gather.induct)
  case (1 env owner clock limit sd)
  show ?case
  proof (cases "limit \<le> length (ns_normalized (fst sd))")
    case True
    then show ?thesis using 1(2,4) by (simp add: gather_enough)
  next
    case False
    obtain batch db where b: "next_batch owner (limit - length (ns_normalized (fst sd))) (nr_id ` set (ns_raw (fst sd)))
        (clock (length (ns_raw (fst sd)))) (snd sd) = (batch, db)" by force
    note ids = next_batch_ids(1) [OF b] and len = next_batch_length [OF b 1(3)]
    show ?thesis
    proof (cases "batch = []")
      case True
      then show ?thesis using 1(2,4) ids by (simp add: gather_more [where clock = clock, OF False b])
    next
      case more: False
      let ?sd = "normalize_batch env clock batch (fst sd, db)"
      have ok: "scanned_ok (fst ?sd)" "length (ns_normalized (fst ?sd)) \<le> limit"
        using normalize_batch_counts [of "(fst sd, db)" env clock batch] 1(2) len False by auto
      have same: "map nr_id (en_raw (snd ?sd)) = map nr_id (en_raw (snd sd))"
        using normalize_batch_ids [of env clock batch "(fst sd, db)"] ids by simp
      from 1(1) [OF False b [symmetric] refl more ok(1) _ ok(2)] 1(3) same more show ?thesis
        by (simp add: gather_more [where clock = clock, OF False b])
    qed
  qed
qed

text \<open>A batch stays within its limit and accounts for every article it scanned: normalized, rejected for its quality, or
  failed and due again later. It neither adds nor drops a raw article.\<close>
theorem enrichment_batch_bounded:
  assumes "enrichment_batch env owner clock limit db = (st, db')" "distinct (map nr_id (en_raw db))"
  shows "length (ns_normalized st) \<le> limit \<and> length (ns_raw st) = length (ns_normalized st) + ns_quality_failures st + ns_errors st
     \<and> map nr_id (en_raw db') = map nr_id (en_raw db)"
  using gather_counts [of "(no_stats, db)" limit env owner clock] assms
  by (simp add: enrichment_batch_def scanned_ok_def no_stats_def)

section \<open>An example\<close>

text \<open>One article that was never looked at, one that another worker leases.\<close>

definition demo_due :: "nat \<Rightarrow> string option \<Rightarrow> news_raw" where
  "demo_due i owner = \<lparr>nr_id = i, nr_article = \<lparr>ra_provider = ''rss'', ra_provider_article_id = None, ra_query_group = [],
     ra_title = ''Gas'', ra_description = None, ra_content_snippet = None, ra_article_url = ''http://a/b'', ra_canonical_url = None,
     ra_source_name = ''s'', ra_source_url = None, ra_published_at = 0, ra_language = ''en'', ra_raw_payload_json = None,
     ra_source_id = None, ra_source_class = None, ra_source_domains = [], ra_source_countries = [], ra_registry_version = None,
     ra_retrieved_at = None, ra_source_published_at_raw = None\<rparr>,
     nr_ingested_at = 0, nr_enrichment_status = (if owner = None then None else Some ''processing''), nr_attempt_count = 0,
     nr_next_attempt_at = None, nr_lease_owner = owner, nr_lease_expires_at = (if owner = None then None else Some 900)\<rparr>"

definition demo_due_db :: enrichment_db where
  "demo_due_db = \<lparr>en_raw = [demo_due 1 None, demo_due 2 (Some ''other'')], en_processed = [], en_cache = [], en_spend = [],
     en_suppliers = empty_suppliers\<rparr>"

definition demo_normalization :: normalization_env where
  "demo_normalization = \<lparr>ne_detect = (\<lambda>_. Some ''en''), ne_unescape = id, ne_sha = id\<rparr>"

definition demo_pipeline :: pipeline_env where
  "demo_pipeline = \<lparr>pe_policy = \<lparr>ep_min_relevance = 0, ep_min_deterministic_confidence = 1, ep_max_llm_calls = 1, ep_max_llm_tokens = 1000,
       ep_summary_max_chars = 60, ep_policy_version = ''p'', ep_taxonomy_version = ''t'', ep_min_fallback_confidence = 1\<rparr>,
     pe_codec = \<lparr>jc_float = id, jc_code = (\<lambda>_. []), jc_repr = (\<lambda>_. []), jc_int = (\<lambda>_. None)\<rparr>,
     pe_sha = id, pe_walk = id, pe_model = ''m'', pe_factory = None, pe_tenant = None, pe_cap = 1000,
     pe_respond = (\<lambda>_ _ _. None), pe_now = (\<lambda>_. 100), pe_day = (\<lambda>_. 7)\<rparr>"

definition demo_task :: "enrichment_report option \<times> enrichment_db" where
  "demo_task = enrich_articles_task (\<lambda>_. None) demo_normalization demo_pipeline ''me'' (\<lambda>_. 100) demo_due_db"

lemma demo_task_run: "enrich_articles_task (\<lambda>_. None) demo_normalization demo_pipeline ''me'' (\<lambda>_. 100) demo_due_db = (fst demo_task, snd demo_task)"
  by (simp add: demo_task_def)

lemma demo_task_rejects: "map nr_enrichment_status (en_raw (snd demo_task)) = [Some ''quality_rejected'', Some ''processing'']"
  by code_simp

lemma demo_due_lifecycles: "list_all lifecycle_ok (en_raw demo_due_db)"
  by (simp add: demo_due_db_def demo_due_def lifecycle_ok_def lifecycle_states_def)

lemma no_article_lost_witness:
  "list_all2 (article_fate (\<lambda>_. None) demo_normalization demo_pipeline ''me'' (\<lambda>_. 100) (fst demo_task \<noteq> None) (en_processed (snd demo_task)))
     (en_raw demo_due_db) (en_raw (snd demo_task))
   \<and> map nr_enrichment_status (en_raw (snd demo_task)) = [Some ''quality_rejected'', Some ''processing'']"
proof -
  have "distinct (map nr_id (en_raw demo_due_db))" by (simp add: demo_due_db_def demo_due_def)
  from no_article_lost [OF demo_task_run this demo_due_lifecycles] demo_task_rejects show ?thesis by blast
qed

lemma worker_releases_leases_witness: "list_all (\<lambda>x. nr_lease_owner x \<noteq> Some ''me'') (en_raw (snd demo_task))"
proof -
  have "mono (\<lambda>_ :: nat. 100 :: int)" "distinct (map nr_id (en_raw demo_due_db))"
    by (simp_all add: mono_def demo_due_db_def demo_due_def)
  moreover have "nr_lease_owner x \<noteq> Some ''me''" if "x \<in> set (en_raw demo_due_db)" for x
    using that by (auto simp: demo_due_db_def demo_due_def)
  ultimately show ?thesis unfolding list_all_iff by (intro worker_releases_leases [OF demo_task_run]) simp_all
qed

lemma claims_are_exclusive_witness:
  "claim_candidates_seen demo_due_db {} 5 ''me'' {} 100 demo_due_db
     = ([lease_row ''me'' 100 (demo_due 1 None)],
        demo_due_db\<lparr>en_raw := [lease_row ''me'' 100 (demo_due 1 None), demo_due 2 (Some ''other'')]\<rparr>)"
proof -
  have ids: "nr_id (demo_due i owner) = i" for i owner by (simp add: demo_due_def)
  have rows: "en_raw demo_due_db = [demo_due 1 None, demo_due 2 (Some ''other'')]" by (simp add: demo_due_db_def)
  have due: "claimable 100 (demo_due 1 None)" "\<not> claimable 100 (demo_due 2 (Some ''other''))"
    by (simp_all add: claimable_def demo_due_def)
  have "en_processed demo_due_db = []" by (simp add: demo_due_db_def)
  then have "load_enrichment_candidates 5 ({} \<union> {}) 100 demo_due_db = [demo_due 1 None]"
    using due by (simp add: load_enrichment_candidates_def rows newest_first_def del: One_nat_def)
  then have cand: "nr_id ` set (load_enrichment_candidates 5 ({} \<union> {}) 100 demo_due_db) = {1}" by (simp add: ids)
  have "distinct (map nr_id (en_raw demo_due_db))" by (simp add: rows ids)
  note exact = claims_are_exclusive [OF prod.collapse [symmetric] this refl, of demo_due_db "{}" 5 "''me''" "{}" 100, unfolded cand]
  have "snd (claim_candidates_seen demo_due_db {} 5 ''me'' {} 100 demo_due_db)
      = demo_due_db\<lparr>en_raw := [lease_row ''me'' 100 (demo_due 1 None), demo_due 2 (Some ''other'')]\<rparr>"
    using exact due by (simp add: rows ids del: One_nat_def)
  moreover have "fst (claim_candidates_seen demo_due_db {} 5 ''me'' {} 100 demo_due_db) = [lease_row ''me'' 100 (demo_due 1 None)]"
    using exact due by (simp add: rows ids newest_first_def del: One_nat_def)
  ultimately show ?thesis by (metis prod.collapse)
qed

lemma enrichment_batch_bounded_witness:
  "length (ns_normalized (fst (enrichment_batch demo_normalization (Some ''me'') (\<lambda>_. 100) 5 demo_due_db))) \<le> 5"
proof -
  have "distinct (map nr_id (en_raw demo_due_db))" by (simp add: demo_due_db_def demo_due_def)
  from enrichment_batch_bounded [OF prod.collapse [symmetric] this] show ?thesis by blast
qed

end
