(* ===== verification/RiskDetector.thy ===== *)
theory RiskDetector
  imports Articles Taxonomy Entities
begin

text \<open>
  \<^verbatim>\<open>risk_events/taxonomy.py\<close> and \<^verbatim>\<open>risk_events/detector.py\<close>: the risks an article reports, by rules. Sets of
  terms are lists of which only the members matter. The confidence is a float; real numbers stand for it.
\<close>

section \<open>The taxonomy\<close>

definition risk_type_order :: "string list" where
  "risk_type_order = [
     ''geopolitical'', ''regional_conflict'', ''supply_disruption'', ''tariff'', ''sanctions'',
     ''regulatory'', ''bankruptcy'', ''strike'', ''quality'', ''m_and_a'', ''currency'',
     ''logistics'', ''cybersecurity'', ''commodity'']"

definition risk_aliases :: "(string \<times> string list) list" where
  "risk_aliases = [
     (''geopolitical'', [''war'', ''attack'', ''conflict'', ''escalation'', ''geopolitical'', ''geopolitical risk'',
        ''hostilities'', ''military action'', ''missile'', ''shipping attack'']),
     (''regional_conflict'', [''middle east'', ''mideast'', ''red sea'', ''gulf'', ''hormuz'', ''strait of hormuz'',
        ''suez'', ''iran'', ''iraq'', ''israel'', ''qatar'', ''saudi arabia'', ''uae'',
        ''united arab emirates'', ''yemen'']),
     (''supply_disruption'', [''supply chain'', ''supply disruption'', ''supply shortage'', ''shortage'',
        ''factory shutdown'', ''facility closure'', ''production halt'', ''component shortage'']),
     (''tariff'', [''tariff'', ''tariffs'', ''customs'', ''duties'', ''import duty'', ''trade duty'']),
     (''sanctions'', [''sanction'', ''sanctions'', ''embargo'', ''export control'', ''blacklist'']),
     (''regulatory'', [''regulation'', ''regulatory'', ''compliance'', ''legislation'', ''mandate'']),
     (''bankruptcy'', [''bankruptcy'', ''chapter 11'', ''insolvency'', ''liquidation'']),
     (''strike'', [''strike'', ''port strike'', ''labor dispute'', ''labour dispute'', ''walkout'']),
     (''quality'', [''quality'', ''quality issue'', ''recall'', ''defect'']),
     (''m_and_a'', [''m&a'', ''m_and_a'', ''merger'', ''acquisition'', ''takeover'', ''deal'']),
     (''currency'', [''currency'', ''foreign exchange'', ''fx'', ''euro'', ''exchange rate'']),
     (''logistics'', [''logistics'', ''port delay'', ''shipping delay'', ''transport disruption'']),
     (''cybersecurity'', [''cyberattack'', ''cyber attack'', ''ransomware'', ''data breach'']),
     (''commodity'', [''commodity'', ''raw material'', ''critical minerals'', ''metals'', ''energy price''])]"

definition severity_by_risk_type :: "(string \<times> string) list" where
  "severity_by_risk_type = [
     (''bankruptcy'', ''critical''),
     (''geopolitical'', ''high''),
     (''regional_conflict'', ''high''),
     (''sanctions'', ''high''),
     (''supply_disruption'', ''high''),
     (''tariff'', ''medium''),
     (''strike'', ''medium''),
     (''quality'', ''medium''),
     (''regulatory'', ''medium''),
     (''m_and_a'', ''medium''),
     (''currency'', ''medium''),
     (''logistics'', ''medium''),
     (''cybersecurity'', ''high''),
     (''commodity'', ''medium'')]"

definition recommendations_by_type :: "(string \<times> string) list" where
  "recommendations_by_type = [
     (''bankruptcy'', ''Review supplier continuity and alternate sourcing options before placing new orders.''),
     (''geopolitical'', ''Review supplier exposure in this region before placing large orders.''),
     (''regional_conflict'', ''Review supplier exposure in this region before placing large orders.''),
     (''sanctions'', ''Review compliance exposure before engaging affected suppliers.''),
     (''supply_disruption'', ''Review alternate suppliers and inventory coverage.''),
     (''tariff'', ''Check landed cost and tariff exposure before confirming new purchase orders.''),
     (''strike'', ''Review logistics buffers and supplier delivery commitments.''),
     (''quality'', ''Review quality exposure before approving new supplier shipments.''),
     (''regulatory'', ''Review compliance requirements before changing supplier commitments.''),
     (''m_and_a'', ''Review ownership changes and possible contract or continuity impact.''),
     (''currency'', ''Compare timing with the EUR monitor before committing spend.''),
     (''logistics'', ''Review transit routes, buffers, and alternate logistics options.''),
     (''cybersecurity'', ''Review supplier operational and data exposure before sharing sensitive information.''),
     (''commodity'', ''Review price exposure and inventory coverage for affected materials.'')]"

text \<open>\<^verbatim>\<open>_ALIAS_TO_TYPE\<close>: of two risk types that share a term the later one is found.\<close>

definition alias_to_type :: "string \<Rightarrow> string option" where
  "alias_to_type term = map_option fst (List.find
     (\<lambda>(t, as). term \<in> normalize_signal_term ` set (t # as)) (rev risk_aliases))"

text \<open>\<open>None\<close> in the list stands for a value that is no text.\<close>

definition risk_terms_of :: "string \<Rightarrow> string list" where
  "risk_terms_of v =
     (let normal = normalize_signal_term v;
          t = (case alias_to_type normal of Some t \<Rightarrow> t | None \<Rightarrow> normal);
          as = (case map_of risk_aliases t of Some as \<Rightarrow> as | None \<Rightarrow> [normal])
      in expand_signal_terms (t # as @ (if t = ''geopolitical''
           then ''regional_conflict'' # the (map_of risk_aliases ''regional_conflict'') else [])))"

definition risk_terms_for :: "string option list \<Rightarrow> string list" where
  "risk_terms_for values = filter (\<lambda>t. t \<noteq> []) (concat (map (\<lambda>v. case v of
     None \<Rightarrow> [] | Some s \<Rightarrow> if strip s = [] then [] else risk_terms_of s) values))"

definition normalize_risk_type :: "string option \<Rightarrow> string option" where
  "normalize_risk_type value = (if \<not> truthy value then None
     else let normal = normalize_signal_term (str_or value []) in
       case alias_to_type normal of
         Some t \<Rightarrow> Some t
       | None \<Rightarrow> List.find (\<lambda>t. set (expand_signal_terms [normal]) \<inter> set (risk_terms_for [Some t]) \<noteq> {}) risk_type_order)"

section \<open>Detection\<close>

definition geopolitical_text_aliases :: "string list" where
  "geopolitical_text_aliases = [
     ''war'', ''armed conflict'', ''regional conflict'', ''geopolitical risk'', ''hostilities'',
     ''military action'', ''missile attack'', ''shipping attack'', ''attack threatens'',
     ''attack disrupts'', ''escalation of hostilities'']"

definition geopolitical_action_terms :: "string list" where
  "geopolitical_action_terms = expand_signal_terms geopolitical_text_aliases"

definition conservative_text_aliases :: "(string \<times> string list) list" where
  "conservative_text_aliases = [
     (''geopolitical'', geopolitical_text_aliases),
     (''regional_conflict'', geopolitical_text_aliases),
     (''tariff'', [''tariff increase'', ''tariff hike'', ''new tariff'', ''customs change'',
        ''customs duty increase'', ''duty increase'', ''import duty'', ''trade duty'']),
     (''regulatory'', [''new regulation'', ''regulatory mandate'', ''compliance requirement'', ''legislation passed'',
        ''legislative requirement'']),
     (''quality'', [''quality issue'', ''recall'', ''defect'']),
     (''m_and_a'', [''m&a'', ''m_and_a'', ''merger'', ''acquisition'', ''takeover'']),
     (''strike'', [''port strike'', ''labor strike'', ''labour strike'', ''union strike'', ''worker strike'',
        ''workers strike'', ''factory strike'', ''strike disruption'', ''labor dispute'',
        ''labour dispute'', ''walkout'']),
     (''currency'', [''foreign exchange'', ''fx'', ''exchange rate'', ''currency risk'']),
     (''logistics'', [''logistics disruption'', ''port delay'', ''shipping delay'', ''transport disruption'',
        ''shipping disruption'']),
     (''commodity'', [''commodity price'', ''raw material shortage'', ''critical minerals'', ''energy price''])]"

record risk_candidate =
  rc_risk_type :: string
  rc_severity :: string
  rc_confidence :: real
  rc_affected_suppliers :: "string list"
  rc_affected_locations :: "string list"
  rc_affected_categories :: "string list"
  rc_evidence_snippet :: string
  rc_recommendation :: string

definition text_terms_for :: "string \<Rightarrow> string list \<Rightarrow> string list" where
  "text_terms_for t terms = (case map_of conservative_text_aliases t of
       None \<Rightarrow> terms
     | Some as \<Rightarrow> concat (map (\<lambda>a. [normalize_signal_term a, replace_char (CHR ''_'') (CHR '' '') (normalize_signal_term a)]) as))"

definition text_matches_exact :: "string \<Rightarrow> string list \<Rightarrow> bool" where
  "text_matches_exact s terms =
     list_ex (\<lambda>t. mentions_whole lower_alnum (normalize_signal_term t) (normalize_signal_term s)) terms"

definition risk_text :: "processed_article \<Rightarrow> news_raw option \<Rightarrow> string" where
  "risk_text p raw = join '' '' (filter (\<lambda>s. s \<noteq> []) (map strip
     ([pa_normalized_title p, pa_summary p] @ (case raw of None \<Rightarrow> []
        | Some r \<Rightarrow> [ra_title (nr_article r), str_or (ra_description (nr_article r)) [],
            str_or (ra_content_snippet (nr_article r)) []]))))"

definition risk_confidence :: "bool \<Rightarrow> bool \<Rightarrow> processed_article \<Rightarrow> real" where
  "risk_confidence metadata txt p = min (95 / 100)
     (1 / 2 + (if metadata then 1 / 4 else 0) + (if txt then 1 / 4 else 0) + (if truthy (pa_priority_signal p) then 5 / 100 else 0)
      + (if truthy (pa_detected_suppliers p) then 3 / 100 else 0) + (if truthy (pa_detected_regions p) then 2 / 100 else 0))"

definition risk_severity :: "string \<Rightarrow> string \<Rightarrow> string" where
  "risk_severity t s = (if list_ex (contains (lower s)) [''bankruptcy'', ''missile'', ''shutdown'', ''embargo'']
     then (if t \<in> {''bankruptcy'', ''geopolitical'', ''sanctions''} then ''critical'' else ''high'')
     else the (map_of severity_by_risk_type t))"

text \<open>\<^verbatim>\<open>_dedupe\<close>: the first spelling of each text, letter case aside.\<close>

definition dedupe_texts :: "string list \<Rightarrow> string list" where
  "dedupe_texts values = foldl (\<lambda>xs v. if strip v \<noteq> [] \<and> lower (strip v) \<notin> lower ` set xs then xs @ [strip v] else xs) [] values"

definition opt_texts :: "string list option \<Rightarrow> string list" where
  "opt_texts v = (case v of None \<Rightarrow> [] | Some xs \<Rightarrow> xs)"

definition risk_locations :: "processed_article \<Rightarrow> string \<Rightarrow> string list" where
  "risk_locations p s = dedupe_texts (map canonical_region_name (opt_texts (pa_detected_regions p) @ extract_regions_from_text s))"

text \<open>\<^verbatim>\<open>s.find(sub)\<close>, \<open>None\<close> for -1.\<close>

fun find_text :: "string \<Rightarrow> string \<Rightarrow> nat option" where
  "find_text [] sub = (if sub = [] then Some 0 else None)"
| "find_text (c # s) sub = (if starts_with (c # s) sub then Some 0 else map_option Suc (find_text s sub))"

definition risk_evidence :: "string \<Rightarrow> string list \<Rightarrow> string" where
  "risk_evidence s terms =
     (let positions = List.map_filter (\<lambda>t. if t = [] then None else find_text (lower s) t) terms in
      if positions = [] then strip (take 260 s)
      else let center = Min (set positions) in strip (take (center + 170 - (center - 90)) (drop (center - 90) s)))"

text \<open>Where an alias alone would say too little, metadata count only together with the text.\<close>

definition risk_matches :: "string \<Rightarrow> string list \<Rightarrow> string \<Rightarrow> bool \<times> bool" where
  "risk_matches s signal_terms t =
     (let terms = risk_terms_for [Some t];
          raw_metadata = list_ex (\<lambda>x. x \<in> set terms) signal_terms
      in if map_of conservative_text_aliases t \<noteq> None
         then let txt = text_matches_exact s (text_terms_for t terms) in (raw_metadata \<and> txt, txt)
         else (raw_metadata, text_matches_signal_terms s (text_terms_for t terms)))"

definition without_conflict :: "string \<Rightarrow> string list \<Rightarrow> string \<Rightarrow> bool" where
  "without_conflict s signal_terms t \<longleftrightarrow> t \<in> {''geopolitical'', ''regional_conflict''}
     \<and> \<not> (list_ex (\<lambda>x. x \<in> set geopolitical_action_terms) signal_terms \<or> text_matches_signal_terms s geopolitical_action_terms)"

definition detect_type :: "processed_article \<Rightarrow> string \<Rightarrow> string list \<Rightarrow> string \<Rightarrow> risk_candidate option" where
  "detect_type p s signal_terms t =
     (let (metadata, txt) = risk_matches s signal_terms t; confidence = risk_confidence metadata txt p in
      if without_conflict s signal_terms t then None
      else if \<not> metadata \<and> \<not> txt then None
      else if confidence < 55 / 100 then None
      else Some \<lparr>rc_risk_type = t, rc_severity = risk_severity t s, rc_confidence = confidence,
           rc_affected_suppliers = dedupe_texts (opt_texts (pa_detected_suppliers p)),
           rc_affected_locations = risk_locations p s,
           rc_affected_categories = dedupe_texts (pa_top_level_category p # opt_texts (pa_detected_categories p)),
           rc_evidence_snippet = risk_evidence s (text_terms_for t (risk_terms_for [Some t])),
           rc_recommendation = the (map_of recommendations_by_type t)\<rparr>)"

section \<open>One event per family\<close>

text \<open>\<^verbatim>\<open>by_type\<close>: the events that are the strongest of their type, the first of several; \<open>i\<close> is a position.\<close>

definition strongest_of_type :: "risk_candidate list \<Rightarrow> nat \<Rightarrow> bool" where
  "strongest_of_type es i \<longleftrightarrow> i < length es \<and> list_all (\<lambda>j. rc_risk_type (es ! j) = rc_risk_type (es ! i) \<longrightarrow>
     (if j < i then rc_confidence (es ! j) < rc_confidence (es ! i) else rc_confidence (es ! j) \<le> rc_confidence (es ! i))) [0..<length es]"

text \<open>Of the two types of conflict only the stronger event stays, the first type when they are equal.\<close>

definition dedupe_events :: "risk_candidate list \<Rightarrow> risk_candidate list" where
  "dedupe_events es =
     (let best = filter (strongest_of_type es) [0..<length es];
          geo = List.find (\<lambda>i. rc_risk_type (es ! i) = ''geopolitical'') best;
          regional = List.find (\<lambda>i. rc_risk_type (es ! i) = ''regional_conflict'') best;
          dropped = (case (geo, regional) of
             (Some g, Some r) \<Rightarrow> [if rc_confidence (es ! r) \<le> rc_confidence (es ! g) then r else g]
           | _ \<Rightarrow> [])
      in map ((!) es) (filter (\<lambda>i. i \<notin> set dropped) best))"

definition detect_risk_events :: "processed_article \<Rightarrow> news_raw option \<Rightarrow> risk_candidate list" where
  "detect_risk_events p raw =
     (let s = risk_text p raw;
          signal_terms = risk_terms_for (pa_priority_signal p # map Some (opt_texts (pa_signal_tags p)))
      in dedupe_events (List.map_filter (detect_type p s signal_terms) risk_type_order))"

end
