(* ===== verification/RiskPersistence.thy ===== *)
theory RiskPersistence
  imports RiskDetector Screening
begin

text \<open>
  \<^verbatim>\<open>risk_events/persistence.py\<close>: the events of recently processed articles, stored under a key of their
  content. Each article has a savepoint of its own; \<open>rejects\<close> says whose the database refuses. SHA-256 is a
  parameter that gives the hexadecimal digest.
\<close>

record risk_db =
  rk_processed :: "processed_article list"
  rk_raw :: "news_raw list"
  rk_events :: "risk_event list"
  rk_suppliers :: supplier_db

record risk_generation =
  rg_created :: nat
  rg_updated :: nat
  rg_scanned :: nat
  rg_errors :: nat

definition key_part :: "string list \<Rightarrow> string" where
  "key_part values = join '','' (sort (remdups (map (\<lambda>v. lower (strip v)) (filter (\<lambda>v. strip v \<noteq> []) values))))"

definition build_event_key :: "(string \<Rightarrow> string) \<Rightarrow> nat \<Rightarrow> string \<Rightarrow> string list \<Rightarrow> string list \<Rightarrow> string" where
  "build_event_key sha i risk_type affected locations =
     take 40 (sha (nat_str i @ '':'' @ risk_type @ '':'' @ key_part affected @ '':'' @ key_part locations))"

definition resolved_supplier_ids :: "supplier_db \<Rightarrow> string list \<Rightarrow> string list" where
  "resolved_supplier_ids sdb names = sort (remdups (List.map_filter
     (\<lambda>r. case rs_public_id r of Some p \<Rightarrow> (if p = [] then None else Some p) | None \<Rightarrow> None) (resolve_many sdb names)))"

text \<open>The columns both branches write; identity, type and status are only given to a new row.\<close>

definition event_columns :: "supplier_db \<Rightarrow> news_raw \<Rightarrow> risk_candidate \<Rightarrow> risk_event \<Rightarrow> risk_event" where
  "event_columns sdb raw c e = e\<lparr>re_severity := rc_severity c, re_confidence := rc_confidence c,
     re_affected_suppliers := rc_affected_suppliers c, re_affected_supplier_ids := resolved_supplier_ids sdb (rc_affected_suppliers c),
     re_affected_locations := rc_affected_locations c, re_affected_categories := rc_affected_categories c,
     re_evidence_snippet := rc_evidence_snippet c, re_recommendation := rc_recommendation c,
     re_source_name := ra_source_name (nr_article raw), re_source_url := Some (ra_article_url (nr_article raw)),
     re_published_at := ra_published_at (nr_article raw)\<rparr>"

definition new_event :: "nat \<Rightarrow> string \<Rightarrow> nat \<Rightarrow> string \<Rightarrow> risk_event" where
  "new_event i key article risk_type = \<lparr>re_id = i, re_event_key = key, re_processed_article_id = article, re_risk_type = risk_type,
     re_severity = [], re_confidence = 0, re_affected_suppliers = [], re_affected_supplier_ids = [], re_affected_locations = [],
     re_affected_categories = [], re_evidence_snippet = [], re_recommendation = [], re_source_name = [], re_source_url = None,
     re_published_at = 0, re_status = ''new''\<rparr>"

definition upsert_event ::
  "(string \<Rightarrow> string) \<Rightarrow> supplier_db \<Rightarrow> processed_article \<Rightarrow> news_raw \<Rightarrow> risk_candidate \<Rightarrow> risk_event list \<Rightarrow> bool \<times> risk_event list" where
  "upsert_event sha sdb p raw c t =
     (let key = build_event_key sha (pa_id p) (rc_risk_type c) (rc_affected_suppliers c) (rc_affected_locations c) in
      if row_of re_event_key t key \<noteq> None
      then (False, sql_update (\<lambda>e. re_event_key e = key) (event_columns sdb raw c) t)
      else (True, t @ [event_columns sdb raw c (new_event (fresh_id re_id t) key (pa_id p) (rc_risk_type c))]))"

fun upsert_all ::
  "(string \<Rightarrow> string) \<Rightarrow> supplier_db \<Rightarrow> processed_article \<Rightarrow> news_raw \<Rightarrow> risk_candidate list \<Rightarrow> risk_event list
     \<Rightarrow> nat \<times> nat \<times> risk_event list" where
  "upsert_all sha sdb p raw [] t = (0, 0, t)"
| "upsert_all sha sdb p raw (c # cs) t =
     (let (made, t') = upsert_event sha sdb p raw c t; (created, updated, t'') = upsert_all sha sdb p raw cs t'
      in (if made then (Suc created, updated, t'') else (created, Suc updated, t'')))"

definition risk_candidates_of :: "timedelta \<Rightarrow> nat \<Rightarrow> datetime \<Rightarrow> risk_db \<Rightarrow> (processed_article \<times> news_raw) list" where
  "risk_candidates_of window limit now db = take limit (sort_key (\<lambda>(p, r). pa_processed_at p) (sort_key (\<lambda>(p, r). pa_id p)
     [(p, r). p \<leftarrow> rk_processed db, r \<leftarrow> rk_raw db,
        pa_raw_article_id p = nr_id r \<and> now - window \<le> pa_processed_at p \<and> pa_risk_event_checked_at p = None]))"

definition scan_article ::
  "(string \<Rightarrow> string) \<Rightarrow> (nat \<Rightarrow> bool) \<Rightarrow> datetime \<Rightarrow> processed_article \<times> news_raw \<Rightarrow> risk_generation \<times> risk_db \<Rightarrow> risk_generation \<times> risk_db" where
  "scan_article sha rejects now pr gd = (let (p, raw) = pr; (g, db) = gd in
     if rejects (pa_id p) then (g\<lparr>rg_errors := Suc (rg_errors g)\<rparr>, db)
     else let (created, updated, t) = upsert_all sha (rk_suppliers db) p raw (detect_risk_events p (Some raw)) (rk_events db)
       in (g\<lparr>rg_created := rg_created g + created, rg_updated := rg_updated g + updated\<rparr>,
           db\<lparr>rk_events := t, rk_processed := sql_update (\<lambda>x. pa_id x = pa_id p) (\<lambda>x. x\<lparr>pa_risk_event_checked_at := Some now\<rparr>) (rk_processed db)\<rparr>))"

definition generate_risk_events ::
  "(string \<Rightarrow> string) \<Rightarrow> (nat \<Rightarrow> bool) \<Rightarrow> timedelta \<Rightarrow> nat \<Rightarrow> datetime \<Rightarrow> risk_db \<Rightarrow> risk_generation \<times> risk_db" where
  "generate_risk_events sha rejects window limit now db =
     (let rows = risk_candidates_of window limit now db in
      foldl (\<lambda>gd pr. scan_article sha rejects now pr gd)
        (\<lparr>rg_created = 0, rg_updated = 0, rg_scanned = length rows, rg_errors = 0\<rparr>, db) rows)"

end
