(* ===== verification/RiskFacts.thy ===== *)
theory RiskFacts
  imports RiskPersistence
begin

text \<open>
  What the detector may report of an article, and what a scan does to the stored events.
\<close>

section \<open>Detected events\<close>

lemma risk_confidence_bounds:
  "m \<or> x \<Longrightarrow> 3 / 4 \<le> risk_confidence m x p \<and> risk_confidence m x p \<le> 95 / 100"
  by (auto simp: risk_confidence_def min_def)

lemma risk_tables: "list_all (\<lambda>t. map_of severity_by_risk_type t \<in> Some ` {''critical'', ''high'', ''medium''}
    \<and> (case map_of recommendations_by_type t of None \<Rightarrow> False | Some r \<Rightarrow> r \<noteq> [])) risk_type_order"
  by code_simp

lemma risk_severity_in: "t \<in> set risk_type_order \<Longrightarrow> risk_severity t s \<in> {''critical'', ''high'', ''medium''}"
  using risk_tables by (auto simp: risk_severity_def list_all_iff)

lemma length_strip_le: "length (strip s) \<le> length s"
proof -
  have "length (rstrip_by p u) \<le> length u" for p u using length_dropWhile_le [of p "rev u"] by (simp add: rstrip_by_def)
  moreover have "length (lstrip_by p u) \<le> length u" for p u by (simp add: lstrip_by_def length_dropWhile_le)
  ultimately show ?thesis by (metis le_trans strip_by_def strip_def)
qed

lemma evidence_length: "length (risk_evidence s terms) \<le> 260"
proof -
  have "length (strip (take (c + 170 - (c - 90)) u)) \<le> 260" for c u
    using length_strip_le [of "take (c + 170 - (c - 90)) u"] by simp arith
  moreover have "length (strip (take 260 u)) \<le> 260" for u using length_strip_le [of "take 260 u"] by simp
  ultimately show ?thesis by (simp add: risk_evidence_def Let_def)
qed

lemma dedupe_texts_clean:
  "distinct (map lower (dedupe_texts vs)) \<and> list_all (\<lambda>x. strip x = x \<and> x \<noteq> []) (dedupe_texts vs)"
proof -
  have "distinct (map lower xs) \<and> list_all (\<lambda>x. strip x = x \<and> x \<noteq> []) xs \<Longrightarrow>
      (let ys = foldl (\<lambda>xs v. if strip v \<noteq> [] \<and> lower (strip v) \<notin> lower ` set xs then xs @ [strip v] else xs) xs vs
       in distinct (map lower ys) \<and> list_all (\<lambda>x. strip x = x \<and> x \<noteq> []) ys)" for xs
    by (induction vs arbitrary: xs) (simp_all add: Let_def)
  from this [of "[]"] show ?thesis by (simp add: dedupe_texts_def Let_def)
qed

definition candidate_ok :: "risk_candidate \<Rightarrow> bool" where
  "candidate_ok c \<longleftrightarrow> rc_risk_type c \<in> set risk_type_order \<and> rc_severity c \<in> {''critical'', ''high'', ''medium''}
     \<and> 3 / 4 \<le> rc_confidence c \<and> rc_confidence c \<le> 95 / 100
     \<and> distinct (map lower (rc_affected_suppliers c)) \<and> distinct (map lower (rc_affected_locations c))
     \<and> distinct (map lower (rc_affected_categories c)) \<and> length (rc_evidence_snippet c) \<le> 260 \<and> rc_recommendation c \<noteq> []"

lemma detect_type_ok:
  assumes "detect_type p s ts t = Some c" "t \<in> set risk_type_order"
  shows "candidate_ok c \<and> rc_risk_type c = t"
proof -
  from assms(1) obtain m x u where
    c: "c = \<lparr>rc_risk_type = t, rc_severity = risk_severity t s, rc_confidence = risk_confidence m x p,
           rc_affected_suppliers = dedupe_texts (opt_texts (pa_detected_suppliers p)),
           rc_affected_locations = risk_locations p s,
           rc_affected_categories = dedupe_texts (pa_top_level_category p # opt_texts (pa_detected_categories p)),
           rc_evidence_snippet = risk_evidence s u, rc_recommendation = the (map_of recommendations_by_type t)\<rparr>" "m \<or> x"
    by (auto simp: detect_type_def Let_def split: if_splits prod.splits)
  have "the (map_of recommendations_by_type t) \<noteq> []"
    using risk_tables assms(2) by (auto simp: list_all_iff split: option.splits)
  then show ?thesis using assms(2) c risk_severity_in risk_confidence_bounds [OF c(2)] dedupe_texts_clean evidence_length
    by (simp add: candidate_ok_def risk_locations_def)
qed

lemma detected_list:
  "set ts' \<subseteq> set risk_type_order \<Longrightarrow> distinct ts' \<Longrightarrow>
    list_all candidate_ok (List.map_filter (detect_type p s ts) ts') \<and> distinct (map rc_risk_type (List.map_filter (detect_type p s ts) ts'))
    \<and> rc_risk_type ` set (List.map_filter (detect_type p s ts) ts') \<subseteq> set ts'"
proof (induction ts')
  case (Cons t ts')
  then show ?case
    using detect_type_ok [of p s ts t] by (cases "detect_type p s ts t") (auto simp: map_filter_simps)
qed (simp add: map_filter_simps)

lemma dedupe_events_sub:
  assumes "distinct (map rc_risk_type es)"
  shows "set (dedupe_events es) \<subseteq> set es" "distinct (map rc_risk_type (dedupe_events es))"
proof -
  obtain q where q: "dedupe_events es = map ((!) es) (filter q (filter (strongest_of_type es) [0..<length es]))"
    by (simp add: dedupe_events_def Let_def)
  show "set (dedupe_events es) \<subseteq> set es" unfolding q by auto
  show "distinct (map rc_risk_type (dedupe_events es))"
  proof -
    have "x = y" if "x < length es" "y < length es" "rc_risk_type (es ! x) = rc_risk_type (es ! y)" for x y
      using that assms nth_eq_iff_index_eq [of "map rc_risk_type es" x y] by simp
    then have "inj_on (\<lambda>i. rc_risk_type (es ! i)) (set (filter q (filter (strongest_of_type es) [0..<length es])))"
      by (intro inj_onI) auto
    then show ?thesis unfolding q by (simp add: distinct_map comp_def)
  qed
qed

lemma one_conflict_event:
  assumes "distinct (map rc_risk_type es)" "a \<in> set (dedupe_events es)" "b \<in> set (dedupe_events es)"
    "rc_risk_type a = ''geopolitical''" "rc_risk_type b = ''regional_conflict''"
  shows False
proof -
  let ?best = "filter (strongest_of_type es) [0..<length es]"
  let ?find = "\<lambda>t. List.find (\<lambda>i. rc_risk_type (es ! i) = t) ?best"
  have same: "x = y" if "x < length es" "y < length es" "rc_risk_type (es ! x) = rc_risk_type (es ! y)" for x y
    using that assms(1) nth_eq_iff_index_eq [of "map rc_risk_type es" x y] by simp
  obtain i j where i: "i \<in> set ?best" "a = es ! i" and j: "j \<in> set ?best" "b = es ! j"
    using assms(2,3) by (auto simp: dedupe_events_def Let_def)
  have "?find t = Some k" if "k \<in> set ?best" "rc_risk_type (es ! k) = t" for k t
  proof -
    have "?find t \<noteq> None" using that unfolding find_None_iff by blast
    then obtain k' where k': "?find t = Some k'" by blast
    then have "k' \<in> set ?best" "rc_risk_type (es ! k') = t" by (auto simp: find_Some_iff nth_mem simp del: set_filter)
    then show ?thesis using same [of k' k] that k' by auto
  qed
  note found = this
  have fi: "?find ''geopolitical'' = Some i" by (rule found [OF i(1)]) (use assms(4) i(2) in simp)
  have fj: "?find ''regional_conflict'' = Some j" by (rule found [OF j(1)]) (use assms(5) j(2) in simp)
  define d where "d = (if rc_confidence (es ! j) \<le> rc_confidence (es ! i) then j else i)"
  have "dedupe_events es = map ((!) es) (filter (\<lambda>k. k \<notin> set [d]) ?best)"
    unfolding dedupe_events_def Let_def fi fj prod.case option.case d_def [symmetric] by (rule refl)
  then have sub: "set (dedupe_events es) \<subseteq> (!) es ` (set ?best - {d})" by auto
  have len: "k < length es" if "k \<in> set ?best" for k using that by simp
  obtain i' where i': "i' \<in> set ?best" "i' \<noteq> d" "es ! i' = a" using sub assms(2) by blast
  have "i' = i" by (rule same [OF len [OF i'(1)] len [OF i(1)]]) (simp add: i'(3) i(2))
  moreover obtain j' where j': "j' \<in> set ?best" "j' \<noteq> d" "es ! j' = b" using sub assms(3) by blast
  have "j' = j" by (rule same [OF len [OF j'(1)] len [OF j(1)]]) (simp add: j'(3) j(2))
  ultimately have "i \<noteq> d" "j \<noteq> d" using i'(2) j'(2) by blast+
  then show False by (simp add: d_def split: if_splits)
qed

text \<open>What the detector reports of an article is well formed: each event has a type of the taxonomy that no other event of the
  article has, a severity, a confidence between 0.75 and 0.95, lists of names in which no spelling repeats, evidence of
  at most 260 characters and a recommendation; and it never reports a geopolitical event beside a regional conflict.\<close>
theorem detected_risks_well_formed:
  "list_all candidate_ok (detect_risk_events p raw) \<and> distinct (map rc_risk_type (detect_risk_events p raw))
   \<and> \<not> {''geopolitical'', ''regional_conflict''} \<subseteq> rc_risk_type ` set (detect_risk_events p raw)"
proof -
  let ?ts = "risk_terms_for (pa_priority_signal p # map Some (opt_texts (pa_signal_tags p)))"
  let ?es = "List.map_filter (detect_type p (risk_text p raw) ?ts) risk_type_order"
  have "distinct risk_type_order" by code_simp
  then have es: "list_all candidate_ok ?es" "distinct (map rc_risk_type ?es)" using detected_list [OF order_refl] by blast+
  have d: "detect_risk_events p raw = dedupe_events ?es" by (simp add: detect_risk_events_def Let_def)
  have "list_all candidate_ok (dedupe_events ?es)" using es(1) dedupe_events_sub(1) [OF es(2)] by (auto simp: list_all_iff)
  moreover have "\<not> {''geopolitical'', ''regional_conflict''} \<subseteq> rc_risk_type ` set (dedupe_events ?es)"
  proof
    assume "{''geopolitical'', ''regional_conflict''} \<subseteq> rc_risk_type ` set (dedupe_events ?es)"
    then obtain a b where "a \<in> set (dedupe_events ?es)" "b \<in> set (dedupe_events ?es)"
      "rc_risk_type a = ''geopolitical''" "rc_risk_type b = ''regional_conflict''" unfolding image_iff subset_eq by force
    from one_conflict_event [OF es(2) this] show False .
  qed
  moreover note dedupe_events_sub(2) [OF es(2)]
  ultimately show ?thesis unfolding d by blast
qed

section \<open>Stored events\<close>

definition risk_events_ok :: "risk_event list \<Rightarrow> bool" where
  "risk_events_ok t \<longleftrightarrow> distinct (map re_event_key t) \<and> distinct (map re_id t)"

text \<open>What a scan never changes of an event: what it is about and what users made of it.\<close>

definition same_event :: "risk_event \<Rightarrow> risk_event \<Rightarrow> bool" where
  "same_event e e' \<longleftrightarrow> re_id e' = re_id e \<and> re_event_key e' = re_event_key e
     \<and> re_processed_article_id e' = re_processed_article_id e \<and> re_risk_type e' = re_risk_type e \<and> re_status e' = re_status e"

lemma same_event_refl [simp]: "same_event e e"
  by (simp add: same_event_def)

lemma same_events_trans: "rows_le same_event t u \<Longrightarrow> rows_le same_event u v \<Longrightarrow> rows_le same_event t v"
  by (rule rows_le_trans [of same_event]) (auto simp: same_event_def)

lemma event_columns_same [simp]: "same_event e (event_columns sdb raw c e)" "re_event_key (event_columns sdb raw c e) = re_event_key e"
  "re_id (event_columns sdb raw c e) = re_id e"
  by (simp_all add: same_event_def event_columns_def)

lemma upsert_event_step:
  assumes "upsert_event sha sdb p raw c t = (made, t')"
  shows "(risk_events_ok t \<longrightarrow> risk_events_ok t') \<and> rows_le same_event t t' \<and> length t' = length t + (if made then 1 else 0)"
proof -
  let ?key = "build_event_key sha (pa_id p) (rc_risk_type c) (rc_affected_suppliers c) (rc_affected_locations c)"
  show ?thesis
  proof (cases "row_of re_event_key t ?key = None")
    case False
    then have "t' = sql_update (\<lambda>e. re_event_key e = ?key) (event_columns sdb raw c) t" "\<not> made"
      using assms by (auto simp: upsert_event_def Let_def)
    then show ?thesis by (simp add: risk_events_ok_def keys_update rows_le_update) (simp add: sql_update_def)
  next
    case True
    let ?e = "event_columns sdb raw c (new_event (fresh_id re_id t) ?key (pa_id p) (rc_risk_type c))"
    have t': "t' = t @ [?e]" "made" using assms True by (auto simp: upsert_event_def Let_def)
    have "?key \<notin> re_event_key ` set t" using True by (simp add: row_of_None_iff)
    moreover have "fresh_id re_id t \<notin> re_id ` set t" using fresh_id_gt [of _ t re_id] by (metis imageE nat_neq_iff)
    moreover have "rows_le same_event t (t @ [?e])"
    proof (rule rows_leI)
      fix r assume "r \<in> set t"
      then have "r \<in> set (t @ [?e])" by simp
      then show "\<exists>r' \<in> set (t @ [?e]). same_event r r'" using same_event_refl by (rule rev_bexI)
    qed
    ultimately show ?thesis by (simp add: t' risk_events_ok_def new_event_def)
  qed
qed

lemma upsert_all_step:
  "upsert_all sha sdb p raw cs t = (created, updated, t') \<Longrightarrow>
    (risk_events_ok t \<longrightarrow> risk_events_ok t') \<and> rows_le same_event t t' \<and> length t' = length t + created \<and> created + updated = length cs"
proof (induction cs arbitrary: t created updated)
  case (Cons c cs)
  obtain made t1 where 1: "upsert_event sha sdb p raw c t = (made, t1)" by force
  obtain cr up where 2: "upsert_all sha sdb p raw cs t1 = (cr, up, t')"
    using Cons.prems by (auto simp: 1 split: prod.splits if_splits)
  have "created = cr + (if made then 1 else 0)" "created + updated = Suc (cr + up)"
    using Cons.prems by (auto simp: 1 2 split: if_splits)
  moreover note upsert_event_step [OF 1] Cons.IH [OF 2]
  moreover have "rows_le same_event t t'"
    using same_events_trans upsert_event_step [OF 1] Cons.IH [OF 2] by blast
  ultimately show ?case by simp
qed (auto intro: rows_le_refl)

definition checked_in :: "nat \<Rightarrow> risk_db \<Rightarrow> bool" where
  "checked_in i db \<longleftrightarrow> (\<forall>q \<in> set (rk_processed db). pa_id q = i \<longrightarrow> pa_risk_event_checked_at q \<noteq> None)"

text \<open>Between a scan and the state it began with; \<open>rows\<close> were visited.\<close>

definition scanned_from ::
  "(nat \<Rightarrow> bool) \<Rightarrow> (processed_article \<times> news_raw) list \<Rightarrow> risk_generation \<times> risk_db \<Rightarrow> risk_generation \<times> risk_db \<Rightarrow> bool" where
  "scanned_from rejects rows gd gd' \<longleftrightarrow>
     (risk_events_ok (rk_events (snd gd)) \<longrightarrow> risk_events_ok (rk_events (snd gd')))
     \<and> rows_le same_event (rk_events (snd gd)) (rk_events (snd gd'))
     \<and> length (rk_events (snd gd')) + rg_created (fst gd) = length (rk_events (snd gd)) + rg_created (fst gd')
     \<and> rg_scanned (fst gd') = rg_scanned (fst gd)
     \<and> rg_errors (fst gd') = rg_errors (fst gd) + length (filter (\<lambda>pr. rejects (pa_id (fst pr))) rows)
     \<and> (\<forall>i. checked_in i (snd gd) \<longrightarrow> checked_in i (snd gd'))
     \<and> (\<forall>pr \<in> set rows. \<not> rejects (pa_id (fst pr)) \<longrightarrow> checked_in (pa_id (fst pr)) (snd gd'))"

lemma scan_article_step: "scanned_from rejects [(p, raw)] gd (scan_article sha rejects now (p, raw) gd)"
proof (cases "rejects (pa_id p)")
  case True
  then show ?thesis by (cases gd) (simp add: scan_article_def scanned_from_def rows_le_refl)
next
  case False
  obtain g db where gd: "gd = (g, db)" by force
  obtain cr up t where u: "upsert_all sha (rk_suppliers db) p raw (detect_risk_events p (Some raw)) (rk_events db) = (cr, up, t)" by (metis prod_cases3)
  let ?db = "db\<lparr>rk_events := t, rk_processed := sql_update (\<lambda>x. pa_id x = pa_id p) (\<lambda>x. x\<lparr>pa_risk_event_checked_at := Some now\<rparr>) (rk_processed db)\<rparr>"
  have "checked_in i db \<Longrightarrow> checked_in i ?db" for i by (auto simp: checked_in_def sql_update_def)
  moreover have "checked_in (pa_id p) ?db" by (auto simp: checked_in_def sql_update_def)
  ultimately show ?thesis using False upsert_all_step [OF u]
    by (simp add: gd scan_article_def scanned_from_def u)
qed

lemma scanned_from_trans:
  assumes "scanned_from rejects xs a b" "scanned_from rejects ys b c"
  shows "scanned_from rejects (xs @ ys) a c"
proof -
  have "rows_le same_event (rk_events (snd a)) (rk_events (snd c))"
    using assms same_events_trans unfolding scanned_from_def by blast
  moreover have "checked_in (pa_id (fst pr)) (snd c)" if "pr \<in> set (xs @ ys)" "\<not> rejects (pa_id (fst pr))" for pr
    using assms that unfolding scanned_from_def by (metis Un_iff set_append)
  moreover have "checked_in i (snd a) \<Longrightarrow> checked_in i (snd c)" for i using assms unfolding scanned_from_def by blast
  ultimately show ?thesis using assms unfolding scanned_from_def by simp
qed

lemma scan_all: "scanned_from rejects rows gd (foldl (\<lambda>gd pr. scan_article sha rejects now pr gd) gd rows)"
proof (induction rows arbitrary: gd)
  case Nil
  show ?case by (simp add: scanned_from_def rows_le_refl)
next
  case (Cons pr rows)
  obtain p raw where pr: "pr = (p, raw)" by force
  from scanned_from_trans [OF scan_article_step Cons.IH] show ?case by (simp add: pr)
qed

text \<open>C6: A scan for risk events keeps the stored events consistent: one event per key, each with an id of its own. It adds exactly the
  events it reports as created, changes of an existing one neither its identity, article and type nor the status
  users gave it, stays within its limit, and marks every article it could scan, so that it is not scanned again.\<close>
theorem risk_scan_consistent:
  assumes "generate_risk_events sha rejects window limit now db = (g, db')" "risk_events_ok (rk_events db)"
    and "(p, r) \<in> set (risk_candidates_of window limit now db)" "\<not> rejects (pa_id p)"
  shows "risk_events_ok (rk_events db') \<and> rows_le same_event (rk_events db) (rk_events db')
    \<and> length (rk_events db') = length (rk_events db) + rg_created g
    \<and> rg_errors g \<le> rg_scanned g \<and> rg_scanned g \<le> limit
    \<and> (\<forall>w l t q s. (q, s) \<in> set (risk_candidates_of w l t db') \<longrightarrow> pa_id q \<noteq> pa_id p)"
proof -
  let ?rows = "risk_candidates_of window limit now db"
  let ?g = "\<lparr>rg_created = 0, rg_updated = 0, rg_scanned = length ?rows, rg_errors = 0\<rparr>"
  have s: "scanned_from rejects ?rows (?g, db) (g, db')"
    using scan_all [of rejects ?rows "(?g, db)" sha now] assms(1) by (simp add: generate_risk_events_def Let_def)
  have "length ?rows \<le> limit" by (simp add: risk_candidates_of_def)
  moreover have "pa_id q \<noteq> pa_id p" if "(q, u) \<in> set (risk_candidates_of w l t db')" for w l t q u
  proof
    assume same: "pa_id q = pa_id p"
    have q: "q \<in> set (rk_processed db')" "pa_risk_event_checked_at q = None"
      using that by (auto simp: risk_candidates_of_def dest!: in_set_takeD)
    have "checked_in (pa_id p) db'" using s assms(3,4) by (force simp: scanned_from_def)
    then show False using q same unfolding checked_in_def by blast
  qed
  moreover have "length (filter (\<lambda>pr. rejects (pa_id (fst pr))) ?rows) \<le> length ?rows" by simp
  ultimately show ?thesis using s assms(2) unfolding scanned_from_def by simp
qed


section \<open>An example\<close>

definition demo_risk_raw :: news_raw where
  "demo_risk_raw = \<lparr>nr_id = 1, nr_article = \<lparr>ra_provider = ''rss'', ra_provider_article_id = None, ra_query_group = [],
     ra_title = ''Recall'', ra_description = None, ra_content_snippet = None, ra_article_url = ''u'', ra_canonical_url = None,
     ra_source_name = ''s'', ra_source_url = None, ra_published_at = 0, ra_language = ''en'', ra_raw_payload_json = None,
     ra_source_id = None, ra_source_class = None, ra_source_domains = [], ra_source_countries = [], ra_registry_version = None,
     ra_retrieved_at = None, ra_source_published_at_raw = None\<rparr>, nr_ingested_at = 0, nr_enrichment_status = Some ''completed'',
     nr_attempt_count = 0, nr_next_attempt_at = None, nr_lease_owner = None, nr_lease_expires_at = None\<rparr>"

definition demo_risk_article :: processed_article where
  "demo_risk_article = \<lparr>pa_id = 5, pa_raw_article_id = 1, pa_normalized_title = ''Recall'', pa_summary = [],
     pa_top_level_category = ''quality'', pa_signal_tags = None, pa_priority_signal = None, pa_detected_regions = None,
     pa_detected_suppliers = Some [''Acme''], pa_detected_categories = None, pa_signal_score = 0, pa_processing_status = ''completed'',
     pa_llm_model = None, pa_language = ''en'', pa_processed_at = 1000, pa_risk_event_checked_at = None,
     pa_enrichment_method = None, pa_enrichment_reason = None, pa_policy_version = None, pa_content_fingerprint = None,
     pa_deterministic_confidence = None, pa_llm_used = False\<rparr>"

definition demo_risk_db :: risk_db where
  "demo_risk_db = \<lparr>rk_processed = [demo_risk_article], rk_raw = [demo_risk_raw], rk_events = [], rk_suppliers = empty_suppliers\<rparr>"

text \<open>A recall is reported by the text alone, and nothing else is.\<close>

lemma demo_recall: "map_option rc_risk_type (detect_type demo_risk_article ''Recall'' [] ''quality'') = Some ''quality''"
  by code_simp

lemma risk_scan_consistent_witness:
  "risk_events_ok (rk_events (snd (generate_risk_events id (\<lambda>_. False) (days 1) 10 2000 demo_risk_db)))
   \<and> length (rk_events (snd (generate_risk_events id (\<lambda>_. False) (days 1) 10 2000 demo_risk_db)))
      = rg_created (fst (generate_risk_events id (\<lambda>_. False) (days 1) 10 2000 demo_risk_db))"
proof -
  have "(demo_risk_article, demo_risk_raw) \<in> set (risk_candidates_of (days 1) 10 2000 demo_risk_db)"
    by (simp add: risk_candidates_of_def demo_risk_db_def demo_risk_article_def demo_risk_raw_def days_def hours_def minutes_def seconds_def)
  note candidate = this
  have ok: "risk_events_ok (rk_events demo_risk_db)" "rk_events demo_risk_db = []" by (simp_all add: risk_events_ok_def demo_risk_db_def)
  show ?thesis
    using risk_scan_consistent [OF prod.collapse [symmetric] ok(1) candidate, of "\<lambda>_. False" id] ok(2) by simp
qed

end
