(* ===== verification/DataMigrations.thy ===== *)
theory DataMigrations
  imports AuthService
begin

text \<open>
  The two migrations that rewrite rows. \<^verbatim>\<open>f6a7b8_enrichment_cache\<close> keeps one processed row
  per raw article, the best, and repoints what referred to the others before it adds the unique
  key. \<^verbatim>\<open>g1h2i3_add_auth_tenancy_audit\<close> gives every identity string of the older tables a
  placeholder account and replaces the string by the account's public id.
\<close>

section \<open>Duplicate processed articles\<close>

record processed_row =
  pd_id :: int
  pd_raw_article_id :: int
  pd_status :: string
  pd_filled :: "string list"  \<comment> \<open>the nullable columns that hold a value\<close>
  pd_processed_at :: int

record dependent_row =
  dp_id :: int
  dp_processed_article_id :: int

definition richness_columns :: "string list" where
  "richness_columns = [''signal_tags'', ''priority_signal'', ''detected_regions'', ''detected_suppliers'',
     ''detected_categories'', ''llm_model'', ''risk_event_checked_at'', ''enrichment_method'', ''enrichment_reason'',
     ''enrichment_policy_version'', ''content_fingerprint'', ''deterministic_confidence'']"

definition richness :: "processed_row \<Rightarrow> int" where
  "richness r = int (length (filter (\<lambda>c. c \<in> set (pd_filled r)) richness_columns))"

text \<open>The window orders by completion, richness, age and id, all descending.\<close>

definition survivor_key :: "processed_row \<Rightarrow> int \<times> int \<times> int \<times> int" where
  "survivor_key r = (- (if pd_status r = ''completed'' then 1 else 0), - richness r, - pd_processed_at r, - pd_id r)"

definition survivor_id :: "processed_row list \<Rightarrow> int \<Rightarrow> int" where
  "survivor_id rows raw = (case filter (\<lambda>r. pd_raw_article_id r = raw) rows of
     [] \<Rightarrow> 0 | r # rs \<Rightarrow> pd_id (min_by survivor_key r rs))"

definition duplicate_map :: "processed_row list \<Rightarrow> (int \<times> int) list" where
  "duplicate_map rows = map (\<lambda>r. (pd_id r, survivor_id rows (pd_raw_article_id r)))
     (filter (\<lambda>r. length (filter (\<lambda>q. pd_raw_article_id q = pd_raw_article_id r) rows) > 1) rows)"

definition repoint :: "(int \<times> int) list \<Rightarrow> dependent_row \<Rightarrow> dependent_row" where
  "repoint m d = (case map_of m (dp_processed_article_id d) of None \<Rightarrow> d
     | Some s \<Rightarrow> if s \<noteq> dp_processed_article_id d then d\<lparr>dp_processed_article_id := s\<rparr> else d)"

text \<open>The dependents are the tables of matches, priority events, feed entries and risk events.\<close>

definition consolidate_duplicates ::
  "processed_row list \<Rightarrow> dependent_row list list \<Rightarrow> processed_row list \<times> dependent_row list list" where
  "consolidate_duplicates rows dependents =
     (let m = duplicate_map rows; gone = map fst (filter (\<lambda>(old, s). old \<noteq> s) m)
      in (filter (\<lambda>r. pd_id r \<notin> set gone) rows, map (map (repoint m)) dependents))"

lemma survivor_key_inj: "survivor_key r = survivor_key q \<Longrightarrow> pd_id r = pd_id q"
  by (simp add: survivor_key_def)

lemma survivor:
  assumes "r \<in> set rows"
  shows "\<exists>b \<in> set rows. pd_id b = survivor_id rows (pd_raw_article_id r) \<and> pd_raw_article_id b = pd_raw_article_id r
    \<and> (\<forall>q \<in> set rows. pd_raw_article_id q = pd_raw_article_id r \<longrightarrow> survivor_key b \<le> survivor_key q)"
proof -
  let ?g = "filter (\<lambda>q. pd_raw_article_id q = pd_raw_article_id r) rows"
  obtain x xs where g: "?g = x # xs" using assms by (cases ?g) (auto simp: filter_empty_conv)
  let ?b = "min_by survivor_key x xs"
  have "?b \<in> set ?g" using min_by_in [of survivor_key x xs] g by simp
  moreover have "survivor_key ?b \<le> survivor_key q" if "q \<in> set rows" "pd_raw_article_id q = pd_raw_article_id r" for q
  proof (rule min_by_le)
    have "q \<in> set ?g" using that by simp
    then show "q \<in> insert x (set xs)" using g by simp
  qed
  moreover have "survivor_id rows (pd_raw_article_id r) = pd_id ?b" by (simp add: survivor_id_def g)
  ultimately show ?thesis by auto
qed

lemma singleton_survives:
  assumes "r \<in> set rows" "\<not> length (filter (\<lambda>q. pd_raw_article_id q = pd_raw_article_id r) rows) > 1"
  shows "survivor_id rows (pd_raw_article_id r) = pd_id r"
proof -
  let ?g = "filter (\<lambda>q. pd_raw_article_id q = pd_raw_article_id r) rows"
  have "r \<in> set ?g" using assms(1) by simp
  then have "?g = [r]" using assms(2) by (cases ?g; cases "tl ?g") auto
  then show ?thesis by (simp add: survivor_id_def)
qed

lemma duplicate_map_fst: "map fst (duplicate_map rows) = map pd_id
    (filter (\<lambda>r. length (filter (\<lambda>q. pd_raw_article_id q = pd_raw_article_id r) rows) > 1) rows)"
  by (simp add: duplicate_map_def)

lemma same_id:
  assumes "distinct (map pd_id rows)" "r \<in> set rows" "q \<in> set rows" "pd_id r = pd_id q"
  shows "r = q"
  using assms by (auto simp: distinct_map inj_on_def)

lemma duplicate_map_of:
  assumes "distinct (map pd_id rows)" "r \<in> set rows"
  shows "map_of (duplicate_map rows) (pd_id r) =
    (if length (filter (\<lambda>q. pd_raw_article_id q = pd_raw_article_id r) rows) > 1
     then Some (survivor_id rows (pd_raw_article_id r)) else None)"
proof (cases "length (filter (\<lambda>q. pd_raw_article_id q = pd_raw_article_id r) rows) > 1")
  case True
  have "distinct (map fst (duplicate_map rows))"
    using assms(1) by (auto simp: duplicate_map_fst distinct_map inj_on_def)
  moreover have "(pd_id r, survivor_id rows (pd_raw_article_id r)) \<in> set (duplicate_map rows)"
    using assms(2) True by (auto simp: duplicate_map_def)
  ultimately show ?thesis using True by simp
next
  case False
  have "pd_id r \<notin> fst ` set (duplicate_map rows)"
  proof
    assume "pd_id r \<in> fst ` set (duplicate_map rows)"
    then obtain q where "q \<in> set rows" "pd_id q = pd_id r"
      "length (filter (\<lambda>p. pd_raw_article_id p = pd_raw_article_id q) rows) > 1"
      by (auto simp: duplicate_map_def)
    with same_id [OF assms(1) this(1) assms(2)] False show False by simp
  qed
  then show ?thesis using False by (simp add: map_of_eq_None_iff)
qed

lemma kept_rows:
  assumes "distinct (map pd_id rows)"
  shows "r \<in> set (fst (consolidate_duplicates rows deps)) \<longleftrightarrow>
    r \<in> set rows \<and> pd_id r = survivor_id rows (pd_raw_article_id r)"
proof -
  have gone: "pd_id r \<in> fst ` {(old, s) \<in> set (duplicate_map rows). old \<noteq> s} \<longleftrightarrow>
      pd_id r \<noteq> survivor_id rows (pd_raw_article_id r)" if r: "r \<in> set rows" for r
  proof
    assume "pd_id r \<in> fst ` {(old, s) \<in> set (duplicate_map rows). old \<noteq> s}"
    then obtain q where q: "q \<in> set rows" "pd_id q = pd_id r" "pd_id q \<noteq> survivor_id rows (pd_raw_article_id q)"
      by (auto simp: duplicate_map_def)
    with same_id [OF assms q(1) r] show "pd_id r \<noteq> survivor_id rows (pd_raw_article_id r)" by simp
  next
    assume *: "pd_id r \<noteq> survivor_id rows (pd_raw_article_id r)"
    then have "length (filter (\<lambda>q. pd_raw_article_id q = pd_raw_article_id r) rows) > 1"
      using singleton_survives [OF r] by fastforce
    then show "pd_id r \<in> fst ` {(old, s) \<in> set (duplicate_map rows). old \<noteq> s}"
      using * r by (force simp: duplicate_map_def)
  qed
  show ?thesis using gone by (auto simp: consolidate_duplicates_def Let_def case_prod_unfold)
qed

lemma repointed:
  assumes "distinct (map pd_id rows)" "r \<in> set rows" "pd_id r = dp_processed_article_id d"
  shows "dp_processed_article_id (repoint (duplicate_map rows) d) = survivor_id rows (pd_raw_article_id r)"
proof -
  have "map_of (duplicate_map rows) (dp_processed_article_id d) =
      (if length (filter (\<lambda>q. pd_raw_article_id q = pd_raw_article_id r) rows) > 1
       then Some (survivor_id rows (pd_raw_article_id r)) else None)"
    using duplicate_map_of [OF assms(1,2)] assms(3) by simp
  then show ?thesis using singleton_survives [OF assms(2)] assms(3) by (auto simp: repoint_def)
qed

lemma repoint_other:
  "dp_processed_article_id d \<notin> pd_id ` set rows \<Longrightarrow> repoint (duplicate_map rows) d = d"
proof -
  assume *: "dp_processed_article_id d \<notin> pd_id ` set rows"
  have "map_of (duplicate_map rows) (dp_processed_article_id d) = None"
    unfolding map_of_eq_None_iff using * by (auto simp: duplicate_map_def)
  then show ?thesis by (simp add: repoint_def)
qed

lemma repoint_id [simp]: "dp_id (repoint m d) = dp_id d"
  by (simp add: repoint_def split: option.split)

text \<open>C35: Consolidating duplicates loses nothing: afterwards each raw article has exactly one processed
  row, the one its window ranks first, so the unique key can be added; every dependent row is still
  there, and one that referred to a processed article refers to the row that is kept for the same
  raw article.\<close>

theorem consolidation_keeps_all:
  assumes "distinct (map pd_id rows)" "consolidate_duplicates rows deps = (rows', deps')"
  shows "distinct (map pd_raw_article_id rows')
    \<and> set (map pd_raw_article_id rows') = set (map pd_raw_article_id rows) \<and> set rows' \<subseteq> set rows
    \<and> (\<forall>r \<in> set rows'. \<forall>q \<in> set rows. pd_raw_article_id q = pd_raw_article_id r \<longrightarrow> survivor_key r \<le> survivor_key q)
    \<and> list_all2 (list_all2 (\<lambda>d d'. dp_id d' = dp_id d
        \<and> (\<forall>r \<in> set rows. pd_id r = dp_processed_article_id d \<longrightarrow>
             (\<exists>r' \<in> set rows'. pd_id r' = dp_processed_article_id d' \<and> pd_raw_article_id r' = pd_raw_article_id r))
        \<and> (dp_processed_article_id d \<notin> pd_id ` set rows \<longrightarrow> d' = d))) deps deps'"
proof (intro conjI)
  have kept: "r \<in> set rows' \<longleftrightarrow> r \<in> set rows \<and> pd_id r = survivor_id rows (pd_raw_article_id r)" for r
    using kept_rows [OF assms(1), of r deps] assms(2) by simp
  have survives: "\<exists>r' \<in> set rows'. pd_id r' = survivor_id rows (pd_raw_article_id r) \<and> pd_raw_article_id r' = pd_raw_article_id r
      \<and> (\<forall>q \<in> set rows. pd_raw_article_id q = pd_raw_article_id r \<longrightarrow> survivor_key r' \<le> survivor_key q)"
    if "r \<in> set rows" for r
    using survivor [OF that] kept by fastforce
  have "distinct (map pd_id rows')"
    using assms by (auto simp: consolidate_duplicates_def Let_def distinct_map inj_on_def)
  then have "distinct rows'" by (simp add: distinct_map)
  moreover have "inj_on pd_raw_article_id (set rows')"
    using kept same_id [OF assms(1)] by (auto simp: inj_on_def)
  ultimately show "distinct (map pd_raw_article_id rows')" by (simp add: distinct_map)
  show "set rows' \<subseteq> set rows" using kept by blast
  then show "set (map pd_raw_article_id rows') = set (map pd_raw_article_id rows)"
    using survives by (auto simp: image_iff) (metis)
  show "\<forall>r \<in> set rows'. \<forall>q \<in> set rows. pd_raw_article_id q = pd_raw_article_id r \<longrightarrow> survivor_key r \<le> survivor_key q"
  proof (intro ballI impI)
    fix r q assume "r \<in> set rows'" "q \<in> set rows" "pd_raw_article_id q = pd_raw_article_id r"
    moreover have r: "r \<in> set rows" "pd_id r = survivor_id rows (pd_raw_article_id r)" using calculation(1) kept by auto
    moreover obtain b where b: "b \<in> set rows" "pd_id b = survivor_id rows (pd_raw_article_id r)"
      "\<forall>q \<in> set rows. pd_raw_article_id q = pd_raw_article_id r \<longrightarrow> survivor_key b \<le> survivor_key q"
      using survivor [OF r(1)] by blast
    ultimately show "survivor_key r \<le> survivor_key q" using same_id [OF assms(1) b(1) r(1)] by auto
  qed
  have deps': "deps' = map (map (repoint (duplicate_map rows))) deps"
    using assms(2) by (simp add: consolidate_duplicates_def Let_def)
  have "\<exists>r' \<in> set rows'. pd_id r' = dp_processed_article_id (repoint (duplicate_map rows) d)
      \<and> pd_raw_article_id r' = pd_raw_article_id r"
    if "r \<in> set rows" "pd_id r = dp_processed_article_id d" for r d
    using survives [OF that(1)] repointed [OF assms(1) that] by auto
  then show "list_all2 (list_all2 (\<lambda>d d'. dp_id d' = dp_id d
        \<and> (\<forall>r \<in> set rows. pd_id r = dp_processed_article_id d \<longrightarrow>
             (\<exists>r' \<in> set rows'. pd_id r' = dp_processed_article_id d' \<and> pd_raw_article_id r' = pd_raw_article_id r))
        \<and> (dp_processed_article_id d \<notin> pd_id ` set rows \<longrightarrow> d' = d))) deps deps'"
    by (simp add: deps' list_all2_conv_all_nth repoint_other)
qed

definition demo_rows :: "processed_row list" where
  "demo_rows =
     [\<lparr>pd_id = 1, pd_raw_article_id = 7, pd_status = ''completed'', pd_filled = [], pd_processed_at = 5\<rparr>,
      \<lparr>pd_id = 2, pd_raw_article_id = 7, pd_status = ''completed'', pd_filled = [''llm_model''], pd_processed_at = 3\<rparr>,
      \<lparr>pd_id = 3, pd_raw_article_id = 8, pd_status = ''failed'', pd_filled = [], pd_processed_at = 4\<rparr>]"

definition demo_dependents :: "dependent_row list list" where
  "demo_dependents = [[\<lparr>dp_id = 10, dp_processed_article_id = 1\<rparr>, \<lparr>dp_id = 11, dp_processed_article_id = 3\<rparr>]]"

lemma demo_consolidation: "consolidate_duplicates demo_rows demo_dependents =
    (drop 1 demo_rows, [[\<lparr>dp_id = 10, dp_processed_article_id = 2\<rparr>, \<lparr>dp_id = 11, dp_processed_article_id = 3\<rparr>]])"
  by code_simp

lemma consolidation_keeps_all_witness: "distinct (map pd_raw_article_id (drop 1 demo_rows))"
  using consolidation_keeps_all [OF _ demo_consolidation] by (simp add: demo_rows_def)

section \<open>Identities\<close>

definition legacy_tables :: "string list" where
  "legacy_tables = [''user_news_preferences'', ''user_news_feed'', ''chat_conversations'', ''chat_messages'',
     ''news_article_matches'']"

text \<open>The \<^verbatim>\<open>user_id\<close> column of each table, row by row.\<close>

type_synonym user_columns = "(string \<times> string list) list"

definition placeholder_slug :: "string \<Rightarrow> string" where
  "placeholder_slug email =
     (let d = snd (snd (partition_at (CHR ''@'') email)); domain = (if d = [] then email else d);
          cleaned = strip_by (\<lambda>c. c = CHR ''-'') (map (\<lambda>c. if is_alnum c then c else CHR ''-'') (lower domain))
      in if cleaned = [] then ''organization'' else cleaned)"

definition legacy_identities :: "user_columns \<Rightarrow> string list" where
  "legacy_identities ts = sort (remdups (filter (\<lambda>v. v \<noteq> [])
     (concat (map snd (filter (\<lambda>t. fst t \<in> set legacy_tables) ts)))))"

definition replace_identity :: "string \<Rightarrow> string \<Rightarrow> user_columns \<Rightarrow> user_columns" where
  "replace_identity old new ts = map (\<lambda>(n, vs).
     (n, if n \<in> set legacy_tables then map (\<lambda>v. if v = old then new else v) vs else vs)) ts"

definition placeholder_organization :: "nat \<Rightarrow> string \<Rightarrow> string \<Rightarrow> organization" where
  "placeholder_organization n pid identity = \<lparr>o_id = n, o_public_id = pid, o_name = identity,
     o_slug = placeholder_slug identity @ ''-'' @ take 8 pid\<rparr>"

definition placeholder_user :: "nat \<Rightarrow> string \<Rightarrow> string \<Rightarrow> user" where
  "placeholder_user n pid identity = \<lparr>u_id = n, u_public_id = pid, u_email = identity, u_password_hash = None,
     u_full_name = None, u_is_active = False, u_token_version = 0, u_last_login_at = None\<rparr>"

text \<open>PostgreSQL enforces the lengths of the columns: a value that does not fit stops the migration.\<close>

definition organization_fits :: "organization \<Rightarrow> bool" where
  "organization_fits org \<longleftrightarrow> length (o_public_id org) \<le> 64 \<and> length (o_name org) \<le> 200 \<and> length (o_slug org) \<le> 100"

definition account_fits :: "user \<Rightarrow> bool" where
  "account_fits u \<longleftrightarrow> length (u_public_id u) \<le> 64 \<and> length (u_email u) \<le> 320"

text \<open>One identity: an organization, an inactive user, an ownership, and the rows repointed. A value a
  unique key holds already stops the migration, too. The \<open>k\<close>th identity draws two public ids.\<close>

definition backfill_identity ::
  "(nat \<Rightarrow> string) \<Rightarrow> nat \<Rightarrow> string \<Rightarrow> auth_db \<times> user_columns \<Rightarrow> (auth_db \<times> user_columns) option" where
  "backfill_identity uuid k identity st =
     (let db = fst st; org = placeholder_organization (fresh_id o_id (organizations db)) (uuid (2 * k)) identity;
          u = placeholder_user (fresh_id u_id (users db)) (uuid (2 * k + 1)) identity
      in if o_public_id org \<in> o_public_id ` set (organizations db) \<or> o_slug org \<in> o_slug ` set (organizations db)
            \<or> u_public_id u \<in> u_public_id ` set (users db) \<or> u_email u \<in> u_email ` set (users db)
            \<or> \<not> organization_fits org \<or> \<not> account_fits u then None
         else Some (db\<lparr>organizations := organizations db @ [org], users := users db @ [u],
                       memberships := memberships db @
                         [\<lparr>m_user_id = u_id u, m_organization_id = o_id org, m_role = OWNER\<rparr>]\<rparr>,
                    replace_identity identity (u_public_id u) (snd st)))"

fun backfill_each ::
  "(nat \<Rightarrow> string) \<Rightarrow> nat \<Rightarrow> string list \<Rightarrow> auth_db \<times> user_columns \<Rightarrow> (auth_db \<times> user_columns) option" where
  "backfill_each uuid k [] st = Some st"
| "backfill_each uuid k (i # is) st = (case backfill_identity uuid k i st of None \<Rightarrow> None
     | Some st' \<Rightarrow> backfill_each uuid (Suc k) is st')"

definition backfill_identities :: "(nat \<Rightarrow> string) \<Rightarrow> user_columns \<Rightarrow> (auth_db \<times> user_columns) option" where
  "backfill_identities uuid ts = backfill_each uuid 0 (legacy_identities ts) (empty_auth, ts)"

subsection \<open>What the loop has done after a prefix\<close>

definition drawn_pids :: "(nat \<Rightarrow> string) \<Rightarrow> nat \<Rightarrow> string list" where
  "drawn_pids uuid n = map (\<lambda>k. uuid (2 * k + 1)) [0..<n]"

lemma drawn_pids_simps [simp]: "length (drawn_pids uuid n) = n"
  "drawn_pids uuid (Suc n) = drawn_pids uuid n @ [uuid (2 * n + 1)]"
  "k < n \<Longrightarrow> drawn_pids uuid n ! k = uuid (2 * k + 1)"
  by (simp_all add: drawn_pids_def)

definition identity_pid :: "(nat \<Rightarrow> string) \<Rightarrow> string list \<Rightarrow> string \<Rightarrow> string" where
  "identity_pid uuid is v = (case map_of (zip is (drawn_pids uuid (length is))) v of
     None \<Rightarrow> v | Some p \<Rightarrow> p)"

definition pointed_at_accounts :: "(nat \<Rightarrow> string) \<Rightarrow> string list \<Rightarrow> user_columns \<Rightarrow> user_columns" where
  "pointed_at_accounts uuid is ts = map (\<lambda>(n, vs).
     (n, if n \<in> set legacy_tables then map (identity_pid uuid is) vs else vs)) ts"

definition placeholders :: "(nat \<Rightarrow> string) \<Rightarrow> string list \<Rightarrow> auth_db" where
  "placeholders uuid is = empty_auth\<lparr>
     organizations := map (\<lambda>(k, i). placeholder_organization (Suc k) (uuid (2 * k)) i) (enumerate 0 is),
     users := map (\<lambda>(k, i). placeholder_user (Suc k) (uuid (2 * k + 1)) i) (enumerate 0 is),
     memberships := map (\<lambda>(k, i). \<lparr>m_user_id = Suc k, m_organization_id = Suc k, m_role = OWNER\<rparr>) (enumerate 0 is)\<rparr>"

lemma users_of_placeholders: "users (placeholders uuid is) =
    map (\<lambda>(k, i). placeholder_user (Suc k) (uuid (2 * k + 1)) i) (enumerate 0 is)"
  by (simp add: placeholders_def)

lemma fresh_id_enumerated:
  assumes "\<And>k i. f (g (k, i)) = Suc k"
  shows "fresh_id f (map g (enumerate 0 is)) = Suc (length is)"
proof -
  have ids: "map f (map g (enumerate 0 is)) = map Suc [0..<length is]"
    by (induction "is" rule: rev_induct) (auto simp: enumerate_append_eq assms)
  have "fold max (map Suc [0..<n]) 0 = n" for n :: nat by (induction n) auto
  then show ?thesis unfolding fresh_id_def ids by simp
qed

lemma identity_pid_snoc:
  assumes "i \<notin> set is" "\<forall>k < 2 * length is. uuid k \<noteq> i"
  shows "(if identity_pid uuid is v = i then uuid (2 * length is + 1) else identity_pid uuid is v)
    = identity_pid uuid (is @ [i]) v"
proof -
  let ?m = "map_of (zip is (drawn_pids uuid (length is)))"
  have snoc: "map_of (zip (is @ [i]) (drawn_pids uuid (length (is @ [i])))) v =
      (case ?m v of None \<Rightarrow> if v = i then Some (uuid (2 * length is + 1)) else None | Some p \<Rightarrow> Some p)"
  proof -
    have "zip (is @ [i]) (drawn_pids uuid (length (is @ [i]))) =
        zip is (drawn_pids uuid (length is)) @ [(i, uuid (2 * length is + 1))]"
      by simp
    then have eq: "map_of (zip (is @ [i]) (drawn_pids uuid (length (is @ [i])))) = [i \<mapsto> uuid (2 * length is + 1)] ++ ?m"
      by (simp only: map_of_append map_of.simps fst_conv snd_conv)
    show ?thesis unfolding eq map_add_def fun_upd_apply ..
  qed
  show ?thesis
  proof (cases "?m v")
    case none: None
    show ?thesis unfolding identity_pid_def snoc none by simp
  next
    case (Some p)
    then have "p \<in> set (drawn_pids uuid (length is))" by (metis map_of_SomeD set_zip_rightD)
    then obtain k where k: "k < length is" "p = uuid (2 * k + 1)" by (auto simp: drawn_pids_def)
    then have "2 * k + 1 < 2 * length is" by linarith
    then have "p \<noteq> i" using assms(2) k(2) by blast
    then show ?thesis unfolding identity_pid_def snoc Some by simp
  qed
qed

lemma replace_identity_snoc:
  assumes "i \<notin> set is" "\<forall>k < 2 * length is. uuid k \<noteq> i"
  shows "replace_identity i (uuid (2 * length is + 1)) (pointed_at_accounts uuid is ts) = pointed_at_accounts uuid (is @ [i]) ts"
  unfolding replace_identity_def pointed_at_accounts_def
  by (auto simp: identity_pid_snoc [OF assms, symmetric])

text \<open>The drawn ids: thirty-two characters each, and they collide with nothing.\<close>

definition no_collisions :: "(nat \<Rightarrow> string) \<Rightarrow> string list \<Rightarrow> bool" where
  "no_collisions uuid is = (inj_on uuid {..<2 * length is}
     \<and> distinct (map (\<lambda>(k, i). placeholder_slug i @ ''-'' @ take 8 (uuid (2 * k))) (enumerate 0 is))
     \<and> (\<forall>k < 2 * length is. length (uuid k) = 32 \<and> uuid k \<notin> set is))"

text \<open>The slug takes nine characters more than the domain it is made of.\<close>

definition identity_fits :: "string \<Rightarrow> bool" where
  "identity_fits i \<longleftrightarrow> length (placeholder_slug i) \<le> 91 \<and> length i \<le> 200"

lemma no_collisions_draws:
  assumes "no_collisions uuid (pre @ i # is)"
  shows "k < 2 * length pre + 2 \<Longrightarrow> length (uuid k) = 32" "k < 2 * length pre + 2 \<Longrightarrow> uuid k \<noteq> i"
    and "k < 2 * length pre + 2 \<Longrightarrow> l < 2 * length pre + 2 \<Longrightarrow> uuid k = uuid l \<Longrightarrow> k = l"
  using assms by (auto simp: no_collisions_def dest!: inj_onD)

lemma identity_fits_columns:
  assumes "no_collisions uuid (pre @ i # is)"
  shows "organization_fits (placeholder_organization n (uuid (2 * length pre)) i) \<and> account_fits (placeholder_user n (uuid (2 * length pre + 1)) i)
    \<longleftrightarrow> identity_fits i"
  using no_collisions_draws(1) [OF assms, of "2 * length pre"] no_collisions_draws(1) [OF assms, of "2 * length pre + 1"]
  by (auto simp: organization_fits_def account_fits_def placeholder_organization_def placeholder_user_def identity_fits_def)

lemma backfill_step:
  assumes "no_collisions uuid (pre @ i # is)" "distinct (pre @ i # is)"
  shows "backfill_identity uuid (length pre) i (placeholders uuid pre, pointed_at_accounts uuid pre ts) =
    (if identity_fits i then Some (placeholders uuid (pre @ [i]), pointed_at_accounts uuid (pre @ [i]) ts) else None)"
proof -
  let ?k = "length pre"
  note draws = no_collisions_draws [OF assms(1)]
  have fresh: "i \<notin> set pre" "\<forall>k < 2 * length pre. uuid k \<noteq> i"
    using assms(2) draws(2) by auto
  have slugs: "placeholder_slug i @ ''-'' @ take 8 (uuid (2 * ?k))
      \<notin> (\<lambda>(k, i). placeholder_slug i @ ''-'' @ take 8 (uuid (2 * k))) ` set (enumerate 0 pre)"
    using assms(1) by (auto simp: no_collisions_def enumerate_append_eq)
  have before: "k < ?k" "j \<in> set pre" if "(k, j) \<in> set (enumerate 0 pre)" for k j
    using that by (auto simp: in_set_enumerate_eq)
  have other: "uuid (2 * ?k) \<noteq> uuid (2 * k)" "uuid (2 * ?k + 1) \<noteq> uuid (2 * k + 1)" if "k < ?k" for k
    using draws(3) [of "2 * ?k" "2 * k"] draws(3) [of "2 * ?k + 1" "2 * k + 1"] that by auto
  have org: "uuid (2 * ?k) \<notin> o_public_id ` set (organizations (placeholders uuid pre))"
    using before(1) other(1) by (fastforce simp: placeholders_def placeholder_organization_def)
  have slug: "placeholder_slug i @ ''-'' @ take 8 (uuid (2 * ?k)) \<notin> o_slug ` set (organizations (placeholders uuid pre))"
    using slugs by (force simp: placeholders_def placeholder_organization_def)
  have user: "uuid (2 * ?k + 1) \<notin> u_public_id ` set (users (placeholders uuid pre))"
    using before(1) other(2) by (fastforce simp: placeholders_def placeholder_user_def)
  have email: "i \<notin> u_email ` set (users (placeholders uuid pre))"
    using before(2) fresh(1) by (fastforce simp: placeholders_def placeholder_user_def)
  have ids: "fresh_id o_id (organizations (placeholders uuid pre)) = Suc ?k"
    "fresh_id u_id (users (placeholders uuid pre)) = Suc ?k"
    by (simp_all add: placeholders_def fresh_id_enumerated placeholder_organization_def placeholder_user_def)
  let ?org = "placeholder_organization (Suc ?k) (uuid (2 * ?k)) i" and ?u = "placeholder_user (Suc ?k) (uuid (2 * ?k + 1)) i"
  have keys: "o_public_id ?org = uuid (2 * ?k)" "o_slug ?org = placeholder_slug i @ ''-'' @ take 8 (uuid (2 * ?k))"
    "u_public_id ?u = uuid (2 * ?k + 1)" "u_email ?u = i" "o_id ?org = Suc ?k" "u_id ?u = Suc ?k"
    by (simp_all add: placeholder_organization_def placeholder_user_def)
  have taken: "\<not> (o_public_id ?org \<in> o_public_id ` set (organizations (placeholders uuid pre))
      \<or> o_slug ?org \<in> o_slug ` set (organizations (placeholders uuid pre))
      \<or> u_public_id ?u \<in> u_public_id ` set (users (placeholders uuid pre)) \<or> u_email ?u \<in> u_email ` set (users (placeholders uuid pre)))"
    unfolding keys using org slug user email by blast
  have "backfill_identity uuid ?k i (placeholders uuid pre, pointed_at_accounts uuid pre ts) =
      (if \<not> organization_fits ?org \<or> \<not> account_fits ?u then None
       else Some ((placeholders uuid pre)\<lparr>organizations := organizations (placeholders uuid pre) @ [?org],
           users := users (placeholders uuid pre) @ [?u], memberships := memberships (placeholders uuid pre) @
             [\<lparr>m_user_id = Suc ?k, m_organization_id = Suc ?k, m_role = OWNER\<rparr>]\<rparr>,
           replace_identity i (uuid (2 * ?k + 1)) (pointed_at_accounts uuid pre ts)))"
    using taken [unfolded keys] unfolding backfill_identity_def Let_def fst_conv snd_conv ids keys by simp
  moreover have "(placeholders uuid pre)\<lparr>organizations := organizations (placeholders uuid pre) @ [?org],
      users := users (placeholders uuid pre) @ [?u], memberships := memberships (placeholders uuid pre) @
        [\<lparr>m_user_id = Suc ?k, m_organization_id = Suc ?k, m_role = OWNER\<rparr>]\<rparr> = placeholders uuid (pre @ [i])"
    by (simp add: placeholders_def enumerate_append_eq)
  moreover have "(\<not> organization_fits ?org \<or> \<not> account_fits ?u) = (\<not> identity_fits i)"
    using identity_fits_columns [OF assms(1)] by blast
  ultimately show ?thesis using replace_identity_snoc [OF fresh, of ts] by simp
qed

lemma backfill_loop:
  assumes "no_collisions uuid (pre @ is)" "distinct (pre @ is)"
  shows "backfill_each uuid (length pre) is (placeholders uuid pre, pointed_at_accounts uuid pre ts) =
    (if list_all identity_fits is then Some (placeholders uuid (pre @ is), pointed_at_accounts uuid (pre @ is) ts) else None)"
  using assms
proof (induction "is" arbitrary: pre)
  case (Cons i "is")
  have "backfill_each uuid (length (pre @ [i])) is (placeholders uuid (pre @ [i]), pointed_at_accounts uuid (pre @ [i]) ts) =
      (if list_all identity_fits is then Some (placeholders uuid ((pre @ [i]) @ is), pointed_at_accounts uuid ((pre @ [i]) @ is) ts) else None)"
    by (rule Cons.IH) (use Cons.prems in simp_all)
  then show ?case using backfill_step [OF Cons.prems] by simp
qed simp

lemma identity_pid_nth:
  "distinct is \<Longrightarrow> k < length is \<Longrightarrow> identity_pid uuid is (is ! k) = uuid (2 * k + 1)"
  by (simp add: identity_pid_def map_of_zip_nth)

lemma identity_pid_other:
  assumes "v \<notin> set is"
  shows "identity_pid uuid is v = v"
proof -
  have none: "map_of (zip is (drawn_pids uuid (length is))) v = None" using assms by (simp add: map_of_zip_is_None)
  show ?thesis unfolding identity_pid_def none by simp
qed

lemma placeholder_pids:
  assumes "no_collisions uuid is"
  shows "distinct (map u_public_id (users (placeholders uuid is)))"
proof -
  have "map u_public_id (users (placeholders uuid is)) = drawn_pids uuid (length is)"
    by (rule nth_equalityI) (simp_all add: placeholders_def placeholder_user_def nth_enumerate_eq)
  moreover have "inj_on (\<lambda>k. uuid (2 * k + 1)) (set [0..<length is])"
  proof (rule inj_onI)
    fix x y assume xy: "x \<in> set [0..<length is]" "y \<in> set [0..<length is]" "uuid (2 * x + 1) = uuid (2 * y + 1)"
    have "inj_on uuid {..<2 * length is}" using assms by (simp add: no_collisions_def)
    from inj_onD [OF this xy(3)] xy(1,2) show "x = y" by simp
  qed
  then have "distinct (drawn_pids uuid (length is))" unfolding drawn_pids_def distinct_map by simp
  ultimately show ?thesis by simp
qed

lemma placeholder_account:
  assumes "distinct is" "v \<in> set is"
  shows "\<exists>u \<in> set (users (placeholders uuid is)). u_email u = v \<and> u_public_id u = identity_pid uuid is v"
proof -
  obtain k where k: "k < length is" "is ! k = v" using assms(2) unfolding in_set_conv_nth by blast
  have "(k, v) \<in> set (enumerate 0 is)" using k by (simp add: in_set_enumerate_eq)
  then have "(\<lambda>(k, i). placeholder_user (Suc k) (uuid (2 * k + 1)) i) (k, v) \<in> set (users (placeholders uuid is))"
    unfolding users_of_placeholders set_map by (rule imageI)
  then have "placeholder_user (Suc k) (uuid (2 * k + 1)) v \<in> set (users (placeholders uuid is))" by simp
  moreover have "identity_pid uuid is v = uuid (2 * k + 1)" using identity_pid_nth [OF assms(1) k(1), of uuid] k(2) by simp
  ultimately show ?thesis by (intro bexI) (simp_all add: placeholder_user_def)
qed

text \<open>C36: The identity backfill repoints every row and claims nobody. When the drawn ids have thirty-two characters and
  collide with nothing, it succeeds exactly when every identity fits the columns, that is, when the slug of its domain
  has at most 91 characters and the identity at most 200; one that does not fit aborts the migration. On success
  each identity string of the legacy tables gets exactly one account, inactive
  and without a password, the owner of one new organization; every legacy row that named an identity
  holds that account's public id afterwards, two rows share an account exactly when they shared the
  string, and empty values and other tables are untouched.\<close>

theorem backfill_repoints_all:
  assumes "no_collisions uuid (legacy_identities ts)"
  shows "if list_all identity_fits (legacy_identities ts)
    then \<exists>db ts'. backfill_identities uuid ts = Some (db, ts')
    \<and> map u_email (users db) = legacy_identities ts
    \<and> list_all (\<lambda>u. \<not> u_is_active u \<and> u_password_hash u = None
         \<and> \<lparr>m_user_id = u_id u, m_organization_id = u_id u, m_role = OWNER\<rparr> \<in> set (memberships db)
         \<and> u_id u \<in> o_id ` set (organizations db)) (users db)
    \<and> list_all2 (\<lambda>(n, vs) (n', vs'). n' = n \<and> (if n \<in> set legacy_tables
         then list_all2 (\<lambda>v v'. if v = [] then v' = []
                else \<exists>u \<in> set (users db). u_email u = v \<and> u_public_id u = v') vs vs'
         else vs' = vs)) ts ts'
    \<and> distinct (map u_public_id (users db))
    else backfill_identities uuid ts = None"
proof -
  let ?is = "legacy_identities ts"
  have d: "distinct ?is" by (simp add: legacy_identities_def)
  have start: "placeholders uuid [] = empty_auth" "pointed_at_accounts uuid [] ts = ts"
    by (simp_all add: placeholders_def pointed_at_accounts_def identity_pid_def empty_auth_def map_idI case_prod_unfold)
  have run: "backfill_identities uuid ts =
      (if list_all identity_fits ?is then Some (placeholders uuid ?is, pointed_at_accounts uuid ?is ts) else None)"
    using backfill_loop [of uuid "[]" ?is ts] assms d start by (simp add: backfill_identities_def)
  let ?db = "placeholders uuid ?is"
  have emails: "map u_email (users ?db) = ?is"
    by (simp add: placeholders_def placeholder_user_def comp_def case_prod_unfold)
  have accounts: "list_all (\<lambda>u. \<not> u_is_active u \<and> u_password_hash u = None
         \<and> \<lparr>m_user_id = u_id u, m_organization_id = u_id u, m_role = OWNER\<rparr> \<in> set (memberships ?db)
         \<and> u_id u \<in> o_id ` set (organizations ?db)) (users ?db)"
    by (force simp: placeholders_def placeholder_user_def placeholder_organization_def list_all_iff)
  have pids: "distinct (map u_public_id (users ?db))" using assms by (rule placeholder_pids)
  note account = placeholder_account [OF d, of _ uuid]
  have empty: "[] \<notin> set ?is" by (simp add: legacy_identities_def)
  have rows: "list_all2 (\<lambda>(n, vs) (n', vs'). n' = n \<and> (if n \<in> set legacy_tables
         then list_all2 (\<lambda>v v'. if v = [] then v' = []
                else \<exists>u \<in> set (users ?db). u_email u = v \<and> u_public_id u = v') vs vs'
         else vs' = vs)) ts (pointed_at_accounts uuid ?is ts)"
  proof -
    have "v \<in> set ?is" if "(n, vs) \<in> set ts" "n \<in> set legacy_tables" "v \<in> set vs" "v \<noteq> []" for n vs v
      using that by (force simp: legacy_identities_def)
    moreover have "identity_pid uuid ?is [] = []" by (rule identity_pid_other [OF empty])
    ultimately have "if v = [] then identity_pid uuid ?is v = []
        else \<exists>u \<in> set (users ?db). u_email u = v \<and> u_public_id u = identity_pid uuid ?is v"
      if "(n, vs) \<in> set ts" "n \<in> set legacy_tables" "v \<in> set vs" for n vs v
      using that account by simp
    then show ?thesis unfolding pointed_at_accounts_def list_all2_map2 list_all2_same case_prod_unfold
      by (auto simp: list_all2_map2 list_all2_same)
  qed
  show ?thesis
  proof (cases "list_all identity_fits ?is")
    case True
    then have "backfill_identities uuid ts = Some (?db, pointed_at_accounts uuid ?is ts)" using run by simp
    with emails accounts rows pids show ?thesis unfolding if_P [OF True] by blast
  next
    case False
    then show ?thesis using run by simp
  qed
qed

definition demo_user_columns :: user_columns where
  "demo_user_columns = [(''chat_messages'', [''b@x.io'', [], ''a@x.io'']), (''user_news_feed'', [''b@x.io''])]"

definition demo_uuid :: "nat \<Rightarrow> string" where
  "demo_uuid k = char_of (48 + k) # replicate 31 (CHR ''0'')"

lemma demo_no_collisions: "no_collisions demo_uuid (legacy_identities demo_user_columns)"
proof -
  have ids: "legacy_identities demo_user_columns = [''a@x.io'', ''b@x.io'']" by code_simp
  have four: "{..<4} = {0, 1, 2, 3 :: nat}" by auto
  have "inj_on demo_uuid {..<4}" unfolding four by (simp add: demo_uuid_def char_of_eq_iff take_bit_eq_mod)
  moreover have "demo_uuid k \<notin> {''a@x.io'', ''b@x.io''}" for k by (simp add: demo_uuid_def numeral_eq_Suc)
  moreover have "placeholder_slug ''a@x.io'' @ ''-'' @ take 8 (demo_uuid 0) \<noteq> placeholder_slug ''b@x.io'' @ ''-'' @ take 8 (demo_uuid 2)"
    by code_simp
  ultimately show ?thesis unfolding no_collisions_def ids by (simp add: demo_uuid_def)
qed

text \<open>Identities of which one is too long: the migration aborts.\<close>

definition demo_long_columns :: user_columns where
  "demo_long_columns = [(''chat_messages'', [replicate 92 (CHR ''d'')])]"

lemma demo_long_collides: "no_collisions demo_uuid (legacy_identities demo_long_columns)"
proof -
  have ids: "legacy_identities demo_long_columns = [replicate 92 (CHR ''d'')]" by code_simp
  have two: "{..<2} = {0, 1 :: nat}" by auto
  have "inj_on demo_uuid {..<2}" unfolding two by (simp add: demo_uuid_def char_of_eq_iff take_bit_eq_mod)
  moreover have "demo_uuid k \<notin> {replicate 92 (CHR ''d'')}" for k
    by (auto simp: demo_uuid_def dest: arg_cong [of _ _ length])
  ultimately show ?thesis unfolding no_collisions_def ids by (simp add: demo_uuid_def)
qed

lemma backfill_repoints_all_witness:
  "(\<exists>db ts'. backfill_identities demo_uuid demo_user_columns = Some (db, ts')
    \<and> map u_email (users db) = [''a@x.io'', ''b@x.io''] \<and> distinct (map u_public_id (users db)))
   \<and> backfill_identities demo_uuid demo_long_columns = None"
proof -
  have ids: "legacy_identities demo_user_columns = [''a@x.io'', ''b@x.io'']" by code_simp
  have fits: "list_all identity_fits [''a@x.io'', ''b@x.io'']" "\<not> list_all identity_fits (legacy_identities demo_long_columns)" by code_simp+
  show ?thesis using backfill_repoints_all [OF demo_no_collisions] backfill_repoints_all [OF demo_long_collides] fits
    by (auto simp: ids)
qed

end
