(* ===== verification/Schema.thy ===== *)
theory Schema
  imports Prelude
begin

text \<open>
  The tables of \<^verbatim>\<open>shared/procuresignal/models\<close> as data: every column with its type,
  nullability, keys, foreign key and server default, and every constraint and index of
  \<^verbatim>\<open>__table_args__\<close>. \<open>Migrations\<close> compares them with what the migration chain builds, and
  \<open>Privacy\<close> takes the foreign keys that deletion follows from there. Client-side defaults and
  relationships are left out: they never reach the database.
\<close>

section \<open>Columns\<close>

datatype dialect = Postgresql | Sqlite

datatype sqltype =
    IntegerT | FloatT | BooleanT | StringT nat | TextT | DateTimeT | TimestampT | DateT
  | JsonT | JsonbT | UuidT | TextArrayT | VectorT
  | TsvectorT string  \<comment> \<open>a generated column, with its expression\<close>
  | VariantT sqltype sqltype  \<comment> \<open>\<^verbatim>\<open>with_variant\<close>: the second on SQLite\<close>

datatype on_delete = Cascade | SetNull

record fkey =
  fk_table :: string
  fk_on_delete :: on_delete

datatype column = Column
  (col_name: string) (col_type: sqltype) (col_nullable: bool) (col_unique: bool) (col_primary: bool)
  (col_fk: "fkey option") (col_default: "string option")

datatype table = Table
  (t_columns: "column list") (t_uniques: "(string \<times> string list) list")
  (t_checks: "(string \<times> string) list") (t_indexes: "(string \<times> string list) list")

text \<open>Every foreign key of the schema references an \<^verbatim>\<open>id\<close>.\<close>

definition column_of :: "string \<Rightarrow> sqltype \<Rightarrow> bool \<Rightarrow> column" where
  "column_of n ty nullable = Column n ty nullable False False None None"

fun unique_col :: "column \<Rightarrow> column" where
  "unique_col (Column n ty nu u p f v) = Column n ty nu True p f v"

fun primary_col :: "column \<Rightarrow> column" where
  "primary_col (Column n ty nu u p f v) = Column n ty False u True f v"

fun references :: "string \<Rightarrow> on_delete \<Rightarrow> column \<Rightarrow> column" where
  "references t od (Column n ty nu u p f v) =
     Column n ty nu u p (Some \<lparr>fk_table = t, fk_on_delete = od\<rparr>) v"

fun server_default :: "string \<Rightarrow> column \<Rightarrow> column" where
  "server_default w (Column n ty nu u p f v) = Column n ty nu u p f (Some w)"

fun resolve_type :: "dialect \<Rightarrow> sqltype \<Rightarrow> sqltype" where
  "resolve_type Postgresql (VariantT a b) = resolve_type Postgresql a"
| "resolve_type Sqlite (VariantT a b) = resolve_type Sqlite b"
| "resolve_type Postgresql TimestampT = DateTimeT"
| "resolve_type d ty = ty"

fun resolve_column :: "dialect \<Rightarrow> column \<Rightarrow> column" where
  "resolve_column d (Column n ty nu u p f v) = Column n (resolve_type d ty) nu u p f v"

lemma col_name_simps [simp]:
  "col_name (column_of n ty nu) = n" "col_name (unique_col c) = col_name c"
  "col_name (primary_col c) = col_name c" "col_name (references t od c) = col_name c"
  "col_name (server_default v c) = col_name c" "col_name (resolve_column d c) = col_name c"
  by (cases c; simp add: column_of_def)+

section \<open>Models\<close>

definition model_table :: "string \<Rightarrow> column list \<Rightarrow> (string \<times> string list) list \<Rightarrow>
    (string \<times> string) list \<Rightarrow> (string \<times> string list) list \<Rightarrow> string \<times> table" where
  "model_table n cols uniques checks indexes =
     (n, Table cols uniques checks indexes)"

definition base_columns :: "column list" where
  "base_columns =
    [ primary_col (column_of ''id'' IntegerT False),
      server_default ''now()'' (column_of ''created_at'' DateTimeT False),
      server_default ''now()'' (column_of ''updated_at'' DateTimeT False) ]"

definition base_model_table :: "string \<Rightarrow> column list \<Rightarrow> (string \<times> string list) list \<Rightarrow>
    (string \<times> string) list \<Rightarrow> (string \<times> string list) list \<Rightarrow> string \<times> table" where
  "base_model_table n cols = model_table n (base_columns @ cols)"

definition organization_table :: "string \<times> table" where
  "organization_table = base_model_table ''organizations''
    [ unique_col (column_of ''public_id'' (StringT 64) False),
      column_of ''name'' (StringT 200) False,
      unique_col (column_of ''slug'' (StringT 100) False) ]
    []
    []
    []"

definition user_table :: "string \<times> table" where
  "user_table = base_model_table ''users''
    [ unique_col (column_of ''public_id'' (StringT 64) False),
      unique_col (column_of ''email'' (StringT 320) False),
      column_of ''password_hash'' (StringT 255) True,
      column_of ''full_name'' (StringT 200) True,
      column_of ''is_active'' BooleanT False,
      column_of ''token_version'' IntegerT False,
      column_of ''last_login_at'' DateTimeT True ]
    []
    []
    [ (''idx_users_email'', [''email'']) ]"

definition membership_table :: "string \<times> table" where
  "membership_table = base_model_table ''memberships''
    [ references ''users'' Cascade (column_of ''user_id'' IntegerT False),
      references ''organizations'' Cascade (column_of ''organization_id'' IntegerT False),
      column_of ''role'' (StringT 20) False ]
    [(''uq_membership_user_org'', [''user_id'', ''organization_id''])]
    []
    [ (''idx_membership_user'', [''user_id'']) ]"

definition refresh_token_table :: "string \<times> table" where
  "refresh_token_table = base_model_table ''refresh_tokens''
    [ references ''users'' Cascade (column_of ''user_id'' IntegerT False),
      unique_col (column_of ''token_hash'' (StringT 64) False),
      column_of ''family_id'' (StringT 64) False,
      column_of ''expires_at'' DateTimeT False,
      column_of ''revoked_at'' DateTimeT True,
      column_of ''user_agent'' (StringT 300) True,
      column_of ''client_ip'' (StringT 45) True ]
    []
    []
    [ (''idx_refresh_user'', [''user_id'']),
      (''idx_refresh_family'', [''family_id'']) ]"

definition organization_invitation_table :: "string \<times> table" where
  "organization_invitation_table = base_model_table ''organization_invitations''
    [ references ''organizations'' Cascade (column_of ''organization_id'' IntegerT False),
      references ''users'' SetNull (column_of ''invited_by_user_id'' IntegerT True),
      column_of ''email'' (StringT 320) False,
      column_of ''role'' (StringT 20) False,
      unique_col (column_of ''token_hash'' (StringT 64) False),
      column_of ''expires_at'' DateTimeT False,
      column_of ''accepted_at'' DateTimeT True ]
    []
    []
    [ (''idx_invitation_email'', [''email'']),
      (''idx_invitation_organization'', [''organization_id'']) ]"

definition audit_log_table :: "string \<times> table" where
  "audit_log_table = base_model_table ''audit_log''
    [ references ''organizations'' SetNull (column_of ''organization_id'' IntegerT True),
      column_of ''actor_user_id'' IntegerT True,
      column_of ''actor_email'' (StringT 320) True,
      column_of ''action'' (StringT 80) False,
      column_of ''resource_type'' (StringT 80) True,
      column_of ''resource_id'' (StringT 200) True,
      column_of ''outcome'' (StringT 20) False,
      column_of ''detail'' JsonT False,
      column_of ''client_ip'' (StringT 45) True,
      column_of ''user_agent'' (StringT 300) True ]
    []
    []
    [ (''idx_audit_org_created'', [''organization_id'', ''created_at'']),
      (''idx_audit_actor'', [''actor_user_id'']),
      (''idx_audit_action'', [''action'']) ]"

definition supplier_table :: "string \<times> table" where
  "supplier_table = base_model_table ''suppliers''
    [ unique_col (column_of ''public_id'' (StringT 64) False),
      column_of ''canonical_name'' (StringT 300) False,
      unique_col (column_of ''normalized_name'' (StringT 300) False),
      column_of ''country'' (StringT 2) True,
      unique_col (column_of ''lei'' (StringT 20) True),
      column_of ''is_active'' BooleanT False ]
    []
    []
    [ (''idx_suppliers_normalized'', [''normalized_name'']) ]"

definition supplier_alias_table :: "string \<times> table" where
  "supplier_alias_table = base_model_table ''supplier_aliases''
    [ references ''suppliers'' Cascade (column_of ''supplier_id'' IntegerT False),
      column_of ''alias'' (StringT 300) False,
      unique_col (column_of ''normalized_alias'' (StringT 300) False),
      column_of ''source'' (StringT 20) False ]
    []
    []
    [ (''idx_alias_normalized'', [''normalized_alias'']),
      (''idx_alias_supplier'', [''supplier_id'']) ]"

definition article_supplier_mention_table :: "string \<times> table" where
  "article_supplier_mention_table = base_model_table ''article_supplier_mentions''
    [ column_of ''processed_article_id'' IntegerT False,
      references ''suppliers'' SetNull (column_of ''supplier_id'' IntegerT True),
      column_of ''surface_form'' (StringT 300) False,
      column_of ''confidence'' FloatT False ]
    [(''uq_mention_article_surface'', [''processed_article_id'', ''surface_form''])]
    []
    [ (''idx_mention_supplier'', [''supplier_id'']),
      (''idx_mention_article'', [''processed_article_id'']) ]"

definition watchlist_table :: "string \<times> table" where
  "watchlist_table = base_model_table ''watchlists''
    [ unique_col (column_of ''public_id'' (StringT 64) False),
      references ''organizations'' Cascade (column_of ''organization_id'' IntegerT False),
      column_of ''name'' (StringT 200) False,
      references ''users'' SetNull (column_of ''created_by_user_id'' IntegerT True),
      column_of ''normalized_name'' (StringT 200) False ]
    [(''uq_watchlist_org_name'', [''organization_id'', ''normalized_name''])]
    []
    [ (''idx_watchlist_organization'', [''organization_id'']) ]"

definition watchlist_entry_table :: "string \<times> table" where
  "watchlist_entry_table = base_model_table ''watchlist_entries''
    [ references ''watchlists'' Cascade (column_of ''watchlist_id'' IntegerT False),
      references ''suppliers'' Cascade (column_of ''supplier_id'' IntegerT False),
      references ''users'' SetNull (column_of ''added_by_user_id'' IntegerT True) ]
    [(''uq_watchlist_entry'', [''watchlist_id'', ''supplier_id''])]
    []
    [ (''idx_watchlist_entry_supplier'', [''supplier_id'']) ]"

definition alert_rule_table :: "string \<times> table" where
  "alert_rule_table = base_model_table ''alert_rules''
    [ unique_col (column_of ''public_id'' (StringT 64) False),
      references ''organizations'' Cascade (column_of ''organization_id'' IntegerT False),
      column_of ''name'' (StringT 200) False,
      column_of ''normalized_name'' (StringT 200) False,
      column_of ''min_severity'' (StringT 20) False,
      column_of ''risk_types'' JsonT False,
      column_of ''is_enabled'' BooleanT False,
      references ''users'' SetNull (column_of ''created_by_user_id'' IntegerT True) ]
    [(''uq_alert_rule_org_name'', [''organization_id'', ''normalized_name''])]
    []
    [ (''idx_alert_rule_organization'', [''organization_id'']) ]"

definition notification_table :: "string \<times> table" where
  "notification_table = base_model_table ''notifications''
    [ unique_col (column_of ''public_id'' (StringT 64) False),
      references ''organizations'' Cascade (column_of ''organization_id'' IntegerT False),
      references ''alert_rules'' Cascade (column_of ''alert_rule_id'' IntegerT False),
      references ''risk_events'' Cascade (column_of ''risk_event_id'' IntegerT False),
      references ''users'' Cascade (column_of ''recipient_user_id'' IntegerT False),
      column_of ''channel'' (StringT 20) False,
      column_of ''subject'' (StringT 300) False,
      column_of ''body'' TextT False,
      column_of ''supplier_public_ids'' JsonT False,
      column_of ''status'' (StringT 20) False,
      column_of ''attempts'' IntegerT False,
      column_of ''last_error'' TextT True,
      column_of ''delivered_at'' DateTimeT True,
      column_of ''read_at'' DateTimeT True ]
    [(''uq_notification_idempotency'', [''alert_rule_id'', ''risk_event_id'', ''recipient_user_id'', ''channel''])]
    []
    [ (''idx_notification_recipient'', [''recipient_user_id'', ''read_at'']),
      (''idx_notification_status'', [''status'']) ]"

definition news_article_raw_table :: "string \<times> table" where
  "news_article_raw_table = base_model_table ''news_articles_raw''
    [ column_of ''provider'' (StringT 50) False,
      column_of ''provider_article_id'' (StringT 255) True,
      column_of ''query_group'' (StringT 100) False,
      unique_col (column_of ''ingest_hash'' (StringT 255) False),
      column_of ''title'' (StringT 500) False,
      column_of ''description'' TextT True,
      column_of ''content_snippet'' TextT True,
      column_of ''article_url'' (StringT 2000) False,
      column_of ''canonical_url'' (StringT 2000) True,
      column_of ''source_name'' (StringT 255) False,
      column_of ''source_url'' (StringT 2000) True,
      column_of ''source_id'' (StringT 255) True,
      column_of ''source_class'' (StringT 50) True,
      column_of ''source_domains'' JsonT True,
      column_of ''source_countries'' JsonT True,
      column_of ''registry_version'' (StringT 255) True,
      column_of ''retrieved_at'' DateTimeT True,
      column_of ''source_published_at_raw'' (StringT 255) True,
      column_of ''published_at'' DateTimeT False,
      column_of ''language'' (StringT 10) False,
      column_of ''raw_payload_json'' JsonT True,
      column_of ''ingested_at'' DateTimeT False,
      column_of ''enrichment_status'' (StringT 30) True,
      server_default ''0'' (column_of ''enrichment_attempt_count'' IntegerT False),
      column_of ''enrichment_next_attempt_at'' DateTimeT True,
      column_of ''enrichment_lease_owner'' (StringT 100) True,
      column_of ''enrichment_lease_expires_at'' DateTimeT True ]
    []
    []
    [ (''idx_provider_article_id'', [''provider'', ''provider_article_id'']),
      (''idx_ingest_hash'', [''ingest_hash'']),
      (''idx_published_at'', [''published_at'']),
      (''idx_source_name'', [''source_name'']),
      (''idx_raw_source_id'', [''source_id'']),
      (''idx_raw_enrichment_lifecycle'', [''enrichment_status'', ''enrichment_next_attempt_at'']),
      (''idx_raw_enrichment_lease'', [''enrichment_lease_expires_at'', ''enrichment_lease_owner'']) ]"

definition news_article_processed_table :: "string \<times> table" where
  "news_article_processed_table = base_model_table ''news_articles_processed''
    [ column_of ''raw_article_id'' IntegerT False,
      column_of ''normalized_title'' (StringT 500) False,
      column_of ''summary'' TextT False,
      column_of ''top_level_category'' (StringT 50) False,
      column_of ''signal_tags'' JsonT True,
      column_of ''priority_signal'' (StringT 100) True,
      column_of ''detected_regions'' JsonT True,
      column_of ''detected_suppliers'' JsonT True,
      column_of ''detected_categories'' JsonT True,
      column_of ''signal_score'' FloatT False,
      column_of ''processing_status'' (StringT 20) False,
      column_of ''llm_model'' (StringT 100) True,
      column_of ''language'' (StringT 10) False,
      column_of ''processed_at'' DateTimeT False,
      column_of ''risk_event_checked_at'' DateTimeT True,
      column_of ''enrichment_method'' (StringT 20) True,
      column_of ''enrichment_reason'' (StringT 100) True,
      column_of ''enrichment_policy_version'' (StringT 100) True,
      column_of ''content_fingerprint'' (StringT 255) True,
      column_of ''deterministic_confidence'' FloatT True,
      server_default ''false'' (column_of ''llm_used'' BooleanT False) ]
    [(''uq_news_articles_processed_raw_article_id'', [''raw_article_id''])]
    []
    [ (''idx_raw_article_id'', [''raw_article_id'']),
      (''idx_top_level_category'', [''top_level_category'']),
      (''idx_signal_score'', [''signal_score'']),
      (''idx_processed_at'', [''processed_at'']),
      (''idx_risk_event_scan_pending'', [''risk_event_checked_at'', ''processed_at'']) ]"

definition user_news_preference_table :: "string \<times> table" where
  "user_news_preference_table = base_model_table ''user_news_preferences''
    [ unique_col (column_of ''user_id'' (StringT 100) False),
      column_of ''preferred_categories'' JsonT False,
      column_of ''preferred_suppliers'' JsonT False,
      column_of ''preferred_regions'' JsonT False,
      column_of ''preferred_signals'' JsonT False,
      column_of ''excluded_categories'' JsonT False,
      column_of ''excluded_suppliers'' JsonT False,
      column_of ''excluded_regions'' JsonT False,
      column_of ''excluded_signals'' JsonT False,
      column_of ''excluded_topics'' JsonT False,
      column_of ''preferred_supplier_ids'' JsonT False,
      column_of ''excluded_supplier_ids'' JsonT False,
      column_of ''onboarding_completed'' BooleanT False,
      column_of ''platform_language'' (StringT 10) False ]
    []
    []
    [ (''idx_user_preferences_user_id'', [''user_id'']) ]"

definition user_news_feed_table :: "string \<times> table" where
  "user_news_feed_table = base_model_table ''user_news_feed''
    [ column_of ''user_id'' (StringT 100) False,
      column_of ''processed_article_id'' IntegerT False,
      column_of ''top_level_category'' (StringT 50) False,
      column_of ''rank_score'' FloatT False,
      column_of ''match_reasons'' JsonT False,
      column_of ''related_sourcing_event_ids'' JsonT True,
      column_of ''surfaced_at'' DateTimeT False,
      column_of ''is_read'' BooleanT False,
      column_of ''is_hidden'' BooleanT False ]
    []
    []
    [ (''idx_user_feed_user_id'', [''user_id'']),
      (''idx_user_surfaced'', [''user_id'', ''surfaced_at'']),
      (''idx_rank_score'', [''rank_score'']) ]"

definition chat_conversation_table :: "string \<times> table" where
  "chat_conversation_table = base_model_table ''chat_conversations''
    [ column_of ''user_id'' (StringT 100) False,
      unique_col (column_of ''conversation_id'' (StringT 100) False),
      column_of ''title'' (StringT 200) True,
      column_of ''message_count'' IntegerT False,
      column_of ''last_message_at'' DateTimeT True ]
    []
    []
    [ (''idx_chat_conversations_user_last'', [''user_id'', ''last_message_at'']) ]"

definition chat_message_table :: "string \<times> table" where
  "chat_message_table = base_model_table ''chat_messages''
    [ column_of ''user_id'' (StringT 100) False,
      column_of ''conversation_id'' (StringT 100) False,
      column_of ''role'' (StringT 20) False,
      column_of ''content'' TextT False,
      column_of ''tokens_used'' IntegerT True ]
    []
    []
    [ (''idx_chat_messages_conv_created'', [''conversation_id'', ''created_at'']) ]"

definition news_pipeline_run_table :: "string \<times> table" where
  "news_pipeline_run_table = base_model_table ''news_pipeline_runs''
    [ column_of ''started_at'' DateTimeT False,
      column_of ''finished_at'' DateTimeT True,
      column_of ''status'' (StringT 20) False,
      column_of ''articles_fetched'' IntegerT False,
      column_of ''articles_kept'' IntegerT False,
      column_of ''articles_rejected'' IntegerT False,
      column_of ''duplicates_removed'' IntegerT False,
      column_of ''articles_sent_to_llm'' IntegerT False,
      column_of ''feeds_materialized'' IntegerT False,
      column_of ''error_summary'' TextT True ]
    []
    []
    [ (''idx_pipeline_runs_status'', [''status'']),
      (''idx_pipeline_runs_started_at'', [''started_at'']) ]"

definition news_article_match_table :: "string \<times> table" where
  "news_article_match_table = base_model_table ''news_article_matches''
    [ column_of ''user_id'' (StringT 100) False,
      column_of ''processed_article_id'' IntegerT False,
      column_of ''matched_supplier'' (StringT 255) True,
      column_of ''matched_region'' (StringT 255) True,
      column_of ''matched_category'' (StringT 255) True,
      column_of ''matched_event_id'' (StringT 100) True,
      column_of ''match_score'' FloatT False,
      column_of ''reason_json'' JsonT False ]
    []
    []
    [ (''idx_user_article'', [''user_id'', ''processed_article_id'']),
      (''idx_matched_supplier'', [''matched_supplier'']) ]"

definition news_priority_event_table :: "string \<times> table" where
  "news_priority_event_table = base_model_table ''news_priority_events''
    [ column_of ''processed_article_id'' IntegerT False,
      column_of ''priority_type'' (StringT 50) False,
      column_of ''detected_at'' DateTimeT False,
      column_of ''status'' (StringT 20) False,
      column_of ''dispatch_window'' DateTimeT True ]
    []
    []
    [ (''idx_priority_type'', [''priority_type'']),
      (''idx_priority_events_status'', [''status'']) ]"

definition risk_event_table :: "string \<times> table" where
  "risk_event_table = base_model_table ''risk_events''
    [ column_of ''event_key'' (StringT 500) False,
      column_of ''processed_article_id'' IntegerT False,
      column_of ''risk_type'' (StringT 50) False,
      column_of ''severity'' (StringT 20) False,
      column_of ''confidence'' FloatT False,
      column_of ''affected_suppliers'' JsonT False,
      column_of ''affected_supplier_ids'' JsonT False,
      column_of ''affected_locations'' JsonT False,
      column_of ''affected_categories'' JsonT False,
      column_of ''evidence_snippet'' TextT False,
      column_of ''recommendation'' TextT False,
      column_of ''source_name'' (StringT 255) False,
      column_of ''source_url'' (StringT 2000) True,
      column_of ''published_at'' DateTimeT False,
      column_of ''status'' (StringT 20) False ]
    [(''uq_risk_events_event_key'', [''event_key''])]
    []
    [ (''idx_risk_events_processed_article_id'', [''processed_article_id'']),
      (''idx_risk_events_type_status'', [''risk_type'', ''status'']),
      (''idx_risk_events_severity'', [''severity'']),
      (''idx_risk_events_published_at'', [''published_at'']) ]"

definition news_retrieval_run_table :: "string \<times> table" where
  "news_retrieval_run_table = base_model_table ''news_retrieval_runs''
    [ unique_col (column_of ''run_key'' (StringT 255) False),
      column_of ''status'' (StringT 30) False,
      column_of ''registry_version'' (StringT 255) False,
      column_of ''lease_owner'' (StringT 255) True,
      column_of ''lease_expires_at'' DateTimeT True,
      server_default ''0'' (column_of ''attempted_count'' IntegerT False),
      server_default ''0'' (column_of ''fetched_count'' IntegerT False),
      server_default ''0'' (column_of ''accepted_count'' IntegerT False),
      server_default ''0'' (column_of ''inserted_count'' IntegerT False),
      server_default ''0'' (column_of ''duplicate_count'' IntegerT False),
      server_default ''0'' (column_of ''rejected_count'' IntegerT False),
      server_default ''0'' (column_of ''failed_count'' IntegerT False),
      column_of ''started_at'' DateTimeT False,
      column_of ''finished_at'' DateTimeT True ]
    []
    []
    [ (''idx_retrieval_run_status_lease'', [''status'', ''lease_expires_at'']) ]"

definition news_retrieval_source_outcome_table :: "string \<times> table" where
  "news_retrieval_source_outcome_table = base_model_table ''news_retrieval_source_outcomes''
    [ references ''news_retrieval_runs'' Cascade (column_of ''run_id'' IntegerT False),
      column_of ''source_id'' (StringT 255) False,
      column_of ''status'' (StringT 30) False,
      server_default ''0'' (column_of ''attempted_count'' IntegerT False),
      server_default ''0'' (column_of ''fetched_count'' IntegerT False),
      server_default ''0'' (column_of ''accepted_count'' IntegerT False),
      server_default ''0'' (column_of ''inserted_count'' IntegerT False),
      server_default ''0'' (column_of ''duplicate_count'' IntegerT False),
      server_default ''0'' (column_of ''within_run_duplicate_count'' IntegerT False),
      server_default ''0'' (column_of ''database_duplicate_count'' IntegerT False),
      server_default ''0'' (column_of ''response_bytes'' IntegerT False),
      server_default ''0'' (column_of ''rejected_count'' IntegerT False),
      server_default ''0'' (column_of ''failed_count'' IntegerT False),
      column_of ''started_at'' DateTimeT True,
      column_of ''finished_at'' DateTimeT True,
      column_of ''failure_code'' (StringT 50) True,
      column_of ''outcome_detail'' (StringT 500) True,
      column_of ''lease_owner'' (StringT 255) True,
      column_of ''lease_expires_at'' DateTimeT True ]
    [(''uq_retrieval_outcome_run_source'', [''run_id'', ''source_id''])]
    []
    [ (''idx_retrieval_outcome_source_started'', [''source_id'', ''started_at'']) ]"

definition news_retrieval_circuit_table :: "string \<times> table" where
  "news_retrieval_circuit_table = base_model_table ''news_retrieval_circuits''
    [ unique_col (column_of ''source_id'' (StringT 255) False),
      server_default ''0'' (column_of ''failure_count'' IntegerT False),
      column_of ''open_until'' DateTimeT True,
      column_of ''probe_owner'' (StringT 255) True,
      column_of ''probe_expires_at'' DateTimeT True ]
    []
    []
    []"

definition enrichment_cache_entry_table :: "string \<times> table" where
  "enrichment_cache_entry_table = base_model_table ''enrichment_cache''
    [ column_of ''content_fingerprint'' (StringT 255) False,
      column_of ''policy_version'' (StringT 100) False,
      column_of ''taxonomy_version'' (StringT 100) False,
      column_of ''payload'' JsonT False,
      column_of ''original_method'' (StringT 20) False,
      server_default ''0'' (column_of ''hit_count'' IntegerT False) ]
    [(''uq_enrichment_cache_identity'', [''content_fingerprint'', ''policy_version'', ''taxonomy_version''])]
    [(''ck_enrichment_cache_original_method'', (''original_method IN ('' @ [CHR 39] @ ''deterministic'' @ [CHR 39] @ '', '' @ [CHR 39] @ ''llm'' @ [CHR 39] @ '')''))]
    [ (''idx_enrichment_cache_fingerprint'', [''content_fingerprint'']) ]"

definition llm_spend_table :: "string \<times> table" where
  "llm_spend_table = base_model_table ''llm_spend''
    [ column_of ''tenant'' (StringT 64) False,
      column_of ''spend_date'' DateT False,
      column_of ''tokens_used'' IntegerT False,
      column_of ''calls_made'' IntegerT False ]
    [(''uq_llm_spend_tenant_day'', [''tenant'', ''spend_date''])]
    []
    [ (''idx_llm_spend_day'', [''spend_date'']) ]"

definition dead_letter_table :: "string \<times> table" where
  "dead_letter_table = base_model_table ''dead_letters''
    [ column_of ''task_name'' (StringT 200) False,
      column_of ''task_id'' (StringT 200) True,
      column_of ''payload'' JsonT False,
      column_of ''error_type'' (StringT 200) False,
      column_of ''error_message'' TextT False,
      column_of ''traceback'' TextT False,
      column_of ''retries'' IntegerT False ]
    []
    []
    [ (''idx_dead_letter_task'', [''task_name'']),
      (''idx_dead_letter_created'', [''created_at'']) ]"

definition article_embedding_table :: "string \<times> table" where
  "article_embedding_table = base_model_table ''article_embeddings''
    [ references ''news_articles_processed'' Cascade (column_of ''processed_article_id'' IntegerT False),
      column_of ''model'' (StringT 100) False,
      column_of ''dimensions'' IntegerT False,
      column_of ''embedding'' (VariantT VectorT JsonT) False ]
    [(''uq_article_embedding_model'', [''processed_article_id'', ''model''])]
    []
    [ (''idx_article_embeddings_model'', [''model'']) ]"

definition search_feedback_table :: "string \<times> table" where
  "search_feedback_table = base_model_table ''search_feedback''
    [ references ''organizations'' Cascade (column_of ''organization_id'' IntegerT False),
      references ''users'' Cascade (column_of ''user_id'' IntegerT False),
      column_of ''query_text'' (StringT 200) False,
      column_of ''query_fingerprint'' (StringT 64) False,
      column_of ''processed_article_id'' IntegerT False,
      column_of ''rank_position'' IntegerT False,
      column_of ''signal'' (StringT 20) False,
      column_of ''mode'' (StringT 20) False ]
    [(''uq_search_feedback_signal'', [''user_id'', ''query_fingerprint'', ''processed_article_id'', ''signal''])]
    []
    [ (''idx_search_feedback_organization'', [''organization_id'']),
      (''idx_search_feedback_fingerprint'', [''query_fingerprint'']) ]"

definition agent_run_table :: "string \<times> table" where
  "agent_run_table = base_model_table ''agent_runs''
    [ unique_col (column_of ''public_id'' (StringT 64) False),
      references ''organizations'' Cascade (column_of ''organization_id'' IntegerT False),
      references ''users'' Cascade (column_of ''requested_by_user_id'' IntegerT False),
      column_of ''supplier_public_id'' (StringT 64) False,
      column_of ''status'' (StringT 20) False,
      column_of ''model'' (StringT 100) False,
      server_default ''0'' (column_of ''step_count'' IntegerT False),
      server_default ''0'' (column_of ''prompt_tokens'' IntegerT False),
      server_default ''0'' (column_of ''completion_tokens'' IntegerT False),
      column_of ''started_at'' DateTimeT False,
      column_of ''finished_at'' DateTimeT True,
      column_of ''failure_reason'' (StringT 100) True ]
    []
    []
    [ (''idx_agent_runs_organization'', [''organization_id'']),
      (''idx_agent_runs_supplier'', [''supplier_public_id'']) ]"

definition agent_step_table :: "string \<times> table" where
  "agent_step_table = base_model_table ''agent_steps''
    [ references ''agent_runs'' Cascade (column_of ''run_id'' IntegerT False),
      column_of ''ordinal'' IntegerT False,
      column_of ''kind'' (StringT 20) False,
      column_of ''tool_name'' (StringT 100) True,
      column_of ''payload_json'' JsonT False ]
    [(''uq_agent_step_ordinal'', [''run_id'', ''ordinal''])]
    []
    [ (''idx_agent_steps_tool'', [''tool_name'']) ]"

definition agent_recommendation_table :: "string \<times> table" where
  "agent_recommendation_table = base_model_table ''agent_recommendations''
    [ references ''agent_runs'' Cascade (column_of ''run_id'' IntegerT False),
      column_of ''ordinal'' IntegerT False,
      column_of ''title'' (StringT 300) False,
      column_of ''rationale'' TextT False,
      column_of ''evidence_event_keys'' JsonT False,
      column_of ''status'' (StringT 20) False,
      references ''users'' SetNull (column_of ''decided_by_user_id'' IntegerT True),
      column_of ''decided_at'' DateTimeT True,
      column_of ''decision_note'' TextT True ]
    [(''uq_agent_recommendation_ordinal'', [''run_id'', ''ordinal''])]
    []
    [ (''idx_agent_recommendations_status'', [''status'']) ]"

definition signal_table :: "string \<times> table" where
  "signal_table = model_table ''signals''
    [ server_default ''gen_random_uuid()'' (primary_col (column_of ''id'' UuidT False)),
      column_of ''signal_type'' (StringT 50) False,
      column_of ''entity_id'' UuidT True,
      column_of ''article_id'' UuidT True,
      column_of ''confidence'' FloatT False,
      column_of ''severity'' (StringT 20) False,
      column_of ''impact_areas'' JsonT True,
      column_of ''raw_signal'' JsonT False,
      server_default ''now()'' (column_of ''created_at'' DateTimeT False),
      server_default ''now()'' (column_of ''updated_at'' DateTimeT False) ]
    []
    []
    []"

definition signal_metadata_table :: "string \<times> table" where
  "signal_metadata_table = model_table ''signal_metadata''
    [ server_default ''gen_random_uuid()'' (primary_col (column_of ''id'' UuidT False)),
      references ''signals'' Cascade (column_of ''signal_id'' UuidT False),
      column_of ''key'' (StringT 255) False,
      column_of ''value'' TextT False,
      server_default ''now()'' (column_of ''created_at'' DateTimeT False) ]
    []
    []
    []"

definition signal_supply_chain_impact_table :: "string \<times> table" where
  "signal_supply_chain_impact_table = model_table ''signal_supply_chain_impact''
    [ server_default ''gen_random_uuid()'' (primary_col (column_of ''id'' UuidT False)),
      references ''signals'' Cascade (column_of ''signal_id'' UuidT False),
      column_of ''affected_entity_id'' UuidT True,
      column_of ''relationship_type'' (StringT 100) False,
      column_of ''impact_score'' FloatT False,
      column_of ''description'' TextT False,
      server_default ''now()'' (column_of ''created_at'' DateTimeT False) ]
    []
    []
    []"

definition model_schema :: "(string \<times> table) list" where
  "model_schema =
    [organization_table, user_table, membership_table,
     refresh_token_table, organization_invitation_table, audit_log_table,
     supplier_table, supplier_alias_table, article_supplier_mention_table,
     watchlist_table, watchlist_entry_table, alert_rule_table,
     notification_table, news_article_raw_table, news_article_processed_table,
     user_news_preference_table, user_news_feed_table, chat_conversation_table,
     chat_message_table, news_pipeline_run_table, news_article_match_table,
     news_priority_event_table, risk_event_table, news_retrieval_run_table,
     news_retrieval_source_outcome_table, news_retrieval_circuit_table, enrichment_cache_entry_table,
     llm_spend_table, dead_letter_table, article_embedding_table,
     search_feedback_table, agent_run_table, agent_step_table,
     agent_recommendation_table, signal_table, signal_metadata_table,
     signal_supply_chain_impact_table]"

lemmas model_defs = model_schema_def base_model_table_def model_table_def base_columns_def
  organization_table_def user_table_def membership_table_def refresh_token_table_def
  organization_invitation_table_def audit_log_table_def supplier_table_def supplier_alias_table_def
  article_supplier_mention_table_def watchlist_table_def watchlist_entry_table_def alert_rule_table_def
  notification_table_def news_article_raw_table_def news_article_processed_table_def user_news_preference_table_def
  user_news_feed_table_def chat_conversation_table_def chat_message_table_def news_pipeline_run_table_def
  news_article_match_table_def news_priority_event_table_def risk_event_table_def news_retrieval_run_table_def
  news_retrieval_source_outcome_table_def news_retrieval_circuit_table_def enrichment_cache_entry_table_def llm_spend_table_def
  dead_letter_table_def article_embedding_table_def search_feedback_table_def agent_run_table_def
  agent_step_table_def agent_recommendation_table_def signal_table_def signal_metadata_table_def
  signal_supply_chain_impact_table_def

end
