(* ===== verification/Migrations.thy ===== *)
theory Migrations
  imports Schema Search
begin

text \<open>
  The Alembic chain of \<^verbatim>\<open>migrations/versions\<close>. An operation is what \<^verbatim>\<open>op\<close> is called with; a
  revision is its upgrade and its downgrade, each a list of operations that depends on the
  dialect where the script asks for it. \<open>run_op\<close> is what the database does with one operation:
  it answers \<open>None\<close> where PostgreSQL refuses, which includes adding a required column without a
  default, since the tables already hold rows. The statements that move data change no
  table's shape; \<open>DataMigrations\<close> holds what they do to the rows.
\<close>

section \<open>Operations\<close>

datatype item =
    ColumnI column
  | PrimaryKeyI "string list"
  | UniqueI "string option" "string list"
  | CheckI string string
  | ForeignKeyI string string on_delete

datatype trigger_event = OnUpdate | OnDelete

datatype op =
    CreateTable string "item list"
  | DropTable string
  | AddColumn string column
  | DropColumn string string
  | DropColumnIfExists string string
  | AlterType string string sqltype
  | DropDefault string string
  | CreateIndex string string "string list"
  | DropIndex string string
  | DropIndexIfExists string
  | CreateUnique string string "string list"
  | DropConstraint string string
  | CreateForeignKey string string string string on_delete
  | CreateFunction string
  | DropFunction string
  | CreateTrigger string string trigger_event
  | DropTrigger string
  | CreateExtension string
  | ConsolidateDuplicates
  | BackfillIdentities

datatype schema = Schema
  (s_tables: "(string \<times> table) list") (s_triggers: "(string \<times> string \<times> trigger_event) list")
  (s_functions: "string list") (s_extensions: "string list")

definition empty_schema :: schema where
  "empty_schema = Schema [] [] [] []"

text \<open>An unnamed key gets the name the database derives for it.\<close>

definition key_name :: "string \<Rightarrow> string list \<Rightarrow> string" where
  "key_name t ks = t @ ''_'' @ join ''_'' ks @ ''_key''"

definition fkey_name :: "string \<Rightarrow> string \<Rightarrow> string" where
  "fkey_name t c = t @ ''_'' @ c @ ''_fkey''"

text \<open>A change of the columns, keys or indexes of one table.\<close>

fun map_columns :: "(column \<Rightarrow> column) \<Rightarrow> table \<Rightarrow> table" where
  "map_columns f (Table cs us ks is) = Table (map f cs) us ks is"

fun add_item :: "dialect \<Rightarrow> string \<Rightarrow> item \<Rightarrow> table \<Rightarrow> table" where
  "add_item d n (ColumnI c) (Table cs us ks is) = Table (cs @ [resolve_column d c]) us ks is"
| "add_item d n (PrimaryKeyI pk) t = map_columns (\<lambda>c. if col_name c \<in> set pk then primary_col c else c) t"
| "add_item d n (UniqueI None cols) (Table cs us ks is) = Table cs (us @ [(key_name n cols, cols)]) ks is"
| "add_item d n (UniqueI (Some u) cols) (Table cs us ks is) = Table cs (us @ [(u, cols)]) ks is"
| "add_item d n (CheckI k e) (Table cs us ks is) = Table cs us (ks @ [(k, e)]) is"
| "add_item d n (ForeignKeyI c r od) t = map_columns (\<lambda>c'. if col_name c' = c then references r od c' else c') t"

fun add_items :: "dialect \<Rightarrow> string \<Rightarrow> item list \<Rightarrow> table \<Rightarrow> table" where
  "add_items d n [] t = t"
| "add_items d n (i # is) t = add_items d n is (add_item d n i t)"

definition build_table :: "dialect \<Rightarrow> string \<Rightarrow> item list \<Rightarrow> table" where
  "build_table d n items = add_items d n items (Table [] [] [] [])"

fun names_of :: "column list \<Rightarrow> string list" where
  "names_of [] = []"
| "names_of (c # cs) = col_name c # names_of cs"

definition column_names :: "table \<Rightarrow> string list" where
  "column_names t = names_of (t_columns t)"

fun keys_of :: "(string \<times> 'a) list \<Rightarrow> string list" where
  "keys_of [] = []"
| "keys_of ((n, x) # es) = n # keys_of es"

fun indexes_of :: "(string \<times> table) list \<Rightarrow> string list" where
  "indexes_of [] = []"
| "indexes_of ((n, t) # ts) = keys_of (t_indexes t) @ indexes_of ts"

fun all_in :: "string list \<Rightarrow> string list \<Rightarrow> bool" where
  "all_in [] ys = True"
| "all_in (x # xs) ys = (x \<in> set ys \<and> all_in xs ys)"

fun keys_in :: "(string \<times> string list) list \<Rightarrow> string list \<Rightarrow> bool" where
  "keys_in [] ys = True"
| "keys_in ((k, cols) # ks) ys = (all_in cols ys \<and> keys_in ks ys)"

fun fk_target :: "column \<Rightarrow> string list" where
  "fk_target (Column n ty nu u p (Some f) v) = [fk_table f]"
| "fk_target (Column n ty nu u p None v) = []"

fun fk_targets :: "column list \<Rightarrow> string list" where
  "fk_targets [] = []"
| "fk_targets (c # cs) = fk_target c @ fk_targets cs"

definition fk_tables :: "table \<Rightarrow> string list" where
  "fk_tables t = fk_targets (t_columns t)"

text \<open>The conditions are arguments, so that an evaluation decides them before it goes on.\<close>

fun guarded :: "bool \<Rightarrow> 'a \<Rightarrow> 'a option" where
  "guarded True x = Some x"
| "guarded False x = None"

fun unless :: "bool \<Rightarrow> 'a option \<Rightarrow> 'a option" where
  "unless True r = None"
| "unless False r = r"

text \<open>One table replaced, or failure.\<close>

fun put_table :: "string \<Rightarrow> table option \<Rightarrow> (string \<times> table) list \<Rightarrow> (string \<times> table) list option" where
  "put_table n None ts = None"
| "put_table n (Some t) ts = Some ((n, t) # ts)"

fun keep_table :: "string \<times> table \<Rightarrow> (string \<times> table) list option \<Rightarrow> (string \<times> table) list option" where
  "keep_table e None = None"
| "keep_table e (Some ts) = Some (e # ts)"

fun on_table :: "string \<Rightarrow> (table \<Rightarrow> table option) \<Rightarrow> (string \<times> table) list \<Rightarrow> (string \<times> table) list option"
  and at_table :: "bool \<Rightarrow> string \<Rightarrow> (table \<Rightarrow> table option) \<Rightarrow> string \<Rightarrow> table \<Rightarrow> (string \<times> table) list
        \<Rightarrow> (string \<times> table) list option" where
  "on_table n f [] = None"
| "on_table n f ((m, t) # ts) = at_table (n = m) n f m t ts"
| "at_table True n f m t ts = put_table m (f t) ts"
| "at_table False n f m t ts = keep_table (m, t) (on_table n f ts)"

fun with_tables :: "(string \<times> table) list option \<Rightarrow> schema \<Rightarrow> schema option" where
  "with_tables None s = None"
| "with_tables (Some ts) (Schema ts' gs fs xs) = Some (Schema ts gs fs xs)"

definition in_table :: "string \<Rightarrow> (table \<Rightarrow> table option) \<Rightarrow> schema \<Rightarrow> schema option" where
  "in_table n f s = with_tables (on_table n f (s_tables s)) s"

definition add_column :: "column \<Rightarrow> table \<Rightarrow> table option" where
  "add_column c t = guarded (col_name c \<notin> set (column_names t) \<and> (col_nullable c \<or> col_default c \<noteq> None))
     (Table (t_columns t @ [c]) (t_uniques t) (t_checks t) (t_indexes t))"

definition set_column :: "string \<Rightarrow> (column \<Rightarrow> column) \<Rightarrow> table \<Rightarrow> table option" where
  "set_column c f t = guarded (c \<in> set (column_names t))
     (map_columns (\<lambda>c'. if col_name c' = c then f c' else c') t)"

fun set_type :: "sqltype \<Rightarrow> column \<Rightarrow> column" where
  "set_type ty (Column n ty' nu u p f v) = Column n ty nu u p f v"

fun without_default :: "column \<Rightarrow> column" where
  "without_default (Column n ty nu u p f v) = Column n ty nu u p f None"

fun without_fk :: "column \<Rightarrow> column" where
  "without_fk (Column n ty nu u p f v) = Column n ty nu u p None v"

fun without_column :: "string \<Rightarrow> table \<Rightarrow> table" where
  "without_column c (Table cs us ks is) = Table (filter (\<lambda>c'. col_name c' \<noteq> c) cs)
     (filter (\<lambda>u. c \<notin> set (snd u)) us) ks (filter (\<lambda>i. c \<notin> set (snd i)) is)"

definition drop_column :: "string \<Rightarrow> table \<Rightarrow> table option" where
  "drop_column c t = guarded (c \<in> set (column_names t)) (without_column c t)"

definition add_index :: "string \<Rightarrow> string list \<Rightarrow> table \<Rightarrow> table option" where
  "add_index i cols t = guarded (all_in cols (column_names t))
     (Table (t_columns t) (t_uniques t) (t_checks t) (t_indexes t @ [(i, cols)]))"

fun without_index :: "string \<Rightarrow> table \<Rightarrow> table" where
  "without_index i (Table cs us ks is) = Table cs us ks (filter (\<lambda>j. fst j \<noteq> i) is)"

definition drop_index :: "string \<Rightarrow> table \<Rightarrow> table option" where
  "drop_index i t = guarded (i \<in> set (keys_of (t_indexes t))) (without_index i t)"

definition add_unique :: "string \<Rightarrow> string list \<Rightarrow> table \<Rightarrow> table option" where
  "add_unique u cols t =
     guarded (u \<notin> set (keys_of (t_uniques t)) \<and> all_in cols (column_names t))
       (Table (t_columns t) (t_uniques t @ [(u, cols)]) (t_checks t) (t_indexes t))"

text \<open>A constraint is dropped by its name: a unique key, or the foreign key of a column.\<close>

definition drop_constraint :: "string \<Rightarrow> string \<Rightarrow> table \<Rightarrow> table option" where
  "drop_constraint n k t =
     (if k \<in> set (keys_of (t_uniques t))
      then Some (Table (t_columns t) (filter (\<lambda>u. fst u \<noteq> k) (t_uniques t)) (t_checks t) (t_indexes t))
      else guarded (list_ex (\<lambda>c. col_fk c \<noteq> None \<and> fkey_name n (col_name c) = k) (t_columns t))
        (map_columns (\<lambda>c. if fkey_name n (col_name c) = k then without_fk c else c) t))"

definition table_names :: "schema \<Rightarrow> string list" where
  "table_names s = keys_of (s_tables s)"

definition add_table :: "string \<Rightarrow> table \<Rightarrow> schema \<Rightarrow> schema option" where
  "add_table n t s =
     guarded (n \<notin> set (table_names s) \<and> distinct (column_names t) \<and>
              keys_in (t_uniques t) (column_names t) \<and> all_in (fk_tables t) (table_names s))
       (Schema (s_tables s @ [(n, t)]) (s_triggers s) (s_functions s) (s_extensions s))"

fun unreferenced :: "string \<Rightarrow> (string \<times> table) list \<Rightarrow> bool" where
  "unreferenced n [] = True"
| "unreferenced n ((m, t) # ts) = ((m = n \<or> n \<notin> set (fk_tables t)) \<and> unreferenced n ts)"

fun without_key :: "string \<Rightarrow> (string \<times> 'a) list \<Rightarrow> (string \<times> 'a) list"
  and without_key_or :: "bool \<Rightarrow> string \<Rightarrow> string \<Rightarrow> 'a \<Rightarrow> (string \<times> 'a) list \<Rightarrow> (string \<times> 'a) list" where
  "without_key n [] = []"
| "without_key n ((m, x) # es) = without_key_or (m = n) n m x es"
| "without_key_or True n m x es = without_key n es"
| "without_key_or False n m x es = (m, x) # without_key n es"

definition drop_table :: "string \<Rightarrow> schema \<Rightarrow> schema option" where
  "drop_table n s = guarded (n \<in> set (table_names s) \<and> unreferenced n (s_tables s))
     (Schema (without_key n (s_tables s)) (filter (\<lambda>g. fst (snd g) \<noteq> n) (s_triggers s))
        (s_functions s) (s_extensions s))"

fun run_op :: "dialect \<Rightarrow> op \<Rightarrow> schema \<Rightarrow> schema option" where
  "run_op d (CreateTable n items) s = add_table n (build_table d n items) s"
| "run_op d (DropTable n) s = drop_table n s"
| "run_op d (AddColumn n c) s =
     unless (\<not> all_in (fk_target c) (table_names s)) (in_table n (add_column (resolve_column d c)) s)"
| "run_op d (DropColumn n c) s = in_table n (drop_column c) s"
| "run_op d (DropColumnIfExists n c) s = in_table n (\<lambda>t. Some (without_column c t)) s"
| "run_op d (AlterType n c ty) s = in_table n (set_column c (set_type (resolve_type d ty))) s"
| "run_op d (DropDefault n c) s = in_table n (set_column c without_default) s"
| "run_op d (CreateIndex i n cols) s =
     unless (i \<in> set (indexes_of (s_tables s))) (in_table n (add_index i cols) s)"
| "run_op d (DropIndex i n) s = in_table n (drop_index i) s"
| "run_op d (DropIndexIfExists i) (Schema ts gs fs xs) =
     Some (Schema (map (\<lambda>e. (fst e, without_index i (snd e))) ts) gs fs xs)"
| "run_op d (CreateUnique u n cols) s = in_table n (add_unique u cols) s"
| "run_op d (DropConstraint k n) s = in_table n (drop_constraint n k) s"
| "run_op d (CreateForeignKey k n r c od) s =
     unless (r \<notin> set (table_names s)) (in_table n (set_column c (references r od)) s)"
| "run_op d (CreateFunction f) (Schema ts gs fs xs) = Some (Schema ts gs (List.insert f fs) xs)"
| "run_op d (DropFunction f) (Schema ts gs fs xs) = Some (Schema ts gs (removeAll f fs) xs)"
| "run_op d (CreateTrigger g n e) s = guarded (n \<in> set (table_names s) \<and> g \<notin> set (keys_of (s_triggers s)))
     (Schema (s_tables s) (s_triggers s @ [(g, n, e)]) (s_functions s) (s_extensions s))"
| "run_op d (DropTrigger g) (Schema ts gs fs xs) = Some (Schema ts (filter (\<lambda>h. fst h \<noteq> g) gs) fs xs)"
| "run_op d (CreateExtension x) (Schema ts gs fs xs) = Some (Schema ts gs fs (List.insert x xs))"
| "run_op d ConsolidateDuplicates s = Some s"
| "run_op d BackfillIdentities s = Some s"

fun run_ops :: "dialect \<Rightarrow> op list \<Rightarrow> schema option \<Rightarrow> schema option" where
  "run_ops d [] r = r"
| "run_ops d (p # ps) None = None"
| "run_ops d (p # ps) (Some s) = run_ops d ps (run_op d p s)"

section \<open>Revisions\<close>

record revision =
  rev_id :: string
  rev_down :: "string option"
  rev_upgrade :: "dialect \<Rightarrow> op list"
  rev_downgrade :: "dialect \<Rightarrow> op list"

definition initial_upgrade :: "dialect \<Rightarrow> op list" where
  "initial_upgrade d =
    []"

definition initial_downgrade :: "dialect \<Rightarrow> op list" where
  "initial_downgrade d =
    []"

definition create_schema_upgrade :: "dialect \<Rightarrow> op list" where
  "create_schema_upgrade d =
    [ CreateTable ''news_article_matches''
        [ ColumnI (column_of ''user_id'' (StringT 100) False),
          ColumnI (column_of ''processed_article_id'' IntegerT False),
          ColumnI (column_of ''matched_supplier'' (StringT 255) True),
          ColumnI (column_of ''matched_region'' (StringT 255) True),
          ColumnI (column_of ''matched_category'' (StringT 255) True),
          ColumnI (column_of ''matched_event_id'' (StringT 100) True),
          ColumnI (column_of ''match_score'' FloatT False),
          ColumnI (column_of ''reason_json'' JsonT False),
          ColumnI (column_of ''id'' IntegerT False),
          ColumnI (server_default ''now()'' (column_of ''created_at'' DateTimeT False)),
          ColumnI (server_default ''now()'' (column_of ''updated_at'' DateTimeT False)),
          PrimaryKeyI [''id''] ],
      CreateIndex ''idx_matched_supplier'' ''news_article_matches'' [''matched_supplier''],
      CreateIndex ''idx_user_article'' ''news_article_matches'' [''user_id'', ''processed_article_id''],
      CreateTable ''news_articles_processed''
        [ ColumnI (column_of ''raw_article_id'' IntegerT False),
          ColumnI (column_of ''normalized_title'' (StringT 500) False),
          ColumnI (column_of ''summary'' TextT False),
          ColumnI (column_of ''top_level_category'' (StringT 50) False),
          ColumnI (column_of ''signal_tags'' JsonT True),
          ColumnI (column_of ''priority_signal'' (StringT 100) True),
          ColumnI (column_of ''detected_regions'' JsonT True),
          ColumnI (column_of ''detected_suppliers'' JsonT True),
          ColumnI (column_of ''detected_categories'' JsonT True),
          ColumnI (column_of ''signal_score'' FloatT False),
          ColumnI (column_of ''processing_status'' (StringT 20) False),
          ColumnI (column_of ''llm_model'' (StringT 100) True),
          ColumnI (column_of ''language'' (StringT 10) False),
          ColumnI (column_of ''processed_at'' DateTimeT False),
          ColumnI (column_of ''id'' IntegerT False),
          ColumnI (server_default ''now()'' (column_of ''created_at'' DateTimeT False)),
          ColumnI (server_default ''now()'' (column_of ''updated_at'' DateTimeT False)),
          PrimaryKeyI [''id''] ],
      CreateIndex ''idx_processed_at'' ''news_articles_processed'' [''processed_at''],
      CreateIndex ''idx_raw_article_id'' ''news_articles_processed'' [''raw_article_id''],
      CreateIndex ''idx_signal_score'' ''news_articles_processed'' [''signal_score''],
      CreateIndex ''idx_top_level_category'' ''news_articles_processed'' [''top_level_category''],
      CreateTable ''news_articles_raw''
        [ ColumnI (column_of ''provider'' (StringT 50) False),
          ColumnI (column_of ''provider_article_id'' (StringT 255) True),
          ColumnI (column_of ''query_group'' (StringT 100) False),
          ColumnI (column_of ''ingest_hash'' (StringT 255) False),
          ColumnI (column_of ''title'' (StringT 500) False),
          ColumnI (column_of ''description'' TextT True),
          ColumnI (column_of ''content_snippet'' TextT True),
          ColumnI (column_of ''article_url'' (StringT 2000) False),
          ColumnI (column_of ''canonical_url'' (StringT 2000) True),
          ColumnI (column_of ''source_name'' (StringT 255) False),
          ColumnI (column_of ''source_url'' (StringT 2000) True),
          ColumnI (column_of ''published_at'' DateTimeT False),
          ColumnI (column_of ''language'' (StringT 10) False),
          ColumnI (column_of ''raw_payload_json'' JsonT True),
          ColumnI (column_of ''ingested_at'' DateTimeT False),
          ColumnI (column_of ''id'' IntegerT False),
          ColumnI (server_default ''now()'' (column_of ''created_at'' DateTimeT False)),
          ColumnI (server_default ''now()'' (column_of ''updated_at'' DateTimeT False)),
          PrimaryKeyI [''id''],
          UniqueI None [''ingest_hash''] ],
      CreateIndex ''idx_ingest_hash'' ''news_articles_raw'' [''ingest_hash''],
      CreateIndex ''idx_provider_article_id'' ''news_articles_raw'' [''provider'', ''provider_article_id''],
      CreateIndex ''idx_published_at'' ''news_articles_raw'' [''published_at''],
      CreateIndex ''idx_source_name'' ''news_articles_raw'' [''source_name''],
      CreateTable ''news_pipeline_runs''
        [ ColumnI (column_of ''started_at'' DateTimeT False),
          ColumnI (column_of ''finished_at'' DateTimeT True),
          ColumnI (column_of ''status'' (StringT 20) False),
          ColumnI (column_of ''articles_fetched'' IntegerT False),
          ColumnI (column_of ''articles_kept'' IntegerT False),
          ColumnI (column_of ''articles_rejected'' IntegerT False),
          ColumnI (column_of ''duplicates_removed'' IntegerT False),
          ColumnI (column_of ''articles_sent_to_llm'' IntegerT False),
          ColumnI (column_of ''feeds_materialized'' IntegerT False),
          ColumnI (column_of ''error_summary'' TextT True),
          ColumnI (column_of ''id'' IntegerT False),
          ColumnI (server_default ''now()'' (column_of ''created_at'' DateTimeT False)),
          ColumnI (server_default ''now()'' (column_of ''updated_at'' DateTimeT False)),
          PrimaryKeyI [''id''] ],
      CreateIndex ''idx_pipeline_runs_started_at'' ''news_pipeline_runs'' [''started_at''],
      CreateIndex ''idx_pipeline_runs_status'' ''news_pipeline_runs'' [''status''],
      CreateTable ''news_priority_events''
        [ ColumnI (column_of ''processed_article_id'' IntegerT False),
          ColumnI (column_of ''priority_type'' (StringT 50) False),
          ColumnI (column_of ''detected_at'' DateTimeT False),
          ColumnI (column_of ''status'' (StringT 20) False),
          ColumnI (column_of ''dispatch_window'' DateTimeT True),
          ColumnI (column_of ''id'' IntegerT False),
          ColumnI (server_default ''now()'' (column_of ''created_at'' DateTimeT False)),
          ColumnI (server_default ''now()'' (column_of ''updated_at'' DateTimeT False)),
          PrimaryKeyI [''id''] ],
      CreateIndex ''idx_priority_type'' ''news_priority_events'' [''priority_type''],
      CreateIndex ''idx_priority_events_status'' ''news_priority_events'' [''status''],
      CreateTable ''user_news_feed''
        [ ColumnI (column_of ''user_id'' (StringT 100) False),
          ColumnI (column_of ''processed_article_id'' IntegerT False),
          ColumnI (column_of ''top_level_category'' (StringT 50) False),
          ColumnI (column_of ''rank_score'' FloatT False),
          ColumnI (column_of ''match_reasons'' JsonT False),
          ColumnI (column_of ''related_sourcing_event_ids'' JsonT True),
          ColumnI (column_of ''surfaced_at'' DateTimeT False),
          ColumnI (column_of ''is_read'' BooleanT False),
          ColumnI (column_of ''is_hidden'' BooleanT False),
          ColumnI (column_of ''id'' IntegerT False),
          ColumnI (server_default ''now()'' (column_of ''created_at'' DateTimeT False)),
          ColumnI (server_default ''now()'' (column_of ''updated_at'' DateTimeT False)),
          PrimaryKeyI [''id''] ],
      CreateIndex ''idx_rank_score'' ''user_news_feed'' [''rank_score''],
      CreateIndex ''idx_user_feed_user_id'' ''user_news_feed'' [''user_id''],
      CreateIndex ''idx_user_surfaced'' ''user_news_feed'' [''user_id'', ''surfaced_at''],
      CreateTable ''user_news_preferences''
        [ ColumnI (column_of ''user_id'' (StringT 100) False),
          ColumnI (column_of ''preferred_categories'' JsonT False),
          ColumnI (column_of ''preferred_suppliers'' JsonT False),
          ColumnI (column_of ''preferred_regions'' JsonT False),
          ColumnI (column_of ''preferred_signals'' JsonT False),
          ColumnI (column_of ''excluded_categories'' JsonT False),
          ColumnI (column_of ''excluded_suppliers'' JsonT False),
          ColumnI (column_of ''excluded_regions'' JsonT False),
          ColumnI (column_of ''excluded_signals'' JsonT False),
          ColumnI (column_of ''excluded_topics'' JsonT False),
          ColumnI (column_of ''onboarding_completed'' BooleanT False),
          ColumnI (column_of ''id'' IntegerT False),
          ColumnI (server_default ''now()'' (column_of ''created_at'' DateTimeT False)),
          ColumnI (server_default ''now()'' (column_of ''updated_at'' DateTimeT False)),
          PrimaryKeyI [''id''],
          UniqueI None [''user_id''] ],
      CreateIndex ''idx_user_preferences_user_id'' ''user_news_preferences'' [''user_id''] ]"

definition create_schema_downgrade :: "dialect \<Rightarrow> op list" where
  "create_schema_downgrade d =
    [ DropIndex ''idx_user_preferences_user_id'' ''user_news_preferences'',
      DropTable ''user_news_preferences'',
      DropIndex ''idx_user_surfaced'' ''user_news_feed'',
      DropIndex ''idx_user_feed_user_id'' ''user_news_feed'',
      DropIndex ''idx_rank_score'' ''user_news_feed'',
      DropTable ''user_news_feed'',
      DropIndex ''idx_priority_events_status'' ''news_priority_events'',
      DropIndex ''idx_priority_type'' ''news_priority_events'',
      DropTable ''news_priority_events'',
      DropIndex ''idx_pipeline_runs_status'' ''news_pipeline_runs'',
      DropIndex ''idx_pipeline_runs_started_at'' ''news_pipeline_runs'',
      DropTable ''news_pipeline_runs'',
      DropIndex ''idx_source_name'' ''news_articles_raw'',
      DropIndex ''idx_published_at'' ''news_articles_raw'',
      DropIndex ''idx_provider_article_id'' ''news_articles_raw'',
      DropIndex ''idx_ingest_hash'' ''news_articles_raw'',
      DropTable ''news_articles_raw'',
      DropIndex ''idx_top_level_category'' ''news_articles_processed'',
      DropIndex ''idx_signal_score'' ''news_articles_processed'',
      DropIndex ''idx_raw_article_id'' ''news_articles_processed'',
      DropIndex ''idx_processed_at'' ''news_articles_processed'',
      DropTable ''news_articles_processed'',
      DropIndex ''idx_user_article'' ''news_article_matches'',
      DropIndex ''idx_matched_supplier'' ''news_article_matches'',
      DropTable ''news_article_matches'' ]"

definition add_signals_tables_upgrade :: "dialect \<Rightarrow> op list" where
  "add_signals_tables_upgrade d =
    [ CreateTable ''signals''
        [ ColumnI (server_default ''gen_random_uuid()'' (primary_col (column_of ''id'' UuidT False))),
          ColumnI (column_of ''signal_type'' (StringT 50) False),
          ColumnI (column_of ''entity_id'' UuidT True),
          ColumnI (column_of ''article_id'' UuidT True),
          ColumnI (column_of ''confidence'' FloatT True),
          ColumnI (column_of ''severity'' (StringT 20) True),
          ColumnI (column_of ''impact_areas'' (VariantT TextArrayT JsonT) True),
          ColumnI (column_of ''raw_signal'' (VariantT JsonbT JsonT) True),
          ColumnI (server_default ''now()'' (column_of ''created_at'' TimestampT False)),
          ColumnI (server_default ''now()'' (column_of ''updated_at'' TimestampT False)) ],
      CreateTable ''signal_metadata''
        [ ColumnI (server_default ''gen_random_uuid()'' (primary_col (column_of ''id'' UuidT False))),
          ColumnI (references ''signals'' Cascade (column_of ''signal_id'' UuidT False)),
          ColumnI (column_of ''key'' (StringT 255) True),
          ColumnI (column_of ''value'' TextT True),
          ColumnI (server_default ''now()'' (column_of ''created_at'' TimestampT False)) ],
      CreateTable ''signal_supply_chain_impact''
        [ ColumnI (server_default ''gen_random_uuid()'' (primary_col (column_of ''id'' UuidT False))),
          ColumnI (references ''signals'' Cascade (column_of ''signal_id'' UuidT False)),
          ColumnI (column_of ''affected_entity_id'' UuidT True),
          ColumnI (column_of ''relationship_type'' (StringT 100) True),
          ColumnI (column_of ''impact_score'' FloatT True),
          ColumnI (column_of ''description'' TextT True),
          ColumnI (server_default ''now()'' (column_of ''created_at'' TimestampT False)) ] ]"

definition add_signals_tables_downgrade :: "dialect \<Rightarrow> op list" where
  "add_signals_tables_downgrade d =
    [ DropTable ''signal_supply_chain_impact'',
      DropTable ''signal_metadata'',
      DropTable ''signals'' ]"

definition add_chat_tables_upgrade :: "dialect \<Rightarrow> op list" where
  "add_chat_tables_upgrade d =
    [ CreateTable ''chat_conversations''
        [ ColumnI (primary_col (column_of ''id'' IntegerT False)),
          ColumnI (column_of ''user_id'' (StringT 100) False),
          ColumnI (column_of ''conversation_id'' (StringT 100) False),
          ColumnI (column_of ''title'' (StringT 200) True),
          ColumnI (server_default ''0'' (column_of ''message_count'' IntegerT False)),
          ColumnI (column_of ''last_message_at'' DateTimeT True),
          ColumnI (server_default ''now()'' (column_of ''created_at'' TimestampT False)),
          ColumnI (server_default ''now()'' (column_of ''updated_at'' TimestampT False)),
          UniqueI (Some ''uq_chat_conversations_conversation_id'') [''conversation_id''] ],
      CreateIndex ''idx_chat_conversations_user_last'' ''chat_conversations'' [''user_id'', ''last_message_at''],
      CreateTable ''chat_messages''
        [ ColumnI (primary_col (column_of ''id'' IntegerT False)),
          ColumnI (column_of ''user_id'' (StringT 100) False),
          ColumnI (column_of ''conversation_id'' (StringT 100) False),
          ColumnI (column_of ''role'' (StringT 20) False),
          ColumnI (column_of ''content'' TextT False),
          ColumnI (column_of ''tokens_used'' IntegerT True),
          ColumnI (server_default ''now()'' (column_of ''created_at'' TimestampT False)),
          ColumnI (server_default ''now()'' (column_of ''updated_at'' TimestampT False)) ],
      CreateIndex ''idx_chat_messages_conv_created'' ''chat_messages'' [''conversation_id'', ''created_at''] ]"

definition add_chat_tables_downgrade :: "dialect \<Rightarrow> op list" where
  "add_chat_tables_downgrade d =
    [ DropIndex ''idx_chat_messages_conv_created'' ''chat_messages'',
      DropTable ''chat_messages'',
      DropIndex ''idx_chat_conversations_user_last'' ''chat_conversations'',
      DropTable ''chat_conversations'' ]"

definition signals_impact_areas_json_upgrade :: "dialect \<Rightarrow> op list" where
  "signals_impact_areas_json_upgrade d =
    (if d = Sqlite then []
     else [ AlterType ''signals'' ''impact_areas'' JsonT ])"

definition signals_impact_areas_json_downgrade :: "dialect \<Rightarrow> op list" where
  "signals_impact_areas_json_downgrade d =
    (if d = Sqlite then []
     else [ AlterType ''signals'' ''impact_areas'' TextArrayT ])"

definition add_platform_language_upgrade :: "dialect \<Rightarrow> op list" where
  "add_platform_language_upgrade d =
    AddColumn ''user_news_preferences'' (server_default ''en'' (column_of ''platform_language'' (StringT 10) False)) #
    (if d \<noteq> Sqlite then [ DropDefault ''user_news_preferences'' ''platform_language'' ] else [])"

definition add_platform_language_downgrade :: "dialect \<Rightarrow> op list" where
  "add_platform_language_downgrade d =
    [ DropColumn ''user_news_preferences'' ''platform_language'' ]"

definition add_risk_events_upgrade :: "dialect \<Rightarrow> op list" where
  "add_risk_events_upgrade d =
    [ CreateTable ''risk_events''
        [ ColumnI (column_of ''event_key'' (StringT 500) False),
          ColumnI (column_of ''processed_article_id'' IntegerT False),
          ColumnI (column_of ''risk_type'' (StringT 50) False),
          ColumnI (column_of ''severity'' (StringT 20) False),
          ColumnI (column_of ''confidence'' FloatT False),
          ColumnI (column_of ''affected_suppliers'' JsonT False),
          ColumnI (column_of ''affected_locations'' JsonT False),
          ColumnI (column_of ''affected_categories'' JsonT False),
          ColumnI (column_of ''evidence_snippet'' TextT False),
          ColumnI (column_of ''recommendation'' TextT False),
          ColumnI (column_of ''source_name'' (StringT 255) False),
          ColumnI (column_of ''source_url'' (StringT 2000) True),
          ColumnI (column_of ''published_at'' DateTimeT False),
          ColumnI (server_default ''new'' (column_of ''status'' (StringT 20) False)),
          ColumnI (column_of ''id'' IntegerT False),
          ColumnI (server_default ''now()'' (column_of ''created_at'' DateTimeT False)),
          ColumnI (server_default ''now()'' (column_of ''updated_at'' DateTimeT False)),
          PrimaryKeyI [''id''],
          UniqueI (Some ''uq_risk_events_event_key'') [''event_key''] ],
      CreateIndex ''idx_risk_events_processed_article_id'' ''risk_events'' [''processed_article_id''],
      CreateIndex ''idx_risk_events_type_status'' ''risk_events'' [''risk_type'', ''status''],
      CreateIndex ''idx_risk_events_severity'' ''risk_events'' [''severity''],
      CreateIndex ''idx_risk_events_published_at'' ''risk_events'' [''published_at''] ]"

definition add_risk_events_downgrade :: "dialect \<Rightarrow> op list" where
  "add_risk_events_downgrade d =
    [ DropIndex ''idx_risk_events_published_at'' ''risk_events'',
      DropIndex ''idx_risk_events_severity'' ''risk_events'',
      DropIndex ''idx_risk_events_type_status'' ''risk_events'',
      DropIndex ''idx_risk_events_processed_article_id'' ''risk_events'',
      DropTable ''risk_events'' ]"

definition risk_scan_tracking_upgrade :: "dialect \<Rightarrow> op list" where
  "risk_scan_tracking_upgrade d =
    [ AddColumn ''news_articles_processed'' (column_of ''risk_event_checked_at'' DateTimeT True),
      CreateIndex ''idx_risk_event_scan_pending'' ''news_articles_processed'' [''risk_event_checked_at'', ''processed_at''] ]"

definition risk_scan_tracking_downgrade :: "dialect \<Rightarrow> op list" where
  "risk_scan_tracking_downgrade d =
    [ DropIndex ''idx_risk_event_scan_pending'' ''news_articles_processed'',
      DropColumn ''news_articles_processed'' ''risk_event_checked_at'' ]"

definition enrichment_cache_create_processed_identity_constraint :: "dialect \<Rightarrow> op list" where
  "enrichment_cache_create_processed_identity_constraint d =
    [ CreateUnique ''uq_news_articles_processed_raw_article_id'' ''news_articles_processed'' [''raw_article_id''] ]"

definition enrichment_cache_upgrade :: "dialect \<Rightarrow> op list" where
  "enrichment_cache_upgrade d =
    [ AddColumn ''news_articles_processed'' (column_of ''enrichment_method'' (StringT 20) True),
      AddColumn ''news_articles_processed'' (column_of ''enrichment_reason'' (StringT 100) True),
      AddColumn ''news_articles_processed'' (column_of ''enrichment_policy_version'' (StringT 100) True),
      AddColumn ''news_articles_processed'' (column_of ''content_fingerprint'' (StringT 255) True),
      AddColumn ''news_articles_processed'' (column_of ''deterministic_confidence'' FloatT True),
      AddColumn ''news_articles_processed'' (server_default ''false'' (column_of ''llm_used'' BooleanT False)),
      ConsolidateDuplicates ] @
    enrichment_cache_create_processed_identity_constraint d @
    [ CreateTable ''enrichment_cache''
        [ ColumnI (column_of ''content_fingerprint'' (StringT 255) False),
          ColumnI (column_of ''policy_version'' (StringT 100) False),
          ColumnI (column_of ''taxonomy_version'' (StringT 100) False),
          ColumnI (column_of ''payload'' JsonT False),
          ColumnI (column_of ''original_method'' (StringT 20) False),
          ColumnI (server_default ''0'' (column_of ''hit_count'' IntegerT False)),
          ColumnI (column_of ''id'' IntegerT False),
          ColumnI (server_default ''now()'' (column_of ''created_at'' DateTimeT False)),
          ColumnI (server_default ''now()'' (column_of ''updated_at'' DateTimeT False)),
          CheckI ''ck_enrichment_cache_original_method'' (''original_method IN ('' @ [CHR 39] @ ''deterministic'' @ [CHR 39] @ '', '' @ [CHR 39] @ ''llm'' @ [CHR 39] @ '')''),
          PrimaryKeyI [''id''],
          UniqueI (Some ''uq_enrichment_cache_identity'') [''content_fingerprint'', ''policy_version'', ''taxonomy_version''] ],
      CreateIndex ''idx_enrichment_cache_fingerprint'' ''enrichment_cache'' [''content_fingerprint''] ]"

definition enrichment_cache_drop_processed_identity_constraint :: "dialect \<Rightarrow> op list" where
  "enrichment_cache_drop_processed_identity_constraint d =
    [ DropConstraint ''uq_news_articles_processed_raw_article_id'' ''news_articles_processed'' ]"

definition enrichment_cache_downgrade :: "dialect \<Rightarrow> op list" where
  "enrichment_cache_downgrade d =
    enrichment_cache_drop_processed_identity_constraint d @
    [ DropIndex ''idx_enrichment_cache_fingerprint'' ''enrichment_cache'',
      DropTable ''enrichment_cache'',
      DropColumn ''news_articles_processed'' ''llm_used'',
      DropColumn ''news_articles_processed'' ''deterministic_confidence'',
      DropColumn ''news_articles_processed'' ''content_fingerprint'',
      DropColumn ''news_articles_processed'' ''enrichment_policy_version'',
      DropColumn ''news_articles_processed'' ''enrichment_reason'',
      DropColumn ''news_articles_processed'' ''enrichment_method'' ]"

definition terminal_enrichment_upgrade :: "dialect \<Rightarrow> op list" where
  "terminal_enrichment_upgrade d =
    [ AddColumn ''news_articles_raw'' (column_of ''enrichment_status'' (StringT 30) True),
      AddColumn ''news_articles_raw'' (server_default ''0'' (column_of ''enrichment_attempt_count'' IntegerT False)),
      AddColumn ''news_articles_raw'' (column_of ''enrichment_next_attempt_at'' DateTimeT True),
      AddColumn ''news_articles_raw'' (column_of ''enrichment_lease_owner'' (StringT 100) True),
      AddColumn ''news_articles_raw'' (column_of ''enrichment_lease_expires_at'' DateTimeT True),
      CreateIndex ''idx_raw_enrichment_lifecycle'' ''news_articles_raw'' [''enrichment_status'', ''enrichment_next_attempt_at''],
      CreateIndex ''idx_raw_enrichment_lease'' ''news_articles_raw'' [''enrichment_lease_expires_at'', ''enrichment_lease_owner''] ]"

definition terminal_enrichment_downgrade :: "dialect \<Rightarrow> op list" where
  "terminal_enrichment_downgrade d =
    [ DropIndex ''idx_raw_enrichment_lease'' ''news_articles_raw'',
      DropIndex ''idx_raw_enrichment_lifecycle'' ''news_articles_raw'',
      DropColumn ''news_articles_raw'' ''enrichment_lease_expires_at'',
      DropColumn ''news_articles_raw'' ''enrichment_lease_owner'',
      DropColumn ''news_articles_raw'' ''enrichment_next_attempt_at'',
      DropColumn ''news_articles_raw'' ''enrichment_attempt_count'',
      DropColumn ''news_articles_raw'' ''enrichment_status'' ]"

definition retrieval_audit_counts :: "column list" where
  "retrieval_audit_counts =
    [ server_default ''0'' (column_of ''attempted_count'' IntegerT False),
      server_default ''0'' (column_of ''fetched_count'' IntegerT False),
      server_default ''0'' (column_of ''accepted_count'' IntegerT False),
      server_default ''0'' (column_of ''inserted_count'' IntegerT False),
      server_default ''0'' (column_of ''duplicate_count'' IntegerT False),
      server_default ''0'' (column_of ''rejected_count'' IntegerT False),
      server_default ''0'' (column_of ''failed_count'' IntegerT False) ]"

definition retrieval_audit_upgrade :: "dialect \<Rightarrow> op list" where
  "retrieval_audit_upgrade d =
    [ AddColumn ''news_articles_raw'' (column_of ''source_id'' (StringT 255) True),
      AddColumn ''news_articles_raw'' (column_of ''source_class'' (StringT 50) True),
      AddColumn ''news_articles_raw'' (column_of ''source_domains'' JsonT True),
      AddColumn ''news_articles_raw'' (column_of ''source_countries'' JsonT True),
      AddColumn ''news_articles_raw'' (column_of ''registry_version'' (StringT 255) True),
      AddColumn ''news_articles_raw'' (column_of ''retrieved_at'' DateTimeT True),
      AddColumn ''news_articles_raw'' (column_of ''source_published_at_raw'' (StringT 255) True),
      CreateIndex ''idx_raw_source_id'' ''news_articles_raw'' [''source_id''],
      CreateTable ''news_retrieval_runs''
        ([ ColumnI (column_of ''id'' IntegerT False),
          ColumnI (column_of ''run_key'' (StringT 255) False),
          ColumnI (column_of ''status'' (StringT 30) False),
          ColumnI (column_of ''registry_version'' (StringT 255) False),
          ColumnI (column_of ''lease_owner'' (StringT 255) True),
          ColumnI (column_of ''lease_expires_at'' DateTimeT True) ] @
        map ColumnI retrieval_audit_counts @
        [ ColumnI (column_of ''started_at'' DateTimeT False),
          ColumnI (column_of ''finished_at'' DateTimeT True),
          ColumnI (server_default ''now()'' (column_of ''created_at'' DateTimeT False)),
          ColumnI (server_default ''now()'' (column_of ''updated_at'' DateTimeT False)),
          PrimaryKeyI [''id''],
          UniqueI (Some ''uq_news_retrieval_runs_run_key'') [''run_key''] ]),
      CreateIndex ''idx_retrieval_run_status_lease'' ''news_retrieval_runs'' [''status'', ''lease_expires_at''],
      CreateTable ''news_retrieval_source_outcomes''
        ([ ColumnI (column_of ''id'' IntegerT False),
          ColumnI (column_of ''run_id'' IntegerT False),
          ColumnI (column_of ''source_id'' (StringT 255) False),
          ColumnI (column_of ''status'' (StringT 30) False) ] @
        map ColumnI retrieval_audit_counts @
        [ ColumnI (server_default ''0'' (column_of ''within_run_duplicate_count'' IntegerT False)),
          ColumnI (server_default ''0'' (column_of ''database_duplicate_count'' IntegerT False)),
          ColumnI (server_default ''0'' (column_of ''response_bytes'' IntegerT False)),
          ColumnI (column_of ''started_at'' DateTimeT True),
          ColumnI (column_of ''finished_at'' DateTimeT True),
          ColumnI (column_of ''failure_code'' (StringT 50) True),
          ColumnI (column_of ''outcome_detail'' (StringT 500) True),
          ColumnI (column_of ''lease_owner'' (StringT 255) True),
          ColumnI (column_of ''lease_expires_at'' DateTimeT True),
          ColumnI (server_default ''now()'' (column_of ''created_at'' DateTimeT False)),
          ColumnI (server_default ''now()'' (column_of ''updated_at'' DateTimeT False)),
          ForeignKeyI ''run_id'' ''news_retrieval_runs'' Cascade,
          PrimaryKeyI [''id''],
          UniqueI (Some ''uq_retrieval_outcome_run_source'') [''run_id'', ''source_id''] ]),
      CreateIndex ''idx_retrieval_outcome_source_started'' ''news_retrieval_source_outcomes'' [''source_id'', ''started_at''],
      CreateTable ''news_retrieval_circuits''
        [ ColumnI (column_of ''id'' IntegerT False),
          ColumnI (column_of ''source_id'' (StringT 255) False),
          ColumnI (server_default ''0'' (column_of ''failure_count'' IntegerT False)),
          ColumnI (column_of ''open_until'' DateTimeT True),
          ColumnI (column_of ''probe_owner'' (StringT 255) True),
          ColumnI (column_of ''probe_expires_at'' DateTimeT True),
          ColumnI (server_default ''now()'' (column_of ''created_at'' DateTimeT False)),
          ColumnI (server_default ''now()'' (column_of ''updated_at'' DateTimeT False)),
          PrimaryKeyI [''id''],
          UniqueI (Some ''uq_retrieval_circuit_source'') [''source_id''] ] ]"

definition retrieval_audit_downgrade :: "dialect \<Rightarrow> op list" where
  "retrieval_audit_downgrade d =
    [ DropTable ''news_retrieval_circuits'',
      DropIndex ''idx_retrieval_outcome_source_started'' ''news_retrieval_source_outcomes'',
      DropTable ''news_retrieval_source_outcomes'',
      DropIndex ''idx_retrieval_run_status_lease'' ''news_retrieval_runs'',
      DropTable ''news_retrieval_runs'',
      DropIndex ''idx_raw_source_id'' ''news_articles_raw'',
      DropColumn ''news_articles_raw'' ''source_published_at_raw'',
      DropColumn ''news_articles_raw'' ''retrieved_at'',
      DropColumn ''news_articles_raw'' ''registry_version'',
      DropColumn ''news_articles_raw'' ''source_countries'',
      DropColumn ''news_articles_raw'' ''source_domains'',
      DropColumn ''news_articles_raw'' ''source_class'',
      DropColumn ''news_articles_raw'' ''source_id'' ]"

definition add_auth_tenancy_audit_timestamps :: "column list" where
  "add_auth_tenancy_audit_timestamps =
    [ column_of ''created_at'' DateTimeT False,
      column_of ''updated_at'' DateTimeT False ]"

definition add_auth_tenancy_audit_create_tables :: "dialect \<Rightarrow> op list" where
  "add_auth_tenancy_audit_create_tables d =
    [ CreateTable ''organizations''
        ([ ColumnI (primary_col (column_of ''id'' IntegerT False)),
          ColumnI (unique_col (column_of ''public_id'' (StringT 64) False)),
          ColumnI (column_of ''name'' (StringT 200) False),
          ColumnI (unique_col (column_of ''slug'' (StringT 100) False)) ] @
        map ColumnI add_auth_tenancy_audit_timestamps),
      CreateTable ''users''
        ([ ColumnI (primary_col (column_of ''id'' IntegerT False)),
          ColumnI (unique_col (column_of ''public_id'' (StringT 64) False)),
          ColumnI (unique_col (column_of ''email'' (StringT 320) False)),
          ColumnI (column_of ''password_hash'' (StringT 255) True),
          ColumnI (column_of ''full_name'' (StringT 200) True),
          ColumnI (server_default ''true'' (column_of ''is_active'' BooleanT False)),
          ColumnI (server_default ''0'' (column_of ''token_version'' IntegerT False)),
          ColumnI (column_of ''last_login_at'' DateTimeT True) ] @
        map ColumnI add_auth_tenancy_audit_timestamps),
      CreateIndex ''idx_users_email'' ''users'' [''email''],
      CreateTable ''memberships''
        ([ ColumnI (primary_col (column_of ''id'' IntegerT False)),
          ColumnI (references ''users'' Cascade (column_of ''user_id'' IntegerT False)),
          ColumnI (references ''organizations'' Cascade (column_of ''organization_id'' IntegerT False)),
          ColumnI (server_default ''member'' (column_of ''role'' (StringT 20) False)) ] @
        map ColumnI add_auth_tenancy_audit_timestamps @
        [ UniqueI (Some ''uq_membership_user_org'') [''user_id'', ''organization_id''] ]),
      CreateIndex ''idx_membership_user'' ''memberships'' [''user_id''],
      CreateTable ''refresh_tokens''
        ([ ColumnI (primary_col (column_of ''id'' IntegerT False)),
          ColumnI (references ''users'' Cascade (column_of ''user_id'' IntegerT False)),
          ColumnI (unique_col (column_of ''token_hash'' (StringT 64) False)),
          ColumnI (column_of ''family_id'' (StringT 64) False),
          ColumnI (column_of ''expires_at'' DateTimeT False),
          ColumnI (column_of ''revoked_at'' DateTimeT True),
          ColumnI (column_of ''user_agent'' (StringT 300) True),
          ColumnI (column_of ''client_ip'' (StringT 45) True) ] @
        map ColumnI add_auth_tenancy_audit_timestamps),
      CreateIndex ''idx_refresh_user'' ''refresh_tokens'' [''user_id''],
      CreateIndex ''idx_refresh_family'' ''refresh_tokens'' [''family_id''],
      CreateTable ''audit_log''
        ([ ColumnI (primary_col (column_of ''id'' IntegerT False)),
          ColumnI (references ''organizations'' SetNull (column_of ''organization_id'' IntegerT True)),
          ColumnI (references ''users'' SetNull (column_of ''actor_user_id'' IntegerT True)),
          ColumnI (column_of ''actor_email'' (StringT 320) True),
          ColumnI (column_of ''action'' (StringT 80) False),
          ColumnI (column_of ''resource_type'' (StringT 80) True),
          ColumnI (column_of ''resource_id'' (StringT 200) True),
          ColumnI (column_of ''outcome'' (StringT 20) False),
          ColumnI (column_of ''detail'' JsonT False),
          ColumnI (column_of ''client_ip'' (StringT 45) True),
          ColumnI (column_of ''user_agent'' (StringT 300) True) ] @
        map ColumnI add_auth_tenancy_audit_timestamps),
      CreateIndex ''idx_audit_org_created'' ''audit_log'' [''organization_id'', ''created_at''],
      CreateIndex ''idx_audit_actor'' ''audit_log'' [''actor_user_id''],
      CreateIndex ''idx_audit_action'' ''audit_log'' [''action''] ]"

definition add_auth_tenancy_audit_upgrade :: "dialect \<Rightarrow> op list" where
  "add_auth_tenancy_audit_upgrade d =
    add_auth_tenancy_audit_create_tables d @
    [ BackfillIdentities ]"

definition add_auth_tenancy_audit_downgrade :: "dialect \<Rightarrow> op list" where
  "add_auth_tenancy_audit_downgrade d =
    [ DropIndex ''idx_audit_action'' ''audit_log'',
      DropIndex ''idx_audit_actor'' ''audit_log'',
      DropIndex ''idx_audit_org_created'' ''audit_log'',
      DropIndex ''idx_refresh_family'' ''refresh_tokens'',
      DropIndex ''idx_refresh_user'' ''refresh_tokens'',
      DropIndex ''idx_membership_user'' ''memberships'',
      DropIndex ''idx_users_email'' ''users'',
      DropTable ''audit_log'',
      DropTable ''refresh_tokens'',
      DropTable ''memberships'',
      DropTable ''users'',
      DropTable ''organizations'' ]"

definition add_supplier_registry_timestamps :: "column list" where
  "add_supplier_registry_timestamps =
    [ column_of ''created_at'' DateTimeT False,
      column_of ''updated_at'' DateTimeT False ]"

definition add_supplier_registry_upgrade :: "dialect \<Rightarrow> op list" where
  "add_supplier_registry_upgrade d =
    [ CreateTable ''suppliers''
        ([ ColumnI (primary_col (column_of ''id'' IntegerT False)),
          ColumnI (unique_col (column_of ''public_id'' (StringT 64) False)),
          ColumnI (column_of ''canonical_name'' (StringT 300) False),
          ColumnI (unique_col (column_of ''normalized_name'' (StringT 300) False)),
          ColumnI (column_of ''country'' (StringT 2) True),
          ColumnI (unique_col (column_of ''lei'' (StringT 20) True)),
          ColumnI (server_default ''true'' (column_of ''is_active'' BooleanT False)) ] @
        map ColumnI add_supplier_registry_timestamps),
      CreateIndex ''idx_suppliers_normalized'' ''suppliers'' [''normalized_name''],
      CreateTable ''supplier_aliases''
        ([ ColumnI (primary_col (column_of ''id'' IntegerT False)),
          ColumnI (references ''suppliers'' Cascade (column_of ''supplier_id'' IntegerT False)),
          ColumnI (column_of ''alias'' (StringT 300) False),
          ColumnI (unique_col (column_of ''normalized_alias'' (StringT 300) False)),
          ColumnI (server_default ''manual'' (column_of ''source'' (StringT 20) False)) ] @
        map ColumnI add_supplier_registry_timestamps),
      CreateIndex ''idx_alias_normalized'' ''supplier_aliases'' [''normalized_alias''],
      CreateIndex ''idx_alias_supplier'' ''supplier_aliases'' [''supplier_id''],
      CreateTable ''article_supplier_mentions''
        ([ ColumnI (primary_col (column_of ''id'' IntegerT False)),
          ColumnI (column_of ''processed_article_id'' IntegerT False),
          ColumnI (references ''suppliers'' SetNull (column_of ''supplier_id'' IntegerT True)),
          ColumnI (column_of ''surface_form'' (StringT 300) False),
          ColumnI (server_default ''0'' (column_of ''confidence'' FloatT False)) ] @
        map ColumnI add_supplier_registry_timestamps @
        [ UniqueI (Some ''uq_mention_article_surface'') [''processed_article_id'', ''surface_form''] ]),
      CreateIndex ''idx_mention_supplier'' ''article_supplier_mentions'' [''supplier_id''],
      CreateIndex ''idx_mention_article'' ''article_supplier_mentions'' [''processed_article_id''],
      AddColumn ''user_news_preferences'' (server_default ''[]'' (column_of ''preferred_supplier_ids'' JsonT False)),
      AddColumn ''user_news_preferences'' (server_default ''[]'' (column_of ''excluded_supplier_ids'' JsonT False)) ]"

definition add_supplier_registry_downgrade :: "dialect \<Rightarrow> op list" where
  "add_supplier_registry_downgrade d =
    [ DropColumn ''user_news_preferences'' ''preferred_supplier_ids'',
      DropColumn ''user_news_preferences'' ''excluded_supplier_ids'',
      DropIndex ''idx_mention_article'' ''article_supplier_mentions'',
      DropIndex ''idx_mention_supplier'' ''article_supplier_mentions'',
      DropIndex ''idx_alias_supplier'' ''supplier_aliases'',
      DropIndex ''idx_alias_normalized'' ''supplier_aliases'',
      DropIndex ''idx_suppliers_normalized'' ''suppliers'',
      DropTable ''article_supplier_mentions'',
      DropTable ''supplier_aliases'',
      DropTable ''suppliers'' ]"

definition risk_supplier_ids_upgrade :: "dialect \<Rightarrow> op list" where
  "risk_supplier_ids_upgrade d =
    [ AddColumn ''risk_events'' (server_default ''[]'' (column_of ''affected_supplier_ids'' JsonT False)) ]"

definition risk_supplier_ids_downgrade :: "dialect \<Rightarrow> op list" where
  "risk_supplier_ids_downgrade d =
    [ DropColumn ''risk_events'' ''affected_supplier_ids'' ]"

definition org_invitations_upgrade :: "dialect \<Rightarrow> op list" where
  "org_invitations_upgrade d =
    [ CreateTable ''organization_invitations''
        [ ColumnI (primary_col (column_of ''id'' IntegerT False)),
          ColumnI (references ''organizations'' Cascade (column_of ''organization_id'' IntegerT False)),
          ColumnI (references ''users'' SetNull (column_of ''invited_by_user_id'' IntegerT True)),
          ColumnI (column_of ''email'' (StringT 320) False),
          ColumnI (server_default ''member'' (column_of ''role'' (StringT 20) False)),
          ColumnI (unique_col (column_of ''token_hash'' (StringT 64) False)),
          ColumnI (column_of ''expires_at'' DateTimeT False),
          ColumnI (column_of ''accepted_at'' DateTimeT True),
          ColumnI (column_of ''created_at'' DateTimeT False),
          ColumnI (column_of ''updated_at'' DateTimeT False) ],
      CreateIndex ''idx_invitation_email'' ''organization_invitations'' [''email''],
      CreateIndex ''idx_invitation_organization'' ''organization_invitations'' [''organization_id''] ]"

definition org_invitations_downgrade :: "dialect \<Rightarrow> op list" where
  "org_invitations_downgrade d =
    [ DropIndex ''idx_invitation_organization'' ''organization_invitations'',
      DropIndex ''idx_invitation_email'' ''organization_invitations'',
      DropTable ''organization_invitations'' ]"

definition append_only_triggers :: "op list" where
  "append_only_triggers =
    [ CreateTrigger ''audit_log_no_update'' ''audit_log'' OnUpdate,
      CreateTrigger ''audit_log_no_delete'' ''audit_log'' OnDelete ]"

definition audit_immutable_upgrade :: "dialect \<Rightarrow> op list" where
  "audit_immutable_upgrade d =
    (if d = Postgresql then CreateFunction ''audit_log_is_append_only'' # append_only_triggers
     else append_only_triggers)"

definition audit_immutable_downgrade :: "dialect \<Rightarrow> op list" where
  "audit_immutable_downgrade d =
    [ DropTrigger ''audit_log_no_update'', DropTrigger ''audit_log_no_delete'' ] @
    (if d = Postgresql then [ DropFunction ''audit_log_is_append_only'' ] else [])"

definition dead_letters_upgrade :: "dialect \<Rightarrow> op list" where
  "dead_letters_upgrade d =
    [ CreateTable ''dead_letters''
        [ ColumnI (primary_col (column_of ''id'' IntegerT False)),
          ColumnI (column_of ''task_name'' (StringT 200) False),
          ColumnI (column_of ''task_id'' (StringT 200) True),
          ColumnI (column_of ''payload'' JsonT False),
          ColumnI (column_of ''error_type'' (StringT 200) False),
          ColumnI (column_of ''error_message'' TextT False),
          ColumnI (column_of ''traceback'' TextT False),
          ColumnI (server_default ''0'' (column_of ''retries'' IntegerT False)),
          ColumnI (column_of ''created_at'' DateTimeT False),
          ColumnI (column_of ''updated_at'' DateTimeT False) ],
      CreateIndex ''idx_dead_letter_task'' ''dead_letters'' [''task_name''],
      CreateIndex ''idx_dead_letter_created'' ''dead_letters'' [''created_at''] ]"

definition dead_letters_downgrade :: "dialect \<Rightarrow> op list" where
  "dead_letters_downgrade d =
    [ DropIndex ''idx_dead_letter_created'' ''dead_letters'',
      DropIndex ''idx_dead_letter_task'' ''dead_letters'',
      DropTable ''dead_letters'' ]"

definition llm_spend_upgrade :: "dialect \<Rightarrow> op list" where
  "llm_spend_upgrade d =
    [ CreateTable ''llm_spend''
        [ ColumnI (primary_col (column_of ''id'' IntegerT False)),
          ColumnI (column_of ''tenant'' (StringT 64) False),
          ColumnI (column_of ''spend_date'' DateT False),
          ColumnI (server_default ''0'' (column_of ''tokens_used'' IntegerT False)),
          ColumnI (server_default ''0'' (column_of ''calls_made'' IntegerT False)),
          ColumnI (column_of ''created_at'' DateTimeT False),
          ColumnI (column_of ''updated_at'' DateTimeT False),
          UniqueI (Some ''uq_llm_spend_tenant_day'') [''tenant'', ''spend_date''] ],
      CreateIndex ''idx_llm_spend_day'' ''llm_spend'' [''spend_date''] ]"

definition llm_spend_downgrade :: "dialect \<Rightarrow> op list" where
  "llm_spend_downgrade d =
    [ DropIndex ''idx_llm_spend_day'' ''llm_spend'',
      DropTable ''llm_spend'' ]"

definition watchlists_upgrade :: "dialect \<Rightarrow> op list" where
  "watchlists_upgrade d =
    [ CreateTable ''watchlists''
        [ ColumnI (primary_col (column_of ''id'' IntegerT False)),
          ColumnI (unique_col (column_of ''public_id'' (StringT 64) False)),
          ColumnI (references ''organizations'' Cascade (column_of ''organization_id'' IntegerT False)),
          ColumnI (column_of ''name'' (StringT 200) False),
          ColumnI (column_of ''normalized_name'' (StringT 200) False),
          ColumnI (references ''users'' SetNull (column_of ''created_by_user_id'' IntegerT True)),
          ColumnI (column_of ''created_at'' DateTimeT False),
          ColumnI (column_of ''updated_at'' DateTimeT False),
          UniqueI (Some ''uq_watchlist_org_name'') [''organization_id'', ''normalized_name''] ],
      CreateIndex ''idx_watchlist_organization'' ''watchlists'' [''organization_id''],
      CreateTable ''watchlist_entries''
        [ ColumnI (primary_col (column_of ''id'' IntegerT False)),
          ColumnI (references ''watchlists'' Cascade (column_of ''watchlist_id'' IntegerT False)),
          ColumnI (references ''suppliers'' Cascade (column_of ''supplier_id'' IntegerT False)),
          ColumnI (references ''users'' SetNull (column_of ''added_by_user_id'' IntegerT True)),
          ColumnI (column_of ''created_at'' DateTimeT False),
          ColumnI (column_of ''updated_at'' DateTimeT False),
          UniqueI (Some ''uq_watchlist_entry'') [''watchlist_id'', ''supplier_id''] ],
      CreateIndex ''idx_watchlist_entry_supplier'' ''watchlist_entries'' [''supplier_id''] ]"

definition watchlists_downgrade :: "dialect \<Rightarrow> op list" where
  "watchlists_downgrade d =
    [ DropIndex ''idx_watchlist_entry_supplier'' ''watchlist_entries'',
      DropTable ''watchlist_entries'',
      DropIndex ''idx_watchlist_organization'' ''watchlists'',
      DropTable ''watchlists'' ]"

definition alert_rules_upgrade :: "dialect \<Rightarrow> op list" where
  "alert_rules_upgrade d =
    [ CreateTable ''alert_rules''
        [ ColumnI (primary_col (column_of ''id'' IntegerT False)),
          ColumnI (unique_col (column_of ''public_id'' (StringT 64) False)),
          ColumnI (references ''organizations'' Cascade (column_of ''organization_id'' IntegerT False)),
          ColumnI (column_of ''name'' (StringT 200) False),
          ColumnI (column_of ''normalized_name'' (StringT 200) False),
          ColumnI (server_default ''high'' (column_of ''min_severity'' (StringT 20) False)),
          ColumnI (server_default ''[]'' (column_of ''risk_types'' JsonT False)),
          ColumnI (server_default ''true'' (column_of ''is_enabled'' BooleanT False)),
          ColumnI (references ''users'' SetNull (column_of ''created_by_user_id'' IntegerT True)),
          ColumnI (column_of ''created_at'' DateTimeT False),
          ColumnI (column_of ''updated_at'' DateTimeT False),
          UniqueI (Some ''uq_alert_rule_org_name'') [''organization_id'', ''normalized_name''] ],
      CreateIndex ''idx_alert_rule_organization'' ''alert_rules'' [''organization_id''] ]"

definition alert_rules_downgrade :: "dialect \<Rightarrow> op list" where
  "alert_rules_downgrade d =
    [ DropIndex ''idx_alert_rule_organization'' ''alert_rules'',
      DropTable ''alert_rules'' ]"

definition notifications_upgrade :: "dialect \<Rightarrow> op list" where
  "notifications_upgrade d =
    [ CreateTable ''notifications''
        [ ColumnI (primary_col (column_of ''id'' IntegerT False)),
          ColumnI (unique_col (column_of ''public_id'' (StringT 64) False)),
          ColumnI (references ''organizations'' Cascade (column_of ''organization_id'' IntegerT False)),
          ColumnI (references ''alert_rules'' Cascade (column_of ''alert_rule_id'' IntegerT False)),
          ColumnI (references ''risk_events'' Cascade (column_of ''risk_event_id'' IntegerT False)),
          ColumnI (references ''users'' Cascade (column_of ''recipient_user_id'' IntegerT False)),
          ColumnI (server_default ''in_app'' (column_of ''channel'' (StringT 20) False)),
          ColumnI (column_of ''subject'' (StringT 300) False),
          ColumnI (column_of ''body'' TextT False),
          ColumnI (server_default ''[]'' (column_of ''supplier_public_ids'' JsonT False)),
          ColumnI (server_default ''pending'' (column_of ''status'' (StringT 20) False)),
          ColumnI (server_default ''0'' (column_of ''attempts'' IntegerT False)),
          ColumnI (column_of ''last_error'' TextT True),
          ColumnI (column_of ''delivered_at'' DateTimeT True),
          ColumnI (column_of ''read_at'' DateTimeT True),
          ColumnI (column_of ''created_at'' DateTimeT False),
          ColumnI (column_of ''updated_at'' DateTimeT False),
          UniqueI (Some ''uq_notification_idempotency'') [''alert_rule_id'', ''risk_event_id'', ''recipient_user_id'', ''channel''] ],
      CreateIndex ''idx_notification_recipient'' ''notifications'' [''recipient_user_id'', ''read_at''],
      CreateIndex ''idx_notification_status'' ''notifications'' [''status''] ]"

definition notifications_downgrade :: "dialect \<Rightarrow> op list" where
  "notifications_downgrade d =
    [ DropIndex ''idx_notification_status'' ''notifications'',
      DropIndex ''idx_notification_recipient'' ''notifications'',
      DropTable ''notifications'' ]"

definition pgvector_upgrade :: "dialect \<Rightarrow> op list" where
  "pgvector_upgrade d = (if d \<noteq> Postgresql then [] else [ CreateExtension ''vector'' ])"

definition pgvector_downgrade :: "dialect \<Rightarrow> op list" where
  "pgvector_downgrade d =
    []"

definition fts_configurations :: "(string \<times> string) list" where
  "fts_configurations =
    [(''en'', ''english''), (''de'', ''german''), (''fr'', ''french''), (''es'', ''spanish''),
     (''it'', ''italian''), (''nl'', ''dutch''), (''pt'', ''portuguese''), (''ru'', ''russian'')]"

definition fts_fallback :: string where
  "fts_fallback = ''simple''"

definition processed_fields :: "(string \<times> string) list" where
  "processed_fields = [(''normalized_title'', ''A''), (''summary'', ''B'')]"

definition raw_fields :: "(string \<times> string) list" where
  "raw_fields = [(''title'', ''A''), (''description'', ''B''), (''content_snippet'', ''C'')]"

definition quoted :: "string \<Rightarrow> string" where
  "quoted s = [CHR 39] @ s @ [CHR 39]"

definition fts_weighted :: "(string \<times> string) list \<Rightarrow> string \<Rightarrow> string" where
  "fts_weighted fs configuration = join '' || '' (map (\<lambda>(c, weight).
     ''setweight(to_tsvector('' @ quoted configuration @ '', coalesce('' @ c @ '', '' @ quoted [] @ '')), '' @
     quoted weight @ '')'') fs)"

definition fts_expression :: "(string \<times> string) list \<Rightarrow> string" where
  "fts_expression fs =
     (let branches = join '' '' (map (\<lambda>(code, configuration).
        ''WHEN '' @ quoted code @ '' THEN '' @ fts_weighted fs configuration) fts_configurations)
      in ''CASE language '' @ branches @ '' ELSE '' @ fts_weighted fs fts_fallback @ '' END'')"

definition fts_tables :: "(string \<times> (string \<times> string) list \<times> string) list" where
  "fts_tables = [(''news_articles_processed'', processed_fields, ''idx_processed_search_vector''),
     (''news_articles_raw'', raw_fields, ''idx_raw_search_vector'')]"

definition article_fts_upgrade :: "dialect \<Rightarrow> op list" where
  "article_fts_upgrade d = (if d \<noteq> Postgresql then []
     else concat (map (\<lambda>(t, fs, i).
       [ AddColumn t (column_of ''search_vector'' (TsvectorT (fts_expression fs)) True),
         CreateIndex i t [''search_vector''] ]) fts_tables))"

definition article_fts_downgrade :: "dialect \<Rightarrow> op list" where
  "article_fts_downgrade d = (if d \<noteq> Postgresql then []
     else concat (map (\<lambda>(t, fs, i).
       [ DropIndexIfExists i, DropColumnIfExists t ''search_vector'' ]) fts_tables))"

definition article_embeddings_upgrade :: "dialect \<Rightarrow> op list" where
  "article_embeddings_upgrade d =
    [ CreateTable ''article_embeddings''
        [ ColumnI (primary_col (column_of ''id'' IntegerT False)),
          ColumnI (server_default ''now()'' (column_of ''created_at'' DateTimeT False)),
          ColumnI (server_default ''now()'' (column_of ''updated_at'' DateTimeT False)),
          ColumnI (references ''news_articles_processed'' Cascade (column_of ''processed_article_id'' IntegerT False)),
          ColumnI (column_of ''model'' (StringT 100) False),
          ColumnI (column_of ''dimensions'' IntegerT False),
          ColumnI (column_of ''embedding'' (VariantT VectorT JsonT) False),
          UniqueI (Some ''uq_article_embedding_model'') [''processed_article_id'', ''model''] ],
      CreateIndex ''idx_article_embeddings_model'' ''article_embeddings'' [''model''] ]"

definition article_embeddings_downgrade :: "dialect \<Rightarrow> op list" where
  "article_embeddings_downgrade d =
    [ DropIndex ''idx_article_embeddings_model'' ''article_embeddings'',
      DropTable ''article_embeddings'' ]"

definition search_feedback_upgrade :: "dialect \<Rightarrow> op list" where
  "search_feedback_upgrade d =
    [ CreateTable ''search_feedback''
        [ ColumnI (primary_col (column_of ''id'' IntegerT False)),
          ColumnI (server_default ''now()'' (column_of ''created_at'' DateTimeT False)),
          ColumnI (server_default ''now()'' (column_of ''updated_at'' DateTimeT False)),
          ColumnI (references ''organizations'' Cascade (column_of ''organization_id'' IntegerT False)),
          ColumnI (references ''users'' Cascade (column_of ''user_id'' IntegerT False)),
          ColumnI (column_of ''query_text'' (StringT 200) False),
          ColumnI (column_of ''query_fingerprint'' (StringT 64) False),
          ColumnI (column_of ''processed_article_id'' IntegerT False),
          ColumnI (column_of ''rank_position'' IntegerT False),
          ColumnI (column_of ''signal'' (StringT 20) False),
          ColumnI (column_of ''mode'' (StringT 20) False),
          UniqueI (Some ''uq_search_feedback_signal'') [''user_id'', ''query_fingerprint'', ''processed_article_id'', ''signal''] ],
      CreateIndex ''idx_search_feedback_organization'' ''search_feedback'' [''organization_id''],
      CreateIndex ''idx_search_feedback_fingerprint'' ''search_feedback'' [''query_fingerprint''] ]"

definition search_feedback_downgrade :: "dialect \<Rightarrow> op list" where
  "search_feedback_downgrade d =
    [ DropIndex ''idx_search_feedback_fingerprint'' ''search_feedback'',
      DropIndex ''idx_search_feedback_organization'' ''search_feedback'',
      DropTable ''search_feedback'' ]"

definition agent_runs_timestamps :: "column list" where
  "agent_runs_timestamps =
    [ primary_col (column_of ''id'' IntegerT False),
      server_default ''now()'' (column_of ''created_at'' DateTimeT False),
      server_default ''now()'' (column_of ''updated_at'' DateTimeT False) ]"

definition agent_runs_upgrade :: "dialect \<Rightarrow> op list" where
  "agent_runs_upgrade d =
    [ CreateTable ''agent_runs''
        (map ColumnI agent_runs_timestamps @
        [ ColumnI (unique_col (column_of ''public_id'' (StringT 64) False)),
          ColumnI (references ''organizations'' Cascade (column_of ''organization_id'' IntegerT False)),
          ColumnI (references ''users'' Cascade (column_of ''requested_by_user_id'' IntegerT False)),
          ColumnI (column_of ''supplier_public_id'' (StringT 64) False),
          ColumnI (server_default ''running'' (column_of ''status'' (StringT 20) False)),
          ColumnI (column_of ''model'' (StringT 100) False),
          ColumnI (server_default ''0'' (column_of ''step_count'' IntegerT False)),
          ColumnI (server_default ''0'' (column_of ''prompt_tokens'' IntegerT False)),
          ColumnI (server_default ''0'' (column_of ''completion_tokens'' IntegerT False)),
          ColumnI (column_of ''started_at'' DateTimeT False),
          ColumnI (column_of ''finished_at'' DateTimeT True),
          ColumnI (column_of ''failure_reason'' (StringT 100) True) ]),
      CreateIndex ''idx_agent_runs_organization'' ''agent_runs'' [''organization_id''],
      CreateIndex ''idx_agent_runs_supplier'' ''agent_runs'' [''supplier_public_id''],
      CreateTable ''agent_steps''
        (map ColumnI agent_runs_timestamps @
        [ ColumnI (references ''agent_runs'' Cascade (column_of ''run_id'' IntegerT False)),
          ColumnI (column_of ''ordinal'' IntegerT False),
          ColumnI (column_of ''kind'' (StringT 20) False),
          ColumnI (column_of ''tool_name'' (StringT 100) True),
          ColumnI (column_of ''payload_json'' JsonT False),
          UniqueI (Some ''uq_agent_step_ordinal'') [''run_id'', ''ordinal''] ]),
      CreateIndex ''idx_agent_steps_tool'' ''agent_steps'' [''tool_name''],
      CreateTable ''agent_recommendations''
        (map ColumnI agent_runs_timestamps @
        [ ColumnI (references ''agent_runs'' Cascade (column_of ''run_id'' IntegerT False)),
          ColumnI (column_of ''ordinal'' IntegerT False),
          ColumnI (column_of ''title'' (StringT 300) False),
          ColumnI (column_of ''rationale'' TextT False),
          ColumnI (column_of ''evidence_event_keys'' JsonT False),
          ColumnI (server_default ''proposed'' (column_of ''status'' (StringT 20) False)),
          ColumnI (references ''users'' SetNull (column_of ''decided_by_user_id'' IntegerT True)),
          ColumnI (column_of ''decided_at'' DateTimeT True),
          ColumnI (column_of ''decision_note'' TextT True),
          UniqueI (Some ''uq_agent_recommendation_ordinal'') [''run_id'', ''ordinal''] ]),
      CreateIndex ''idx_agent_recommendations_status'' ''agent_recommendations'' [''status''] ]"

definition agent_runs_downgrade :: "dialect \<Rightarrow> op list" where
  "agent_runs_downgrade d =
    [ DropIndex ''idx_agent_recommendations_status'' ''agent_recommendations'',
      DropTable ''agent_recommendations'',
      DropIndex ''idx_agent_steps_tool'' ''agent_steps'',
      DropTable ''agent_steps'',
      DropIndex ''idx_agent_runs_supplier'' ''agent_runs'',
      DropIndex ''idx_agent_runs_organization'' ''agent_runs'',
      DropTable ''agent_runs'' ]"

definition audit_actor_no_fk_upgrade :: "dialect \<Rightarrow> op list" where
  "audit_actor_no_fk_upgrade d =
    (if d = Sqlite then []
     else [ DropConstraint ''audit_log_actor_user_id_fkey'' ''audit_log'' ])"

definition audit_actor_no_fk_downgrade :: "dialect \<Rightarrow> op list" where
  "audit_actor_no_fk_downgrade d =
    (if d = Sqlite then []
     else [ CreateForeignKey ''audit_log_actor_user_id_fkey'' ''audit_log'' ''users'' ''actor_user_id'' SetNull ])"

definition chain :: "revision list" where
  "chain =
    [ \<lparr>rev_id = ''9739a6693138'', rev_down = None,
        rev_upgrade = initial_upgrade, rev_downgrade = initial_downgrade\<rparr>,
      \<lparr>rev_id = ''1f8f95ad327b'', rev_down = Some ''9739a6693138'',
        rev_upgrade = create_schema_upgrade, rev_downgrade = create_schema_downgrade\<rparr>,
      \<lparr>rev_id = ''1a2b3c_add_signals_tables'', rev_down = Some ''1f8f95ad327b'',
        rev_upgrade = add_signals_tables_upgrade, rev_downgrade = add_signals_tables_downgrade\<rparr>,
      \<lparr>rev_id = ''a1b2c3_add_chat_tables'', rev_down = Some ''1a2b3c_add_signals_tables'',
        rev_upgrade = add_chat_tables_upgrade, rev_downgrade = add_chat_tables_downgrade\<rparr>,
      \<lparr>rev_id = ''b2c3d4_signals_impact_areas_json'', rev_down = Some ''a1b2c3_add_chat_tables'',
        rev_upgrade = signals_impact_areas_json_upgrade, rev_downgrade = signals_impact_areas_json_downgrade\<rparr>,
      \<lparr>rev_id = ''c3d4e5_add_platform_language'', rev_down = Some ''b2c3d4_signals_impact_areas_json'',
        rev_upgrade = add_platform_language_upgrade, rev_downgrade = add_platform_language_downgrade\<rparr>,
      \<lparr>rev_id = ''d4e5f6_add_risk_events'', rev_down = Some ''c3d4e5_add_platform_language'',
        rev_upgrade = add_risk_events_upgrade, rev_downgrade = add_risk_events_downgrade\<rparr>,
      \<lparr>rev_id = ''e5f6a7_risk_scan_tracking'', rev_down = Some ''d4e5f6_add_risk_events'',
        rev_upgrade = risk_scan_tracking_upgrade, rev_downgrade = risk_scan_tracking_downgrade\<rparr>,
      \<lparr>rev_id = ''f6a7b8_enrichment_cache'', rev_down = Some ''e5f6a7_risk_scan_tracking'',
        rev_upgrade = enrichment_cache_upgrade, rev_downgrade = enrichment_cache_downgrade\<rparr>,
      \<lparr>rev_id = ''f7b8c9_terminal_enrichment'', rev_down = Some ''f6a7b8_enrichment_cache'',
        rev_upgrade = terminal_enrichment_upgrade, rev_downgrade = terminal_enrichment_downgrade\<rparr>,
      \<lparr>rev_id = ''f8c9d0_retrieval_audit'', rev_down = Some ''f7b8c9_terminal_enrichment'',
        rev_upgrade = retrieval_audit_upgrade, rev_downgrade = retrieval_audit_downgrade\<rparr>,
      \<lparr>rev_id = ''g1h2i3_add_auth_tenancy_audit'', rev_down = Some ''f8c9d0_retrieval_audit'',
        rev_upgrade = add_auth_tenancy_audit_upgrade, rev_downgrade = add_auth_tenancy_audit_downgrade\<rparr>,
      \<lparr>rev_id = ''h2i3j4_add_supplier_registry'', rev_down = Some ''g1h2i3_add_auth_tenancy_audit'',
        rev_upgrade = add_supplier_registry_upgrade, rev_downgrade = add_supplier_registry_downgrade\<rparr>,
      \<lparr>rev_id = ''i3j4k5_risk_supplier_ids'', rev_down = Some ''h2i3j4_add_supplier_registry'',
        rev_upgrade = risk_supplier_ids_upgrade, rev_downgrade = risk_supplier_ids_downgrade\<rparr>,
      \<lparr>rev_id = ''j4k5l6_org_invitations'', rev_down = Some ''i3j4k5_risk_supplier_ids'',
        rev_upgrade = org_invitations_upgrade, rev_downgrade = org_invitations_downgrade\<rparr>,
      \<lparr>rev_id = ''k5l6m7_audit_immutable'', rev_down = Some ''j4k5l6_org_invitations'',
        rev_upgrade = audit_immutable_upgrade, rev_downgrade = audit_immutable_downgrade\<rparr>,
      \<lparr>rev_id = ''l6m7n8_dead_letters'', rev_down = Some ''k5l6m7_audit_immutable'',
        rev_upgrade = dead_letters_upgrade, rev_downgrade = dead_letters_downgrade\<rparr>,
      \<lparr>rev_id = ''m7n8o9_llm_spend'', rev_down = Some ''l6m7n8_dead_letters'',
        rev_upgrade = llm_spend_upgrade, rev_downgrade = llm_spend_downgrade\<rparr>,
      \<lparr>rev_id = ''n8o9p0_watchlists'', rev_down = Some ''m7n8o9_llm_spend'',
        rev_upgrade = watchlists_upgrade, rev_downgrade = watchlists_downgrade\<rparr>,
      \<lparr>rev_id = ''o9p0q1_alert_rules'', rev_down = Some ''n8o9p0_watchlists'',
        rev_upgrade = alert_rules_upgrade, rev_downgrade = alert_rules_downgrade\<rparr>,
      \<lparr>rev_id = ''p0q1r2_notifications'', rev_down = Some ''o9p0q1_alert_rules'',
        rev_upgrade = notifications_upgrade, rev_downgrade = notifications_downgrade\<rparr>,
      \<lparr>rev_id = ''q2r3s4_pgvector'', rev_down = Some ''p0q1r2_notifications'',
        rev_upgrade = pgvector_upgrade, rev_downgrade = pgvector_downgrade\<rparr>,
      \<lparr>rev_id = ''r3s4t5_article_fts'', rev_down = Some ''q2r3s4_pgvector'',
        rev_upgrade = article_fts_upgrade, rev_downgrade = article_fts_downgrade\<rparr>,
      \<lparr>rev_id = ''s4t5u6_article_embeddings'', rev_down = Some ''r3s4t5_article_fts'',
        rev_upgrade = article_embeddings_upgrade, rev_downgrade = article_embeddings_downgrade\<rparr>,
      \<lparr>rev_id = ''t5u6v7_search_feedback'', rev_down = Some ''s4t5u6_article_embeddings'',
        rev_upgrade = search_feedback_upgrade, rev_downgrade = search_feedback_downgrade\<rparr>,
      \<lparr>rev_id = ''u6v7w8_agent_runs'', rev_down = Some ''t5u6v7_search_feedback'',
        rev_upgrade = agent_runs_upgrade, rev_downgrade = agent_runs_downgrade\<rparr>,
      \<lparr>rev_id = ''v7w8x9_audit_actor_no_fk'', rev_down = Some ''u6v7w8_agent_runs'',
        rev_upgrade = audit_actor_no_fk_upgrade, rev_downgrade = audit_actor_no_fk_downgrade\<rparr> ]"

lemmas migration_defs =
  initial_upgrade_def initial_downgrade_def create_schema_upgrade_def
  create_schema_downgrade_def add_signals_tables_upgrade_def add_signals_tables_downgrade_def
  add_chat_tables_upgrade_def add_chat_tables_downgrade_def signals_impact_areas_json_upgrade_def
  signals_impact_areas_json_downgrade_def add_platform_language_upgrade_def add_platform_language_downgrade_def
  add_risk_events_upgrade_def add_risk_events_downgrade_def risk_scan_tracking_upgrade_def
  risk_scan_tracking_downgrade_def enrichment_cache_create_processed_identity_constraint_def enrichment_cache_upgrade_def
  enrichment_cache_drop_processed_identity_constraint_def enrichment_cache_downgrade_def terminal_enrichment_upgrade_def
  terminal_enrichment_downgrade_def retrieval_audit_counts_def retrieval_audit_upgrade_def
  retrieval_audit_downgrade_def add_auth_tenancy_audit_timestamps_def add_auth_tenancy_audit_create_tables_def
  add_auth_tenancy_audit_upgrade_def add_auth_tenancy_audit_downgrade_def add_supplier_registry_timestamps_def
  add_supplier_registry_upgrade_def add_supplier_registry_downgrade_def risk_supplier_ids_upgrade_def
  risk_supplier_ids_downgrade_def org_invitations_upgrade_def org_invitations_downgrade_def
  append_only_triggers_def audit_immutable_upgrade_def audit_immutable_downgrade_def
  dead_letters_upgrade_def dead_letters_downgrade_def llm_spend_upgrade_def
  llm_spend_downgrade_def watchlists_upgrade_def watchlists_downgrade_def
  alert_rules_upgrade_def alert_rules_downgrade_def notifications_upgrade_def
  notifications_downgrade_def pgvector_upgrade_def pgvector_downgrade_def
  fts_tables_def article_fts_upgrade_def article_fts_downgrade_def
  article_embeddings_upgrade_def article_embeddings_downgrade_def search_feedback_upgrade_def
  search_feedback_downgrade_def agent_runs_timestamps_def agent_runs_upgrade_def
  agent_runs_downgrade_def audit_actor_no_fk_upgrade_def audit_actor_no_fk_downgrade_def

end
