(* ===== verification/SchemaSnapshots.thy ===== *)
theory SchemaSnapshots
  imports Migrations
begin

text \<open>
  The database at two revisions of the chain, as a schema dump shows it: before the identity
  tables (\<^verbatim>\<open>f8c9d0_retrieval_audit\<close>) and at the head. \<open>MigrationFacts\<close> proves that the migrations
  lead to them; what is read off the head afterwards needs no run of the chain.
\<close>

definition schema_before_identity :: schema where
  "schema_before_identity = Schema
    [ (''news_article_matches'', Table
       [ column_of ''user_id'' (StringT 100) False,
         column_of ''processed_article_id'' IntegerT False,
         column_of ''matched_supplier'' (StringT 255) True,
         column_of ''matched_region'' (StringT 255) True,
         column_of ''matched_category'' (StringT 255) True,
         column_of ''matched_event_id'' (StringT 100) True,
         column_of ''match_score'' FloatT False,
         column_of ''reason_json'' JsonT False,
         primary_col (column_of ''id'' IntegerT False),
         server_default ''now()'' (column_of ''created_at'' DateTimeT False),
         server_default ''now()'' (column_of ''updated_at'' DateTimeT False) ]
       [] []
       [(''idx_matched_supplier'', [''matched_supplier'']),
        (''idx_user_article'', [''user_id'', ''processed_article_id''])]),
      (''news_articles_processed'', Table
       [ column_of ''raw_article_id'' IntegerT False,
         column_of ''normalized_title'' (StringT 500) False,
         column_of ''summary'' TextT False,
         column_of ''top_level_category'' (StringT 50) False,
         column_of ''signal_tags'' JsonT True,
         column_of ''priority_signal'' (StringT 100) True,
         column_of ''detected_regions'' JsonT True,
         column_of ''detected_suppliers'' JsonT True,
         column_of ''detected_categories'' JsonT True,
         column_of ''signal_score'' FloatT False,
         column_of ''processing_status'' (StringT 20) False,
         column_of ''llm_model'' (StringT 100) True,
         column_of ''language'' (StringT 10) False,
         column_of ''processed_at'' DateTimeT False,
         primary_col (column_of ''id'' IntegerT False),
         server_default ''now()'' (column_of ''created_at'' DateTimeT False),
         server_default ''now()'' (column_of ''updated_at'' DateTimeT False),
         column_of ''risk_event_checked_at'' DateTimeT True,
         column_of ''enrichment_method'' (StringT 20) True,
         column_of ''enrichment_reason'' (StringT 100) True,
         column_of ''enrichment_policy_version'' (StringT 100) True,
         column_of ''content_fingerprint'' (StringT 255) True,
         column_of ''deterministic_confidence'' FloatT True,
         server_default ''false'' (column_of ''llm_used'' BooleanT False) ]
       [(''uq_news_articles_processed_raw_article_id'', [''raw_article_id''])] []
       [(''idx_processed_at'', [''processed_at'']),
        (''idx_raw_article_id'', [''raw_article_id'']),
        (''idx_signal_score'', [''signal_score'']),
        (''idx_top_level_category'', [''top_level_category'']),
        (''idx_risk_event_scan_pending'', [''risk_event_checked_at'', ''processed_at''])]),
      (''news_articles_raw'', Table
       [ column_of ''provider'' (StringT 50) False,
         column_of ''provider_article_id'' (StringT 255) True,
         column_of ''query_group'' (StringT 100) False,
         column_of ''ingest_hash'' (StringT 255) False,
         column_of ''title'' (StringT 500) False,
         column_of ''description'' TextT True,
         column_of ''content_snippet'' TextT True,
         column_of ''article_url'' (StringT 2000) False,
         column_of ''canonical_url'' (StringT 2000) True,
         column_of ''source_name'' (StringT 255) False,
         column_of ''source_url'' (StringT 2000) True,
         column_of ''published_at'' DateTimeT False,
         column_of ''language'' (StringT 10) False,
         column_of ''raw_payload_json'' JsonT True,
         column_of ''ingested_at'' DateTimeT False,
         primary_col (column_of ''id'' IntegerT False),
         server_default ''now()'' (column_of ''created_at'' DateTimeT False),
         server_default ''now()'' (column_of ''updated_at'' DateTimeT False),
         column_of ''enrichment_status'' (StringT 30) True,
         server_default ''0'' (column_of ''enrichment_attempt_count'' IntegerT False),
         column_of ''enrichment_next_attempt_at'' DateTimeT True,
         column_of ''enrichment_lease_owner'' (StringT 100) True,
         column_of ''enrichment_lease_expires_at'' DateTimeT True,
         column_of ''source_id'' (StringT 255) True,
         column_of ''source_class'' (StringT 50) True,
         column_of ''source_domains'' JsonT True,
         column_of ''source_countries'' JsonT True,
         column_of ''registry_version'' (StringT 255) True,
         column_of ''retrieved_at'' DateTimeT True,
         column_of ''source_published_at_raw'' (StringT 255) True ]
       [(''news_articles_raw_ingest_hash_key'', [''ingest_hash''])] []
       [(''idx_ingest_hash'', [''ingest_hash'']),
        (''idx_provider_article_id'', [''provider'', ''provider_article_id'']),
        (''idx_published_at'', [''published_at'']),
        (''idx_source_name'', [''source_name'']),
        (''idx_raw_enrichment_lifecycle'', [''enrichment_status'', ''enrichment_next_attempt_at'']),
        (''idx_raw_enrichment_lease'', [''enrichment_lease_expires_at'', ''enrichment_lease_owner'']),
        (''idx_raw_source_id'', [''source_id''])]),
      (''news_pipeline_runs'', Table
       [ column_of ''started_at'' DateTimeT False,
         column_of ''finished_at'' DateTimeT True,
         column_of ''status'' (StringT 20) False,
         column_of ''articles_fetched'' IntegerT False,
         column_of ''articles_kept'' IntegerT False,
         column_of ''articles_rejected'' IntegerT False,
         column_of ''duplicates_removed'' IntegerT False,
         column_of ''articles_sent_to_llm'' IntegerT False,
         column_of ''feeds_materialized'' IntegerT False,
         column_of ''error_summary'' TextT True,
         primary_col (column_of ''id'' IntegerT False),
         server_default ''now()'' (column_of ''created_at'' DateTimeT False),
         server_default ''now()'' (column_of ''updated_at'' DateTimeT False) ]
       [] []
       [(''idx_pipeline_runs_started_at'', [''started_at'']),
        (''idx_pipeline_runs_status'', [''status''])]),
      (''news_priority_events'', Table
       [ column_of ''processed_article_id'' IntegerT False,
         column_of ''priority_type'' (StringT 50) False,
         column_of ''detected_at'' DateTimeT False,
         column_of ''status'' (StringT 20) False,
         column_of ''dispatch_window'' DateTimeT True,
         primary_col (column_of ''id'' IntegerT False),
         server_default ''now()'' (column_of ''created_at'' DateTimeT False),
         server_default ''now()'' (column_of ''updated_at'' DateTimeT False) ]
       [] []
       [(''idx_priority_type'', [''priority_type'']),
        (''idx_priority_events_status'', [''status''])]),
      (''user_news_feed'', Table
       [ column_of ''user_id'' (StringT 100) False,
         column_of ''processed_article_id'' IntegerT False,
         column_of ''top_level_category'' (StringT 50) False,
         column_of ''rank_score'' FloatT False,
         column_of ''match_reasons'' JsonT False,
         column_of ''related_sourcing_event_ids'' JsonT True,
         column_of ''surfaced_at'' DateTimeT False,
         column_of ''is_read'' BooleanT False,
         column_of ''is_hidden'' BooleanT False,
         primary_col (column_of ''id'' IntegerT False),
         server_default ''now()'' (column_of ''created_at'' DateTimeT False),
         server_default ''now()'' (column_of ''updated_at'' DateTimeT False) ]
       [] []
       [(''idx_rank_score'', [''rank_score'']),
        (''idx_user_feed_user_id'', [''user_id'']),
        (''idx_user_surfaced'', [''user_id'', ''surfaced_at''])]),
      (''user_news_preferences'', Table
       [ column_of ''user_id'' (StringT 100) False,
         column_of ''preferred_categories'' JsonT False,
         column_of ''preferred_suppliers'' JsonT False,
         column_of ''preferred_regions'' JsonT False,
         column_of ''preferred_signals'' JsonT False,
         column_of ''excluded_categories'' JsonT False,
         column_of ''excluded_suppliers'' JsonT False,
         column_of ''excluded_regions'' JsonT False,
         column_of ''excluded_signals'' JsonT False,
         column_of ''excluded_topics'' JsonT False,
         column_of ''onboarding_completed'' BooleanT False,
         primary_col (column_of ''id'' IntegerT False),
         server_default ''now()'' (column_of ''created_at'' DateTimeT False),
         server_default ''now()'' (column_of ''updated_at'' DateTimeT False),
         column_of ''platform_language'' (StringT 10) False ]
       [(''user_news_preferences_user_id_key'', [''user_id''])] []
       [(''idx_user_preferences_user_id'', [''user_id''])]),
      (''signals'', Table
       [ server_default ''gen_random_uuid()'' (primary_col (column_of ''id'' UuidT False)),
         column_of ''signal_type'' (StringT 50) False,
         column_of ''entity_id'' UuidT True,
         column_of ''article_id'' UuidT True,
         column_of ''confidence'' FloatT True,
         column_of ''severity'' (StringT 20) True,
         column_of ''impact_areas'' JsonT True,
         column_of ''raw_signal'' JsonbT True,
         server_default ''now()'' (column_of ''created_at'' DateTimeT False),
         server_default ''now()'' (column_of ''updated_at'' DateTimeT False) ]
       [] []
       []),
      (''signal_metadata'', Table
       [ server_default ''gen_random_uuid()'' (primary_col (column_of ''id'' UuidT False)),
         references ''signals'' Cascade (column_of ''signal_id'' UuidT False),
         column_of ''key'' (StringT 255) True,
         column_of ''value'' TextT True,
         server_default ''now()'' (column_of ''created_at'' DateTimeT False) ]
       [] []
       []),
      (''signal_supply_chain_impact'', Table
       [ server_default ''gen_random_uuid()'' (primary_col (column_of ''id'' UuidT False)),
         references ''signals'' Cascade (column_of ''signal_id'' UuidT False),
         column_of ''affected_entity_id'' UuidT True,
         column_of ''relationship_type'' (StringT 100) True,
         column_of ''impact_score'' FloatT True,
         column_of ''description'' TextT True,
         server_default ''now()'' (column_of ''created_at'' DateTimeT False) ]
       [] []
       []),
      (''chat_conversations'', Table
       [ primary_col (column_of ''id'' IntegerT False),
         column_of ''user_id'' (StringT 100) False,
         column_of ''conversation_id'' (StringT 100) False,
         column_of ''title'' (StringT 200) True,
         server_default ''0'' (column_of ''message_count'' IntegerT False),
         column_of ''last_message_at'' DateTimeT True,
         server_default ''now()'' (column_of ''created_at'' DateTimeT False),
         server_default ''now()'' (column_of ''updated_at'' DateTimeT False) ]
       [(''uq_chat_conversations_conversation_id'', [''conversation_id''])] []
       [(''idx_chat_conversations_user_last'', [''user_id'', ''last_message_at''])]),
      (''chat_messages'', Table
       [ primary_col (column_of ''id'' IntegerT False),
         column_of ''user_id'' (StringT 100) False,
         column_of ''conversation_id'' (StringT 100) False,
         column_of ''role'' (StringT 20) False,
         column_of ''content'' TextT False,
         column_of ''tokens_used'' IntegerT True,
         server_default ''now()'' (column_of ''created_at'' DateTimeT False),
         server_default ''now()'' (column_of ''updated_at'' DateTimeT False) ]
       [] []
       [(''idx_chat_messages_conv_created'', [''conversation_id'', ''created_at''])]),
      (''risk_events'', Table
       [ column_of ''event_key'' (StringT 500) False,
         column_of ''processed_article_id'' IntegerT False,
         column_of ''risk_type'' (StringT 50) False,
         column_of ''severity'' (StringT 20) False,
         column_of ''confidence'' FloatT False,
         column_of ''affected_suppliers'' JsonT False,
         column_of ''affected_locations'' JsonT False,
         column_of ''affected_categories'' JsonT False,
         column_of ''evidence_snippet'' TextT False,
         column_of ''recommendation'' TextT False,
         column_of ''source_name'' (StringT 255) False,
         column_of ''source_url'' (StringT 2000) True,
         column_of ''published_at'' DateTimeT False,
         server_default ''new'' (column_of ''status'' (StringT 20) False),
         primary_col (column_of ''id'' IntegerT False),
         server_default ''now()'' (column_of ''created_at'' DateTimeT False),
         server_default ''now()'' (column_of ''updated_at'' DateTimeT False) ]
       [(''uq_risk_events_event_key'', [''event_key''])] []
       [(''idx_risk_events_processed_article_id'', [''processed_article_id'']),
        (''idx_risk_events_type_status'', [''risk_type'', ''status'']),
        (''idx_risk_events_severity'', [''severity'']),
        (''idx_risk_events_published_at'', [''published_at''])]),
      (''enrichment_cache'', Table
       [ column_of ''content_fingerprint'' (StringT 255) False,
         column_of ''policy_version'' (StringT 100) False,
         column_of ''taxonomy_version'' (StringT 100) False,
         column_of ''payload'' JsonT False,
         column_of ''original_method'' (StringT 20) False,
         server_default ''0'' (column_of ''hit_count'' IntegerT False),
         primary_col (column_of ''id'' IntegerT False),
         server_default ''now()'' (column_of ''created_at'' DateTimeT False),
         server_default ''now()'' (column_of ''updated_at'' DateTimeT False) ]
       [(''uq_enrichment_cache_identity'', [''content_fingerprint'', ''policy_version'', ''taxonomy_version''])] [(''ck_enrichment_cache_original_method'', (''original_method IN ('' @ [CHR 39] @ ''deterministic'' @ [CHR 39] @ '', '' @ [CHR 39] @ ''llm'' @ [CHR 39] @ '')''))]
       [(''idx_enrichment_cache_fingerprint'', [''content_fingerprint''])]),
      (''news_retrieval_runs'', Table
       [ primary_col (column_of ''id'' IntegerT False),
         column_of ''run_key'' (StringT 255) False,
         column_of ''status'' (StringT 30) False,
         column_of ''registry_version'' (StringT 255) False,
         column_of ''lease_owner'' (StringT 255) True,
         column_of ''lease_expires_at'' DateTimeT True,
         server_default ''0'' (column_of ''attempted_count'' IntegerT False),
         server_default ''0'' (column_of ''fetched_count'' IntegerT False),
         server_default ''0'' (column_of ''accepted_count'' IntegerT False),
         server_default ''0'' (column_of ''inserted_count'' IntegerT False),
         server_default ''0'' (column_of ''duplicate_count'' IntegerT False),
         server_default ''0'' (column_of ''rejected_count'' IntegerT False),
         server_default ''0'' (column_of ''failed_count'' IntegerT False),
         column_of ''started_at'' DateTimeT False,
         column_of ''finished_at'' DateTimeT True,
         server_default ''now()'' (column_of ''created_at'' DateTimeT False),
         server_default ''now()'' (column_of ''updated_at'' DateTimeT False) ]
       [(''uq_news_retrieval_runs_run_key'', [''run_key''])] []
       [(''idx_retrieval_run_status_lease'', [''status'', ''lease_expires_at''])]),
      (''news_retrieval_source_outcomes'', Table
       [ primary_col (column_of ''id'' IntegerT False),
         references ''news_retrieval_runs'' Cascade (column_of ''run_id'' IntegerT False),
         column_of ''source_id'' (StringT 255) False,
         column_of ''status'' (StringT 30) False,
         server_default ''0'' (column_of ''attempted_count'' IntegerT False),
         server_default ''0'' (column_of ''fetched_count'' IntegerT False),
         server_default ''0'' (column_of ''accepted_count'' IntegerT False),
         server_default ''0'' (column_of ''inserted_count'' IntegerT False),
         server_default ''0'' (column_of ''duplicate_count'' IntegerT False),
         server_default ''0'' (column_of ''rejected_count'' IntegerT False),
         server_default ''0'' (column_of ''failed_count'' IntegerT False),
         server_default ''0'' (column_of ''within_run_duplicate_count'' IntegerT False),
         server_default ''0'' (column_of ''database_duplicate_count'' IntegerT False),
         server_default ''0'' (column_of ''response_bytes'' IntegerT False),
         column_of ''started_at'' DateTimeT True,
         column_of ''finished_at'' DateTimeT True,
         column_of ''failure_code'' (StringT 50) True,
         column_of ''outcome_detail'' (StringT 500) True,
         column_of ''lease_owner'' (StringT 255) True,
         column_of ''lease_expires_at'' DateTimeT True,
         server_default ''now()'' (column_of ''created_at'' DateTimeT False),
         server_default ''now()'' (column_of ''updated_at'' DateTimeT False) ]
       [(''uq_retrieval_outcome_run_source'', [''run_id'', ''source_id''])] []
       [(''idx_retrieval_outcome_source_started'', [''source_id'', ''started_at''])]),
      (''news_retrieval_circuits'', Table
       [ primary_col (column_of ''id'' IntegerT False),
         column_of ''source_id'' (StringT 255) False,
         server_default ''0'' (column_of ''failure_count'' IntegerT False),
         column_of ''open_until'' DateTimeT True,
         column_of ''probe_owner'' (StringT 255) True,
         column_of ''probe_expires_at'' DateTimeT True,
         server_default ''now()'' (column_of ''created_at'' DateTimeT False),
         server_default ''now()'' (column_of ''updated_at'' DateTimeT False) ]
       [(''uq_retrieval_circuit_source'', [''source_id''])] []
       []) ]
    [] [] []"

definition tables_since_identity :: "(string \<times> table) list" where
  "tables_since_identity =
    [ (''organizations'', Table
       [ primary_col (column_of ''id'' IntegerT False),
         unique_col (column_of ''public_id'' (StringT 64) False),
         column_of ''name'' (StringT 200) False,
         unique_col (column_of ''slug'' (StringT 100) False),
         column_of ''created_at'' DateTimeT False,
         column_of ''updated_at'' DateTimeT False ]
       [] []
       []),
      (''users'', Table
       [ primary_col (column_of ''id'' IntegerT False),
         unique_col (column_of ''public_id'' (StringT 64) False),
         unique_col (column_of ''email'' (StringT 320) False),
         column_of ''password_hash'' (StringT 255) True,
         column_of ''full_name'' (StringT 200) True,
         server_default ''true'' (column_of ''is_active'' BooleanT False),
         server_default ''0'' (column_of ''token_version'' IntegerT False),
         column_of ''last_login_at'' DateTimeT True,
         column_of ''created_at'' DateTimeT False,
         column_of ''updated_at'' DateTimeT False ]
       [] []
       [(''idx_users_email'', [''email''])]),
      (''memberships'', Table
       [ primary_col (column_of ''id'' IntegerT False),
         references ''users'' Cascade (column_of ''user_id'' IntegerT False),
         references ''organizations'' Cascade (column_of ''organization_id'' IntegerT False),
         server_default ''member'' (column_of ''role'' (StringT 20) False),
         column_of ''created_at'' DateTimeT False,
         column_of ''updated_at'' DateTimeT False ]
       [(''uq_membership_user_org'', [''user_id'', ''organization_id''])] []
       [(''idx_membership_user'', [''user_id''])]),
      (''refresh_tokens'', Table
       [ primary_col (column_of ''id'' IntegerT False),
         references ''users'' Cascade (column_of ''user_id'' IntegerT False),
         unique_col (column_of ''token_hash'' (StringT 64) False),
         column_of ''family_id'' (StringT 64) False,
         column_of ''expires_at'' DateTimeT False,
         column_of ''revoked_at'' DateTimeT True,
         column_of ''user_agent'' (StringT 300) True,
         column_of ''client_ip'' (StringT 45) True,
         column_of ''created_at'' DateTimeT False,
         column_of ''updated_at'' DateTimeT False ]
       [] []
       [(''idx_refresh_user'', [''user_id'']),
        (''idx_refresh_family'', [''family_id''])]),
      (''audit_log'', Table
       [ primary_col (column_of ''id'' IntegerT False),
         references ''organizations'' SetNull (column_of ''organization_id'' IntegerT True),
         column_of ''actor_user_id'' IntegerT True,
         column_of ''actor_email'' (StringT 320) True,
         column_of ''action'' (StringT 80) False,
         column_of ''resource_type'' (StringT 80) True,
         column_of ''resource_id'' (StringT 200) True,
         column_of ''outcome'' (StringT 20) False,
         column_of ''detail'' JsonT False,
         column_of ''client_ip'' (StringT 45) True,
         column_of ''user_agent'' (StringT 300) True,
         column_of ''created_at'' DateTimeT False,
         column_of ''updated_at'' DateTimeT False ]
       [] []
       [(''idx_audit_org_created'', [''organization_id'', ''created_at'']),
        (''idx_audit_actor'', [''actor_user_id'']),
        (''idx_audit_action'', [''action''])]),
      (''suppliers'', Table
       [ primary_col (column_of ''id'' IntegerT False),
         unique_col (column_of ''public_id'' (StringT 64) False),
         column_of ''canonical_name'' (StringT 300) False,
         unique_col (column_of ''normalized_name'' (StringT 300) False),
         column_of ''country'' (StringT 2) True,
         unique_col (column_of ''lei'' (StringT 20) True),
         server_default ''true'' (column_of ''is_active'' BooleanT False),
         column_of ''created_at'' DateTimeT False,
         column_of ''updated_at'' DateTimeT False ]
       [] []
       [(''idx_suppliers_normalized'', [''normalized_name''])]),
      (''supplier_aliases'', Table
       [ primary_col (column_of ''id'' IntegerT False),
         references ''suppliers'' Cascade (column_of ''supplier_id'' IntegerT False),
         column_of ''alias'' (StringT 300) False,
         unique_col (column_of ''normalized_alias'' (StringT 300) False),
         server_default ''manual'' (column_of ''source'' (StringT 20) False),
         column_of ''created_at'' DateTimeT False,
         column_of ''updated_at'' DateTimeT False ]
       [] []
       [(''idx_alias_normalized'', [''normalized_alias'']),
        (''idx_alias_supplier'', [''supplier_id''])]),
      (''article_supplier_mentions'', Table
       [ primary_col (column_of ''id'' IntegerT False),
         column_of ''processed_article_id'' IntegerT False,
         references ''suppliers'' SetNull (column_of ''supplier_id'' IntegerT True),
         column_of ''surface_form'' (StringT 300) False,
         server_default ''0'' (column_of ''confidence'' FloatT False),
         column_of ''created_at'' DateTimeT False,
         column_of ''updated_at'' DateTimeT False ]
       [(''uq_mention_article_surface'', [''processed_article_id'', ''surface_form''])] []
       [(''idx_mention_supplier'', [''supplier_id'']),
        (''idx_mention_article'', [''processed_article_id''])]),
      (''organization_invitations'', Table
       [ primary_col (column_of ''id'' IntegerT False),
         references ''organizations'' Cascade (column_of ''organization_id'' IntegerT False),
         references ''users'' SetNull (column_of ''invited_by_user_id'' IntegerT True),
         column_of ''email'' (StringT 320) False,
         server_default ''member'' (column_of ''role'' (StringT 20) False),
         unique_col (column_of ''token_hash'' (StringT 64) False),
         column_of ''expires_at'' DateTimeT False,
         column_of ''accepted_at'' DateTimeT True,
         column_of ''created_at'' DateTimeT False,
         column_of ''updated_at'' DateTimeT False ]
       [] []
       [(''idx_invitation_email'', [''email'']),
        (''idx_invitation_organization'', [''organization_id''])]),
      (''dead_letters'', Table
       [ primary_col (column_of ''id'' IntegerT False),
         column_of ''task_name'' (StringT 200) False,
         column_of ''task_id'' (StringT 200) True,
         column_of ''payload'' JsonT False,
         column_of ''error_type'' (StringT 200) False,
         column_of ''error_message'' TextT False,
         column_of ''traceback'' TextT False,
         server_default ''0'' (column_of ''retries'' IntegerT False),
         column_of ''created_at'' DateTimeT False,
         column_of ''updated_at'' DateTimeT False ]
       [] []
       [(''idx_dead_letter_task'', [''task_name'']),
        (''idx_dead_letter_created'', [''created_at''])]),
      (''llm_spend'', Table
       [ primary_col (column_of ''id'' IntegerT False),
         column_of ''tenant'' (StringT 64) False,
         column_of ''spend_date'' DateT False,
         server_default ''0'' (column_of ''tokens_used'' IntegerT False),
         server_default ''0'' (column_of ''calls_made'' IntegerT False),
         column_of ''created_at'' DateTimeT False,
         column_of ''updated_at'' DateTimeT False ]
       [(''uq_llm_spend_tenant_day'', [''tenant'', ''spend_date''])] []
       [(''idx_llm_spend_day'', [''spend_date''])]),
      (''watchlists'', Table
       [ primary_col (column_of ''id'' IntegerT False),
         unique_col (column_of ''public_id'' (StringT 64) False),
         references ''organizations'' Cascade (column_of ''organization_id'' IntegerT False),
         column_of ''name'' (StringT 200) False,
         column_of ''normalized_name'' (StringT 200) False,
         references ''users'' SetNull (column_of ''created_by_user_id'' IntegerT True),
         column_of ''created_at'' DateTimeT False,
         column_of ''updated_at'' DateTimeT False ]
       [(''uq_watchlist_org_name'', [''organization_id'', ''normalized_name''])] []
       [(''idx_watchlist_organization'', [''organization_id''])]),
      (''watchlist_entries'', Table
       [ primary_col (column_of ''id'' IntegerT False),
         references ''watchlists'' Cascade (column_of ''watchlist_id'' IntegerT False),
         references ''suppliers'' Cascade (column_of ''supplier_id'' IntegerT False),
         references ''users'' SetNull (column_of ''added_by_user_id'' IntegerT True),
         column_of ''created_at'' DateTimeT False,
         column_of ''updated_at'' DateTimeT False ]
       [(''uq_watchlist_entry'', [''watchlist_id'', ''supplier_id''])] []
       [(''idx_watchlist_entry_supplier'', [''supplier_id''])]),
      (''alert_rules'', Table
       [ primary_col (column_of ''id'' IntegerT False),
         unique_col (column_of ''public_id'' (StringT 64) False),
         references ''organizations'' Cascade (column_of ''organization_id'' IntegerT False),
         column_of ''name'' (StringT 200) False,
         column_of ''normalized_name'' (StringT 200) False,
         server_default ''high'' (column_of ''min_severity'' (StringT 20) False),
         server_default ''[]'' (column_of ''risk_types'' JsonT False),
         server_default ''true'' (column_of ''is_enabled'' BooleanT False),
         references ''users'' SetNull (column_of ''created_by_user_id'' IntegerT True),
         column_of ''created_at'' DateTimeT False,
         column_of ''updated_at'' DateTimeT False ]
       [(''uq_alert_rule_org_name'', [''organization_id'', ''normalized_name''])] []
       [(''idx_alert_rule_organization'', [''organization_id''])]),
      (''notifications'', Table
       [ primary_col (column_of ''id'' IntegerT False),
         unique_col (column_of ''public_id'' (StringT 64) False),
         references ''organizations'' Cascade (column_of ''organization_id'' IntegerT False),
         references ''alert_rules'' Cascade (column_of ''alert_rule_id'' IntegerT False),
         references ''risk_events'' Cascade (column_of ''risk_event_id'' IntegerT False),
         references ''users'' Cascade (column_of ''recipient_user_id'' IntegerT False),
         server_default ''in_app'' (column_of ''channel'' (StringT 20) False),
         column_of ''subject'' (StringT 300) False,
         column_of ''body'' TextT False,
         server_default ''[]'' (column_of ''supplier_public_ids'' JsonT False),
         server_default ''pending'' (column_of ''status'' (StringT 20) False),
         server_default ''0'' (column_of ''attempts'' IntegerT False),
         column_of ''last_error'' TextT True,
         column_of ''delivered_at'' DateTimeT True,
         column_of ''read_at'' DateTimeT True,
         column_of ''created_at'' DateTimeT False,
         column_of ''updated_at'' DateTimeT False ]
       [(''uq_notification_idempotency'', [''alert_rule_id'', ''risk_event_id'', ''recipient_user_id'', ''channel''])] []
       [(''idx_notification_recipient'', [''recipient_user_id'', ''read_at'']),
        (''idx_notification_status'', [''status''])]),
      (''article_embeddings'', Table
       [ primary_col (column_of ''id'' IntegerT False),
         server_default ''now()'' (column_of ''created_at'' DateTimeT False),
         server_default ''now()'' (column_of ''updated_at'' DateTimeT False),
         references ''news_articles_processed'' Cascade (column_of ''processed_article_id'' IntegerT False),
         column_of ''model'' (StringT 100) False,
         column_of ''dimensions'' IntegerT False,
         column_of ''embedding'' VectorT False ]
       [(''uq_article_embedding_model'', [''processed_article_id'', ''model''])] []
       [(''idx_article_embeddings_model'', [''model''])]),
      (''search_feedback'', Table
       [ primary_col (column_of ''id'' IntegerT False),
         server_default ''now()'' (column_of ''created_at'' DateTimeT False),
         server_default ''now()'' (column_of ''updated_at'' DateTimeT False),
         references ''organizations'' Cascade (column_of ''organization_id'' IntegerT False),
         references ''users'' Cascade (column_of ''user_id'' IntegerT False),
         column_of ''query_text'' (StringT 200) False,
         column_of ''query_fingerprint'' (StringT 64) False,
         column_of ''processed_article_id'' IntegerT False,
         column_of ''rank_position'' IntegerT False,
         column_of ''signal'' (StringT 20) False,
         column_of ''mode'' (StringT 20) False ]
       [(''uq_search_feedback_signal'', [''user_id'', ''query_fingerprint'', ''processed_article_id'', ''signal''])] []
       [(''idx_search_feedback_organization'', [''organization_id'']),
        (''idx_search_feedback_fingerprint'', [''query_fingerprint''])]),
      (''agent_runs'', Table
       [ primary_col (column_of ''id'' IntegerT False),
         server_default ''now()'' (column_of ''created_at'' DateTimeT False),
         server_default ''now()'' (column_of ''updated_at'' DateTimeT False),
         unique_col (column_of ''public_id'' (StringT 64) False),
         references ''organizations'' Cascade (column_of ''organization_id'' IntegerT False),
         references ''users'' Cascade (column_of ''requested_by_user_id'' IntegerT False),
         column_of ''supplier_public_id'' (StringT 64) False,
         server_default ''running'' (column_of ''status'' (StringT 20) False),
         column_of ''model'' (StringT 100) False,
         server_default ''0'' (column_of ''step_count'' IntegerT False),
         server_default ''0'' (column_of ''prompt_tokens'' IntegerT False),
         server_default ''0'' (column_of ''completion_tokens'' IntegerT False),
         column_of ''started_at'' DateTimeT False,
         column_of ''finished_at'' DateTimeT True,
         column_of ''failure_reason'' (StringT 100) True ]
       [] []
       [(''idx_agent_runs_organization'', [''organization_id'']),
        (''idx_agent_runs_supplier'', [''supplier_public_id''])]),
      (''agent_steps'', Table
       [ primary_col (column_of ''id'' IntegerT False),
         server_default ''now()'' (column_of ''created_at'' DateTimeT False),
         server_default ''now()'' (column_of ''updated_at'' DateTimeT False),
         references ''agent_runs'' Cascade (column_of ''run_id'' IntegerT False),
         column_of ''ordinal'' IntegerT False,
         column_of ''kind'' (StringT 20) False,
         column_of ''tool_name'' (StringT 100) True,
         column_of ''payload_json'' JsonT False ]
       [(''uq_agent_step_ordinal'', [''run_id'', ''ordinal''])] []
       [(''idx_agent_steps_tool'', [''tool_name''])]),
      (''agent_recommendations'', Table
       [ primary_col (column_of ''id'' IntegerT False),
         server_default ''now()'' (column_of ''created_at'' DateTimeT False),
         server_default ''now()'' (column_of ''updated_at'' DateTimeT False),
         references ''agent_runs'' Cascade (column_of ''run_id'' IntegerT False),
         column_of ''ordinal'' IntegerT False,
         column_of ''title'' (StringT 300) False,
         column_of ''rationale'' TextT False,
         column_of ''evidence_event_keys'' JsonT False,
         server_default ''proposed'' (column_of ''status'' (StringT 20) False),
         references ''users'' SetNull (column_of ''decided_by_user_id'' IntegerT True),
         column_of ''decided_at'' DateTimeT True,
         column_of ''decision_note'' TextT True ]
       [(''uq_agent_recommendation_ordinal'', [''run_id'', ''ordinal''])] []
       [(''idx_agent_recommendations_status'', [''status''])]) ]"

text \<open>What later revisions add to the tables of the first dump: the resolved supplier ids, and the
  search vectors.\<close>

definition added_columns :: "bool \<Rightarrow> string \<Rightarrow> column list" where
  "added_columns vectors n =
     (if n = ''user_news_preferences''
      then [server_default ''[]'' (column_of ''preferred_supplier_ids'' JsonT False),
            server_default ''[]'' (column_of ''excluded_supplier_ids'' JsonT False)]
      else if n = ''risk_events'' then [server_default ''[]'' (column_of ''affected_supplier_ids'' JsonT False)]
      else if \<not> vectors then []
      else if n = ''news_articles_processed''
      then [column_of ''search_vector'' (TsvectorT (fts_expression processed_fields)) True]
      else if n = ''news_articles_raw'' then [column_of ''search_vector'' (TsvectorT (fts_expression raw_fields)) True]
      else [])"

definition added_indexes :: "bool \<Rightarrow> string \<Rightarrow> (string \<times> string list) list" where
  "added_indexes vectors n =
     (if \<not> vectors then []
      else if n = ''news_articles_processed'' then [(''idx_processed_search_vector'', [''search_vector''])]
      else if n = ''news_articles_raw'' then [(''idx_raw_search_vector'', [''search_vector''])] else [])"

fun brought_up :: "bool \<Rightarrow> (string \<times> table) list \<Rightarrow> (string \<times> table) list" where
  "brought_up vectors [] = []"
| "brought_up vectors ((n, Table cs us ks is) # ts) =
     (n, Table (cs @ added_columns vectors n) us ks (is @ added_indexes vectors n)) # brought_up vectors ts"

definition audit_triggers :: "(string \<times> string \<times> trigger_event) list" where
  "audit_triggers = [(''audit_log_no_update'', ''audit_log'', OnUpdate), (''audit_log_no_delete'', ''audit_log'', OnDelete)]"

definition schema_at_head :: schema where
  "schema_at_head = Schema (brought_up True (s_tables schema_before_identity) @ tables_since_identity)
     audit_triggers [''audit_log_is_append_only''] [''vector'']"

text \<open>The stage before search, reached on the way down: the audit trail still references the actor,
  and the vector extension stays.\<close>

fun with_actor_key :: "(string \<times> table) list \<Rightarrow> (string \<times> table) list" where
  "with_actor_key [] = []"
| "with_actor_key ((n, Table cs us ks is) # ts) =
     (n, Table (map (\<lambda>c. if col_name c = ''actor_user_id'' then references ''users'' SetNull c else c) cs) us ks is)
     # with_actor_key ts"

definition schema_before_search :: schema where
  "schema_before_search = Schema
     (brought_up False (s_tables schema_before_identity) @ with_actor_key (take 15 tables_since_identity))
     audit_triggers [''audit_log_is_append_only''] [''vector'']"

end
