(* ===== verification/MigrationFacts.thy ===== *)
theory MigrationFacts
  imports SchemaSnapshots
begin

text \<open>
  What the migration chain gives. Every operation keeps the schema closed: keys and indexes name
  columns that exist, foreign keys and triggers name tables that exist. A downgrade that is the
  upgrade reversed restores whatever schema the upgrade ran on. The chain runs from the empty
  database and ends in the tables the models declare, but for the differences \<open>schema_drift\<close>
  lists.
\<close>

section \<open>Closed schemas\<close>

definition table_wf :: "table \<Rightarrow> bool" where
  "table_wf t \<longleftrightarrow> (\<forall>k \<in> set (t_uniques t) \<union> set (t_indexes t). set (snd k) \<subseteq> set (column_names t))"

definition schema_wf :: "schema \<Rightarrow> bool" where
  "schema_wf s \<longleftrightarrow> distinct (table_names s)
     \<and> (\<forall>e \<in> set (s_tables s). table_wf (snd e) \<and> set (fk_tables (snd e)) \<subseteq> set (table_names s))
     \<and> (\<forall>g \<in> set (s_triggers s). fst (snd g) \<in> set (table_names s))"

lemma guarded_Some [simp]: "guarded b x = Some y \<longleftrightarrow> b \<and> y = x"
  by (cases b) auto

lemma unless_Some [simp]: "unless b r = Some y \<longleftrightarrow> \<not> b \<and> r = Some y"
  by (cases b) auto

lemma all_in_iff [simp]: "all_in xs ys \<longleftrightarrow> set xs \<subseteq> set ys"
  by (induction xs) auto

lemma names_of_map [simp]: "names_of cs = map col_name cs"
  by (induction cs) auto

lemma keys_of_map [simp]: "keys_of es = map fst es"
  by (induction es rule: keys_of.induct) auto

lemma keys_in_iff [simp]: "keys_in ks ys \<longleftrightarrow> (\<forall>k \<in> set ks. set (snd k) \<subseteq> set ys)"
  by (induction ks ys rule: keys_in.induct) auto

lemma indexes_of_set: "set (indexes_of ts) = (\<Union>e \<in> set ts. fst ` set (t_indexes (snd e)))"
  by (induction ts rule: indexes_of.induct) auto

lemma unreferenced_iff [simp]:
  "unreferenced n ts \<longleftrightarrow> (\<forall>e \<in> set ts. fst e = n \<or> n \<notin> set (fk_tables (snd e)))"
  by (induction n ts rule: unreferenced.induct) auto

lemma without_key_or_if: "without_key_or b n m x es = (if b then without_key n es else (m, x) # without_key n es)"
  by (cases b) auto

declare without_key.simps(2) [simp del]

lemma without_key_filter [simp]: "without_key n es = filter (\<lambda>e. fst e \<noteq> n) es"
  by (induction es) (auto simp: without_key.simps(2) without_key_or_if)

lemma put_table_Some [simp]: "put_table n r ts = Some ts' \<longleftrightarrow> (\<exists>t. r = Some t \<and> ts' = (n, t) # ts)"
  by (cases r) auto

lemma keep_table_Some [simp]: "keep_table e r = Some ts' \<longleftrightarrow> (\<exists>ts. r = Some ts \<and> ts' = e # ts)"
  by (cases r) auto

lemma with_tables_Some:
  "with_tables r s = Some s' \<longleftrightarrow>
     (\<exists>ts. r = Some ts \<and> s' = Schema ts (s_triggers s) (s_functions s) (s_extensions s))"
  by (cases r; cases s) auto

lemma at_table_if: "at_table b n f m t ts = (if b then put_table m (f t) ts else keep_table (m, t) (on_table n f ts))"
  by (cases b) auto

declare on_table.simps(2) [simp del]

lemma on_table_Cons [simp]:
  "on_table n f ((m, t) # ts) = (if n = m then put_table m (f t) ts else keep_table (m, t) (on_table n f ts))"
  by (simp add: on_table.simps(2) at_table_if)

lemma on_table_SomeE:
  assumes "on_table n f ts = Some ts'"
  obtains as t bs t' where "ts = as @ (n, t) # bs" "n \<notin> fst ` set as" "f t = Some t'" "ts' = as @ (n, t') # bs"
proof -
  have "\<exists>as t bs t'. ts = as @ (n, t) # bs \<and> n \<notin> fst ` set as \<and> f t = Some t' \<and> ts' = as @ (n, t') # bs"
    using assms
  proof (induction ts arbitrary: ts')
    case (Cons e ts)
    obtain m t where e: "e = (m, t)" by (cases e)
    show ?case
    proof (cases "n = m")
      case True
      then have "\<exists>t'. f t = Some t' \<and> ts' = [] @ (n, t') # ts" using Cons.prems e by auto
      moreover have "e # ts = [] @ (n, t) # ts" using e True by simp
      ultimately show ?thesis by fastforce
    next
      case False
      with Cons.prems e obtain us where us: "on_table n f ts = Some us" "ts' = e # us" by auto
      from Cons.IH [OF us(1)] obtain as t1 bs t' where
        *: "ts = as @ (n, t1) # bs" "n \<notin> fst ` set as" "f t1 = Some t'" "us = as @ (n, t') # bs" by blast
      then have "e # ts = (e # as) @ (n, t1) # bs" "n \<notin> fst ` set (e # as)" "ts' = (e # as) @ (n, t') # bs"
        using us(2) e False by auto
      with *(3) show ?thesis by blast
    qed
  qed simp
  then show ?thesis using that by blast
qed

lemma on_table_split: "n \<notin> fst ` set as \<Longrightarrow>
    on_table n f (as @ (n, t) # bs) = map_option (\<lambda>t'. as @ (n, t') # bs) (f t)"
  by (induction as) (auto split: option.splits simp: map_option_case)

lemma in_table_SomeE:
  assumes "in_table n f s = Some s'"
  obtains as t bs t' where "s_tables s = as @ (n, t) # bs" "n \<notin> fst ` set as" "f t = Some t'"
    "s' = Schema (as @ (n, t') # bs) (s_triggers s) (s_functions s) (s_extensions s)"
  using assms unfolding in_table_def with_tables_Some by (metis on_table_SomeE)

text \<open>A change of one table keeps the schema closed when it keeps that table closed.\<close>

lemma in_table_wf:
  assumes "in_table n f s = Some s'" "schema_wf s"
    and ok: "\<And>t t'. f t = Some t' \<Longrightarrow> table_wf t \<Longrightarrow>
      table_wf t' \<and> set (fk_tables t') \<subseteq> set (fk_tables t) \<union> set (table_names s)"
  shows "schema_wf s'"
proof -
  obtain as t bs t' where s: "s_tables s = as @ (n, t) # bs" "f t = Some t'"
    "s' = Schema (as @ (n, t') # bs) (s_triggers s) (s_functions s) (s_extensions s)"
    using in_table_SomeE [OF assms(1)] by metis
  have names: "table_names s' = table_names s" using s by (simp add: table_names_def)
  have "table_wf t" "set (fk_tables t) \<subseteq> set (table_names s)"
    using assms(2) s(1) by (auto simp: schema_wf_def)
  with ok [OF s(2)] have "table_wf t'" "set (fk_tables t') \<subseteq> set (table_names s)" by auto
  moreover have "s_triggers s' = s_triggers s" using s(3) by simp
  ultimately show ?thesis using assms(2) s(1,3) names by (auto simp: schema_wf_def)
qed

lemma fk_tables_map: "set (fk_tables t) = (\<Union>c \<in> set (t_columns t). set (fk_target c))"
proof -
  have "set (fk_targets cs) = (\<Union>c \<in> set cs. set (fk_target c))" for cs by (induction cs) auto
  then show ?thesis by (simp add: fk_tables_def)
qed

lemma map_columns_sel [simp]:
  "t_columns (map_columns f t) = map f (t_columns t)" "t_uniques (map_columns f t) = t_uniques t"
  "t_indexes (map_columns f t) = t_indexes t"
  by (cases t; simp)+

lemma without_index_sel [simp]:
  "t_columns (without_index i t) = t_columns t" "t_uniques (without_index i t) = t_uniques t"
  "t_indexes (without_index i t) = filter (\<lambda>j. fst j \<noteq> i) (t_indexes t)"
  by (cases t; simp)+

lemma without_column_sel [simp]:
  "t_columns (without_column c t) = filter (\<lambda>c'. col_name c' \<noteq> c) (t_columns t)"
  "t_uniques (without_column c t) = filter (\<lambda>u. c \<notin> set (snd u)) (t_uniques t)"
  "t_indexes (without_column c t) = filter (\<lambda>i. c \<notin> set (snd i)) (t_indexes t)"
  by (cases t; simp)+

lemma column_changes [simp]:
  "col_name (set_type ty c) = col_name c" "col_name (without_default c) = col_name c"
  "col_name (without_fk c) = col_name c" "fk_target (set_type ty c) = fk_target c"
  "fk_target (without_default c) = fk_target c" "fk_target (without_fk c) = []"
  "fk_target (resolve_column d c) = fk_target c" "fk_target (references r od c) = [r]"
  by (cases c; cases "col_fk c"; simp)+

lemma map_columns_wf:
  assumes "\<And>c. col_name (f c) = col_name c" "\<And>c. set (fk_target (f c)) \<subseteq> set (fk_target c) \<union> X" "table_wf t"
  shows "table_wf (map_columns f t) \<and> set (fk_tables (map_columns f t)) \<subseteq> set (fk_tables t) \<union> X"
proof
  have "column_names (map_columns f t) = column_names t" using assms(1) by (simp add: column_names_def)
  then show "table_wf (map_columns f t)" using assms(3) by (simp add: table_wf_def)
  show "set (fk_tables (map_columns f t)) \<subseteq> set (fk_tables t) \<union> X"
    using assms(2) by (fastforce simp: fk_tables_map)
qed

lemma set_column_wf:
  assumes "set_column c f t = Some t'" "table_wf t" "\<And>c. col_name (f c) = col_name c"
    "\<And>c. set (fk_target (f c)) \<subseteq> set (fk_target c) \<union> X"
  shows "table_wf t' \<and> set (fk_tables t') \<subseteq> set (fk_tables t) \<union> X"
  using assms(1) map_columns_wf [of "\<lambda>c'. if col_name c' = c then f c' else c'" X t] assms(2-)
  by (auto simp: set_column_def)

lemma drop_constraint_wf:
  assumes "drop_constraint n k t = Some t'" "table_wf t"
  shows "table_wf t' \<and> set (fk_tables t') \<subseteq> set (fk_tables t)"
proof (cases "k \<in> set (keys_of (t_uniques t))")
  case True
  then show ?thesis using assms by (fastforce simp: drop_constraint_def table_wf_def column_names_def fk_tables_map)
next
  case False
  then show ?thesis using assms
    map_columns_wf [of "\<lambda>c. if fkey_name n (col_name c) = k then without_fk c else c" "{}" t]
    by (auto simp: drop_constraint_def)
qed

lemma without_column_wf:
  "table_wf t \<Longrightarrow> table_wf (without_column c t) \<and> set (fk_tables (without_column c t)) \<subseteq> set (fk_tables t)"
  by (fastforce simp: table_wf_def column_names_def fk_tables_map)

lemma drop_column_wf: "drop_column c t = Some t' \<Longrightarrow> table_wf t \<Longrightarrow>
    table_wf t' \<and> set (fk_tables t') \<subseteq> set (fk_tables t)"
  using without_column_wf by (auto simp: drop_column_def)

lemma drop_index_wf: "drop_index i t = Some t' \<Longrightarrow> table_wf t \<Longrightarrow>
    table_wf t' \<and> set (fk_tables t') \<subseteq> set (fk_tables t)"
  by (auto simp: drop_index_def table_wf_def column_names_def fk_tables_map)

lemma add_index_wf: "add_index i cols t = Some t' \<Longrightarrow> table_wf t \<Longrightarrow>
    table_wf t' \<and> set (fk_tables t') \<subseteq> set (fk_tables t)"
  by (auto simp: add_index_def table_wf_def column_names_def fk_tables_map)

lemma add_unique_wf: "add_unique u cols t = Some t' \<Longrightarrow> table_wf t \<Longrightarrow>
    table_wf t' \<and> set (fk_tables t') \<subseteq> set (fk_tables t)"
  by (auto simp: add_unique_def table_wf_def column_names_def fk_tables_map)

lemma add_column_wf: "add_column c t = Some t' \<Longrightarrow> table_wf t \<Longrightarrow>
    table_wf t' \<and> set (fk_tables t') \<subseteq> set (fk_tables t) \<union> set (fk_target c)"
  by (fastforce simp: add_column_def table_wf_def column_names_def fk_tables_map)

lemma build_table_indexes: "t_indexes (build_table d n items) = []"
proof -
  have "t_indexes (add_item d n i t) = t_indexes t" for i t
    by (induction d n i t rule: add_item.induct) auto
  then have "t_indexes (add_items d n items t) = t_indexes t" for t
    by (induction d n items t rule: add_items.induct) auto
  then show ?thesis by (simp add: build_table_def)
qed

lemma add_table_wf:
  assumes "add_table n t s = Some s'" "t_indexes t = []" "schema_wf s"
  shows "schema_wf s'"
  using assms by (auto simp: add_table_def schema_wf_def table_wf_def table_names_def)

lemma drop_table_wf:
  assumes "drop_table n s = Some s'" "schema_wf s"
  shows "schema_wf s'"
proof -
  have s': "s_tables s' = filter (\<lambda>e. fst e \<noteq> n) (s_tables s)"
    "s_triggers s' = filter (\<lambda>g. fst (snd g) \<noteq> n) (s_triggers s)"
    and noref: "\<forall>e \<in> set (s_tables s). fst e = n \<or> n \<notin> set (fk_tables (snd e))"
    using assms(1) by (auto simp: drop_table_def list_all_iff)
  have "distinct (table_names s')" using assms(2) s'(1)
    by (simp add: schema_wf_def table_names_def distinct_map inj_on_def)
  moreover have "table_names s' = filter (\<lambda>m. m \<noteq> n) (table_names s)"
    using s'(1) by (simp add: table_names_def filter_map comp_def)
  ultimately show ?thesis using assms(2) s' noref by (fastforce simp: schema_wf_def)
qed

lemma without_index_everywhere_wf:
  "schema_wf (Schema ts gs fs xs) \<Longrightarrow> schema_wf (Schema (map (\<lambda>e. (fst e, without_index i (snd e))) ts) gs fs xs)"
  by (auto simp: schema_wf_def table_names_def comp_def table_wf_def column_names_def fk_tables_map)

lemma schema_wf_parts: "schema_wf (Schema ts gs fs xs) \<longleftrightarrow> distinct (map fst ts)
     \<and> (\<forall>e \<in> set ts. table_wf (snd e) \<and> set (fk_tables (snd e)) \<subseteq> fst ` set ts)
     \<and> (\<forall>g \<in> set gs. fst (snd g) \<in> fst ` set ts)"
  by (simp add: schema_wf_def table_names_def)

lemma run_op_wf:
  assumes "run_op d p s = Some s'" "schema_wf s"
  shows "schema_wf s'"
proof (cases p)
  case (CreateTable n items)
  then show ?thesis using assms add_table_wf build_table_indexes by simp
next
  case (DropTable n)
  then show ?thesis using assms drop_table_wf by simp
next
  case (AddColumn n c)
  then show ?thesis using assms add_column_wf [of "resolve_column d c"] in_table_wf [of n _ s s']
    by (fastforce simp: table_names_def)
next
  case (DropColumn n c)
  then show ?thesis using assms drop_column_wf in_table_wf [of n _ s s'] by fastforce
next
  case (DropColumnIfExists n c)
  then show ?thesis using assms without_column_wf in_table_wf [of n _ s s'] by fastforce
next
  case (AlterType n c ty)
  then have "in_table n (set_column c (set_type (resolve_type d ty))) s = Some s'" using assms by simp
  from in_table_wf [OF this assms(2)] show ?thesis using set_column_wf by (metis column_changes(1,4) Un_upper1)
next
  case (DropDefault n c)
  then have "in_table n (set_column c without_default) s = Some s'" using assms by simp
  from in_table_wf [OF this assms(2)] show ?thesis using set_column_wf by (metis column_changes(2,5) Un_upper1)
next
  case (CreateIndex i n cols)
  then show ?thesis using assms add_index_wf in_table_wf [of n _ s s'] by fastforce
next
  case (DropIndex i n)
  then show ?thesis using assms drop_index_wf in_table_wf [of n _ s s'] by fastforce
next
  case (DropIndexIfExists i)
  then show ?thesis using assms without_index_everywhere_wf by (cases s) auto
next
  case (CreateUnique u n cols)
  then show ?thesis using assms add_unique_wf in_table_wf [of n _ s s'] by fastforce
next
  case (DropConstraint k n)
  then show ?thesis using assms drop_constraint_wf in_table_wf [of n _ s s'] by fastforce
next
  case (CreateForeignKey k n r c od)
  then have r: "r \<in> set (table_names s)" and "in_table n (set_column c (references r od)) s = Some s'"
    using assms by (auto simp: table_names_def)
  from in_table_wf [OF this(2) assms(2)] show ?thesis
    using set_column_wf [of c "references r od" _ _ "set (table_names s)"] r by simp
next
  case (CreateTrigger g n e)
  then show ?thesis using assms by (auto simp: schema_wf_def table_names_def)
next
  case (CreateFunction f)
  then show ?thesis using assms by (cases s) (auto simp: schema_wf_parts)
next
  case (DropFunction f)
  then show ?thesis using assms by (cases s) (auto simp: schema_wf_parts)
next
  case (DropTrigger g)
  then show ?thesis using assms by (cases s) (auto simp: schema_wf_parts)
next
  case (CreateExtension x)
  then show ?thesis using assms by (cases s) (auto simp: schema_wf_parts)
next
  case ConsolidateDuplicates
  then show ?thesis using assms by simp
next
  case BackfillIdentities
  then show ?thesis using assms by simp
qed

lemma run_ops_None [simp]: "run_ops d ps None = None"
  by (cases ps) auto

lemma run_ops_wf: "run_ops d ps (Some s) = Some s' \<Longrightarrow> schema_wf s \<Longrightarrow> schema_wf s'"
proof (induction ps arbitrary: s)
  case (Cons p ps)
  then obtain s1 where "run_op d p s = Some s1" by (cases "run_op d p s") auto
  then show ?case using Cons run_op_wf by auto
qed simp

section \<open>Downgrades\<close>

text \<open>The operation that undoes another. The others lose what was there before.\<close>

fun inverse_op :: "op \<Rightarrow> op option" where
  "inverse_op (CreateTable n items) = Some (DropTable n)"
| "inverse_op (AddColumn n c) = Some (DropColumn n (col_name c))"
| "inverse_op (CreateIndex i n cols) = Some (DropIndex i n)"
| "inverse_op (CreateUnique u n cols) = Some (DropConstraint u n)"
| "inverse_op (CreateTrigger g n e) = Some (DropTrigger g)"
| "inverse_op p = None"

lemma filter_fresh: "x \<notin> f ` set xs \<Longrightarrow> filter (\<lambda>y. f y \<noteq> x) xs = xs"
  by (induction xs) auto

lemma in_table_undo:
  assumes "in_table n f s = Some s'" "\<And>t t'. (n, t) \<in> set (s_tables s) \<Longrightarrow> f t = Some t' \<Longrightarrow> g t' = Some t"
  shows "in_table n g s' = Some s"
proof -
  obtain as t bs t' where s: "s_tables s = as @ (n, t) # bs" "n \<notin> fst ` set as" "f t = Some t'"
    "s' = Schema (as @ (n, t') # bs) (s_triggers s) (s_functions s) (s_extensions s)"
    using in_table_SomeE [OF assms(1)] by metis
  have "g t' = Some t" using assms(2) s(1,3) by simp
  then have "on_table n g (s_tables s') = Some (s_tables s)" using s on_table_split [OF s(2)] by simp
  then show ?thesis using s(4) by (cases s) (simp add: in_table_def)
qed

lemma drop_added_column:
  assumes "add_column c t = Some t'" "table_wf t"
  shows "drop_column (col_name c) t' = Some t"
proof -
  have t': "t' = Table (t_columns t @ [c]) (t_uniques t) (t_checks t) (t_indexes t)"
    and fresh: "col_name c \<notin> col_name ` set (t_columns t)"
    using assms(1) by (auto simp: add_column_def column_names_def)
  have "filter (\<lambda>k. col_name c \<notin> set (snd k)) ks = ks" if "set ks \<subseteq> set (t_uniques t) \<union> set (t_indexes t)" for ks
  proof (rule filter_True, rule ballI)
    fix k assume "k \<in> set ks"
    then have "set (snd k) \<subseteq> col_name ` set (t_columns t)"
      using that assms(2) by (auto simp: table_wf_def column_names_def)
    then show "col_name c \<notin> set (snd k)" using fresh by blast
  qed
  then show ?thesis using t' filter_fresh [OF fresh]
    by (cases t) (simp add: drop_column_def column_names_def)
qed

lemma drop_added_index: "add_index i cols t = Some t' \<Longrightarrow> i \<notin> fst ` set (t_indexes t) \<Longrightarrow> drop_index i t' = Some t"
  by (cases t) (auto simp: add_index_def drop_index_def filter_fresh)

lemma drop_added_unique: "add_unique u cols t = Some t' \<Longrightarrow> drop_constraint n u t' = Some t"
  by (cases t) (auto simp: add_unique_def drop_constraint_def filter_fresh)

lemma drop_added_table:
  assumes "add_table n t s = Some s'" "schema_wf s"
  shows "drop_table n s' = Some s"
proof -
  have s': "s' = Schema (s_tables s @ [(n, t)]) (s_triggers s) (s_functions s) (s_extensions s)"
    and fresh: "n \<notin> set (table_names s)"
    using assms(1) by (auto simp: add_table_def)
  have "\<forall>e \<in> set (s_tables s). n \<notin> set (fk_tables (snd e))" "n \<notin> (fst \<circ> snd) ` set (s_triggers s)"
    using assms(2) fresh by (auto simp: schema_wf_def)
  then show ?thesis using s' fresh filter_fresh [of n fst "s_tables s"] filter_fresh [of n "fst \<circ> snd" "s_triggers s"]
    by (cases s) (auto simp: drop_table_def table_names_def list_all_iff)
qed

lemma inverse_undoes:
  assumes "run_op d p s = Some s'" "inverse_op p = Some q" "schema_wf s"
  shows "run_op d q s' = Some s"
proof (cases p)
  case (CreateTable n items)
  then show ?thesis using assms drop_added_table by auto
next
  case (AddColumn n c)
  then have run: "in_table n (add_column (resolve_column d c)) s = Some s'" and q: "q = DropColumn n (col_name c)"
    using assms by auto
  have "in_table n (drop_column (col_name c)) s' = Some s"
  proof (rule in_table_undo [OF run])
    fix t t' assume "(n, t) \<in> set (s_tables s)" "add_column (resolve_column d c) t = Some t'"
    moreover have "table_wf t" using calculation(1) assms(3) by (fastforce simp: schema_wf_def)
    ultimately show "drop_column (col_name c) t' = Some t" using drop_added_column by fastforce
  qed
  then show ?thesis using q by simp
next
  case (CreateIndex i n cols)
  then have run: "in_table n (add_index i cols) s = Some s'" and q: "q = DropIndex i n"
    and fresh: "i \<notin> set (indexes_of (s_tables s))"
    using assms by auto
  have "in_table n (drop_index i) s' = Some s"
  proof (rule in_table_undo [OF run])
    fix t t' assume "(n, t) \<in> set (s_tables s)" "add_index i cols t = Some t'"
    moreover have "i \<notin> fst ` set (t_indexes t)" 
      using fresh calculation(1) unfolding indexes_of_set by force
    ultimately show "drop_index i t' = Some t" using drop_added_index by blast
  qed
  then show ?thesis using q by simp
next
  case (CreateUnique u n cols)
  then have run: "in_table n (add_unique u cols) s = Some s'" and q: "q = DropConstraint u n"
    using assms by auto
  have "in_table n (drop_constraint n u) s' = Some s"
    by (rule in_table_undo [OF run]) (rule drop_added_unique)
  then show ?thesis using q by simp
next
  case (CreateTrigger g n e)
  then have "s' = Schema (s_tables s) (s_triggers s @ [(g, n, e)]) (s_functions s) (s_extensions s)"
    "g \<notin> fst ` set (s_triggers s)" "q = DropTrigger g"
    using assms by auto
  then show ?thesis by (cases s) (simp add: filter_fresh)
qed (use assms in simp_all)

lemma run_ops_append: "run_ops d (ps @ qs) r = run_ops d qs (run_ops d ps r)"
proof (induction ps arbitrary: r)
  case (Cons p ps)
  then show ?case by (cases r) auto
qed simp

definition undone :: "op list \<Rightarrow> op option list" where
  "undone ps = rev (map inverse_op ps)"

lemma reversed_restores:
  assumes "run_ops d ps (Some s) = Some s'" "map Some qs = undone ps" "schema_wf s"
  shows "run_ops d qs (Some s') = Some s"
  using assms
proof (induction ps arbitrary: s qs)
  case Nil
  then show ?case by (simp add: undone_def)
next
  case (Cons p ps)
  then obtain s1 where s1: "run_op d p s = Some s1" "run_ops d ps (Some s1) = Some s'"
    by (cases "run_op d p s") auto
  obtain qs' q where q: "qs = qs' @ [q]" "map Some qs' = undone ps" "inverse_op p = Some q"
    using Cons.prems(2) by (cases qs rule: rev_cases) (auto simp: undone_def)
  have "run_ops d qs' (Some s') = Some s1"
    using Cons.IH [OF s1(2) q(2)] run_op_wf [OF s1(1)] Cons.prems(3) by simp
  then show ?case using inverse_undoes [OF s1(1) q(3) Cons.prems(3)] q(1) by (simp add: run_ops_append)
qed

text \<open>A revision whose downgrade is its upgrade reversed.\<close>

definition reversed_exactly :: "dialect \<Rightarrow> revision \<Rightarrow> bool" where
  "reversed_exactly d r = (map Some (rev_downgrade r d) = undone (rev_upgrade r d))"

section \<open>The chain\<close>

definition upgrade_ops :: "dialect \<Rightarrow> revision list \<Rightarrow> op list" where
  "upgrade_ops d rs = concat (map (\<lambda>r. rev_upgrade r d) rs)"

text \<open>One head, one base, no branch: each revision follows the one before.\<close>

fun linear_from :: "string option \<Rightarrow> revision list \<Rightarrow> bool" where
  "linear_from p [] = True"
| "linear_from p (r # rs) = (rev_down r = p \<and> linear_from (Some (rev_id r)) rs)"

fun named :: "string \<Rightarrow> (string \<times> 'a) list \<Rightarrow> 'a option"
  and named_or :: "bool \<Rightarrow> 'a \<Rightarrow> string \<Rightarrow> (string \<times> 'a) list \<Rightarrow> 'a option" where
  "named n [] = None"
| "named n ((m, x) # es) = named_or (m = n) x n es"
| "named_or True x n es = Some x"
| "named_or False x n es = named n es"

fun by_name :: "column list \<Rightarrow> (string \<times> column) list" where
  "by_name [] = []"
| "by_name (c # cs) = (col_name c, c) # by_name cs"

fun same_column :: "dialect \<Rightarrow> column \<Rightarrow> column option \<Rightarrow> bool" where
  "same_column d c None = False"
| "same_column d (Column n ty nu u p f v) (Some (Column n' ty' nu' u' p' f' v')) =
     (resolve_type d ty = ty' \<and> nu = nu' \<and> p = p' \<and> f = f')"

fun unless_fine :: "bool \<Rightarrow> 'a \<Rightarrow> 'a list \<Rightarrow> 'a list" where
  "unless_fine True x xs = xs"
| "unless_fine False x xs = x # xs"

fun drifted_columns :: "dialect \<Rightarrow> column list \<Rightarrow> (string \<times> column) list \<Rightarrow> string list" where
  "drifted_columns d [] hs = []"
| "drifted_columns d (c # cs) hs =
     unless_fine (same_column d c (named (col_name c) hs)) (col_name c) (drifted_columns d cs hs)"

fun not_among :: "'a list \<Rightarrow> 'a list \<Rightarrow> 'a list" where
  "not_among [] ys = []"
| "not_among (x # xs) ys = unless_fine (x \<in> set ys) x (not_among xs ys)"

fun unique_columns :: "column list \<Rightarrow> string list list" where
  "unique_columns [] = []"
| "unique_columns (c # cs) = unless_fine (\<not> col_unique c) [col_name c] (unique_columns cs)"

definition unique_keys :: "table \<Rightarrow> string list list" where
  "unique_keys t = unique_columns (t_columns t) @ map snd (t_uniques t)"

text \<open>Where a table of the models and the table the database has differ: columns that do not agree
  in type, nullability, key or reference, columns and indexes that only one side has, and unique
  keys. Server defaults are left out: the application writes every column.\<close>

definition table_drift :: "dialect \<Rightarrow> table \<Rightarrow> table \<Rightarrow> string list" where
  "table_drift d m h = drifted_columns d (t_columns m) (by_name (t_columns h)) @
     not_among (column_names h) (column_names m) @
     keys_of (not_among (t_indexes m) (t_indexes h)) @ keys_of (not_among (t_indexes h) (t_indexes m)) @
     concat (not_among (unique_keys m) (unique_keys h)) @ concat (not_among (unique_keys h) (unique_keys m))"

fun drift_against :: "dialect \<Rightarrow> table \<Rightarrow> table option \<Rightarrow> string list" where
  "drift_against d m None = [''no such table'']"
| "drift_against d m (Some h) = table_drift d m h"

fun noting :: "string \<Rightarrow> string list \<Rightarrow> (string \<times> string list) list \<Rightarrow> (string \<times> string list) list" where
  "noting n [] r = r"
| "noting n (x # xs) r = (n, x # xs) # r"

fun schema_drift :: "dialect \<Rightarrow> (string \<times> table) list \<Rightarrow> (string \<times> table) list \<Rightarrow> (string \<times> string list) list" where
  "schema_drift d [] ts = []"
| "schema_drift d ((n, m) # ms) ts = noting n (drift_against d m (named n ts)) (schema_drift d ms ts)"

text \<open>The references a deletion follows: child table and column, parent table, and what happens to
  the child.\<close>

type_synonym fk_edge = "string \<times> string \<times> string \<times> on_delete"

fun column_edges :: "string \<Rightarrow> column list \<Rightarrow> fk_edge list" where
  "column_edges n [] = []"
| "column_edges n (Column c ty nu u p None v # cs) = column_edges n cs"
| "column_edges n (Column c ty nu u p (Some f) v # cs) = (n, c, fk_table f, fk_on_delete f) # column_edges n cs"

fun foreign_keys :: "(string \<times> table) list \<Rightarrow> fk_edge list" where
  "foreign_keys [] = []"
| "foreign_keys ((n, t) # ts) = column_edges n (t_columns t) @ foreign_keys ts"

text \<open>Comparing two lists stops at the first difference.\<close>

fun and_then :: "bool \<Rightarrow> 'a::equal list \<Rightarrow> 'a list \<Rightarrow> bool" where
  "and_then True xs ys = (xs = ys)"
| "and_then False xs ys = False"

lemma list_equal_code [code]:
  "HOL.equal ([]::'a::equal list) [] = True" "HOL.equal ((x::'a) # xs) [] = False"
  "HOL.equal [] ((y::'a) # ys) = False" "HOL.equal ((x::'a) # xs) (y # ys) = and_then (x = y) xs ys"
  by (cases "x = y"; simp add: equal)+

lemma chain_first_half:
  "run_ops Postgresql (upgrade_ops Postgresql (take 11 chain)) (Some empty_schema) = Some schema_before_identity"
  by code_simp

lemma chain_second_half:
  "run_ops Postgresql (upgrade_ops Postgresql (take 10 (drop 11 chain))) (Some schema_before_identity) =
     Some (Schema (s_tables schema_before_search) audit_triggers [''audit_log_is_append_only''] [])"
  by code_simp

lemma chain_search:
  "run_ops Postgresql (upgrade_ops Postgresql (drop 21 chain))
     (Some (Schema (s_tables schema_before_search) audit_triggers [''audit_log_is_append_only''] []))
   = Some schema_at_head"
  by code_simp

lemma chain_split: "chain = take 11 chain @ take 10 (drop 11 chain) @ drop 21 chain"
  using append_take_drop_id [of 11 chain] append_take_drop_id [of 10 "drop 11 chain"] by simp

lemma upgrade_ops_append: "upgrade_ops d (rs @ qs) = upgrade_ops d rs @ upgrade_ops d qs"
  by (simp add: upgrade_ops_def)

lemma chain_runs: "run_ops Postgresql (upgrade_ops Postgresql chain) (Some empty_schema) = Some schema_at_head"
  by (subst chain_split) (simp only: upgrade_ops_append run_ops_append chain_first_half chain_second_half chain_search)

lemma head_drift:
  "schema_drift Postgresql model_schema (s_tables schema_at_head) =
     [(''news_articles_raw'', [''search_vector'', ''idx_raw_search_vector'']),
      (''news_articles_processed'', [''search_vector'', ''idx_processed_search_vector'']),
      (''signals'', [''confidence'', ''severity'', ''raw_signal'']),
      (''signal_metadata'', [''key'', ''value'']),
      (''signal_supply_chain_impact'', [''relationship_type'', ''impact_score'', ''description''])]"
  by code_simp

definition downgrade_ops :: "dialect \<Rightarrow> revision list \<Rightarrow> op list" where
  "downgrade_ops d rs = concat (map (\<lambda>r. rev_downgrade r d) (rev rs))"

lemma downgrade_search:
  "run_ops Postgresql (downgrade_ops Postgresql (drop 21 chain)) (Some schema_at_head) = Some schema_before_search"
  by code_simp

lemma downgrade_identity:
  "run_ops Postgresql (downgrade_ops Postgresql (take 10 (drop 11 chain))) (Some schema_before_search)
   = Some (Schema (s_tables schema_before_identity) [] [] [''vector''])"
  by code_simp

lemma downgrade_first_half:
  "run_ops Postgresql (downgrade_ops Postgresql (take 11 chain))
     (Some (Schema (s_tables schema_before_identity) [] [] [''vector'']))
   = Some (Schema [] [] [] [''vector''])"
  by code_simp

lemma downgrade_ops_append: "downgrade_ops d (rs @ qs) = downgrade_ops d qs @ downgrade_ops d rs"
  by (simp add: downgrade_ops_def)

lemma chain_reverts:
  "run_ops Postgresql (downgrade_ops Postgresql chain) (Some schema_at_head) = Some (Schema [] [] [] [''vector''])"
  by (subst chain_split) (simp only: downgrade_ops_append run_ops_append downgrade_search downgrade_identity
    downgrade_first_half)

lemma not_reversed:
  "map rev_id (filter (\<lambda>r. \<not> reversed_exactly Postgresql r) chain) =
     [''b2c3d4_signals_impact_areas_json'', ''c3d4e5_add_platform_language'', ''f6a7b8_enrichment_cache'',
      ''g1h2i3_add_auth_tenancy_audit'', ''h2i3j4_add_supplier_registry'', ''k5l6m7_audit_immutable'',
      ''q2r3s4_pgvector'', ''r3s4t5_article_fts'', ''v7w8x9_audit_actor_no_fk'']"
  by code_simp

lemma head_foreign_keys: "foreign_keys (s_tables schema_at_head) =
    [(''signal_metadata'', ''signal_id'', ''signals'', Cascade),
     (''signal_supply_chain_impact'', ''signal_id'', ''signals'', Cascade),
     (''news_retrieval_source_outcomes'', ''run_id'', ''news_retrieval_runs'', Cascade),
     (''memberships'', ''user_id'', ''users'', Cascade),
     (''memberships'', ''organization_id'', ''organizations'', Cascade),
     (''refresh_tokens'', ''user_id'', ''users'', Cascade),
     (''audit_log'', ''organization_id'', ''organizations'', SetNull),
     (''supplier_aliases'', ''supplier_id'', ''suppliers'', Cascade),
     (''article_supplier_mentions'', ''supplier_id'', ''suppliers'', SetNull),
     (''organization_invitations'', ''organization_id'', ''organizations'', Cascade),
     (''organization_invitations'', ''invited_by_user_id'', ''users'', SetNull),
     (''watchlists'', ''organization_id'', ''organizations'', Cascade),
     (''watchlists'', ''created_by_user_id'', ''users'', SetNull),
     (''watchlist_entries'', ''watchlist_id'', ''watchlists'', Cascade),
     (''watchlist_entries'', ''supplier_id'', ''suppliers'', Cascade),
     (''watchlist_entries'', ''added_by_user_id'', ''users'', SetNull),
     (''alert_rules'', ''organization_id'', ''organizations'', Cascade),
     (''alert_rules'', ''created_by_user_id'', ''users'', SetNull),
     (''notifications'', ''organization_id'', ''organizations'', Cascade),
     (''notifications'', ''alert_rule_id'', ''alert_rules'', Cascade),
     (''notifications'', ''risk_event_id'', ''risk_events'', Cascade),
     (''notifications'', ''recipient_user_id'', ''users'', Cascade),
     (''article_embeddings'', ''processed_article_id'', ''news_articles_processed'', Cascade),
     (''search_feedback'', ''organization_id'', ''organizations'', Cascade),
     (''search_feedback'', ''user_id'', ''users'', Cascade),
     (''agent_runs'', ''organization_id'', ''organizations'', Cascade),
     (''agent_runs'', ''requested_by_user_id'', ''users'', Cascade),
     (''agent_steps'', ''run_id'', ''agent_runs'', Cascade),
     (''agent_recommendations'', ''run_id'', ''agent_runs'', Cascade),
     (''agent_recommendations'', ''decided_by_user_id'', ''users'', SetNull)]"
  by code_simp

lemma head_triggers: "s_triggers schema_at_head = audit_triggers"
  by (simp add: schema_at_head_def)

section \<open>Properties\<close>

text \<open>C33: The migrations and the models describe one database: the revisions form a single chain without
  branches, every step runs from the empty database on PostgreSQL (required columns added to
  populated tables have defaults, keys and references name what exists), the result is a closed
  schema with the tables of the models and no others, and its columns, keys and indexes are those
  of the models except for the two generated search vectors and eight columns of the signal
  tables. Downgrading all the way empties the database again but for the vector extension.\<close>

theorem migrations_build_models:
  "linear_from None chain \<and> distinct (map rev_id chain)
   \<and> run_ops Postgresql (upgrade_ops Postgresql chain) (Some empty_schema) = Some schema_at_head
   \<and> schema_wf schema_at_head
   \<and> set (table_names schema_at_head) = set (keys_of model_schema)
   \<and> schema_drift Postgresql model_schema (s_tables schema_at_head) =
     [(''news_articles_raw'', [''search_vector'', ''idx_raw_search_vector'']),
      (''news_articles_processed'', [''search_vector'', ''idx_processed_search_vector'']),
      (''signals'', [''confidence'', ''severity'', ''raw_signal'']),
      (''signal_metadata'', [''key'', ''value'']),
      (''signal_supply_chain_impact'', [''relationship_type'', ''impact_score'', ''description''])]
   \<and> run_ops Postgresql (downgrade_ops Postgresql chain) (Some schema_at_head) = Some (Schema [] [] [] [''vector''])"
proof (intro conjI)
  show "linear_from None chain" by code_simp
  show "distinct (map rev_id chain)" by code_simp
  show "schema_wf schema_at_head"
    by (rule run_ops_wf [OF chain_runs]) (simp add: empty_schema_def schema_wf_parts)
  have "all_in (table_names schema_at_head) (keys_of model_schema) \<and>
      all_in (keys_of model_schema) (table_names schema_at_head)"
    by code_simp
  then show "set (table_names schema_at_head) = set (keys_of model_schema)" by auto
qed (fact chain_runs head_drift chain_reverts)+

text \<open>C34: A revision can be taken back: for every revision of the chain except the nine named, the
  downgrade run after the upgrade gives back exactly the schema the upgrade found, whatever closed
  schema that was. The nine reorder, reset or conditionally drop what they undo.\<close>

theorem revisions_restore:
  assumes "r \<in> set chain"
    and "rev_id r \<notin> {''b2c3d4_signals_impact_areas_json'', ''c3d4e5_add_platform_language'', ''f6a7b8_enrichment_cache'',
      ''g1h2i3_add_auth_tenancy_audit'', ''h2i3j4_add_supplier_registry'', ''k5l6m7_audit_immutable'',
      ''q2r3s4_pgvector'', ''r3s4t5_article_fts'', ''v7w8x9_audit_actor_no_fk''}"
    and "schema_wf s" "run_ops Postgresql (rev_upgrade r Postgresql) (Some s) = Some s'"
  shows "run_ops Postgresql (rev_downgrade r Postgresql) (Some s') = Some s"
proof -
  have "rev_id r \<notin> set (map rev_id (filter (\<lambda>r. \<not> reversed_exactly Postgresql r) chain))"
    using assms(2) unfolding not_reversed by simp
  then have "reversed_exactly Postgresql r" using assms(1) by auto
  then show ?thesis using reversed_restores [OF assms(4) _ assms(3)] by (simp add: reversed_exactly_def)
qed

definition demo_schema :: schema where
  "demo_schema = Schema [(''risk_events'', Table [column_of ''id'' IntegerT False] [] [] [])] [] [] []"

lemma revisions_restore_witness:
  "run_ops Postgresql [DropColumn ''risk_events'' ''affected_supplier_ids'']
     (run_ops Postgresql (risk_supplier_ids_upgrade Postgresql) (Some demo_schema)) = Some demo_schema"
proof -
  define r where "r = chain ! 13"
  have r: "r \<in> set chain" "rev_upgrade r = risk_supplier_ids_upgrade" "rev_downgrade r = risk_supplier_ids_downgrade"
    "rev_id r = ''i3j4k5_risk_supplier_ids''"
    by (simp_all add: r_def chain_def)
  have wf: "schema_wf demo_schema" by (simp add: demo_schema_def schema_wf_parts table_wf_def fk_tables_def column_of_def)
  obtain s' where s': "run_ops Postgresql (risk_supplier_ids_upgrade Postgresql) (Some demo_schema) = Some s'"
    by (simp add: demo_schema_def risk_supplier_ids_upgrade_def in_table_def add_column_def column_names_def column_of_def)
  have "run_ops Postgresql (rev_downgrade r Postgresql) (Some s') = Some demo_schema"
    by (rule revisions_restore [OF r(1) _ wf]) (use r s' in simp_all)
  then show ?thesis using r(3) s' by (simp add: risk_supplier_ids_downgrade_def)
qed

end
