(* ===== verification/Privacy.thy ===== *)
theory Privacy
  imports MigrationFacts AuditTrail PyTime
begin

text \<open>
  The personal-data registry of \<^verbatim>\<open>privacy/inventory.py\<close> and what it drives: the export and the
  erasure of \<^verbatim>\<open>privacy/subject.py\<close> and the pruning of \<^verbatim>\<open>jobs/retention.py\<close>. The database is the
  rows of each table, a row the cell of each column. \<open>sql_delete\<close> is \<^verbatim>\<open>DELETE\<close> with the foreign
  keys of the migrated schema and the triggers that make a table append-only: a statement that
  would change such a table is refused, and with it the transaction.
\<close>

section \<open>The registry\<close>

datatype subject_link = USER_ID_INT | USER_PUBLIC_ID | NO_SUBJECT

datatype erasure_action = DELETE | ANONYMISE | RETAIN

text \<open>The prose of an entry, its purpose and its note, is left out.\<close>

datatype personal_data_table = PersonalDataTable
  (pt_table: string) (pt_link: subject_link) (pt_link_column: "string option") (pt_erasure: erasure_action)
  (pt_retention_days: "int option") (pt_retention_column: string) (pt_cascades_from: "string option")

definition behavioural_retention_days :: int where
  "behavioural_retention_days = 400"

definition held :: "string \<Rightarrow> subject_link \<Rightarrow> string \<Rightarrow> erasure_action \<Rightarrow> personal_data_table" where
  "held t link column action = PersonalDataTable t link (Some column) action None ''created_at'' None"

definition no_subject :: "string \<Rightarrow> personal_data_table" where
  "no_subject t = PersonalDataTable t NO_SUBJECT None RETAIN None ''created_at'' None"

fun kept_for :: "int \<Rightarrow> string \<Rightarrow> personal_data_table \<Rightarrow> personal_data_table" where
  "kept_for n column (PersonalDataTable t l lc a r rc cf) = PersonalDataTable t l lc a (Some n) column cf"

fun goes_with :: "string \<Rightarrow> personal_data_table \<Rightarrow> personal_data_table" where
  "goes_with parent (PersonalDataTable t l lc a r rc cf) = PersonalDataTable t l lc a r rc (Some parent)"

definition inventory :: "personal_data_table list" where
  "inventory =
    [ held ''users'' USER_ID_INT ''id'' DELETE,
      held ''memberships'' USER_ID_INT ''user_id'' DELETE,
      kept_for 90 ''expires_at'' (held ''refresh_tokens'' USER_ID_INT ''user_id'' DELETE),
      kept_for 180 ''created_at'' (held ''organization_invitations'' USER_ID_INT ''invited_by_user_id'' ANONYMISE),
      held ''user_news_preferences'' USER_PUBLIC_ID ''user_id'' DELETE,
      kept_for 14 ''surfaced_at'' (held ''user_news_feed'' USER_PUBLIC_ID ''user_id'' DELETE),
      kept_for 30 ''created_at'' (held ''news_article_matches'' USER_PUBLIC_ID ''user_id'' DELETE),
      kept_for behavioural_retention_days ''last_message_at'' (held ''chat_conversations'' USER_PUBLIC_ID ''user_id'' DELETE),
      kept_for behavioural_retention_days ''created_at'' (held ''chat_messages'' USER_PUBLIC_ID ''user_id'' DELETE),
      kept_for behavioural_retention_days ''created_at'' (held ''search_feedback'' USER_ID_INT ''user_id'' DELETE),
      kept_for 180 ''created_at'' (held ''notifications'' USER_ID_INT ''recipient_user_id'' DELETE),
      kept_for behavioural_retention_days ''started_at'' (held ''agent_runs'' USER_ID_INT ''requested_by_user_id'' DELETE),
      goes_with ''agent_runs'' (no_subject ''agent_steps''),
      goes_with ''agent_runs'' (held ''agent_recommendations'' USER_ID_INT ''decided_by_user_id'' ANONYMISE),
      held ''watchlists'' USER_ID_INT ''created_by_user_id'' ANONYMISE,
      held ''watchlist_entries'' USER_ID_INT ''added_by_user_id'' ANONYMISE,
      held ''alert_rules'' USER_ID_INT ''created_by_user_id'' ANONYMISE,
      held ''audit_log'' USER_ID_INT ''actor_user_id'' RETAIN,
      kept_for 30 ''created_at'' (no_subject ''dead_letters''),
      no_subject ''organizations'',
      no_subject ''suppliers'',
      no_subject ''supplier_aliases'',
      no_subject ''article_supplier_mentions'',
      kept_for 14 ''ingested_at'' (no_subject ''news_articles_raw''),
      kept_for 30 ''processed_at'' (no_subject ''news_articles_processed''),
      goes_with ''news_articles_processed'' (no_subject ''article_embeddings''),
      kept_for 14 ''published_at'' (no_subject ''risk_events''),
      no_subject ''signals'',
      no_subject ''signal_metadata'',
      no_subject ''signal_supply_chain_impact'',
      no_subject ''news_pipeline_runs'',
      no_subject ''news_priority_events'',
      no_subject ''news_retrieval_runs'',
      no_subject ''news_retrieval_source_outcomes'',
      no_subject ''news_retrieval_circuits'',
      no_subject ''enrichment_cache'',
      no_subject ''llm_spend'' ]"

definition subject_tables :: "subject_link \<Rightarrow> personal_data_table list" where
  "subject_tables link = filter (\<lambda>e. pt_link e = link) inventory"

definition unregistered_tables :: "string list" where
  "unregistered_tables = filter (\<lambda>t. t \<notin> set (map pt_table inventory)) (keys_of model_schema)"

section \<open>Rows and statements\<close>

datatype cell =
    NullC | IntC int | StrC string | TimeC datetime | DecimalC string | BytesC string
  | JsonC json  \<comment> \<open>what JSON holds already\<close>

type_synonym row = "string \<Rightarrow> cell"
type_synonym database = "string \<Rightarrow> row list"

text \<open>A reference from a cell to a row that goes.\<close>

definition refers :: "database \<Rightarrow> (string \<Rightarrow> row \<Rightarrow> bool) \<Rightarrow> string \<Rightarrow> cell \<Rightarrow> bool" where
  "refers db gone parent v \<longleftrightarrow> v \<noteq> NullC \<and> list_ex (\<lambda>q. gone parent q \<and> q ''id'' = v) (db parent)"

text \<open>\<^verbatim>\<open>ON DELETE CASCADE\<close>. The edges are in the order the tables were created, a parent before its
  children, so one pass follows chains of references to the end.\<close>

fun cascade :: "fk_edge list \<Rightarrow> database \<Rightarrow> (string \<Rightarrow> row \<Rightarrow> bool) \<Rightarrow> (string \<Rightarrow> row \<Rightarrow> bool)" where
  "cascade [] db gone = gone"
| "cascade ((child, column, parent, Cascade) # es) db gone =
     cascade es db (gone(child := \<lambda>r. gone child r \<or> refers db gone parent (r column)))"
| "cascade ((child, column, parent, SetNull) # es) db gone = cascade es db gone"

text \<open>\<^verbatim>\<open>ON DELETE SET NULL\<close>.\<close>

fun loses_reference :: "database \<Rightarrow> (string \<Rightarrow> row \<Rightarrow> bool) \<Rightarrow> string \<Rightarrow> row \<Rightarrow> fk_edge \<Rightarrow> bool" where
  "loses_reference db gone t r (child, column, parent, od) \<longleftrightarrow>
     child = t \<and> od = SetNull \<and> refers db gone parent (r column)"

definition nullified :: "fk_edge list \<Rightarrow> database \<Rightarrow> (string \<Rightarrow> row \<Rightarrow> bool) \<Rightarrow> string \<Rightarrow> row \<Rightarrow> row" where
  "nullified es db gone t r = fold (\<lambda>e r'. r'(fst (snd e) := NullC)) (filter (loses_reference db gone t r) es) r"

definition touched :: "fk_edge list \<Rightarrow> database \<Rightarrow> (string \<Rightarrow> row \<Rightarrow> bool) \<Rightarrow> string \<Rightarrow> row \<Rightarrow> bool" where
  "touched es db gone t r \<longleftrightarrow> gone t r \<or> list_ex (loses_reference db gone t r) es"

text \<open>\<^verbatim>\<open>DELETE FROM t WHERE p\<close> with its row count; \<open>None\<close> when an append-only table would change.\<close>

definition sql_delete ::
  "fk_edge list \<Rightarrow> string list \<Rightarrow> string \<Rightarrow> (row \<Rightarrow> bool) \<Rightarrow> database \<Rightarrow> (nat \<times> database) option" where
  "sql_delete es locked t p db =
     (let gone = cascade es db ((\<lambda>_ _. False)(t := p))
      in if list_ex (\<lambda>l. list_ex (touched es db gone l) (db l)) locked then None
         else Some (length (filter p (db t)),
                    \<lambda>u. map (nullified es db gone u) (filter (\<lambda>r. \<not> gone u r) (db u))))"

text \<open>\<^verbatim>\<open>UPDATE t SET column = NULL WHERE column = v\<close>.\<close>

definition sql_set_null ::
  "string list \<Rightarrow> string \<Rightarrow> string \<Rightarrow> cell \<Rightarrow> database \<Rightarrow> (nat \<times> database) option" where
  "sql_set_null locked t column v db =
     (let hit = \<lambda>r. r column = v
      in if t \<in> set locked \<and> list_ex hit (db t) then None
         else Some (length (filter hit (db t)),
                    db(t := map (\<lambda>r. if hit r then r(column := NullC) else r) (db t))))"

text \<open>What the migrated database has: its foreign keys, and the tables whose triggers refuse changes.\<close>

definition head_edges :: "fk_edge list" where
  "head_edges = foreign_keys (s_tables schema_at_head)"

definition append_only :: "string list" where
  "append_only = remdups (map (fst \<circ> snd) (s_triggers schema_at_head))"

section \<open>Subject access\<close>

record subject =
  sj_id :: int
  sj_public_id :: string
  sj_email :: string
  sj_full_name :: "string option"

fun jsonable :: "cell \<Rightarrow> json" where
  "jsonable NullC = JNull"
| "jsonable (IntC n) = JInt n"
| "jsonable (StrC s) = JStr s"
| "jsonable (TimeC t) = JStr (isoformat t)"
| "jsonable (DecimalC x) = JFloat x"
| "jsonable (BytesC b) = JStr redacted"
| "jsonable (JsonC j) = j"

definition row_to_dict :: "string list \<Rightarrow> row \<Rightarrow> (string \<times> json) list" where
  "row_to_dict cols r = map (\<lambda>c. (c, if is_sensitive_key c then JStr redacted else jsonable (r c))) cols"

definition subject_value :: "subject \<Rightarrow> subject_link \<Rightarrow> cell" where
  "subject_value u link = (if link = USER_PUBLIC_ID then StrC (sj_public_id u) else IntC (sj_id u))"

definition table_columns :: "string \<Rightarrow> string list" where
  "table_columns t = (case named t model_schema of None \<Rightarrow> [] | Some m \<Rightarrow> column_names m)"

definition linked_rows :: "subject \<Rightarrow> personal_data_table \<Rightarrow> database \<Rightarrow> row list" where
  "linked_rows u e db = (case pt_link_column e of None \<Rightarrow> []
     | Some c \<Rightarrow> if pt_link e = NO_SUBJECT then [] else filter (\<lambda>r. r c = subject_value u (pt_link e)) (db (pt_table e)))"

definition export_subject :: "subject \<Rightarrow> database \<Rightarrow> (string \<times> (string \<times> json) list list) list" where
  "export_subject u db = map (\<lambda>e. (pt_table e, map (row_to_dict (table_columns (pt_table e))) (linked_rows u e db)))
     (filter (\<lambda>e. pt_link e \<noteq> NO_SUBJECT \<and> pt_link_column e \<noteq> None) inventory)"

section \<open>Erasure\<close>

record receipt =
  er_subject_public_id :: string
  er_erased_at :: datetime
  er_reason :: string
  er_deleted :: "(string \<times> nat) list"
  er_anonymised :: "(string \<times> nat) list"
  er_retained :: "(string \<times> nat) list"

definition erase_entry :: "fk_edge list \<Rightarrow> string list \<Rightarrow> subject \<Rightarrow> personal_data_table \<Rightarrow> receipt \<times> database
    \<Rightarrow> (receipt \<times> database) option" where
  "erase_entry es locked u e st =
     (case pt_link_column e of None \<Rightarrow> Some st
      | Some c \<Rightarrow> if pt_link e = NO_SUBJECT then Some st
        else (let t = pt_table e; v = subject_value u (pt_link e); db = snd st
          in case pt_erasure e of
               RETAIN \<Rightarrow> Some ((fst st)\<lparr>er_retained := er_retained (fst st) @ [(t, length (filter (\<lambda>r. r c = v) (db t)))]\<rparr>, db)
             | ANONYMISE \<Rightarrow> map_option (\<lambda>(n, db'). ((fst st)\<lparr>er_anonymised := er_anonymised (fst st) @ [(t, n)]\<rparr>, db'))
                 (sql_set_null locked t c v db)
             | DELETE \<Rightarrow> if t = ''users'' then Some st
                 else map_option (\<lambda>(n, db'). ((fst st)\<lparr>er_deleted := er_deleted (fst st) @ [(t, n)]\<rparr>, db'))
                   (sql_delete es locked t (\<lambda>r. r c = v) db)))"

fun erase_entries :: "fk_edge list \<Rightarrow> string list \<Rightarrow> subject \<Rightarrow> personal_data_table list \<Rightarrow> receipt \<times> database
    \<Rightarrow> (receipt \<times> database) option" where
  "erase_entries es locked u [] st = Some st"
| "erase_entries es locked u (e # rest) st = (case erase_entry es locked u e st of None \<Rightarrow> None
     | Some st' \<Rightarrow> erase_entries es locked u rest st')"

text \<open>The account goes last.\<close>

definition erase_subject :: "fk_edge list \<Rightarrow> string list \<Rightarrow> subject \<Rightarrow> string \<Rightarrow> datetime \<Rightarrow> database
    \<Rightarrow> (receipt \<times> database) option" where
  "erase_subject es locked u reason now db =
     (let start = \<lparr>er_subject_public_id = sj_public_id u, er_erased_at = now, er_reason = reason,
                   er_deleted = [], er_anonymised = [], er_retained = []\<rparr>
      in case erase_entries es locked u inventory (start, db) of None \<Rightarrow> None
       | Some (rc, db') \<Rightarrow> map_option (\<lambda>(n, db''). (rc\<lparr>er_deleted := er_deleted rc @ [(''users'', n)]\<rparr>, db''))
           (sql_delete es locked ''users'' (\<lambda>r. r ''id'' = IntC (sj_id u)) db'))"

section \<open>Retention\<close>

text \<open>\<^verbatim>\<open>_registry_days\<close>: the first window the registry records for a table; a missing one raises.\<close>

definition registry_days :: "string \<Rightarrow> int option" where
  "registry_days t = (case filter (\<lambda>e. pt_table e = t \<and> pt_retention_days e \<noteq> None) inventory of
     [] \<Rightarrow> None | e # es \<Rightarrow> pt_retention_days e)"

record retention_policy =
  rp_raw_days :: int
  rp_processed_days :: int
  rp_feed_days :: int
  rp_risk_event_days :: int

definition registry_policy :: "retention_policy option" where
  "registry_policy =
     (case (registry_days ''news_articles_raw'', registry_days ''news_articles_processed'',
            registry_days ''user_news_feed'', registry_days ''risk_events'') of
        (Some a, Some b, Some c, Some d) \<Rightarrow>
          Some \<lparr>rp_raw_days = a, rp_processed_days = b, rp_feed_days = c, rp_risk_event_days = d\<rparr>
      | _ \<Rightarrow> None)"

definition policy_days :: "retention_policy \<Rightarrow> personal_data_table \<Rightarrow> int option" where
  "policy_days pol e = (case pt_retention_days e of None \<Rightarrow> None | Some n \<Rightarrow>
     Some (if pt_table e = ''news_articles_raw'' then rp_raw_days pol
           else if pt_table e = ''news_articles_processed'' then rp_processed_days pol
           else if pt_table e = ''user_news_feed'' then rp_feed_days pol
           else if pt_table e = ''risk_events'' then rp_risk_event_days pol else n))"

text \<open>A comparison with \<open>NULL\<close> is not true.\<close>

fun before :: "cell \<Rightarrow> datetime \<Rightarrow> bool" where
  "before (TimeC x) t = (x < t)"
| "before _ t = False"

definition past_window :: "retention_policy \<Rightarrow> datetime \<Rightarrow> personal_data_table \<Rightarrow> row \<Rightarrow> bool" where
  "past_window pol now e r = (case policy_days pol e of None \<Rightarrow> False
     | Some n \<Rightarrow> before (r (pt_retention_column e)) (now - days n))"

fun prune_entries :: "fk_edge list \<Rightarrow> string list \<Rightarrow> retention_policy \<Rightarrow> datetime \<Rightarrow> personal_data_table list
    \<Rightarrow> (string \<times> nat) list \<times> database \<Rightarrow> ((string \<times> nat) list \<times> database) option" where
  "prune_entries es locked pol now [] st = Some st"
| "prune_entries es locked pol now (e # rest) (counts, db) =
     (if pt_retention_days e = None then prune_entries es locked pol now rest (counts, db)
      else case sql_delete es locked (pt_table e) (past_window pol now e) db of None \<Rightarrow> None
        | Some (n, db') \<Rightarrow> prune_entries es locked pol now rest (counts @ [(pt_table e, n)], db'))"

record retention_result =
  rr_raw_deleted :: nat
  rr_processed_deleted :: nat
  rr_feed_deleted :: nat
  rr_risk_events_deleted :: nat
  rr_by_table :: "(string \<times> nat) list"

definition prune_expired_records :: "fk_edge list \<Rightarrow> string list \<Rightarrow> retention_policy option \<Rightarrow> datetime \<Rightarrow> database
    \<Rightarrow> (retention_result \<times> database) option" where
  "prune_expired_records es locked policy now db =
     (case (case policy of Some p \<Rightarrow> Some p | None \<Rightarrow> registry_policy) of None \<Rightarrow> None
      | Some pol \<Rightarrow>
          map_option (\<lambda>(by_table, db').
              (let get = \<lambda>t. case map_of (rev by_table) t of None \<Rightarrow> 0 | Some n \<Rightarrow> n
               in \<lparr>rr_raw_deleted = get ''news_articles_raw'', rr_processed_deleted = get ''news_articles_processed'',
                   rr_feed_deleted = get ''user_news_feed'', rr_risk_events_deleted = get ''risk_events'',
                   rr_by_table = by_table\<rparr>, db'))
            (prune_entries es locked pol now inventory ([], db)))"

end
