(* ===== verification/PrivacyFacts.thy ===== *)
theory PrivacyFacts
  imports Privacy
begin

text \<open>
  What the registry guarantees: it covers the schema, an export shows everything linked and no
  credential, an erasure leaves nothing of the person outside the audit trail and touches nobody
  else, and pruning removes exactly what is past its window. The lemmas on \<open>sql_delete\<close> say how far
  a deletion reaches: nowhere, when nothing references the rows that go; one step, when the
  children of the table have none of their own.
\<close>

section \<open>How far a deletion reaches\<close>


lemma refers_none: "gone par = (\<lambda>_. False) \<Longrightarrow> \<not> refers db gone par v"
  by (simp add: refers_def list_ex_iff)



definition leaf :: "fk_edge list \<Rightarrow> string \<Rightarrow> bool" where
  "leaf es t = list_all (\<lambda>(c, col, par, od). par \<noteq> t) es"


text \<open>The rows of another table that go along with the rows \<open>p\<close> of \<open>t\<close>.\<close>

definition goes_along :: "fk_edge list \<Rightarrow> database \<Rightarrow> string \<Rightarrow> (row \<Rightarrow> bool) \<Rightarrow> string \<Rightarrow> row \<Rightarrow> bool" where
  "goes_along es db t p u r \<longleftrightarrow> list_ex (\<lambda>(c, col, par, od). c = u \<and> par = t \<and> refers db (\<lambda>_. p) t (r col)) es"

definition shallow :: "fk_edge list \<Rightarrow> string \<Rightarrow> bool" where
  "shallow es t = list_all (\<lambda>(c, col, par, od). par = t \<longrightarrow> od = Cascade \<and> c \<noteq> t \<and> leaf es c) es"

lemma cascade_shallow:
  assumes "\<And>c col par od. (c, col, par, od) \<in> set es \<Longrightarrow> par \<noteq> t \<Longrightarrow> gone par = (\<lambda>_. False)"
    and "\<And>c col od. (c, col, t, od) \<in> set es \<Longrightarrow> od = Cascade \<and> c \<noteq> t \<and> leaf es c"
    and "gone t = p"
  shows "cascade es db gone u r \<longleftrightarrow> gone u r \<or> goes_along es db t p u r"
  using assms
proof (induction es db gone rule: cascade.induct)
  case (1 db gone)
  then show ?case by (simp add: goes_along_def)
next
  case (2 child column parent es db gone)
  have leaves: "leaf es c" if "(c, col, t, od) \<in> set es" for c col od
    using 2(3) [of c col od] that by (simp add: leaf_def)
  show ?case
  proof (cases "parent = t")
    case True
    let ?g = "gone(child := \<lambda>r. gone child r \<or> refers db gone parent (r column))"
    have child: "child \<noteq> t" "leaf es child" using 2(3) [of child column Cascade] True by (auto simp: leaf_def)
    have "cascade es db ?g u r \<longleftrightarrow> ?g u r \<or> goes_along es db t p u r"
    proof (rule 2(1))
      show "?g par = (\<lambda>_. False)" if "(c, col, par, od) \<in> set es" "par \<noteq> t" for c col par od
      proof -
        have "par \<noteq> child" using child(2) that(1) by (auto simp: leaf_def list_all_iff)
        then show ?thesis using 2(2) [of c col par od] that by simp
      qed
      show "od = Cascade \<and> c \<noteq> t \<and> leaf es c" if "(c, col, t, od) \<in> set es" for c col od
        using 2(3) [of c col od] that leaves by simp
      show "?g t = p" using child(1) 2(4) by simp
    qed
    moreover have "refers db gone parent v = refers db (\<lambda>_. p) t v" for v
      using True 2(4) by (simp add: refers_def)
    ultimately show ?thesis using True by (auto simp: goes_along_def)
  next
    case False
    then have "gone parent = (\<lambda>_. False)" using 2(2) [of child column parent Cascade] by simp
    then have same: "gone(child := \<lambda>r. gone child r \<or> refers db gone parent (r column)) = gone"
      by (auto simp: refers_none)
    have "cascade es db gone u r \<longleftrightarrow> gone u r \<or> goes_along es db t p u r"
    proof (rule 2(1) [unfolded same])
      show "gone par = (\<lambda>_. False)" if "(c, col, par, od) \<in> set es" "par \<noteq> t" for c col par od
        using 2(2) [of c col par od] that by simp
      show "od = Cascade \<and> c \<noteq> t \<and> leaf es c" if "(c, col, t, od) \<in> set es" for c col od
        using 2(3) [of c col od] that leaves by simp
      show "gone t = p" by (rule 2(4))
    qed
    then show ?thesis using False unfolding cascade.simps same by (simp add: goes_along_def)
  qed
next
  case (3 child column parent es db gone)
  have parent: "parent \<noteq> t" using 3(3) [of child column SetNull] by auto
  have "leaf es c" if "(c, col, t, od) \<in> set es" for c col od
    using 3(3) [of c col od] that by (simp add: leaf_def)
  then have "od = Cascade \<and> c \<noteq> t \<and> leaf es c" if "(c, col, t, od) \<in> set es" for c col od
    using 3(3) [of c col od] that by simp
  moreover have "gone par = (\<lambda>_. False)" if "(c, col, par, od) \<in> set es" "par \<noteq> t" for c col par od
    using 3(2) [of c col par od] that by simp
  ultimately have "cascade es db gone u r \<longleftrightarrow> gone u r \<or> goes_along es db t p u r"
    using 3(1) 3(4) by blast
  then show ?case using parent by (simp add: goes_along_def)
qed

lemma sql_delete_shallow:
  assumes "shallow es t" "list_all (\<lambda>l. l \<noteq> t \<and> list_all (\<lambda>(c, col, par, od). c = l \<longrightarrow> par \<noteq> t) es) locked"
  shows "sql_delete es locked t p db =
    Some (length (filter p (db t)), \<lambda>u. filter (\<lambda>r. \<not> (u = t \<and> p r) \<and> \<not> goes_along es db t p u r) (db u))"
proof -
  let ?start = "(\<lambda>_ _. False)(t := p) :: string \<Rightarrow> row \<Rightarrow> bool"
  let ?g = "cascade es db ?start"
  have edges: "od = Cascade \<and> c \<noteq> t \<and> leaf es c" if "(c, col, t, od) \<in> set es" for c col od
    using assms(1) that by (auto simp: shallow_def list_all_iff)
  have gone: "?g u r \<longleftrightarrow> (u = t \<and> p r) \<or> goes_along es db t p u r" for u r
    using cascade_shallow [of es t ?start p db u r] edges by (cases "u = t") auto
  have none: "\<not> refers db ?g par v" if "(c, col, par, SetNull) \<in> set es" for c col par v
  proof -
    have "par \<noteq> t" using edges that by blast
    moreover have "\<not> goes_along es db t p par q" for q
      using edges that by (fastforce simp: goes_along_def list_ex_iff leaf_def list_all_iff)
    ultimately show ?thesis by (simp add: refers_def gone list_ex_iff)
  qed
  then have loses: "\<not> loses_reference db ?g u r e" if "e \<in> set es" for u r e
    using that by (cases e) auto
  then have null: "nullified es db ?g u = (\<lambda>r. r)" for u
    by (auto simp: nullified_def filter_empty_conv fun_eq_iff)
  have "\<not> touched es db ?g l r" if "l \<in> set locked" for l r
  proof -
    have "l \<noteq> t" "\<not> goes_along es db t p l r"
      using assms(2) that by (auto simp: goes_along_def list_all_iff list_ex_iff)
    then show ?thesis using loses by (auto simp: touched_def gone list_ex_iff)
  qed
  then show ?thesis by (auto simp: sql_delete_def Let_def list_ex_iff null gone fun_eq_iff intro!: filter_cong)
qed

section \<open>The migrated database\<close>

lemmas head_edges_list = head_edges_def [unfolded head_foreign_keys]

lemma append_only_audit: "append_only = [''audit_log'']"
  by (simp add: append_only_def head_triggers audit_triggers_def)







lemma inventory_tables: "map pt_table inventory =
    [''users'', ''memberships'', ''refresh_tokens'', ''organization_invitations'', ''user_news_preferences'',
     ''user_news_feed'', ''news_article_matches'', ''chat_conversations'', ''chat_messages'', ''search_feedback'',
     ''notifications'', ''agent_runs'', ''agent_steps'', ''agent_recommendations'', ''watchlists'',
     ''watchlist_entries'', ''alert_rules'', ''audit_log'', ''dead_letters'', ''organizations'', ''suppliers'',
     ''supplier_aliases'', ''article_supplier_mentions'', ''news_articles_raw'', ''news_articles_processed'',
     ''article_embeddings'', ''risk_events'', ''signals'', ''signal_metadata'', ''signal_supply_chain_impact'',
     ''news_pipeline_runs'', ''news_priority_events'', ''news_retrieval_runs'', ''news_retrieval_source_outcomes'',
     ''news_retrieval_circuits'', ''enrichment_cache'', ''llm_spend'']"
  by (simp add: inventory_def held_def no_subject_def)

lemma inventory_distinct: "distinct (map pt_table inventory)"
  unfolding inventory_tables by code_simp

section \<open>Erasure, entry by entry\<close>











definition entry_of :: "string \<Rightarrow> personal_data_table list \<Rightarrow> personal_data_table option" where
  "entry_of t entries = find (\<lambda>e. pt_table e = t) entries"

lemma entry_of_simps [simp]:
  "entry_of t [] = None" "entry_of t (e # es) = (if pt_table e = t then Some e else entry_of t es)"
  by (simp_all add: entry_of_def)

lemma entry_of_append: "entry_of t (xs @ ys) = (case entry_of t xs of None \<Rightarrow> entry_of t ys | Some e \<Rightarrow> Some e)"
  by (induction xs) auto







section \<open>The erasure of a subject\<close>








lemma users_edges:
  assumes "(c, col, ''users'', od) \<in> set head_edges"
  shows "c \<noteq> ''users'' \<and> (\<exists>e \<in> set inventory. pt_table e = c \<and> pt_link_column e = Some col \<and> pt_link e = USER_ID_INT \<and> pt_erasure e \<noteq> RETAIN)"
proof -
  have "list_all (\<lambda>(c, col, par, od). par = ''users'' \<longrightarrow> c \<noteq> ''users'' \<and>
      list_ex (\<lambda>e. pt_table e = c \<and> pt_link_column e = Some col \<and> pt_link e = USER_ID_INT \<and> pt_erasure e \<noteq> RETAIN) inventory)
    head_edges"
    unfolding head_edges_list by code_simp
  then show ?thesis using assms by (fastforce simp: list_all_iff list_ex_iff)
qed








section \<open>Properties\<close>








section \<open>Retention\<close>

lemma map_of_rev_keys: "distinct (map fst xs) \<Longrightarrow> map_of (rev xs) = map_of xs"
proof -
  assume d: "distinct (map fst xs)"
  have "map_of (rev xs) k = Some v \<longleftrightarrow> map_of xs k = Some v" for k v
    using d by (simp add: map_of_eq_Some_iff rev_map [symmetric])
  then show ?thesis by (metis ext not_Some_eq)
qed

definition windows :: "personal_data_table list" where
  "windows = filter (\<lambda>e. pt_retention_days e \<noteq> None) inventory"

definition expired_in :: "retention_policy \<Rightarrow> datetime \<Rightarrow> database \<Rightarrow> personal_data_table \<Rightarrow> nat" where
  "expired_in pol now db e = length (filter (past_window pol now e) (db (pt_table e)))"

text \<open>What goes when an entry is pruned: its expired rows and the children of those.\<close>

definition pruned_by :: "fk_edge list \<Rightarrow> retention_policy \<Rightarrow> datetime \<Rightarrow> database \<Rightarrow> string \<Rightarrow> row \<Rightarrow> personal_data_table \<Rightarrow> bool" where
  "pruned_by es pol now db t r e \<longleftrightarrow> t = pt_table e \<and> past_window pol now e r
     \<or> goes_along es db (pt_table e) (past_window pol now e) t r"

definition pruned :: "fk_edge list \<Rightarrow> retention_policy \<Rightarrow> datetime \<Rightarrow> personal_data_table list \<Rightarrow> database \<Rightarrow> database" where
  "pruned es pol now entries db t = filter (\<lambda>r. \<not> list_ex (pruned_by es pol now db t r) entries) (db t)"

definition child_of :: "fk_edge list \<Rightarrow> string \<Rightarrow> string \<Rightarrow> bool" where
  "child_of es par t = list_ex (\<lambda>(c, col, p, od). c = t \<and> p = par) es"

definition prunable :: "fk_edge list \<Rightarrow> string list \<Rightarrow> string \<Rightarrow> bool" where
  "prunable es locked t \<longleftrightarrow> shallow es t
     \<and> list_all (\<lambda>l. l \<noteq> t \<and> list_all (\<lambda>(c, col, par, od). c = l \<longrightarrow> par \<noteq> t) es) locked"

text \<open>No entry is pruned after one that takes its rows along.\<close>

fun independent :: "fk_edge list \<Rightarrow> personal_data_table list \<Rightarrow> bool" where
  "independent es [] = True"
| "independent es (e # rest) = (list_all (\<lambda>e'. pt_table e' \<noteq> pt_table e \<and> \<not> child_of es (pt_table e) (pt_table e')) rest
     \<and> independent es rest)"

lemma goes_along_child: "goes_along es db par p t r \<Longrightarrow> child_of es par t"
  by (auto simp: goes_along_def child_of_def list_ex_iff)

lemma goes_along_cong: "db par = db' par \<Longrightarrow> goes_along es db par p t r = goes_along es db' par p t r"
  by (simp add: goes_along_def refers_def)

lemma prune_entries_pruned:
  assumes "list_all (\<lambda>e. pt_retention_days e \<noteq> None \<and> prunable es locked (pt_table e)) entries" "independent es entries"
  shows "prune_entries es locked pol now entries (counts, db) =
    Some (counts @ map (\<lambda>e. (pt_table e, expired_in pol now db e)) entries, pruned es pol now entries db)"
  using assms
proof (induction entries arbitrary: counts db)
  case Nil
  then show ?case by (simp add: pruned_def)
next
  case (Cons e entries)
  let ?db = "\<lambda>u. filter (\<lambda>r. \<not> pruned_by es pol now db u r e) (db u)"
  have step: "sql_delete es locked (pt_table e) (past_window pol now e) db = Some (expired_in pol now db e, ?db)"
    using sql_delete_shallow [of es "pt_table e" locked "past_window pol now e" db] Cons.prems(1)
    by (simp add: prunable_def expired_in_def pruned_by_def)
  have same: "?db (pt_table e') = db (pt_table e')" if "e' \<in> set entries" for e'
  proof -
    have "pt_table e' \<noteq> pt_table e" "\<not> child_of es (pt_table e) (pt_table e')"
      using Cons.prems(2) that by (auto simp: list_all_iff)
    then show ?thesis using goes_along_child by (fastforce simp: pruned_by_def intro!: filter_True)
  qed
  have "expired_in pol now ?db e' = expired_in pol now db e'" if "e' \<in> set entries" for e'
    using same [OF that] by (simp add: expired_in_def)
  moreover have "pruned_by es pol now ?db t r e' = pruned_by es pol now db t r e'" if "e' \<in> set entries" for e' t r
    using goes_along_cong [of ?db "pt_table e'" db] same [OF that] by (simp add: pruned_by_def)
  then have "list_ex (pruned_by es pol now ?db t r) entries = list_ex (pruned_by es pol now db t r) entries" for t r
    by (auto simp: list_ex_iff)
  then have "pruned es pol now entries ?db = pruned es pol now (e # entries) db"
    by (simp add: pruned_def fun_eq_iff conj_commute)
  ultimately show ?case using Cons step by (simp add: list_all_iff)
qed

lemma prune_entries_windows: "prune_entries es locked pol now entries st =
    prune_entries es locked pol now (filter (\<lambda>e. pt_retention_days e \<noteq> None) entries) st"
  by (induction entries arbitrary: st) (auto split: option.split simp: case_prod_unfold)

lemma windows_prunable: "list_all (\<lambda>e. pt_retention_days e \<noteq> None \<and> prunable head_edges append_only (pt_table e)) windows"
  unfolding append_only_audit head_edges_list by code_simp

lemma windows_independent: "independent head_edges windows"
  unfolding head_edges_list by code_simp

lemma pruned_again: "pruned es pol now entries (pruned es pol now entries db) = pruned es pol now entries db"
proof
  fix t
  let ?db = "pruned es pol now entries db"
  have kept: "\<not> past_window pol now e r" if "e \<in> set entries" "r \<in> set (?db (pt_table e))" for e r
    using that by (auto simp: pruned_def pruned_by_def list_ex_iff)
  have "\<not> pruned_by es pol now ?db t r e" if "e \<in> set entries" "r \<in> set (?db t)" for e r
    using that kept by (auto simp: pruned_by_def goes_along_def refers_def list_ex_iff)
  then show "pruned es pol now entries ?db t = ?db t"
    by (subst pruned_def) (auto simp: list_ex_iff intro!: filter_True)
qed

lemma nothing_expired: "e \<in> set entries \<Longrightarrow> expired_in pol now (pruned es pol now entries db) e = 0"
  by (auto simp: expired_in_def pruned_def pruned_by_def filter_empty_conv list_ex_iff)

text \<open>C39: Pruning removes what is past its window and nothing else: on the migrated database it always
  goes through, with the windows the caller gave or else those of the registry; from every table
  with a window the rows older than it are gone, with the children of a removed run, article or
  event, and no other row; the counts are those of the expired rows, the four named ones
  included; pruning once more at the same time finds nothing.\<close>

theorem retention_exact:
  "\<exists>res again. prune_expired_records head_edges append_only (Some pol) now db =
       Some (res, pruned head_edges pol now windows db)
   \<and> rr_by_table res = map (\<lambda>e. (pt_table e, expired_in pol now db e)) windows
   \<and> map (map_of (rr_by_table res)) [''news_articles_raw'', ''news_articles_processed'', ''user_news_feed'', ''risk_events''] =
       map Some [rr_raw_deleted res, rr_processed_deleted res, rr_feed_deleted res, rr_risk_events_deleted res]
   \<and> prune_expired_records head_edges append_only (Some pol) now (pruned head_edges pol now windows db) =
       Some (again, pruned head_edges pol now windows db)
   \<and> rr_by_table again = map (\<lambda>e. (pt_table e, 0)) windows
   \<and> prune_expired_records head_edges append_only None now db =
       prune_expired_records head_edges append_only
         (Some \<lparr>rp_raw_days = 14, rp_processed_days = 30, rp_feed_days = 14, rp_risk_event_days = 14\<rparr>) now db"
proof -
  let ?again = "map (\<lambda>e. (pt_table e, expired_in pol now (pruned head_edges pol now windows db) e)) windows"
  have run: "prune_entries head_edges append_only pol now inventory ([], db) =
      Some (map (\<lambda>e. (pt_table e, expired_in pol now db e)) windows, pruned head_edges pol now windows db)" for db
    using prune_entries_pruned [OF windows_prunable windows_independent, of pol now "[]" db]
      prune_entries_windows [of head_edges append_only pol now inventory "([], db)"]
    by (simp add: windows_def)
  have "distinct (map pt_table windows)"
    unfolding windows_def using inventory_distinct by (simp add: distinct_map_filter)
  then have "distinct (map fst (map (\<lambda>e. (pt_table e, f e)) windows))" for f :: "personal_data_table \<Rightarrow> nat"
    by (simp add: comp_def)
  then have rev: "map_of (rev (map (\<lambda>e. (pt_table e, f e)) windows)) = map_of (map (\<lambda>e. (pt_table e, f e)) windows)"
    for f :: "personal_data_table \<Rightarrow> nat"
    by (metis map_of_rev_keys)
  have named: "Some (case map_of (map (\<lambda>e. (pt_table e, f e)) windows) t of None \<Rightarrow> 0 | Some n \<Rightarrow> n)
      = map_of (map (\<lambda>e. (pt_table e, f e)) windows) t" if "t \<in> set (map pt_table windows)"
    for f :: "personal_data_table \<Rightarrow> nat" and t
  proof -
    have "map_of (map (\<lambda>e. (pt_table e, f e)) windows) t \<noteq> None"
      using that by (auto simp: map_of_eq_None_iff image_image)
    then show ?thesis by auto
  qed
  have four: "''news_articles_raw'' \<in> set (map pt_table windows)" "''news_articles_processed'' \<in> set (map pt_table windows)"
    "''user_news_feed'' \<in> set (map pt_table windows)" "''risk_events'' \<in> set (map pt_table windows)"
    by code_simp+
  have zero: "map (\<lambda>e. (pt_table e, expired_in pol now (pruned head_edges pol now windows db) e)) windows =
      map (\<lambda>e. (pt_table e, 0)) windows"
    by (simp add: nothing_expired)
  have days: "registry_policy = Some \<lparr>rp_raw_days = 14, rp_processed_days = 30, rp_feed_days = 14, rp_risk_event_days = 14\<rparr>"
    by code_simp
  define by_table where "by_table db = map (\<lambda>e. (pt_table e, expired_in pol now db e)) windows" for db
  define get where "get db t = (case map_of (by_table db) t of None \<Rightarrow> 0 | Some n \<Rightarrow> n)" for db t
  define res where "res db = \<lparr>rr_raw_deleted = get db ''news_articles_raw'', rr_processed_deleted = get db ''news_articles_processed'',
    rr_feed_deleted = get db ''user_news_feed'', rr_risk_events_deleted = get db ''risk_events'', rr_by_table = by_table db\<rparr>" for db
  have prune: "prune_expired_records head_edges append_only (Some pol) now db = Some (res db, pruned head_edges pol now windows db)" for db
    by (simp add: prune_expired_records_def run Let_def rev res_def get_def by_table_def)
  have got: "map (map_of (rr_by_table (res db))) [''news_articles_raw'', ''news_articles_processed'', ''user_news_feed'', ''risk_events''] =
      map Some [rr_raw_deleted (res db), rr_processed_deleted (res db), rr_feed_deleted (res db), rr_risk_events_deleted (res db)]"
    using named [OF four(1)] named [OF four(2)] named [OF four(3)] named [OF four(4)]
    by (simp add: res_def get_def by_table_def)
  have registry_days_used: "prune_expired_records head_edges append_only None now db = prune_expired_records head_edges append_only
      (Some \<lparr>rp_raw_days = 14, rp_processed_days = 30, rp_feed_days = 14, rp_risk_event_days = 14\<rparr>) now db"
    by (simp add: prune_expired_records_def days)
  show ?thesis
  proof (intro exI conjI)
    show "rr_by_table (res db) = map (\<lambda>e. (pt_table e, expired_in pol now db e)) windows"
      by (simp add: res_def by_table_def)
    show "rr_by_table (res (pruned head_edges pol now windows db)) = map (\<lambda>e. (pt_table e, 0)) windows"
      using zero by (simp add: res_def by_table_def)
    show "prune_expired_records head_edges append_only (Some pol) now (pruned head_edges pol now windows db) =
        Some (res (pruned head_edges pol now windows db), pruned head_edges pol now windows db)"
      using prune [of "pruned head_edges pol now windows db"] by (simp add: pruned_again)
  qed (fact prune got registry_days_used)+
qed

section \<open>The registry and the schema\<close>

definition holds_column :: "string \<Rightarrow> string \<Rightarrow> (column \<Rightarrow> bool) \<Rightarrow> bool" where
  "holds_column t c ok = (case named t (s_tables schema_at_head) of None \<Rightarrow> False
     | Some tb \<Rightarrow> list_ex (\<lambda>k. col_name k = c \<and> ok k) (t_columns tb))"

text \<open>What an entry says exists: its table, the column that links it, empty-able if it is to be
  anonymised, and the time its window counts from.\<close>

definition entry_sound :: "personal_data_table \<Rightarrow> bool" where
  "entry_sound e \<longleftrightarrow> named (pt_table e) (s_tables schema_at_head) \<noteq> None
     \<and> (case pt_link_column e of None \<Rightarrow> pt_link e = NO_SUBJECT
        | Some c \<Rightarrow> pt_link e \<noteq> NO_SUBJECT \<and> holds_column (pt_table e) c (\<lambda>k. pt_erasure e \<noteq> ANONYMISE \<or> col_nullable k))
     \<and> (pt_retention_days e = None
        \<or> holds_column (pt_table e) (pt_retention_column e) (\<lambda>k. col_type k = DateTimeT))"

lemma registry_covers: "unregistered_tables = []"
  by code_simp

text \<open>The columns an entry may name, of each table, and what the entries need of them: small enough
  to compare by evaluation.\<close>

definition mentioned :: "string list" where
  "mentioned = [''id'', ''user_id'', ''invited_by_user_id'', ''recipient_user_id'', ''requested_by_user_id'',
     ''decided_by_user_id'', ''created_by_user_id'', ''added_by_user_id'', ''actor_user_id'', ''expires_at'',
     ''created_at'', ''surfaced_at'', ''last_message_at'', ''started_at'', ''ingested_at'', ''processed_at'', ''published_at'']"

fun among :: "string \<Rightarrow> string list \<Rightarrow> bool" and among_or :: "bool \<Rightarrow> string \<Rightarrow> string list \<Rightarrow> bool" where
  "among n [] = False"
| "among n (m # ms) = among_or (n = m) n ms"
| "among_or True n ms = True"
| "among_or False n ms = among n ms"

fun outline_columns :: "column list \<Rightarrow> (string \<times> bool \<times> bool) list"
  and outline_or :: "bool \<Rightarrow> column \<Rightarrow> column list \<Rightarrow> (string \<times> bool \<times> bool) list" where
  "outline_columns [] = []"
| "outline_columns (c # cs) = outline_or (among (col_name c) mentioned) c cs"
| "outline_or True c cs = (col_name c, col_nullable c, col_type c = DateTimeT) # outline_columns cs"
| "outline_or False c cs = outline_columns cs"

fun outline :: "(string \<times> table) list \<Rightarrow> (string \<times> (string \<times> bool \<times> bool) list) list" where
  "outline [] = []"
| "outline ((n, t) # ts) = (n, outline_columns (t_columns t)) # outline ts"

definition need :: "personal_data_table \<Rightarrow> string \<times> string option \<times> bool \<times> string option" where
  "need e = (pt_table e, pt_link_column e, pt_erasure e = ANONYMISE,
     if pt_retention_days e = None then None else Some (pt_retention_column e))"

fun link_met :: "string option \<Rightarrow> bool \<Rightarrow> (string \<times> bool \<times> bool) list \<Rightarrow> bool" where
  "link_met None _ cols = True"
| "link_met (Some c) must cols = list_ex (\<lambda>(k, nullable, dated). k = c \<and> (must \<longrightarrow> nullable)) cols"

fun window_met :: "string option \<Rightarrow> (string \<times> bool \<times> bool) list \<Rightarrow> bool" where
  "window_met None cols = True"
| "window_met (Some c) cols = list_ex (\<lambda>(k, nullable, dated). k = c \<and> dated) cols"

fun met_when :: "bool \<Rightarrow> string option \<Rightarrow> bool \<Rightarrow> string option \<Rightarrow> (string \<times> bool \<times> bool) list \<Rightarrow> bool" where
  "met_when False lc must rc cols = True"
| "met_when True lc must rc cols = (link_met lc must cols \<and> window_met rc cols)"

fun met_by :: "string \<Rightarrow> (string \<times> bool \<times> bool) list \<Rightarrow> (string \<times> string option \<times> bool \<times> string option) list \<Rightarrow> bool" where
  "met_by n cols [] = True"
| "met_by n cols ((t, lc, must, rc) # ns) = (met_when (t = n) lc must rc cols \<and> met_by n cols ns)"

fun all_met :: "(string \<times> string option \<times> bool \<times> string option) list \<Rightarrow>
    (string \<times> (string \<times> bool \<times> bool) list) list \<Rightarrow> bool" where
  "all_met ns [] = True"
| "all_met ns ((n, cols) # ts) = (met_by n cols ns \<and> all_met ns ts)"

lemma met_by_iff: "met_by n cols ns \<longleftrightarrow>
    (\<forall>(t, lc, must, rc) \<in> set ns. t = n \<longrightarrow> link_met lc must cols \<and> window_met rc cols)"
proof (induction ns)
  case (Cons x ns)
  obtain t lc must rc where "x = (t, lc, must, rc)" by (cases x)
  then show ?case using Cons by (cases "t = n") auto
qed simp

lemma all_met_iff: "all_met ns ts \<longleftrightarrow> (\<forall>(n, cols) \<in> set ts. met_by n cols ns)"
  by (induction ts) auto

lemma outline_columns_in: "(k, nullable, dated) \<in> set (outline_columns cs) \<Longrightarrow>
    \<exists>c \<in> set cs. col_name c = k \<and> col_nullable c = nullable \<and> (col_type c = DateTimeT) = dated"
proof (induction cs)
  case (Cons c cs)
  then show ?case by (cases "among (col_name c) mentioned") auto
qed simp

lemma outline_in: "(n, t) \<in> set ts \<Longrightarrow> (n, outline_columns (t_columns t)) \<in> set (outline ts)"
  by (induction ts rule: outline.induct) auto

lemma registry_met: "all_met (map need inventory) (outline (s_tables schema_at_head))"
  by code_simp

lemma links_complete: "list_all (\<lambda>e. (pt_link_column e = None) = (pt_link e = NO_SUBJECT)) inventory"
  by code_simp

lemma registered_exist: "all_in (map pt_table inventory) (table_names schema_at_head)"
  by code_simp

lemma named_in: "named n ts = Some t \<Longrightarrow> (n, t) \<in> set ts" and named_iff: "named n ts = None \<longleftrightarrow> n \<notin> fst ` set ts"
proof -
  have step: "named n ((m, x) # es) = (if m = n then Some x else named n es)" for m x es
    by (cases "m = n") simp_all
  show "named n ts = Some t \<Longrightarrow> (n, t) \<in> set ts" "named n ts = None \<longleftrightarrow> n \<notin> fst ` set ts"
    by (induction ts) (auto simp: step simp del: named.simps(2) split: if_splits)
qed

lemma entries_sound: "list_all entry_sound inventory"
proof -
  have "entry_sound e" if e: "e \<in> set inventory" for e
  proof -
    have "pt_table e \<in> fst ` set (s_tables schema_at_head)"
      using registered_exist e by (auto simp: table_names_def)
    then obtain tb where tb: "named (pt_table e) (s_tables schema_at_head) = Some tb"
      using named_iff by fastforce
    let ?cols = "outline_columns (t_columns tb)"
    have "(pt_table e, ?cols) \<in> set (outline (s_tables schema_at_head))" by (rule outline_in [OF named_in [OF tb]])
    then have "met_by (pt_table e) ?cols (map need inventory)" using registry_met unfolding all_met_iff by blast
    then have met: "link_met (pt_link_column e) (pt_erasure e = ANONYMISE) ?cols"
      "window_met (if pt_retention_days e = None then None else Some (pt_retention_column e)) ?cols"
      using e unfolding met_by_iff by (force simp: need_def)+
    have "(pt_link_column e = None) = (pt_link e = NO_SUBJECT)" using links_complete e by (simp add: list_all_iff)
    moreover have "holds_column (pt_table e) c (\<lambda>k. pt_erasure e \<noteq> ANONYMISE \<or> col_nullable k)"
      if "pt_link_column e = Some c" for c
      using met(1) that tb outline_columns_in by (fastforce simp: holds_column_def list_ex_iff)
    moreover have "holds_column (pt_table e) (pt_retention_column e) (\<lambda>k. col_type k = DateTimeT)"
      if "pt_retention_days e \<noteq> None"
      using met(2) that tb outline_columns_in by (fastforce simp: holds_column_def list_ex_iff)
    then have "pt_retention_days e = None \<or> holds_column (pt_table e) (pt_retention_column e) (\<lambda>k. col_type k = DateTimeT)"
      by blast
    ultimately show ?thesis using tb by (auto simp: entry_sound_def split: option.split)
  qed
  then show ?thesis by (simp add: list_all_iff)
qed

text \<open>C38: The registry of personal data and the schema agree: every table of the models is registered
  once; every entry names a table and columns that exist in the migrated database, with a link
  that can be emptied where it is to be, and a time where it has a window; every foreign key to
  an account is a link the registry erases, and no table refuses changes but the retained trail.\<close>

theorem registry_complete:
  "unregistered_tables = [] \<and> distinct (map pt_table inventory) \<and> list_all entry_sound inventory
   \<and> list_all (\<lambda>(c, col, par, od). list_ex (\<lambda>e. pt_table e = c \<and> pt_link_column e = Some col
         \<and> pt_link e = USER_ID_INT \<and> pt_erasure e \<noteq> RETAIN) inventory)
       (filter (\<lambda>(c, col, par, od). par = ''users'') head_edges)
   \<and> map pt_table (filter (\<lambda>e. pt_erasure e = RETAIN \<and> pt_link e \<noteq> NO_SUBJECT) inventory) = append_only"
proof (intro conjI)
  show "list_all (\<lambda>(c, col, par, od). list_ex (\<lambda>e. pt_table e = c \<and> pt_link_column e = Some col
         \<and> pt_link e = USER_ID_INT \<and> pt_erasure e \<noteq> RETAIN) inventory)
       (filter (\<lambda>(c, col, par, od). par = ''users'') head_edges)"
    using users_edges by (fastforce simp: list_all_iff list_ex_iff)
  show "map pt_table (filter (\<lambda>e. pt_erasure e = RETAIN \<and> pt_link e \<noteq> NO_SUBJECT) inventory) = append_only"
    unfolding append_only_audit by code_simp
qed (fact registry_covers inventory_distinct entries_sound)+

section \<open>Deleting an organization\<close>

lemma cascade_mono: "gone t r \<Longrightarrow> cascade es db gone t r"
proof (induction es db gone rule: cascade.induct)
  case (2 child column parent es db gone)
  then show ?case by (cases "t = child") (simp_all add: fun_upd_def)
qed simp_all

text \<open>The trail references organizations with \<^verbatim>\<open>ON DELETE SET NULL\<close> and refuses the update.\<close>

lemma organization_deletion_refused:
  assumes "q \<in> set (db ''organizations'')" "p q" "r \<in> set (db ''audit_log'')"
    and "r ''organization_id'' = q ''id''" "q ''id'' \<noteq> NullC"
  shows "sql_delete head_edges append_only ''organizations'' p db = None"
proof -
  let ?gone = "cascade head_edges db ((\<lambda>_ _. False)(''organizations'' := p))"
  have "?gone ''organizations'' q" using assms(2) by (simp add: cascade_mono)
  then have "refers db ?gone ''organizations'' (r ''organization_id'')"
    using assms by (auto simp: refers_def list_ex_iff)
  then have "loses_reference db ?gone ''audit_log'' r (''audit_log'', ''organization_id'', ''organizations'', SetNull)"
    by simp
  moreover have "(''audit_log'', ''organization_id'', ''organizations'', SetNull) \<in> set head_edges"
    by (simp add: head_edges_list)
  ultimately have "touched head_edges db ?gone ''audit_log'' r" unfolding touched_def list_ex_iff by blast
  then show ?thesis using assms(3) by (auto simp: sql_delete_def Let_def append_only_audit list_ex_iff)
qed

end
