(* ===== verification/Spec2Isabelle.thy ===== *)
theory Spec2Isabelle
  imports RetrievalProperties CircuitBreaker AlertProperties AuthApiProperties AgentProperties
    FeedProperties PreferenceApi EnrichmentExample EnrichmentWorkerFacts RiskFacts
    DataMigrations PrivacyFacts
begin

text \<open>
  A verification development for ProcureSignal, the procurement news service under
  \<^verbatim>\<open>src/\<close>: \<^verbatim>\<open>shared/procuresignal\<close> holds its logic, \<^verbatim>\<open>api\<close> the HTTP handlers and
  \<^verbatim>\<open>worker\<close> the scheduled jobs. Paths below are relative to \<^verbatim>\<open>src/shared/procuresignal\<close>
  unless they begin with \<^verbatim>\<open>api\<close> or \<^verbatim>\<open>worker\<close>.

  \<^bold>\<open>The program.\<close> A retrieval run claims every configured source under a lease, fetches it through a
  guarded HTTP client behind a per-source circuit breaker, drops duplicates and stores what is new.
  Stored articles are enriched, searched, and screened for the suppliers of the registry; risk
  events of suppliers are scored, matched against the alert rules and watchlists of organizations,
  queued in an outbox and delivered alone or as a digest. Users belong to organizations and sign in
  with rotating refresh tokens. An administrator can ask for an analysis of a supplier: a language
  model calls read-only tools in a bounded loop under a daily token budget, and what it
  recommends is kept only with citations the tools returned.

  \<^bold>\<open>Conventions.\<close> A database table is the list of its rows, a row a record; \<open>SqlTable\<close> has the statements
  on it, with SQL's comparison of NULL. A datetime is an integer number of microseconds, text is a
  list of ASCII characters, a Python float is a rational or real number. An exception is \<open>None\<close>
  or the left side of a sum. Where an operation reads a snapshot and writes later, the snapshot is
  an argument of its own, so that other workers can act in between. Code that is
  not in the repository is a parameter: hashing and signing, DNS and sockets, the language model,
  the full-text and vector queries of PostgreSQL, the text of floats, Unicode beyond ASCII.

  \<^bold>\<open>Foundations.\<close> \<open>Prelude\<close> (lists, options, sorting), \<open>SqlTable\<close>, \<open>PyText\<close> (the string methods the code
  uses), \<open>PyTime\<close> (ISO timestamps), \<open>Url\<close> (\<^verbatim>\<open>urllib.parse\<close>), \<open>JsonText\<close> (values,
  \<^verbatim>\<open>json.loads\<close> and \<^verbatim>\<open>json.dumps\<close>; the parser has fuel twice the length of the text and
  two more, shown sufficient for every text in \<open>JsonFacts\<close>, with the round trip).

  \<^bold>\<open>Retrieval.\<close> \<open>RetrievalTypes\<close> and \<open>RetrievalRegistry\<close>: \<^verbatim>\<open>retrieval/base.py\<close>, \<^verbatim>\<open>registry.py\<close>.
  \<open>RetrievalAudit\<close>: \<^verbatim>\<open>retrieval/audit.py\<close> and \<^verbatim>\<open>models/retrieval.py\<close>, the tables of runs, source
  outcomes and circuits with claims, renewals, takeovers and completions; \<open>RetrievalInterfaces\<close> and
  \<open>RetrievalLeases\<close> state what a lease promises as a locale and interpret it on these operations;
  \<open>RetrievalInterfaces\<close> and \<open>CircuitBreaker\<close> refine the three circuit operations to an abstract
  breaker. \<open>RetrievalFetching\<close>: \<^verbatim>\<open>security.py\<close>, \<^verbatim>\<open>fetching.py\<close>; redirects and retries are
  recursion on what is left of their configured bounds. \<open>Deduplication\<close>, \<open>ArticleStore\<close>: the identity
  of articles and their insertion. \<open>Orchestrator\<close> and \<open>OrchestratorFacts\<close>: \<^verbatim>\<open>orchestrator.py\<close>, one
  worker's run over its sources with the books it keeps. \<open>RetrievalProperties\<close> collects the results.

  \<^bold>\<open>Suppliers.\<close> \<open>SupplierRegistry\<close>, \<open>SupplierFacts\<close>: \<^verbatim>\<open>suppliers/normalization.py\<close>,
  \<^verbatim>\<open>registry.py\<close>, \<^verbatim>\<open>resolver.py\<close>. \<open>Screening\<close>: \<^verbatim>\<open>mentions.py\<close>, \<^verbatim>\<open>screening.py\<close>. \<open>Watchlists\<close>,
  \<open>Articles\<close>, \<open>ImpactScoring\<close>: \<^verbatim>\<open>watchlists/service.py\<close>, \<^verbatim>\<open>models/risk_events.py\<close>,
  \<^verbatim>\<open>scoring/impact.py\<close>. \<open>SupplierProperties\<close>: consistency of the registry, resolution after
  registration, merging, screening, isolation, monotone scores.

  \<^bold>\<open>Alerts.\<close> \<open>AlertRules\<close>, \<open>Outbox\<close>, \<open>Digest\<close>: \<^verbatim>\<open>notifications/rules.py\<close>, \<^verbatim>\<open>outbox.py\<close>,
  \<^verbatim>\<open>transports/in_app.py\<close>, \<^verbatim>\<open>digest.py\<close>. \<open>AlertProperties\<close>: tenancy, idempotent queueing, what a drain
  does to every notification, and that it ends within five attempts.

  \<^bold>\<open>Identity.\<close> \<open>AuditTrail\<close>: \<^verbatim>\<open>auth/audit.py\<close>. \<open>AuthService\<close>, \<open>AuthFacts\<close>: \<^verbatim>\<open>models/auth.py\<close>,
  \<^verbatim>\<open>auth/service.py\<close>, \<^verbatim>\<open>tokens.py\<close>, \<^verbatim>\<open>passwords.py\<close>, \<^verbatim>\<open>api/dependencies.py\<close>. \<open>AuthProperties\<close>:
  session histories as an inductive relation, with their invariants. \<open>RateLimit\<close>, \<open>AuthApi\<close>,
  \<open>AuthApiProperties\<close>: \<^verbatim>\<open>api/rate_limit.py\<close> and \<^verbatim>\<open>api/routers/auth.py\<close>.

  \<^bold>\<open>Search.\<close> \<open>Articles\<close>: \<^verbatim>\<open>models/articles.py\<close>. \<open>Search\<close>: \<^verbatim>\<open>search/lexical.py\<close> and
  \<^verbatim>\<open>hybrid.py\<close>; fusion equals the sum of reciprocal ranks.

  \<^bold>\<open>Agent.\<close> \<open>Budget\<close>: \<^verbatim>\<open>enrichment/budget.py\<close>. \<open>AgentLoop\<close>: \<^verbatim>\<open>agents/client.py\<close>,
  \<^verbatim>\<open>loop.py\<close>; a loop of at most eight steps by recursion on the steps left, and one rule
  (\<open>run_loop_rule\<close>) for its invariants. \<open>AgentAnalysis\<close>, \<open>AgentTools\<close>: \<^verbatim>\<open>agents/analysis.py\<close>,
  \<^verbatim>\<open>tools.py\<close>. \<open>AgentApi\<close>: \<^verbatim>\<open>api/routers/agents.py\<close>. \<open>AgentProperties\<close>: bounded
  loops and spending, grounded citations, confined tools, final decisions, honest search results.

  \<^bold>\<open>Signals and risks.\<close> \<open>TextMatch\<close> and \<open>PyRegex\<close>: whole-word matching and a small backtracking matcher
  for the regular expressions of the code. \<open>Taxonomy\<close>: \<^verbatim>\<open>signals/taxonomy.py\<close>; the expansion of terms is a
  worklist that ends because the vocabulary is finite, and computes exactly what aliases reach.
  \<open>Categories\<close>, \<open>CategoryFacts\<close>: \<^verbatim>\<open>personalization/categories.py\<close>. \<open>Classifier\<close>: \<^verbatim>\<open>signals/classifier.py\<close>,
  \<^verbatim>\<open>risk_scorer.py\<close>, \<^verbatim>\<open>worker/signal_tasks.py\<close>. \<open>Entities\<close>: \<^verbatim>\<open>enrichment/entities.py\<close>. \<open>RiskDetector\<close>,
  \<open>RiskPersistence\<close>, \<open>RiskFacts\<close>: \<^verbatim>\<open>risk_events\<close>, the rules, the stored events and a scan over new articles.

  \<^bold>\<open>Enrichment.\<close> \<open>EnrichmentPolicy\<close>, \<open>EnrichmentOutput\<close>, \<open>Deterministic\<close>, \<open>EnrichmentCache\<close>: \<^verbatim>\<open>enrichment/policy.py\<close>,
  \<^verbatim>\<open>router.py\<close>, \<^verbatim>\<open>output_parser.py\<close>, \<^verbatim>\<open>prompts.py\<close>, \<^verbatim>\<open>deterministic.py\<close>, \<^verbatim>\<open>fingerprint.py\<close>, \<^verbatim>\<open>cache.py\<close>.
  \<open>EnrichmentPipeline\<close>: \<^verbatim>\<open>pipeline.py\<close>, one article after the other through cache, rules and model.
  \<open>EnrichmentFacts\<close> distinguishes the ends an article may have; \<open>EnrichmentProperties\<close> draws the accounts, the
  tables and the price of known content from it, \<open>EnrichmentExample\<close> runs a batch. \<open>Normalization\<close>:
  \<^verbatim>\<open>normalization\<close>. \<open>EnrichmentWorker\<close>: the leases and tasks of \<^verbatim>\<open>worker/tasks.py\<close>; the loop that gathers a batch
  ends because every round scans an article it had not scanned. \<open>EnrichmentWorkerFacts\<close>: leases are exclusive,
  given back, and \<open>article_fate\<close> lists all that a task may do to the row of an article, so that none is lost.

  \<^bold>\<open>Personalization.\<close> \<open>Preferences\<close>, \<open>PreferenceApi\<close>: \<^verbatim>\<open>models/preferences.py\<close>, \<^verbatim>\<open>preference_manager.py\<close>,
  \<^verbatim>\<open>api/routers/preferences.py\<close>. \<open>Matcher\<close>, \<open>Feed\<close>: \<^verbatim>\<open>personalization/matcher.py\<close>, \<^verbatim>\<open>pipeline.py\<close>,
  \<^verbatim>\<open>api/routers/feed.py\<close>. \<open>FeedFacts\<close>, \<open>FeedProperties\<close>: feed histories as an inductive relation, and
  what a generation selects.

  \<^bold>\<open>Schema and migrations.\<close> \<open>Schema\<close>: the tables of \<^verbatim>\<open>models\<close> as data. \<open>Migrations\<close>: every revision under
  \<^verbatim>\<open>migrations/versions\<close> as a list of operations on a schema, run by \<open>run_ops\<close>, which fails where the
  database would. \<open>SchemaSnapshots\<close>: the schema at three points of the chain, so that what is proved of the head
  does not run the chain again. \<open>MigrationFacts\<close>: closed schemas, downgrades, and the chain against the models.
  \<open>DataMigrations\<close>: the two revisions that move rows, on the rows themselves; a value that is
  too long for its column aborts the identity backfill, as PostgreSQL does.

  \<^bold>\<open>Privacy and retention.\<close> \<open>Privacy\<close>: \<^verbatim>\<open>privacy/inventory.py\<close>, \<^verbatim>\<open>privacy/subject.py\<close>, \<^verbatim>\<open>jobs/retention.py\<close>, on a
  database whose \<^verbatim>\<open>DELETE\<close> follows the foreign keys and triggers of the migrated schema. \<open>PrivacyFacts\<close>: how far a
  deletion reaches, what an erasure leaves, what pruning takes.

  \<^bold>\<open>Not modelled.\<close> The parsers of third-party feeds, the metrics and log lines, the Redis window of the
  rate limiter, handlers that only render what a modelled service returns, dead letters and recovery, currency
  conversion, embeddings, the evaluation harness, Celery wiring, operator scripts and the web frontend.
\<close>

end
